(* ===== verification/Prelude.thy ===== *)
theory Prelude
  imports Main "HOL-Library.State_Monad" "HOL-Library.List_Lexorder" "HOL-Library.Char_ord"
begin

text \<open>
  The vocabulary every component of the development shares.

  \<^item> Go values: errors (\<open>go_error\<close>, with the classification the code queries through
    \<open>apierrors.IsNotFound\<close>, \<open>apierrors.IsConflict\<close>, \<open>nifi.IsNotFound\<close> and
    \<open>keda.IsCRDNotInstalled\<close>), \<open>(value, error)\<close> results as a sum, \<open>ctrl.Result\<close>,
    durations and instants in nanoseconds, 32-bit conversions, and the parts of \<open>fmt\<close> and
    \<open>strings\<close> the sources call.
  \<^item> Effects: a reconcile is a state transformer over the in-memory object it works on and
    the log of the external calls (NiFi REST API, Kubernetes API) it has made. What an external
    call answers is a function of that log, a field of an environment that is an argument of
    every handler: a theorem for every environment therefore holds for every behaviour of NiFi,
    of the API server and of the clock.
  \<^item> A weakest-precondition calculus for these transformers, driven by the simplifier
    through the collection \<open>wp_simps\<close>.
\<close>

section \<open>Go values\<close>

datatype err_kind = NotFound | Conflict | NoCRD | OtherErr

datatype go_error = GoErr (err_kind: err_kind) (err_text: string)

type_synonym 'a go_result = "go_error + 'a"

definition errorf :: "string \<Rightarrow> go_error" where
  "errorf msg = GoErr OtherErr msg"

text \<open>\<open>fmt.Errorf("prefix: %w", err)\<close> keeps the classification of the wrapped error.\<close>

definition wrapf :: "string \<Rightarrow> go_error \<Rightarrow> go_error" where
  "wrapf prefix e = GoErr (err_kind e) (prefix @ err_text e)"

text \<open>The same call with a nil error prints the verb's diagnostic.\<close>

definition wrapf_opt :: "string \<Rightarrow> go_error option \<Rightarrow> go_error" where
  "wrapf_opt prefix e = (case e of Some e' \<Rightarrow> wrapf prefix e' | None \<Rightarrow> errorf (prefix @ ''%!w(<nil>)''))"

abbreviation IsNotFound :: "go_error \<Rightarrow> bool" where
  "IsNotFound e \<equiv> err_kind e = NotFound"

abbreviation IsConflict :: "go_error \<Rightarrow> bool" where
  "IsConflict e \<equiv> err_kind e = Conflict"

abbreviation IsCRDNotInstalled :: "go_error \<Rightarrow> bool" where
  "IsCRDNotInstalled e \<equiv> err_kind e = NoCRD"

lemma err_wrap_simps [simp]:
  "err_kind (errorf m) = OtherErr" "err_text (errorf m) = m"
  "err_kind (wrapf p e) = err_kind e" "err_text (wrapf p e) = p @ err_text e"
  by (simp_all add: errorf_def wrapf_def)

type_synonym duration = int
type_synonym go_time = int

definition second :: duration where
  "second = 1000000000"

record ctrl_result =
  Requeue :: bool
  RequeueAfter :: duration

definition no_result :: ctrl_result where
  "no_result = \<lparr>Requeue = False, RequeueAfter = 0\<rparr>"

definition requeue_after :: "int \<Rightarrow> ctrl_result" where
  "requeue_after secs = \<lparr>Requeue = False, RequeueAfter = secs * second\<rparr>"

type_synonym outcome = "ctrl_result \<times> go_error option"

text \<open>Conversion to Go's \<open>int32\<close>: two's complement truncation.\<close>

definition int32 :: "int \<Rightarrow> int" where
  "int32 n = (n + 2147483648) mod 4294967296 - 2147483648"

definition is_int32 :: "int \<Rightarrow> bool" where
  "is_int32 n \<longleftrightarrow> - 2147483648 \<le> n \<and> n < 2147483648"

lemma int32_id [simp]: "is_int32 n \<Longrightarrow> int32 n = n"
  by (simp add: int32_def is_int32_def)

lemma int32_range: "is_int32 (int32 n)"
  using pos_mod_sign [of 4294967296 "n + 2147483648"] pos_mod_bound [of 4294967296 "n + 2147483648"]
  unfolding is_int32_def int32_def by linarith

text \<open>A Go \<open>time.Duration\<close> built from an \<open>int32\<close> number of seconds never overflows 64 bits,
  so durations are plain integers.\<close>

lemma duration_int32_fits: "is_int32 n \<Longrightarrow> \<bar>n * second\<bar> < 2 ^ 63"
  by (simp add: is_int32_def second_def abs_if)

section \<open>The parts of fmt and strings the sources use\<close>

fun show_nat :: "nat \<Rightarrow> string" where
  "show_nat n = (if n < 10 then [char_of (48 + n)] else show_nat (n div 10) @ [char_of (48 + n mod 10)])"

declare show_nat.simps [simp del]

definition show_int :: "int \<Rightarrow> string" where
  "show_int i = (if i < 0 then ''-'' @ show_nat (nat (- i)) else show_nat (nat i))"

lemma show_nat_digits: "c \<in> set (show_nat n) \<Longrightarrow> of_char c \<in> {48 :: nat ..< 58}"
proof (induction n rule: show_nat.induct)
  case (1 n)
  show ?case
  proof (cases "n < 10")
    case True
    with "1.prems" show ?thesis by (subst (asm) show_nat.simps) (auto simp: take_bit_nat_def)
  next
    case False
    with "1.prems" have "c \<in> set (show_nat (n div 10)) \<or> c = char_of (48 + n mod 10)"
      by (subst (asm) show_nat.simps) auto
    with "1.IH" [OF False] show ?thesis
      by (auto simp: take_bit_nat_def)
  qed
qed

lemma show_nat_not_Nil [simp]: "show_nat n \<noteq> []"
  by (subst show_nat.simps) simp

definition show_duration :: "duration \<Rightarrow> string" where
  \<comment> \<open>\<open>time.Duration.String\<close> on a whole number of seconds\<close>
  "show_duration d =
     (let secs = nat (\<bar>d\<bar> div second); h = secs div 3600; m = secs div 60 mod 60; s = secs mod 60
      in (if d < 0 then ''-'' else '''') @
         (if h > 0 then show_nat h @ ''h'' @ show_nat m @ ''m'' @ show_nat s @ ''s''
          else if m > 0 then show_nat m @ ''m'' @ show_nat s @ ''s''
          else show_nat s @ ''s''))"

definition hex_digit :: "nat \<Rightarrow> char" where
  "hex_digit n = char_of (if n < 10 then 48 + n else 87 + n)"

definition quote_char :: "char \<Rightarrow> string" where
  "quote_char c =
     (let n = of_char c :: nat in
      if n = 34 then [CHR 0x5C, CHR 0x22] else if n = 92 then [CHR 0x5C, CHR 0x5C]
      else if n = 7 then [CHR 0x5C, CHR ''a''] else if n = 8 then [CHR 0x5C, CHR ''b'']
      else if n = 12 then [CHR 0x5C, CHR ''f''] else if n = 10 then [CHR 0x5C, CHR ''n'']
      else if n = 13 then [CHR 0x5C, CHR ''r''] else if n = 9 then [CHR 0x5C, CHR ''t'']
      else if n = 11 then [CHR 0x5C, CHR ''v'']
      else if n < 32 \<or> n = 127 then [CHR 0x5C, CHR ''x'', hex_digit (n div 16), hex_digit (n mod 16)]
      else [c])"

definition quoteq :: "string \<Rightarrow> string" where
  \<comment> \<open>the verb \<open>%q\<close>; bytes of multi-byte characters are printed unchanged\<close>
  "quoteq s = [CHR 0x22] @ concat (map quote_char s) @ [CHR 0x22]"

definition HasPrefix :: "string \<Rightarrow> string \<Rightarrow> bool" where
  "HasPrefix s p \<longleftrightarrow> take (length p) s = p"

definition HasSuffix :: "string \<Rightarrow> string \<Rightarrow> bool" where
  "HasSuffix s p \<longleftrightarrow> length p \<le> length s \<and> drop (length s - length p) s = p"

definition TrimPrefix :: "string \<Rightarrow> string \<Rightarrow> string" where
  "TrimPrefix s p = (if HasPrefix s p then drop (length p) s else s)"

definition trim_left_by :: "(char \<Rightarrow> bool) \<Rightarrow> string \<Rightarrow> string" where
  "trim_left_by P s = dropWhile P s"

definition trim_right_by :: "(char \<Rightarrow> bool) \<Rightarrow> string \<Rightarrow> string" where
  "trim_right_by P s = rev (dropWhile P (rev s))"

definition is_space :: "char \<Rightarrow> bool" where
  "is_space c \<longleftrightarrow> of_char c \<in> {9, 10, 11, 12, 13, 32 :: nat}"

definition TrimSpace :: "string \<Rightarrow> string" where
  "TrimSpace s = trim_right_by is_space (trim_left_by is_space s)"

definition Trim :: "string \<Rightarrow> string \<Rightarrow> string" where
  "Trim s cs = trim_right_by (\<lambda>c. c \<in> set cs) (trim_left_by (\<lambda>c. c \<in> set cs) s)"

definition TrimRight :: "string \<Rightarrow> string \<Rightarrow> string" where
  "TrimRight s cs = trim_right_by (\<lambda>c. c \<in> set cs) s"

definition lower_char :: "char \<Rightarrow> char" where
  "lower_char c = (let n = of_char c :: nat in if 65 \<le> n \<and> n \<le> 90 then char_of (n + 32) else c)"

definition ToLower :: "string \<Rightarrow> string" where
  "ToLower s = map lower_char s"

definition ReplaceChar :: "char \<Rightarrow> char \<Rightarrow> string \<Rightarrow> string" where
  "ReplaceChar a b s = map (\<lambda>c. if c = a then b else c) s"

lemma length_trim_right_by [simp]: "length (trim_right_by P s) \<le> length s"
  by (simp add: trim_right_by_def length_dropWhile_le [of P "rev s", simplified])

lemma length_TrimRight [simp]: "length (TrimRight s cs) \<le> length s"
  by (simp add: TrimRight_def)

lemma length_TrimPrefix [simp]: "length (TrimPrefix s p) \<le> length s"
  by (simp add: TrimPrefix_def)

lemma length_ToLower [simp]: "length (ToLower s) = length s"
  by (simp add: ToLower_def)

lemma length_ReplaceChar [simp]: "length (ReplaceChar a b s) = length s"
  by (simp add: ReplaceChar_def)

definition or_default :: "string \<Rightarrow> string \<Rightarrow> string" where
  "or_default v d = (if v = '''' then d else v)"

section \<open>Reconciles as state transformers with a call log\<close>

record ('c, 'o) rstate =
  calls :: "'c list"
  obj :: 'o

type_synonym ('c, 'o, 'a) handler = "(('c, 'o) rstate, 'a) state"

definition ext_call :: "'c \<Rightarrow> ('c list \<Rightarrow> 'r) \<Rightarrow> ('c, 'o, 'r) handler" where
  "ext_call c resp = State (\<lambda>s. (resp (calls s), s\<lparr>calls := calls s @ [c]\<rparr>))"

definition get_obj :: "('c, 'o, 'o) handler" where
  "get_obj = State (\<lambda>s. (obj s, s))"

definition upd_obj :: "('o \<Rightarrow> 'o) \<Rightarrow> ('c, 'o, unit) handler" where
  "upd_obj f = State (\<lambda>s. ((), s\<lparr>obj := f (obj s)\<rparr>))"

definition read_clock :: "('c list \<Rightarrow> go_time) \<Rightarrow> ('c, 'o, go_time) handler" where
  "read_clock clk = State (\<lambda>s. (clk (calls s), s))"

abbreviation ret :: "'a \<Rightarrow> ('c, 'o, 'a) handler" where
  "ret \<equiv> State_Monad.return"

section \<open>Weakest preconditions\<close>

named_theorems wp_simps "symbolic execution of handlers"

definition wp :: "('s, 'a) state \<Rightarrow> ('a \<Rightarrow> 's \<Rightarrow> bool) \<Rightarrow> 's \<Rightarrow> bool" where
  "wp m Q s = (case run_state m s of (a, s') \<Rightarrow> Q a s')"

lemma wp_return [wp_simps]: "wp (State_Monad.return a) Q s = Q a s"
  by (simp add: wp_def)

lemma wp_bind [wp_simps]: "wp (State_Monad.bind m f) Q s = wp m (\<lambda>a. wp (f a) Q) s"
  by (simp add: wp_def split: prod.split)

lemma wp_if [wp_simps]: "wp (if b then m else n) Q s = (if b then wp m Q s else wp n Q s)"
  by simp

lemma wp_Let [wp_simps]: "wp (let x = t in f x) Q s = (let x = t in wp (f x) Q s)"
  by (simp add: Let_def)

lemma wp_case_option [wp_simps]:
  "wp (case x of None \<Rightarrow> m | Some y \<Rightarrow> f y) Q s = (case x of None \<Rightarrow> wp m Q s | Some y \<Rightarrow> wp (f y) Q s)"
  by (simp split: option.split)

lemma wp_case_sum [wp_simps]:
  "wp (case x of Inl e \<Rightarrow> f e | Inr y \<Rightarrow> g y) Q s = (case x of Inl e \<Rightarrow> wp (f e) Q s | Inr y \<Rightarrow> wp (g y) Q s)"
  by (simp split: sum.split)

lemma wp_case_prod [wp_simps]:
  "wp (case x of (a, b) \<Rightarrow> f a b) Q s = (case x of (a, b) \<Rightarrow> wp (f a b) Q s)"
  by (simp split: prod.split)

lemma wp_case_list [wp_simps]:
  "wp (case xs of [] \<Rightarrow> m | y # ys \<Rightarrow> f y ys) Q s = (case xs of [] \<Rightarrow> wp m Q s | y # ys \<Rightarrow> wp (f y ys) Q s)"
  by (simp split: list.split)

lemma wp_ext_call [wp_simps]: "wp (ext_call c r) Q s = Q (r (calls s)) (s\<lparr>calls := calls s @ [c]\<rparr>)"
  by (simp add: wp_def ext_call_def)

lemma wp_get_obj [wp_simps]: "wp get_obj Q s = Q (obj s) s"
  by (simp add: wp_def get_obj_def)

lemma wp_upd_obj [wp_simps]: "wp (upd_obj f) Q s = Q () (s\<lparr>obj := f (obj s)\<rparr>)"
  by (simp add: wp_def upd_obj_def)

lemma wp_read_clock [wp_simps]: "wp (read_clock clk) Q s = Q (clk (calls s)) s"
  by (simp add: wp_def read_clock_def)

lemma wp_mono: "wp m Q s \<Longrightarrow> (\<And>a s'. Q a s' \<Longrightarrow> R a s') \<Longrightarrow> wp m R s"
  by (auto simp: wp_def split: prod.splits)

lemma wp_run: "wp m Q s \<Longrightarrow> run_state m s = (a, s') \<Longrightarrow> Q a s'"
  by (simp add: wp_def)

lemma wp_conj: "wp m P s \<Longrightarrow> wp m Q s \<Longrightarrow> wp m (\<lambda>a s'. P a s' \<and> Q a s') s"
  by (simp add: wp_def split: prod.splits)

section \<open>Path-by-path symbolic execution\<close>

named_theorems wp_intros "introduction rules that split a handler into its paths"

lemma wp_bindI [wp_intros]: "wp m (\<lambda>a. wp (f a) Q) s \<Longrightarrow> wp (State_Monad.bind m f) Q s"
  by (simp add: wp_simps)

lemma wp_returnI [wp_intros]: "Q a s \<Longrightarrow> wp (State_Monad.return a) Q s"
  by (simp add: wp_simps)

lemma wp_ifI [wp_intros]: "(b \<Longrightarrow> wp m Q s) \<Longrightarrow> (\<not> b \<Longrightarrow> wp n Q s) \<Longrightarrow> wp (if b then m else n) Q s"
  by simp

lemma wp_LetI [wp_intros]: "wp (f t) Q s \<Longrightarrow> wp (Let t f) Q s"
  by simp

lemma wp_case_optionI [wp_intros]:
  "(x = None \<Longrightarrow> wp m Q s) \<Longrightarrow> (\<And>y. x = Some y \<Longrightarrow> wp (f y) Q s) \<Longrightarrow> wp (case x of None \<Rightarrow> m | Some y \<Rightarrow> f y) Q s"
  by (simp split: option.split)

lemma wp_case_sumI [wp_intros]:
  "(\<And>e. x = Inl e \<Longrightarrow> wp (f e) Q s) \<Longrightarrow> (\<And>y. x = Inr y \<Longrightarrow> wp (g y) Q s) \<Longrightarrow> wp (case x of Inl e \<Rightarrow> f e | Inr y \<Rightarrow> g y) Q s"
  by (simp split: sum.split)

lemma wp_case_prodI [wp_intros]: "(\<And>a b. x = (a, b) \<Longrightarrow> wp (f a b) Q s) \<Longrightarrow> wp (case x of (a, b) \<Rightarrow> f a b) Q s"
  by (simp split: prod.split)

lemma wp_case_boolI [wp_intros]:
  "(x \<Longrightarrow> wp m Q s) \<Longrightarrow> (\<not> x \<Longrightarrow> wp n Q s) \<Longrightarrow> wp (case x of True \<Rightarrow> m | False \<Rightarrow> n) Q s"
  by (simp split: bool.split)

lemma wp_ext_callI [wp_intros]: "Q (r (calls s)) (s\<lparr>calls := calls s @ [c]\<rparr>) \<Longrightarrow> wp (ext_call c r) Q s"
  by (simp add: wp_simps)

lemma wp_get_objI [wp_intros]: "Q (obj s) s \<Longrightarrow> wp get_obj Q s"
  by (simp add: wp_simps)

lemma wp_upd_objI [wp_intros]: "Q () (s\<lparr>obj := f (obj s)\<rparr>) \<Longrightarrow> wp (upd_obj f) Q s"
  by (simp add: wp_simps)

lemma wp_read_clockI [wp_intros]: "Q (clk (calls s)) s \<Longrightarrow> wp (read_clock clk) Q s"
  by (simp add: wp_simps)

text \<open>
  A handler is \<^emph>\<open>extending\<close> when it only appends to the call log: every handler built from the
  primitives is, and \<open>new_calls\<close> then names what one run adds.
\<close>

definition new_calls :: "('c, 'o) rstate \<Rightarrow> ('c, 'o) rstate \<Rightarrow> 'c list" where
  "new_calls s s' = drop (length (calls s)) (calls s')"

lemma run_bind:
  "run_state (State_Monad.bind m f) s = (case run_state m s of (a, s') \<Rightarrow> run_state (f a) s')"
  by simp

lemma run_prims [simp]:
  "run_state (ext_call c r) s = (r (calls s), s\<lparr>calls := calls s @ [c]\<rparr>)"
  "run_state get_obj s = (obj s, s)"
  "run_state (upd_obj f) s = ((), s\<lparr>obj := f (obj s)\<rparr>)"
  "run_state (read_clock clk) s = (clk (calls s), s)"
  by (simp_all add: ext_call_def get_obj_def upd_obj_def read_clock_def)

section \<open>What a run asked and was told\<close>

definition extends :: "('c, 'o) rstate \<Rightarrow> ('c, 'o) rstate \<Rightarrow> bool" where
  "extends s s' \<longleftrightarrow> (\<exists>xs. calls s' = calls s @ xs)"

definition asked :: "'c \<Rightarrow> ('c list \<Rightarrow> 'r) \<Rightarrow> ('r \<Rightarrow> bool) \<Rightarrow> ('c, 'o) rstate \<Rightarrow> ('c, 'o) rstate \<Rightarrow> bool" where
  \<comment> \<open>between \<open>s\<close> and \<open>s'\<close> the call \<open>c\<close> was made and its answer satisfies \<open>P\<close>\<close>
  "asked c resp P s s' \<longleftrightarrow>
     (\<exists>k. length (calls s) \<le> k \<and> k < length (calls s') \<and> calls s' ! k = c \<and> P (resp (take k (calls s'))))"

lemma extends_refl [simp]: "extends s s"
  by (simp add: extends_def)

lemma extends_trans [trans]: "extends s s' \<Longrightarrow> extends s' s'' \<Longrightarrow> extends s s''"
  by (auto simp: extends_def)

lemma extends_iff: "calls s' = calls s @ xs \<Longrightarrow> extends s s'"
  by (auto simp: extends_def)

lemma extends_obj [simp]: "extends s (s'\<lparr>obj := d\<rparr>) = extends s s'" "extends (s\<lparr>obj := d\<rparr>) s' = extends s s'"
  by (simp_all add: extends_def)

lemma asked_mono: "asked c resp P s s' \<Longrightarrow> extends s0 s \<Longrightarrow> extends s' s1 \<Longrightarrow> asked c resp P s0 s1"
proof -
  assume a: "asked c resp P s s'" and e: "extends s0 s" "extends s' s1"
  from a obtain k where k: "length (calls s) \<le> k" "k < length (calls s')" "calls s' ! k = c" "P (resp (take k (calls s')))"
    by (auto simp: asked_def)
  from e obtain xs ys where "calls s = calls s0 @ xs" "calls s1 = calls s' @ ys" by (auto simp: extends_def)
  with k show ?thesis unfolding asked_def by (intro exI [of _ k]) (auto simp: nth_append)
qed

lemma asked_now: "P (resp (calls s)) \<Longrightarrow> calls s' = calls s @ [c] \<Longrightarrow> asked c resp P s s'"
  unfolding asked_def by (intro exI [of _ "length (calls s)"]) simp

lemma asked_step: "asked c resp P s0 s \<Longrightarrow> calls s' = calls s @ zs \<Longrightarrow> asked c resp P s0 s'"
  by (rule asked_mono [OF _ extends_refl extends_iff])

lemma asked_at: "calls s' = log @ c # zs \<Longrightarrow> length (calls s0) \<le> length log \<Longrightarrow> R (resp log) \<Longrightarrow> asked c resp R s0 s'"
  unfolding asked_def by (intro exI [of _ "length log"]) simp

section \<open>Which calls a run may make\<close>

definition within :: "('c \<Rightarrow> bool) \<Rightarrow> 'c list \<Rightarrow> 'c list \<Rightarrow> bool" where
  "within P log log' \<longleftrightarrow> (\<exists>zs. log' = log @ zs \<and> list_all P zs)"

abbreviation only :: "('c \<Rightarrow> bool) \<Rightarrow> ('c, 'o) rstate \<Rightarrow> ('c, 'o) rstate \<Rightarrow> bool" where
  \<comment> \<open>every call made between \<open>s\<close> and \<open>s'\<close> satisfies \<open>P\<close>\<close>
  "only P s s' \<equiv> within P (calls s) (calls s')"

lemma within_refl [simp]: "within P xs xs"
  by (simp add: within_def)

lemma within_append [simp]: "within P xs ys \<Longrightarrow> list_all P zs \<Longrightarrow> within P xs (ys @ zs)"
  by (auto simp: within_def)

lemma within_trans: "within P xs ys \<Longrightarrow> within P ys zs \<Longrightarrow> within P xs zs"
  by (auto simp: within_def)

lemma within_length: "within P xs ys \<Longrightarrow> length xs \<le> length ys"
  by (auto simp: within_def)

lemma only_set: "only P s s' \<longleftrightarrow> extends s s' \<and> (\<forall>c \<in> set (new_calls s s'). P c)"
  by (auto simp: within_def extends_def new_calls_def list_all_iff)

end
