(* ===== verification/Common_Status.thy ===== *)
theory Common_Status
  imports Prelude
begin

text \<open>
  The status block every custom resource embeds (\<open>api/v1alpha1/common_types.go\<close>): the list of
  conditions with its upsert \<open>metaSetStatusCondition\<close>, and the five operations
  \<open>MarkAccepted\<close>, \<open>MarkReady\<close>, \<open>MarkNotReady\<close>, \<open>MarkWaitingForDependencies\<close> and
  \<open>MarkDeleting\<close> through which the controllers report. Instants that the code reads from the
  wall clock are an argument. The interface of the condition list is the locale
  \<open>condition_store\<close>, the contract of a marking operation the locale \<open>status_mark\<close>; both are
  interpreted here on the definitions below.
\<close>

section \<open>Data\<close>

datatype ConditionStatus = ConditionTrue | ConditionFalse

record Condition =
  cd_Type :: string
  cd_Status :: ConditionStatus
  cd_ObservedGeneration :: int
  cd_LastTransitionTime :: go_time
  cd_Reason :: string
  cd_Message :: string

record RevisionStatus =
  rv_Version :: int
  rv_ClientID :: string

record DependencyStatus =
  dp_Ready :: bool
  dp_WaitingFor :: "string list"

record DriftStatus =
  dr_Status :: string
  dr_LastDetectedTime :: "go_time option"
  dr_Differences :: "string list"

record SyncStatus =
  sy_LastAttemptTime :: "go_time option"
  sy_LastSuccessfulTime :: "go_time option"
  sy_LastError :: string

record CommonStatus =
  cs_ObservedGeneration :: int
  cs_Ready :: bool
  cs_NiFiID :: string
  cs_Revision :: RevisionStatus
  cs_Conditions :: "Condition list"
  cs_Dependencies :: DependencyStatus
  cs_Drift :: DriftStatus
  cs_Sync :: SyncStatus

definition ConditionReady :: string where "ConditionReady = ''Ready''"
definition ConditionReconciling :: string where "ConditionReconciling = ''Reconciling''"
definition ConditionDependenciesReady :: string where "ConditionDependenciesReady = ''DependenciesReady''"
definition ConditionDriftDetected :: string where "ConditionDriftDetected = ''DriftDetected''"

lemmas condition_type_defs =
  ConditionReady_def ConditionReconciling_def ConditionDependenciesReady_def ConditionDriftDetected_def

record LocalObjectReference =
  lr_Name :: string
  lr_Namespace :: string

record ClusterReference =
  cr_Name :: string
  cr_Namespace :: string

record ProcessGroupReference =
  pr_Name :: string
  pr_Namespace :: string
  pr_Root :: bool

record DriftPolicy =
  dpol_Mode :: string
  dpol_IgnoreFields :: "string list"

record AdoptionPolicy =
  ap_Mode :: string
  ap_NiFiID :: string
  ap_RequireAnnotation :: bool
  ap_ReviewBeforeMutate :: bool

section \<open>Operations\<close>

fun metaSetStatusCondition :: "go_time \<Rightarrow> Condition \<Rightarrow> Condition list \<Rightarrow> Condition list" where
  "metaSetStatusCondition now new [] = [new\<lparr>cd_LastTransitionTime := now\<rparr>]"
| "metaSetStatusCondition now new (existing # rest) =
     (if cd_Type existing \<noteq> cd_Type new then existing # metaSetStatusCondition now new rest
      else new\<lparr>cd_LastTransitionTime :=
             (if cd_Status existing = cd_Status new then cd_LastTransitionTime existing else now)\<rparr> # rest)"

definition SetCondition ::
  "go_time \<Rightarrow> string \<Rightarrow> ConditionStatus \<Rightarrow> string \<Rightarrow> string \<Rightarrow> int \<Rightarrow> CommonStatus \<Rightarrow> CommonStatus" where
  "SetCondition now conditionType status reason message observedGeneration s =
     s\<lparr>cs_Conditions := metaSetStatusCondition now
        \<lparr>cd_Type = conditionType, cd_Status = status, cd_ObservedGeneration = observedGeneration,
         cd_LastTransitionTime = 0, cd_Reason = reason, cd_Message = message\<rparr> (cs_Conditions s)\<rparr>"

abbreviation set_deps :: "bool \<Rightarrow> string list \<Rightarrow> CommonStatus \<Rightarrow> CommonStatus" where
  "set_deps ready waitingFor s \<equiv> s\<lparr>cs_Dependencies := \<lparr>dp_Ready = ready, dp_WaitingFor = waitingFor\<rparr>\<rparr>"

abbreviation set_drift_status :: "string \<Rightarrow> CommonStatus \<Rightarrow> CommonStatus" where
  "set_drift_status d s \<equiv> s\<lparr>cs_Drift := (cs_Drift s)\<lparr>dr_Status := d\<rparr>\<rparr>"

abbreviation set_last_error :: "string \<Rightarrow> CommonStatus \<Rightarrow> CommonStatus" where
  "set_last_error e s \<equiv> s\<lparr>cs_Sync := (cs_Sync s)\<lparr>sy_LastError := e\<rparr>\<rparr>"

abbreviation set_revision_version :: "int \<Rightarrow> CommonStatus \<Rightarrow> CommonStatus" where
  "set_revision_version v s \<equiv> s\<lparr>cs_Revision := (cs_Revision s)\<lparr>rv_Version := v\<rparr>\<rparr>"

definition MarkAccepted :: "go_time \<Rightarrow> int \<Rightarrow> CommonStatus \<Rightarrow> CommonStatus" where
  "MarkAccepted now g s =
    (let s = s\<lparr>cs_ObservedGeneration := g, cs_Ready := False\<rparr>;
         s = set_deps True [] s;
         s = set_drift_status ''Unknown'' s;
         s = SetCondition now ConditionDependenciesReady ConditionTrue ''DependenciesReady''
               ''All declared dependencies are ready.'' g s;
         s = SetCondition now ConditionReady ConditionFalse ''ReconciliationPending''
               ''NiFi-side reconciliation has not been implemented yet.'' g s
     in SetCondition now ConditionReconciling ConditionTrue ''Accepted''
          ''The resource has been accepted by the NiFiControl controller.'' g s)"

definition MarkReady :: "go_time \<Rightarrow> int \<Rightarrow> string \<Rightarrow> string \<Rightarrow> CommonStatus \<Rightarrow> CommonStatus" where
  "MarkReady now g reason message s =
    (let s = s\<lparr>cs_ObservedGeneration := g, cs_Ready := True\<rparr>;
         s = set_deps True [] s;
         s = set_drift_status ''Unknown'' s;
         s = SetCondition now ConditionDependenciesReady ConditionTrue ''DependenciesReady''
               ''All declared dependencies are ready.'' g s;
         s = SetCondition now ConditionReady ConditionTrue reason message g s
     in SetCondition now ConditionReconciling ConditionFalse reason message g s)"

definition MarkNotReady :: "go_time \<Rightarrow> int \<Rightarrow> string \<Rightarrow> string \<Rightarrow> CommonStatus \<Rightarrow> CommonStatus" where
  "MarkNotReady now g reason message s =
    (let s = s\<lparr>cs_ObservedGeneration := g, cs_Ready := False\<rparr>;
         s = SetCondition now ConditionReady ConditionFalse reason message g s
     in SetCondition now ConditionReconciling ConditionTrue reason message g s)"

definition MarkWaitingForDependencies :: "go_time \<Rightarrow> int \<Rightarrow> string list \<Rightarrow> CommonStatus \<Rightarrow> CommonStatus" where
  "MarkWaitingForDependencies now g waitingFor s =
    (let s = s\<lparr>cs_ObservedGeneration := g, cs_Ready := False\<rparr>;
         s = set_deps False waitingFor s;
         s = SetCondition now ConditionDependenciesReady ConditionFalse ''DependenciesNotReady''
               ''One or more dependencies are not ready.'' g s;
         s = SetCondition now ConditionReady ConditionFalse ''DependenciesNotReady''
               ''The resource is waiting for dependencies.'' g s
     in SetCondition now ConditionReconciling ConditionTrue ''WaitingForDependencies''
          ''The controller is waiting for dependencies before reconciling NiFi state.'' g s)"

definition MarkDeleting :: "go_time \<Rightarrow> int \<Rightarrow> CommonStatus \<Rightarrow> CommonStatus" where
  "MarkDeleting now g s =
    (let s = s\<lparr>cs_ObservedGeneration := g, cs_Ready := False\<rparr>;
         s = SetCondition now ConditionReady ConditionFalse ''Deleting'' ''The resource is being deleted.'' g s
     in SetCondition now ConditionReconciling ConditionFalse ''Deleting''
          ''The controller is removing finalizers.'' g s)"

text \<open>The loop over \<open>instance.Status.Conditions\<close> that looks for the Ready condition.\<close>

definition find_condition :: "string \<Rightarrow> Condition list \<Rightarrow> Condition option" where
  "find_condition t cs = find (\<lambda>c. cd_Type c = t) cs"

fun waitingForChanged :: "string list \<Rightarrow> string list \<Rightarrow> bool" where
  "waitingForChanged [] [] = False"
| "waitingForChanged (c # cs) (d # ds) = (if c \<noteq> d then True else waitingForChanged cs ds)"
| "waitingForChanged _ _ = True"

definition localObjectRefNamespace :: "string \<Rightarrow> LocalObjectReference \<Rightarrow> string" where
  "localObjectRefNamespace defaultNamespace ref =
     (if lr_Namespace ref \<noteq> '''' then lr_Namespace ref else defaultNamespace)"

definition clusterRefNamespace :: "string \<Rightarrow> ClusterReference \<Rightarrow> string" where
  "clusterRefNamespace namespace ref = (if cr_Namespace ref \<noteq> '''' then cr_Namespace ref else namespace)"

definition processGroupRefNamespace :: "string \<Rightarrow> ProcessGroupReference \<Rightarrow> string" where
  "processGroupRefNamespace defaultNamespace ref =
     (if pr_Namespace ref \<noteq> '''' then pr_Namespace ref else defaultNamespace)"

section \<open>The condition list as a keyed store\<close>

locale condition_store =
  fixes put :: "'c \<Rightarrow> 's \<Rightarrow> 's"
    and look :: "string \<Rightarrow> 's \<Rightarrow> 'c option"
    and key :: "'c \<Rightarrow> string"
    and same :: "'c \<Rightarrow> 'c \<Rightarrow> bool"
    and wf :: "'s \<Rightarrow> bool"
  assumes look_put_same: "\<exists>c'. look (key c) (put c s) = Some c' \<and> same c c'"
    and look_put_other: "k \<noteq> key c \<Longrightarrow> look k (put c s) = look k s"
    and wf_put: "wf s \<Longrightarrow> wf (put c s)"
begin

lemma wf_puts: "wf s \<Longrightarrow> wf (fold put cs s)"
  by (induction cs arbitrary: s) (auto intro: wf_put)

lemma look_puts_other: "k \<notin> key ` set cs \<Longrightarrow> look k (fold put cs s) = look k s"
  by (induction cs arbitrary: s) (auto simp: look_put_other)

lemma look_puts_last:
  assumes "k \<notin> key ` set cs" and "key c = k"
  shows "\<exists>c'. look k (fold put (bs @ c # cs) s) = Some c' \<and> same c c'"
  using look_put_same [of c "fold put bs s"] look_puts_other [OF assms(1), of "put c (fold put bs s)"] assms(2)
  by auto

end

definition same_report :: "Condition \<Rightarrow> Condition \<Rightarrow> bool" where
  "same_report c c' \<longleftrightarrow> c'\<lparr>cd_LastTransitionTime := cd_LastTransitionTime c\<rparr> = c"

lemma find_condition_Nil [simp]: "find_condition t [] = None"
  by (simp add: find_condition_def)

lemma find_condition_Cons [simp]:
  "find_condition t (c # cs) = (if cd_Type c = t then Some c else find_condition t cs)"
  by (simp add: find_condition_def)

lemma set_condition_types:
  "cd_Type ` set (metaSetStatusCondition now c cs) = insert (cd_Type c) (cd_Type ` set cs)"
  by (induction cs) auto

definition transition_time :: "go_time \<Rightarrow> ConditionStatus \<Rightarrow> Condition option \<Rightarrow> go_time" where
  "transition_time now st prev =
     (case prev of Some e \<Rightarrow> (if cd_Status e = st then cd_LastTransitionTime e else now) | None \<Rightarrow> now)"

lemma find_set_same:
  "find_condition (cd_Type c) (metaSetStatusCondition now c cs) =
     Some (c\<lparr>cd_LastTransitionTime := transition_time now (cd_Status c) (find_condition (cd_Type c) cs)\<rparr>)"
  by (induction cs) (auto simp: transition_time_def)

lemma find_set_other:
  "t \<noteq> cd_Type c \<Longrightarrow> find_condition t (metaSetStatusCondition now c cs) = find_condition t cs"
  by (induction cs) auto

lemma set_condition_distinct:
  "distinct (map cd_Type cs) \<Longrightarrow> distinct (map cd_Type (metaSetStatusCondition now c cs))"
  by (induction cs) (auto simp: set_condition_types)

interpretation conds: condition_store "metaSetStatusCondition now" find_condition cd_Type same_report
  "\<lambda>cs. distinct (map cd_Type cs)" for now
  by unfold_locales (auto simp: find_set_same find_set_other same_report_def set_condition_distinct)

section \<open>The contract of a marking operation\<close>

text \<open>The Ready flag, the Ready condition and the observed generation say the same thing.\<close>

definition ready_agrees :: "CommonStatus \<Rightarrow> bool" where
  "ready_agrees s \<longleftrightarrow>
     (\<exists>c. find_condition ConditionReady (cs_Conditions s) = Some c \<and>
          (cs_Ready s \<longleftrightarrow> cd_Status c = ConditionTrue) \<and>
          cd_ObservedGeneration c = cs_ObservedGeneration s)"

definition conditions_ok :: "CommonStatus \<Rightarrow> bool" where
  "conditions_ok s \<longleftrightarrow> distinct (map cd_Type (cs_Conditions s))"

locale status_mark =
  fixes mark :: "go_time \<Rightarrow> int \<Rightarrow> CommonStatus \<Rightarrow> CommonStatus"
    and ready :: bool
  assumes mark_generation: "cs_ObservedGeneration (mark now g s) = g"
    and mark_ready: "cs_Ready (mark now g s) = ready"
    and mark_agrees: "ready_agrees (mark now g s)"
    and mark_conditions: "conditions_ok s \<Longrightarrow> conditions_ok (mark now g s)"
    and mark_frame: "cs_NiFiID (mark now g s) = cs_NiFiID s" "cs_Revision (mark now g s) = cs_Revision s"
      "cs_Sync (mark now g s) = cs_Sync s"
begin

lemma mark_idem_flags:
  "cs_Ready (mark now' g' (mark now g s)) = ready" "cs_ObservedGeneration (mark now' g' (mark now g s)) = g'"
  by (simp_all add: mark_ready mark_generation)

lemma mark_ready_condition:
  "\<exists>c. find_condition ConditionReady (cs_Conditions (mark now g s)) = Some c \<and>
       (cd_Status c = ConditionTrue \<longleftrightarrow> ready) \<and> cd_ObservedGeneration c = g"
  using mark_agrees [of now g s] by (auto simp: ready_agrees_def mark_ready mark_generation)

end

lemmas mark_defs = MarkAccepted_def MarkReady_def MarkNotReady_def MarkWaitingForDependencies_def MarkDeleting_def

lemma SetCondition_frame [simp]:
  "cs_ObservedGeneration (SetCondition now t st r m g s) = cs_ObservedGeneration s"
  "cs_Ready (SetCondition now t st r m g s) = cs_Ready s"
  "cs_NiFiID (SetCondition now t st r m g s) = cs_NiFiID s"
  "cs_Revision (SetCondition now t st r m g s) = cs_Revision s"
  "cs_Dependencies (SetCondition now t st r m g s) = cs_Dependencies s"
  "cs_Drift (SetCondition now t st r m g s) = cs_Drift s"
  "cs_Sync (SetCondition now t st r m g s) = cs_Sync s"
  by (simp_all add: SetCondition_def)

lemma SetCondition_find_same [simp]:
  "find_condition t (cs_Conditions (SetCondition now t st r m g s)) =
     Some \<lparr>cd_Type = t, cd_Status = st, cd_ObservedGeneration = g,
           cd_LastTransitionTime = transition_time now st (find_condition t (cs_Conditions s)),
           cd_Reason = r, cd_Message = m\<rparr>"
  using find_set_same [of "\<lparr>cd_Type = t, cd_Status = st, cd_ObservedGeneration = g,
         cd_LastTransitionTime = 0, cd_Reason = r, cd_Message = m\<rparr>" now "cs_Conditions s"]
  by (simp add: SetCondition_def)

lemma SetCondition_find_other [simp]:
  "t' \<noteq> t \<Longrightarrow> find_condition t' (cs_Conditions (SetCondition now t st r m g s)) = find_condition t' (cs_Conditions s)"
  by (simp add: SetCondition_def find_set_other)

lemma SetCondition_ok [simp]: "conditions_ok s \<Longrightarrow> conditions_ok (SetCondition now t st r m g s)"
  by (simp add: conditions_ok_def SetCondition_def set_condition_distinct)

lemma conditions_ok_update [simp]:
  "conditions_ok (s\<lparr>cs_ObservedGeneration := g\<rparr>) = conditions_ok s" "conditions_ok (s\<lparr>cs_Ready := b\<rparr>) = conditions_ok s"
  "conditions_ok (s\<lparr>cs_Dependencies := d\<rparr>) = conditions_ok s" "conditions_ok (s\<lparr>cs_Drift := dr\<rparr>) = conditions_ok s"
  "conditions_ok (s\<lparr>cs_Sync := sy\<rparr>) = conditions_ok s" "conditions_ok (s\<lparr>cs_NiFiID := i\<rparr>) = conditions_ok s"
  "conditions_ok (s\<lparr>cs_Revision := rv\<rparr>) = conditions_ok s"
  by (simp_all add: conditions_ok_def)

interpretation acc: status_mark MarkAccepted False
  by unfold_locales (simp_all add: mark_defs Let_def condition_type_defs ready_agrees_def)

interpretation rdy: status_mark "\<lambda>now g. MarkReady now g reason message" True for reason message
  by unfold_locales (simp_all add: mark_defs Let_def condition_type_defs ready_agrees_def)

interpretation nrdy: status_mark "\<lambda>now g. MarkNotReady now g reason message" False for reason message
  by unfold_locales (simp_all add: mark_defs Let_def condition_type_defs ready_agrees_def)

interpretation waiting: status_mark "\<lambda>now g. MarkWaitingForDependencies now g waitingFor" False for waitingFor
  by unfold_locales (simp_all add: mark_defs Let_def condition_type_defs ready_agrees_def)

interpretation deleting: status_mark MarkDeleting False
  by unfold_locales (simp_all add: mark_defs Let_def condition_type_defs ready_agrees_def)

section \<open>Histories of marks\<close>

datatype status_op =
    OpAccepted
  | OpReady string string
  | OpNotReady string string
  | OpWaiting "string list"
  | OpDeleting

fun apply_op :: "go_time \<Rightarrow> int \<Rightarrow> status_op \<Rightarrow> CommonStatus \<Rightarrow> CommonStatus" where
  "apply_op now g OpAccepted = MarkAccepted now g"
| "apply_op now g (OpReady reason message) = MarkReady now g reason message"
| "apply_op now g (OpNotReady reason message) = MarkNotReady now g reason message"
| "apply_op now g (OpWaiting waitingFor) = MarkWaitingForDependencies now g waitingFor"
| "apply_op now g OpDeleting = MarkDeleting now g"

fun op_ready :: "status_op \<Rightarrow> bool" where
  "op_ready (OpReady reason message) = True"
| "op_ready _ = False"

definition run_ops :: "(go_time \<times> int \<times> status_op) list \<Rightarrow> CommonStatus \<Rightarrow> CommonStatus" where
  "run_ops ops s = fold (\<lambda>(now, g, m). apply_op now g m) ops s"

lemma apply_op_mark:
  "cs_ObservedGeneration (apply_op now g m s) = g \<and> cs_Ready (apply_op now g m s) = op_ready m \<and>
   ready_agrees (apply_op now g m s) \<and> (conditions_ok s \<longrightarrow> conditions_ok (apply_op now g m s))"
  by (cases m) (simp_all add: acc.mark_generation rdy.mark_generation nrdy.mark_generation waiting.mark_generation deleting.mark_generation
    acc.mark_ready rdy.mark_ready nrdy.mark_ready waiting.mark_ready deleting.mark_ready
    acc.mark_agrees rdy.mark_agrees nrdy.mark_agrees waiting.mark_agrees deleting.mark_agrees
    acc.mark_conditions rdy.mark_conditions nrdy.mark_conditions waiting.mark_conditions deleting.mark_conditions)

lemma run_ops_ok: "conditions_ok s \<Longrightarrow> conditions_ok (run_ops ops s)"
  unfolding run_ops_def
  by (induction ops arbitrary: s) (auto simp: apply_op_mark split: prod.split)

lemma run_ops_snoc: "run_ops (ops @ [(now, g, m)]) s = apply_op now g m (run_ops ops s)"
  by (simp add: run_ops_def)

text \<open>
  C29. After any history of marks the status is coherent: each condition type occurs once, the Ready
  flag and the Ready condition agree and carry the same generation, and they report the last mark:
  Ready exactly when it was \<open>MarkReady\<close>, for the generation it was given.
\<close>

theorem marks_keep_status_coherent:
  assumes "conditions_ok s" "s' = run_ops (ops @ [(now, g, m)]) s"
  shows "conditions_ok s' \<and> ready_agrees s' \<and> cs_ObservedGeneration s' = g \<and> (cs_Ready s' \<longleftrightarrow> op_ready m)"
  using apply_op_mark [of now g m "run_ops ops s"] run_ops_ok [OF assms(1), of ops] assms(2) by (simp add: run_ops_snoc)

definition blank_status :: CommonStatus where
  "blank_status = \<lparr>cs_ObservedGeneration = 0, cs_Ready = False, cs_NiFiID = '''', cs_Revision = \<lparr>rv_Version = 0, rv_ClientID = ''''\<rparr>,
     cs_Conditions = [], cs_Dependencies = \<lparr>dp_Ready = False, dp_WaitingFor = []\<rparr>,
     cs_Drift = \<lparr>dr_Status = '''', dr_LastDetectedTime = None, dr_Differences = []\<rparr>,
     cs_Sync = \<lparr>sy_LastAttemptTime = None, sy_LastSuccessfulTime = None, sy_LastError = ''''\<rparr>\<rparr>"

theorem marks_keep_status_coherent_witness:
  "let s' = run_ops ([(1, 1, OpAccepted), (2, 1, OpWaiting [''NiFiCluster/ns/nifi''])] @ [(3, 2, OpReady ''R'' ''m'')]) blank_status
   in conditions_ok s' \<and> ready_agrees s' \<and> cs_ObservedGeneration s' = 2 \<and> cs_Ready s'"
proof -
  have "conditions_ok blank_status" by (simp add: conditions_ok_def blank_status_def)
  from marks_keep_status_coherent [OF this refl, of "[(1, 1, OpAccepted), (2, 1, OpWaiting [''NiFiCluster/ns/nifi''])]" 3 2 "OpReady ''R'' ''m''"] show ?thesis by (simp add: Let_def)
qed

definition run_conditions :: "(go_time \<times> string \<times> ConditionStatus \<times> string \<times> string \<times> int) list \<Rightarrow> CommonStatus \<Rightarrow> CommonStatus" where
  "run_conditions us s = fold (\<lambda>(now, t, st, r, m, g). SetCondition now t st r m g) us s"

lemma later_reports_keep_time:
  assumes "list_all (\<lambda>(now, t', st', r, m, g). t' = t \<longrightarrow> st' = st) us"
    and "find_condition t (cs_Conditions s) = Some c" "cd_Status c = st"
  shows "\<exists>c'. find_condition t (cs_Conditions (run_conditions us s)) = Some c' \<and> cd_Status c' = st \<and>
     cd_LastTransitionTime c' = cd_LastTransitionTime c"
  using assms
proof (induction us arbitrary: s c)
  case (Cons u us)
  obtain now t' st' r m g where u: "u = (now, t', st', r, m, g)" by (cases u) auto
  let ?s = "SetCondition now t' st' r m g s"
  have "\<exists>c'. find_condition t (cs_Conditions ?s) = Some c' \<and> cd_Status c' = st \<and> cd_LastTransitionTime c' = cd_LastTransitionTime c"
    using Cons.prems u by (cases "t' = t") (auto simp: transition_time_def)
  with Cons.IH [of ?s] Cons.prems(1) u show ?case by (auto simp: run_conditions_def)
qed (simp add: run_conditions_def)

text \<open>
  The transition time of a condition is the time of its last change of status: once a report has
  changed it, later reports of the same status, and any reports of other conditions, keep that time,
  whatever reasons, messages and generations they carry.
\<close>

theorem transition_time_is_last_change:
  assumes "\<forall>c. find_condition t (cs_Conditions s) = Some c \<longrightarrow> cd_Status c \<noteq> st"
    and "list_all (\<lambda>(now', t', st', r', m', g'). t' = t \<longrightarrow> st' = st) us"
  shows "\<exists>c. find_condition t (cs_Conditions (run_conditions us (SetCondition now t st r m g s))) = Some c \<and>
     cd_Status c = st \<and> cd_LastTransitionTime c = now"
proof -
  have "transition_time now st (find_condition t (cs_Conditions s)) = now"
    using assms(1) by (auto simp: transition_time_def split: option.split)
  then show ?thesis
    using later_reports_keep_time [OF assms(2), of "SetCondition now t st r m g s"] by simp
qed

theorem transition_time_is_last_change_witness:
  "\<exists>c. find_condition ConditionReady (cs_Conditions (run_conditions
      [(8, ConditionReady, ConditionTrue, ''b'', ''y'', 2), (9, ConditionReconciling, ConditionFalse, ''c'', ''z'', 2)]
      (SetCondition 7 ConditionReady ConditionTrue ''a'' ''x'' 1 (MarkNotReady 3 1 ''n'' ''w'' blank_status)))) = Some c \<and>
     cd_Status c = ConditionTrue \<and> cd_LastTransitionTime c = 7"
proof -
  have "\<forall>c. find_condition ConditionReady (cs_Conditions (MarkNotReady 3 1 ''n'' ''w'' blank_status)) = Some c \<longrightarrow> cd_Status c \<noteq> ConditionTrue"
    by (simp add: MarkNotReady_def Let_def condition_type_defs)
  from transition_time_is_last_change [OF this] show ?thesis by (simp add: condition_type_defs)
qed

section \<open>The condition list refines a map\<close>

definition condition_map :: "CommonStatus \<Rightarrow> (string \<rightharpoonup> Condition)" where
  "condition_map s = (\<lambda>t. find_condition t (cs_Conditions s))"

fun report_condition :: "go_time \<times> string \<times> ConditionStatus \<times> string \<times> string \<times> int \<Rightarrow> (string \<rightharpoonup> Condition) \<Rightarrow> (string \<rightharpoonup> Condition)" where
  \<comment> \<open>the abstract operation: one entry per condition type, whose time moves only when the status does\<close>
  "report_condition (now, t, st, r, m, g) M = M(t \<mapsto> \<lparr>cd_Type = t, cd_Status = st, cd_ObservedGeneration = g,
     cd_LastTransitionTime = transition_time now st (M t), cd_Reason = r, cd_Message = m\<rparr>)"

lemma set_condition_refines: "condition_map (SetCondition now t st r m g s) = report_condition (now, t, st, r, m, g) (condition_map s)"
proof
  fix t'
  show "condition_map (SetCondition now t st r m g s) t' = report_condition (now, t, st, r, m, g) (condition_map s) t'"
    by (cases "t' = t") (simp_all add: condition_map_def)
qed

lemma condition_map_keys: "conditions_ok s \<Longrightarrow> card (dom (condition_map s)) = length (cs_Conditions s)"
proof -
  have "dom (condition_map s) = cd_Type ` set (cs_Conditions s)"
  proof (induction "cs_Conditions s" arbitrary: s)
    case (Cons c cs)
    then have "dom (condition_map (s\<lparr>cs_Conditions := cs\<rparr>)) = cd_Type ` set cs" by simp
    with Cons.hyps(2) [symmetric] show ?case by (auto simp: condition_map_def dom_def split: if_splits)
  qed (simp add: condition_map_def dom_def flip: Nil)
  then show "conditions_ok s \<Longrightarrow> card (dom (condition_map s)) = length (cs_Conditions s)"
    by (simp add: conditions_ok_def distinct_card flip: set_map)
qed

text \<open>
  C34. The condition list implements a map from condition types to conditions: any history of
  \<open>SetCondition\<close> calls acts on the list as the corresponding updates act on the map, and the list
  never holds more entries than the map has keys.
\<close>

theorem conditions_refine_map:
  assumes "conditions_ok s"
  shows "condition_map (run_conditions us s) = fold report_condition us (condition_map s) \<and>
     length (cs_Conditions (run_conditions us s)) = card (dom (fold report_condition us (condition_map s)))"
proof -
  have "condition_map (run_conditions us s) = fold report_condition us (condition_map s) \<and> conditions_ok (run_conditions us s)"
    using assms
  proof (induction us arbitrary: s)
    case (Cons u us)
    obtain now t st r m g where u: "u = (now, t, st, r, m, g)" by (cases u) auto
    with Cons.IH [of "SetCondition now t st r m g s"] Cons.prems show ?case
      by (simp add: run_conditions_def set_condition_refines del: report_condition.simps)
  qed (simp add: run_conditions_def)
  then show ?thesis using condition_map_keys [of "run_conditions us s"] by simp
qed

theorem conditions_refine_map_witness:
  "let us = [(7, ''Ready'', ConditionTrue, ''a'', ''x'', 1), (8, ''Ready'', ConditionTrue, ''b'', ''y'', 2)]
   in length (cs_Conditions (run_conditions us blank_status)) = 1 \<and>
      map_option cd_LastTransitionTime (condition_map (run_conditions us blank_status) ''Ready'') = Some 7"
proof -
  let ?us = "[(7, ''Ready'', ConditionTrue, ''a'', ''x'', 1), (8, ''Ready'', ConditionTrue, ''b'', ''y'', 2)]"
  have "conditions_ok blank_status" "condition_map blank_status = Map.empty"
    by (simp_all add: conditions_ok_def condition_map_def blank_status_def)
  with conditions_refine_map [of blank_status ?us] show ?thesis
    by (simp add: transition_time_def)
qed

end
