(* ===== verification/Flow_Drift.thy ===== *)
theory Flow_Drift
  imports Prelude "HOL-Library.Multiset"
begin

text \<open>
  Flow snapshots and drift detection (\<open>internal/controller/flow_deployment_drift.go\<close>): the
  normal form of a snapshot (volatile, defaulted, ignored and empty values dropped, arrays of
  identifiable objects sorted), its digest, and the bounded structural difference of two normal
  forms. A decoded JSON value is a \<open>json\<close>; a Go map is an association list in key order, so that
  \<open>reflect.DeepEqual\<close> is equality up to the sign of zeros. The concrete JSON syntax and SHA-256 (\<open>encoding/json\<close>,
  \<open>crypto/sha256\<close>) are the fields of a \<open>json_codec\<close>; number literals are converted to float64
  by a model of \<open>strconv.ParseFloat\<close> with round-half-even.
\<close>

section \<open>JSON values\<close>

datatype float64 = Float64 int int | NegativeZero \<comment> \<open>odd (or zero) mantissa times a power of two\<close>

definition positive_zero :: "float64 \<Rightarrow> float64" where
  "positive_zero f = (case f of NegativeZero \<Rightarrow> Float64 0 0 | _ \<Rightarrow> f)"

definition float_eq :: "float64 \<Rightarrow> float64 \<Rightarrow> bool" where
  \<comment> \<open>\<open>==\<close> on float64, to which both zeros are the same\<close>
  "float_eq a b \<longleftrightarrow> positive_zero a = positive_zero b"

lemma float_eq_refl [simp]: "float_eq a a"
  by (simp add: float_eq_def)

datatype json =
    JNull
  | JBool bool
  | JString string
  | JNumber string \<comment> \<open>\<open>json.Number\<close>: the literal\<close>
  | JFloat float64
  | JArray "json list"
  | JObject "(string \<times> json) list"

record json_codec =
  jc_Decode :: "string \<Rightarrow> json go_result"    \<comment> \<open>\<open>Decoder.Decode\<close> with \<open>UseNumber\<close>\<close>
  jc_Unmarshal :: "string \<Rightarrow> json go_result" \<comment> \<open>\<open>json.Unmarshal\<close>\<close>
  jc_Marshal :: "json \<Rightarrow> string"
  jc_Sha256Hex :: "string \<Rightarrow> string"

definition field :: "(string \<times> json) list \<Rightarrow> string \<Rightarrow> json" where
  \<comment> \<open>indexing a Go map: nil for a missing key\<close>
  "field fs k = (case map_of fs k of Some v \<Rightarrow> v | None \<Rightarrow> JNull)"

section \<open>Number literals\<close>

definition is_digit :: "char \<Rightarrow> bool" where
  "is_digit c \<longleftrightarrow> 48 \<le> (of_char c :: nat) \<and> (of_char c :: nat) \<le> 57"

definition digits_value :: "string \<Rightarrow> int" where
  "digits_value ds = foldl (\<lambda>n c. 10 * n + (of_char c - 48)) 0 ds"

definition parse_exponent :: "string \<Rightarrow> int option" where
  "parse_exponent s = (case s of
     [] \<Rightarrow> Some 0
   | c # rest \<Rightarrow>
       (if c = CHR ''e'' \<or> c = CHR ''E'' then
          (let neg = (rest \<noteq> [] \<and> hd rest = CHR ''-'');
               ds = (if rest \<noteq> [] \<and> (hd rest = CHR ''-'' \<or> hd rest = CHR ''+'') then tl rest else rest)
           in if ds \<noteq> [] \<and> list_all is_digit ds
              then Some ((if neg then -1 else 1) * digits_value ds) else None)
        else None))"

text \<open>A literal denotes \<open>m * 10 ^ e\<close>.\<close>

definition parse_decimal :: "string \<Rightarrow> (int \<times> int) option" where
  "parse_decimal s =
    (let neg = (s \<noteq> [] \<and> hd s = CHR ''-''); body = (if neg then tl s else s);
         ip = takeWhile is_digit body; r1 = dropWhile is_digit body;
         dot = (r1 \<noteq> [] \<and> hd r1 = CHR ''.'');
         fp = (if dot then takeWhile is_digit (tl r1) else []);
         r2 = (if dot then dropWhile is_digit (tl r1) else r1)
     in if ip = [] \<or> (dot \<and> fp = []) then None
        else map_option (\<lambda>e. ((if neg then -1 else 1) * digits_value (ip @ fp), e - int (length fp)))
               (parse_exponent r2))"

fun strip_twos :: "nat \<Rightarrow> int \<Rightarrow> int \<Rightarrow> float64" where
  "strip_twos 0 q k = Float64 q k"
| "strip_twos (Suc n) q k = (if q = 0 then Float64 0 0 else if q mod 2 = 0 then strip_twos n (q div 2) (k + 1) else Float64 q k)"

definition round_half_even :: "int \<Rightarrow> int \<Rightarrow> int" where
  "round_half_even n d =
     (let q = n div d; r = n mod d in if d < 2 * r \<or> (2 * r = d \<and> q mod 2 = 1) then q + 1 else q)"

function bit_length :: "int \<Rightarrow> int" where
  "bit_length n = (if n \<le> 0 then 0 else 1 + bit_length (n div 2))"
  by pat_completeness auto
termination
  by (relation "measure nat") auto

declare bit_length.simps [simp del]

definition round_double :: "int \<Rightarrow> int \<Rightarrow> (int \<times> int) option" where
  \<comment> \<open>the double nearest to \<open>n / d\<close>, as mantissa and exponent; \<open>None\<close> on overflow\<close>
  "round_double n d =
    (let L = bit_length n - bit_length d;
         below = (if 0 \<le> L then n < d * 2 ^ nat L else n * 2 ^ nat (- L) < d);
         k = max (if below then L - 53 else L - 52) (- 1074);
         q = (if 0 \<le> k then round_half_even n (d * 2 ^ nat k) else round_half_even (n * 2 ^ nat (- k)) d)
     in if 0 \<le> k \<and> q * 2 ^ nat k \<ge> 2 ^ 1024 then None else Some (q, k))"

definition signed_zero :: "string \<Rightarrow> float64" where
  \<comment> \<open>a literal that is zero, or rounds to it, keeps its sign\<close>
  "signed_zero lit = (if lit \<noteq> [] \<and> hd lit = CHR ''-'' then NegativeZero else Float64 0 0)"

definition parse_float64 :: "string \<Rightarrow> float64 option" where
  "parse_float64 lit = (case parse_decimal lit of
     None \<Rightarrow> None
   | Some (m, e) \<Rightarrow>
       (let n = \<bar>m\<bar> * (if 0 \<le> e then 10 ^ nat e else 1); d = (if 0 \<le> e then 1 else 10 ^ nat (- e))
        in if m = 0 then Some (signed_zero lit)
           else map_option (\<lambda>(q, k). if q = 0 then signed_zero lit else strip_twos 54 (sgn m * q) k) (round_double n d)))"

section \<open>Normal form of a snapshot\<close>

definition maxDriftDifferences :: nat where "maxDriftDifferences = 20"

definition child_path :: "string \<Rightarrow> string \<Rightarrow> string" where
  "child_path path key = (if path \<noteq> '''' then path @ ''.'' @ key else key)"

definition isVolatileFlowField :: "string \<Rightarrow> string \<Rightarrow> bool" where
  "isVolatileFlowField parentPath key \<longleftrightarrow>
     (parentPath = '''' \<and> key \<in> {''snapshotMetadata'', ''flow'', ''bucket''}) \<or>
     (parentPath = ''flowContents'' \<and> key = ''name'') \<or>
     key \<in> {''identifier'', ''instanceIdentifier'', ''versionedFlowCoordinates'', ''componentState''}"

definition flow_defaults :: "(string \<times> json) list" where
  "flow_defaults =
    [(''defaultFlowFileExpiration'', JString ''0 sec''),
     (''defaultBackPressureObjectThreshold'', JNumber ''10000''),
     (''defaultBackPressureDataSizeThreshold'', JString ''1 GB''),
     (''scheduledState'', JString ''ENABLED''),
     (''executionEngine'', JString ''INHERITED''),
     (''maxConcurrentTasks'', JNumber ''1''),
     (''statelessFlowTimeout'', JString ''1 min''),
     (''flowFileConcurrency'', JString ''UNBOUNDED''),
     (''flowFileOutboundPolicy'', JString ''STREAM_WHEN_AVAILABLE''),
     (''flowEncodingVersion'', JString ''1.0''),
     (''latest'', JBool False)]"

definition isDefaultedFlowField :: "string \<Rightarrow> json \<Rightarrow> bool" where
  "isDefaultedFlowField key value = (case map_of flow_defaults key of
     Some defaultValue \<Rightarrow> value = defaultValue | None \<Rightarrow> False)"

fun flowFieldIgnored :: "string \<Rightarrow> string list \<Rightarrow> bool" where
  "flowFieldIgnored path [] = False"
| "flowFieldIgnored path (configured # rest) =
     (let c = Trim (TrimSpace configured) ''.'' in
      if c = '''' then flowFieldIgnored path rest
      else (let c = TrimPrefix c ''component.'' in
            if path = c \<or> HasSuffix path (''.'' @ c) then True else flowFieldIgnored path rest))"

definition string_member :: "(string \<times> json) list \<Rightarrow> string \<Rightarrow> string option" where
  "string_member fs key = (case field fs key of JString s \<Rightarrow> (if s \<noteq> '''' then Some s else None) | _ \<Rightarrow> None)"

fun first_identity :: "(string \<times> json) list \<Rightarrow> string list \<Rightarrow> string" where
  "first_identity fs [] = ''''"
| "first_identity fs (key # ks) =
     (case string_member fs key of Some i \<Rightarrow> key @ '':'' @ i | None \<Rightarrow> first_identity fs ks)"

fun flowObjectIdentity :: "json \<Rightarrow> string" where
  "flowObjectIdentity (JObject fs) = first_identity fs [''identifier'', ''id'', ''name'']"
| "flowObjectIdentity _ = ''''"

definition identifiableFlowObjects :: "json list \<Rightarrow> bool" where
  "identifiableFlowObjects values \<longleftrightarrow> \<not> length values < 2 \<and> list_all (\<lambda>v. flowObjectIdentity v \<noteq> '''') values"

definition order_items :: "json list \<Rightarrow> json list" where
  "order_items vs = (if identifiableFlowObjects vs then sort_key flowObjectIdentity vs else vs)"

definition field_dropped :: "string list \<Rightarrow> string \<Rightarrow> string \<Rightarrow> json \<Rightarrow> bool" where
  "field_dropped ignoredFields path key child \<longleftrightarrow>
     isVolatileFlowField path key \<or> isDefaultedFlowField key child \<or>
     flowFieldIgnored (child_path path key) ignoredFields"

fun normalizeFlowValue :: "string list \<Rightarrow> string \<Rightarrow> json \<Rightarrow> json option"
  and normalize_fields :: "string list \<Rightarrow> string \<Rightarrow> (string \<times> json) list \<Rightarrow> (string \<times> json) list"
  and normalize_items :: "string list \<Rightarrow> string \<Rightarrow> json list \<Rightarrow> json list" where
  "normalizeFlowValue ig path (JObject fs) =
     (let n = normalize_fields ig path fs in if n = [] then None else Some (JObject n))"
| "normalizeFlowValue ig path (JArray xs) =
     (let n = order_items (normalize_items ig path xs) in if n = [] then None else Some (JArray n))"
| "normalizeFlowValue ig path JNull = None"
| "normalizeFlowValue ig path (JString s) = (if s \<noteq> '''' then Some (JString s) else None)"
| "normalizeFlowValue ig path (JNumber lit) =
     Some (case parse_float64 lit of None \<Rightarrow> JString lit | Some f \<Rightarrow> JFloat f)"
| "normalizeFlowValue ig path (JBool b) = Some (JBool b)"
| "normalizeFlowValue ig path (JFloat f) = Some (JFloat f)"
| "normalize_fields ig path [] = []"
| "normalize_fields ig path ((key, child) # fs) =
     (if field_dropped ig path key child then normalize_fields ig path fs
      else (case normalizeFlowValue ig (child_path path key) child of
              Some v \<Rightarrow> (key, v) # normalize_fields ig path fs
            | None \<Rightarrow> normalize_fields ig path fs))"
| "normalize_items ig path [] = []"
| "normalize_items ig path (x # xs) =
     (case normalizeFlowValue ig path x of
        Some v \<Rightarrow> v # normalize_items ig path xs | None \<Rightarrow> normalize_items ig path xs)"

definition content_digest :: "json_codec \<Rightarrow> json \<Rightarrow> string" where
  "content_digest c v = ''sha256:'' @ jc_Sha256Hex c (jc_Marshal c v)"

definition normalizeFlowSnapshot :: "json_codec \<Rightarrow> string \<Rightarrow> string list \<Rightarrow> (json \<times> string) go_result" where
  "normalizeFlowSnapshot c snapshot ignoredFields =
    (case jc_Decode c snapshot of
       Inl e \<Rightarrow> Inl e
     | Inr value \<Rightarrow>
         (let normalized = (case normalizeFlowValue ignoredFields '''' value of Some v \<Rightarrow> v | None \<Rightarrow> JObject [])
          in Inr (normalized, content_digest c normalized)))"

section \<open>Differences of two normal forms\<close>

fun unsigned_zeros :: "json \<Rightarrow> json" where
  "unsigned_zeros (JFloat f) = JFloat (positive_zero f)"
| "unsigned_zeros (JArray xs) = JArray (map unsigned_zeros xs)"
| "unsigned_zeros (JObject fs) = JObject (map (\<lambda>f. (fst f, unsigned_zeros (snd f))) fs)"
| "unsigned_zeros v = v"

definition deep_equal :: "json \<Rightarrow> json \<Rightarrow> bool" where
  \<comment> \<open>\<open>reflect.DeepEqual\<close>, which compares numbers with \<open>==\<close>\<close>
  "deep_equal a b \<longleftrightarrow> unsigned_zeros a = unsigned_zeros b"

definition displayFlowDifferencePath :: "string \<Rightarrow> string" where
  "displayFlowDifferencePath path = (if path = '''' then ''$'' else ''$.'' @ path)"

definition union_keys :: "(string \<times> json) list \<Rightarrow> (string \<times> json) list \<Rightarrow> string list" where
  "union_keys dm lm = sorted_list_of_set (fst ` set dm \<union> fst ` set lm)"

definition index_path :: "string \<Rightarrow> nat \<Rightarrow> string" where
  "index_path path i = path @ ''['' @ show_nat i @ '']''"

lemma size_map_of: "map_of fs k = Some v \<Longrightarrow> size v < size (JObject fs)"
proof (induction fs)
  case (Cons f fs)
  show ?case
  proof (cases "fst f = k")
    case True
    with Cons.prems have "v = snd f" by (cases f) simp
    then show ?thesis by (cases f) simp
  next
    case False
    with Cons show ?thesis by (cases f) simp
  qed
qed simp

lemma size_field: "size (field fs k) < size (JObject fs)"
  using size_map_of [of fs k] by (auto simp: field_def split: option.split)

lemma size_fields: "size (field dm k) + size (field lm k) < Suc (Suc (size_list (size_prod (\<lambda>x. 0) size) dm +
    size_list (size_prod (\<lambda>x. 0) size) lm))"
  using size_field [of dm k] size_field [of lm k] by simp

function (sequential) collectFlowDifferences :: "json \<Rightarrow> json \<Rightarrow> string \<Rightarrow> string list \<Rightarrow> string list"
  and collect_keys :: "(string \<times> json) list \<Rightarrow> (string \<times> json) list \<Rightarrow> string \<Rightarrow> string list \<Rightarrow> string list \<Rightarrow> string list"
  and collect_items :: "json list \<Rightarrow> json list \<Rightarrow> string \<Rightarrow> nat \<Rightarrow> string list \<Rightarrow> string list" where
  "collectFlowDifferences desired live path differences =
    (if length differences \<ge> maxDriftDifferences \<or> deep_equal desired live then differences
     else (case desired of
         JObject dm \<Rightarrow> (case live of
             JObject lm \<Rightarrow> collect_keys dm lm path (union_keys dm lm) differences
           | _ \<Rightarrow> differences @ [displayFlowDifferencePath path])
       | JArray ds \<Rightarrow> (case live of
             JArray ls \<Rightarrow>
               (if length ds \<noteq> length ls then differences @ [displayFlowDifferencePath path]
                else collect_items ds ls path 0 differences)
           | _ \<Rightarrow> differences @ [displayFlowDifferencePath path])
       | _ \<Rightarrow> differences @ [displayFlowDifferencePath path]))"
| "collect_keys dm lm path [] differences = differences"
| "collect_keys dm lm path (key # ks) differences =
    (let ds' = collectFlowDifferences (field dm key) (field lm key) (child_path path key) differences
     in if length ds' \<ge> maxDriftDifferences then ds' else collect_keys dm lm path ks ds')"
| "collect_items (d # ds) (l # ls) path i differences =
    (let ds' = collectFlowDifferences d l (index_path path i) differences
     in if length ds' \<ge> maxDriftDifferences then ds' else collect_items ds ls path (Suc i) ds')"
| "collect_items _ _ path i differences = differences"
  by pat_completeness auto

termination
  by (relation "inv_image (less_than <*lex*> less_than <*lex*> less_than)
       (\<lambda>x. case x of
          Inl (d, l, p, ds) \<Rightarrow> (size d + size l, 1, 0)
        | Inr (Inl (dm, lm, p, ks, ds)) \<Rightarrow> (size (JObject dm) + size (JObject lm), 0, length ks)
        | Inr (Inr (ds, ls, p, i, r)) \<Rightarrow> (size (JArray ds) + size (JArray ls), 0, 0))")
    (auto intro!: size_fields)

declare collectFlowDifferences.simps [simp del]

definition compareFlowSnapshots ::
  "json_codec \<Rightarrow> string \<Rightarrow> string \<Rightarrow> string list \<Rightarrow> (string \<times> string \<times> string list) go_result" where
  "compareFlowSnapshots c desired live ignoredFields =
    (case normalizeFlowSnapshot c desired ignoredFields of
       Inl e \<Rightarrow> Inl (wrapf ''normalize desired flow snapshot: '' e)
     | Inr (desiredValue, desiredDigest) \<Rightarrow>
        (case normalizeFlowSnapshot c live ignoredFields of
           Inl e \<Rightarrow> Inl (wrapf ''normalize live flow snapshot: '' e)
         | Inr (liveValue, liveDigest) \<Rightarrow>
             Inr (desiredDigest, liveDigest, collectFlowDifferences desiredValue liveValue '''' [])))"

section \<open>Facts about normal forms and differences\<close>

fun json_ok :: "json \<Rightarrow> bool" where
  "json_ok (JObject fs) \<longleftrightarrow> sorted_wrt (<) (map fst fs) \<and> (\<forall>f \<in> set fs. json_ok (snd f))"
| "json_ok (JArray xs) \<longleftrightarrow> (\<forall>x \<in> set xs. json_ok x)"
| "json_ok (JNumber lit) \<longleftrightarrow> parse_decimal lit \<noteq> None"
| "json_ok _ \<longleftrightarrow> True"

fun null_free :: "json \<Rightarrow> bool" where
  "null_free JNull \<longleftrightarrow> False"
| "null_free (JObject fs) \<longleftrightarrow> sorted_wrt (<) (map fst fs) \<and> (\<forall>f \<in> set fs. null_free (snd f))"
| "null_free (JArray xs) \<longleftrightarrow> (\<forall>x \<in> set xs. null_free x)"
| "null_free _ \<longleftrightarrow> True"

lemma set_order_items [simp]: "set (order_items vs) = set vs"
  by (simp add: order_items_def)

lemma normalize_fields_keys: "fst ` set (normalize_fields ig p fs) \<subseteq> fst ` set fs"
proof (induction fs)
  case (Cons f fs)
  then have "fst ` set (normalize_fields ig p fs) \<subseteq> fst ` set (f # fs)" by auto
  then show ?case by (cases f) (simp split: option.split)
qed simp

lemma normalize_fields_sorted:
  "sorted_wrt (<) (map fst fs) \<Longrightarrow> sorted_wrt (<) (map fst (normalize_fields ig p fs))"
proof (induction fs)
  case (Cons f fs)
  from Cons.prems have "\<forall>y \<in> fst ` set fs. fst f < y" by simp
  with normalize_fields_keys [of ig p fs] have "\<forall>y \<in> fst ` set (normalize_fields ig p fs). fst f < y" by blast
  with Cons show ?case by (cases f) (simp split: option.split)
qed simp

lemma normalize_null_free:
  "json_ok v \<Longrightarrow> (\<forall>w. normalizeFlowValue ig p v = Some w \<longrightarrow> null_free w)"
  "\<forall>f \<in> set fs. json_ok (snd f) \<Longrightarrow> \<forall>f \<in> set (normalize_fields ig p fs). null_free (snd f)"
  "\<forall>x \<in> set xs. json_ok x \<Longrightarrow> \<forall>x \<in> set (normalize_items ig p xs). null_free x"
proof (induction ig p v and ig p fs and ig p xs rule: normalizeFlowValue_normalize_fields_normalize_items.induct)
  case (1 ig p fs)
  then show ?case by (simp add: Let_def normalize_fields_sorted)
next
  case (9 ig p k v fs)
  then show ?case by (simp split: option.split)
next
  case (11 ig p x xs)
  then show ?case by (simp split: option.split)
qed (simp_all add: Let_def split: option.split)

lemma collect_grows:
  "length r \<le> length (collectFlowDifferences d l p r)"
  "length r \<le> length (collect_keys dm lm p ks r)"
  "length r \<le> length (collect_items ds ls p i r)"
proof (induction d l p r and dm lm p ks r and ds ls p i r rule: collectFlowDifferences_collect_keys_collect_items.induct)
  case (1 d l p r)
  then show ?case by (subst collectFlowDifferences.simps) (auto split: json.split)
qed (auto simp: Let_def intro: le_trans)

lemma collect_bounded:
  "length r \<le> maxDriftDifferences \<Longrightarrow> length (collectFlowDifferences d l p r) \<le> maxDriftDifferences"
  "length r \<le> maxDriftDifferences \<Longrightarrow> length (collect_keys dm lm p ks r) \<le> maxDriftDifferences"
  "length r \<le> maxDriftDifferences \<Longrightarrow> length (collect_items ds ls p i r) \<le> maxDriftDifferences"
proof (induction d l p r and dm lm p ks r and ds ls p i r rule: collectFlowDifferences_collect_keys_collect_items.induct)
  case (1 d l p r)
  then show ?case by (subst collectFlowDifferences.simps) (auto split: json.split)
qed (auto simp: Let_def)

lemma collect_same: "deep_equal d l \<Longrightarrow> collectFlowDifferences d l p r = r"
  by (simp add: collectFlowDifferences.simps)

lemma deep_equal_refl [simp]: "deep_equal v v"
  by (simp add: deep_equal_def)

lemma sorted_objects_eq:
  fixes xs ys :: "(string \<times> json) list"
  assumes "sorted_wrt (<) (map fst xs)" "sorted_wrt (<) (map fst ys)" "map_of xs = map_of ys"
  shows "xs = ys"
proof (rule map_sorted_distinct_set_unique [of fst])
  have d: "distinct (map fst xs)" "distinct (map fst ys)" "sorted (map fst xs)" "sorted (map fst ys)"
    using assms(1,2) by (simp_all add: strict_sorted_iff)
  then show "distinct (map fst xs)" "distinct (map fst ys)" "sorted (map fst xs)" "sorted (map fst ys)" by simp_all
  show s: "set xs = set ys" using d assms(3) by (metis map_of_inject_set)
  show "inj_on fst (set xs \<union> set ys)" using d s by (simp add: distinct_map)
qed

lemma field_diff_exists:
  assumes "null_free (JObject dm)" "null_free (JObject lm)" "dm \<noteq> lm"
  shows "\<exists>k \<in> set (union_keys dm lm). field dm k \<noteq> field lm k"
proof (rule ccontr)
  assume "\<not> ?thesis"
  then have eq: "field dm k = field lm k" if "k \<in> fst ` set dm \<union> fst ` set lm" for k
    using that by (auto simp: union_keys_def)
  have nn: "v \<noteq> JNull" if "map_of fs k = Some v" "null_free (JObject fs)" for fs k v
    using map_of_SomeD [OF that(1)] that(2) by fastforce
  have "map_of dm k = map_of lm k" for k
  proof (cases "k \<in> fst ` set dm \<union> fst ` set lm")
    case True
    then show ?thesis using eq [OF True] nn [of dm k] nn [of lm k] assms(1,2)
      by (auto simp: field_def split: option.splits)
  next
    case False
    then show ?thesis by (metis UnI1 UnI2 map_of_eq_None_iff)
  qed
  then show False using sorted_objects_eq [of dm lm] assms by (auto simp: fun_eq_iff)
qed

lemma map_of_unsigned: "map_of (map (\<lambda>f. (fst f, unsigned_zeros (snd f))) fs) k = map_option unsigned_zeros (map_of fs k)"
  by (induction fs) auto

lemma field_unsigned: "field (map (\<lambda>f. (fst f, unsigned_zeros (snd f))) fs) k = unsigned_zeros (field fs k)"
  by (simp add: field_def map_of_unsigned split: option.split)

lemma null_free_unsigned: "null_free v \<Longrightarrow> null_free (unsigned_zeros v)"
  by (induction v) (auto simp: comp_def)

lemma deep_difference:
  assumes "null_free (JObject dm)" "null_free (JObject lm)" "\<not> deep_equal (JObject dm) (JObject lm)"
  shows "\<exists>k \<in> set (union_keys dm lm). \<not> deep_equal (field dm k) (field lm k)"
proof -
  let ?u = "map (\<lambda>f :: string \<times> json. (fst f, unsigned_zeros (snd f)))"
  have "union_keys (?u dm) (?u lm) = union_keys dm lm" by (simp add: union_keys_def image_image)
  moreover have "null_free (JObject (?u dm))" "null_free (JObject (?u lm))" "?u dm \<noteq> ?u lm"
    using null_free_unsigned [OF assms(1)] null_free_unsigned [OF assms(2)] assms(3) by (simp_all add: deep_equal_def)
  ultimately show ?thesis using field_diff_exists [of "?u dm" "?u lm"] by (simp add: field_unsigned deep_equal_def)
qed

lemma null_free_field:
  assumes "null_free (JObject fs)" "k \<in> fst ` set fs"
  shows "null_free (field fs k)"
proof -
  obtain v where v: "map_of fs k = Some v" using assms(2) by (metis map_of_eq_None_iff not_Some_eq)
  then have "(k, v) \<in> set fs" by (rule map_of_SomeD)
  with assms(1) v show ?thesis by (force simp: field_def)
qed

text \<open>A child of two null-free objects: null-free, or missing on one side.\<close>

definition comparable :: "json \<Rightarrow> json \<Rightarrow> bool" where
  "comparable d l \<longleftrightarrow> (d = JNull \<or> null_free d) \<and> (l = JNull \<or> null_free l)"

lemma field_missing: "k \<notin> fst ` set fs \<Longrightarrow> field fs k = JNull"
  by (simp add: field_def map_of_eq_None_iff [THEN iffD2])

lemma comparable_fields: "null_free (JObject dm) \<Longrightarrow> null_free (JObject lm) \<Longrightarrow> comparable (field dm k) (field lm k)"
  unfolding comparable_def using null_free_field field_missing by metis

lemma collect_reports:
  "comparable d l \<Longrightarrow> \<not> deep_equal d l \<Longrightarrow> length r < maxDriftDifferences \<Longrightarrow> length r < length (collectFlowDifferences d l p r)"
  "null_free (JObject dm) \<Longrightarrow> null_free (JObject lm) \<Longrightarrow> \<exists>k \<in> set ks. \<not> deep_equal (field dm k) (field lm k) \<Longrightarrow>
     length r < maxDriftDifferences \<Longrightarrow> length r < length (collect_keys dm lm p ks r)"
  "null_free (JArray ds) \<Longrightarrow> null_free (JArray ls) \<Longrightarrow> length ds = length ls \<Longrightarrow> \<not> deep_equal (JArray ds) (JArray ls) \<Longrightarrow>
     length r < maxDriftDifferences \<Longrightarrow> length r < length (collect_items ds ls p i r)"
proof (induction d l p r and dm lm p ks r and ds ls p i r rule: collectFlowDifferences_collect_keys_collect_items.induct)
  case (1 d l p r)
  consider (objs) dm lm where "d = JObject dm" "l = JObject lm"
    | (arrs) ds ls where "d = JArray ds" "l = JArray ls" "length ds = length ls"
    | (other) "\<not> (\<exists>dm lm. d = JObject dm \<and> l = JObject lm)"
        "\<not> (\<exists>ds ls. d = JArray ds \<and> l = JArray ls \<and> length ds = length ls)"
    by blast
  then show ?case
  proof cases
    case objs
    with "1.prems" have nf: "null_free (JObject dm)" "null_free (JObject lm)" "\<not> deep_equal (JObject dm) (JObject lm)"
      by (auto simp: comparable_def)
    have "length r < length (collect_keys dm lm p (union_keys dm lm) r)"
      using "1.IH"(2) [OF _ objs] "1.prems" nf(1,2) deep_difference [OF nf] by simp
    then show ?thesis using objs "1.prems" by (simp add: collectFlowDifferences.simps [of "JObject dm"])
  next
    case arrs
    then show ?thesis using "1.IH"(1) [OF _ arrs(1,2)] "1.prems"
      by (simp add: collectFlowDifferences.simps [of "JArray ds"] comparable_def)
  next
    case other
    then show ?thesis using "1.prems"
      by (auto simp: collectFlowDifferences.simps [of d] split: json.split)
  qed
next
  case (3 dm lm p k ks r)
  let ?r = "collectFlowDifferences (field dm k) (field lm k) (child_path p k) r"
  show ?case
  proof (cases "deep_equal (field dm k) (field lm k)")
    case True
    with 3 show ?thesis by (auto simp: Let_def collect_same)
  next
    case False
    then have "length r < length ?r"
      using "3.IH"(1) "3.prems" comparable_fields by blast
    then show ?thesis using collect_grows(2) [of ?r dm lm p ks] by (auto simp: Let_def)
  qed
next
  case (4 d ds l ls p i r)
  let ?r = "collectFlowDifferences d l (index_path p i) r"
  show ?case
  proof (cases "deep_equal d l")
    case True
    with 4 show ?thesis by (auto simp: Let_def collect_same deep_equal_def)
  next
    case False
    then have "length r < length ?r"
      using "4.IH"(1) "4.prems" by (auto simp: comparable_def)
    then show ?thesis using collect_grows(3) [of ?r ds ls p "Suc i"] by (auto simp: Let_def)
  qed
qed auto


text \<open>Normalisation is idempotent.\<close>

lemma default_stable:
  assumes "normalizeFlowValue ig p v = Some w" "json_ok v" "isDefaultedFlowField k w"
  shows "isDefaultedFlowField k v"
proof (cases v)
  case (JNumber lit)
  have bad: "parse_decimal ''0 sec'' = None" "parse_decimal ''1 GB'' = None" "parse_decimal ''ENABLED'' = None"
    "parse_decimal ''INHERITED'' = None" "parse_decimal ''1 min'' = None" "parse_decimal ''UNBOUNDED'' = None"
    "parse_decimal ''STREAM_WHEN_AVAILABLE'' = None" "parse_float64 ''1.0'' \<noteq> None"
    by code_simp+
  from JNumber assms(1) have "w = (case parse_float64 lit of None \<Rightarrow> JString lit | Some f \<Rightarrow> JFloat f)" by simp
  with assms(2,3) JNumber bad show ?thesis
    by (auto simp: isDefaultedFlowField_def flow_defaults_def split: option.splits if_splits)
qed (use assms in \<open>auto simp: isDefaultedFlowField_def flow_defaults_def Let_def split: if_splits\<close>)

lemma normalize_items_fixed:
  "\<forall>x \<in> set xs. normalizeFlowValue ig p x = Some x \<Longrightarrow> normalize_items ig p xs = xs"
  by (induction xs) auto

lemma normalize_fields_fixed:
  "\<forall>(k, v) \<in> set fs. \<not> field_dropped ig p k v \<and> normalizeFlowValue ig (child_path p k) v = Some v \<Longrightarrow>
   normalize_fields ig p fs = fs"
  by (induction fs) auto

lemma identifiable_order [simp]: "identifiableFlowObjects (order_items vs) = identifiableFlowObjects vs"
  by (simp add: identifiableFlowObjects_def list_all_iff) (simp add: order_items_def)

lemma order_items_idem [simp]: "order_items (order_items vs) = order_items vs"
  by (subst order_items_def) (simp add: order_items_def sort_key_id_if_sorted)

lemma normalize_idem:
  "json_ok v \<Longrightarrow> (\<forall>w. normalizeFlowValue ig p v = Some w \<longrightarrow> normalizeFlowValue ig p w = Some w)"
  "\<forall>f \<in> set fs. json_ok (snd f) \<Longrightarrow> \<forall>(k, v) \<in> set (normalize_fields ig p fs).
      \<not> field_dropped ig p k v \<and> normalizeFlowValue ig (child_path p k) v = Some v"
  "\<forall>x \<in> set xs. json_ok x \<Longrightarrow> \<forall>x \<in> set (normalize_items ig p xs). normalizeFlowValue ig p x = Some x"
proof (induction ig p v and ig p fs and ig p xs rule: normalizeFlowValue_normalize_fields_normalize_items.induct)
  case (1 ig p fs)
  then show ?case by (simp add: Let_def normalize_fields_fixed)
next
  case (2 ig p xs)
  then show ?case by (simp add: Let_def normalize_items_fixed)
next
  case (5 ig p lit)
  then have "lit \<noteq> []" by (auto simp: parse_decimal_def)
  then show ?case by (simp split: option.split)
next
  case (9 ig p k v fs)
  have fs: "\<forall>f \<in> set fs. json_ok (snd f)" and v: "json_ok v" using "9.prems" by simp_all
  show ?case
  proof (cases "field_dropped ig p k v")
    case True
    then show ?thesis using "9.IH"(1) [OF True fs] by simp
  next
    case False
    show ?thesis
    proof (cases "normalizeFlowValue ig (child_path p k) v")
      case None
      then show ?thesis using "9.IH"(3) [OF False None fs] False by simp
    next
      case (Some w)
      from default_stable [OF Some v, of k] False have "\<not> field_dropped ig p k w"
        by (auto simp only: field_dropped_def)
      with Some False "9.IH"(4) [OF False Some fs] "9.IH"(2) [OF False v, rule_format, OF Some] show ?thesis by simp
    qed
  qed
next
  case (11 ig p x xs)
  have xs: "\<forall>x \<in> set xs. json_ok x" and x: "json_ok x" using "11.prems" by simp_all
  show ?case
  proof (cases "normalizeFlowValue ig p x")
    case None
    then show ?thesis using "11.IH"(2) [OF None xs] by simp
  next
    case (Some w)
    then show ?thesis using "11.IH"(3) [OF Some xs] "11.IH"(1) [OF x, rule_format, OF Some] by simp
  qed
qed simp_all

lemma order_items_perm:
  assumes "mset xs = mset ys" "inj_on flowObjectIdentity (set ys)" "identifiableFlowObjects ys"
  shows "order_items xs = order_items ys"
proof -
  have len: "length xs = length ys" and st: "set xs = set ys" using assms(1) by (auto dest: mset_eq_length mset_eq_setD)
  then have "identifiableFlowObjects xs" using assms(3) by (simp add: identifiableFlowObjects_def list_all_iff)
  moreover have "sort_key flowObjectIdentity xs = sort_key flowObjectIdentity ys"
    using assms(1,2) st by (intro sort_key_inj_key_eq) auto
  ultimately show ?thesis using assms(3) by (simp add: order_items_def)
qed

lemma normalize_items_filter:
  "normalize_items ig p xs = List.map_filter (normalizeFlowValue ig p) xs"
  by (induction xs) (auto simp: List.map_filter_simps split: option.splits)

lemma mset_map_filter:
  "mset xs = mset ys \<Longrightarrow> mset (List.map_filter f xs) = mset (List.map_filter f ys)"
  by (simp add: List.map_filter_def)

definition normal_form :: "string list \<Rightarrow> json \<Rightarrow> json" where
  "normal_form ig v = (case normalizeFlowValue ig '''' v of Some w \<Rightarrow> w | None \<Rightarrow> JObject [])"

lemma normal_form_null_free: "json_ok v \<Longrightarrow> null_free (normal_form ig v)"
  using normalize_null_free(1) [of v ig "''''"] by (auto simp: normal_form_def split: option.split)

lemma normalizeFlowSnapshot_eq:
  "jc_Decode c snap = Inr v \<Longrightarrow>
     normalizeFlowSnapshot c snap ig = Inr (normal_form ig v, content_digest c (normal_form ig v))"
  by (simp add: normalizeFlowSnapshot_def normal_form_def Let_def)

section \<open>Properties\<close>


lemma negative_zero_is_no_difference:
  "normal_form [] (JObject [(''x'', JNumber ''-0'')]) \<noteq> normal_form [] (JObject [(''x'', JNumber ''0'')]) \<and>
   deep_equal (normal_form [] (JObject [(''x'', JNumber ''-0'')])) (normal_form [] (JObject [(''x'', JNumber ''0'')]))"
proof -
  have "parse_float64 ''-0'' = Some NegativeZero" "parse_float64 ''0'' = Some (Float64 0 0)" by code_simp+
  then show ?thesis
    by (simp add: normal_form_def field_dropped_def isVolatileFlowField_def isDefaultedFlowField_def flow_defaults_def child_path_def deep_equal_def positive_zero_def)
qed

definition sample_flow :: "string \<Rightarrow> json" where
  "sample_flow period = JObject [(''flowContents'', JObject
     [(''name'', JString ''etl''),
      (''processors'', JArray [JObject [(''name'', JString ''b''), (''period'', JString period)],
                              JObject [(''identifier'', JString ''x''), (''name'', JString ''a'')]])])]"

definition sample_codec :: json_codec where
  "sample_codec = \<lparr>jc_Decode = (\<lambda>s. Inr (sample_flow s)), jc_Unmarshal = (\<lambda>s. Inr (sample_flow s)),
     jc_Marshal = (\<lambda>_. ''''), jc_Sha256Hex = (\<lambda>s. s)\<rparr>"


text \<open>
  A normal form is stable: normalising a normalised value again, at the same path and with the
  same ignored fields, returns it unchanged, so the stored content digest of a deployment can be
  compared with a later one.
\<close>

theorem normalize_idempotent:
  assumes "json_ok v" "normalizeFlowValue ig p v = Some w"
  shows "normalizeFlowValue ig p w = Some w"
  using normalize_idem(1) [of v ig p] assms by blast

theorem normalize_idempotent_witness:
  "normalizeFlowValue [''period''] '''' (sample_flow ''1 sec'') =
     Some (JObject [(''flowContents'', JObject [(''processors'',
        JArray [JObject [(''name'', JString ''a'')], JObject [(''name'', JString ''b'')]])])]) \<and>
   normalizeFlowValue [''period''] '''' (JObject [(''flowContents'', JObject [(''processors'',
        JArray [JObject [(''name'', JString ''a'')], JObject [(''name'', JString ''b'')]])])]) =
     Some (JObject [(''flowContents'', JObject [(''processors'',
        JArray [JObject [(''name'', JString ''a'')], JObject [(''name'', JString ''b'')]])])])"
proof -
  have n: "normalizeFlowValue [''period''] '''' (sample_flow ''1 sec'') =
     Some (JObject [(''flowContents'', JObject [(''processors'',
        JArray [JObject [(''name'', JString ''a'')], JObject [(''name'', JString ''b'')]])])])"
    by code_simp
  moreover have "json_ok (sample_flow ''1 sec'')" by (simp add: sample_flow_def)
  ultimately show ?thesis using normalize_idempotent by blast
qed

text \<open>
  The order in which NiFi lists components does not matter: two arrays that are permutations
  of each other and whose normalised elements carry distinct identities have the same normal form.
\<close>

theorem normalize_order_insensitive:
  assumes "mset xs = mset ys" "identifiableFlowObjects (normalize_items ig p ys)"
    and "inj_on flowObjectIdentity (set (normalize_items ig p ys))"
  shows "normalizeFlowValue ig p (JArray xs) = normalizeFlowValue ig p (JArray ys)"
proof -
  have "mset (normalize_items ig p xs) = mset (normalize_items ig p ys)"
    using mset_map_filter [OF assms(1)] by (simp add: normalize_items_filter)
  from order_items_perm [OF this assms(3,2)] show ?thesis by simp
qed

theorem normalize_order_insensitive_witness:
  "normalizeFlowValue [] ''p'' (JArray [JObject [(''id'', JString ''2'')], JObject [(''id'', JString ''1'')]]) =
   normalizeFlowValue [] ''p'' (JArray [JObject [(''id'', JString ''1'')], JObject [(''id'', JString ''2'')]])"
proof (rule normalize_order_insensitive)
  have n: "normalize_items [] ''p'' [JObject [(''id'', JString ''1'')], JObject [(''id'', JString ''2'')]] =
    [JObject [(''id'', JString ''1'')], JObject [(''id'', JString ''2'')]]" by code_simp
  show "identifiableFlowObjects (normalize_items [] ''p'' [JObject [(''id'', JString ''1'')], JObject [(''id'', JString ''2'')]])"
    by code_simp
  show "inj_on flowObjectIdentity (set (normalize_items [] ''p'' [JObject [(''id'', JString ''1'')], JObject [(''id'', JString ''2'')]]))"
    unfolding n by (auto simp: inj_on_def string_member_def field_def)
qed simp

end
