(* ===== verification/Flow_Types.thy ===== *)
theory Flow_Types
  imports Common_Status Flow_Drift
begin

text \<open>
  The data of the flow deployment controller: the custom resource
  (\<open>api/v1alpha1/nififlowdeployment_types.go\<close>), the NiFi entities the controller exchanges with
  the REST API (\<open>pkg/nifi/client.go\<close>, \<open>topology.go\<close>, \<open>flowvalidation.go\<close>), and its effects:
  \<open>fcall\<close> has one constructor for every operation on NiFi and on the Kubernetes API the
  controller issues, \<open>fenv\<close> holds the answers as functions of the calls made so far.
  Every NiFi call of a reconcile goes to the endpoint of the one referenced cluster, so the
  endpoint is not an argument of the calls: \<open>fenv\<close> is the NiFi at that endpoint. A pointer is an
  option, a string enumeration is a string, as in the code.
\<close>

section \<open>NiFi entities\<close>

record Position =
  po_X :: float64
  po_Y :: float64

record Revision =
  re_Version :: int

record ProcessGroupComponent =
  pgc_ID :: string
  pgc_ParentGroupID :: string
  pgc_Name :: string
  pgc_Comments :: string
  pgc_Position :: "Position option"
  pgc_ParameterContext :: "string option"  \<comment> \<open>\<open>*ComponentReference\<close>, a struct with the one field \<open>ID\<close>\<close>

record ProcessGroupEntity =
  pg_ID :: string
  pg_Revision :: Revision
  pg_Component :: ProcessGroupComponent
  pg_RunningCount :: int
  pg_StoppedCount :: int
  pg_InvalidCount :: int
  pg_DisabledCount :: int

record ProcessGroupReplaceRequest =
  rr_RequestID :: string
  rr_Complete :: bool
  rr_FailureReason :: string
  rr_PercentCompleted :: int
  rr_State :: string

record PortComponent =
  ptc_ID :: string
  ptc_ParentGroupID :: string
  ptc_Name :: string
  ptc_Position :: "Position option"
  ptc_State :: string
  ptc_ConcurrentlySchedulableTaskCount :: int
  ptc_ValidationStatus :: string

record PortEntity =
  pt_ID :: string
  pt_Revision :: Revision
  pt_Component :: PortComponent

record Connectable =
  cn_ID :: string
  cn_Type :: string
  cn_GroupID :: string

record ConnectionComponent =
  cc_ID :: string
  cc_ParentGroupID :: string
  cc_Source :: Connectable
  cc_Destination :: Connectable
  cc_SelectedRelationships :: "string list"
  cc_BackPressureObjectThreshold :: int
  cc_BackPressureDataSizeThreshold :: string
  cc_FlowFileExpiration :: string
  cc_Prioritizers :: "string list"
  cc_Bends :: "Position list"
  cc_LoadBalanceStrategy :: string
  cc_LoadBalancePartitionAttribute :: string

record ConnectionEntity =
  ce_ID :: string
  ce_Revision :: Revision
  ce_Component :: ConnectionComponent

definition ConnectableProcessor :: string where "ConnectableProcessor = ''PROCESSOR''"
definition ConnectableInputPort :: string where "ConnectableInputPort = ''INPUT_PORT''"
definition ConnectableOutputPort :: string where "ConnectableOutputPort = ''OUTPUT_PORT''"
definition ConnectableFunnel :: string where "ConnectableFunnel = ''FUNNEL''"
definition RunStateRunning :: string where "RunStateRunning = ''RUNNING''"
definition RunStateStopped :: string where "RunStateStopped = ''STOPPED''"
definition RunStateEnabled :: string where "RunStateEnabled = ''ENABLED''"
definition RunStateDisabled :: string where "RunStateDisabled = ''DISABLED''"

lemmas topology_defs = ConnectableProcessor_def ConnectableInputPort_def ConnectableOutputPort_def
  ConnectableFunnel_def RunStateRunning_def RunStateStopped_def RunStateEnabled_def RunStateDisabled_def

record InvalidComponent =
  ic_Kind :: string
  ic_ID :: string
  ic_Name :: string
  ic_Type :: string
  ic_ProcessGroupID :: string
  ic_ValidationErrors :: "string list"

record FlowValidationReport =
  vr_Invalid :: "InvalidComponent list"
  vr_ValidatingCount :: int
  vr_Total :: int

section \<open>The resource\<close>

record GitSource =
  git_URL :: string
  git_Ref :: string
  git_Path :: string

record OCISource =
  oci_Image :: string
  oci_Digest :: string
  oci_Path :: string

record RegistryFlowSource =
  rg_RegistryClientRef :: LocalObjectReference
  rg_BucketID :: string
  rg_FlowID :: string
  rg_Version :: string

record FlowBundleSource =
  fb_Git :: "GitSource option"
  fb_OCI :: "OCISource option"
  fb_Registry :: "RegistryFlowSource option"
  fb_Snapshot :: "string option"

record FlowDeploymentSource =
  fs_BundleRef :: "LocalObjectReference option"
  fs_Version :: string
  fs_Inline :: "FlowBundleSource option"

record FlowDeploymentTarget =
  ft_ParentProcessGroupRef :: ProcessGroupReference
  ft_ProcessGroupName :: string

record BlueGreenStrategy =
  bgs_DrainTimeoutSeconds :: int
  bgs_OnDrainTimeout :: string
  bgs_ReadinessTimeoutSeconds :: int
  bgs_RequireEnabledControllerServices :: "bool option"

record RolloutReadiness =
  rd_RequireValidComponents :: "bool option"
  rd_RequireEnabledControllerServices :: "bool option"
  rd_MaxUnavailable :: int
  rd_TimeoutSeconds :: int

record QueueDrainPolicy =
  qp_Enabled :: bool
  qp_TimeoutSeconds :: int
  qp_OnTimeout :: string

record RolloutRetryPolicy =
  rp_MaxRetries :: int

record RolloutStrategy =
  rs_Strategy :: string
  rs_BlueGreen :: "BlueGreenStrategy option"
  rs_Readiness :: "RolloutReadiness option"
  rs_QueuePolicy :: "QueueDrainPolicy option"
  rs_Retry :: "RolloutRetryPolicy option"
  rs_Cancel :: bool

record RollbackStrategy =
  rb_Enabled :: bool
  rb_OnFailure :: string
  rb_HistoryLimit :: int

record OwnershipPolicy =
  ow_Mode :: string
  ow_Prune :: bool

record NiFiFlowDeploymentSpec =
  fsp_ClusterRef :: ClusterReference
  fsp_Source :: FlowDeploymentSource
  fsp_Target :: FlowDeploymentTarget
  fsp_ParameterContextRef :: "LocalObjectReference option"
  fsp_ValidateOnly :: bool
  fsp_Rollout :: RolloutStrategy
  fsp_Rollback :: RollbackStrategy
  fsp_Ownership :: OwnershipPolicy
  fsp_DeletionPolicy :: string
  fsp_DriftPolicy :: DriftPolicy
  fsp_AdoptionPolicy :: AdoptionPolicy
  fsp_ReconciliationPaused :: bool

record FlowInvalidComponent =
  fi_Kind :: string
  fi_ID :: string
  fi_Name :: string
  fi_Type :: string
  fi_ProcessGroupID :: string
  fi_Errors :: "string list"

record FlowValidationResult =
  fv_Valid :: bool
  fv_CheckedVersion :: string
  fv_CheckedDigest :: string
  fv_InvalidCount :: int
  fv_InvalidComponents :: "FlowInvalidComponent list"
  fv_CheckedAt :: go_time
  fv_Message :: string

record FlowReplaceRequestStatus =
  fr_ID :: string
  fr_State :: string
  fr_Complete :: bool
  fr_FailureReason :: string
  fr_PercentCompleted :: int
  fr_TargetDigest :: string
  fr_TargetVersion :: string
  fr_Operation :: string
  fr_SnapshotConfigMap :: string

record ExternalConnectionRecord =
  xc_Direction :: string
  xc_PortName :: string
  xc_OriginalID :: string
  xc_Definition :: string
  xc_Switched :: bool
  xc_GreenConnectionID :: string
  xc_DrainStartedAt :: "go_time option"

record BlueGreenRolloutStatus =
  bg_CandidateProcessGroupID :: string
  bg_BlueProcessGroupID :: string
  bg_ParentProcessGroupID :: string
  bg_Inventoried :: bool
  bg_ExternalConnections :: "ExternalConnectionRecord list"

record FlowRolloutStatus =
  ro_Phase :: string
  ro_Strategy :: string
  ro_Operation :: string
  ro_TargetVersion :: string
  ro_TargetDigest :: string
  ro_PreviousVersion :: string
  ro_PreviousDigest :: string
  ro_StartedAt :: go_time
  ro_ReadinessStartedAt :: "go_time option"
  ro_RetryCount :: int
  ro_BlueGreen :: "BlueGreenRolloutStatus option"

record FlowRollbackStatus =
  lb_FailedGeneration :: int
  lb_FailedVersion :: string
  lb_FailedDigest :: string
  lb_RestoredVersion :: string
  lb_RestoredDigest :: string
  lb_CompletedAt :: "go_time option"
  lb_Message :: string

record FlowDeploymentHistory =
  fh_Version :: string
  fh_Digest :: string
  fh_SnapshotConfigMap :: string
  fh_Strategy :: string
  fh_Result :: string
  fh_Reason :: string
  fh_DeployedAt :: go_time

record NiFiFlowDeploymentStatus =
  st_Common :: CommonStatus
  st_DeployedVersion :: string
  st_ArtifactDigest :: string
  st_DesiredContentDigest :: string
  st_LiveContentDigest :: string
  st_ProcessGroupID :: string
  st_RetiringProcessGroupID :: string
  st_SyncState :: string
  st_LatestReplaceRequest :: "FlowReplaceRequestStatus option"
  st_ActiveRollout :: "FlowRolloutStatus option"
  st_LastRollback :: "FlowRollbackStatus option"
  st_LastSuccessful :: "FlowDeploymentHistory option"
  st_RolloutHistory :: "FlowDeploymentHistory list"
  st_ValidationResult :: "FlowValidationResult option"
  st_ValidationProcessGroupID :: string
  st_ValidationPhase :: string
  st_ValidationStartedAt :: "go_time option"

record NiFiFlowDeployment =
  fd_Name :: string
  fd_Namespace :: string
  fd_Generation :: int
  fd_Deleting :: bool
  fd_Finalizers :: "string list"
  fd_Spec :: NiFiFlowDeploymentSpec
  fd_Status :: NiFiFlowDeploymentStatus

section \<open>Kubernetes objects the controller reads and writes\<close>

record ConfigMap =
  cm_Name :: string
  cm_Namespace :: string
  cm_Labels :: "(string \<times> string) list"
  cm_Data :: "(string \<times> string) list"

definition cm_data :: "ConfigMap \<Rightarrow> string \<Rightarrow> string" where
  \<comment> \<open>indexing \<open>Data\<close>: the empty string for a missing key\<close>
  "cm_data cm k = (case map_of (cm_Data cm) k of Some v \<Rightarrow> v | None \<Rightarrow> '''')"

record NiFiCluster =
  cl_Name :: string
  cl_Namespace :: string
  cl_Deleting :: bool
  cl_Ready :: bool
  cl_Endpoint :: string
  cl_RootProcessGroupID :: string
  cl_APIURI :: "string option"

text \<open>What the controller reads of a NiFiParameterContext, NiFiProcessGroup or NiFiRegistryClient.\<close>

record NiFiObject =
  no_Ready :: bool
  no_NiFiID :: string

record NiFiFlowBundle =
  fbn_Namespace :: string
  fbn_Source :: FlowBundleSource
  fbn_Version :: string
  fbn_Ready :: bool
  fbn_ArtifactDigest :: string
  fbn_ResolvedRevision :: string

section \<open>Calls and environment\<close>

datatype fcall =
    CGetProcessGroup string
  | CCreateProcessGroup string ProcessGroupEntity
  | CUpdateProcessGroup ProcessGroupEntity
  | CDeleteProcessGroup string int
  | CImportProcessGroup string string
  | CCreateReplaceRequest string int string
  | CGetReplaceRequest string
  | CDeleteReplaceRequest string
  | CDownloadProcessGroup string
  | CScheduleProcessGroup string string
  | CListConnections string
  | CListInputPorts string
  | CListOutputPorts string
  | CGetConnection string
  | CCreateConnection string ConnectionEntity
  | CDeleteConnection string int
  | CQueueCount string
  | CDropQueue string
  | CSetRunStatus string string string
  | CEnableControllerServices string
  | CInspectValidation string
  | CSetControllerServicesState string string
  | CListChildProcessGroups string
  | CStatusUpdate NiFiFlowDeployment
  | CUpdate NiFiFlowDeployment
  | CGetFlowDeployment
  | CGetConfigMap string string
  | CCreateConfigMap ConfigMap
  | CDeleteConfigMap string string
  | CGetCluster string string
  | CConfigureClusterHTTPClient NiFiCluster
  | CGetParameterContext string string
  | CGetProcessGroupObject string string
  | CGetRegistryClient string string
  | CGetFlowBundle string string
  | CResolveFlowArtifact string FlowBundleSource string

type_synonym 'a freply = "fcall list \<Rightarrow> 'a go_result"
type_synonym fack = "fcall list \<Rightarrow> go_error option"

record fenv =
  fe_Now :: "fcall list \<Rightarrow> go_time"
  fe_json :: json_codec
  fe_MarshalConnection :: "ConnectionComponent \<Rightarrow> string go_result"
  fe_UnmarshalConnection :: "string \<Rightarrow> ConnectionComponent go_result"
  fe_HasScheme :: bool
  fe_SetControllerReference :: "NiFiFlowDeployment \<Rightarrow> ConfigMap \<Rightarrow> go_error option"
  fe_GetProcessGroup :: "string \<Rightarrow> ProcessGroupEntity option freply"
  fe_CreateProcessGroup :: "string \<Rightarrow> ProcessGroupEntity \<Rightarrow> ProcessGroupEntity option freply"
  fe_UpdateProcessGroup :: "ProcessGroupEntity \<Rightarrow> ProcessGroupEntity option freply"
  fe_DeleteProcessGroup :: "string \<Rightarrow> int \<Rightarrow> fack"
  fe_ImportProcessGroup :: "string \<Rightarrow> string \<Rightarrow> ProcessGroupEntity option freply"
  fe_CreateReplaceRequest :: "string \<Rightarrow> int \<Rightarrow> string \<Rightarrow> ProcessGroupReplaceRequest option freply"
  fe_GetReplaceRequest :: "string \<Rightarrow> ProcessGroupReplaceRequest option freply"
  fe_DeleteReplaceRequest :: "string \<Rightarrow> fack"
  fe_DownloadProcessGroup :: "string \<Rightarrow> string freply"
  fe_ScheduleProcessGroup :: "string \<Rightarrow> string \<Rightarrow> fack"
  fe_ListConnections :: "string \<Rightarrow> ConnectionEntity list freply"
  fe_ListInputPorts :: "string \<Rightarrow> PortEntity list freply"
  fe_ListOutputPorts :: "string \<Rightarrow> PortEntity list freply"
  fe_GetConnection :: "string \<Rightarrow> ConnectionEntity option freply"
  fe_CreateConnection :: "string \<Rightarrow> ConnectionEntity \<Rightarrow> ConnectionEntity option freply"
  fe_DeleteConnection :: "string \<Rightarrow> int \<Rightarrow> fack"
  fe_QueueCount :: "string \<Rightarrow> int freply"
  fe_DropQueue :: "string \<Rightarrow> fack"
  fe_SetRunStatus :: "string \<Rightarrow> string \<Rightarrow> string \<Rightarrow> fack"
  fe_EnableControllerServices :: "string \<Rightarrow> fack"
  fe_InspectValidation :: "string \<Rightarrow> FlowValidationReport freply"
  fe_SetControllerServicesState :: "string \<Rightarrow> string \<Rightarrow> fack"
  fe_ListChildProcessGroups :: "string \<Rightarrow> ProcessGroupEntity list freply"
  fe_StatusUpdate :: "NiFiFlowDeployment \<Rightarrow> fack"
  fe_Update :: "NiFiFlowDeployment \<Rightarrow> fack"
  fe_GetFlowDeployment :: "NiFiFlowDeployment freply"
  fe_GetConfigMap :: "string \<Rightarrow> string \<Rightarrow> ConfigMap freply"
  fe_CreateConfigMap :: "ConfigMap \<Rightarrow> fack"
  fe_DeleteConfigMap :: "string \<Rightarrow> string \<Rightarrow> fack"
  fe_GetCluster :: "string \<Rightarrow> string \<Rightarrow> NiFiCluster freply"
  fe_ConfigureClusterHTTPClient :: "NiFiCluster \<Rightarrow> fack"
  fe_GetParameterContext :: "string \<Rightarrow> string \<Rightarrow> NiFiObject freply"
  fe_GetProcessGroupObject :: "string \<Rightarrow> string \<Rightarrow> NiFiObject freply"
  fe_GetRegistryClient :: "string \<Rightarrow> string \<Rightarrow> NiFiObject freply"
  fe_GetFlowBundle :: "string \<Rightarrow> string \<Rightarrow> NiFiFlowBundle freply"
  fe_ResolveFlowArtifact :: "string \<Rightarrow> FlowBundleSource \<Rightarrow> string \<Rightarrow> (string \<times> string \<times> string) freply"

type_synonym 'a fhandler = "(fcall, NiFiFlowDeployment, 'a) handler"

end
