(* ===== verification/Flow_Marks.thy ===== *)
theory Flow_Marks
  imports Flow_Types
begin

text \<open>
  The operations every handler of the flow deployment controller is built from: one wrapper per
  external call, field updates of the in-memory resource, and the reporting operations of
  \<open>internal/controller/support.go\<close> and \<open>phase1_controllers.go\<close> (\<open>markFlowDeployment*\<close>,
  \<open>shouldMarkFlowDeploymentNotReady\<close>, \<open>flowDeploymentStatusMatches\<close>) with
  \<open>snapshotDeploymentFailed\<close>. The protocol of the not-ready report (write once, then stay quiet)
  is the locale \<open>not_ready_report\<close>.
\<close>

section \<open>Call wrappers\<close>

definition now :: "fenv \<Rightarrow> go_time fhandler" where
  "now E = read_clock (fe_Now E)"

definition GetProcessGroup :: "fenv \<Rightarrow> string \<Rightarrow> ProcessGroupEntity option go_result fhandler" where
  "GetProcessGroup E i = ext_call (CGetProcessGroup i) (fe_GetProcessGroup E i)"
definition CreateProcessGroup :: "fenv \<Rightarrow> string \<Rightarrow> ProcessGroupEntity \<Rightarrow> ProcessGroupEntity option go_result fhandler" where
  "CreateProcessGroup E p e = ext_call (CCreateProcessGroup p e) (fe_CreateProcessGroup E p e)"
definition UpdateProcessGroup :: "fenv \<Rightarrow> ProcessGroupEntity \<Rightarrow> ProcessGroupEntity option go_result fhandler" where
  "UpdateProcessGroup E e = ext_call (CUpdateProcessGroup e) (fe_UpdateProcessGroup E e)"
definition DeleteProcessGroup :: "fenv \<Rightarrow> string \<Rightarrow> int \<Rightarrow> go_error option fhandler" where
  "DeleteProcessGroup E i v = ext_call (CDeleteProcessGroup i v) (fe_DeleteProcessGroup E i v)"
definition ImportProcessGroup :: "fenv \<Rightarrow> string \<Rightarrow> string \<Rightarrow> ProcessGroupEntity option go_result fhandler" where
  "ImportProcessGroup E p s = ext_call (CImportProcessGroup p s) (fe_ImportProcessGroup E p s)"
definition CreateProcessGroupReplaceRequest :: "fenv \<Rightarrow> string \<Rightarrow> int \<Rightarrow> string \<Rightarrow> ProcessGroupReplaceRequest option go_result fhandler" where
  "CreateProcessGroupReplaceRequest E i v s = ext_call (CCreateReplaceRequest i v s) (fe_CreateReplaceRequest E i v s)"
definition GetProcessGroupReplaceRequest :: "fenv \<Rightarrow> string \<Rightarrow> ProcessGroupReplaceRequest option go_result fhandler" where
  "GetProcessGroupReplaceRequest E i = ext_call (CGetReplaceRequest i) (fe_GetReplaceRequest E i)"
definition DeleteProcessGroupReplaceRequest :: "fenv \<Rightarrow> string \<Rightarrow> go_error option fhandler" where
  "DeleteProcessGroupReplaceRequest E i = ext_call (CDeleteReplaceRequest i) (fe_DeleteReplaceRequest E i)"
definition DownloadProcessGroup :: "fenv \<Rightarrow> string \<Rightarrow> string go_result fhandler" where
  "DownloadProcessGroup E i = ext_call (CDownloadProcessGroup i) (fe_DownloadProcessGroup E i)"
definition ScheduleProcessGroup :: "fenv \<Rightarrow> string \<Rightarrow> string \<Rightarrow> go_error option fhandler" where
  "ScheduleProcessGroup E i st = ext_call (CScheduleProcessGroup i st) (fe_ScheduleProcessGroup E i st)"
definition ListProcessGroupConnections :: "fenv \<Rightarrow> string \<Rightarrow> ConnectionEntity list go_result fhandler" where
  "ListProcessGroupConnections E i = ext_call (CListConnections i) (fe_ListConnections E i)"
definition ListProcessGroupInputPorts :: "fenv \<Rightarrow> string \<Rightarrow> PortEntity list go_result fhandler" where
  "ListProcessGroupInputPorts E i = ext_call (CListInputPorts i) (fe_ListInputPorts E i)"
definition ListProcessGroupOutputPorts :: "fenv \<Rightarrow> string \<Rightarrow> PortEntity list go_result fhandler" where
  "ListProcessGroupOutputPorts E i = ext_call (CListOutputPorts i) (fe_ListOutputPorts E i)"
definition GetConnection :: "fenv \<Rightarrow> string \<Rightarrow> ConnectionEntity option go_result fhandler" where
  "GetConnection E i = ext_call (CGetConnection i) (fe_GetConnection E i)"
definition CreateConnection :: "fenv \<Rightarrow> string \<Rightarrow> ConnectionEntity \<Rightarrow> ConnectionEntity option go_result fhandler" where
  "CreateConnection E p e = ext_call (CCreateConnection p e) (fe_CreateConnection E p e)"
definition DeleteConnection :: "fenv \<Rightarrow> string \<Rightarrow> int \<Rightarrow> go_error option fhandler" where
  "DeleteConnection E i v = ext_call (CDeleteConnection i v) (fe_DeleteConnection E i v)"
definition ConnectionQueueCount :: "fenv \<Rightarrow> string \<Rightarrow> int go_result fhandler" where
  "ConnectionQueueCount E i = ext_call (CQueueCount i) (fe_QueueCount E i)"
definition DropConnectionQueue :: "fenv \<Rightarrow> string \<Rightarrow> go_error option fhandler" where
  "DropConnectionQueue E i = ext_call (CDropQueue i) (fe_DropQueue E i)"
definition SetComponentRunStatus :: "fenv \<Rightarrow> string \<Rightarrow> string \<Rightarrow> string \<Rightarrow> go_error option fhandler" where
  "SetComponentRunStatus E t i st = ext_call (CSetRunStatus t i st) (fe_SetRunStatus E t i st)"
definition EnableControllerServices :: "fenv \<Rightarrow> string \<Rightarrow> go_error option fhandler" where
  "EnableControllerServices E i = ext_call (CEnableControllerServices i) (fe_EnableControllerServices E i)"
definition InspectValidation :: "fenv \<Rightarrow> string \<Rightarrow> FlowValidationReport go_result fhandler" where
  "InspectValidation E i = ext_call (CInspectValidation i) (fe_InspectValidation E i)"
definition SetControllerServicesState :: "fenv \<Rightarrow> string \<Rightarrow> string \<Rightarrow> go_error option fhandler" where
  "SetControllerServicesState E i st = ext_call (CSetControllerServicesState i st) (fe_SetControllerServicesState E i st)"
definition ListChildProcessGroups :: "fenv \<Rightarrow> string \<Rightarrow> ProcessGroupEntity list go_result fhandler" where
  "ListChildProcessGroups E i = ext_call (CListChildProcessGroups i) (fe_ListChildProcessGroups E i)"
definition GetConfigMap :: "fenv \<Rightarrow> string \<Rightarrow> string \<Rightarrow> ConfigMap go_result fhandler" where
  "GetConfigMap E ns n = ext_call (CGetConfigMap ns n) (fe_GetConfigMap E ns n)"
definition CreateConfigMap :: "fenv \<Rightarrow> ConfigMap \<Rightarrow> go_error option fhandler" where
  "CreateConfigMap E cm = ext_call (CCreateConfigMap cm) (fe_CreateConfigMap E cm)"
definition DeleteConfigMap :: "fenv \<Rightarrow> string \<Rightarrow> string \<Rightarrow> go_error option fhandler" where
  "DeleteConfigMap E ns n = ext_call (CDeleteConfigMap ns n) (fe_DeleteConfigMap E ns n)"
definition GetParameterContext :: "fenv \<Rightarrow> string \<Rightarrow> string \<Rightarrow> NiFiObject go_result fhandler" where
  "GetParameterContext E ns n = ext_call (CGetParameterContext ns n) (fe_GetParameterContext E ns n)"

lemmas nifi_call_defs [wp_simps] = now_def GetProcessGroup_def CreateProcessGroup_def UpdateProcessGroup_def
  DeleteProcessGroup_def ImportProcessGroup_def CreateProcessGroupReplaceRequest_def
  GetProcessGroupReplaceRequest_def DeleteProcessGroupReplaceRequest_def DownloadProcessGroup_def
  ScheduleProcessGroup_def ListProcessGroupConnections_def ListProcessGroupInputPorts_def
  ListProcessGroupOutputPorts_def GetConnection_def CreateConnection_def DeleteConnection_def
  ConnectionQueueCount_def DropConnectionQueue_def SetComponentRunStatus_def EnableControllerServices_def
  InspectValidation_def SetControllerServicesState_def ListChildProcessGroups_def GetConfigMap_def
  CreateConfigMap_def DeleteConfigMap_def GetParameterContext_def

text \<open>\<open>r.Status().Update(ctx, deployment)\<close> sends the in-memory resource.\<close>

definition StatusUpdate :: "fenv \<Rightarrow> go_error option fhandler" where
  "StatusUpdate E = do { d \<leftarrow> get_obj; ext_call (CStatusUpdate d) (fe_StatusUpdate E d) }"

lemma wp_StatusUpdate [wp_simps]:
  "wp (StatusUpdate E) Q s =
     Q (fe_StatusUpdate E (obj s) (calls s)) (s\<lparr>calls := calls s @ [CStatusUpdate (obj s)]\<rparr>)"
  by (simp add: StatusUpdate_def wp_simps)

section \<open>Field updates of the resource\<close>

definition upd_st :: "(NiFiFlowDeploymentStatus \<Rightarrow> NiFiFlowDeploymentStatus) \<Rightarrow> NiFiFlowDeployment \<Rightarrow> NiFiFlowDeployment" where
  "upd_st f d = d\<lparr>fd_Status := f (fd_Status d)\<rparr>"

definition upd_common :: "(CommonStatus \<Rightarrow> CommonStatus) \<Rightarrow> NiFiFlowDeploymentStatus \<Rightarrow> NiFiFlowDeploymentStatus" where
  "upd_common f s = s\<lparr>st_Common := f (st_Common s)\<rparr>"

definition upd_active :: "(FlowRolloutStatus \<Rightarrow> FlowRolloutStatus) \<Rightarrow> NiFiFlowDeploymentStatus \<Rightarrow> NiFiFlowDeploymentStatus" where
  \<comment> \<open>a write through the pointer \<open>active\<close>\<close>
  "upd_active f s = s\<lparr>st_ActiveRollout := map_option f (st_ActiveRollout s)\<rparr>"

definition upd_bluegreen :: "(BlueGreenRolloutStatus \<Rightarrow> BlueGreenRolloutStatus) \<Rightarrow> NiFiFlowDeploymentStatus \<Rightarrow> NiFiFlowDeploymentStatus" where
  \<comment> \<open>a write through the pointer \<open>active.BlueGreen\<close>\<close>
  "upd_bluegreen f = upd_active (\<lambda>a. a\<lparr>ro_BlueGreen := map_option f (ro_BlueGreen a)\<rparr>)"

lemma upd_simps [simp]:
  "fd_Name (upd_st f d) = fd_Name d" "fd_Namespace (upd_st f d) = fd_Namespace d"
  "fd_Generation (upd_st f d) = fd_Generation d" "fd_Deleting (upd_st f d) = fd_Deleting d"
  "fd_Finalizers (upd_st f d) = fd_Finalizers d" "fd_Spec (upd_st f d) = fd_Spec d"
  "fd_Status (upd_st f d) = f (fd_Status d)"
  by (simp_all add: upd_st_def)

lemma upd_common_simps [simp]:
  "st_Common (upd_common f s) = f (st_Common s)" "st_DeployedVersion (upd_common f s) = st_DeployedVersion s"
  "st_ArtifactDigest (upd_common f s) = st_ArtifactDigest s"
  "st_ProcessGroupID (upd_common f s) = st_ProcessGroupID s"
  "st_RetiringProcessGroupID (upd_common f s) = st_RetiringProcessGroupID s"
  "st_SyncState (upd_common f s) = st_SyncState s"
  "st_LatestReplaceRequest (upd_common f s) = st_LatestReplaceRequest s"
  "st_ActiveRollout (upd_common f s) = st_ActiveRollout s"
  "st_LastRollback (upd_common f s) = st_LastRollback s"
  "st_LastSuccessful (upd_common f s) = st_LastSuccessful s"
  "st_RolloutHistory (upd_common f s) = st_RolloutHistory s"
  "st_ValidationResult (upd_common f s) = st_ValidationResult s"
  "st_ValidationProcessGroupID (upd_common f s) = st_ValidationProcessGroupID s"
  "st_ValidationPhase (upd_common f s) = st_ValidationPhase s"
  "st_ValidationStartedAt (upd_common f s) = st_ValidationStartedAt s"
  by (simp_all add: upd_common_def)

lemma upd_active_simps [simp]:
  "st_Common (upd_active f s) = st_Common s" "st_DeployedVersion (upd_active f s) = st_DeployedVersion s"
  "st_ArtifactDigest (upd_active f s) = st_ArtifactDigest s"
  "st_ProcessGroupID (upd_active f s) = st_ProcessGroupID s"
  "st_RetiringProcessGroupID (upd_active f s) = st_RetiringProcessGroupID s"
  "st_SyncState (upd_active f s) = st_SyncState s"
  "st_LatestReplaceRequest (upd_active f s) = st_LatestReplaceRequest s"
  "st_ActiveRollout (upd_active f s) = map_option f (st_ActiveRollout s)"
  "st_LastRollback (upd_active f s) = st_LastRollback s"
  "st_LastSuccessful (upd_active f s) = st_LastSuccessful s"
  "st_RolloutHistory (upd_active f s) = st_RolloutHistory s"
  "st_ValidationProcessGroupID (upd_active f s) = st_ValidationProcessGroupID s"
  by (simp_all add: upd_active_def)

section \<open>Helpers of phase1\_controllers.go\<close>

definition processGroupEntityID :: "ProcessGroupEntity \<Rightarrow> string" where
  "processGroupEntityID entity = (if pg_ID entity \<noteq> '''' then pg_ID entity else pgc_ID (pg_Component entity))"

definition componentReferenceID :: "string option \<Rightarrow> string" where
  "componentReferenceID ref = (case ref of None \<Rightarrow> '''' | Some i \<Rightarrow> i)"

definition flowDeploymentStatusMatches ::
  "NiFiFlowDeployment \<Rightarrow> string \<Rightarrow> int \<Rightarrow> string \<Rightarrow> string \<Rightarrow> string \<Rightarrow> bool" where
  "flowDeploymentStatusMatches instance processGroupID revisionVersion deployedVersion artifactDigest syncState \<longleftrightarrow>
     (let st = fd_Status instance; c = st_Common st in
      cs_ObservedGeneration c = fd_Generation instance \<and> cs_Ready c \<and> dp_Ready (cs_Dependencies c) \<and>
      cs_NiFiID c = processGroupID \<and> st_ProcessGroupID st = processGroupID \<and>
      rv_Version (cs_Revision c) = revisionVersion \<and> st_DeployedVersion st = deployedVersion \<and>
      st_ArtifactDigest st = artifactDigest \<and> st_SyncState st = syncState)"

definition shouldMarkNotReady :: "int \<Rightarrow> CommonStatus \<Rightarrow> string \<Rightarrow> string \<Rightarrow> bool" where
  "shouldMarkNotReady generation c reason message \<longleftrightarrow>
     (if cs_ObservedGeneration c \<noteq> generation \<or> cs_Ready c \<or> sy_LastError (cs_Sync c) \<noteq> message then True
      else case find_condition ConditionReady (cs_Conditions c) of
             Some condition \<Rightarrow> cd_Reason condition \<noteq> reason
           | None \<Rightarrow> True)"

definition shouldMarkFlowDeploymentNotReady :: "NiFiFlowDeployment \<Rightarrow> string \<Rightarrow> string \<Rightarrow> bool" where
  "shouldMarkFlowDeploymentNotReady instance reason message \<longleftrightarrow>
     shouldMarkNotReady (fd_Generation instance) (st_Common (fd_Status instance)) reason message"

section \<open>Reports of support.go\<close>

definition markFlowDeploymentReady ::
  "fenv \<Rightarrow> string \<Rightarrow> int \<Rightarrow> string \<Rightarrow> string \<Rightarrow> string \<Rightarrow> go_error option fhandler" where
  "markFlowDeploymentReady E processGroupID revisionVersion deployedVersion artifactDigest syncState = do {
     t \<leftarrow> now E;
     upd_obj (\<lambda>d. upd_st (\<lambda>st. st\<lparr>
        st_Common := set_last_error '''' (set_revision_version revisionVersion
           ((MarkReady t (fd_Generation d) ''FlowDeploymentReady''
              ''The NiFi flow deployment target is reconciled.'' (st_Common st))\<lparr>cs_NiFiID := processGroupID\<rparr>)),
        st_ProcessGroupID := processGroupID, st_DeployedVersion := deployedVersion,
        st_ArtifactDigest := artifactDigest, st_SyncState := syncState\<rparr>) d);
     StatusUpdate E }"

definition markFlowDeploymentSnapshotImported ::
  "fenv \<Rightarrow> string \<Rightarrow> int \<Rightarrow> string \<Rightarrow> string \<Rightarrow> go_error option fhandler" where
  "markFlowDeploymentSnapshotImported E processGroupID revisionVersion deployedVersion artifactDigest = do {
     t \<leftarrow> now E;
     upd_obj (\<lambda>d. upd_st (\<lambda>st. st\<lparr>
        st_Common := set_last_error '''' (set_revision_version revisionVersion
           ((set_deps True [] (MarkNotReady t (fd_Generation d) ''SnapshotMetadataPending''
              ''The full flow snapshot is imported; target metadata is pending reconciliation.'' (st_Common st)))
            \<lparr>cs_NiFiID := processGroupID\<rparr>)),
        st_ProcessGroupID := processGroupID, st_DeployedVersion := deployedVersion,
        st_ArtifactDigest := artifactDigest, st_SyncState := ''MetadataPending'',
        st_LatestReplaceRequest := None\<rparr>) d);
     StatusUpdate E }"

definition not_ready_common :: "go_time \<Rightarrow> int \<Rightarrow> string \<Rightarrow> string \<Rightarrow> CommonStatus \<Rightarrow> CommonStatus" where
  "not_ready_common t g reason message c = set_last_error message (set_deps True [] (MarkNotReady t g reason message c))"

definition markFlowDeploymentNotReady :: "fenv \<Rightarrow> string \<Rightarrow> string \<Rightarrow> go_error option fhandler" where
  "markFlowDeploymentNotReady E reason message = do {
     t \<leftarrow> now E;
     upd_obj (\<lambda>d. upd_st (upd_common (not_ready_common t (fd_Generation d) reason message)) d);
     StatusUpdate E }"

definition markFlowDeploymentReplaceRunning :: "fenv \<Rightarrow> FlowReplaceRequestStatus \<Rightarrow> go_error option fhandler" where
  "markFlowDeploymentReplaceRunning E request = do {
     t \<leftarrow> now E;
     upd_obj (\<lambda>d. upd_st (\<lambda>st. st\<lparr>
        st_Common := set_last_error '''' (set_deps True [] (MarkNotReady t (fd_Generation d)
           ''FlowReplaceRunning'' ''NiFi is replacing the deployed flow contents.'' (st_Common st))),
        st_LatestReplaceRequest := Some request, st_SyncState := ''Replacing''\<rparr>) d);
     StatusUpdate E }"

definition markFlowDeploymentWaitingForDependencies :: "fenv \<Rightarrow> string list \<Rightarrow> go_error option fhandler" where
  "markFlowDeploymentWaitingForDependencies E waitingFor = do {
     t \<leftarrow> now E;
     upd_obj (\<lambda>d. upd_st (upd_common (MarkWaitingForDependencies t (fd_Generation d) waitingFor)) d);
     StatusUpdate E }"

definition snapshotDeploymentFailed :: "fenv \<Rightarrow> string \<Rightarrow> go_error \<Rightarrow> outcome fhandler" where
  "snapshotDeploymentFailed E reason failure = do {
     d \<leftarrow> get_obj;
     if shouldMarkFlowDeploymentNotReady d reason (err_text failure) then do {
       r \<leftarrow> markFlowDeploymentNotReady E reason (err_text failure);
       (case r of Some err \<Rightarrow> ret (no_result, Some err)
        | None \<Rightarrow> ret (requeue_after 30, None)) }
     else ret (requeue_after 30, None) }"

section \<open>The not-ready report as a protocol\<close>

text \<open>
  Every controller reports a failure with the same pair: a guard \<open>should\<close> and a write \<open>report\<close>
  that the guard admits. The write must silence the guard for the same failure, show the failure,
  and be admitted again for any other failure.
\<close>

locale not_ready_report =
  fixes should :: "int \<Rightarrow> 's \<Rightarrow> string \<Rightarrow> string \<Rightarrow> bool"
    and report :: "go_time \<Rightarrow> int \<Rightarrow> string \<Rightarrow> string \<Rightarrow> 's \<Rightarrow> 's"
    and ready :: "'s \<Rightarrow> bool"
    and last_error :: "'s \<Rightarrow> string"
  assumes report_silences: "\<not> should g (report t g reason message s) reason message"
    and report_not_ready: "\<not> ready (report t g reason message s)"
    and report_message: "last_error (report t g reason message s) = message"
    and quiet_means_reported: "\<not> should g s reason message \<Longrightarrow> \<not> ready s \<and> last_error s = message"
    and other_generation: "g' \<noteq> g \<Longrightarrow> should g' (report t g reason message s) reason' message'"
begin

definition step :: "go_time \<Rightarrow> int \<Rightarrow> string \<times> string \<Rightarrow> 's \<Rightarrow> 's" where
  "step t g failure s = (if should g s (fst failure) (snd failure) then report t g (fst failure) (snd failure) s else s)"

lemma step_reports:
  "\<not> ready (step t g (reason, message) s)" "last_error (step t g (reason, message) s) = message"
  using quiet_means_reported by (auto simp: step_def report_not_ready report_message)

lemma step_idem: "step t' g failure (step t g failure s) = step t g failure s"
  using report_silences by (simp add: step_def)

lemma changed_message_reported: "message' \<noteq> message \<Longrightarrow> should g (report t g reason message s) reason' message'"
  using quiet_means_reported report_message by metis

lemma repeat_quiet: "fold (\<lambda>t. step t g failure) ts (step t g failure s) = step t g failure s"
  by (induction ts) (simp_all add: step_idem)

end

lemma not_ready_common_simps [simp]:
  "cs_Ready (not_ready_common t g reason message c) = False"
  "cs_ObservedGeneration (not_ready_common t g reason message c) = g"
  "sy_LastError (cs_Sync (not_ready_common t g reason message c)) = message"
  "cs_NiFiID (not_ready_common t g reason message c) = cs_NiFiID c"
  by (simp_all add: not_ready_common_def MarkNotReady_def Let_def)

lemma not_ready_common_condition:
  "\<exists>cd. find_condition ConditionReady (cs_Conditions (not_ready_common t g reason message c)) = Some cd \<and>
        cd_Reason cd = reason \<and> cd_Status cd = ConditionFalse"
  by (simp add: not_ready_common_def MarkNotReady_def Let_def condition_type_defs)

interpretation report: not_ready_report shouldMarkNotReady not_ready_common cs_Ready "\<lambda>c. sy_LastError (cs_Sync c)"
proof unfold_locales
  fix g t reason message s
  show "\<not> shouldMarkNotReady g (not_ready_common t g reason message s) reason message"
    using not_ready_common_condition [of t g reason message s] by (auto simp: shouldMarkNotReady_def)
qed (auto simp: shouldMarkNotReady_def split: if_splits)

end
