(* ===== verification/Flow_Sample.thy ===== *)
theory Flow_Sample
  imports Flow_Marks
begin

text \<open>
  A concrete NiFi, API server and deployment on which the witnesses of the flow deployment theories
  evaluate the model: every call is acknowledged, every read returns a small entity.
\<close>

definition sample_pg :: "string \<Rightarrow> ProcessGroupEntity" where
  "sample_pg i = \<lparr>pg_ID = i, pg_Revision = \<lparr>re_Version = 3\<rparr>,
     pg_Component = \<lparr>pgc_ID = i, pgc_ParentGroupID = ''root'', pgc_Name = ''etl'', pgc_Comments = '''',
       pgc_Position = None, pgc_ParameterContext = None\<rparr>,
     pg_RunningCount = 1, pg_StoppedCount = 0, pg_InvalidCount = 0, pg_DisabledCount = 0\<rparr>"

definition sample_connection :: ConnectionComponent where
  "sample_connection = \<lparr>cc_ID = ''c1'', cc_ParentGroupID = ''root'',
     cc_Source = \<lparr>cn_ID = ''p1'', cn_Type = ''PROCESSOR'', cn_GroupID = ''root''\<rparr>,
     cc_Destination = \<lparr>cn_ID = ''in1'', cn_Type = ''INPUT_PORT'', cn_GroupID = ''blue''\<rparr>,
     cc_SelectedRelationships = [''success''], cc_BackPressureObjectThreshold = 10000,
     cc_BackPressureDataSizeThreshold = ''1 GB'', cc_FlowFileExpiration = ''0 sec'', cc_Prioritizers = [],
     cc_Bends = [], cc_LoadBalanceStrategy = '''', cc_LoadBalancePartitionAttribute = ''''\<rparr>"

definition sample_request :: ProcessGroupReplaceRequest where
  "sample_request = \<lparr>rr_RequestID = ''r1'', rr_Complete = False, rr_FailureReason = '''',
     rr_PercentCompleted = 0, rr_State = ''''\<rparr>"

definition sample_cluster :: NiFiCluster where
  "sample_cluster = \<lparr>cl_Name = ''nifi'', cl_Namespace = ''ns'', cl_Deleting = False, cl_Ready = True,
     cl_Endpoint = ''https://nifi'', cl_RootProcessGroupID = ''root'', cl_APIURI = None\<rparr>"

definition sample_source :: FlowBundleSource where
  "sample_source = \<lparr>fb_Git = None, fb_OCI = None, fb_Registry = None, fb_Snapshot = Some ''{}''\<rparr>"

definition sample_env :: fenv where
  "sample_env = \<lparr>fe_Now = (\<lambda>_. 0), fe_json = sample_codec,
     fe_MarshalConnection = (\<lambda>_. Inr ''connection''), fe_UnmarshalConnection = (\<lambda>_. Inr sample_connection),
     fe_HasScheme = True, fe_SetControllerReference = (\<lambda>_ _. None),
     fe_GetProcessGroup = (\<lambda>i _. Inr (Some (sample_pg i))),
     fe_CreateProcessGroup = (\<lambda>_ _ _. Inr (Some (sample_pg ''new''))),
     fe_UpdateProcessGroup = (\<lambda>e _. Inr (Some e)), fe_DeleteProcessGroup = (\<lambda>_ _ _. None),
     fe_ImportProcessGroup = (\<lambda>_ _ _. Inr (Some (sample_pg ''green''))),
     fe_CreateReplaceRequest = (\<lambda>_ _ _ _. Inr (Some sample_request)),
     fe_GetReplaceRequest = (\<lambda>_ _. Inr (Some sample_request)), fe_DeleteReplaceRequest = (\<lambda>_ _. None),
     fe_DownloadProcessGroup = (\<lambda>_ _. Inr ''1 sec''), fe_ScheduleProcessGroup = (\<lambda>_ _ _. None),
     fe_ListConnections = (\<lambda>_ _. Inr [\<lparr>ce_ID = ''c1'', ce_Revision = \<lparr>re_Version = 1\<rparr>, ce_Component = sample_connection\<rparr>]),
     fe_ListInputPorts = (\<lambda>_ _. Inr [\<lparr>pt_ID = ''in1'', pt_Revision = \<lparr>re_Version = 1\<rparr>, pt_Component = \<lparr>ptc_ID = ''in1'', ptc_ParentGroupID = ''blue'', ptc_Name = ''in'',
         ptc_Position = None, ptc_State = ''RUNNING'', ptc_ConcurrentlySchedulableTaskCount = 1, ptc_ValidationStatus = ''VALID''\<rparr>\<rparr>]),
     fe_ListOutputPorts = (\<lambda>_ _. Inr []),
     fe_GetConnection = (\<lambda>i _. Inr (Some \<lparr>ce_ID = i, ce_Revision = \<lparr>re_Version = 1\<rparr>, ce_Component = sample_connection\<rparr>)),
     fe_CreateConnection = (\<lambda>_ e _. Inr (Some (e\<lparr>ce_ID := ''c2''\<rparr>))), fe_DeleteConnection = (\<lambda>_ _ _. None),
     fe_QueueCount = (\<lambda>_ _. Inr 0), fe_DropQueue = (\<lambda>_ _. None), fe_SetRunStatus = (\<lambda>_ _ _ _. None),
     fe_EnableControllerServices = (\<lambda>_ _. None),
     fe_InspectValidation = (\<lambda>_ _. Inr \<lparr>vr_Invalid = [], vr_ValidatingCount = 0, vr_Total = 2\<rparr>),
     fe_SetControllerServicesState = (\<lambda>_ _ _. None), fe_ListChildProcessGroups = (\<lambda>_ _. Inr []),
     fe_StatusUpdate = (\<lambda>_ _. None), fe_Update = (\<lambda>_ _. None),
     fe_GetFlowDeployment = (\<lambda>_. Inl (GoErr NotFound ''not found'')),
     fe_GetConfigMap = (\<lambda>_ _ _. Inl (GoErr NotFound ''not found'')),
     fe_CreateConfigMap = (\<lambda>_ _. None), fe_DeleteConfigMap = (\<lambda>_ _ _. None),
     fe_GetCluster = (\<lambda>_ _ _. Inr sample_cluster), fe_ConfigureClusterHTTPClient = (\<lambda>_ _. None),
     fe_GetParameterContext = (\<lambda>_ _ _. Inr \<lparr>no_Ready = True, no_NiFiID = ''pc''\<rparr>),
     fe_GetProcessGroupObject = (\<lambda>_ _ _. Inr \<lparr>no_Ready = True, no_NiFiID = ''parent''\<rparr>),
     fe_GetRegistryClient = (\<lambda>_ _ _. Inr \<lparr>no_Ready = True, no_NiFiID = ''rc''\<rparr>),
     fe_GetFlowBundle = (\<lambda>_ _ _. Inl (GoErr NotFound ''not found'')),
     fe_ResolveFlowArtifact = (\<lambda>_ _ _ _. Inr (''1 sec'', ''v1'', ''sha256:aa''))\<rparr>"

definition sample_common :: CommonStatus where
  "sample_common = \<lparr>cs_ObservedGeneration = 1, cs_Ready = False, cs_NiFiID = '''',
     cs_Revision = \<lparr>rv_Version = 0, rv_ClientID = ''''\<rparr>, cs_Conditions = [],
     cs_Dependencies = \<lparr>dp_Ready = True, dp_WaitingFor = []\<rparr>,
     cs_Drift = \<lparr>dr_Status = '''', dr_LastDetectedTime = None, dr_Differences = []\<rparr>,
     cs_Sync = \<lparr>sy_LastAttemptTime = None, sy_LastSuccessfulTime = None, sy_LastError = ''''\<rparr>\<rparr>"

definition sample_status :: NiFiFlowDeploymentStatus where
  "sample_status = \<lparr>st_Common = sample_common, st_DeployedVersion = ''v0'', st_ArtifactDigest = ''sha256:00'',
     st_DesiredContentDigest = '''', st_LiveContentDigest = '''', st_ProcessGroupID = ''blue'',
     st_RetiringProcessGroupID = '''', st_SyncState = '''', st_LatestReplaceRequest = None,
     st_ActiveRollout = None, st_LastRollback = None, st_LastSuccessful = None, st_RolloutHistory = [],
     st_ValidationResult = None, st_ValidationProcessGroupID = '''', st_ValidationPhase = '''',
     st_ValidationStartedAt = None\<rparr>"

definition sample_rollout :: RolloutStrategy where
  "sample_rollout = \<lparr>rs_Strategy = '''', rs_BlueGreen = None, rs_Readiness = None, rs_QueuePolicy = None,
     rs_Retry = None, rs_Cancel = False\<rparr>"

definition sample_spec :: NiFiFlowDeploymentSpec where
  "sample_spec = \<lparr>fsp_ClusterRef = \<lparr>cr_Name = ''nifi'', cr_Namespace = ''''\<rparr>,
     fsp_Source = \<lparr>fs_BundleRef = None, fs_Version = '''', fs_Inline = Some sample_source\<rparr>,
     fsp_Target = \<lparr>ft_ParentProcessGroupRef = \<lparr>pr_Name = '''', pr_Namespace = '''', pr_Root = True\<rparr>,
                   ft_ProcessGroupName = ''etl''\<rparr>,
     fsp_ParameterContextRef = None, fsp_ValidateOnly = False, fsp_Rollout = sample_rollout,
     fsp_Rollback = \<lparr>rb_Enabled = True, rb_OnFailure = '''', rb_HistoryLimit = 5\<rparr>,
     fsp_Ownership = \<lparr>ow_Mode = '''', ow_Prune = False\<rparr>, fsp_DeletionPolicy = '''',
     fsp_DriftPolicy = \<lparr>dpol_Mode = '''', dpol_IgnoreFields = []\<rparr>,
     fsp_AdoptionPolicy = \<lparr>ap_Mode = '''', ap_NiFiID = '''', ap_RequireAnnotation = False, ap_ReviewBeforeMutate = False\<rparr>,
     fsp_ReconciliationPaused = False\<rparr>"

definition sample_deployment :: NiFiFlowDeployment where
  "sample_deployment = \<lparr>fd_Name = ''demo'', fd_Namespace = ''ns'', fd_Generation = 1, fd_Deleting = False,
     fd_Finalizers = [], fd_Spec = sample_spec, fd_Status = sample_status\<rparr>"

lemmas sample_defs = sample_pg_def sample_connection_def sample_request_def sample_cluster_def sample_source_def
  sample_env_def sample_common_def sample_status_def sample_rollout_def sample_spec_def sample_deployment_def

definition start :: "NiFiFlowDeployment \<Rightarrow> (fcall, NiFiFlowDeployment) rstate" where
  "start d = \<lparr>calls = [], obj = d\<rparr>"

lemma start_simps [simp]: "calls (start d) = []" "obj (start d) = d"
  by (simp_all add: start_def)

end
