(* ===== verification/Flow_History.thy ===== *)
theory Flow_History
  imports Flow_Sample
begin

text \<open>
  The deployment history (\<open>internal/controller/flow_deployment_history.go\<close>): every successful or
  failed rollout appends an entry, the snapshot of each target is kept in a ConfigMap named after
  the artifact digest, and trimming the history deletes the ConfigMaps nothing refers to any more.
\<close>

section \<open>Operations\<close>

definition flowSnapshotDataKey :: string where
  "flowSnapshotDataKey = ''flow.json''"

definition resolvedRolloutStrategy :: "NiFiFlowDeployment \<Rightarrow> string" where
  "resolvedRolloutStrategy deployment =
     (if rs_Strategy (fsp_Rollout (fd_Spec deployment)) = '''' then ''ApplyOnly''
      else rs_Strategy (fsp_Rollout (fd_Spec deployment)))"

definition flowArtifactLabelValue :: "string \<Rightarrow> string" where
  "flowArtifactLabelValue digest =
     (let value = ReplaceChar CHR '':'' CHR ''-'' (TrimPrefix (ToLower digest) ''sha256:'')
      in if value = '''' then ''unknown'' else if length value > 63 then take 63 value else value)"

definition flowDeploymentHistoryConfigMapName :: "string \<Rightarrow> string \<Rightarrow> string" where
  "flowDeploymentHistoryConfigMapName deploymentName digest =
     (let suffix = flowArtifactLabelValue digest;
          suffix = (if length suffix > 12 then take 12 suffix else suffix);
          maxBase = 63 - length ''-history-'' - length suffix;
          name = (if length deploymentName > maxBase then TrimRight (take maxBase deploymentName) ''-''
                  else deploymentName)
      in name @ ''-history-'' @ suffix)"

definition appendHistoryEntry ::
  "FlowDeploymentHistory list \<Rightarrow> FlowDeploymentHistory \<Rightarrow> FlowDeploymentHistory list" where
  "appendHistoryEntry history entry =
     (if history \<noteq> [] \<and>
         (let l = last history in fh_Version l = fh_Version entry \<and> fh_Digest l = fh_Digest entry \<and>
            fh_Result l = fh_Result entry \<and> fh_Reason l = fh_Reason entry)
      then history else history @ [entry])"

definition namespaced :: "string \<Rightarrow> string \<Rightarrow> string" where
  \<comment> \<open>\<open>types.NamespacedName.String\<close>\<close>
  "namespaced ns name = ns @ ''/'' @ name"

definition history_config_map :: "NiFiFlowDeployment \<Rightarrow> string \<Rightarrow> string \<Rightarrow> ConfigMap" where
  "history_config_map deployment snapshot digest =
     \<lparr>cm_Name = flowDeploymentHistoryConfigMapName (fd_Name deployment) digest,
      cm_Namespace = fd_Namespace deployment,
      cm_Labels = [(''app.kubernetes.io/managed-by'', ''nificontrol''),
                   (''nifi.controlnifi.io/flow-deployment'', fd_Name deployment),
                   (''nifi.controlnifi.io/flow-artifact-checksum'', flowArtifactLabelValue digest)],
      cm_Data = [(flowSnapshotDataKey, snapshot)]\<rparr>"

definition persistFlowDeploymentSnapshot :: "fenv \<Rightarrow> string \<Rightarrow> string \<Rightarrow> string go_result fhandler" where
  "persistFlowDeploymentSnapshot E snapshot digest = do {
     deployment \<leftarrow> get_obj;
     let name = flowDeploymentHistoryConfigMapName (fd_Name deployment) digest;
     r \<leftarrow> GetConfigMap E (fd_Namespace deployment) name;
     (case r of
        Inl err \<Rightarrow>
          (if IsNotFound err then
             (let configMap = history_config_map deployment snapshot digest in
              if \<not> fe_HasScheme E then ret (Inl (errorf ''controller scheme is required to persist flow history''))
              else case fe_SetControllerReference E deployment configMap of
                Some e \<Rightarrow> ret (Inl e)
              | None \<Rightarrow> do {
                  c \<leftarrow> CreateConfigMap E configMap;
                  (case c of Some e \<Rightarrow> ret (Inl (wrapf ''create flow history ConfigMap: '' e))
                   | None \<Rightarrow> ret (Inr name)) })
           else ret (Inl err))
      | Inr configMap \<Rightarrow>
          (if cm_data configMap flowSnapshotDataKey \<noteq> snapshot
           then ret (Inl (errorf (''flow history ConfigMap '' @ namespaced (fd_Namespace deployment) name @
                  '' contains a different snapshot for digest '' @ digest)))
           else ret (Inr name))) }"

definition recordSuccessfulFlowDeployment ::
  "fenv \<Rightarrow> string \<Rightarrow> string \<Rightarrow> string \<Rightarrow> string \<Rightarrow> go_error option fhandler" where
  "recordSuccessfulFlowDeployment E snapshot version digest result = do {
     r \<leftarrow> persistFlowDeploymentSnapshot E snapshot digest;
     (case r of
        Inl err \<Rightarrow> ret (Some err)
      | Inr configMapName \<Rightarrow> do {
          t \<leftarrow> now E;
          upd_obj (\<lambda>d. let entry = \<lparr>fh_Version = version, fh_Digest = digest, fh_SnapshotConfigMap = configMapName,
                fh_Strategy = resolvedRolloutStrategy d, fh_Result = result, fh_Reason = '''', fh_DeployedAt = t\<rparr>
             in upd_st (\<lambda>st. st\<lparr>st_RolloutHistory := appendHistoryEntry (st_RolloutHistory st) entry,
                              st_LastSuccessful := Some entry\<rparr>) d);
          ret None }) }"

definition recordFailedFlowDeployment ::
  "fenv \<Rightarrow> string \<Rightarrow> string \<Rightarrow> string \<Rightarrow> string \<Rightarrow> unit fhandler" where
  "recordFailedFlowDeployment E version digest snapshotConfigMap reason = do {
     t \<leftarrow> now E;
     upd_obj (\<lambda>d. upd_st (\<lambda>st. st\<lparr>st_RolloutHistory := appendHistoryEntry (st_RolloutHistory st)
        \<lparr>fh_Version = version, fh_Digest = digest, fh_SnapshotConfigMap = snapshotConfigMap,
         fh_Strategy = resolvedRolloutStrategy d, fh_Result = ''Failed'', fh_Reason = reason, fh_DeployedAt = t\<rparr>\<rparr>) d) }"

definition retained_config_maps :: "NiFiFlowDeploymentStatus \<Rightarrow> string list" where
  "retained_config_maps st =
     filter (\<lambda>n. n \<noteq> '''') (map fh_SnapshotConfigMap (st_RolloutHistory st) @
        (case st_LastSuccessful st of Some h \<Rightarrow> [fh_SnapshotConfigMap h] | None \<Rightarrow> []))"

fun delete_config_maps :: "fenv \<Rightarrow> string \<Rightarrow> string list \<Rightarrow> FlowDeploymentHistory list \<Rightarrow> unit fhandler" where
  "delete_config_maps E ns retained [] = ret ()"
| "delete_config_maps E ns retained (item # rest) =
     (if fh_SnapshotConfigMap item = '''' \<or> fh_SnapshotConfigMap item \<in> set retained
      then delete_config_maps E ns retained rest
      else do { _ \<leftarrow> DeleteConfigMap E ns (fh_SnapshotConfigMap item); delete_config_maps E ns retained rest })"

definition history_limit :: "NiFiFlowDeployment \<Rightarrow> nat" where
  "history_limit d = (let l = rb_HistoryLimit (fsp_Rollback (fd_Spec d)) in if l \<le> 0 then 5 else nat l)"

definition trimFlowDeploymentHistory :: "fenv \<Rightarrow> unit fhandler" where
  "trimFlowDeploymentHistory E = do {
     deployment \<leftarrow> get_obj;
     let history = st_RolloutHistory (fd_Status deployment);
     let surplus = length history - history_limit deployment;
     (if length history \<le> history_limit deployment then ret ()
      else do {
        upd_obj (upd_st (\<lambda>st. st\<lparr>st_RolloutHistory := drop surplus history\<rparr>));
        deployment' \<leftarrow> get_obj;
        delete_config_maps E (fd_Namespace deployment) (retained_config_maps (fd_Status deployment')) (take surplus history) }) }"

definition flowDeploymentSnapshotFromConfigMap :: "fenv \<Rightarrow> string \<Rightarrow> string \<Rightarrow> string go_result fhandler" where
  "flowDeploymentSnapshotFromConfigMap E namespace name = do {
     r \<leftarrow> GetConfigMap E namespace name;
     ret (case r of
        Inl err \<Rightarrow> Inl (wrapf (''read flow snapshot ConfigMap '' @ namespaced namespace name @ '': '') err)
      | Inr configMap \<Rightarrow>
          (let snapshot = cm_data configMap flowSnapshotDataKey in
           if TrimSpace snapshot = ''''
           then Inl (errorf (''flow snapshot ConfigMap '' @ namespaced namespace name @ '' has no '' @ flowSnapshotDataKey @ '' entry''))
           else Inr snapshot)) }"

definition rollbackSnapshot :: "fenv \<Rightarrow> (string \<times> FlowDeploymentHistory) go_result fhandler" where
  "rollbackSnapshot E = do {
     deployment \<leftarrow> get_obj;
     (case st_LastSuccessful (fd_Status deployment) of
        None \<Rightarrow> ret (Inl (errorf ''no successful flow snapshot is available for rollback''))
      | Some history \<Rightarrow>
          (if fh_SnapshotConfigMap history = ''''
           then ret (Inl (errorf ''no successful flow snapshot is available for rollback''))
           else do {
             r \<leftarrow> flowDeploymentSnapshotFromConfigMap E (fd_Namespace deployment) (fh_SnapshotConfigMap history);
             ret (case r of Inl err \<Rightarrow> Inl err | Inr snapshot \<Rightarrow> Inr (snapshot, history)) })) }"

section \<open>Lemmas\<close>

lemma length_flowArtifactLabelValue: "length (flowArtifactLabelValue d) \<le> 63" "flowArtifactLabelValue d \<noteq> ''''"
  by (auto simp: flowArtifactLabelValue_def Let_def)

lemma wp_delete_config_maps:
  "wp (delete_config_maps E ns retained items)
     (\<lambda>_ s'. obj s' = obj s \<and> calls s' = calls s @ map (\<lambda>h. CDeleteConfigMap ns (fh_SnapshotConfigMap h))
        (filter (\<lambda>h. fh_SnapshotConfigMap h \<noteq> '''' \<and> fh_SnapshotConfigMap h \<notin> set retained) items)) s"
proof (induction items arbitrary: s)
  case Nil
  then show ?case by (simp add: wp_simps)
next
  case (Cons h items)
  show ?case
    using Cons [of s] Cons [of "s\<lparr>calls := calls s @ [CDeleteConfigMap ns (fh_SnapshotConfigMap h)]\<rparr>"]
    by (auto simp: wp_simps elim: wp_mono)
qed

text \<open>What trimming does, in one equation: the newest entries stay, and the ConfigMaps that were
  only referenced by dropped entries are deleted.\<close>

definition trimmed :: "NiFiFlowDeployment \<Rightarrow> NiFiFlowDeployment" where
  "trimmed d = upd_st (\<lambda>st. st\<lparr>st_RolloutHistory :=
      drop (length (st_RolloutHistory st) - history_limit d) (st_RolloutHistory st)\<rparr>) d"

definition trim_deletes :: "NiFiFlowDeployment \<Rightarrow> string list" where
  "trim_deletes d = filter (\<lambda>n. n \<noteq> '''' \<and> n \<notin> set (retained_config_maps (fd_Status (trimmed d))))
     (map fh_SnapshotConfigMap (take (length (st_RolloutHistory (fd_Status d)) - history_limit d) (st_RolloutHistory (fd_Status d))))"

lemma filter_map_names: "map (CDeleteConfigMap ns) (filter P (map fh_SnapshotConfigMap xs)) =
    map (\<lambda>h. CDeleteConfigMap ns (fh_SnapshotConfigMap h)) (filter (\<lambda>h. P (fh_SnapshotConfigMap h)) xs)"
  by (induction xs) auto

lemma wp_trim [wp_simps]:
  "wp (trimFlowDeploymentHistory E) Q s \<longleftrightarrow>
     Q () (s\<lparr>obj := trimmed (obj s), calls := calls s @ map (CDeleteConfigMap (fd_Namespace (obj s))) (trim_deletes (obj s))\<rparr>)"
proof (cases "length (st_RolloutHistory (fd_Status (obj s))) \<le> history_limit (obj s)")
  case True
  then have "trimmed (obj s) = obj s" "trim_deletes (obj s) = []"
    by (simp_all add: trimmed_def trim_deletes_def upd_st_def)
  then show ?thesis
    using True by (simp add: trimFlowDeploymentHistory_def wp_simps Let_def)
next
  case False
  let ?s = "s\<lparr>obj := trimmed (obj s)\<rparr>"
  let ?m = "delete_config_maps E (fd_Namespace (obj s)) (retained_config_maps (fd_Status (trimmed (obj s))))
     (take (length (st_RolloutHistory (fd_Status (obj s))) - history_limit (obj s)) (st_RolloutHistory (fd_Status (obj s))))"
  obtain s' where r: "run_state ?m ?s = ((), s')" by (metis old.unit.exhaust surj_pair)
  from wp_run [OF wp_delete_config_maps r]
  have s': "obj s' = trimmed (obj s)"
    "calls s' = calls s @ map (CDeleteConfigMap (fd_Namespace (obj s))) (trim_deletes (obj s))"
    by (simp_all add: trim_deletes_def filter_map_names conj_commute)
  then have "s' = s\<lparr>obj := trimmed (obj s), calls := calls s @ map (CDeleteConfigMap (fd_Namespace (obj s))) (trim_deletes (obj s))\<rparr>"
    by (cases s') (cases s, simp)
  moreover have "upd_st (\<lambda>st. st\<lparr>st_RolloutHistory := drop (length (st_RolloutHistory (fd_Status (obj s))) - history_limit (obj s))
      (st_RolloutHistory (fd_Status (obj s)))\<rparr>) (obj s) = trimmed (obj s)"
    by (simp add: trimmed_def upd_st_def)
  ultimately show ?thesis
    using False r by (simp add: trimFlowDeploymentHistory_def wp_simps Let_def wp_def [of ?m])
qed

lemma dropped_names:
  "set (filter (\<lambda>m. m \<noteq> [] \<and> m \<notin> set (filter (\<lambda>n. n \<noteq> []) (map f (drop n h) @ extra))) (map f (take n h))) =
     {m \<in> f ` set h. m \<noteq> [] \<and> m \<notin> f ` set (drop n h) \<and> m \<notin> set extra}"
proof -
  have "set h = set (take n h) \<union> set (drop n h)" by (metis append_take_drop_id set_append)
  then show ?thesis by auto
qed

section \<open>Properties\<close>

text \<open>
  Trimming the deployment history keeps exactly the newest entries up to the limit, changes
  nothing else of the resource, and deletes exactly the snapshot ConfigMaps that only dropped
  entries referred to: none that a kept entry or the last successful deployment still needs.
\<close>

theorem trim_history_exact:
  "case run_state (trimFlowDeploymentHistory E) s of (_, s') \<Rightarrow>
     let h = st_RolloutHistory (fd_Status (obj s)); k = min (length h) (history_limit (obj s));
         h' = drop (length h - k) h
     in obj s' = upd_st (\<lambda>st. st\<lparr>st_RolloutHistory := h'\<rparr>) (obj s) \<and> length h' = k \<and>
        (\<exists>names. calls s' = calls s @ map (CDeleteConfigMap (fd_Namespace (obj s))) names \<and>
           set names = {n \<in> fh_SnapshotConfigMap ` set h. n \<noteq> '''' \<and> n \<notin> fh_SnapshotConfigMap ` set h' \<and>
                          (\<forall>l. st_LastSuccessful (fd_Status (obj s)) = Some l \<longrightarrow> fh_SnapshotConfigMap l \<noteq> n)})"
proof -
  let ?h = "st_RolloutHistory (fd_Status (obj s))"
  let ?k = "min (length ?h) (history_limit (obj s))"
  have k: "length ?h - history_limit (obj s) = length ?h - ?k" by simp
  have t: "trimmed (obj s) = upd_st (\<lambda>st. st\<lparr>st_RolloutHistory := drop (length ?h - ?k) ?h\<rparr>) (obj s)"
    by (simp add: trimmed_def upd_st_def k)
  have td: "trim_deletes (obj s) = filter (\<lambda>m. m \<noteq> [] \<and> m \<notin> set (filter (\<lambda>n. n \<noteq> [])
      (map fh_SnapshotConfigMap (drop (length ?h - ?k) ?h) @
       (case st_LastSuccessful (fd_Status (obj s)) of Some h \<Rightarrow> [fh_SnapshotConfigMap h] | None \<Rightarrow> []))))
      (map fh_SnapshotConfigMap (take (length ?h - ?k) ?h))"
    unfolding trim_deletes_def t k retained_config_maps_def by simp
  have names: "set (trim_deletes (obj s)) =
      {n \<in> fh_SnapshotConfigMap ` set ?h. n \<noteq> [] \<and> n \<notin> fh_SnapshotConfigMap ` set (drop (length ?h - ?k) ?h) \<and>
        (\<forall>l. st_LastSuccessful (fd_Status (obj s)) = Some l \<longrightarrow> fh_SnapshotConfigMap l \<noteq> n)}"
    unfolding td dropped_names by (cases "st_LastSuccessful (fd_Status (obj s))") auto
  have "wp (trimFlowDeploymentHistory E) (\<lambda>_ s'. obj s' = trimmed (obj s) \<and>
      calls s' = calls s @ map (CDeleteConfigMap (fd_Namespace (obj s))) (trim_deletes (obj s))) s"
    by (simp add: wp_simps)
  then show ?thesis
    unfolding wp_def Let_def using names t by (auto split: prod.splits)
qed

theorem trim_history_exact_witness:
  "let h = (\<lambda>n. \<lparr>fh_Version = n, fh_Digest = n, fh_SnapshotConfigMap = n, fh_Strategy = '''', fh_Result = '''', fh_Reason = '''', fh_DeployedAt = 0\<rparr>);
       d = upd_st (\<lambda>st. st\<lparr>st_RolloutHistory := map h [''a'', ''b'', ''c'', ''d'', ''e'', ''a'', ''f'']\<rparr>) sample_deployment
   in \<exists>names. calls (snd (run_state (trimFlowDeploymentHistory sample_env) (start d))) = map (CDeleteConfigMap ''ns'') names \<and> set names = {''b''}"
proof -
  let ?h = "\<lambda>n. \<lparr>fh_Version = n, fh_Digest = n, fh_SnapshotConfigMap = n, fh_Strategy = '''', fh_Result = '''', fh_Reason = '''', fh_DeployedAt = 0\<rparr>"
  let ?d = "upd_st (\<lambda>st. st\<lparr>st_RolloutHistory := map ?h [''a'', ''b'', ''c'', ''d'', ''e'', ''a'', ''f'']\<rparr>) sample_deployment"
  have l: "history_limit ?d = 5" "st_LastSuccessful (fd_Status ?d) = None" "fd_Namespace ?d = ''ns''"
    by (simp_all add: history_limit_def sample_defs)
  have set: "{n. (n = ''a'' \<or> n = ''b'' \<or> n = ''c'' \<or> n = ''d'' \<or> n = ''e'' \<or> n = ''f'') \<and> n \<noteq> '''' \<and>
      n \<noteq> ''c'' \<and> n \<noteq> ''d'' \<and> n \<noteq> ''e'' \<and> n \<noteq> ''a'' \<and> n \<noteq> ''f''} = {''b''}" by auto
  show ?thesis
    using trim_history_exact [where E = sample_env and s = "start ?d"] l set
    by (cases "run_state (trimFlowDeploymentHistory sample_env) (start ?d)") (auto simp: Let_def)
qed

text \<open>
  The name of a snapshot ConfigMap fits the 63 characters of a Kubernetes label, whatever the
  deployment's name and the digest.
\<close>

theorem history_name_bounded: "length (flowDeploymentHistoryConfigMapName name digest) \<le> 63"
proof -
  have "length (TrimRight (take m name) ''-'') \<le> m" for m
    using length_TrimRight [of "take m name" "''-''"] by simp
  from this [of "54 - length (flowArtifactLabelValue digest)"] this [of 42] show ?thesis
    by (auto simp: flowDeploymentHistoryConfigMapName_def Let_def)
qed

lemma persist_result:
  "wp (persistFlowDeploymentSnapshot E snapshot digest)
     (\<lambda>r s'. obj s' = obj s \<and> (\<forall>n. r = Inr n \<longrightarrow> n = flowDeploymentHistoryConfigMapName (fd_Name (obj s)) digest \<and>
        (\<forall>cm. fe_GetConfigMap E (fd_Namespace (obj s)) n (calls s) = Inr cm \<longrightarrow>
           cm_data cm flowSnapshotDataKey = snapshot))) s"
  by (auto simp: persistFlowDeploymentSnapshot_def wp_simps Let_def split: sum.split option.split)

lemma history_config_map_data [simp]: "cm_data (history_config_map d snapshot digest) flowSnapshotDataKey = snapshot"
  by (simp add: history_config_map_def cm_data_def)

lemma record_result:
  "wp (recordSuccessfulFlowDeployment E snapshot version digest result)
     (\<lambda>r s'. r = None \<longrightarrow> fd_Namespace (obj s') = fd_Namespace (obj s) \<and>
        (\<forall>cm. fe_GetConfigMap E (fd_Namespace (obj s)) (flowDeploymentHistoryConfigMapName (fd_Name (obj s)) digest) (calls s) = Inr cm \<longrightarrow>
           cm_data cm flowSnapshotDataKey = snapshot) \<and>
        (\<exists>entry. st_LastSuccessful (fd_Status (obj s')) = Some entry \<and> fh_Version entry = version \<and>
           fh_Digest entry = digest \<and> fh_SnapshotConfigMap entry = flowDeploymentHistoryConfigMapName (fd_Name (obj s)) digest)) s"
  unfolding recordSuccessfulFlowDeployment_def wp_bind
  by (rule wp_mono [OF persist_result]) (auto simp: wp_simps Let_def split: sum.split)

lemma history_name_nonempty [simp]: "flowDeploymentHistoryConfigMapName n d \<noteq> ''''"
  by (simp add: flowDeploymentHistoryConfigMapName_def Let_def)



end
