(* ===== verification/Flow_Rollout.thy ===== *)
theory Flow_Rollout
  imports Flow_History
begin

text \<open>
  In-place rollouts (\<open>internal/controller/flow_deployment_rollout.go\<close> and
  \<open>flow_deployment_readiness.go\<close>): the active-rollout record, preparation with its queue drain,
  the readiness gate, the retry budget, and the three reports that end a rollout (in sync, drifted,
  rolled back). A nil dereference, which controller-runtime turns into an error of the reconcile,
  is the outcome \<open>nil_panic\<close>.
\<close>

section \<open>The active rollout\<close>

definition nil_panic :: outcome where
  "nil_panic = (no_result, Some (errorf ''panic: invalid memory address or nil pointer dereference''))"

definition flowDriftCheckInterval :: int where
  \<comment> \<open>in seconds\<close>
  "flowDriftCheckInterval = 60"

definition rolloutRequeue :: ctrl_result where
  "rolloutRequeue = requeue_after flowDriftCheckInterval"

definition bgPhaseAwaitingReadiness :: string where
  "bgPhaseAwaitingReadiness = ''AwaitingReadiness''"

definition resolvedDriftPolicy :: "NiFiFlowDeployment \<Rightarrow> string" where
  "resolvedDriftPolicy deployment =
     (if dpol_Mode (fsp_DriftPolicy (fd_Spec deployment)) = '''' then ''Warn''
      else dpol_Mode (fsp_DriftPolicy (fd_Spec deployment)))"

abbreviation ignore_fields :: "NiFiFlowDeployment \<Rightarrow> string list" where
  "ignore_fields d \<equiv> dpol_IgnoreFields (fsp_DriftPolicy (fd_Spec d))"

definition new_rollout :: "go_time \<Rightarrow> NiFiFlowDeployment \<Rightarrow> string \<Rightarrow> string \<Rightarrow> string \<Rightarrow> FlowRolloutStatus" where
  "new_rollout t deployment version digest operation =
     \<lparr>ro_Phase = ''Preparing'', ro_Strategy = resolvedRolloutStrategy deployment, ro_Operation = operation,
      ro_TargetVersion = version, ro_TargetDigest = digest,
      ro_PreviousVersion = st_DeployedVersion (fd_Status deployment),
      ro_PreviousDigest = st_ArtifactDigest (fd_Status deployment),
      ro_StartedAt = t, ro_ReadinessStartedAt = None, ro_RetryCount = 0, ro_BlueGreen = None\<rparr>"

definition ensureActiveFlowRollout :: "fenv \<Rightarrow> string \<Rightarrow> string \<Rightarrow> string \<Rightarrow> FlowRolloutStatus fhandler" where
  "ensureActiveFlowRollout E version digest operation = do {
     deployment \<leftarrow> get_obj;
     t \<leftarrow> now E;
     let fresh = new_rollout t deployment version digest operation;
     let create = do { upd_obj (upd_st (\<lambda>st. st\<lparr>st_ActiveRollout := Some fresh\<rparr>)); ret fresh };
     (case st_ActiveRollout (fd_Status deployment) of
        Some active \<Rightarrow> (if ro_TargetDigest active = digest \<and> ro_Operation active = operation then ret active else create)
      | None \<Rightarrow> create) }"

section \<open>Queue drain and preparation\<close>

definition connection_id :: "ConnectionEntity \<Rightarrow> string" where
  "connection_id c = (if ce_ID c = '''' then cc_ID (ce_Component c) else ce_ID c)"

fun pending_queues :: "fenv \<Rightarrow> ConnectionEntity list \<Rightarrow> ConnectionEntity list \<Rightarrow> ConnectionEntity list go_result fhandler" where
  "pending_queues E pending [] = ret (Inr pending)"
| "pending_queues E pending (c # cs) = do {
     r \<leftarrow> ConnectionQueueCount E (connection_id c);
     (case r of Inl err \<Rightarrow> ret (Inl (wrapf (''read queue for connection '' @ connection_id c @ '': '') err))
      | Inr queued \<Rightarrow> pending_queues E (if queued > 0 then pending @ [c] else pending) cs) }"

fun drop_queues :: "fenv \<Rightarrow> ConnectionEntity list \<Rightarrow> bool go_result fhandler" where
  "drop_queues E [] = ret (Inr True)"
| "drop_queues E (c # cs) = do {
     r \<leftarrow> DropConnectionQueue E (connection_id c);
     (case r of Some err \<Rightarrow> ret (Inl (wrapf (''drop queue for connection '' @ connection_id c @ '': '') err))
      | None \<Rightarrow> drop_queues E cs) }"

definition drain_timeout :: "QueueDrainPolicy \<Rightarrow> duration" where
  "drain_timeout policy = (if qp_TimeoutSeconds policy = 0 then 60 * second else qp_TimeoutSeconds policy * second)"

definition drain_decision :: "fenv \<Rightarrow> QueueDrainPolicy \<Rightarrow> bool \<Rightarrow> ConnectionEntity list go_result \<Rightarrow> bool go_result fhandler" where
  "drain_decision E policy expired p = (case p of
      Inl err \<Rightarrow> ret (Inl err)
    | Inr pending \<Rightarrow>
        (if pending = [] then ret (Inr True)
         else if \<not> expired then ret (Inr False)
         else if qp_OnTimeout policy = ''Drop'' then drop_queues E pending
         else if qp_OnTimeout policy = ''Proceed'' then ret (Inr True)
         else ret (Inl (errorf (show_nat (length pending) @ '' queue(s) did not drain within '' @
                show_duration (drain_timeout policy))))))"

definition drainProcessGroupQueues :: "fenv \<Rightarrow> string \<Rightarrow> go_time \<Rightarrow> bool go_result fhandler" where
  "drainProcessGroupQueues E processGroupID startedAt = do {
     deployment \<leftarrow> get_obj;
     (case rs_QueuePolicy (fsp_Rollout (fd_Spec deployment)) of
        None \<Rightarrow> ret (Inr True)
      | Some policy \<Rightarrow>
        (if \<not> qp_Enabled policy then ret (Inr True) else do {
          r \<leftarrow> ListProcessGroupConnections E processGroupID;
          (case r of
             Inl err \<Rightarrow> ret (Inl (wrapf ''list connections to drain: '' err))
           | Inr connections \<Rightarrow> do {
               t \<leftarrow> now E;
               p \<leftarrow> pending_queues E [] connections;
               drain_decision E policy (t - startedAt > drain_timeout policy) p }) })) }"

definition mark_not_ready :: "fenv \<Rightarrow> string \<Rightarrow> string \<Rightarrow> unit fhandler" where
  \<comment> \<open>\<open>deployment.Status.CommonStatus.MarkNotReady(deployment.Generation, reason, message)\<close>\<close>
  "mark_not_ready E reason message = do {
     t \<leftarrow> now E;
     upd_obj (\<lambda>d. upd_st (upd_common (MarkNotReady t (fd_Generation d) reason message)) d) }"

definition prepareFlowRollout :: "fenv \<Rightarrow> string \<Rightarrow> string \<Rightarrow> bool go_result fhandler" where
  "prepareFlowRollout E version digest = do {
     active \<leftarrow> ensureActiveFlowRollout E version digest ''Rollout'';
     (if ro_Phase active \<noteq> ''Preparing'' then ret (Inr True)
      else if ro_Strategy active = ''StopAllThenApply'' then do {
        deployment \<leftarrow> get_obj;
        r \<leftarrow> drainProcessGroupQueues E (st_ProcessGroupID (fd_Status deployment)) (ro_StartedAt active);
        (case r of
           Inl err \<Rightarrow> ret (Inl (wrapf (''drain queues before '' @ ro_Strategy active @ '' rollout: '') err))
         | Inr drained \<Rightarrow>
           (if \<not> drained then
              (if st_SyncState (fd_Status deployment) \<noteq> ''DrainingQueues'' then do {
                 mark_not_ready E ''DrainingQueues'' ''Draining queues before stopping the flow for replacement.'';
                 upd_obj (upd_st (\<lambda>st. st\<lparr>st_SyncState := ''DrainingQueues''\<rparr>));
                 u \<leftarrow> StatusUpdate E;
                 ret (case u of Some err \<Rightarrow> Inl err | None \<Rightarrow> Inr False) }
               else ret (Inr False))
            else do {
              e \<leftarrow> ScheduleProcessGroup E (st_ProcessGroupID (fd_Status deployment)) RunStateStopped;
              (case e of
                 Some err \<Rightarrow> ret (Inl (wrapf (''stop process group before '' @ ro_Strategy active @ '' rollout: '') err))
               | None \<Rightarrow> do {
                   upd_obj (upd_st (upd_active (\<lambda>a. a\<lparr>ro_Phase := ''Prepared''\<rparr>)));
                   mark_not_ready E ''RolloutPrepared'' ''The flow deployment is prepared for replacement.'';
                   upd_obj (upd_st (\<lambda>st. st\<lparr>st_SyncState := ''RolloutPrepared'', st_Common := set_last_error '''' (st_Common st)\<rparr>));
                   u \<leftarrow> StatusUpdate E;
                   ret (case u of Some err \<Rightarrow> Inl err | None \<Rightarrow> Inr False) }) })) }
      else do {
        upd_obj (upd_st (upd_active (\<lambda>a. a\<lparr>ro_Phase := ''Prepared''\<rparr>)));
        ret (Inr True) }) }"

definition finalizeFlowRolloutState :: "fenv \<Rightarrow> go_error option fhandler" where
  "finalizeFlowRolloutState E = do {
     deployment \<leftarrow> get_obj;
     let strategy = (case st_ActiveRollout (fd_Status deployment) of
           Some active \<Rightarrow> (if ro_Strategy active \<noteq> '''' then ro_Strategy active else resolvedRolloutStrategy deployment)
         | None \<Rightarrow> resolvedRolloutStrategy deployment);
     (if strategy = ''StopAllThenApply''
      then ScheduleProcessGroup E (st_ProcessGroupID (fd_Status deployment)) RunStateRunning
      else ret None) }"

section \<open>Final reports\<close>

definition in_sync_status ::
  "go_time \<Rightarrow> int \<Rightarrow> string \<Rightarrow> int \<Rightarrow> string \<Rightarrow> string \<Rightarrow> string \<Rightarrow> string \<Rightarrow> NiFiFlowDeploymentStatus \<Rightarrow> NiFiFlowDeploymentStatus" where
  "in_sync_status t g processGroupID revisionVersion version digest desiredContentDigest liveContentDigest st =
    (let c = MarkReady t g ''RolloutComplete'' ''The NiFi flow deployment rollout is complete and in sync.'' (st_Common st);
         c = c\<lparr>cs_Drift := \<lparr>dr_Status = ''InSync'', dr_LastDetectedTime = None, dr_Differences = []\<rparr>\<rparr>;
         c = SetCondition t ConditionDriftDetected ConditionFalse ''NoDrift'' ''The live NiFi flow matches the desired snapshot.'' g c;
         c = set_last_error '''' (set_revision_version revisionVersion (c\<lparr>cs_NiFiID := processGroupID\<rparr>))
     in st\<lparr>st_Common := c, st_ProcessGroupID := processGroupID, st_DeployedVersion := version,
           st_ArtifactDigest := digest, st_DesiredContentDigest := desiredContentDigest,
           st_LiveContentDigest := liveContentDigest, st_SyncState := ''InSync'',
           st_LatestReplaceRequest := None, st_ActiveRollout := None,
           st_LastRollback := (case st_LastRollback st of
              Some rb \<Rightarrow> (if g > lb_FailedGeneration rb then None else Some rb) | None \<Rightarrow> None)\<rparr>)"

definition markSnapshotDeploymentInSync ::
  "fenv \<Rightarrow> string \<Rightarrow> int \<Rightarrow> string \<Rightarrow> string \<Rightarrow> string \<Rightarrow> string \<Rightarrow> string \<Rightarrow> go_error option fhandler" where
  "markSnapshotDeploymentInSync E processGroupID revisionVersion version digest desiredContentDigest liveContentDigest snapshot = do {
     deployment \<leftarrow> get_obj;
     let recorded = (case st_LastSuccessful (fd_Status deployment) of Some h \<Rightarrow> fh_Digest h = digest | None \<Rightarrow> False);
     r \<leftarrow> (if recorded then ret None else recordSuccessfulFlowDeployment E snapshot version digest ''Succeeded'');
     (case r of
        Some err \<Rightarrow> ret (Some err)
      | None \<Rightarrow> do {
          trimFlowDeploymentHistory E;
          t \<leftarrow> now E;
          upd_obj (\<lambda>d. upd_st (in_sync_status t (fd_Generation d) processGroupID revisionVersion version digest
             desiredContentDigest liveContentDigest) d);
          StatusUpdate E }) }"

definition drift_status ::
  "go_time \<Rightarrow> int \<Rightarrow> string \<Rightarrow> string \<Rightarrow> string list \<Rightarrow> string \<Rightarrow> NiFiFlowDeploymentStatus \<Rightarrow> NiFiFlowDeploymentStatus" where
  "drift_status t g desiredContentDigest liveContentDigest differences mode st =
    (let message = ''Detected live flow drift in '' @ show_nat (length differences) @ '' field(s).'';
         c = (if mode = ''Fail'' then
                SetCondition t ConditionReconciling ConditionFalse ''DriftBlocked'' ''Rollout is blocked by the Fail drift policy.'' g
                  (MarkNotReady t g ''DriftDetected'' message (st_Common st))
              else MarkReady t g ''DriftWarning'' message (st_Common st));
         c = c\<lparr>cs_Drift := \<lparr>dr_Status = ''Drifted'', dr_LastDetectedTime = Some t, dr_Differences = differences\<rparr>\<rparr>;
         c = SetCondition t ConditionDriftDetected ConditionTrue ''DriftDetected'' message g c
     in st\<lparr>st_Common := set_last_error (if mode = ''Fail'' then message else '''') c,
           st_DesiredContentDigest := desiredContentDigest, st_LiveContentDigest := liveContentDigest,
           st_SyncState := ''Drifted''\<rparr>)"

definition markSnapshotDeploymentDrift ::
  "fenv \<Rightarrow> string \<Rightarrow> string \<Rightarrow> string list \<Rightarrow> string \<Rightarrow> go_error option fhandler" where
  "markSnapshotDeploymentDrift E desiredContentDigest liveContentDigest differences mode = do {
     t \<leftarrow> now E;
     upd_obj (\<lambda>d. upd_st (drift_status t (fd_Generation d) desiredContentDigest liveContentDigest differences mode) d);
     StatusUpdate E }"

definition rolled_back_status ::
  "go_time \<Rightarrow> int \<Rightarrow> int \<Rightarrow> FlowDeploymentHistory \<Rightarrow> int \<times> string \<times> string \<Rightarrow> NiFiFlowDeploymentStatus \<Rightarrow> NiFiFlowDeploymentStatus" where
  "rolled_back_status t g revisionVersion history failed st =
    (let c = MarkNotReady t g ''RollbackComplete'' ''The previous successful flow was restored after rollout failure.'' (st_Common st);
         c = SetCondition t ConditionReconciling ConditionFalse ''RollbackComplete'' ''Change the failed source or update the deployment to retry.'' g c
     in st\<lparr>st_LastRollback := Some \<lparr>lb_FailedGeneration = fst failed, lb_FailedVersion = fst (snd failed),
              lb_FailedDigest = snd (snd failed), lb_RestoredVersion = fh_Version history, lb_RestoredDigest = fh_Digest history,
              lb_CompletedAt = Some t, lb_Message = ''The previous successful flow snapshot was restored.''\<rparr>,
           st_Common := set_last_error '''' (set_revision_version revisionVersion c),
           st_DeployedVersion := fh_Version history, st_ArtifactDigest := fh_Digest history,
           st_SyncState := ''RolledBack'', st_LatestReplaceRequest := None, st_ActiveRollout := None\<rparr>)"

definition failed_target :: "NiFiFlowDeployment \<Rightarrow> int \<times> string \<times> string" where
  "failed_target deployment = (case st_LastRollback (fd_Status deployment) of
      Some rb \<Rightarrow> (lb_FailedGeneration rb, lb_FailedVersion rb, lb_FailedDigest rb)
    | None \<Rightarrow> (case st_ActiveRollout (fd_Status deployment) of
          Some active \<Rightarrow> (fd_Generation deployment, ro_PreviousVersion active, ro_PreviousDigest active)
        | None \<Rightarrow> (fd_Generation deployment, '''', '''')))"

definition markSnapshotDeploymentRolledBack ::
  "fenv \<Rightarrow> int \<Rightarrow> FlowDeploymentHistory \<Rightarrow> string \<Rightarrow> go_error option fhandler" where
  "markSnapshotDeploymentRolledBack E revisionVersion history snapshot = do {
     deployment \<leftarrow> get_obj;
     r \<leftarrow> recordSuccessfulFlowDeployment E snapshot (fh_Version history) (fh_Digest history) ''RolledBack'';
     (case r of
        Some err \<Rightarrow> ret (Some err)
      | None \<Rightarrow> do {
          trimFlowDeploymentHistory E;
          t \<leftarrow> now E;
          upd_obj (\<lambda>d. upd_st (rolled_back_status t (fd_Generation d) revisionVersion history (failed_target deployment)) d);
          StatusUpdate E }) }"

definition rollbackBlocksTarget :: "NiFiFlowDeployment \<Rightarrow> string \<Rightarrow> bool" where
  "rollbackBlocksTarget deployment digest = (case st_LastRollback (fd_Status deployment) of
      Some rollback \<Rightarrow> lb_CompletedAt rollback \<noteq> None \<and> lb_FailedGeneration rollback = fd_Generation deployment \<and>
        lb_FailedDigest rollback = digest
    | None \<Rightarrow> False)"

section \<open>Readiness gate\<close>

definition readinessGateEnabled :: "NiFiFlowDeployment \<Rightarrow> bool" where
  "readinessGateEnabled deployment \<longleftrightarrow> rs_Readiness (fsp_Rollout (fd_Spec deployment)) \<noteq> None"

record rolloutReadinessGate =
  rg_requireValid :: bool
  rg_requireCS :: bool
  rg_maxUnavailable :: int
  rg_timeout :: duration

definition resolveRolloutReadinessGate :: "NiFiFlowDeployment \<Rightarrow> rolloutReadinessGate" where
  "resolveRolloutReadinessGate deployment = (case rs_Readiness (fsp_Rollout (fd_Spec deployment)) of
      None \<Rightarrow> \<lparr>rg_requireValid = True, rg_requireCS = True, rg_maxUnavailable = 0, rg_timeout = 300 * second\<rparr>
    | Some rd \<Rightarrow>
        \<lparr>rg_requireValid = (case rd_RequireValidComponents rd of Some b \<Rightarrow> b | None \<Rightarrow> True),
         rg_requireCS = (case rd_RequireEnabledControllerServices rd of Some b \<Rightarrow> b | None \<Rightarrow> True),
         rg_maxUnavailable = rd_MaxUnavailable rd,
         rg_timeout = (if rd_TimeoutSeconds rd > 0 then rd_TimeoutSeconds rd * second else 300 * second)\<rparr>)"

definition evaluateRolloutReadiness :: "fenv \<Rightarrow> string \<Rightarrow> rolloutReadinessGate \<Rightarrow> (bool \<times> string) go_result fhandler" where
  "evaluateRolloutReadiness E processGroupID gate = do {
     (if rg_requireCS gate then do { _ \<leftarrow> EnableControllerServices E processGroupID; ret () } else ret ());
     (if \<not> rg_requireValid gate then ret (Inr (True, ''''))
      else do {
        r \<leftarrow> GetProcessGroup E processGroupID;
        ret (case r of
           Inl err \<Rightarrow> Inl err
         | Inr None \<Rightarrow> Inl (errorf (''deployed process group '' @ processGroupID @ '' was not found''))
         | Inr (Some pg) \<Rightarrow>
             (if pg_InvalidCount pg > rg_maxUnavailable gate
              then Inr (False, show_int (pg_InvalidCount pg) @ '' invalid component(s) exceed maxUnavailable='' @
                     show_int (rg_maxUnavailable gate))
              else Inr (True, ''''))) }) }"

definition enterRolloutReadiness :: "fenv \<Rightarrow> string \<Rightarrow> string \<Rightarrow> outcome fhandler" where
  "enterRolloutReadiness E version digest = do {
     _ \<leftarrow> ensureActiveFlowRollout E version digest ''Rollout'';
     t \<leftarrow> now E;
     upd_obj (upd_st (\<lambda>st. (upd_active (\<lambda>a. a\<lparr>ro_Phase := bgPhaseAwaitingReadiness,
           ro_ReadinessStartedAt := (case ro_ReadinessStartedAt a of None \<Rightarrow> Some t | Some x \<Rightarrow> Some x)\<rparr>) st)
        \<lparr>st_LatestReplaceRequest := None, st_SyncState := ''AwaitingReadiness''\<rparr>));
     mark_not_ready E ''AwaitingReadiness'' ''Waiting for the deployed flow components to become ready.'';
     u \<leftarrow> StatusUpdate E;
     ret (requeue_after 5, u) }"

definition finalizeSuccessfulRollout :: "fenv \<Rightarrow> string \<Rightarrow> string \<Rightarrow> string \<Rightarrow> string \<Rightarrow> outcome fhandler" where
  "finalizeSuccessfulRollout E processGroupID version digest targetSnapshot = do {
     deployment \<leftarrow> get_obj;
     let mode = resolvedDriftPolicy deployment;
     let finish = (\<lambda>current compared. (case compared of
           Inl err \<Rightarrow> snapshotDeploymentFailed E ''DriftCheckFailed'' err
         | Inr (desiredContentDigest, liveContentDigest, differences) \<Rightarrow> do {
             r \<leftarrow> markSnapshotDeploymentInSync E processGroupID (re_Version (pg_Revision current)) version digest
                    desiredContentDigest liveContentDigest targetSnapshot;
             (case r of
                Some err \<Rightarrow> ret (no_result, Some err)
              | None \<Rightarrow>
                  (if differences \<noteq> [] \<and> mode \<noteq> ''Ignore'' then do {
                     m \<leftarrow> markSnapshotDeploymentDrift E desiredContentDigest liveContentDigest differences mode;
                     ret (case m of Some err \<Rightarrow> (no_result, Some err) | None \<Rightarrow> (rolloutRequeue, None)) }
                   else ret (rolloutRequeue, None))) }));
     g \<leftarrow> GetProcessGroup E processGroupID;
     (case g of
        Inl err \<Rightarrow> snapshotDeploymentFailed E ''NiFiRefreshFailed'' (wrapf ''refresh deployed process group: '' err)
      | Inr None \<Rightarrow> snapshotDeploymentFailed E ''NiFiRefreshFailed'' (wrapf_opt ''refresh deployed process group: '' None)
      | Inr (Some current) \<Rightarrow>
          (if mode = ''Ignore'' then
             finish current (case normalizeFlowSnapshot (fe_json E) targetSnapshot (ignore_fields deployment) of
                 Inl err \<Rightarrow> Inl err | Inr (_, dig) \<Rightarrow> Inr (dig, dig, []))
           else do {
             l \<leftarrow> DownloadProcessGroup E processGroupID;
             (case l of
                Inl downloadErr \<Rightarrow> snapshotDeploymentFailed E ''DriftCheckFailed'' (wrapf ''download deployed NiFi flow: '' downloadErr)
              | Inr liveSnapshot \<Rightarrow>
                  finish current (compareFlowSnapshots (fe_json E) targetSnapshot liveSnapshot (ignore_fields deployment))) })) }"

section \<open>Retries\<close>

definition rolloutMaxRetries :: "NiFiFlowDeployment \<Rightarrow> int" where
  "rolloutMaxRetries deployment =
     (case rs_Retry (fsp_Rollout (fd_Spec deployment)) of Some r \<Rightarrow> rp_MaxRetries r | None \<Rightarrow> 0)"

text \<open>\<open>None\<close> is \<open>retried=false\<close>.\<close>

definition retryRolloutIfAllowed :: "fenv \<Rightarrow> string \<Rightarrow> outcome option fhandler" where
  "retryRolloutIfAllowed E reason = do {
     deployment \<leftarrow> get_obj;
     let maxRetries = rolloutMaxRetries deployment;
     (case st_ActiveRollout (fd_Status deployment) of
        None \<Rightarrow> ret None
      | Some active \<Rightarrow>
          (if ro_Operation active \<noteq> ''Rollout'' \<or> maxRetries \<le> 0 \<or> ro_RetryCount active \<ge> maxRetries then ret None
           else do {
             let n = int32 (ro_RetryCount active + 1);
             upd_obj (upd_st (\<lambda>st. (upd_active (\<lambda>a. a\<lparr>ro_RetryCount := n, ro_Phase := ''Preparing'', ro_ReadinessStartedAt := None\<rparr>) st)
                \<lparr>st_LatestReplaceRequest := None, st_SyncState := ''RolloutRetrying''\<rparr>));
             mark_not_ready E ''RolloutRetrying'' (''Retrying rollout ('' @ show_int n @ ''/'' @ show_int maxRetries @ ''): '' @ reason @ ''.'');
             u \<leftarrow> StatusUpdate E;
             ret (Some (requeue_after 10, u)) })) }"

definition handleRolloutReadinessTimeout :: "fenv \<Rightarrow> string \<Rightarrow> outcome fhandler" where
  "handleRolloutReadinessTimeout E reason = do {
     r \<leftarrow> retryRolloutIfAllowed E (''readiness timed out: '' @ reason);
     (case r of
        Some out \<Rightarrow> ret out
      | None \<Rightarrow> do {
          upd_obj (upd_st (\<lambda>st. st\<lparr>st_ActiveRollout := None\<rparr>));
          snapshotDeploymentFailed E ''ReadinessTimeout'' (errorf (''deployed flow did not become ready: '' @ reason)) }) }"

definition reconcileRolloutReadiness :: "fenv \<Rightarrow> string \<Rightarrow> string \<Rightarrow> string \<Rightarrow> outcome fhandler" where
  "reconcileRolloutReadiness E version digest snapshot = do {
     deployment \<leftarrow> get_obj;
     let gate = resolveRolloutReadinessGate deployment;
     let processGroupID = st_ProcessGroupID (fd_Status deployment);
     r \<leftarrow> evaluateRolloutReadiness E processGroupID gate;
     (case r of
        Inl err \<Rightarrow> snapshotDeploymentFailed E ''ReadinessCheckFailed'' (wrapf ''evaluate rollout readiness: '' err)
      | Inr (True, _) \<Rightarrow> finalizeSuccessfulRollout E processGroupID version digest snapshot
      | Inr (False, reason) \<Rightarrow>
          (case st_ActiveRollout (fd_Status deployment) of
             None \<Rightarrow> ret nil_panic
           | Some active \<Rightarrow> do {
               t \<leftarrow> now E;
               let firstWait = ro_ReadinessStartedAt active = None;
               let startedAt = (case ro_ReadinessStartedAt active of Some x \<Rightarrow> x | None \<Rightarrow> t);
               upd_obj (upd_st (upd_active (\<lambda>a. a\<lparr>ro_ReadinessStartedAt := Some startedAt\<rparr>)));
               (if rg_timeout gate > 0 \<and> t - startedAt > rg_timeout gate then handleRolloutReadinessTimeout E reason
                else if firstWait \<or> st_SyncState (fd_Status deployment) \<noteq> ''AwaitingReadiness'' then do {
                  upd_obj (upd_st (\<lambda>st. st\<lparr>st_SyncState := ''AwaitingReadiness''\<rparr>));
                  mark_not_ready E ''AwaitingReadiness'' (''Waiting for the deployed flow to become ready: '' @ reason @ ''.'');
                  u \<leftarrow> StatusUpdate E;
                  ret (requeue_after 5, u) }
                else ret (requeue_after 5, None)) })) }"

section \<open>Draining\<close>

abbreviation seen_empty :: "fenv \<Rightarrow> string \<Rightarrow> (fcall, NiFiFlowDeployment) rstate \<Rightarrow> (fcall, NiFiFlowDeployment) rstate \<Rightarrow> bool" where
  "seen_empty E i \<equiv> asked (CQueueCount i) (fe_QueueCount E i) (\<lambda>r. \<exists>n. r = Inr n \<and> n \<le> 0)"

abbreviation dropped :: "fenv \<Rightarrow> string \<Rightarrow> (fcall, NiFiFlowDeployment) rstate \<Rightarrow> (fcall, NiFiFlowDeployment) rstate \<Rightarrow> bool" where
  "dropped E i \<equiv> asked (CDropQueue i) (fe_DropQueue E i) (\<lambda>r. r = None)"

definition drops :: "fcall list \<Rightarrow> string set" where
  "drops cs = {i. CDropQueue i \<in> set cs}"

lemma drops_simps [simp]: "drops [] = {}" "drops (xs @ ys) = drops xs \<union> drops ys"
  "drops (CDropQueue i # xs) = insert i (drops xs)" "drops (CQueueCount i # xs) = drops xs"
  "drops (CListConnections i # xs) = drops xs"
  by (auto simp: drops_def)

lemma pending_queues_spec:
  "wp (pending_queues E acc cs)
     (\<lambda>r s'. obj s' = obj s \<and> extends s s' \<and> drops (calls s') = drops (calls s) \<and>
        (\<forall>pending. r = Inr pending \<longrightarrow> set acc \<subseteq> set pending \<and>
           (\<forall>c \<in> set cs. c \<in> set pending \<or> seen_empty E (connection_id c) s s'))) s"
proof (induction cs arbitrary: acc s)
  case Nil
  then show ?case by (simp add: wp_simps)
next
  case (Cons c cs)
  let ?s = "s\<lparr>calls := calls s @ [CQueueCount (connection_id c)]\<rparr>"
  have ext: "extends s ?s" by (simp add: extends_def)
  show ?case
  proof (cases "fe_QueueCount E (connection_id c) (calls s)")
    case (Inl e)
    then show ?thesis using ext by (simp add: wp_simps)
  next
    case (Inr n)
    have seen: "seen_empty E (connection_id c) s ?s" if "n \<le> 0"
      using Inr that by (intro asked_now) auto
    let ?acc = "if n > 0 then acc @ [c] else acc"
    have "wp (pending_queues E ?acc cs) (\<lambda>r s'. obj s' = obj s \<and> extends s s' \<and> drops (calls s') = drops (calls s) \<and>
        (\<forall>pending. r = Inr pending \<longrightarrow> set acc \<subseteq> set pending \<and>
           (\<forall>x \<in> set (c # cs). x \<in> set pending \<or> seen_empty E (connection_id x) s s'))) ?s"
    proof (rule wp_mono [OF Cons.IH], intro conjI allI impI ballI)
      fix r s' pending x
      assume post: "obj s' = obj ?s \<and> extends ?s s' \<and> drops (calls s') = drops (calls ?s) \<and>
        (\<forall>pending. r = Inr pending \<longrightarrow> set ?acc \<subseteq> set pending \<and>
           (\<forall>c \<in> set cs. c \<in> set pending \<or> seen_empty E (connection_id c) ?s s'))"
      show "obj s' = obj s" "drops (calls s') = drops (calls s)" "extends s s'"
        using post ext extends_trans by auto
      assume r: "r = Inr pending"
      show "set acc \<subseteq> set pending" using post r by (auto split: if_splits)
      assume "x \<in> set (c # cs)"
      then consider "x = c" "n \<le> 0" | "x = c" "n > 0" | "x \<in> set cs" by force
      moreover have "seen_empty E (connection_id c) s s'" if "n \<le> 0"
        using asked_mono [OF seen [OF that] extends_refl] post by blast
      moreover have "seen_empty E (connection_id y) s s'" if "seen_empty E (connection_id y) ?s s'" for y
        using asked_mono [OF that ext extends_refl] .
      moreover have "c \<in> set pending" if "n > 0" using post r that by auto
      moreover have "y \<in> set pending \<or> seen_empty E (connection_id y) ?s s'" if "y \<in> set cs" for y
        using post r that by blast
      ultimately show "x \<in> set pending \<or> seen_empty E (connection_id x) s s'"
        by blast
    qed
    then show ?thesis by (simp add: wp_simps Inr)
  qed
qed

lemma drop_queues_spec:
  "wp (drop_queues E cs)
     (\<lambda>r s'. obj s' = obj s \<and> extends s s' \<and> (r = Inr True \<longrightarrow> (\<forall>c \<in> set cs. dropped E (connection_id c) s s')) \<and>
        r \<noteq> Inr False \<and> drops (calls s') \<subseteq> drops (calls s) \<union> connection_id ` set cs) s"
proof (induction cs arbitrary: s)
  case Nil
  then show ?case by (simp add: wp_simps)
next
  case (Cons c cs)
  let ?s = "s\<lparr>calls := calls s @ [CDropQueue (connection_id c)]\<rparr>"
  have ext: "extends s ?s" by (simp add: extends_def)
  show ?case
  proof (cases "fe_DropQueue E (connection_id c) (calls s)")
    case (Some e)
    then show ?thesis using ext by (auto simp: wp_simps)
  next
    case None
    have now: "dropped E (connection_id c) s ?s" using None by (intro asked_now) auto
    have "wp (drop_queues E cs) (\<lambda>r s'. obj s' = obj s \<and> extends s s' \<and>
        (r = Inr True \<longrightarrow> (\<forall>x \<in> set (c # cs). dropped E (connection_id x) s s')) \<and>
        r \<noteq> Inr False \<and> drops (calls s') \<subseteq> drops (calls s) \<union> connection_id ` set (c # cs)) ?s"
    proof (rule wp_mono [OF Cons.IH], intro conjI impI ballI)
      fix r s' x
      assume post: "obj s' = obj ?s \<and> extends ?s s' \<and> (r = Inr True \<longrightarrow> (\<forall>c \<in> set cs. dropped E (connection_id c) ?s s')) \<and>
        r \<noteq> Inr False \<and> drops (calls s') \<subseteq> drops (calls ?s) \<union> connection_id ` set cs"
      show "obj s' = obj s" "extends s s'" "r \<noteq> Inr False" "drops (calls s') \<subseteq> drops (calls s) \<union> connection_id ` set (c # cs)"
        using post ext extends_trans by auto
      have "dropped E (connection_id c) s s'" using asked_mono [OF now extends_refl] post by blast
      moreover have "dropped E (connection_id y) s s'" if "dropped E (connection_id y) ?s s'" for y
        using asked_mono [OF that ext extends_refl] .
      moreover assume "r = Inr True" "x \<in> set (c # cs)"
      ultimately show "dropped E (connection_id x) s s'" using post by auto
    qed
    then show ?thesis by (simp add: wp_simps None)
  qed
qed

lemma drain_spec:
  fixes s :: "(fcall, NiFiFlowDeployment) rstate" and E :: fenv and pg :: string and t0 :: go_time
  assumes "rs_QueuePolicy (fsp_Rollout (fd_Spec (obj s))) = Some policy" "qp_Enabled policy"
  defines "expired \<equiv> drain_timeout policy < fe_Now E (calls s @ [CListConnections pg]) - t0"
  shows "wp (drainProcessGroupQueues E pg t0) (\<lambda>r s'. obj s' = obj s \<and> extends s s' \<and>
     (r = Inr True \<longrightarrow> (\<exists>conns. fe_ListConnections E pg (calls s) = Inr conns \<and>
        (\<forall>c \<in> set conns. seen_empty E (connection_id c) s s' \<or>
           expired \<and> (qp_OnTimeout policy = ''Drop'' \<and> dropped E (connection_id c) s s' \<or> qp_OnTimeout policy = ''Proceed'')))) \<and>
     (drops (calls s') \<subseteq> drops (calls s) \<or> expired \<and> qp_OnTimeout policy = ''Drop'')) s"
proof (cases "fe_ListConnections E pg (calls s)")
  case (Inl e)
  then show ?thesis
    using assms(1,2) by (simp add: drainProcessGroupQueues_def wp_simps Let_def extends_def)
next
  case (Inr conns)
  let ?s = "s\<lparr>calls := calls s @ [CListConnections pg]\<rparr>"
  have ext: "extends s ?s" by (simp add: extends_def)
  let ?Q = "\<lambda>r s'. obj s' = obj s \<and> extends s s' \<and>
     (r = Inr True \<longrightarrow> (\<forall>c \<in> set conns. seen_empty E (connection_id c) s s' \<or>
           expired \<and> (qp_OnTimeout policy = ''Drop'' \<and> dropped E (connection_id c) s s' \<or> qp_OnTimeout policy = ''Proceed''))) \<and>
     (drops (calls s') \<subseteq> drops (calls s) \<or> expired \<and> qp_OnTimeout policy = ''Drop'')"
  have tail: "wp (drain_decision E policy expired p) ?Q s1"
    if post: "obj s1 = obj ?s \<and> extends ?s s1 \<and> drops (calls s1) = drops (calls ?s) \<and>
        (\<forall>pending. p = Inr pending \<longrightarrow> set [] \<subseteq> set pending \<and>
           (\<forall>c \<in> set conns. c \<in> set pending \<or> seen_empty E (connection_id c) ?s s1))" for p s1
  proof -
    have e1: "extends s s1" using post ext extends_trans by blast
    have seen: "seen_empty E (connection_id c) s s1" if "p = Inr pending" "c \<in> set conns" "c \<notin> set pending" for pending c
      using post that asked_mono [OF _ ext extends_refl] by blast
    have drop: "wp (drop_queues E pending) ?Q s1" if "p = Inr pending" "expired" "qp_OnTimeout policy = ''Drop''" for pending
    proof (rule wp_mono [OF drop_queues_spec], intro conjI impI ballI)
      fix r s' c
      assume d: "obj s' = obj s1 \<and> extends s1 s' \<and> (r = Inr True \<longrightarrow> (\<forall>c \<in> set pending. dropped E (connection_id c) s1 s')) \<and>
        r \<noteq> Inr False \<and> drops (calls s') \<subseteq> drops (calls s1) \<union> connection_id ` set pending"
      show "obj s' = obj s" "extends s s'" using d post e1 extends_trans by auto
      assume r: "r = Inr True" "c \<in> set conns"
      show "seen_empty E (connection_id c) s s' \<or>
           expired \<and> (qp_OnTimeout policy = ''Drop'' \<and> dropped E (connection_id c) s s' \<or> qp_OnTimeout policy = ''Proceed'')"
      proof (cases "c \<in> set pending")
        case True
        then have "dropped E (connection_id c) s1 s'" using d r by blast
        then show ?thesis using asked_mono [OF _ e1 extends_refl] that by blast
      next
        case False
        then show ?thesis using asked_mono [OF seen [OF that(1) r(2) False] extends_refl] d by blast
      qed
    qed (simp add: that)
    show ?thesis
      using seen drop post e1 by (cases p) (auto simp: wp_simps drain_decision_def)
  qed
  have "wp (pending_queues E [] conns) (\<lambda>p. wp (drain_decision E policy expired p) ?Q) ?s"
    by (rule wp_mono [OF pending_queues_spec tail])
  then show ?thesis
    using assms(1,2) Inr by (simp add: drainProcessGroupQueues_def wp_simps expired_def)
qed

text \<open>
  C28. Draining before a StopAllThenApply rollout loses no flow files behind the operator's back:
  with an enabled queue policy \<open>drainProcessGroupQueues\<close> reports done only when every connection of
  the group was seen empty in this very run, or the drain deadline has passed and the policy says
  Drop (the queue was then discarded) or Proceed. A queue is discarded only under Drop after the
  deadline. The resource is not changed.
\<close>

theorem drain_contract:
  fixes s :: "(fcall, NiFiFlowDeployment) rstate"
  assumes "run_state (drainProcessGroupQueues E pg startedAt) s = (r, s')"
    and "rs_QueuePolicy (fsp_Rollout (fd_Spec (obj s))) = Some policy" and "qp_Enabled policy"
    and "expired = (fe_Now E (calls s @ [CListConnections pg]) - startedAt > drain_timeout policy)"
  shows "obj s' = obj s \<and>
     (r = Inr True \<longrightarrow> (\<exists>conns. fe_ListConnections E pg (calls s) = Inr conns \<and>
        (\<forall>c \<in> set conns. seen_empty E (connection_id c) s s' \<or>
           expired \<and> (qp_OnTimeout policy = ''Drop'' \<and> dropped E (connection_id c) s s' \<or> qp_OnTimeout policy = ''Proceed'')))) \<and>
     (drops (calls s') \<subseteq> drops (calls s) \<or> expired \<and> qp_OnTimeout policy = ''Drop'')"
  using wp_run [OF drain_spec [OF assms(2,3)] assms(1)] unfolding assms(4) by blast

definition draining_deployment :: "string \<Rightarrow> NiFiFlowDeployment" where
  "draining_deployment onTimeout = sample_deployment\<lparr>fd_Spec := sample_spec\<lparr>fsp_Rollout := sample_rollout\<lparr>rs_QueuePolicy :=
     Some \<lparr>qp_Enabled = True, qp_TimeoutSeconds = 0, qp_OnTimeout = onTimeout\<rparr>\<rparr>\<rparr>\<rparr>"

theorem drain_contract_witness:
  "let E = sample_env\<lparr>fe_Now := \<lambda>_. 61 * second, fe_QueueCount := \<lambda>_ _. Inr 7\<rparr>;
       run = run_state (drainProcessGroupQueues E ''blue'' 0) (start (draining_deployment ''Drop''));
       s' = snd run
   in fst run = Inr True \<and> calls s' = [CListConnections ''blue'', CQueueCount ''c1'', CDropQueue ''c1''] \<and>
      (\<exists>conns. fe_ListConnections E ''blue'' [] = Inr conns \<and>
        (\<forall>c \<in> set conns. seen_empty E (connection_id c) (start (draining_deployment ''Drop'')) s' \<or>
           dropped E (connection_id c) (start (draining_deployment ''Drop'')) s'))"
proof -
  let ?E = "sample_env\<lparr>fe_Now := \<lambda>_. 61 * second, fe_QueueCount := \<lambda>_ _. Inr 7\<rparr>"
  let ?s = "start (draining_deployment ''Drop'')"
  obtain s' where s': "run_state (drainProcessGroupQueues ?E ''blue'' 0) ?s = (Inr True, s')"
    "calls s' = [CListConnections ''blue'', CQueueCount ''c1'', CDropQueue ''c1'']"
    by (simp add: drainProcessGroupQueues_def nifi_call_defs Let_def sample_defs draining_deployment_def connection_id_def second_def
       drain_decision_def drain_timeout_def)
  have "rs_QueuePolicy (fsp_Rollout (fd_Spec (obj ?s))) = Some \<lparr>qp_Enabled = True, qp_TimeoutSeconds = 0, qp_OnTimeout = ''Drop''\<rparr>"
    by (simp add: draining_deployment_def)
  from drain_contract [OF s'(1) this _ refl] show ?thesis
    using s' by auto
qed

section \<open>Retry budget\<close>

lemma retry_spec:
  "wp (retryRolloutIfAllowed E reason) (\<lambda>r s'. fd_Spec (obj s') = fd_Spec (obj s) \<and>
     (r = None \<longrightarrow> s' = s) \<and>
     (r \<noteq> None \<longrightarrow> (\<exists>a a'. st_ActiveRollout (fd_Status (obj s)) = Some a \<and> st_ActiveRollout (fd_Status (obj s')) = Some a' \<and>
        ro_Operation a = ''Rollout'' \<and> 0 < rolloutMaxRetries (obj s) \<and> ro_RetryCount a < rolloutMaxRetries (obj s) \<and>
        ro_RetryCount a' = int32 (ro_RetryCount a + 1) \<and> ro_Phase a' = ''Preparing'' \<and> ro_ReadinessStartedAt a' = None \<and>
        st_LatestReplaceRequest (fd_Status (obj s')) = None \<and>
        calls s' = calls s @ [CStatusUpdate (obj s')]))) s"
  by (auto simp: retryRolloutIfAllowed_def mark_not_ready_def wp_simps Let_def split: option.split)

fun all_retried :: "(fenv \<times> string) list \<Rightarrow> (fcall, NiFiFlowDeployment) rstate \<Rightarrow> bool" where
  "all_retried [] s = True"
| "all_retried ((E, reason) # attempts) s =
     (case run_state (retryRolloutIfAllowed E reason) s of (r, s') \<Rightarrow> r \<noteq> None \<and> all_retried attempts s')"

lemma rolloutMaxRetries_spec: "fd_Spec d' = fd_Spec d \<Longrightarrow> rolloutMaxRetries d' = rolloutMaxRetries d"
  by (simp add: rolloutMaxRetries_def)

text \<open>
  C30. The retry budget is finite and never overspent: whatever NiFi, the API server and the clock
  answer, a rollout that has already been retried \<open>RetryCount\<close> times is retried at most
  \<open>maxRetries - RetryCount\<close> more times, so a failing rollout reaches rollback or failure.
\<close>

theorem retry_budget:
  assumes "is_int32 (rolloutMaxRetries (obj s))" "st_ActiveRollout (fd_Status (obj s)) = Some a" "is_int32 (ro_RetryCount a)"
    and "all_retried attempts s"
  shows "int (length attempts) \<le> max 0 (rolloutMaxRetries (obj s) - ro_RetryCount a)"
  using assms
proof (induction attempts arbitrary: s a)
  case Nil
  then show ?case by simp
next
  case (Cons x attempts)
  obtain E reason where x: "x = (E, reason)" by fastforce
  obtain r s' where run: "run_state (retryRolloutIfAllowed E reason) s = (r, s')" by fastforce
  with Cons.prems(4) x have r: "r \<noteq> None" "all_retried attempts s'" by simp_all
  from wp_run [OF retry_spec run] r(1) Cons.prems(2) obtain a' where
    a': "fd_Spec (obj s') = fd_Spec (obj s)" "st_ActiveRollout (fd_Status (obj s')) = Some a'"
        "ro_RetryCount a < rolloutMaxRetries (obj s)" "ro_RetryCount a' = int32 (ro_RetryCount a + 1)"
    by auto
  have bound: "is_int32 (ro_RetryCount a + 1)" using a'(3) Cons.prems(1,3) by (auto simp: is_int32_def)
  then have count: "ro_RetryCount a' = ro_RetryCount a + 1" using a'(4) by simp
  have max: "rolloutMaxRetries (obj s') = rolloutMaxRetries (obj s)" using a'(1) by (rule rolloutMaxRetries_spec)
  from Cons.IH [of s' a'] a'(2) r(2) bound count max Cons.prems(1) have
    "int (length attempts) \<le> max 0 (rolloutMaxRetries (obj s) - (ro_RetryCount a + 1))" by simp
  then show ?case using a'(3) by simp
qed

definition retrying_deployment :: NiFiFlowDeployment where
  "retrying_deployment = sample_deployment\<lparr>
     fd_Spec := sample_spec\<lparr>fsp_Rollout := sample_rollout\<lparr>rs_Retry := Some \<lparr>rp_MaxRetries = 2\<rparr>\<rparr>\<rparr>,
     fd_Status := sample_status\<lparr>st_ActiveRollout := Some (new_rollout 0 sample_deployment ''v1'' ''sha256:aa'' ''Rollout'')\<rparr>\<rparr>"

theorem retry_budget_witness:
  "all_retried [(sample_env, ''a''), (sample_env, ''b'')] (start retrying_deployment) \<and>
   int (length [(sample_env, ''a''), (sample_env, ''b'')]) \<le> max 0 (rolloutMaxRetries retrying_deployment - 0)"
proof -
  let ?attempts = "[(sample_env, ''a''), (sample_env, ''b'')]"
  have retried: "all_retried ?attempts (start retrying_deployment)"
    by (simp add: retryRolloutIfAllowed_def mark_not_ready_def StatusUpdate_def nifi_call_defs Let_def
        retrying_deployment_def new_rollout_def rolloutMaxRetries_def int32_def)
  have "is_int32 (rolloutMaxRetries (obj (start retrying_deployment)))" "is_int32 0"
    by (simp_all add: retrying_deployment_def rolloutMaxRetries_def is_int32_def)
  moreover have "st_ActiveRollout (fd_Status (obj (start retrying_deployment))) =
      Some (new_rollout 0 sample_deployment ''v1'' ''sha256:aa'' ''Rollout'')"
    by (simp add: retrying_deployment_def)
  ultimately show ?thesis
    using retried retry_budget [of "start retrying_deployment" "new_rollout 0 sample_deployment ''v1'' ''sha256:aa'' ''Rollout''" ?attempts]
    by (simp add: new_rollout_def)
qed

end
