(* ===== verification/Flow_BlueGreen.thy ===== *)
theory Flow_BlueGreen
  imports Flow_Rollout
begin

text \<open>
  The transactional BlueGreen rollout (\<open>internal/controller/flow_deployment_bluegreen.go\<close>): deploy
  a candidate (green) beside the live process group (blue), wait until it is valid, switch the
  boundary connections one by one, promote it, or switch the traffic back. The state machine is
  stored in \<open>Status.ActiveRollout\<close>; \<open>reconcileBlueGreenRollout\<close> advances it by one durable step.
  A record of the inventory that the code mutates through a pointer is returned by the handler and
  written back at its index by the caller.
\<close>

section \<open>Phases and settings\<close>

definition bgPhaseDeployingCandidate :: string where "bgPhaseDeployingCandidate = ''DeployingCandidate''"
definition bgPhaseSwitchingTraffic :: string where "bgPhaseSwitchingTraffic = ''SwitchingTraffic''"
definition bgPhasePromoting :: string where "bgPhasePromoting = ''Promoting''"
definition bgPhaseRollingBackTraffic :: string where "bgPhaseRollingBackTraffic = ''RollingBackTraffic''"
definition bgDirectionInbound :: string where "bgDirectionInbound = ''Inbound''"
definition bgDirectionOutbound :: string where "bgDirectionOutbound = ''Outbound''"

lemmas bg_phase_defs = bgPhaseDeployingCandidate_def bgPhaseAwaitingReadiness_def bgPhaseSwitchingTraffic_def
  bgPhasePromoting_def bgPhaseRollingBackTraffic_def

lemmas bg_direction_defs = bgDirectionInbound_def bgDirectionOutbound_def

definition blueGreenStrategy :: "NiFiFlowDeployment \<Rightarrow> BlueGreenStrategy" where
  "blueGreenStrategy deployment =
    (let resolved = \<lparr>bgs_DrainTimeoutSeconds = 120, bgs_OnDrainTimeout = ''Fail'', bgs_ReadinessTimeoutSeconds = 300,
                     bgs_RequireEnabledControllerServices = Some True\<rparr>
     in case rs_BlueGreen (fsp_Rollout (fd_Spec deployment)) of
          None \<Rightarrow> resolved
        | Some spec \<Rightarrow> \<lparr>
            bgs_DrainTimeoutSeconds = (if bgs_DrainTimeoutSeconds spec \<noteq> 0 then bgs_DrainTimeoutSeconds spec else 120),
            bgs_OnDrainTimeout = (if bgs_OnDrainTimeout spec \<noteq> '''' then bgs_OnDrainTimeout spec else ''Fail''),
            bgs_ReadinessTimeoutSeconds =
              (if bgs_ReadinessTimeoutSeconds spec \<noteq> 0 then bgs_ReadinessTimeoutSeconds spec else 300),
            bgs_RequireEnabledControllerServices = (case bgs_RequireEnabledControllerServices spec of
                Some b \<Rightarrow> Some b | None \<Rightarrow> Some True)\<rparr>)"

definition blueGreenRolloutInProgress :: "NiFiFlowDeployment \<Rightarrow> bool" where
  "blueGreenRolloutInProgress deployment = (case st_ActiveRollout (fd_Status deployment) of
      Some active \<Rightarrow> ro_Operation active = ''BlueGreen'' \<and> ro_BlueGreen active \<noteq> None
    | None \<Rightarrow> False)"

definition blueGreenCandidateName :: "NiFiFlowDeployment \<Rightarrow> string" where
  "blueGreenCandidateName deployment =
     or_default (ft_ProcessGroupName (fsp_Target (fd_Spec deployment))) (fd_Name deployment) @ ''-candidate''"

section \<open>Pure helpers\<close>

fun first_index :: "('a \<Rightarrow> bool) \<Rightarrow> 'a list \<Rightarrow> nat option" where
  "first_index P [] = None"
| "first_index P (x # xs) = (if P x then Some 0 else map_option Suc (first_index P xs))"

definition map_index :: "(string \<Rightarrow> string option) \<Rightarrow> string \<Rightarrow> string" where
  \<comment> \<open>indexing a Go \<open>map[string]string\<close>\<close>
  "map_index m k = (case m k of Some v \<Rightarrow> v | None \<Rightarrow> '''')"

definition port_id :: "PortEntity \<Rightarrow> string" where
  "port_id port = (if pt_ID port = '''' then ptc_ID (pt_Component port) else pt_ID port)"

definition portIDToName :: "PortEntity list \<Rightarrow> string \<Rightarrow> string option" where
  "portIDToName ports = fold (\<lambda>port result. let i = port_id port; name = ptc_Name (pt_Component port) in
      if i \<noteq> '''' \<and> name \<noteq> '''' then result(i := Some name) else result) ports Map.empty"

definition portNameToID :: "PortEntity list \<Rightarrow> string \<Rightarrow> string option" where
  "portNameToID ports = fold (\<lambda>port result. let i = port_id port; name = ptc_Name (pt_Component port) in
      if name \<noteq> '''' \<and> i \<noteq> '''' then result(name := Some i) else result) ports Map.empty"

definition bgConnectionEntityID :: "ConnectionEntity option \<Rightarrow> string" where
  "bgConnectionEntityID entity = (case entity of None \<Rightarrow> ''''
     | Some e \<Rightarrow> (if ce_ID e \<noteq> '''' then ce_ID e else cc_ID (ce_Component e)))"

definition blueGreenSwitchableSource :: "string \<Rightarrow> bool" where
  "blueGreenSwitchableSource componentType \<longleftrightarrow>
     componentType \<in> {ConnectableProcessor, ConnectableInputPort, ConnectableOutputPort}"

definition decodeConnectionComponent :: "fenv \<Rightarrow> string \<Rightarrow> ConnectionComponent go_result" where
  "decodeConnectionComponent E definition' = fe_UnmarshalConnection E definition'"

definition json_kind :: "json \<Rightarrow> string" where
  "json_kind v = (case v of JNull \<Rightarrow> ''null'' | JBool _ \<Rightarrow> ''bool'' | JString _ \<Rightarrow> ''string'' | JNumber _ \<Rightarrow> ''number''
     | JFloat _ \<Rightarrow> ''number'' | JArray _ \<Rightarrow> ''array'' | JObject _ \<Rightarrow> ''object'')"

definition unmarshal_object :: "json_codec \<Rightarrow> string \<Rightarrow> (string \<times> json) list go_result" where
  \<comment> \<open>\<open>json.Unmarshal\<close> into a \<open>map[string]any\<close>\<close>
  "unmarshal_object c snapshot = (case jc_Unmarshal c snapshot of
      Inl err \<Rightarrow> Inl err
    | Inr (JObject fs) \<Rightarrow> Inr fs
    | Inr JNull \<Rightarrow> Inr []
    | Inr v \<Rightarrow> Inl (errorf (''json: cannot unmarshal '' @ json_kind v @ '' into Go value of type map[string]interface {}'')))"

fun put_field :: "string \<Rightarrow> json \<Rightarrow> (string \<times> json) list \<Rightarrow> (string \<times> json) list" where
  "put_field k v [] = [(k, v)]"
| "put_field k v ((k', v') # fs) =
     (if k = k' then (k, v) # fs else if k < k' then (k, v) # (k', v') # fs else (k', v') # put_field k v fs)"

definition renameFlowSnapshot :: "json_codec \<Rightarrow> string \<Rightarrow> string \<Rightarrow> string go_result" where
  "renameFlowSnapshot c snapshot name = (case unmarshal_object c snapshot of
      Inl err \<Rightarrow> Inl err
    | Inr decoded \<Rightarrow> (case field decoded ''flowContents'' of
          JObject flowContents \<Rightarrow>
            Inr (jc_Marshal c (JObject (put_field ''flowContents'' (JObject (put_field ''name'' (JString name) flowContents)) decoded)))
        | _ \<Rightarrow> Inl (errorf ''snapshot has no flowContents object'')))"

section \<open>Snapshot metadata\<close>

definition reconcileSnapshotDeploymentMetadata :: "fenv \<Rightarrow> ProcessGroupEntity \<Rightarrow> ProcessGroupEntity go_result fhandler" where
  "reconcileSnapshotDeploymentMetadata E existing = do {
     deployment \<leftarrow> get_obj;
     let name = ft_ProcessGroupName (fsp_Target (fd_Spec deployment));
     let rename = name \<noteq> '''' \<and> pgc_Name (pg_Component existing) \<noteq> name;
     let named = (if rename then existing\<lparr>pg_Component := (pg_Component existing)\<lparr>pgc_Name := name\<rparr>\<rparr> else existing);
     let finish = (\<lambda>update needsUpdate.
        if \<not> needsUpdate then ret (Inr existing)
        else do {
          let i = processGroupEntityID existing;
          r \<leftarrow> UpdateProcessGroup E (update\<lparr>pg_ID := i, pg_Component := (pg_Component update)\<lparr>pgc_ID := i\<rparr>\<rparr>);
          ret (case r of
             Inl err \<Rightarrow> Inl (wrapf ''failed to update imported process group metadata: '' err)
           | Inr None \<Rightarrow> Inr existing
           | Inr (Some updated) \<Rightarrow> Inr updated) });
     (case fsp_ParameterContextRef (fd_Spec deployment) of
        None \<Rightarrow> finish named rename
      | Some ref \<Rightarrow> do {
          p \<leftarrow> GetParameterContext E (localObjectRefNamespace (fd_Namespace deployment) ref) (lr_Name ref);
          (case p of
             Inl err \<Rightarrow> ret (Inl err)
           | Inr parameterContext \<Rightarrow>
               (if componentReferenceID (pgc_ParameterContext (pg_Component named)) \<noteq> no_NiFiID parameterContext
                then finish (named\<lparr>pg_Component := (pg_Component named)\<lparr>pgc_ParameterContext := Some (no_NiFiID parameterContext)\<rparr>\<rparr>) True
                else finish named rename)) }) }"

section \<open>Deleting process groups\<close>

definition blueGreenDeleteProcessGroup :: "fenv \<Rightarrow> string \<Rightarrow> unit fhandler" where
  "blueGreenDeleteProcessGroup E processGroupID =
     (if processGroupID = '''' then ret () else do {
        _ \<leftarrow> ScheduleProcessGroup E processGroupID RunStateStopped;
        r \<leftarrow> GetProcessGroup E processGroupID;
        (case r of
           Inr (Some existing) \<Rightarrow> do { _ \<leftarrow> DeleteProcessGroup E processGroupID (re_Version (pg_Revision existing)); ret () }
         | _ \<Rightarrow> ret ()) })"

definition retireBlueProcessGroup :: "fenv \<Rightarrow> go_error option fhandler" where
  "retireBlueProcessGroup E = do {
     deployment \<leftarrow> get_obj;
     (if st_RetiringProcessGroupID (fd_Status deployment) = '''' then ret None
      else do {
        blueGreenDeleteProcessGroup E (st_RetiringProcessGroupID (fd_Status deployment));
        upd_obj (upd_st (\<lambda>st. st\<lparr>st_RetiringProcessGroupID := ''''\<rparr>));
        StatusUpdate E }) }"

section \<open>The handlers of the phases\<close>

definition persist_after :: "fenv \<Rightarrow> int \<Rightarrow> outcome fhandler" where
  \<comment> \<open>\<open>return ctrl.Result{RequeueAfter: secs * time.Second}, r.Status().Update(ctx, deployment)\<close>\<close>
  "persist_after E secs = do { u \<leftarrow> StatusUpdate E; ret (requeue_after secs, u) }"

definition with_bluegreen :: "(FlowRolloutStatus \<Rightarrow> BlueGreenRolloutStatus \<Rightarrow> outcome fhandler) \<Rightarrow> outcome fhandler" where
  \<comment> \<open>\<open>active := deployment.Status.ActiveRollout; data := active.BlueGreen\<close> and their dereferences\<close>
  "with_bluegreen k = do {
     deployment \<leftarrow> get_obj;
     (case st_ActiveRollout (fd_Status deployment) of
        None \<Rightarrow> ret nil_panic
      | Some active \<Rightarrow> (case ro_BlueGreen active of None \<Rightarrow> ret nil_panic | Some data \<Rightarrow> k active data)) }"

abbreviation set_phase :: "string \<Rightarrow> unit fhandler" where
  "set_phase p \<equiv> upd_obj (upd_st (upd_active (\<lambda>a. a\<lparr>ro_Phase := p\<rparr>)))"

definition blueGreenAbort :: "fenv \<Rightarrow> string \<Rightarrow> string \<Rightarrow> outcome fhandler" where
  "blueGreenAbort E reason message = do {
     deployment \<leftarrow> get_obj;
     (case st_ActiveRollout (fd_Status deployment) of
        None \<Rightarrow> ret nil_panic
      | Some active \<Rightarrow> do {
          (case ro_BlueGreen active of
             Some data \<Rightarrow> blueGreenDeleteProcessGroup E (bg_CandidateProcessGroupID data)
           | None \<Rightarrow> ret ());
          upd_obj (upd_st (\<lambda>st. st\<lparr>st_ActiveRollout := None\<rparr>));
          snapshotDeploymentFailed E reason (errorf message) }) }"

definition blueGreenStartRollback :: "fenv \<Rightarrow> string \<Rightarrow> outcome fhandler" where
  "blueGreenStartRollback E reason = do {
     set_phase bgPhaseRollingBackTraffic;
     upd_obj (upd_st (\<lambda>st. st\<lparr>st_Common := set_last_error reason (st_Common st)\<rparr>));
     mark_not_ready E ''BlueGreenRollingBack'' (''Switching traffic back to blue: '' @ reason);
     persist_after E 1 }"

definition blueGreenDeployCandidate :: "fenv \<Rightarrow> string \<Rightarrow> string \<Rightarrow> outcome fhandler" where
  "blueGreenDeployCandidate E parentID snapshot = with_bluegreen (\<lambda>active data. do {
     deployment \<leftarrow> get_obj;
     (if bg_CandidateProcessGroupID data = '''' then
        (case renameFlowSnapshot (fe_json E) snapshot (blueGreenCandidateName deployment) of
           Inl err \<Rightarrow> snapshotDeploymentFailed E ''BlueGreenCandidateImportFailed'' (wrapf ''prepare candidate snapshot: '' err)
         | Inr candidateSnapshot \<Rightarrow> do {
             r \<leftarrow> ImportProcessGroup E parentID candidateSnapshot;
             (case r of
                Inl err \<Rightarrow> snapshotDeploymentFailed E ''BlueGreenCandidateImportFailed'' (wrapf ''import BlueGreen candidate: '' err)
              | Inr imported \<Rightarrow>
                  (let i = (case imported of None \<Rightarrow> '''' | Some e \<Rightarrow> processGroupEntityID e) in
                   if i = '''' then snapshotDeploymentFailed E ''BlueGreenCandidateImportFailed''
                                  (errorf ''NiFi returned no candidate process group'')
                   else do {
                     upd_obj (upd_st (upd_bluegreen (\<lambda>b. b\<lparr>bg_CandidateProcessGroupID := i\<rparr>)));
                     set_phase bgPhaseAwaitingReadiness;
                     persist_after E 2 })) })
      else do { set_phase bgPhaseAwaitingReadiness; persist_after E 2 }) })"

definition blueGreenBoundaryPortCount :: "fenv \<Rightarrow> string \<Rightarrow> int go_result fhandler" where
  "blueGreenBoundaryPortCount E candidateID = do {
     i \<leftarrow> ListProcessGroupInputPorts E candidateID;
     (case i of
        Inl err \<Rightarrow> ret (Inl err)
      | Inr inputs \<Rightarrow> do {
          o' \<leftarrow> ListProcessGroupOutputPorts E candidateID;
          ret (case o' of Inl err \<Rightarrow> Inl err
               | Inr outputs \<Rightarrow> Inr (int32 (int (length inputs + length outputs)))) }) }"

definition blueGreenReadinessExpired :: "go_time \<Rightarrow> FlowRolloutStatus \<Rightarrow> BlueGreenStrategy \<Rightarrow> bool" where
  "blueGreenReadinessExpired t active strategy \<longleftrightarrow>
     (if bgs_ReadinessTimeoutSeconds strategy \<le> 0 then True
      else t - ro_StartedAt active > bgs_ReadinessTimeoutSeconds strategy * second)"

definition blueGreenAwaitReadiness :: "fenv \<Rightarrow> BlueGreenStrategy \<Rightarrow> outcome fhandler" where
  "blueGreenAwaitReadiness E strategy = with_bluegreen (\<lambda>active data. do {
     let candidateID = bg_CandidateProcessGroupID data;
     (if bgs_RequireEnabledControllerServices strategy = Some True
      then do { _ \<leftarrow> EnableControllerServices E candidateID; ret () } else ret ());
     g \<leftarrow> GetProcessGroup E candidateID;
     (case g of
        Inl err \<Rightarrow> snapshotDeploymentFailed E ''BlueGreenReadinessFailed'' (wrapf ''inspect candidate process group: '' err)
      | Inr None \<Rightarrow> snapshotDeploymentFailed E ''BlueGreenReadinessFailed'' (wrapf_opt ''inspect candidate process group: '' None)
      | Inr (Some candidate) \<Rightarrow> do {
          p \<leftarrow> blueGreenBoundaryPortCount E candidateID;
          (case p of
             Inl err \<Rightarrow> snapshotDeploymentFailed E ''BlueGreenReadinessFailed'' (wrapf ''inspect candidate ports: '' err)
           | Inr tolerance \<Rightarrow>
               (if pg_InvalidCount candidate > tolerance then do {
                  t \<leftarrow> now E;
                  (if blueGreenReadinessExpired t active strategy then
                     blueGreenAbort E ''BlueGreenReadinessFailed''
                       (''candidate has '' @ show_int (pg_InvalidCount candidate) @ '' invalid component(s) beyond its '' @
                        show_int tolerance @ '' boundary port(s) after the readiness timeout'')
                   else ret (requeue_after 5, None)) }
                else do { set_phase bgPhaseSwitchingTraffic; persist_after E 1 })) }) })"

section \<open>Inventory of the boundary connections\<close>

definition boundary_record :: "string \<Rightarrow> string \<Rightarrow> ConnectionEntity \<Rightarrow> string \<Rightarrow> ExternalConnectionRecord" where
  "boundary_record direction portName connection definition' =
     \<lparr>xc_Direction = direction, xc_PortName = portName, xc_OriginalID = bgConnectionEntityID (Some connection),
      xc_Definition = definition', xc_Switched = False, xc_GreenConnectionID = '''', xc_DrainStartedAt = None\<rparr>"

fun inventory_records ::
  "fenv \<Rightarrow> string \<Rightarrow> (string \<Rightarrow> string option) \<Rightarrow> (string \<Rightarrow> string option) \<Rightarrow> ExternalConnectionRecord list \<Rightarrow>
   ConnectionEntity list \<Rightarrow> ExternalConnectionRecord list go_result" where
  "inventory_records E blueID inputNames outputNames records [] = Inr records"
| "inventory_records E blueID inputNames outputNames records (connection # rest) =
    (let component = ce_Component connection in
     case fe_MarshalConnection E component of
       Inl marshalErr \<Rightarrow> Inl marshalErr
     | Inr definition' \<Rightarrow>
        (if cn_GroupID (cc_Destination component) = blueID \<and> cn_Type (cc_Destination component) = ConnectableInputPort then
           (let portName = map_index inputNames (cn_ID (cc_Destination component)) in
            if portName = '''' then inventory_records E blueID inputNames outputNames records rest
            else if \<not> blueGreenSwitchableSource (cn_Type (cc_Source component)) then
              Inl (errorf (''inbound boundary connection feeds port '' @ quoteq portName @ '' from unsupported '' @
                cn_Type (cc_Source component) @ '' source; BlueGreen cannot stop it safely''))
            else inventory_records E blueID inputNames outputNames
                   (records @ [boundary_record bgDirectionInbound portName connection definition']) rest)
         else if cn_GroupID (cc_Source component) = blueID \<and> cn_Type (cc_Source component) = ConnectableOutputPort then
           (let portName = map_index outputNames (cn_ID (cc_Source component)) in
            if portName = '''' then inventory_records E blueID inputNames outputNames records rest
            else inventory_records E blueID inputNames outputNames
                   (records @ [boundary_record bgDirectionOutbound portName connection definition']) rest)
         else inventory_records E blueID inputNames outputNames records rest))"

definition blueGreenInventory :: "fenv \<Rightarrow> string \<Rightarrow> string \<Rightarrow> ExternalConnectionRecord list go_result fhandler" where
  "blueGreenInventory E blueID parentID = do {
     c \<leftarrow> ListProcessGroupConnections E parentID;
     (case c of
        Inl err \<Rightarrow> ret (Inl (wrapf ''list parent connections: '' err))
      | Inr connections \<Rightarrow> do {
          i \<leftarrow> ListProcessGroupInputPorts E blueID;
          (case i of
             Inl err \<Rightarrow> ret (Inl (wrapf ''list blue input ports: '' err))
           | Inr inputs \<Rightarrow> do {
               o' \<leftarrow> ListProcessGroupOutputPorts E blueID;
               ret (case o' of
                  Inl err \<Rightarrow> Inl (wrapf ''list blue output ports: '' err)
                | Inr outputs \<Rightarrow>
                    inventory_records E blueID (portIDToName inputs) (portIDToName outputs) [] connections) }) }) }"

definition blueGreenPortMaps ::
  "fenv \<Rightarrow> string \<Rightarrow> ((string \<Rightarrow> string option) \<times> (string \<Rightarrow> string option)) go_result fhandler" where
  "blueGreenPortMaps E candidateID = do {
     i \<leftarrow> ListProcessGroupInputPorts E candidateID;
     (case i of
        Inl err \<Rightarrow> ret (Inl (wrapf ''list candidate input ports: '' err))
      | Inr inputs \<Rightarrow> do {
          o' \<leftarrow> ListProcessGroupOutputPorts E candidateID;
          ret (case o' of
             Inl err \<Rightarrow> Inl (wrapf ''list candidate output ports: '' err)
           | Inr outputs \<Rightarrow> Inr (portNameToID inputs, portNameToID outputs)) }) }"

section \<open>Switching one connection\<close>

definition switched_component :: "ConnectionComponent \<Rightarrow> string \<Rightarrow> string \<Rightarrow> string \<Rightarrow> string \<Rightarrow> ConnectionComponent" where
  "switched_component component direction greenPortID candidateID parentID =
    (let switched = component\<lparr>cc_ID := '''', cc_ParentGroupID := parentID\<rparr> in
     if direction = bgDirectionInbound
     then switched\<lparr>cc_Destination := \<lparr>cn_ID = greenPortID, cn_Type = ConnectableInputPort, cn_GroupID = candidateID\<rparr>\<rparr>
     else switched\<lparr>cc_Source := \<lparr>cn_ID = greenPortID, cn_Type = ConnectableOutputPort, cn_GroupID = candidateID\<rparr>\<rparr>)"

text \<open>The second half of \<open>blueGreenSwitchConnection\<close>, once the queue is empty: replace the connection.\<close>

definition replace_connection ::
  "fenv \<Rightarrow> ConnectionComponent \<Rightarrow> ExternalConnectionRecord \<Rightarrow> string \<Rightarrow> string \<Rightarrow> string \<Rightarrow>
   (ExternalConnectionRecord \<times> bool go_result) fhandler" where
  "replace_connection E component record' greenPortID candidateID parentID = do {
     g \<leftarrow> GetConnection E (xc_OriginalID record');
     (case g of
        Inl err \<Rightarrow> ret (record', Inl (wrapf ''get boundary connection: '' err))
      | Inr None \<Rightarrow> ret (record', Inl (wrapf_opt ''get boundary connection: '' None))
      | Inr (Some existing) \<Rightarrow> do {
          d \<leftarrow> DeleteConnection E (xc_OriginalID record') (re_Version (ce_Revision existing));
          (case d of
             Some err \<Rightarrow> ret (record', Inl (wrapf ''delete boundary connection: '' err))
           | None \<Rightarrow> do {
               c \<leftarrow> CreateConnection E parentID \<lparr>ce_ID = '''', ce_Revision = \<lparr>re_Version = 0\<rparr>,
                      ce_Component = switched_component component (xc_Direction record') greenPortID candidateID parentID\<rparr>;
               (case c of
                  Inl err \<Rightarrow> ret (record', Inl (wrapf ''create green connection: '' err))
                | Inr created \<Rightarrow>
                    ret (record'\<lparr>xc_GreenConnectionID := bgConnectionEntityID created, xc_Switched := True\<rparr>, Inr True)) }) }) }"

definition drain_deadline_passed :: "BlueGreenStrategy \<Rightarrow> duration \<Rightarrow> bool" where
  "drain_deadline_passed strategy waited \<longleftrightarrow>
     bgs_DrainTimeoutSeconds strategy \<le> 0 \<or> waited > bgs_DrainTimeoutSeconds strategy * second"

definition blueGreenSwitchConnection ::
  "fenv \<Rightarrow> ExternalConnectionRecord \<Rightarrow> string \<Rightarrow> string \<Rightarrow> string \<Rightarrow> BlueGreenStrategy \<Rightarrow>
   (ExternalConnectionRecord \<times> bool go_result) fhandler" where
  "blueGreenSwitchConnection E record' greenPortID candidateID parentID strategy =
    (case decodeConnectionComponent E (xc_Definition record') of
       Inl err \<Rightarrow> ret (record', Inl (wrapf ''decode recorded connection: '' err))
     | Inr component \<Rightarrow> do {
         s \<leftarrow> SetComponentRunStatus E (cn_Type (cc_Source component)) (cn_ID (cc_Source component)) RunStateStopped;
         (case s of
            Some err \<Rightarrow> ret (record', Inl (wrapf (''stop source '' @ cn_Type (cc_Source component) @ ''/'' @
                          cn_ID (cc_Source component) @ '': '') err))
          | None \<Rightarrow> do {
              t \<leftarrow> now E;
              let startedAt = (case xc_DrainStartedAt record' of Some x \<Rightarrow> x | None \<Rightarrow> t);
              let draining = record'\<lparr>xc_DrainStartedAt := Some startedAt\<rparr>;
              q \<leftarrow> ConnectionQueueCount E (xc_OriginalID record');
              t2 \<leftarrow> now E;
              (case q of
                 Inl err \<Rightarrow> ret (draining, Inl (wrapf ''read boundary queue: '' err))
               | Inr queued \<Rightarrow>
                   (if queued \<le> 0 then replace_connection E component draining greenPortID candidateID parentID
                    else if \<not> drain_deadline_passed strategy (t2 - startedAt) then ret (draining, Inr False)
                    else if bgs_OnDrainTimeout strategy \<noteq> ''Drop'' then
                      ret (draining, Inl (errorf (''boundary connection '' @ quoteq (xc_PortName record') @
                        '' did not drain within '' @ show_int (bgs_DrainTimeoutSeconds strategy) @ ''s'')))
                    else do {
                      d \<leftarrow> DropConnectionQueue E (xc_OriginalID record');
                      (case d of
                         Some err \<Rightarrow> ret (draining, Inl (wrapf ''drop boundary queue: '' err))
                       | None \<Rightarrow> replace_connection E component draining greenPortID candidateID parentID) })) }) })"

definition set_record :: "nat \<Rightarrow> ExternalConnectionRecord \<Rightarrow> unit fhandler" where
  "set_record i record' = upd_obj (upd_st (upd_bluegreen (\<lambda>b. b\<lparr>bg_ExternalConnections := (bg_ExternalConnections b)[i := record']\<rparr>)))"

definition blueGreenSwitchTraffic :: "fenv \<Rightarrow> BlueGreenStrategy \<Rightarrow> outcome fhandler" where
  "blueGreenSwitchTraffic E strategy = with_bluegreen (\<lambda>active data.
     if \<not> bg_Inventoried data then do {
       r \<leftarrow> blueGreenInventory E (bg_BlueProcessGroupID data) (bg_ParentProcessGroupID data);
       (case r of
          Inl err \<Rightarrow> blueGreenAbort E ''BlueGreenInventoryFailed'' (err_text err)
        | Inr records \<Rightarrow> do {
            upd_obj (upd_st (upd_bluegreen (\<lambda>b. b\<lparr>bg_ExternalConnections := records, bg_Inventoried := True\<rparr>)));
            persist_after E 1 }) }
     else if bg_ExternalConnections data = [] then do { set_phase bgPhasePromoting; persist_after E 1 }
     else do {
       m \<leftarrow> blueGreenPortMaps E (bg_CandidateProcessGroupID data);
       (case m of
          Inl err \<Rightarrow> blueGreenAbort E ''BlueGreenCandidatePortsFailed'' (err_text err)
        | Inr (greenInputs, greenOutputs) \<Rightarrow>
           (case first_index (\<lambda>x. \<not> xc_Switched x) (bg_ExternalConnections data) of
              None \<Rightarrow> do { set_phase bgPhasePromoting; persist_after E 1 }
            | Some i \<Rightarrow> do {
                let record' = bg_ExternalConnections data ! i;
                let greenPortID = map_index (if xc_Direction record' = bgDirectionOutbound then greenOutputs else greenInputs) (xc_PortName record');
                (if greenPortID = '''' then
                   blueGreenStartRollback E (''candidate has no '' @ xc_Direction record' @ '' port named '' @ quoteq (xc_PortName record'))
                 else do {
                   sw \<leftarrow> blueGreenSwitchConnection E record' greenPortID (bg_CandidateProcessGroupID data)
                            (bg_ParentProcessGroupID data) strategy;
                   set_record i (fst sw);
                   (case snd sw of
                      Inl err \<Rightarrow> blueGreenStartRollback E (err_text err)
                    | Inr done \<Rightarrow> (if \<not> done then persist_after E 5 else persist_after E 1)) }) })) })"

section \<open>Promotion and switching back\<close>

fun restart_sources :: "fenv \<Rightarrow> ExternalConnectionRecord list \<Rightarrow> unit fhandler" where
  "restart_sources E [] = ret ()"
| "restart_sources E (record' # rest) = do {
     (case decodeConnectionComponent E (xc_Definition record') of
        Inl _ \<Rightarrow> ret ()
      | Inr component \<Rightarrow> do {
          _ \<leftarrow> SetComponentRunStatus E (cn_Type (cc_Source component)) (cn_ID (cc_Source component)) RunStateRunning;
          ret () });
     restart_sources E rest }"

definition blueGreenPromote :: "fenv \<Rightarrow> string \<Rightarrow> string \<Rightarrow> string \<Rightarrow> outcome fhandler" where
  "blueGreenPromote E version digest snapshot = with_bluegreen (\<lambda>active data. do {
     g \<leftarrow> GetProcessGroup E (bg_CandidateProcessGroupID data);
     (case g of
        Inl err \<Rightarrow> snapshotDeploymentFailed E ''BlueGreenPromoteFailed'' (wrapf ''get candidate for promotion: '' err)
      | Inr None \<Rightarrow> snapshotDeploymentFailed E ''BlueGreenPromoteFailed'' (wrapf_opt ''get candidate for promotion: '' None)
      | Inr (Some candidate) \<Rightarrow> do {
          s \<leftarrow> ScheduleProcessGroup E (bg_CandidateProcessGroupID data) RunStateRunning;
          (case s of
             Some err \<Rightarrow> snapshotDeploymentFailed E ''BlueGreenPromoteFailed'' (wrapf ''start promoted process group: '' err)
           | None \<Rightarrow> do {
               upd_obj (upd_st (\<lambda>st. st\<lparr>st_ProcessGroupID := bg_CandidateProcessGroupID data\<rparr>));
               m \<leftarrow> reconcileSnapshotDeploymentMetadata E candidate;
               (case m of
                  Inl err \<Rightarrow> snapshotDeploymentFailed E ''BlueGreenPromoteFailed'' (wrapf ''rename promoted process group: '' err)
                | Inr current \<Rightarrow> do {
                    restart_sources E (filter (\<lambda>x. xc_Direction x = bgDirectionInbound) (bg_ExternalConnections data));
                    upd_obj (upd_st (\<lambda>st. st\<lparr>st_RetiringProcessGroupID := bg_BlueProcessGroupID data\<rparr>));
                    deployment \<leftarrow> get_obj;
                    let desired = (case normalizeFlowSnapshot (fe_json E) snapshot (ignore_fields deployment) of
                          Inr (_, dig) \<Rightarrow> dig | Inl _ \<Rightarrow> '''');
                    u \<leftarrow> markSnapshotDeploymentInSync E (bg_CandidateProcessGroupID data) (re_Version (pg_Revision current))
                           version digest desired desired snapshot;
                    ret (rolloutRequeue, u) }) }) }) })"

definition restore_connection :: "fenv \<Rightarrow> ConnectionComponent \<Rightarrow> nat \<Rightarrow> ExternalConnectionRecord \<Rightarrow> string \<Rightarrow> outcome fhandler" where
  "restore_connection E component i record' parentID = do {
     c \<leftarrow> CreateConnection E parentID \<lparr>ce_ID = '''', ce_Revision = \<lparr>re_Version = 0\<rparr>,
            ce_Component = component\<lparr>cc_ID := '''', cc_ParentGroupID := parentID\<rparr>\<rparr>;
     (case c of
        Inl err \<Rightarrow> snapshotDeploymentFailed E ''BlueGreenRollbackFailed''
                     (wrapf (''restore blue connection '' @ quoteq (xc_PortName record') @ '': '') err)
      | Inr created \<Rightarrow> do {
          set_record i (record'\<lparr>xc_OriginalID := bgConnectionEntityID created, xc_GreenConnectionID := '''',
             xc_Switched := False, xc_DrainStartedAt := None\<rparr>);
          persist_after E 1 }) }"

definition remove_green_connection :: "fenv \<Rightarrow> string \<Rightarrow> bool fhandler" where
  \<comment> \<open>\<open>False\<close> when the green connection exists and NiFi refuses to delete it\<close>
  "remove_green_connection E greenID =
     (if greenID = '''' then ret True else do {
        g \<leftarrow> GetConnection E greenID;
        (case g of
           Inr (Some green) \<Rightarrow> do {
             q \<leftarrow> ConnectionQueueCount E greenID;
             (if (case q of Inr n \<Rightarrow> n > 0 | Inl _ \<Rightarrow> False)
              then do { _ \<leftarrow> DropConnectionQueue E greenID; ret () } else ret ());
             d \<leftarrow> DeleteConnection E greenID (re_Version (ce_Revision green));
             ret (d = None) }
         | _ \<Rightarrow> ret True) })"

definition finish_rollback :: "fenv \<Rightarrow> FlowRolloutStatus \<Rightarrow> BlueGreenRolloutStatus \<Rightarrow> outcome fhandler" where
  "finish_rollback E active data = do {
     restart_sources E (bg_ExternalConnections data);
     (if bg_BlueProcessGroupID data \<noteq> ''''
      then do { _ \<leftarrow> ScheduleProcessGroup E (bg_BlueProcessGroupID data) RunStateRunning; ret () } else ret ());
     blueGreenDeleteProcessGroup E (bg_CandidateProcessGroupID data);
     deployment \<leftarrow> get_obj;
     let failure = or_default (sy_LastError (cs_Sync (st_Common (fd_Status deployment))))
           ''BlueGreen rollout failed; traffic was switched back to blue'';
     t \<leftarrow> now E;
     upd_obj (upd_st (\<lambda>st. st\<lparr>
        st_LastRollback := Some \<lparr>lb_FailedGeneration = fd_Generation deployment,
           lb_FailedVersion = ro_TargetVersion active, lb_FailedDigest = ro_TargetDigest active,
           lb_RestoredVersion = st_DeployedVersion st, lb_RestoredDigest = st_ArtifactDigest st,
           lb_CompletedAt = Some t, lb_Message = failure\<rparr>,
        st_ActiveRollout := None\<rparr>));
     recordFailedFlowDeployment E (ro_TargetVersion active) (ro_TargetDigest active) '''' failure;
     trimFlowDeploymentHistory E;
     snapshotDeploymentFailed E ''BlueGreenRolledBack'' (errorf failure) }"

definition blueGreenRollbackTraffic :: "fenv \<Rightarrow> outcome fhandler" where
  "blueGreenRollbackTraffic E = with_bluegreen (\<lambda>active data.
     case first_index xc_Switched (bg_ExternalConnections data) of
       None \<Rightarrow> finish_rollback E active data
     | Some i \<Rightarrow>
        (let record' = bg_ExternalConnections data ! i in
         case decodeConnectionComponent E (xc_Definition record') of
           Inl err \<Rightarrow> snapshotDeploymentFailed E ''BlueGreenRollbackFailed'' (wrapf ''decode recorded connection during rollback: '' err)
         | Inr component \<Rightarrow> do {
             removed \<leftarrow> remove_green_connection E (xc_GreenConnectionID record');
             (if \<not> removed then ret (requeue_after 5, None)
              else restore_connection E component i record' (bg_ParentProcessGroupID data)) }))"

section \<open>The state machine\<close>

definition blueGreenPhaseStep :: "fenv \<Rightarrow> string \<Rightarrow> string \<Rightarrow> string \<Rightarrow> string \<Rightarrow> outcome fhandler" where
  "blueGreenPhaseStep E parentID snapshot version digest = do {
     upd_obj (upd_st (upd_active (\<lambda>a. a\<lparr>ro_Strategy := ''BlueGreen''\<rparr>)));
     deployment \<leftarrow> get_obj;
     let strategy = blueGreenStrategy deployment;
     (case st_ActiveRollout (fd_Status deployment) of
        None \<Rightarrow> ret nil_panic
      | Some active \<Rightarrow>
         (if ro_BlueGreen active = None then do {
            upd_obj (upd_st (\<lambda>st. (upd_active (\<lambda>a. a\<lparr>ro_Phase := bgPhaseDeployingCandidate,
               ro_BlueGreen := Some \<lparr>bg_CandidateProcessGroupID = '''', bg_BlueProcessGroupID = st_ProcessGroupID st,
                 bg_ParentProcessGroupID = parentID, bg_Inventoried = False, bg_ExternalConnections = []\<rparr>\<rparr>) st)
               \<lparr>st_SyncState := ''BlueGreenRollout''\<rparr>));
            mark_not_ready E ''BlueGreenRollout'' ''Starting transactional BlueGreen rollout.'';
            persist_after E 1 }
          else if ro_Phase active = bgPhaseDeployingCandidate then blueGreenDeployCandidate E parentID snapshot
          else if ro_Phase active = bgPhaseAwaitingReadiness then blueGreenAwaitReadiness E strategy
          else if ro_Phase active = bgPhaseSwitchingTraffic then blueGreenSwitchTraffic E strategy
          else if ro_Phase active = bgPhasePromoting then blueGreenPromote E version digest snapshot
          else if ro_Phase active = bgPhaseRollingBackTraffic then blueGreenRollbackTraffic E
          else do { set_phase bgPhaseDeployingCandidate; persist_after E 1 })) }"

definition reconcileBlueGreenRollout :: "fenv \<Rightarrow> string \<Rightarrow> string \<Rightarrow> string \<Rightarrow> string \<Rightarrow> outcome fhandler" where
  "reconcileBlueGreenRollout E parentID snapshot version digest = do {
     _ \<leftarrow> ensureActiveFlowRollout E version digest ''BlueGreen'';
     blueGreenPhaseStep E parentID snapshot version digest }"

end
