(* ===== verification/BlueGreen_Machine.thy ===== *)
theory BlueGreen_Machine
  imports Flow_BlueGreen
begin

text \<open>
  The BlueGreen state machine over many reconciles: what a reconcile may store, the states that are
  reachable, and the guarantees about promotion, the live process group and the boundary queues.
\<close>

section \<open>What reaches the API server\<close>

definition updates :: "fcall list \<Rightarrow> NiFiFlowDeployment set" where
  "updates cs = {d. CStatusUpdate d \<in> set cs}"

lemma updates_simps [simp]:
  "updates [] = {}" "updates (xs @ ys) = updates xs \<union> updates ys"
  "updates (c # cs) = (case c of CStatusUpdate d \<Rightarrow> insert d (updates cs) | _ \<Rightarrow> updates cs)"
  by (auto simp: updates_def split: fcall.split)

fun persisted :: "fenv \<Rightarrow> fcall list \<Rightarrow> fcall list \<Rightarrow> NiFiFlowDeploymentStatus \<Rightarrow> NiFiFlowDeploymentStatus" where
  \<comment> \<open>the status stored by the API server after the calls: the last acknowledged update\<close>
  "persisted E log [] st = st"
| "persisted E log (c # cs) st = persisted E (log @ [c]) cs
     (case c of CStatusUpdate d \<Rightarrow> (if fe_StatusUpdate E d log = None then fd_Status d else st) | _ \<Rightarrow> st)"

lemma persisted_cases: "persisted E log cs st = st \<or> persisted E log cs st \<in> fd_Status ` updates cs"
proof (induction cs arbitrary: log st)
  case (Cons c cs)
  show ?case
    using Cons [of "log @ [c]" "case c of CStatusUpdate d \<Rightarrow> (if fe_StatusUpdate E d log = None then fd_Status d else st) | _ \<Rightarrow> st"]
    by (auto split: fcall.splits if_splits)
qed simp

definition restart_calls :: "fenv \<Rightarrow> ExternalConnectionRecord list \<Rightarrow> fcall list" where
  "restart_calls E rs = concat (map (\<lambda>r. case decodeConnectionComponent E (xc_Definition r) of Inl _ \<Rightarrow> []
     | Inr c \<Rightarrow> [CSetRunStatus (cn_Type (cc_Source c)) (cn_ID (cc_Source c)) RunStateRunning]) rs)"

lemma wp_restart_sources [wp_simps]:
  "wp (restart_sources E rs) Q s = Q () (s\<lparr>calls := calls s @ restart_calls E rs\<rparr>)"
proof (induction rs arbitrary: s)
  case Nil
  then show ?case by (simp add: wp_simps restart_calls_def)
next
  case (Cons r rs)
  then show ?case by (simp add: wp_simps restart_calls_def split: sum.split)
qed

lemma restart_calls_only: "c \<in> set (restart_calls E rs) \<Longrightarrow> \<exists>t i. c = CSetRunStatus t i RunStateRunning"
  by (auto simp: restart_calls_def split: sum.splits)

lemma updates_restart [simp]: "updates (restart_calls E rs) = {}"
  using restart_calls_only by (fastforce simp: updates_def)

lemma updates_trim [simp]: "updates (map (CDeleteConfigMap ns) xs) = {}"
  by (auto simp: updates_def)

lemma trimmed_simps [simp]:
  "fd_Spec (trimmed d) = fd_Spec d" "fd_Generation (trimmed d) = fd_Generation d"
  "st_ActiveRollout (fd_Status (trimmed d)) = st_ActiveRollout (fd_Status d)"
  "st_ProcessGroupID (fd_Status (trimmed d)) = st_ProcessGroupID (fd_Status d)"
  "st_RetiringProcessGroupID (fd_Status (trimmed d)) = st_RetiringProcessGroupID (fd_Status d)"
  "st_Common (fd_Status (trimmed d)) = st_Common (fd_Status d)"
  "st_LastRollback (fd_Status (trimmed d)) = st_LastRollback (fd_Status d)"
  by (simp_all add: trimmed_def)

section \<open>Invariant\<close>

definition bg_ok :: "FlowRolloutStatus \<Rightarrow> BlueGreenRolloutStatus \<Rightarrow> bool" where
  "bg_ok active data \<longleftrightarrow>
     (ro_Phase active = bgPhaseDeployingCandidate \<or> ro_Phase active = bgPhaseAwaitingReadiness \<longrightarrow>
        \<not> bg_Inventoried data \<and> bg_ExternalConnections data = []) \<and>
     (ro_Phase active \<in> {bgPhaseAwaitingReadiness, bgPhaseSwitchingTraffic, bgPhasePromoting} \<longrightarrow>
        bg_CandidateProcessGroupID data \<noteq> '''') \<and>
     (\<not> bg_Inventoried data \<longrightarrow> bg_ExternalConnections data = []) \<and>
     (ro_Phase active = bgPhasePromoting \<longrightarrow>
        bg_Inventoried data \<and> (\<forall>r \<in> set (bg_ExternalConnections data). xc_Switched r)) \<and>
     ro_Phase active \<in> {bgPhaseDeployingCandidate, bgPhaseAwaitingReadiness, bgPhaseSwitchingTraffic,
        bgPhasePromoting, bgPhaseRollingBackTraffic}"

definition bg_inv :: "NiFiFlowDeploymentStatus \<Rightarrow> bool" where
  "bg_inv st \<longleftrightarrow> (\<forall>active data. st_ActiveRollout st = Some active \<and> ro_Operation active = ''BlueGreen'' \<and>
     ro_BlueGreen active = Some data \<longrightarrow> bg_ok active data)"

lemma bg_inv_None [simp]: "st_ActiveRollout st = None \<Longrightarrow> bg_inv st"
  by (simp add: bg_inv_def)

lemma bg_inv_cong: "st_ActiveRollout st = st_ActiveRollout st' \<Longrightarrow> bg_inv st = bg_inv st'"
  by (simp add: bg_inv_def)

lemma first_index_None: "first_index P xs = None \<longleftrightarrow> (\<forall>x \<in> set xs. \<not> P x)"
  by (induction xs) auto

lemma first_index_Some: "first_index P xs = Some i \<Longrightarrow> i < length xs \<and> P (xs ! i) \<and> (\<forall>j < i. \<not> P (xs ! j))"
  by (induction xs arbitrary: i) (auto split: if_splits simp: less_Suc_eq_0_disj)

definition sends :: "(NiFiFlowDeploymentStatus \<Rightarrow> bool) \<Rightarrow> (fcall, NiFiFlowDeployment) rstate \<Rightarrow> 'a \<Rightarrow> (fcall, NiFiFlowDeployment) rstate \<Rightarrow> bool" where
  \<comment> \<open>every status sent since \<open>s\<close> satisfies \<open>P\<close>\<close>
  "sends P s r s' \<longleftrightarrow> fd_Status ` updates (calls s') \<subseteq> fd_Status ` updates (calls s) \<union> Collect P"

lemma failed_sends:
  assumes "\<And>st. st_ActiveRollout st = st_ActiveRollout (fd_Status (obj s)) \<Longrightarrow>
       st_ProcessGroupID st = st_ProcessGroupID (fd_Status (obj s)) \<Longrightarrow> P st"
    and "updates (calls s) \<subseteq> updates (calls s0)"
  shows "wp (snapshotDeploymentFailed E reason e) (sends P s0) s"
  using assms by (auto simp: sends_def snapshotDeploymentFailed_def markFlowDeploymentNotReady_def wp_simps split: option.splits)

lemma persist_sends:
  assumes "P (fd_Status (obj s))" "updates (calls s) \<subseteq> updates (calls s0)"
  shows "wp (persist_after E n) (sends P s0) s"
  using assms by (auto simp: sends_def persist_after_def wp_simps)

lemma ret_sends: "updates (calls s) \<subseteq> updates (calls s0) \<Longrightarrow> wp (ret x) (sends P s0) s"
  by (auto simp: sends_def wp_simps)

definition bg_safe :: "NiFiFlowDeploymentStatus \<Rightarrow> NiFiFlowDeploymentStatus \<Rightarrow> bool" where
  \<comment> \<open>what a reconcile that starts from the status \<open>st0\<close> may store\<close>
  "bg_safe st0 st \<longleftrightarrow> bg_inv st \<and>
     (st_ProcessGroupID st = st_ProcessGroupID st0 \<or>
      (\<exists>active data. st_ActiveRollout st0 = Some active \<and> ro_BlueGreen active = Some data \<and>
         ro_Phase active = bgPhasePromoting \<and> bg_Inventoried data \<and>
         (\<forall>r \<in> set (bg_ExternalConnections data). xc_Switched r) \<and>
         st_ProcessGroupID st = bg_CandidateProcessGroupID data))"

lemma bg_safe_eq: "st_ProcessGroupID st = st_ProcessGroupID st0 \<Longrightarrow> bg_safe st0 st \<longleftrightarrow> bg_inv st"
  by (simp add: bg_safe_def)

lemma sends_same [simp]: "updates (calls s') \<subseteq> updates (calls s) \<Longrightarrow> sends P s r s'"
  by (auto simp: sends_def)

lemma bg_safe_same:
  "st_ActiveRollout st = None \<Longrightarrow> st_ProcessGroupID st = st_ProcessGroupID st0 \<Longrightarrow> bg_safe st0 st"
  by (simp add: bg_safe_def)

lemma bg_safe_active:
  "st_ActiveRollout st = Some a \<Longrightarrow> (\<And>data. ro_BlueGreen a = Some data \<Longrightarrow> bg_ok a data) \<Longrightarrow>
   st_ProcessGroupID st = st_ProcessGroupID st0 \<Longrightarrow> bg_safe st0 st"
  by (auto simp: bg_safe_def bg_inv_def)

lemma deploy_sends:
  assumes "st_ActiveRollout (fd_Status (obj s)) = Some a" "ro_BlueGreen a = Some data" "bg_ok a data"
    and "ro_Phase a = bgPhaseDeployingCandidate"
  shows "wp (blueGreenDeployCandidate E parentID snapshot) (sends (bg_safe (fd_Status (obj s))) s) s"
  using assms
  by (auto simp: blueGreenDeployCandidate_def with_bluegreen_def wp_simps Let_def upd_bluegreen_def bg_ok_def bg_phase_defs
      split: sum.splits option.splits
      intro!: failed_sends persist_sends bg_safe_active)

lemma delete_pg_sends:
  "(\<And>s'. obj s' = obj s \<Longrightarrow> updates (calls s') = updates (calls s) \<Longrightarrow> Q () s') \<Longrightarrow> wp (blueGreenDeleteProcessGroup E i) Q s"
  by (simp add: blueGreenDeleteProcessGroup_def wp_simps split: sum.splits option.splits)

lemma abort_sends:
  assumes "st_ActiveRollout (fd_Status (obj s)) = Some a"
    and "updates (calls s) \<subseteq> updates (calls s0)" "st_ProcessGroupID (fd_Status (obj s)) = st_ProcessGroupID st0"
  shows "wp (blueGreenAbort E reason message) (sends (bg_safe st0) s0) s"
  unfolding blueGreenAbort_def
  by (intro wp_intros delete_pg_sends failed_sends ret_sends bg_safe_same) (use assms in auto)

lemma rollback_start_sends:
  assumes "\<And>a d. st_ActiveRollout (fd_Status (obj s)) = Some a \<Longrightarrow> ro_BlueGreen a = Some d \<Longrightarrow>
      bg_Inventoried d \<or> bg_ExternalConnections d = []"
    and "updates (calls s) \<subseteq> updates (calls s0)" "st_ProcessGroupID (fd_Status (obj s)) = st_ProcessGroupID st0"
  shows "wp (blueGreenStartRollback E reason) (sends (bg_safe st0) s0) s"
proof -
  have "bg_ok (a\<lparr>ro_Phase := bgPhaseRollingBackTraffic\<rparr>) d"
    if "st_ActiveRollout (fd_Status (obj s)) = Some a" "ro_BlueGreen a = Some d" for a d
    using assms(1) [OF that] by (auto simp: bg_ok_def bg_phase_defs)
  then show ?thesis
    unfolding blueGreenStartRollback_def mark_not_ready_def now_def
    by (intro wp_intros persist_sends) (auto simp: assms(2,3) bg_safe_eq bg_inv_def)
qed

lemma wp_with_bluegreen:
  "st_ActiveRollout (fd_Status (obj s)) = Some a \<Longrightarrow> ro_BlueGreen a = Some data \<Longrightarrow> wp (k a data) Q s \<Longrightarrow>
   wp (with_bluegreen k) Q s"
  by (simp add: with_bluegreen_def wp_simps)

lemma bg_safe_keep:
  assumes "st_ActiveRollout st0 = Some a" "ro_BlueGreen a = Some data" "bg_ok a data"
    and "st_ActiveRollout st = Some a" "st_ProcessGroupID st = st_ProcessGroupID st0"
  shows "bg_safe st0 st"
  using assms by (auto intro: bg_safe_active)

lemma await_sends:
  assumes a: "st_ActiveRollout (fd_Status (obj s)) = Some a" "ro_BlueGreen a = Some data" and ok: "bg_ok a data"
    and phase: "ro_Phase a = bgPhaseAwaitingReadiness"
  shows "wp (blueGreenAwaitReadiness E strategy) (sends (bg_safe (fd_Status (obj s))) s) s"
proof -
  have step: "bg_ok (a\<lparr>ro_Phase := bgPhaseSwitchingTraffic\<rparr>) data"
    using ok phase by (simp add: bg_ok_def bg_phase_defs)
  show ?thesis
    unfolding blueGreenAwaitReadiness_def blueGreenBoundaryPortCount_def nifi_call_defs
    by (rule wp_with_bluegreen [OF a], intro wp_intros failed_sends persist_sends abort_sends)
      (simp_all add: a ok step bg_safe_eq bg_inv_def)
qed

lemma replace_quiet:
  "wp (replace_connection E c r g i p) (\<lambda>x s'. obj s' = obj s \<and> updates (calls s') = updates (calls s)) s"
  unfolding replace_connection_def nifi_call_defs by (intro wp_intros) simp_all

lemma switch_quiet:
  "wp (blueGreenSwitchConnection E r g i p st) (\<lambda>x s'. obj s' = obj s \<and> updates (calls s') = updates (calls s)) s"
  unfolding blueGreenSwitchConnection_def nifi_call_defs
  by (intro wp_intros wp_mono [OF replace_quiet]) simp_all

lemma inventory_quiet:
  "wp (blueGreenInventory E b p) (\<lambda>x s'. obj s' = obj s \<and> updates (calls s') = updates (calls s)) s"
  unfolding blueGreenInventory_def nifi_call_defs by (intro wp_intros) simp_all

lemma port_maps_quiet:
  "wp (blueGreenPortMaps E c) (\<lambda>x s'. obj s' = obj s \<and> updates (calls s') = updates (calls s)) s"
  unfolding blueGreenPortMaps_def nifi_call_defs by (intro wp_intros) simp_all

lemma switch_traffic_sends:
  assumes a: "st_ActiveRollout (fd_Status (obj s)) = Some a" "ro_BlueGreen a = Some data" and ok: "bg_ok a data"
    and phase: "ro_Phase a = bgPhaseSwitchingTraffic"
  shows "wp (blueGreenSwitchTraffic E strategy) (sends (bg_safe (fd_Status (obj s))) s) s"
proof -
  have same: "bg_ok (a\<lparr>ro_BlueGreen := Some d\<rparr>) d"
    if "bg_CandidateProcessGroupID d = bg_CandidateProcessGroupID data" "bg_Inventoried d" for d
    using ok phase that by (simp add: bg_ok_def bg_phase_defs)
  have promote: "bg_ok (a\<lparr>ro_Phase := bgPhasePromoting\<rparr>) data"
    if "bg_Inventoried data" "\<forall>r \<in> set (bg_ExternalConnections data). xc_Switched r"
    using ok phase that by (simp add: bg_ok_def bg_phase_defs)
  show ?thesis
    unfolding blueGreenSwitchTraffic_def set_record_def
    by (rule wp_with_bluegreen [OF a],
        intro wp_intros persist_sends abort_sends wp_mono [OF inventory_quiet] wp_mono [OF port_maps_quiet]
          wp_mono [OF switch_quiet] rollback_start_sends)
      (auto simp: a same promote bg_safe_eq bg_inv_def upd_bluegreen_def first_index_None)
qed

lemma record_quiet:
  "wp (recordSuccessfulFlowDeployment E sn v d res)
     (\<lambda>r s'. updates (calls s') = updates (calls s) \<and> fd_Generation (obj s') = fd_Generation (obj s) \<and>
        st_ActiveRollout (fd_Status (obj s')) = st_ActiveRollout (fd_Status (obj s)) \<and>
        st_ProcessGroupID (fd_Status (obj s')) = st_ProcessGroupID (fd_Status (obj s)) \<and>
        st_RetiringProcessGroupID (fd_Status (obj s')) = st_RetiringProcessGroupID (fd_Status (obj s))) s"
  unfolding recordSuccessfulFlowDeployment_def persistFlowDeploymentSnapshot_def nifi_call_defs
  by (intro wp_intros) (simp_all add: Let_def)

lemma wp_trimI: "Q () (s\<lparr>obj := trimmed (obj s), calls := calls s @ map (CDeleteConfigMap (fd_Namespace (obj s))) (trim_deletes (obj s))\<rparr>) \<Longrightarrow>
  wp (trimFlowDeploymentHistory E) Q s"
  by (simp add: wp_trim)

lemma in_sync_status_simps [simp]:
  "st_ActiveRollout (in_sync_status t g pg rv v d dd ld st) = None"
  "st_ProcessGroupID (in_sync_status t g pg rv v d dd ld st) = pg"
  "st_ArtifactDigest (in_sync_status t g pg rv v d dd ld st) = d"
  "st_DeployedVersion (in_sync_status t g pg rv v d dd ld st) = v"
  "st_SyncState (in_sync_status t g pg rv v d dd ld st) = ''InSync''"
  "st_LatestReplaceRequest (in_sync_status t g pg rv v d dd ld st) = None"
  "st_RetiringProcessGroupID (in_sync_status t g pg rv v d dd ld st) = st_RetiringProcessGroupID st"
  "st_LastSuccessful (in_sync_status t g pg rv v d dd ld st) = st_LastSuccessful st"
  by (simp_all add: in_sync_status_def Let_def)

lemma wp_StatusUpdateI:
  "Q (fe_StatusUpdate E (obj s) (calls s)) (s\<lparr>calls := calls s @ [CStatusUpdate (obj s)]\<rparr>) \<Longrightarrow> wp (StatusUpdate E) Q s"
  by (simp add: wp_StatusUpdate)

lemma in_sync_sends:
  assumes "\<And>st. st_ActiveRollout st = None \<Longrightarrow> st_ProcessGroupID st = pg \<Longrightarrow> P st"
    and "updates (calls s) \<subseteq> updates (calls s0)"
  shows "wp (markSnapshotDeploymentInSync E pg rv v d dd ld sn) (sends P s0) s"
  unfolding markSnapshotDeploymentInSync_def now_def
  by (intro wp_intros wp_trimI wp_StatusUpdateI wp_mono [OF record_quiet])
    (use assms in \<open>auto simp: sends_def\<close>)

lemma metadata_quiet:
  "wp (reconcileSnapshotDeploymentMetadata E e) (\<lambda>r s'. obj s' = obj s \<and> updates (calls s') = updates (calls s)) s"
  unfolding reconcileSnapshotDeploymentMetadata_def nifi_call_defs by (intro wp_intros) simp_all

lemma sends_then_ret: "wp m (sends P s0) s \<Longrightarrow> wp m (\<lambda>a. wp (ret (f a)) (sends P s0)) s"
  by (erule wp_mono) (simp add: wp_simps sends_def)

lemma promote_sends:
  assumes a: "st_ActiveRollout (fd_Status (obj s)) = Some a" "ro_BlueGreen a = Some data" and ok: "bg_ok a data"
    and phase: "ro_Phase a = bgPhasePromoting"
  shows "wp (blueGreenPromote E version digest snapshot) (sends (bg_safe (fd_Status (obj s))) s) s"
proof -
  have safe: "bg_safe (fd_Status (obj s)) st"
    if "st_ActiveRollout st = None \<or> st_ActiveRollout st = Some a"
      "st_ProcessGroupID st = bg_CandidateProcessGroupID data \<or> st_ProcessGroupID st = st_ProcessGroupID (fd_Status (obj s))" for st
    using that ok phase a by (auto simp: bg_safe_def bg_inv_def bg_ok_def bg_phase_defs)
  show ?thesis
    unfolding blueGreenPromote_def nifi_call_defs
    by (rule wp_with_bluegreen [OF a],
        intro wp_intros failed_sends wp_mono [OF metadata_quiet] wp_restart_sources [THEN iffD2] sends_then_ret in_sync_sends)
      (auto simp: a intro: safe)
qed

lemma remove_green_quiet:
  "wp (remove_green_connection E g) (\<lambda>r s'. obj s' = obj s \<and> updates (calls s') = updates (calls s)) s"
  unfolding remove_green_connection_def nifi_call_defs by (intro wp_intros) simp_all

lemma record_failed_quiet:
  "wp (recordFailedFlowDeployment E v d cm r) (\<lambda>r s'. calls s' = calls s \<and>
        st_ActiveRollout (fd_Status (obj s')) = st_ActiveRollout (fd_Status (obj s)) \<and>
        st_ProcessGroupID (fd_Status (obj s')) = st_ProcessGroupID (fd_Status (obj s)) \<and>
        st_LatestReplaceRequest (fd_Status (obj s')) = st_LatestReplaceRequest (fd_Status (obj s))) s"
  unfolding recordFailedFlowDeployment_def now_def by (intro wp_intros) simp_all

lemma rollback_sends:
  assumes a: "st_ActiveRollout (fd_Status (obj s)) = Some a" "ro_BlueGreen a = Some data" and ok: "bg_ok a data"
    and phase: "ro_Phase a = bgPhaseRollingBackTraffic"
  shows "wp (blueGreenRollbackTraffic E) (sends (bg_safe (fd_Status (obj s))) s) s"
proof -
  have same: "bg_ok (a\<lparr>ro_BlueGreen := Some d\<rparr>) d"
    if "bg_Inventoried d = bg_Inventoried data" "length (bg_ExternalConnections d) = length (bg_ExternalConnections data)" for d
    using ok phase that by (auto simp: bg_ok_def bg_phase_defs)
  show ?thesis
    unfolding blueGreenRollbackTraffic_def finish_rollback_def restore_connection_def set_record_def nifi_call_defs
    by (rule wp_with_bluegreen [OF a],
        intro wp_intros failed_sends persist_sends wp_mono [OF remove_green_quiet] wp_restart_sources [THEN iffD2]
          delete_pg_sends wp_mono [OF record_failed_quiet] wp_trimI)
      (auto simp: a ok same bg_safe_eq bg_inv_def upd_bluegreen_def)
qed

section \<open>The machine\<close>

lemma bg_safe_strategy:
  assumes "st_ActiveRollout st0 = Some a" "st_ActiveRollout st1 = Some (a\<lparr>ro_Strategy := x\<rparr>)"
    and "st_ProcessGroupID st1 = st_ProcessGroupID st0" "bg_safe st1 st"
  shows "bg_safe st0 st"
  using assms by (auto simp: bg_safe_def)

lemma bg_ok_strategy [simp]: "bg_ok (a\<lparr>ro_Strategy := x\<rparr>) data = bg_ok a data"
  by (simp add: bg_ok_def)

lemma sends_weaken: "wp m (sends P s) s \<Longrightarrow> updates (calls s) = updates (calls s0) \<Longrightarrow> (\<And>st. P st \<Longrightarrow> R st) \<Longrightarrow> wp m (sends R s0) s"
  by (erule wp_mono) (auto simp: sends_def)

lemma machine_sends:
  assumes "bg_inv (fd_Status (obj s))"
  shows "wp (reconcileBlueGreenRollout E parentID snapshot version digest) (sends (bg_safe (fd_Status (obj s))) s) s"
proof -
  let ?st0 = "fd_Status (obj s)"
  let ?post = "sends (bg_safe ?st0) s"
  let ?rest = "blueGreenPhaseStep E parentID snapshot version digest"
  have fresh: "wp ?rest ?post s1"
    if s1: "st_ActiveRollout (fd_Status (obj s1)) = Some a" "ro_BlueGreen a = None" "calls s1 = calls s"
      "st_ProcessGroupID (fd_Status (obj s1)) = st_ProcessGroupID ?st0" for s1 a
    unfolding blueGreenPhaseStep_def mark_not_ready_def now_def
    by (intro wp_intros persist_sends) (use s1 in \<open>auto simp: bg_safe_eq bg_inv_def bg_ok_def bg_phase_defs\<close>)
  have known: "wp ?rest ?post s"
    if a: "st_ActiveRollout ?st0 = Some a" "ro_BlueGreen a = Some data" "ro_Operation a = ''BlueGreen''" for a data
  proof -
    let ?s = "s\<lparr>obj := upd_st (upd_active (\<lambda>a. a\<lparr>ro_Strategy := ''BlueGreen''\<rparr>)) (obj s)\<rparr>"
    have ok: "bg_ok a data" using assms a by (auto simp: bg_inv_def)
    have act: "st_ActiveRollout (fd_Status (obj ?s)) = Some (a\<lparr>ro_Strategy := ''BlueGreen''\<rparr>)"
      "ro_BlueGreen (a\<lparr>ro_Strategy := ''BlueGreen''\<rparr>) = Some data" "bg_ok (a\<lparr>ro_Strategy := ''BlueGreen''\<rparr>) data"
      using a ok by simp_all
    have weak: "wp m ?post ?s" if "wp m (sends (bg_safe (fd_Status (obj ?s))) ?s) ?s" for m :: "outcome fhandler"
      using that by (rule sends_weaken) (use bg_safe_strategy [OF a(1) act(1)] in simp_all)
    note handlers = deploy_sends [OF act, simplified] await_sends [OF act, simplified]
      switch_traffic_sends [OF act, simplified] promote_sends [OF act, simplified] rollback_sends [OF act, simplified]
    show ?thesis
      unfolding blueGreenPhaseStep_def
      by (intro wp_intros weak) (use act handlers ok in \<open>auto simp: bg_ok_def a intro: weak\<close>)
  qed
  have "wp ?rest ?post (s\<lparr>obj := upd_st (\<lambda>st. st\<lparr>st_ActiveRollout := Some (new_rollout t (obj s) version digest ''BlueGreen'')\<rparr>) (obj s)\<rparr>)"
    (is "wp _ _ ?s1") for t
  proof -
    have "st_ActiveRollout (fd_Status (obj ?s1)) = Some (new_rollout t (obj s) version digest ''BlueGreen'')" by simp
    then show ?thesis by (rule fresh) (simp_all add: new_rollout_def)
  qed
  moreover have "wp ?rest ?post s" if "st_ActiveRollout ?st0 = Some a" "ro_Operation a = ''BlueGreen''" for a
    using that fresh known by (cases "ro_BlueGreen a") auto
  ultimately show ?thesis
    unfolding reconcileBlueGreenRollout_def ensureActiveFlowRollout_def now_def
    by (intro wp_intros) auto
qed

lemma start_rollback_machine:
  assumes "bg_inv (fd_Status (obj s))" "blueGreenRolloutInProgress (obj s)"
  shows "wp (blueGreenStartRollback E reason) (sends (bg_safe (fd_Status (obj s))) s) s"
  by (rule rollback_start_sends)
    (use assms in \<open>auto simp: bg_inv_def bg_ok_def blueGreenRolloutInProgress_def split: option.splits\<close>)

section \<open>Reachable rollout states\<close>

text \<open>
  A status is reachable when it is stored after any sequence of reconciles of the machine, each
  with its own NiFi, API server, clock, spec, generation, artifact and parent group, and of
  cancellations; the first status has no BlueGreen rollout in it. A failed status update leaves the
  stored status as it was.
\<close>

inductive bg_reachable :: "NiFiFlowDeploymentStatus \<Rightarrow> bool" where
  idle: "(\<And>a. st_ActiveRollout st = Some a \<Longrightarrow> ro_BlueGreen a = None) \<Longrightarrow> bg_reachable st"
| reconcile: "bg_reachable (fd_Status d) \<Longrightarrow>
    run_state (reconcileBlueGreenRollout E parentID snapshot version digest) (start d) = (out, s') \<Longrightarrow>
    bg_reachable (persisted E [] (calls s') (fd_Status d))"
| cancel: "bg_reachable (fd_Status d) \<Longrightarrow> blueGreenRolloutInProgress d \<Longrightarrow>
    run_state (blueGreenStartRollback E reason) (start d) = (out, s') \<Longrightarrow>
    bg_reachable (persisted E [] (calls s') (fd_Status d))"

lemma persisted_safe:
  assumes "run_state m (start d) = (out, s')" "wp m (sends (bg_safe (fd_Status d)) (start d)) (start d)"
  shows "persisted E [] (calls s') (fd_Status d) = fd_Status d \<or> bg_safe (fd_Status d) (persisted E [] (calls s') (fd_Status d))"
  using persisted_cases [of E "[]" "calls s'" "fd_Status d"] wp_run [OF assms(2,1)] by (auto simp: sends_def)

lemma bg_reachable_inv: "bg_reachable st \<Longrightarrow> bg_inv st"
proof (induction rule: bg_reachable.induct)
  case (idle st)
  then show ?case by (auto simp: bg_inv_def)
next
  case (reconcile d E parentID snapshot version digest out s')
  then show ?case
    using persisted_safe [where E = E, OF reconcile.hyps(2) machine_sends [of "start d", simplified]] by (auto simp: bg_safe_def)
next
  case (cancel d E reason out s')
  then show ?case
    using persisted_safe [where E = E, OF cancel.hyps(3) start_rollback_machine [of "start d", simplified]] by (auto simp: bg_safe_def)
qed

section \<open>Properties of the state machine\<close>

text \<open>
  C2. Promotion is transactional: in every reachable state of a BlueGreen rollout the phase is one of
  the five the code names, and in the phase Promoting there is a candidate, the boundary connections
  have been inventoried, and every one of them has been switched to the candidate.
\<close>

theorem promoting_means_switched:
  assumes "bg_reachable st" "st_ActiveRollout st = Some active" "ro_Operation active = ''BlueGreen''"
    and "ro_BlueGreen active = Some data" "ro_Phase active = bgPhasePromoting"
  shows "bg_CandidateProcessGroupID data \<noteq> '''' \<and> bg_Inventoried data \<and>
     (\<forall>r \<in> set (bg_ExternalConnections data). xc_Switched r)"
  using bg_reachable_inv [OF assms(1)] assms(2-) by (simp add: bg_inv_def bg_ok_def)


section \<open>No flow file is lost by switching\<close>

lemma asked_appendI:
  "calls s' = calls s @ xs @ c # ys \<Longrightarrow> P (resp (calls s @ xs)) \<Longrightarrow> asked c resp P s s'"
  unfolding asked_def by (intro exI [of _ "length (calls s @ xs)"]) (simp add: nth_append)

definition is_create :: "fcall \<Rightarrow> bool" where
  "is_create c \<longleftrightarrow> (case c of CCreateConnection _ _ \<Rightarrow> True | _ \<Rightarrow> False)"

definition is_delete :: "fcall \<Rightarrow> bool" where
  "is_delete c \<longleftrightarrow> (case c of CDeleteConnection _ _ \<Rightarrow> True | _ \<Rightarrow> False)"

lemma is_create_simps [simp]: "is_create (CCreateConnection p e)" "\<not> is_create (CSetRunStatus t i st)" "\<not> is_create (CQueueCount i)"
  "\<not> is_create (CGetConnection i)" "\<not> is_create (CDeleteConnection i v)" "\<not> is_create (CDropQueue i)"
  "\<not> is_create (CListInputPorts i)" "\<not> is_create (CListOutputPorts i)" "\<not> is_create (CListConnections i)" "\<not> is_create (CStatusUpdate d)"
  "\<not> is_create (CScheduleProcessGroup i st)" "\<not> is_create (CGetProcessGroup i)" "\<not> is_create (CDeleteProcessGroup i v)"
  "\<not> is_create (CDeleteConfigMap ns n)"
  by (simp_all add: is_create_def)

lemma is_delete_simps [simp]: "is_delete (CDeleteConnection i v)" "\<not> is_delete (CSetRunStatus t i st)" "\<not> is_delete (CQueueCount i)"
  "\<not> is_delete (CGetConnection i)" "\<not> is_delete (CCreateConnection p e)" "\<not> is_delete (CDropQueue i)"
  "\<not> is_delete (CListInputPorts i)" "\<not> is_delete (CListOutputPorts i)" "\<not> is_delete (CListConnections i)" "\<not> is_delete (CStatusUpdate d)"
  "\<not> is_delete (CScheduleProcessGroup i st)" "\<not> is_delete (CGetProcessGroup i)" "\<not> is_delete (CDeleteProcessGroup i v)"
  by (simp_all add: is_delete_def)

lemma is_deleteD: "is_delete c \<Longrightarrow> \<exists>i v. c = CDeleteConnection i v"
  by (cases c) (simp_all add: is_delete_def)

definition switched_entity :: "ConnectionComponent \<Rightarrow> ExternalConnectionRecord \<Rightarrow> string \<Rightarrow> BlueGreenRolloutStatus \<Rightarrow> ConnectionEntity" where
  \<comment> \<open>the recorded connection with the end in the blue group moved to the candidate's port\<close>
  "switched_entity component r port data = \<lparr>ce_ID = '''', ce_Revision = \<lparr>re_Version = 0\<rparr>, ce_Component =
     (let moved = \<lparr>cn_ID = port, cn_Type = if xc_Direction r = ''Inbound'' then ''INPUT_PORT'' else ''OUTPUT_PORT'', cn_GroupID = bg_CandidateProcessGroupID data\<rparr>;
          fresh = component\<lparr>cc_ID := '''', cc_ParentGroupID := bg_ParentProcessGroupID data\<rparr> in
      if xc_Direction r = ''Inbound'' then fresh\<lparr>cc_Destination := moved\<rparr> else fresh\<lparr>cc_Source := moved\<rparr>)\<rparr>"

definition connection_moved ::
  "fenv \<Rightarrow> BlueGreenStrategy \<Rightarrow> BlueGreenRolloutStatus \<Rightarrow> ExternalConnectionRecord \<Rightarrow> fcall list \<Rightarrow> fcall list \<Rightarrow> bool" where
  \<comment> \<open>after the calls \<open>log\<close>, the calls \<open>zs\<close> stop the source, find the queue empty or drop it, delete the connection and, if that
     was accepted, create its replacement next\<close>
  "connection_moved E strategy data r log zs \<longleftrightarrow> (\<exists>component port n dropping v.
     decodeConnectionComponent E (xc_Definition r) = Inr component \<and> port \<noteq> '''' \<and>
     (let source = cc_Source component; o' = xc_OriginalID r; stop = CSetRunStatus (cn_Type source) (cn_ID source) ''STOPPED'';
          drained = log @ stop # CQueueCount o' # dropping @ [CGetConnection o'];
          waited = fe_Now E (log @ [stop, CQueueCount o']) - (case xc_DrainStartedAt r of Some t \<Rightarrow> t | None \<Rightarrow> fe_Now E (log @ [stop])) in
      fe_SetRunStatus E (cn_Type source) (cn_ID source) ''STOPPED'' log = None \<and> fe_QueueCount E o' (log @ [stop]) = Inr n \<and>
      (n \<le> 0 \<and> dropping = [] \<or>
       bgs_OnDrainTimeout strategy = ''Drop'' \<and> (bgs_DrainTimeoutSeconds strategy \<le> 0 \<or> waited > bgs_DrainTimeoutSeconds strategy * second) \<and>
         dropping = [CDropQueue o'] \<and> fe_DropQueue E o' (log @ [stop, CQueueCount o']) = None) \<and>
      zs = stop # CQueueCount o' # dropping @ CGetConnection o' # CDeleteConnection o' v #
        (if fe_DeleteConnection E o' v drained = None
         then [CCreateConnection (bg_ParentProcessGroupID data) (switched_entity component r port data)] else [])))"

lemma moved_deletes: "connection_moved E strategy data r log zs \<Longrightarrow> \<exists>v. filter is_delete zs = [CDeleteConnection (xc_OriginalID r) v]"
  by (auto simp: connection_moved_def Let_def)

definition no_change :: "fcall list \<Rightarrow> bool" where
  \<comment> \<open>no connection is created or deleted\<close>
  "no_change zs \<longleftrightarrow> list_all (\<lambda>c. \<not> is_create c \<and> \<not> is_delete c) zs"

lemma no_change_simps [simp]: "no_change []" "no_change (c # zs) \<longleftrightarrow> \<not> is_create c \<and> \<not> is_delete c \<and> no_change zs"
  "no_change (xs @ ys) \<longleftrightarrow> no_change xs \<and> no_change ys"
  by (auto simp: no_change_def)

lemma no_change_filters: "no_change zs \<longleftrightarrow> filter is_delete zs = [] \<and> filter is_create zs = []"
  by (auto simp: no_change_def list_all_iff filter_empty_conv)

definition switch_result ::
  "fenv \<Rightarrow> BlueGreenStrategy \<Rightarrow> BlueGreenRolloutStatus \<Rightarrow> ExternalConnectionRecord \<Rightarrow> (fcall, 'o) rstate \<Rightarrow> (fcall, 'o) rstate \<Rightarrow> bool" where
  "switch_result E strategy data r s s' \<longleftrightarrow> (\<exists>zs. calls s' = calls s @ zs \<and> (no_change zs \<or> connection_moved E strategy data r (calls s) zs))"

lemma replace_calls:
  "wp (replace_connection E component r port (bg_CandidateProcessGroupID data) (bg_ParentProcessGroupID data)) (\<lambda>x s'. obj s' = obj s \<and>
     (calls s' = calls s @ [CGetConnection (xc_OriginalID r)] \<or>
      (\<exists>v. calls s' = calls s @ CGetConnection (xc_OriginalID r) # CDeleteConnection (xc_OriginalID r) v #
        (if fe_DeleteConnection E (xc_OriginalID r) v (calls s @ [CGetConnection (xc_OriginalID r)]) = None
         then [CCreateConnection (bg_ParentProcessGroupID data) (switched_entity component r port data)] else [])))) s"
  unfolding replace_connection_def nifi_call_defs
  by (intro wp_intros) (auto simp: switched_entity_def switched_component_def topology_defs bg_direction_defs Let_def)

lemma moved_records_alike:
  "switched_entity c (r\<lparr>xc_DrainStartedAt := t\<rparr>) p data = switched_entity c r p data" "xc_OriginalID (r\<lparr>xc_DrainStartedAt := t\<rparr>) = xc_OriginalID r"
  by (simp_all add: switched_entity_def Let_def)

lemma switch_calls:
  assumes port: "port \<noteq> ''''"
  shows "wp (blueGreenSwitchConnection E r port (bg_CandidateProcessGroupID data) (bg_ParentProcessGroupID data) strategy)
    (\<lambda>x s'. obj s' = obj s \<and> switch_result E strategy data r s s') s"
proof -
  let ?o = "xc_OriginalID r"
  have quiet: "switch_result E strategy data r s s'" if "calls s' = calls s @ zs" "no_change zs" for s' zs
    using that by (auto simp: switch_result_def)
  have moved: "switch_result E strategy data r s s'"
    if d: "decodeConnectionComponent E (xc_Definition r) = Inr component"
      and st: "fe_SetRunStatus E (cn_Type (cc_Source component)) (cn_ID (cc_Source component)) ''STOPPED'' (calls s) = None"
      and q: "fe_QueueCount E ?o (calls s @ [stop]) = Inr n"
      and stop: "stop = CSetRunStatus (cn_Type (cc_Source component)) (cn_ID (cc_Source component)) ''STOPPED''"
      and dr: "n \<le> 0 \<and> dropping = [] \<or>
        bgs_OnDrainTimeout strategy = ''Drop'' \<and> (bgs_DrainTimeoutSeconds strategy \<le> 0 \<or>
          fe_Now E (calls s @ [stop, CQueueCount ?o]) - (case xc_DrainStartedAt r of Some t \<Rightarrow> t | None \<Rightarrow> fe_Now E (calls s @ [stop])) >
            bgs_DrainTimeoutSeconds strategy * second) \<and>
        dropping = [CDropQueue ?o] \<and> fe_DropQueue E ?o (calls s @ [stop, CQueueCount ?o]) = None"
      and log: "log = calls s @ stop # CQueueCount ?o # dropping"
      and fin: "calls s' = log @ [CGetConnection ?o] \<or>
        (\<exists>v. calls s' = log @ CGetConnection ?o # CDeleteConnection ?o v #
          (if fe_DeleteConnection E ?o v (log @ [CGetConnection ?o]) = None
           then [CCreateConnection (bg_ParentProcessGroupID data) (switched_entity component r port data)] else []))"
    for component stop n dropping log s'
    using fin
  proof
    assume "calls s' = log @ [CGetConnection ?o]"
    then show ?thesis by (rule quiet [OF trans]) (use log dr stop in auto)
  next
    assume "\<exists>v. calls s' = log @ CGetConnection ?o # CDeleteConnection ?o v #
          (if fe_DeleteConnection E ?o v (log @ [CGetConnection ?o]) = None
           then [CCreateConnection (bg_ParentProcessGroupID data) (switched_entity component r port data)] else [])"
    then obtain v where v: "calls s' = log @ CGetConnection ?o # CDeleteConnection ?o v #
          (if fe_DeleteConnection E ?o v (log @ [CGetConnection ?o]) = None
           then [CCreateConnection (bg_ParentProcessGroupID data) (switched_entity component r port data)] else [])" ..
    let ?zs = "stop # CQueueCount ?o # dropping @ CGetConnection ?o # CDeleteConnection ?o v #
        (if fe_DeleteConnection E ?o v (log @ [CGetConnection ?o]) = None
         then [CCreateConnection (bg_ParentProcessGroupID data) (switched_entity component r port data)] else [])"
    have "connection_moved E strategy data r (calls s) ?zs"
      unfolding connection_moved_def Let_def
      by (rule exI [of _ component], rule exI [of _ port], rule exI [of _ n], rule exI [of _ dropping], rule exI [of _ v])
        (use d st q dr port in \<open>simp add: log stop cong: option.case_cong\<close>)
    moreover have "calls s' = calls s @ ?zs" using v log by simp
    ultimately show ?thesis unfolding switch_result_def by blast
  qed
  show ?thesis
    unfolding blueGreenSwitchConnection_def nifi_call_defs RunStateStopped_def
    by (intro wp_intros wp_mono [OF replace_calls])
      (auto simp: moved_records_alike drain_deadline_passed_def quiet [of _ "[]"] quiet [of _ "[_]"] quiet [of _ "[_, _]"] quiet [of _ "[_, _, _]"]
         cong: if_cong option.case_cong intro: moved [OF _ _ _ refl _ refl, where dropping = "[]", simplified]
           moved [OF _ _ _ refl _ refl, where dropping = "[CDropQueue (xc_OriginalID r)]", simplified])
qed

definition no_switch :: "(fcall, NiFiFlowDeployment) rstate \<Rightarrow> (fcall, NiFiFlowDeployment) rstate \<Rightarrow> bool" where
  \<comment> \<open>calls were appended, none of them creates or deletes a connection\<close>
  "no_switch s s' \<longleftrightarrow> extends s s' \<and> filter is_delete (calls s') = filter is_delete (calls s) \<and>
     filter is_create (calls s') = filter is_create (calls s)"

lemma no_switchI: "calls s' = calls s @ zs \<Longrightarrow> filter is_delete zs = [] \<Longrightarrow> filter is_create zs = [] \<Longrightarrow> no_switch s s'"
  by (simp add: no_switch_def extends_def)

lemma no_switch_trans: "no_switch s s' \<Longrightarrow> no_switch s' s'' \<Longrightarrow> no_switch s s''"
  by (auto simp: no_switch_def intro: extends_trans)

lemma failed_no_switch: "wp (snapshotDeploymentFailed E reason e) (\<lambda>_. no_switch s) s"
  unfolding snapshotDeploymentFailed_def markFlowDeploymentNotReady_def now_def
  by (intro wp_intros wp_StatusUpdateI) (simp_all add: no_switch_def extends_def)

lemma persist_no_switch: "wp (persist_after E n) (\<lambda>_. no_switch s) s"
  unfolding persist_after_def by (intro wp_intros wp_StatusUpdateI) (simp_all add: no_switch_def extends_def)

lemma delete_pg_no_switch: "wp (blueGreenDeleteProcessGroup E i) (\<lambda>_. no_switch s) s"
  unfolding blueGreenDeleteProcessGroup_def nifi_call_defs by (intro wp_intros) (simp_all add: no_switch_def extends_def)

lemma wp_no_switch: "wp m (\<lambda>_. no_switch s) s \<Longrightarrow> no_switch s0 s \<Longrightarrow> wp m (\<lambda>_. no_switch s0) s"
  by (erule wp_mono) (rule no_switch_trans)

lemma no_switch_obj [simp]: "no_switch s (s'\<lparr>obj := d\<rparr>) = no_switch s s'"
  by (simp add: no_switch_def)

lemma abort_no_switch: "wp (blueGreenAbort E reason message) (\<lambda>_. no_switch s) s"
proof -
  have tail: "wp (snapshotDeploymentFailed E reason (errorf message)) (\<lambda>_. no_switch s)
     (s'\<lparr>obj := upd_st (\<lambda>st. st\<lparr>st_ActiveRollout := None\<rparr>) (obj s')\<rparr>)" if "no_switch s s'" for s'
    by (rule wp_no_switch [OF failed_no_switch]) (simp add: that)
  show ?thesis
    unfolding blueGreenAbort_def
    by (intro wp_intros wp_mono [OF delete_pg_no_switch] tail) (simp_all add: no_switch_def)
qed

lemma start_rollback_no_switch: "wp (blueGreenStartRollback E reason) (\<lambda>_. no_switch s) s"
  unfolding blueGreenStartRollback_def mark_not_ready_def now_def
  by (intro wp_intros wp_no_switch [OF persist_no_switch]) (simp_all add: no_switch_def)

lemma inventory_no_switch: "wp (blueGreenInventory E b p) (\<lambda>r s'. obj s' = obj s \<and> no_switch s s') s"
  unfolding blueGreenInventory_def nifi_call_defs by (intro wp_intros) (simp_all add: no_switch_def extends_def)

lemma port_maps_no_switch: "wp (blueGreenPortMaps E c) (\<lambda>r s'. obj s' = obj s \<and> no_switch s s') s"
  unfolding blueGreenPortMaps_def nifi_call_defs by (intro wp_intros) (simp_all add: no_switch_def extends_def)

lemma asked_obj [simp]: "asked c resp P s (s'\<lparr>obj := d\<rparr>) = asked c resp P s s'"
  by (simp add: asked_def)

definition switched_safely ::
  "fenv \<Rightarrow> BlueGreenStrategy \<Rightarrow> BlueGreenRolloutStatus \<Rightarrow> (fcall, NiFiFlowDeployment) rstate \<Rightarrow> (fcall, NiFiFlowDeployment) rstate \<Rightarrow> bool" where
  \<comment> \<open>the new calls change no connection, or move that of one unswitched record\<close>
  "switched_safely E strategy data s s' \<longleftrightarrow> (\<exists>zs. calls s' = calls s @ zs \<and>
     (no_change zs \<or> (\<exists>r \<in> set (bg_ExternalConnections data). \<not> xc_Switched r \<and>
        (\<exists>before moving after. zs = before @ moving @ after \<and> no_change before \<and> no_change after \<and>
           connection_moved E strategy data r (calls s @ before) moving))))"

lemma switched_safely_obj [simp]:
  "switched_safely E strategy data s (s'\<lparr>obj := d\<rparr>) = switched_safely E strategy data s s'"
  by (simp add: switched_safely_def)

lemma no_switch_calls: "no_switch s s' \<Longrightarrow> \<exists>zs. calls s' = calls s @ zs \<and> no_change zs"
  by (auto simp: no_switch_def extends_def no_change_filters)

lemma no_switch_safely: "no_switch s s' \<Longrightarrow> switched_safely E strategy data s s'"
  unfolding switched_safely_def by (drule no_switch_calls) blast

lemma switched_safely_refl [simp]: "switched_safely E strategy data s s"
  by (simp add: switched_safely_def)

lemma switched_then_quiet:
  assumes "switched_safely E strategy data s s'" "no_switch s' s''" shows "switched_safely E strategy data s s''"
proof -
  obtain ys where ys: "calls s'' = calls s' @ ys" "no_change ys" using no_switch_calls [OF assms(2)] by blast
  obtain zs where zs: "calls s' = calls s @ zs" and
    m: "no_change zs \<or> (\<exists>r \<in> set (bg_ExternalConnections data). \<not> xc_Switched r \<and>
        (\<exists>before moving after. zs = before @ moving @ after \<and> no_change before \<and> no_change after \<and>
           connection_moved E strategy data r (calls s @ before) moving))"
    using assms(1) unfolding switched_safely_def by blast
  have "calls s'' = calls s @ zs @ ys" using zs ys by simp
  moreover have "no_change (zs @ ys) \<or> (\<exists>r \<in> set (bg_ExternalConnections data). \<not> xc_Switched r \<and>
        (\<exists>before moving after. zs @ ys = before @ moving @ after \<and> no_change before \<and> no_change after \<and>
           connection_moved E strategy data r (calls s @ before) moving))"
    using m ys(2) by (auto intro: exI [of _ "_ @ ys"]) (metis append.assoc no_change_simps(3))
  ultimately show ?thesis unfolding switched_safely_def by blast
qed

lemma wp_safely: "wp m (\<lambda>_. no_switch s) s \<Longrightarrow> switched_safely E strategy data s0 s \<Longrightarrow> wp m (\<lambda>_. switched_safely E strategy data s0) s"
  by (erule wp_mono) (rule switched_then_quiet)

lemma switch_after:
  assumes "no_switch s s1" "switch_result E strategy data r s1 s'" "r \<in> set (bg_ExternalConnections data)" "\<not> xc_Switched r"
  shows "switched_safely E strategy data s s'"
proof -
  obtain ys where ys: "calls s1 = calls s @ ys" "no_change ys" using no_switch_calls [OF assms(1)] by blast
  obtain zs where zs: "calls s' = calls s1 @ zs" "no_change zs \<or> connection_moved E strategy data r (calls s1) zs"
    using assms(2) by (auto simp: switch_result_def)
  from zs(2) show ?thesis
  proof
    assume "no_change zs"
    then show ?thesis using ys zs(1) by (auto simp: switched_safely_def)
  next
    assume "connection_moved E strategy data r (calls s1) zs"
    then have "connection_moved E strategy data r (calls s @ ys) zs" by (simp add: ys)
    then show ?thesis
      unfolding switched_safely_def using ys zs(1) assms(3,4)
      by (intro exI [of _ "ys @ zs"] conjI disjI2 bexI [of _ r] exI [of _ ys] exI [of _ zs] exI [of _ "[]"]) simp_all
  qed
qed

lemma switch_traffic_safely:
  assumes a: "st_ActiveRollout (fd_Status (obj s)) = Some a" "ro_BlueGreen a = Some data"
  shows "wp (blueGreenSwitchTraffic E strategy) (\<lambda>_. switched_safely E strategy data s) s"
proof -
  have one: "wp (blueGreenSwitchConnection E (bg_ExternalConnections data ! i) g (bg_CandidateProcessGroupID data) (bg_ParentProcessGroupID data) strategy)
       (\<lambda>x s'. switched_safely E strategy data s s') s1"
    if "no_switch s s1" "first_index (\<lambda>x. \<not> xc_Switched x) (bg_ExternalConnections data) = Some i" "g \<noteq> ''''" for i g s1
    by (rule wp_mono [OF switch_calls [OF that(3)]], erule conjE, rule switch_after [OF that(1)])
       (use first_index_Some [OF that(2)] in \<open>auto intro: nth_mem\<close>)
  show ?thesis
    unfolding blueGreenSwitchTraffic_def set_record_def
    by (rule wp_with_bluegreen [OF a],
        intro wp_intros wp_mono [OF inventory_no_switch] wp_mono [OF port_maps_no_switch] wp_mono [OF one] 
          wp_safely [OF persist_no_switch] wp_safely [OF abort_no_switch] wp_safely [OF start_rollback_no_switch])
      (auto intro: no_switch_safely)
qed

text \<open>
  C8. Switching traffic loses no flow file unless the spec says so: a reconcile in the phase SwitchingTraffic changes no connection at
  all, or moves that of one boundary record that was not switched yet: it stops the source, which NiFi accepts, then reads the queue
  as empty, or drops it under \<open>onDrainTimeout: Drop\<close> once the drain timeout has passed and NiFi accepts that, only then deletes the
  recorded connection, and as the very next call, if NiFi accepted the deletion, creates the recorded connection with its end in the blue group moved to a port of the
  candidate. No other connection is created or deleted. (If NiFi refuses the creation, the connection is lost; see
  \<open>half_switched_connection_is_lost\<close>.)
\<close>

theorem switch_traffic_keeps_flow_files:
  assumes "run_state (blueGreenSwitchTraffic E strategy) s = (out, s')" "calls s = []"
    and "st_ActiveRollout (fd_Status (obj s)) = Some active" "ro_BlueGreen active = Some data"
  shows "no_change (calls s') \<or>
     (\<exists>r \<in> set (bg_ExternalConnections data). \<not> xc_Switched r \<and>
        (\<exists>before moving after. calls s' = before @ moving @ after \<and> no_change before \<and> no_change after \<and>
           connection_moved E strategy data r before moving))"
  using wp_run [OF switch_traffic_safely [OF assms(3,4)] assms(1)] assms(2) by (simp add: switched_safely_def)

definition boundary_sample :: ExternalConnectionRecord where
  "boundary_sample = \<lparr>xc_Direction = ''Inbound'', xc_PortName = ''in'', xc_OriginalID = ''c1'', xc_Definition = ''connection'',
     xc_Switched = False, xc_GreenConnectionID = '''', xc_DrainStartedAt = None\<rparr>"

definition bluegreen_sample :: "string \<Rightarrow> ExternalConnectionRecord list \<Rightarrow> NiFiFlowDeployment" where
  "bluegreen_sample phase records = sample_deployment\<lparr>fd_Status := sample_status\<lparr>st_ActiveRollout :=
     Some ((new_rollout 0 sample_deployment ''v1'' ''sha256:aa'' ''BlueGreen'')\<lparr>ro_Phase := phase,
       ro_BlueGreen := Some \<lparr>bg_CandidateProcessGroupID = ''green'', bg_BlueProcessGroupID = ''blue'',
         bg_ParentProcessGroupID = ''root'', bg_Inventoried = True, bg_ExternalConnections = records\<rparr>\<rparr>)\<rparr>\<rparr>"

lemmas bluegreen_run_defs = with_bluegreen_def persist_after_def set_record_def StatusUpdate_def nifi_call_defs
  mark_not_ready_def blueGreenSwitchConnection_def replace_connection_def blueGreenPortMaps_def Let_def

theorem switch_traffic_keeps_flow_files_witness:
  "let s = start (bluegreen_sample bgPhaseSwitchingTraffic [boundary_sample]);
       s' = snd (run_state (blueGreenSwitchTraffic sample_env (blueGreenStrategy (obj s))) s)
   in filter is_delete (calls s') = [CDeleteConnection ''c1'' 1] \<and>
      (\<exists>data before moving after. calls s' = before @ moving @ after \<and>
         connection_moved sample_env (blueGreenStrategy (obj s)) data boundary_sample before moving)"
proof -
  let ?d = "bluegreen_sample bgPhaseSwitchingTraffic [boundary_sample]"
  let ?s = "start ?d"
  obtain out s' where run: "run_state (blueGreenSwitchTraffic sample_env (blueGreenStrategy ?d)) ?s = (out, s')" by fastforce
  have "filter is_delete (calls (snd (run_state (blueGreenSwitchTraffic sample_env (blueGreenStrategy ?d)) ?s))) = [CDeleteConnection ''c1'' 1]"
    by (simp add: blueGreenSwitchTraffic_def bluegreen_run_defs bluegreen_sample_def boundary_sample_def new_rollout_def
        sample_env_def portNameToID_def port_id_def map_index_def decodeConnectionComponent_def bg_direction_defs)
  then have del: "filter is_delete (calls s') = [CDeleteConnection ''c1'' 1]" using run by simp
  have "st_ActiveRollout (fd_Status (obj ?s)) = Some (the (st_ActiveRollout (fd_Status ?d)))"
    "ro_BlueGreen (the (st_ActiveRollout (fd_Status ?d))) = Some \<lparr>bg_CandidateProcessGroupID = ''green'',
       bg_BlueProcessGroupID = ''blue'', bg_ParentProcessGroupID = ''root'', bg_Inventoried = True,
       bg_ExternalConnections = [boundary_sample]\<rparr>"
    by (simp_all add: bluegreen_sample_def)
  from switch_traffic_keeps_flow_files [OF run _ this] del
  have "\<exists>data before moving after. calls s' = before @ moving @ after \<and>
      connection_moved sample_env (blueGreenStrategy ?d) data boundary_sample before moving"
    by (auto simp: no_change_filters)
  then show ?thesis using run del by simp
qed

section \<open>A complete rollout\<close>

definition bg_store :: "fenv \<Rightarrow> string \<Rightarrow> string \<Rightarrow> string \<Rightarrow> string \<Rightarrow> NiFiFlowDeployment \<Rightarrow> NiFiFlowDeployment" where
  \<comment> \<open>the resource the API server holds after one reconcile of the machine\<close>
  "bg_store E parentID snapshot version digest d = d\<lparr>fd_Status := persisted E []
     (calls (snd (run_state (reconcileBlueGreenRollout E parentID snapshot version digest) (start d)))) (fd_Status d)\<rparr>"

definition bg_next :: "fenv \<Rightarrow> NiFiFlowDeployment \<Rightarrow> NiFiFlowDeployment" where
  "bg_next E d = bg_store E ''root'' ''1 sec'' ''v1'' ''sha256:aa'' d"

lemma bg_next_reachable: "bg_reachable (fd_Status d) \<Longrightarrow> bg_reachable (fd_Status (bg_next E d))"
  using bg_reachable.reconcile [of d E "''root''" "''1 sec''" "''v1''" "''sha256:aa''"]
  by (cases "run_state (reconcileBlueGreenRollout E ''root'' ''1 sec'' ''v1'' ''sha256:aa'') (start d)") (simp add: bg_next_def bg_store_def)

definition in_phase :: "string \<Rightarrow> string \<Rightarrow> bool \<Rightarrow> ExternalConnectionRecord list \<Rightarrow> NiFiFlowDeployment \<Rightarrow> bool" where
  "in_phase phase candidate inventoried records d \<longleftrightarrow> fd_Spec d = sample_spec \<and> st_ProcessGroupID (fd_Status d) = ''blue'' \<and>
     st_LastSuccessful (fd_Status d) = None \<and> st_RolloutHistory (fd_Status d) = [] \<and>
     st_ActiveRollout (fd_Status d) = Some ((new_rollout 0 sample_deployment ''v1'' ''sha256:aa'' ''BlueGreen'')
       \<lparr>ro_Strategy := ''BlueGreen'', ro_Phase := phase,
        ro_BlueGreen := Some \<lparr>bg_CandidateProcessGroupID = candidate, bg_BlueProcessGroupID = ''blue'',
          bg_ParentProcessGroupID = ''root'', bg_Inventoried = inventoried, bg_ExternalConnections = records\<rparr>\<rparr>)"

lemma run_trim: "run_state (trimFlowDeploymentHistory E) s = ((), s\<lparr>obj := trimmed (obj s),
    calls := calls s @ map (CDeleteConfigMap (fd_Namespace (obj s))) (trim_deletes (obj s))\<rparr>)"
  using wp_trim [of E "\<lambda>a s'. run_state (trimFlowDeploymentHistory E) s = (a, s')" s] by (simp add: wp_def split: prod.splits)

lemma run_restart: "run_state (restart_sources E rs) s = ((), s\<lparr>calls := calls s @ restart_calls E rs\<rparr>)"
  using wp_restart_sources [of E rs "\<lambda>a s'. run_state (restart_sources E rs) s = (a, s')" s] by (simp add: wp_def split: prod.splits)

lemmas phase_run_defs = in_phase_def bg_next_def bg_store_def new_rollout_def reconcileBlueGreenRollout_def blueGreenPhaseStep_def
  ensureActiveFlowRollout_def upd_bluegreen_def bg_phase_defs bluegreen_run_defs sample_env_def

lemma sample_step1: "in_phase ''DeployingCandidate'' '''' False [] (bg_next sample_env sample_deployment)"
  by (simp add: phase_run_defs sample_deployment_def sample_status_def)

lemma sample_step2: "in_phase ''DeployingCandidate'' '''' False [] d \<Longrightarrow> in_phase ''AwaitingReadiness'' ''green'' False [] (bg_next sample_env d)"
  by (simp add: phase_run_defs blueGreenDeployCandidate_def renameFlowSnapshot_def unmarshal_object_def sample_codec_def
      sample_flow_def field_def processGroupEntityID_def sample_pg_def)

lemma sample_step3: "in_phase ''AwaitingReadiness'' ''green'' False [] d \<Longrightarrow> in_phase ''SwitchingTraffic'' ''green'' False [] (bg_next sample_env d)"
  by (simp add: phase_run_defs blueGreenAwaitReadiness_def blueGreenBoundaryPortCount_def blueGreenStrategy_def
      sample_spec_def sample_rollout_def sample_pg_def int32_def)

lemma sample_step4: "in_phase ''SwitchingTraffic'' ''green'' False [] d \<Longrightarrow> in_phase ''SwitchingTraffic'' ''green'' True [boundary_sample] (bg_next sample_env d)"
  by (simp add: phase_run_defs blueGreenSwitchTraffic_def blueGreenInventory_def sample_connection_def portIDToName_def port_id_def
      map_index_def topology_defs blueGreenSwitchableSource_def boundary_record_def boundary_sample_def bgConnectionEntityID_def bg_direction_defs)

lemma sample_step5: "in_phase ''SwitchingTraffic'' ''green'' True [boundary_sample] d \<Longrightarrow>
  in_phase ''SwitchingTraffic'' ''green'' True [boundary_sample\<lparr>xc_Switched := True, xc_GreenConnectionID := ''c2'', xc_DrainStartedAt := Some 0\<rparr>] (bg_next sample_env d)"
  by (simp add: phase_run_defs blueGreenSwitchTraffic_def sample_connection_def portNameToID_def port_id_def decodeConnectionComponent_def
      map_index_def boundary_sample_def bgConnectionEntityID_def bg_direction_defs)

lemma sample_step6: "in_phase ''SwitchingTraffic'' ''green'' True [boundary_sample\<lparr>xc_Switched := True, xc_GreenConnectionID := ''c2'', xc_DrainStartedAt := Some 0\<rparr>] d \<Longrightarrow>
  in_phase ''Promoting'' ''green'' True [boundary_sample\<lparr>xc_Switched := True, xc_GreenConnectionID := ''c2'', xc_DrainStartedAt := Some 0\<rparr>] (bg_next sample_env d)"
  by (simp add: phase_run_defs blueGreenSwitchTraffic_def)

lemma sample_step7: "in_phase ''Promoting'' ''green'' True [boundary_sample\<lparr>xc_Switched := True, xc_GreenConnectionID := ''c2'', xc_DrainStartedAt := Some 0\<rparr>] d \<Longrightarrow>
  st_ProcessGroupID (fd_Status (bg_next sample_env d)) = ''green'' \<and> st_SyncState (fd_Status (bg_next sample_env d)) = ''InSync''"
  by (simp add: phase_run_defs blueGreenPromote_def run_restart restart_calls_def decodeConnectionComponent_def
      reconcileSnapshotDeploymentMetadata_def sample_spec_def sample_pg_def boundary_sample_def bg_direction_defs
      markSnapshotDeploymentInSync_def recordSuccessfulFlowDeployment_def persistFlowDeploymentSnapshot_def
      run_trim trimmed_def trim_deletes_def appendHistoryEntry_def history_limit_def)

lemmas sample_promoting = sample_step6 [OF sample_step5 [OF sample_step4 [OF sample_step3 [OF sample_step2 [OF sample_step1]]]]]

definition sample_promoting_deployment :: NiFiFlowDeployment where
  \<comment> \<open>the sample deployment after six reconciles\<close>
  "sample_promoting_deployment = bg_next sample_env (bg_next sample_env (bg_next sample_env (bg_next sample_env
     (bg_next sample_env (bg_next sample_env sample_deployment)))))"

lemma sample_reachable: "bg_reachable (fd_Status sample_promoting_deployment)"
  unfolding sample_promoting_deployment_def
  by (intro bg_next_reachable bg_reachable.idle) (simp add: sample_deployment_def sample_status_def)

theorem promoting_means_switched_witness:
  "\<exists>active data. st_ActiveRollout (fd_Status sample_promoting_deployment) = Some active \<and>
     ro_BlueGreen active = Some data \<and> ro_Phase active = bgPhasePromoting \<and> length (bg_ExternalConnections data) = 1 \<and>
     bg_CandidateProcessGroupID data \<noteq> '''' \<and> bg_Inventoried data \<and> (\<forall>r \<in> set (bg_ExternalConnections data). xc_Switched r)"
proof -
  from sample_promoting obtain active data where
    "st_ActiveRollout (fd_Status sample_promoting_deployment) = Some active"
    "ro_Operation active = ''BlueGreen''" "ro_BlueGreen active = Some data" "ro_Phase active = bgPhasePromoting"
    "length (bg_ExternalConnections data) = 1"
    by (auto simp: in_phase_def sample_promoting_deployment_def new_rollout_def bg_phase_defs)
  with promoting_means_switched [OF sample_reachable] show ?thesis by blast
qed


end
