(* ===== verification/BlueGreen_Transaction.thy ===== *)
theory BlueGreen_Transaction
  imports BlueGreen_Machine
begin

text \<open>
  BlueGreen as a transaction: the inventory of boundary connections is complete, switching back
  terminates and restores the recorded definitions, and the two places where the code does not
  behave as a transaction (a refused creation after a deletion, and a changed target).
\<close>

section \<open>Switching back terminates\<close>

definition restoring :: "fenv \<Rightarrow> bool" where
  \<comment> \<open>an environment in which NiFi accepts connection changes and the API server status updates\<close>
  "restoring E \<longleftrightarrow> (\<forall>d log. fe_StatusUpdate E d log = None) \<and> (\<forall>i v log. fe_DeleteConnection E i v log = None) \<and>
     (\<forall>p e log. \<exists>x. fe_CreateConnection E p e log = Inr x) \<and> (\<forall>def. \<exists>c. fe_UnmarshalConnection E def = Inr c)"

definition rolling_back :: "string \<Rightarrow> nat \<Rightarrow> NiFiFlowDeployment \<Rightarrow> bool" where
  \<comment> \<open>a rollout to \<open>digest\<close> is being switched back and \<open>n\<close> connections are still on the candidate\<close>
  "rolling_back digest n d \<longleftrightarrow> (\<exists>active data c. st_ActiveRollout (fd_Status d) = Some active \<and> ro_BlueGreen active = Some data \<and>
     ro_Operation active = ''BlueGreen'' \<and> ro_TargetDigest active = digest \<and> ro_Phase active = bgPhaseRollingBackTraffic \<and>
     length (filter xc_Switched (bg_ExternalConnections data)) = n \<and>
     find_condition ConditionReady (cs_Conditions (st_Common (fd_Status d))) = Some c \<and> cd_Reason c = ''BlueGreenRollingBack'')"

lemma persisted_append: "persisted E log (xs @ ys) st = persisted E (log @ xs) ys (persisted E log xs st)"
  by (induction xs arbitrary: log st) simp_all

lemma persisted_last: "fe_StatusUpdate E d (log @ xs) = None \<Longrightarrow> persisted E log (xs @ [CStatusUpdate d]) st = fd_Status d"
  by (simp add: persisted_append)

lemma filter_switch_off:
  "first_index P xs = Some i \<Longrightarrow> \<not> P y \<Longrightarrow> Suc (length (filter P (xs[i := y]))) = length (filter P xs)"
  by (induction xs arbitrary: i) (auto split: if_splits)

definition stored_last :: "(NiFiFlowDeployment \<Rightarrow> bool) \<Rightarrow> 'a \<Rightarrow> (fcall, NiFiFlowDeployment) rstate \<Rightarrow> bool" where
  "stored_last P r s' \<longleftrightarrow> (\<exists>xs d. calls s' = xs @ [CStatusUpdate d] \<and> P d)"

lemma stored_lastI: "P (obj s) \<Longrightarrow> wp (persist_after E n) (stored_last P) s"
  unfolding persist_after_def by (intro wp_intros wp_StatusUpdateI) (auto simp: stored_last_def)

lemma remove_green_ok: "restoring E \<Longrightarrow> wp (remove_green_connection E g) (\<lambda>r s'. r \<and> obj s' = obj s) s"
  unfolding remove_green_connection_def nifi_call_defs by (intro wp_intros) (simp_all add: restoring_def)

lemma rollback_one:
  assumes E: "restoring E" and rb: "rolling_back digest (Suc n) d" and s: "fd_Status (obj s) = fd_Status d"
  shows "wp (blueGreenRollbackTraffic E) (stored_last (rolling_back digest n)) s"
proof -
  from rb obtain active data c where
    a: "st_ActiveRollout (fd_Status (obj s)) = Some active" "ro_BlueGreen active = Some data" and
    rest: "ro_Operation active = ''BlueGreen''" "ro_TargetDigest active = digest" "ro_Phase active = bgPhaseRollingBackTraffic" and
    n: "length (filter xc_Switched (bg_ExternalConnections data)) = Suc n" and
    c: "find_condition ConditionReady (cs_Conditions (st_Common (fd_Status d))) = Some c" "cd_Reason c = ''BlueGreenRollingBack''"
    using s by (auto simp: rolling_back_def)
  obtain i where i: "first_index xc_Switched (bg_ExternalConnections data) = Some i"
    using n first_index_None [of xc_Switched "bg_ExternalConnections data"] by (cases "first_index xc_Switched (bg_ExternalConnections data)") auto
  obtain comp where comp: "decodeConnectionComponent E (xc_Definition (bg_ExternalConnections data ! i)) = Inr comp"
    using E unfolding restoring_def decodeConnectionComponent_def by blast
  have create: "fe_CreateConnection E p e log \<noteq> Inl x" for p e log x using E by (metis Inl_Inr_False restoring_def)
  have fin: "rolling_back digest n (upd_st (upd_bluegreen (\<lambda>b. b\<lparr>bg_ExternalConnections := (bg_ExternalConnections b)[i := r]\<rparr>)) (obj s'))"
    if "\<not> xc_Switched r" "obj s' = obj s" for r s'
    using filter_switch_off [OF i that(1)] n a rest c that(2) s
    by (auto simp: rolling_back_def upd_bluegreen_def)
  show ?thesis
    unfolding blueGreenRollbackTraffic_def
    apply (rule wp_with_bluegreen [OF a])
    apply (simp add: i comp Let_def)
    unfolding restore_connection_def set_record_def nifi_call_defs
    apply (intro wp_intros wp_mono [OF remove_green_ok [OF E]] stored_lastI)
    by (auto simp: create intro!: fin)
qed

definition switched_back :: "string \<Rightarrow> int \<Rightarrow> NiFiFlowDeploymentStatus \<Rightarrow> bool" where
  "switched_back digest g st \<longleftrightarrow> st_ActiveRollout st = None \<and>
     (\<exists>rb. st_LastRollback st = Some rb \<and> lb_FailedGeneration rb = g \<and> lb_FailedDigest rb = digest \<and> lb_CompletedAt rb \<noteq> None)"

lemma should_mark_other_reason:
  "find_condition ConditionReady (cs_Conditions c) = Some cd \<Longrightarrow> cd_Reason cd \<noteq> reason \<Longrightarrow> shouldMarkNotReady g c reason m"
  by (simp add: shouldMarkNotReady_def)

lemma failed_stored:
  assumes "find_condition ConditionReady (cs_Conditions (st_Common (fd_Status (obj s)))) = Some cd" "cd_Reason cd \<noteq> reason"
    and "\<And>d. st_ActiveRollout (fd_Status d) = st_ActiveRollout (fd_Status (obj s)) \<Longrightarrow>
       st_LastRollback (fd_Status d) = st_LastRollback (fd_Status (obj s)) \<Longrightarrow> P d"
  shows "wp (snapshotDeploymentFailed E reason e) (stored_last P) s"
  using should_mark_other_reason [OF assms(1,2)]
  unfolding snapshotDeploymentFailed_def markFlowDeploymentNotReady_def now_def shouldMarkFlowDeploymentNotReady_def
  by (intro wp_intros wp_StatusUpdateI) (auto simp: stored_last_def intro: assms(3))

lemma delete_pg_obj: "wp (blueGreenDeleteProcessGroup E i) (\<lambda>_ s'. obj s' = obj s) s"
  unfolding blueGreenDeleteProcessGroup_def nifi_call_defs by (intro wp_intros) simp_all

lemma record_failed_obj:
  "wp (recordFailedFlowDeployment E v d cm r) (\<lambda>_ s'. \<exists>h. obj s' = upd_st (\<lambda>st. st\<lparr>st_RolloutHistory := h\<rparr>) (obj s)) s"
  unfolding recordFailedFlowDeployment_def now_def by (intro wp_intros) (auto simp: upd_st_def)

lemma rollback_done:
  assumes rb: "rolling_back digest 0 d" and s: "fd_Status (obj s) = fd_Status d" "fd_Generation (obj s) = fd_Generation d"
  shows "wp (blueGreenRollbackTraffic E) (stored_last (\<lambda>d'. switched_back digest (fd_Generation d) (fd_Status d'))) s"
proof -
  from rb obtain active data c where
    a: "st_ActiveRollout (fd_Status (obj s)) = Some active" "ro_BlueGreen active = Some data" and
    t: "ro_TargetDigest active = digest" and n: "\<forall>r \<in> set (bg_ExternalConnections data). \<not> xc_Switched r" and
    c: "find_condition ConditionReady (cs_Conditions (st_Common (fd_Status d))) = Some c" "cd_Reason c \<noteq> ''BlueGreenRolledBack''"
    using s by (auto simp: rolling_back_def filter_empty_conv)
  have i: "first_index xc_Switched (bg_ExternalConnections data) = None" using n by (simp add: first_index_None)
  note fs = failed_stored [where cd = c]
  show ?thesis
    unfolding blueGreenRollbackTraffic_def
    apply (rule wp_with_bluegreen [OF a])
    apply (simp add: i)
    unfolding finish_rollback_def nifi_call_defs
    by (intro wp_intros wp_restart_sources [THEN iffD2] wp_mono [OF delete_pg_obj] wp_mono [OF record_failed_obj] wp_trimI fs)
      (auto simp: c s t switched_back_def)
qed

lemma machine_rolls_back:
  assumes rb: "rolling_back digest n (obj s)"
    and tail: "\<And>s'. fd_Generation (obj s') = fd_Generation (obj s) \<Longrightarrow> rolling_back digest n (obj s') \<Longrightarrow> wp (blueGreenRollbackTraffic E) Q s'"
  shows "wp (reconcileBlueGreenRollout E parentID snapshot version digest) Q s"
proof -
  from rb obtain active data c where
    a: "st_ActiveRollout (fd_Status (obj s)) = Some active" "ro_BlueGreen active = Some data" "ro_Operation active = ''BlueGreen''"
       "ro_TargetDigest active = digest" "ro_Phase active = bgPhaseRollingBackTraffic" and
    c: "length (filter xc_Switched (bg_ExternalConnections data)) = n"
      "find_condition ConditionReady (cs_Conditions (st_Common (fd_Status (obj s)))) = Some c" "cd_Reason c = ''BlueGreenRollingBack''"
    by (auto simp: rolling_back_def)
  have "wp (blueGreenRollbackTraffic E) Q (s\<lparr>obj := upd_st (upd_active (\<lambda>a. a\<lparr>ro_Strategy := ''BlueGreen''\<rparr>)) (obj s)\<rparr>)"
    by (rule tail) (use a c in \<open>auto simp: rolling_back_def\<close>)
  then show ?thesis
    using a by (simp add: reconcileBlueGreenRollout_def ensureActiveFlowRollout_def blueGreenPhaseStep_def wp_simps Let_def bg_phase_defs)
qed

lemma bg_store_last:
  assumes "wp (reconcileBlueGreenRollout E parentID snapshot version digest) (stored_last P) (start d)"
    and "\<And>d log. fe_StatusUpdate E d log = None"
  shows "\<exists>d'. fd_Status (bg_store E parentID snapshot version digest d) = fd_Status d' \<and> P d'"
proof -
  obtain out s' where run: "run_state (reconcileBlueGreenRollout E parentID snapshot version digest) (start d) = (out, s')" by fastforce
  from wp_run [OF assms(1) run] obtain xs d' where "calls s' = xs @ [CStatusUpdate d']" "P d'" by (auto simp: stored_last_def)
  with run assms(2) show ?thesis by (auto simp: bg_store_def persisted_last)
qed

lemma bg_store_generation [simp]: "fd_Generation (bg_store E p sn v dg d) = fd_Generation d"
  by (simp add: bg_store_def)

lemma rolling_back_status: "fd_Status d' = fd_Status d \<Longrightarrow> rolling_back digest n d' = rolling_back digest n d"
  by (simp add: rolling_back_def)

text \<open>
  C25. Switching back terminates and restores every connection: from a state in which the rollback of
  a BlueGreen rollout has started, with n connections still on the candidate, n + 1 reconciles
  in any environments that accept connection changes and status updates end the rollout. The failed
  artifact is then recorded as rolled back for this generation, so it is not deployed again.
\<close>

theorem rollback_terminates:
  assumes "rolling_back digest n d" "length Es = Suc n" "\<forall>E \<in> set Es. restoring E"
  shows "let d' = fold (\<lambda>E. bg_store E parentID snapshot version digest) Es d
         in st_ActiveRollout (fd_Status d') = None \<and> rollbackBlocksTarget d' digest"
  using assms
proof (induction n arbitrary: d Es)
  case 0
  then obtain E where Es: "Es = [E]" "restoring E" by (cases Es) auto
  have "wp (reconcileBlueGreenRollout E parentID snapshot version digest)
      (stored_last (\<lambda>d'. switched_back digest (fd_Generation d) (fd_Status d'))) (start d)"
  proof (rule machine_rolls_back [where n = 0])
    fix s' :: "(fcall, NiFiFlowDeployment) rstate"
    assume "fd_Generation (obj s') = fd_Generation (obj (start d))" "rolling_back digest 0 (obj s')"
    then show "wp (blueGreenRollbackTraffic E) (stored_last (\<lambda>d'. switched_back digest (fd_Generation d) (fd_Status d'))) s'"
      using rollback_done [of digest "obj s'" s' E] by simp
  qed (use 0 in simp)
  from bg_store_last [OF this] Es(2) have "switched_back digest (fd_Generation d) (fd_Status (bg_store E parentID snapshot version digest d))"
    by (auto simp: restoring_def)
  then show ?case by (auto simp: Es switched_back_def rollbackBlocksTarget_def)
next
  case (Suc n)
  then obtain E Es' where Es: "Es = E # Es'" "restoring E" "length Es' = Suc n" "\<forall>E \<in> set Es'. restoring E" by (cases Es) auto
  have "wp (reconcileBlueGreenRollout E parentID snapshot version digest) (stored_last (rolling_back digest n)) (start d)"
    by (rule machine_rolls_back [where n = "Suc n"]) (use Suc.prems Es(2) rollback_one in auto)
  from bg_store_last [OF this] Es(2) obtain d' where
    "fd_Status (bg_store E parentID snapshot version digest d) = fd_Status d'" "rolling_back digest n d'"
    by (auto simp: restoring_def)
  then have "rolling_back digest n (bg_store E parentID snapshot version digest d)"
    using rolling_back_status by blast
  from Suc.IH [OF this Es(3,4)] show ?case by (simp add: Es(1))
qed

definition rolling_back_sample :: NiFiFlowDeployment where
  "rolling_back_sample = (bluegreen_sample ''RollingBackTraffic'' [boundary_sample\<lparr>xc_Switched := True, xc_GreenConnectionID := ''c2''\<rparr>])
     \<lparr>fd_Status := (fd_Status (bluegreen_sample ''RollingBackTraffic'' [boundary_sample\<lparr>xc_Switched := True, xc_GreenConnectionID := ''c2''\<rparr>]))
        \<lparr>st_Common := MarkNotReady 0 1 ''BlueGreenRollingBack'' ''Switching traffic back to blue: timeout'' sample_common\<rparr>\<rparr>"

theorem rollback_terminates_witness:
  "rolling_back ''sha256:aa'' 1 rolling_back_sample \<and>
   (let d' = fold (\<lambda>E. bg_store E ''root'' ''1 sec'' ''v1'' ''sha256:aa'') [sample_env, sample_env] rolling_back_sample
    in st_ActiveRollout (fd_Status d') = None \<and> rollbackBlocksTarget d' ''sha256:aa'')"
proof -
  have "rolling_back ''sha256:aa'' 1 rolling_back_sample"
    by (simp add: rolling_back_def rolling_back_sample_def bluegreen_sample_def new_rollout_def boundary_sample_def bg_phase_defs
        MarkNotReady_def Let_def condition_type_defs)
  moreover have "restoring sample_env" by (simp add: restoring_def sample_env_def)
  ultimately show ?thesis
    using rollback_terminates [of "''sha256:aa''" 1 rolling_back_sample "[sample_env, sample_env]"] by simp
qed

section \<open>Inventory\<close>

definition boundary_port ::
  "string \<Rightarrow> (string \<Rightarrow> string option) \<Rightarrow> (string \<Rightarrow> string option) \<Rightarrow> ConnectionEntity \<Rightarrow> (string \<times> string) option" where
  \<comment> \<open>direction and port name of a connection that crosses the edge of the blue group\<close>
  "boundary_port blueID inputNames outputNames connection =
    (let c = ce_Component connection;
         named = (\<lambda>direction name. if name = '''' then None else Some (direction, name))
     in if cn_GroupID (cc_Destination c) = blueID \<and> cn_Type (cc_Destination c) = ConnectableInputPort
        then named bgDirectionInbound (map_index inputNames (cn_ID (cc_Destination c)))
        else if cn_GroupID (cc_Source c) = blueID \<and> cn_Type (cc_Source c) = ConnectableOutputPort
        then named bgDirectionOutbound (map_index outputNames (cn_ID (cc_Source c)))
        else None)"

definition record_for :: "fenv \<Rightarrow> ConnectionEntity \<Rightarrow> string \<times> string \<Rightarrow> ExternalConnectionRecord \<Rightarrow> bool" where
  "record_for E connection port r \<longleftrightarrow> xc_Direction r = fst port \<and> xc_PortName r = snd port \<and>
     xc_OriginalID r = bgConnectionEntityID (Some connection) \<and>
     fe_MarshalConnection E (ce_Component connection) = Inr (xc_Definition r) \<and>
     \<not> xc_Switched r \<and> xc_GreenConnectionID r = '''' \<and> xc_DrainStartedAt r = None"

lemma record_for_boundary [simp]:
  "fe_MarshalConnection E (ce_Component connection) = Inr def \<Longrightarrow> record_for E connection (dir, name) (boundary_record dir name connection def)"
  by (simp add: record_for_def boundary_record_def)

lemma inventory_records_spec:
  assumes "inventory_records E blueID ins outs acc conns = Inr records"
  shows "\<exists>new. records = acc @ new \<and>
     list_all2 (\<lambda>(c, port) r. record_for E c port r)
       (concat (map (\<lambda>c. case boundary_port blueID ins outs c of Some port \<Rightarrow> [(c, port)] | None \<Rightarrow> []) conns)) new"
  using assms
proof (induction conns arbitrary: acc)
  case Nil
  then show ?case by simp
next
  case (Cons c conns)
  obtain def where def: "fe_MarshalConnection E (ce_Component c) = Inr def"
    using Cons.prems by (cases "fe_MarshalConnection E (ce_Component c)") (simp_all add: Let_def)
  show ?case
  proof (cases "boundary_port blueID ins outs c")
    case None
    then have "inventory_records E blueID ins outs acc conns = Inr records"
      using Cons.prems def by (simp add: boundary_port_def Let_def split: if_splits)
    from Cons.IH [OF this] None show ?thesis by simp
  next
    case (Some port)
    obtain dir name where port: "port = (dir, name)" by fastforce
    have "inventory_records E blueID ins outs (acc @ [boundary_record dir name c def]) conns = Inr records"
      using Cons.prems def Some port by (auto simp: boundary_port_def Let_def split: if_splits)
    from Cons.IH [OF this] obtain new where "records = (acc @ [boundary_record dir name c def]) @ new"
      "list_all2 (\<lambda>(c, port) r. record_for E c port r)
         (concat (map (\<lambda>c. case boundary_port blueID ins outs c of Some port \<Rightarrow> [(c, port)] | None \<Rightarrow> []) conns)) new" by blast
    then show ?thesis
      using Some port def by (intro exI [of _ "boundary_record dir name c def # new"]) simp
  qed
qed

lemma inventory_spec:
  "wp (blueGreenInventory E blueID parentID) (\<lambda>r s'. obj s' = obj s \<and> (\<forall>records. r = Inr records \<longrightarrow>
     (\<exists>conns inputs outputs.
        fe_ListConnections E parentID (calls s) = Inr conns \<and>
        fe_ListInputPorts E blueID (calls s @ [CListConnections parentID]) = Inr inputs \<and>
        fe_ListOutputPorts E blueID (calls s @ [CListConnections parentID, CListInputPorts blueID]) = Inr outputs \<and>
        inventory_records E blueID (portIDToName inputs) (portIDToName outputs) [] conns = Inr records))) s"
  unfolding blueGreenInventory_def nifi_call_defs
  by (intro wp_intros) (auto split: sum.splits)

text \<open>
  The inventory is complete and exact: when \<open>blueGreenInventory\<close> succeeds, its records are, in
  order, one for every connection of the parent group that enters blue through a named input port
  or leaves it through a named output port, each with that port's name, the connection's id and its
  full definition, and none marked switched.
\<close>

theorem inventory_complete:
  assumes "run_state (blueGreenInventory E blueID parentID) s = (Inr records, s')"
  shows "\<exists>conns inputs outputs.
     fe_ListConnections E parentID (calls s) = Inr conns \<and>
     fe_ListInputPorts E blueID (calls s @ [CListConnections parentID]) = Inr inputs \<and>
     fe_ListOutputPorts E blueID (calls s @ [CListConnections parentID, CListInputPorts blueID]) = Inr outputs \<and>
     list_all2 (\<lambda>(c, port) r. record_for E c port r)
       (concat (map (\<lambda>c. case boundary_port blueID (portIDToName inputs) (portIDToName outputs) c of
            Some port \<Rightarrow> [(c, port)] | None \<Rightarrow> []) conns)) records"
proof -
  from wp_run [OF inventory_spec assms] obtain conns inputs outputs where
    l: "fe_ListConnections E parentID (calls s) = Inr conns"
      "fe_ListInputPorts E blueID (calls s @ [CListConnections parentID]) = Inr inputs"
      "fe_ListOutputPorts E blueID (calls s @ [CListConnections parentID, CListInputPorts blueID]) = Inr outputs" and
    r: "inventory_records E blueID (portIDToName inputs) (portIDToName outputs) [] conns = Inr records"
    by auto
  from inventory_records_spec [OF r] l show ?thesis by auto
qed

theorem inventory_complete_witness:
  "\<exists>records s'. run_state (blueGreenInventory sample_env ''blue'' ''root'') (start sample_deployment) = (Inr records, s') \<and>
     records = [boundary_sample] \<and>
     list_all2 (\<lambda>(c, port) r. record_for sample_env c port r)
       [(\<lparr>ce_ID = ''c1'', ce_Revision = \<lparr>re_Version = 1\<rparr>, ce_Component = sample_connection\<rparr>, (''Inbound'', ''in''))] records"
proof -
  let ?c = "\<lparr>ce_ID = ''c1'', ce_Revision = \<lparr>re_Version = 1\<rparr>, ce_Component = sample_connection\<rparr>"
  obtain s' where run: "run_state (blueGreenInventory sample_env ''blue'' ''root'') (start sample_deployment) = (Inr [boundary_sample], s')"
    by (simp add: blueGreenInventory_def nifi_call_defs sample_env_def sample_connection_def portIDToName_def port_id_def
      map_index_def topology_defs blueGreenSwitchableSource_def boundary_record_def boundary_sample_def bgConnectionEntityID_def bg_direction_defs)
  have "boundary_port ''blue'' (portIDToName [\<lparr>pt_ID = ''in1'', pt_Revision = \<lparr>re_Version = 1\<rparr>, pt_Component = \<lparr>ptc_ID = ''in1'', ptc_ParentGroupID = ''blue'', ptc_Name = ''in'',
         ptc_Position = None, ptc_State = ''RUNNING'', ptc_ConcurrentlySchedulableTaskCount = 1, ptc_ValidationStatus = ''VALID''\<rparr>\<rparr>]) (portIDToName []) ?c =
      Some (''Inbound'', ''in'')"
    by (simp add: boundary_port_def sample_connection_def portIDToName_def port_id_def map_index_def topology_defs bg_direction_defs)
  with inventory_complete [OF run] run show ?thesis by (auto simp: sample_env_def)
qed

section \<open>Restoring a connection\<close>

definition restored_entity :: "ConnectionComponent \<Rightarrow> ConnectionEntity" where
  \<comment> \<open>the component as it was, without an id, as a new entity\<close>
  "restored_entity component = \<lparr>ce_ID = '''', ce_Revision = \<lparr>re_Version = 0\<rparr>, ce_Component = component\<lparr>cc_ID := ''''\<rparr>\<rparr>"

definition record_of :: "nat \<Rightarrow> NiFiFlowDeployment \<Rightarrow> ExternalConnectionRecord option" where
  \<comment> \<open>a boundary record in the status\<close>
  "record_of i d = (case st_ActiveRollout (fd_Status d) of None \<Rightarrow> None
     | Some active \<Rightarrow> map_option (\<lambda>data. bg_ExternalConnections data ! i) (ro_BlueGreen active))"

definition green_refused :: "fenv \<Rightarrow> string \<Rightarrow> fcall list \<Rightarrow> fcall list \<Rightarrow> bool" where
  \<comment> \<open>the last of the calls asked NiFi to delete the green connection, and NiFi refused\<close>
  "green_refused E green log zs \<longleftrightarrow> (\<exists>ys v. zs = ys @ [CDeleteConnection green v] \<and> fe_DeleteConnection E green v (log @ ys) \<noteq> None)"

definition removes_only :: "string \<Rightarrow> fcall list \<Rightarrow> bool" where
  \<comment> \<open>nothing is created, and only the green connection is deleted\<close>
  "removes_only green zs \<longleftrightarrow> list_all (\<lambda>c. \<not> is_create c \<and> (is_delete c \<longrightarrow> (\<exists>v. c = CDeleteConnection green v))) zs"

lemma removes_only_simps [simp]: "removes_only g []"
  "removes_only g (c # zs) \<longleftrightarrow> \<not> is_create c \<and> (is_delete c \<longrightarrow> (\<exists>v. c = CDeleteConnection g v)) \<and> removes_only g zs"
  by (simp_all add: removes_only_def)

lemma remove_green_calls:
  "wp (remove_green_connection E g) (\<lambda>r s'. obj s' = obj s \<and>
     (\<exists>zs. calls s' = calls s @ zs \<and> removes_only g zs \<and> (\<not> r \<longrightarrow> green_refused E g (calls s) zs))) s"
proof -
  have refused: "green_refused E g log zs" if "zs = ys @ [CDeleteConnection g v]" "fe_DeleteConnection E g v (log @ ys) \<noteq> None" for log zs ys v
    using that by (auto simp: green_refused_def)
  show ?thesis
    unfolding remove_green_connection_def nifi_call_defs
    by (intro wp_intros)
      (auto intro: refused [where ys = "[_, _]"] refused [where ys = "[_, _, _]"])
qed

lemma persist_keeps: "wp (persist_after E n) (\<lambda>_ s'. obj s' = obj s) s"
  unfolding persist_after_def StatusUpdate_def by (intro wp_intros) simp_all

definition restored_record :: "ConnectionEntity option \<Rightarrow> ExternalConnectionRecord \<Rightarrow> ExternalConnectionRecord" where
  \<comment> \<open>the record of the connection NiFi created: its id, and not switched\<close>
  "restored_record created r = r\<lparr>xc_OriginalID := bgConnectionEntityID created, xc_GreenConnectionID := '''', xc_Switched := False, xc_DrainStartedAt := None\<rparr>"

definition restoration :: "fenv \<Rightarrow> nat \<Rightarrow> BlueGreenRolloutStatus \<Rightarrow> ConnectionComponent \<Rightarrow> fcall list \<Rightarrow> NiFiFlowDeployment \<Rightarrow> bool" where
  \<comment> \<open>after the green connection is gone, the component is created once, and the record says so if NiFi accepted\<close>
  "restoration E i data component zs d \<longleftrightarrow> (\<exists>removing after.
     let r = bg_ExternalConnections data ! i; parent = bg_ParentProcessGroupID data; e = restored_entity component in
     zs = removing @ CCreateConnection parent e # after \<and> removes_only (xc_GreenConnectionID r) removing \<and> no_change after \<and>
     (\<forall>created. fe_CreateConnection E parent e removing = Inr created \<longrightarrow>
        CStatusUpdate d \<in> set after \<and> record_of i d = Some (restored_record created r)))"

lemma restore_creates:
  assumes a: "st_ActiveRollout (fd_Status (obj s)) = Some active" "ro_BlueGreen active = Some data" and s: "calls s = []"
    and i: "first_index xc_Switched (bg_ExternalConnections data) = Some i"
    and cmp: "fe_UnmarshalConnection E (xc_Definition (bg_ExternalConnections data ! i)) = Inr cmp"
    and p: "cc_ParentGroupID cmp = bg_ParentProcessGroupID data"
  shows "wp (blueGreenRollbackTraffic E) (\<lambda>_ s'.
     removes_only (xc_GreenConnectionID (bg_ExternalConnections data ! i)) (calls s') \<and>
       green_refused E (xc_GreenConnectionID (bg_ExternalConnections data ! i)) [] (calls s') \<or>
     restoration E i data cmp (calls s') (obj s')) s"
proof -
  let ?r = "bg_ExternalConnections data ! i" and ?parent = "bg_ParentProcessGroupID data"
  have e: "\<lparr>ce_ID = '''', ce_Revision = \<lparr>re_Version = 0\<rparr>, ce_Component = cmp\<lparr>cc_ID := '''', cc_ParentGroupID := ?parent\<rparr>\<rparr> = restored_entity cmp"
    using p by (cases cmp) (simp add: restored_entity_def)
  have failed: "restoration E i data cmp (calls s') (obj s')"
    if h: "no_switch (s1\<lparr>calls := calls s1 @ [CCreateConnection ?parent (restored_entity cmp)]\<rparr>) s'" "removes_only (xc_GreenConnectionID ?r) (calls s1)"
      "fe_CreateConnection E ?parent (restored_entity cmp) (calls s1) = Inl err" for s1 s' err
  proof -
    obtain ys where "calls s' = calls s1 @ CCreateConnection ?parent (restored_entity cmp) # ys" "no_change ys"
      using no_switch_calls [OF h(1)] by auto
    then show ?thesis unfolding restoration_def Let_def using h(2,3) by fastforce
  qed
  have restored: "restoration E i data cmp (calls s') (obj s')"
    if "calls s' = calls s1 @ [CCreateConnection ?parent (restored_entity cmp), CStatusUpdate (obj s')]" "removes_only (xc_GreenConnectionID ?r) (calls s1)"
      "record_of i (obj s') = Some (restored_record created ?r)" "fe_CreateConnection E ?parent (restored_entity cmp) (calls s1) = Inr created" for s1 s' created
    unfolding restoration_def Let_def by (rule exI [of _ "calls s1"], rule exI [of _ "[CStatusUpdate (obj s')]"]) (use that in simp)
  have i': "i < length (bg_ExternalConnections data)" using first_index_Some [OF i] by simp
  have restore: "wp (restore_connection E cmp i ?r ?parent) (\<lambda>_ s'. restoration E i data cmp (calls s') (obj s')) s1"
    if h: "obj s1 = obj s" "removes_only (xc_GreenConnectionID ?r) (calls s1)" for s1
    unfolding restore_connection_def e CreateConnection_def set_record_def
  proof (intro wp_bindI wp_ext_callI wp_case_sumI)
    let ?s2 = "s1\<lparr>calls := calls s1 @ [CCreateConnection ?parent (restored_entity cmp)]\<rparr>"
    fix err assume "fe_CreateConnection E ?parent (restored_entity cmp) (calls s1) = Inl err"
    then show "wp (snapshotDeploymentFailed E reason e) (\<lambda>_ s'. restoration E i data cmp (calls s') (obj s')) ?s2" for reason e
      using failed [OF _ h(2)] by (auto intro: wp_mono [OF failed_no_switch])
  next
    fix created assume c: "fe_CreateConnection E ?parent (restored_entity cmp) (calls s1) = Inr created"
    show "wp (upd_obj (upd_st (upd_bluegreen (\<lambda>b. b\<lparr>bg_ExternalConnections := (bg_ExternalConnections b)[i := ?r\<lparr>xc_OriginalID := bgConnectionEntityID created,
             xc_GreenConnectionID := '''', xc_Switched := False, xc_DrainStartedAt := None\<rparr>]\<rparr>))))
        (\<lambda>_. wp (persist_after E 1) (\<lambda>_ s'. restoration E i data cmp (calls s') (obj s')))
        (s1\<lparr>calls := calls s1 @ [CCreateConnection ?parent (restored_entity cmp)]\<rparr>)"
      unfolding persist_after_def StatusUpdate_def
      by (intro wp_intros restored [OF _ h(2) _ c])
        (use h a i' in \<open>auto simp: record_of_def restored_record_def upd_bluegreen_def\<close>)
  qed
  show ?thesis
    unfolding blueGreenRollbackTraffic_def
    by (rule wp_with_bluegreen [OF a]) (auto simp: i cmp s decodeConnectionComponent_def wp_simps Let_def intro!: wp_mono [OF restore] wp_mono [OF remove_green_calls])
qed

text \<open>
  C26. Rollback restores what was recorded: if \<open>encoding/json\<close> decodes what it encoded, and the first
  switched record holds the definition of a component of the parent group, then a rollback reconcile removes the green connection
  and creates exactly that component again, once, with the same source, destination, relationships, queue limits and bends, only
  without an id, and when NiFi accepts, the record is no longer switched and names the created connection. The one exception is that NiFi refuses
  to delete the green connection: then nothing is created in this reconcile. No connection but the green one is deleted.
\<close>

theorem rollback_restores_definition:
  assumes "\<And>c def. fe_MarshalConnection E c = Inr def \<Longrightarrow> fe_UnmarshalConnection E def = Inr c"
    and "st_ActiveRollout (fd_Status (obj s)) = Some active" "ro_BlueGreen active = Some data" "calls s = []"
    and "first_index xc_Switched (bg_ExternalConnections data) = Some i"
    and "fe_MarshalConnection E cmp = Inr (xc_Definition (bg_ExternalConnections data ! i))"
    and "cc_ParentGroupID cmp = bg_ParentProcessGroupID data"
    and "run_state (blueGreenRollbackTraffic E) s = (out, s')"
  shows "removes_only (xc_GreenConnectionID (bg_ExternalConnections data ! i)) (calls s') \<and>
       green_refused E (xc_GreenConnectionID (bg_ExternalConnections data ! i)) [] (calls s') \<or>
     restoration E i data cmp (calls s') (obj s')"
  by (rule wp_run [OF restore_creates [OF assms(2-5) assms(1) [OF assms(6)] assms(7)] assms(8)])

definition codec_env :: fenv where
  "codec_env = sample_env\<lparr>fe_MarshalConnection := \<lambda>c. if c = sample_connection then Inr ''connection'' else Inl (errorf ''unsupported'')\<rparr>"

theorem rollback_restores_definition_witness:
  "let s' = snd (run_state (blueGreenRollbackTraffic codec_env) (start rolling_back_sample))
   in \<exists>data. restoration codec_env 0 data sample_connection (calls s') (obj s') \<and> bg_ParentProcessGroupID data = ''root'' \<and>
        xc_GreenConnectionID (bg_ExternalConnections data ! 0) = ''c2''"
proof -
  let ?s = "start rolling_back_sample"
  obtain out s' where run: "run_state (blueGreenRollbackTraffic codec_env) ?s = (out, s')" by fastforce
  have a: "st_ActiveRollout (fd_Status (obj ?s)) = Some (the (st_ActiveRollout (fd_Status rolling_back_sample)))"
    "ro_BlueGreen (the (st_ActiveRollout (fd_Status rolling_back_sample))) = Some \<lparr>bg_CandidateProcessGroupID = ''green'',
       bg_BlueProcessGroupID = ''blue'', bg_ParentProcessGroupID = ''root'', bg_Inventoried = True,
       bg_ExternalConnections = [boundary_sample\<lparr>xc_Switched := True, xc_GreenConnectionID := ''c2''\<rparr>]\<rparr>" (is "_ = Some ?data")
    by (simp_all add: rolling_back_sample_def bluegreen_sample_def)
  have codec: "fe_MarshalConnection codec_env c = Inr def \<Longrightarrow> fe_UnmarshalConnection codec_env def = Inr c" for c def
    by (auto simp: codec_env_def sample_env_def split: if_splits)
  have "filter is_create (calls (snd (run_state (blueGreenRollbackTraffic codec_env) ?s))) \<noteq> []"
    by (simp add: blueGreenRollbackTraffic_def with_bluegreen_def rolling_back_sample_def bluegreen_sample_def new_rollout_def codec_env_def sample_env_def decodeConnectionComponent_def boundary_sample_def
        remove_green_connection_def restore_connection_def set_record_def persist_after_def StatusUpdate_def nifi_call_defs Let_def)
  then have "filter is_create (calls s') \<noteq> []" using run by simp
  then have created: "\<not> removes_only g (calls s')" for g by (auto simp: removes_only_def list_all_iff filter_empty_conv)
  have "restoration codec_env 0 ?data sample_connection (calls s') (obj s')"
    using rollback_restores_definition [OF codec a _ _ _ _ run, of 0 sample_connection] created
    by (simp add: boundary_sample_def codec_env_def sample_connection_def)
  then show ?thesis unfolding Let_def using run by (intro exI [of _ ?data]) (simp add: boundary_sample_def)
qed

section \<open>Where the transaction is not one\<close>

lemma replace_create_fails:
  assumes "\<And>p e log x. fe_CreateConnection E p e log \<noteq> Inr x"
  shows "wp (replace_connection E c r g i p) (\<lambda>x s'. obj s' = obj s \<and> fst x = r \<and> (\<exists>err. snd x = Inl err)) s"
  unfolding replace_connection_def nifi_call_defs
  by (intro wp_intros) (use assms in auto)

lemma switch_create_fails:
  assumes "\<And>p e log x. fe_CreateConnection E p e log \<noteq> Inr x" and "\<not> xc_Switched r"
  shows "wp (blueGreenSwitchConnection E r g i p strategy) (\<lambda>x s'. obj s' = obj s \<and> \<not> xc_Switched (fst x) \<and>
     (filter is_delete (calls s') = filter is_delete (calls s) \<or> (\<exists>err. snd x = Inl err))) s"
  unfolding blueGreenSwitchConnection_def nifi_call_defs
  by (intro wp_intros wp_mono [OF replace_create_fails [OF assms(1)]]) (use assms(2) in auto)

definition rolling_back_unswitched :: "NiFiFlowDeployment \<Rightarrow> bool" where
  "rolling_back_unswitched d \<longleftrightarrow> (\<exists>active data. st_ActiveRollout (fd_Status d) = Some active \<and> ro_BlueGreen active = Some data \<and>
     ro_Phase active = bgPhaseRollingBackTraffic \<and> (\<forall>r \<in> set (bg_ExternalConnections data). \<not> xc_Switched r))"

lemma start_rollback_post:
  assumes "st_ActiveRollout (fd_Status (obj s)) = Some a" "ro_BlueGreen a = Some data" "\<forall>r \<in> set (bg_ExternalConnections data). \<not> xc_Switched r"
  shows "wp (blueGreenStartRollback E reason) (\<lambda>_ s'. rolling_back_unswitched (obj s')) s"
  unfolding blueGreenStartRollback_def mark_not_ready_def persist_after_def now_def
  by (intro wp_intros wp_StatusUpdateI) (use assms in \<open>auto simp: rolling_back_unswitched_def\<close>)

lemma no_delete: "wp m (\<lambda>_. no_switch s) s \<Longrightarrow> filter is_delete (calls s) = filter is_delete (calls s0) \<Longrightarrow>
  wp m (\<lambda>_ s'. filter is_delete (calls s') = filter is_delete (calls s0) \<or> P s') s"
  by (erule wp_mono) (simp add: no_switch_def)

lemma switch_traffic_create_fails:
  assumes fails: "\<And>p e log x. fe_CreateConnection E p e log \<noteq> Inr x"
    and a: "st_ActiveRollout (fd_Status (obj s)) = Some a" "ro_BlueGreen a = Some data"
    and un: "\<forall>r \<in> set (bg_ExternalConnections data). \<not> xc_Switched r"
  shows "wp (blueGreenSwitchTraffic E strategy)
    (\<lambda>_ s'. filter is_delete (calls s') = filter is_delete (calls s) \<or> rolling_back_unswitched (obj s')) s"
proof -
  have sw: "\<not> xc_Switched (bg_ExternalConnections data ! i)"
    if "first_index (\<lambda>x. \<not> xc_Switched x) (bg_ExternalConnections data) = Some i" for i
    using first_index_Some [OF that] by blast
  have upd: "\<forall>r \<in> set ((bg_ExternalConnections data)[i := r']). \<not> xc_Switched r" if "\<not> xc_Switched r'" for i r'
    using un that set_update_subset_insert by fastforce
  have rb: "wp (blueGreenStartRollback E reason) (\<lambda>_ s'. filter is_delete (calls s') = filter is_delete (calls s) \<or> rolling_back_unswitched (obj s'))
      (s1\<lparr>obj := upd_st (upd_bluegreen (\<lambda>b. b\<lparr>bg_ExternalConnections := (bg_ExternalConnections b)[i := r']\<rparr>)) (obj s1)\<rparr>)"
    if "obj s1 = obj s" "\<not> xc_Switched r'" for s1 i r' reason
    by (rule wp_mono [OF start_rollback_post [where a = "a\<lparr>ro_BlueGreen := Some (data\<lparr>bg_ExternalConnections := (bg_ExternalConnections data)[i := r']\<rparr>)\<rparr>"]])
      (use that a upd in \<open>auto simp: upd_bluegreen_def\<close>)
  show ?thesis
    unfolding blueGreenSwitchTraffic_def set_record_def
    by (rule wp_with_bluegreen [OF a],
        intro wp_intros wp_mono [OF inventory_no_switch] wp_mono [OF port_maps_no_switch] wp_mono [OF switch_create_fails [OF fails sw]]
          no_delete [OF persist_no_switch] no_delete [OF abort_no_switch] rb)
      (auto simp: no_switch_def intro: no_delete [OF start_rollback_no_switch])
qed

definition no_create :: "fcall list \<Rightarrow> bool" where
  "no_create cs \<longleftrightarrow> filter is_create cs = []"

lemma no_create_simps [simp]: "no_create []" "no_create (xs @ ys) \<longleftrightarrow> no_create xs \<and> no_create ys"
  "no_create (c # xs) \<longleftrightarrow> \<not> is_create c \<and> no_create xs" "no_create (map (CDeleteConfigMap ns) ns')" "no_create (restart_calls E rs)"
proof -
  show "no_create (restart_calls E rs)"
    using restart_calls_only [of _ E rs] by (fastforce simp: no_create_def filter_empty_conv)
qed (auto simp: no_create_def filter_empty_conv)

lemma failed_no_create: "no_create (calls s) \<Longrightarrow> wp (snapshotDeploymentFailed E reason e) (\<lambda>_ s'. no_create (calls s')) s"
  unfolding snapshotDeploymentFailed_def markFlowDeploymentNotReady_def now_def
  by (intro wp_intros wp_StatusUpdateI) simp_all

lemma rollback_no_create:
  assumes "rolling_back_unswitched (obj s)" "no_create (calls s)"
  shows "wp (blueGreenRollbackTraffic E) (\<lambda>_ s'. no_create (calls s')) s"
proof -
  from assms(1) obtain active data where
    a: "st_ActiveRollout (fd_Status (obj s)) = Some active" "ro_BlueGreen active = Some data" and
    un: "\<forall>r \<in> set (bg_ExternalConnections data). \<not> xc_Switched r" by (auto simp: rolling_back_unswitched_def)
  have i: "first_index xc_Switched (bg_ExternalConnections data) = None" using un by (simp add: first_index_None)
  show ?thesis
    unfolding blueGreenRollbackTraffic_def
    apply (rule wp_with_bluegreen [OF a])
    apply (simp add: i)
    unfolding finish_rollback_def blueGreenDeleteProcessGroup_def recordFailedFlowDeployment_def nifi_call_defs
    by (intro wp_intros wp_restart_sources [THEN iffD2] wp_trimI failed_no_create) (use assms(2) in simp_all)
qed

text \<open>
  A half-switched connection is lost. \<open>blueGreenSwitchConnection\<close> deletes the blue connection
  before it creates the green one and marks the record switched only after both. If NiFi accepts the
  deletion and refuses the creation, the rollout starts rolling back with the record unswitched, and
  the rollback, which restores switched records only, creates no connection: the boundary connection
  is gone. (The comment on \<open>reconcileBlueGreenRollout\<close> says an interruption rolls back cleanly.)
\<close>

theorem half_switched_connection_is_lost:
  assumes "\<And>p e log x. fe_CreateConnection E p e log \<noteq> Inr x"
    and "st_ActiveRollout (fd_Status (obj s)) = Some active" "ro_BlueGreen active = Some data" "calls s = []"
    and "\<forall>r \<in> set (bg_ExternalConnections data). \<not> xc_Switched r"
    and "run_state (blueGreenSwitchTraffic E strategy) s = (out, s1)" "filter is_delete (calls s1) \<noteq> []"
    and "run_state (blueGreenRollbackTraffic E2) (start (obj s1)) = (out2, s2)"
  shows "rolling_back_unswitched (obj s1) \<and>
     (\<exists>r \<in> set (bg_ExternalConnections data). \<exists>v. filter is_delete (calls s1) = [CDeleteConnection (xc_OriginalID r) v]) \<and>
     filter is_create (calls s2) = []"
proof -
  have rb: "rolling_back_unswitched (obj s1)"
    using wp_run [OF switch_traffic_create_fails [OF assms(1,2,3,5)] assms(6)] assms(4,7) by simp
  moreover have "\<exists>r \<in> set (bg_ExternalConnections data). \<exists>v. filter is_delete (calls s1) = [CDeleteConnection (xc_OriginalID r) v]"
    using wp_run [OF switch_traffic_safely [OF assms(2,3)] assms(6)] assms(4,7) moved_deletes
    by (fastforce simp: switched_safely_def no_change_filters)
  moreover have "no_create (calls s2)"
    using wp_run [OF rollback_no_create assms(8)] rb by simp
  ultimately show ?thesis by (simp add: no_create_def)
qed

definition refusing_env :: fenv where
  "refusing_env = sample_env\<lparr>fe_CreateConnection := \<lambda>_ _ _. Inl (errorf ''409'')\<rparr>"

theorem half_switched_connection_is_lost_witness:
  "let s = start (bluegreen_sample bgPhaseSwitchingTraffic [boundary_sample]);
       s1 = snd (run_state (blueGreenSwitchTraffic refusing_env (blueGreenStrategy (obj s))) s);
       s2 = snd (run_state (blueGreenRollbackTraffic sample_env) (start (obj s1)))
   in filter is_delete (calls s1) = [CDeleteConnection ''c1'' 1] \<and> filter is_create (calls s2) = []"
proof -
  let ?d = "bluegreen_sample bgPhaseSwitchingTraffic [boundary_sample]"
  let ?s = "start ?d"
  obtain out s1 where run: "run_state (blueGreenSwitchTraffic refusing_env (blueGreenStrategy ?d)) ?s = (out, s1)" by fastforce
  obtain out2 s2 where run2: "run_state (blueGreenRollbackTraffic sample_env) (start (obj s1)) = (out2, s2)" by fastforce
  have "filter is_delete (calls (snd (run_state (blueGreenSwitchTraffic refusing_env (blueGreenStrategy ?d)) ?s))) = [CDeleteConnection ''c1'' 1]"
    by (simp add: blueGreenSwitchTraffic_def bluegreen_run_defs bluegreen_sample_def boundary_sample_def new_rollout_def blueGreenStartRollback_def
        refusing_env_def sample_env_def portNameToID_def port_id_def map_index_def decodeConnectionComponent_def bg_direction_defs)
  then have del: "filter is_delete (calls s1) = [CDeleteConnection ''c1'' 1]" using run by simp
  have a: "st_ActiveRollout (fd_Status (obj ?s)) = Some (the (st_ActiveRollout (fd_Status ?d)))"
    "ro_BlueGreen (the (st_ActiveRollout (fd_Status ?d))) = Some \<lparr>bg_CandidateProcessGroupID = ''green'',
       bg_BlueProcessGroupID = ''blue'', bg_ParentProcessGroupID = ''root'', bg_Inventoried = True,
       bg_ExternalConnections = [boundary_sample]\<rparr>"
    by (simp_all add: bluegreen_sample_def)
  have "fe_CreateConnection refusing_env p e log \<noteq> Inr x" for p e log x by (simp add: refusing_env_def)
  from half_switched_connection_is_lost [OF this a _ _ run _ run2] del run run2 show ?thesis
    by (simp add: boundary_sample_def)
qed

text \<open>
  A new artifact makes a running BlueGreen rollout be forgotten: when the digest to deploy changes
  while a rollout is in any phase, the next reconcile only stores a fresh rollout record. The old
  candidate's id and the inventory with its switched connections are dropped without deleting the
  candidate or switching traffic back.
\<close>

theorem retarget_forgets_rollout:
  assumes "st_ActiveRollout (fd_Status d) = Some active" "ro_TargetDigest active \<noteq> digest"
    and "run_state (reconcileBlueGreenRollout E parentID snapshot version digest) (start d) = (out, s')"
  shows "\<exists>active'. calls s' = [CStatusUpdate (obj s')] \<and> st_ActiveRollout (fd_Status (obj s')) = Some active' \<and>
     ro_TargetDigest active' = digest \<and>
     ro_BlueGreen active' = Some \<lparr>bg_CandidateProcessGroupID = '''', bg_BlueProcessGroupID = st_ProcessGroupID (fd_Status d),
       bg_ParentProcessGroupID = parentID, bg_Inventoried = False, bg_ExternalConnections = []\<rparr>"
proof -
  have "wp (reconcileBlueGreenRollout E parentID snapshot version digest)
    (\<lambda>_ s'. \<exists>active'. calls s' = [CStatusUpdate (obj s')] \<and> st_ActiveRollout (fd_Status (obj s')) = Some active' \<and>
     ro_TargetDigest active' = digest \<and>
     ro_BlueGreen active' = Some \<lparr>bg_CandidateProcessGroupID = '''', bg_BlueProcessGroupID = st_ProcessGroupID (fd_Status d),
       bg_ParentProcessGroupID = parentID, bg_Inventoried = False, bg_ExternalConnections = []\<rparr>) (start d)"
    using assms(1,2)
    by (simp add: reconcileBlueGreenRollout_def ensureActiveFlowRollout_def blueGreenPhaseStep_def mark_not_ready_def persist_after_def
        wp_simps Let_def new_rollout_def)
  from wp_run [OF this assms(3)] show ?thesis .
qed

theorem retarget_forgets_rollout_witness:
  "let d = bluegreen_sample bgPhaseSwitchingTraffic [boundary_sample\<lparr>xc_Switched := True, xc_GreenConnectionID := ''c2''\<rparr>];
       s' = snd (run_state (reconcileBlueGreenRollout sample_env ''root'' ''1 sec'' ''v2'' ''sha256:bb'') (start d))
   in \<exists>active'. calls s' = [CStatusUpdate (obj s')] \<and> st_ActiveRollout (fd_Status (obj s')) = Some active' \<and>
     ro_TargetDigest active' = ''sha256:bb'' \<and>
     ro_BlueGreen active' = Some \<lparr>bg_CandidateProcessGroupID = '''', bg_BlueProcessGroupID = ''blue'',
       bg_ParentProcessGroupID = ''root'', bg_Inventoried = False, bg_ExternalConnections = []\<rparr>"
proof -
  let ?d = "bluegreen_sample bgPhaseSwitchingTraffic [boundary_sample\<lparr>xc_Switched := True, xc_GreenConnectionID := ''c2''\<rparr>]"
  obtain out s' where run: "run_state (reconcileBlueGreenRollout sample_env ''root'' ''1 sec'' ''v2'' ''sha256:bb'') (start ?d) = (out, s')" by fastforce
  have "st_ActiveRollout (fd_Status ?d) = Some (the (st_ActiveRollout (fd_Status ?d)))"
    "ro_TargetDigest (the (st_ActiveRollout (fd_Status ?d))) \<noteq> ''sha256:bb''" "st_ProcessGroupID (fd_Status ?d) = ''blue''"
    by (simp_all add: bluegreen_sample_def new_rollout_def sample_status_def)
  with retarget_forgets_rollout [OF _ _ run] run show ?thesis by (simp add: Let_def)
qed

end
