(* ===== verification/Flow_Validate.thy ===== *)
theory Flow_Validate
  imports BlueGreen_Transaction
begin

text \<open>
  Validate-only deployments (\<open>internal/controller/flow_deployment_validate.go\<close>): the flow is imported
  into a temporary process group, its components are inspected once they have settled, the result is
  stored, and the temporary group is deleted. The machine is kept in \<open>Status.ValidationPhase\<close>.
\<close>

section \<open>Settings\<close>

definition flowValidationPhaseValidating :: string where "flowValidationPhaseValidating = ''Validating''"
definition flowValidationPhaseCleanup :: string where "flowValidationPhaseCleanup = ''Cleanup''"
definition flowValidationSettleTimeout :: duration where "flowValidationSettleTimeout = 90 * second"
definition flowValidationPollInterval :: int where "flowValidationPollInterval = 3"
definition flowValidationCleanupPoll :: int where "flowValidationCleanupPoll = 3"
definition maxReportedInvalidComponents :: nat where "maxReportedInvalidComponents = 25"
definition maxReportedComponentErrors :: nat where "maxReportedComponentErrors = 5"

lemmas validation_defs = flowValidationPhaseValidating_def flowValidationPhaseCleanup_def
  maxReportedInvalidComponents_def maxReportedComponentErrors_def

section \<open>Operations\<close>

definition flowValidationGroupName :: "NiFiFlowDeployment \<Rightarrow> string" where
  "flowValidationGroupName instance = ''nificontrol-validate-'' @ fd_Name instance"

definition flowSnapshotWithName :: "json_codec \<Rightarrow> string \<Rightarrow> string \<Rightarrow> string go_result" where
  "flowSnapshotWithName c snapshot name = (case jc_Unmarshal c snapshot of
      Inr JNull \<Rightarrow> Inr (jc_Marshal c JNull)
    | _ \<Rightarrow> (case unmarshal_object c snapshot of
        Inl err \<Rightarrow> Inl err
      | Inr decoded \<Rightarrow> (case field decoded ''flowContents'' of
            JObject flowContents \<Rightarrow>
              Inr (jc_Marshal c (JObject (put_field ''flowContents'' (JObject (put_field ''name'' (JString name) flowContents)) decoded)))
          | _ \<Rightarrow> Inr (jc_Marshal c (JObject decoded)))))"

definition reported_component :: "InvalidComponent \<Rightarrow> FlowInvalidComponent" where
  "reported_component c = \<lparr>fi_Kind = ic_Kind c, fi_ID = ic_ID c, fi_Name = ic_Name c, fi_Type = ic_Type c,
     fi_ProcessGroupID = ic_ProcessGroupID c,
     fi_Errors = (if length (ic_ValidationErrors c) > maxReportedComponentErrors
                  then take maxReportedComponentErrors (ic_ValidationErrors c) else ic_ValidationErrors c)\<rparr>"

definition buildFlowValidationResult ::
  "go_time \<Rightarrow> FlowValidationReport \<Rightarrow> string \<Rightarrow> string \<Rightarrow> bool \<Rightarrow> FlowValidationResult" where
  "buildFlowValidationResult t report version digest settleTimedOut =
    (let invalidCount = int32 (int (length (vr_Invalid report)));
         inconclusive = (settleTimedOut \<and> vr_ValidatingCount report > 0);
         valid = (if inconclusive then False else invalidCount = 0);
         components = map reported_component (take maxReportedInvalidComponents (vr_Invalid report));
         truncated = length (vr_Invalid report) > maxReportedInvalidComponents;
         message = (if valid then ''Flow is valid ('' @ show_int (vr_Total report) @ '' component(s) checked).''
                    else ''Flow validation failed: '' @ show_int invalidCount @ '' invalid component(s) of '' @
                         show_int (vr_Total report) @ '' checked.'');
         message = (if truncated then message @ '' Reporting the first '' @ show_nat maxReportedInvalidComponents @ ''.'' else message);
         message = (if inconclusive then message @ '' '' @ show_int (vr_ValidatingCount report) @
                      '' component(s) had not finished validating within '' @ show_duration flowValidationSettleTimeout @ ''.''
                    else message)
     in \<lparr>fv_Valid = valid, fv_CheckedVersion = version, fv_CheckedDigest = digest, fv_InvalidCount = invalidCount,
         fv_InvalidComponents = components, fv_CheckedAt = t, fv_Message = message\<rparr>)"

definition flowValidationOperationalError :: "fenv \<Rightarrow> string \<Rightarrow> string \<Rightarrow> outcome fhandler" where
  "flowValidationOperationalError E reason message = do {
     instance \<leftarrow> get_obj;
     (if shouldMarkFlowDeploymentNotReady instance reason message then do {
        u \<leftarrow> markFlowDeploymentNotReady E reason message;
        ret (requeue_after 30, u) }
      else ret (requeue_after 30, None)) }"

definition tryDeleteValidationProcessGroup :: "fenv \<Rightarrow> string \<Rightarrow> bool go_result fhandler" where
  "tryDeleteValidationProcessGroup E pgID = do {
     _ \<leftarrow> ScheduleProcessGroup E pgID RunStateStopped;
     _ \<leftarrow> SetControllerServicesState E pgID RunStateDisabled;
     g \<leftarrow> GetProcessGroup E pgID;
     (case g of
        Inl err \<Rightarrow> ret (if IsNotFound err then Inr True else Inl err)
      | Inr None \<Rightarrow> ret (Inr True)
      | Inr (Some existing) \<Rightarrow> do {
          d \<leftarrow> DeleteProcessGroup E pgID (re_Version (pg_Revision existing));
          ret (case d of Some err \<Rightarrow> (if IsNotFound err then Inr True else Inl err) | None \<Rightarrow> Inr True) }) }"

definition deleteValidationProcessGroup :: "fenv \<Rightarrow> string \<Rightarrow> unit fhandler" where
  "deleteValidationProcessGroup E pgID = do { _ \<leftarrow> tryDeleteValidationProcessGroup E pgID; ret () }"

fun delete_stale_groups :: "fenv \<Rightarrow> string \<Rightarrow> ProcessGroupEntity list \<Rightarrow> unit fhandler" where
  "delete_stale_groups E name [] = ret ()"
| "delete_stale_groups E name (child # children) =
     (if pgc_Name (pg_Component child) \<noteq> name \<or> processGroupEntityID child = '''' then delete_stale_groups E name children
      else do {
        _ \<leftarrow> tryDeleteValidationProcessGroup E (processGroupEntityID child);
        delete_stale_groups E name children })"

definition cleanupStaleValidationGroups :: "fenv \<Rightarrow> string \<Rightarrow> string \<Rightarrow> unit fhandler" where
  "cleanupStaleValidationGroups E parentID name = do {
     r \<leftarrow> ListChildProcessGroups E parentID;
     (case r of Inl _ \<Rightarrow> ret () | Inr children \<Rightarrow> delete_stale_groups E name children) }"

definition startFlowValidation :: "fenv \<Rightarrow> string \<Rightarrow> string \<Rightarrow> string \<Rightarrow> string \<Rightarrow> outcome fhandler" where
  "startFlowValidation E parentID snapshot version digest = do {
     instance \<leftarrow> get_obj;
     let checked = (case st_ValidationResult (fd_Status instance) of
           Some result \<Rightarrow> fv_CheckedDigest result = digest \<and>
             cs_ObservedGeneration (st_Common (fd_Status instance)) = fd_Generation instance
         | None \<Rightarrow> False);
     (if checked then ret (no_result, None)
      else case flowSnapshotWithName (fe_json E) snapshot (flowValidationGroupName instance) of
        Inl err \<Rightarrow> flowValidationOperationalError E ''ValidationPrepareFailed'' (''prepare validation snapshot: '' @ err_text err)
      | Inr named \<Rightarrow> do {
          cleanupStaleValidationGroups E parentID (flowValidationGroupName instance);
          i \<leftarrow> ImportProcessGroup E parentID named;
          (case i of
             Inl err \<Rightarrow> flowValidationOperationalError E ''ValidationImportFailed'' (''import flow for validation: '' @ err_text err)
           | Inr imported \<Rightarrow>
              (let pgID = (case imported of Some e \<Rightarrow> processGroupEntityID e | None \<Rightarrow> '''') in
               if pgID = '''' then flowValidationOperationalError E ''ValidationImportFailed'' ''NiFi did not return an imported process group id''
               else do {
                 _ \<leftarrow> SetControllerServicesState E pgID RunStateEnabled;
                 t \<leftarrow> now E;
                 upd_obj (\<lambda>d. upd_st (\<lambda>st. st\<lparr>st_ValidationProcessGroupID := pgID, st_ValidationPhase := flowValidationPhaseValidating,
                    st_ValidationStartedAt := Some t, st_SyncState := ''Validating'',
                    st_Common := MarkNotReady t (fd_Generation d) ''Validating'' ''Validating the flow in a temporary process group.''
                       (set_deps True [] (st_Common st))\<rparr>) d);
                 persist_after E flowValidationPollInterval })) }) }"

definition reconcileFlowValidationInspect :: "fenv \<Rightarrow> string \<Rightarrow> string \<Rightarrow> outcome fhandler" where
  "reconcileFlowValidationInspect E version digest = do {
     instance \<leftarrow> get_obj;
     let pgID = st_ValidationProcessGroupID (fd_Status instance);
     (if pgID = '''' then do {
        upd_obj (upd_st (\<lambda>st. st\<lparr>st_ValidationPhase := ''''\<rparr>));
        u \<leftarrow> StatusUpdate E;
        ret (\<lparr>Requeue = True, RequeueAfter = 0\<rparr>, u) }
      else do {
        r \<leftarrow> InspectValidation E pgID;
        (case r of
           Inl err \<Rightarrow> flowValidationOperationalError E ''ValidationInspectFailed'' (''inspect validation: '' @ err_text err)
         | Inr report \<Rightarrow> do {
             t \<leftarrow> now E;
             let settleExpired = (case st_ValidationStartedAt (fd_Status instance) of
                   Some t0 \<Rightarrow> t - t0 > flowValidationSettleTimeout | None \<Rightarrow> False);
             (if vr_ValidatingCount report > 0 \<and> \<not> settleExpired then ret (requeue_after flowValidationPollInterval, None)
              else do {
                upd_obj (upd_st (\<lambda>st. st\<lparr>st_ValidationResult := Some (buildFlowValidationResult t report version digest settleExpired),
                   st_ValidationPhase := flowValidationPhaseCleanup, st_SyncState := ''ValidationCleanup''\<rparr>));
                _ \<leftarrow> SetControllerServicesState E pgID RunStateDisabled;
                persist_after E flowValidationCleanupPoll }) }) }) }"

definition finalizeFlowValidation :: "fenv \<Rightarrow> outcome fhandler" where
  "finalizeFlowValidation E = do {
     t \<leftarrow> now E;
     upd_obj (\<lambda>d. upd_st (\<lambda>st.
        let st = st\<lparr>st_SyncState := ''ValidationComplete'', st_Common := set_deps True [] (st_Common st)\<rparr> in
        (case st_ValidationResult st of
           Some result \<Rightarrow>
             (if fv_Valid result
              then st\<lparr>st_Common := set_last_error '''' (MarkReady t (fd_Generation d) ''ValidationSucceeded'' (fv_Message result) (st_Common st))\<rparr>
              else let message = or_default (fv_Message result) ''flow validation failed'' in
                st\<lparr>st_Common := set_last_error message (MarkNotReady t (fd_Generation d) ''ValidationFailed'' message (st_Common st))\<rparr>)
         | None \<Rightarrow> st\<lparr>st_Common := set_last_error ''flow validation failed''
             (MarkNotReady t (fd_Generation d) ''ValidationFailed'' ''flow validation failed'' (st_Common st))\<rparr>)) d);
     u \<leftarrow> StatusUpdate E;
     ret (no_result, u) }"

definition reconcileFlowValidationCleanup :: "fenv \<Rightarrow> outcome fhandler" where
  "reconcileFlowValidationCleanup E = do {
     instance \<leftarrow> get_obj;
     let pgID = st_ValidationProcessGroupID (fd_Status instance);
     gone \<leftarrow> (if pgID = '''' then ret (Inr True) else tryDeleteValidationProcessGroup E pgID);
     (if gone \<noteq> Inr True then ret (requeue_after flowValidationCleanupPoll, None)
      else do {
        upd_obj (upd_st (\<lambda>st. st\<lparr>st_ValidationProcessGroupID := '''', st_ValidationPhase := '''', st_ValidationStartedAt := None\<rparr>));
        finalizeFlowValidation E }) }"

definition reconcileFlowValidation :: "fenv \<Rightarrow> string \<Rightarrow> string \<Rightarrow> string \<Rightarrow> string \<Rightarrow> outcome fhandler" where
  "reconcileFlowValidation E parentID snapshot version digest = do {
     instance \<leftarrow> get_obj;
     (if st_ProcessGroupID (fd_Status instance) \<noteq> '''' then
        (let message = ''validateOnly cannot be enabled on a deployment that already created a live process group; validate with a separate NiFiFlowDeployment.'' in
         if shouldMarkFlowDeploymentNotReady instance ''ValidateOnlyConflict'' message then do {
           u \<leftarrow> markFlowDeploymentNotReady E ''ValidateOnlyConflict'' message;
           ret (no_result, u) }
         else ret (no_result, None))
      else if st_ValidationPhase (fd_Status instance) = flowValidationPhaseValidating then reconcileFlowValidationInspect E version digest
      else if st_ValidationPhase (fd_Status instance) = flowValidationPhaseCleanup then reconcileFlowValidationCleanup E
      else startFlowValidation E parentID snapshot version digest) }"

section \<open>Properties\<close>

text \<open>
  A validation result is sound and bounded: the flow is reported valid exactly when the inspection
  found no invalid component and was conclusive (nothing was still validating when the settle timeout
  expired); the report lists at most 25 components, the first ones of the inspection, with at most
  5 errors each, the first ones of that component.
\<close>

theorem validation_result_exact:
  assumes "length (vr_Invalid report) < 2147483648"
  shows "let r = buildFlowValidationResult t report version digest settleTimedOut in
     (fv_Valid r \<longleftrightarrow> vr_Invalid report = [] \<and> \<not> (settleTimedOut \<and> vr_ValidatingCount report > 0)) \<and>
     fv_InvalidCount r = int (length (vr_Invalid report)) \<and>
     length (fv_InvalidComponents r) = min 25 (length (vr_Invalid report)) \<and>
     (\<forall>i < length (fv_InvalidComponents r). fi_ID (fv_InvalidComponents r ! i) = ic_ID (vr_Invalid report ! i) \<and>
        fi_Errors (fv_InvalidComponents r ! i) = take 5 (ic_ValidationErrors (vr_Invalid report ! i)))"
proof -
  have "is_int32 (int (length (vr_Invalid report)))" using assms by (simp add: is_int32_def)
  then show ?thesis
    by (auto simp: buildFlowValidationResult_def Let_def validation_defs reported_component_def)
qed

definition broken_report :: FlowValidationReport where
  "broken_report = \<lparr>vr_Invalid = [\<lparr>ic_Kind = ''Processor'', ic_ID = ''p1'', ic_Name = ''PutFile'', ic_Type = ''t'',
      ic_ProcessGroupID = ''g'', ic_ValidationErrors = [''a'', ''b'', ''c'', ''d'', ''e'', ''f'']\<rparr>],
     vr_ValidatingCount = 0, vr_Total = 4\<rparr>"

theorem validation_result_exact_witness:
  "let r = buildFlowValidationResult 0 broken_report ''v1'' ''sha256:aa'' False in
     \<not> fv_Valid r \<and> fv_InvalidCount r = 1 \<and> fi_ID (fv_InvalidComponents r ! 0) = ''p1'' \<and>
     fi_Errors (fv_InvalidComponents r ! 0) = [''a'', ''b'', ''c'', ''d'', ''e'']"
  using validation_result_exact [of broken_report 0 "''v1''" "''sha256:aa''" False] by (simp add: broken_report_def Let_def)

section \<open>Isolation\<close>

definition live_write :: "fcall \<Rightarrow> bool" where
  \<comment> \<open>changes the canvas outside the life cycle of a whole process group\<close>
  "live_write c \<longleftrightarrow> (case c of CCreateProcessGroup _ _ \<Rightarrow> True | CUpdateProcessGroup _ \<Rightarrow> True | CCreateReplaceRequest _ _ _ \<Rightarrow> True
     | CDeleteReplaceRequest _ \<Rightarrow> True | CCreateConnection _ _ \<Rightarrow> True | CDeleteConnection _ _ \<Rightarrow> True | CDropQueue _ \<Rightarrow> True
     | CSetRunStatus _ _ _ \<Rightarrow> True | CEnableControllerServices _ \<Rightarrow> True | CUpdate _ \<Rightarrow> True | CCreateConfigMap _ \<Rightarrow> True
     | CDeleteConfigMap _ _ \<Rightarrow> True | _ \<Rightarrow> False)"

definition touches :: "fcall \<Rightarrow> string option" where
  \<comment> \<open>the process group a call stops, starts, enables, disables or deletes\<close>
  "touches c = (case c of CDeleteProcessGroup i _ \<Rightarrow> Some i | CScheduleProcessGroup i _ \<Rightarrow> Some i
     | CSetControllerServicesState i _ \<Rightarrow> Some i | _ \<Rightarrow> None)"

definition confined :: "(string \<Rightarrow> bool) \<Rightarrow> (fcall, NiFiFlowDeployment) rstate \<Rightarrow> (fcall, NiFiFlowDeployment) rstate \<Rightarrow> bool" where
  "confined P s s' \<longleftrightarrow> (\<exists>zs. calls s' = calls s @ zs \<and> (\<forall>c \<in> set zs. \<not> live_write c \<and> (\<forall>i. touches c = Some i \<longrightarrow> P i))) \<and>
     st_ProcessGroupID (fd_Status (obj s')) = st_ProcessGroupID (fd_Status (obj s))"

lemma confined_step:
  "confined P s s' \<Longrightarrow> \<not> live_write c \<Longrightarrow> (\<And>i. touches c = Some i \<Longrightarrow> P i) \<Longrightarrow> confined P s (s'\<lparr>calls := calls s' @ [c]\<rparr>)"
  by (auto simp: confined_def)

lemma confined_obj: "confined P s s' \<Longrightarrow> st_ProcessGroupID (fd_Status d) = st_ProcessGroupID (fd_Status (obj s')) \<Longrightarrow> confined P s (s'\<lparr>obj := d\<rparr>)"
  by (auto simp: confined_def)

lemma confined_refl [simp]: "confined P s s"
  by (simp add: confined_def)

lemma live_write_simps [simp]:
  "\<not> live_write (CGetProcessGroup i)" "\<not> live_write (CDeleteProcessGroup i v)" "\<not> live_write (CImportProcessGroup p sn)"
  "\<not> live_write (CScheduleProcessGroup i st)" "\<not> live_write (CInspectValidation i)" "\<not> live_write (CSetControllerServicesState i st)"
  "\<not> live_write (CListChildProcessGroups i)" "\<not> live_write (CStatusUpdate d)"
  by (simp_all add: live_write_def)

lemma touches_simps [simp]:
  "touches (CGetProcessGroup i) = None" "touches (CDeleteProcessGroup i v) = Some i" "touches (CImportProcessGroup p sn) = None"
  "touches (CScheduleProcessGroup i st) = Some i" "touches (CInspectValidation i) = None" "touches (CSetControllerServicesState i st) = Some i"
  "touches (CListChildProcessGroups i) = None" "touches (CStatusUpdate d) = None"
  by (simp_all add: touches_def)

lemma persist_confined: "confined P s0 s \<Longrightarrow> wp (persist_after E n) (\<lambda>_. confined P s0) s"
  unfolding persist_after_def by (intro wp_intros wp_StatusUpdateI confined_step) simp_all

lemma operational_confined: "confined P s0 s \<Longrightarrow> wp (flowValidationOperationalError E reason m) (\<lambda>_. confined P s0) s"
  unfolding flowValidationOperationalError_def markFlowDeploymentNotReady_def now_def
  by (intro wp_intros wp_StatusUpdateI confined_step confined_obj) simp_all

lemma try_delete_confined: "confined P s0 s \<Longrightarrow> P i \<Longrightarrow> wp (tryDeleteValidationProcessGroup E i) (\<lambda>_. confined P s0) s"
  unfolding tryDeleteValidationProcessGroup_def nifi_call_defs
  by (intro wp_intros confined_step) simp_all

lemma try_delete_obj: "wp (tryDeleteValidationProcessGroup E i) (\<lambda>_ s'. obj s' = obj s) s"
  unfolding tryDeleteValidationProcessGroup_def nifi_call_defs by (intro wp_intros) simp_all

lemma stale_confined:
  assumes "confined P s0 s" "\<And>c. c \<in> set children \<Longrightarrow> pgc_Name (pg_Component c) = name \<Longrightarrow> P (processGroupEntityID c)"
  shows "wp (delete_stale_groups E name children) (\<lambda>_. confined P s0) s"
  using assms
proof (induction children arbitrary: s)
  case Nil
  then show ?case by (simp add: wp_simps)
next
  case (Cons c children)
  have "wp (delete_stale_groups E name children) (\<lambda>_. confined P s0) s1" if "confined P s0 s1" for s1
    using Cons.IH [OF that] Cons.prems(2) by simp
  then show ?case
    unfolding delete_stale_groups.simps
    by (intro wp_intros wp_mono [OF try_delete_confined [OF Cons.prems(1)]]) (use Cons.prems in auto)
qed

definition temporary_group :: "fenv \<Rightarrow> NiFiFlowDeployment \<Rightarrow> string \<Rightarrow> string \<Rightarrow> bool" where
  \<comment> \<open>a group that a validation run may touch: the tracked one, one imported by this run, or a leftover of its name\<close>
  "temporary_group E d parentID i \<longleftrightarrow> i = st_ValidationProcessGroupID (fd_Status d) \<or>
     (\<exists>named log e. fe_ImportProcessGroup E parentID named log = Inr (Some e) \<and> i = processGroupEntityID e) \<or>
     (\<exists>log children c. fe_ListChildProcessGroups E parentID log = Inr children \<and> c \<in> set children \<and>
        pgc_Name (pg_Component c) = flowValidationGroupName d \<and> i = processGroupEntityID c)"

lemma stale_obj: "wp (delete_stale_groups E name children) (\<lambda>_ s'. obj s' = obj s) s"
proof (induction children arbitrary: s)
  case (Cons c children)
  have "wp (delete_stale_groups E name children) (\<lambda>_ s'. obj s' = obj s) s1" if "obj s1 = obj s" for s1
    using Cons [of s1] that by simp
  then show ?case
    unfolding delete_stale_groups.simps by (intro wp_intros wp_mono [OF try_delete_obj]) auto
qed (simp add: wp_simps)

lemma leftover_temporary:
  "fe_ListChildProcessGroups E parentID log = Inr children \<Longrightarrow> c \<in> set children \<Longrightarrow>
   pgc_Name (pg_Component c) = flowValidationGroupName d \<Longrightarrow> temporary_group E d parentID (processGroupEntityID c)"
  unfolding temporary_group_def by blast

lemma cleanup_confined:
  "wp (cleanupStaleValidationGroups E parentID (flowValidationGroupName (obj s)))
     (\<lambda>_ s'. confined (temporary_group E (obj s) parentID) s s' \<and> obj s' = obj s) s"
  unfolding cleanupStaleValidationGroups_def nifi_call_defs
  by (intro wp_intros wp_conj stale_confined wp_mono [OF stale_obj] conjI confined_step)
    (auto intro: leftover_temporary)

lemma start_confined: "wp (startFlowValidation E parentID snapshot version digest) (\<lambda>_. confined (temporary_group E (obj s) parentID) s) s"
proof -
  have imported: "temporary_group E (obj s) parentID (case imported of None \<Rightarrow> [] | Some e \<Rightarrow> processGroupEntityID e)"
    if "fe_ImportProcessGroup E parentID named log = Inr imported" "(case imported of None \<Rightarrow> [] | Some e \<Rightarrow> processGroupEntityID e) \<noteq> []" for named log imported
    using that by (auto simp: temporary_group_def split: option.splits)
  show ?thesis
    unfolding startFlowValidation_def nifi_call_defs
    by (intro wp_intros operational_confined wp_mono [OF cleanup_confined] persist_confined confined_step confined_obj)
      (auto intro: imported)
qed

lemma inspect_confined: "wp (reconcileFlowValidationInspect E version digest) (\<lambda>_. confined (temporary_group E (obj s) parentID) s) s"
  unfolding reconcileFlowValidationInspect_def nifi_call_defs
  by (intro wp_intros wp_StatusUpdateI operational_confined persist_confined confined_step confined_obj)
    (auto simp: temporary_group_def)

lemma finalize_confined: "confined P s0 s \<Longrightarrow> wp (finalizeFlowValidation E) (\<lambda>_. confined P s0) s"
  unfolding finalizeFlowValidation_def now_def
  by (intro wp_intros wp_StatusUpdateI confined_step confined_obj) (auto simp: Let_def split: option.split)

lemma cleanup_step_confined: "wp (reconcileFlowValidationCleanup E) (\<lambda>_. confined (temporary_group E (obj s) parentID) s) s"
proof -
  have delete: "wp (tryDeleteValidationProcessGroup E (st_ValidationProcessGroupID (fd_Status (obj s))))
     (\<lambda>_. confined (temporary_group E (obj s) parentID) s) s"
    by (rule try_delete_confined) (simp_all add: temporary_group_def)
  show ?thesis
    unfolding reconcileFlowValidationCleanup_def
    by (intro wp_intros finalize_confined confined_obj wp_mono [OF delete]) simp_all
qed

text \<open>
  A dry run never touches the live flow: whatever the environment answers, a validate-only
  reconcile changes no connection, component or existing process group, starts, stops or deletes
  only the temporary group it tracks, the group it has just imported, or a leftover of its own
  deterministic name under the parent, and keeps \<open>Status.ProcessGroupID\<close>.
\<close>

theorem validation_is_isolated:
  "case run_state (reconcileFlowValidation E parentID snapshot version digest) (start d) of (_, s') \<Rightarrow>
     st_ProcessGroupID (fd_Status (obj s')) = st_ProcessGroupID (fd_Status d) \<and>
     (\<forall>c \<in> set (calls s'). \<not> live_write c \<and> (\<forall>i. touches c = Some i \<longrightarrow> temporary_group E d parentID i))"
proof -
  have "wp (reconcileFlowValidation E parentID snapshot version digest) (\<lambda>_. confined (temporary_group E (obj s) parentID) s) s" for s
    unfolding reconcileFlowValidation_def markFlowDeploymentNotReady_def now_def
    by (intro wp_intros wp_StatusUpdateI confined_step confined_obj start_confined inspect_confined cleanup_step_confined) simp_all
  from this [of "start d"] show ?thesis by (auto simp: wp_def confined_def)
qed

theorem validation_is_isolated_witness:
  "let s' = snd (run_state (reconcileFlowValidation sample_env ''root'' ''1 sec'' ''v1'' ''sha256:aa'') (start sample_deployment))
   in st_ProcessGroupID (fd_Status (obj s')) = ''blue'' \<and> list_all (\<lambda>c. \<not> live_write c) (calls s')"
  using validation_is_isolated [where E = sample_env and parentID = "''root''" and snapshot = "''1 sec''" and version = "''v1''" and digest = "''sha256:aa''" and d = sample_deployment]
  by (cases "run_state (reconcileFlowValidation sample_env ''root'' ''1 sec'' ''v1'' ''sha256:aa'') (start sample_deployment)")
     (simp add: list_all_iff sample_deployment_def sample_status_def)

section \<open>Completion\<close>

definition validation_store :: "fenv \<Rightarrow> string \<Rightarrow> string \<Rightarrow> string \<Rightarrow> string \<Rightarrow> NiFiFlowDeployment \<Rightarrow> NiFiFlowDeployment" where
  \<comment> \<open>the resource the API server holds after one validate-only reconcile\<close>
  "validation_store E parentID snapshot version digest d = d\<lparr>fd_Status := persisted E []
     (calls (snd (run_state (reconcileFlowValidation E parentID snapshot version digest) (start d)))) (fd_Status d)\<rparr>"

definition settling :: "fenv \<Rightarrow> bool" where
  \<comment> \<open>NiFi imports, settles and deletes; the API server acknowledges status updates\<close>
  "settling E \<longleftrightarrow> (\<forall>d log. fe_StatusUpdate E d log = None) \<and>
     (\<forall>c name. \<exists>n. flowSnapshotWithName (fe_json E) c name = Inr n) \<and>
     (\<forall>p sn log. \<exists>e. fe_ImportProcessGroup E p sn log = Inr (Some e) \<and> processGroupEntityID e \<noteq> '''') \<and>
     (\<forall>i log. \<exists>r. fe_InspectValidation E i log = Inr r \<and> vr_ValidatingCount r \<le> 0) \<and>
     (\<forall>i log. \<exists>e. fe_GetProcessGroup E i log = Inr (Some e)) \<and> (\<forall>i v log. fe_DeleteProcessGroup E i v log = None)"

lemma validation_store_last:
  assumes "wp (reconcileFlowValidation E parentID snapshot version digest) (stored_last P) (start d)" "settling E"
  shows "\<exists>d'. fd_Status (validation_store E parentID snapshot version digest d) = fd_Status d' \<and> P d'"
proof -
  obtain out s' where run: "run_state (reconcileFlowValidation E parentID snapshot version digest) (start d) = (out, s')" by fastforce
  from wp_run [OF assms(1) run] obtain xs d' where "calls s' = xs @ [CStatusUpdate d']" "P d'" by (auto simp: stored_last_def)
  with run assms(2) show ?thesis by (auto simp: validation_store_def persisted_last settling_def)
qed

lemma validation_store_simps [simp]: "fd_Generation (validation_store E p sn v dg d) = fd_Generation d"
  by (simp add: validation_store_def)

definition validating :: "string \<Rightarrow> NiFiFlowDeploymentStatus \<Rightarrow> bool" where
  "validating phase st \<longleftrightarrow> st_ProcessGroupID st = '''' \<and> st_ValidationPhase st = phase \<and> st_ValidationProcessGroupID st \<noteq> ''''"

lemma validation_starts:
  assumes E: "settling E" and d: "st_ProcessGroupID (fd_Status d) = ''''" "st_ValidationPhase (fd_Status d) = ''''" "st_ValidationResult (fd_Status d) = None"
  shows "validating flowValidationPhaseValidating (fd_Status (validation_store E parentID snapshot version digest d))"
proof -
  have imp: "fe_ImportProcessGroup E p sn log \<noteq> Inl x" "fe_ImportProcessGroup E p sn log \<noteq> Inr None"
      "processGroupEntityID e = '''' \<Longrightarrow> fe_ImportProcessGroup E p sn log \<noteq> Inr (Some e)" for p sn log x e
    using E unfolding settling_def by (metis Inl_Inr_False, metis option.distinct(1) sum.inject(2), metis option.inject sum.inject(2))
  have nm: "flowSnapshotWithName (fe_json E) c name \<noteq> Inl x" for c name x
    using E unfolding settling_def by (metis Inl_Inr_False)
  have cleanup: "wp (cleanupStaleValidationGroups E parentID n) (\<lambda>_ s'. obj s' = obj s) s" for n s
    unfolding cleanupStaleValidationGroups_def nifi_call_defs by (intro wp_intros wp_mono [OF stale_obj]) simp_all
  have "wp (reconcileFlowValidation E parentID snapshot version digest) (stored_last (\<lambda>d'. validating flowValidationPhaseValidating (fd_Status d'))) (start d)"
    unfolding reconcileFlowValidation_def startFlowValidation_def nifi_call_defs
    by (intro wp_intros wp_mono [OF cleanup] stored_lastI)
      (use d imp nm in \<open>auto simp: validating_def validation_defs split: option.splits\<close>)
  from validation_store_last [OF this E] show ?thesis by auto
qed

definition inspected :: "string \<Rightarrow> NiFiFlowDeploymentStatus \<Rightarrow> bool" where
  "inspected digest st \<longleftrightarrow> validating flowValidationPhaseCleanup st \<and>
     (\<exists>r. st_ValidationResult st = Some r \<and> fv_CheckedDigest r = digest)"

lemma validation_inspects:
  assumes E: "settling E" and d: "validating flowValidationPhaseValidating (fd_Status d)"
  shows "inspected digest (fd_Status (validation_store E parentID snapshot version digest d))"
proof -
  have ins: "fe_InspectValidation E i log \<noteq> Inl x" "fe_InspectValidation E i log = Inr r \<Longrightarrow> \<not> vr_ValidatingCount r > 0" for i log x r
    using E unfolding settling_def by (metis Inl_Inr_False, metis not_le sum.inject(2))
  have "wp (reconcileFlowValidation E parentID snapshot version digest) (stored_last (\<lambda>d'. inspected digest (fd_Status d'))) (start d)"
    unfolding reconcileFlowValidation_def reconcileFlowValidationInspect_def nifi_call_defs
    by (intro wp_intros stored_lastI)
      (use d ins in \<open>auto simp: validating_def inspected_def validation_defs buildFlowValidationResult_def Let_def split: option.splits\<close>)
  from validation_store_last [OF this E] show ?thesis by auto
qed

definition validation_complete :: "string \<Rightarrow> int \<Rightarrow> NiFiFlowDeploymentStatus \<Rightarrow> bool" where
  "validation_complete digest g st \<longleftrightarrow> st_ProcessGroupID st = '''' \<and> st_ValidationPhase st = '''' \<and> st_ValidationProcessGroupID st = '''' \<and>
     (\<exists>r. st_ValidationResult st = Some r \<and> fv_CheckedDigest r = digest \<and> (cs_Ready (st_Common st) \<longleftrightarrow> fv_Valid r)) \<and>
     cs_ObservedGeneration (st_Common st) = g"

lemma mark_flags [simp]:
  "cs_Ready (MarkReady t g r m c)" "\<not> cs_Ready (MarkNotReady t g r m c)"
  "cs_ObservedGeneration (MarkReady t g r m c) = g" "cs_ObservedGeneration (MarkNotReady t g r m c) = g"
  by (simp_all add: rdy.mark_ready nrdy.mark_ready rdy.mark_generation nrdy.mark_generation)

lemma validation_finishes:
  assumes E: "settling E" and d: "inspected digest (fd_Status d)"
  shows "validation_complete digest (fd_Generation d) (fd_Status (validation_store E parentID snapshot version digest' d))"
proof -
  have del: "fe_GetProcessGroup E i log \<noteq> Inl x" "fe_GetProcessGroup E i log \<noteq> Inr None" "fe_DeleteProcessGroup E i v log = None" for i v log x
    using E unfolding settling_def by (metis Inl_Inr_False, metis option.distinct(1) sum.inject(2), metis)
  have gone: "wp (tryDeleteValidationProcessGroup E i) (\<lambda>r s'. r = Inr True \<and> obj s' = obj s) s" for i s
    unfolding tryDeleteValidationProcessGroup_def nifi_call_defs by (intro wp_intros) (simp_all add: del)
  from d obtain r where r: "st_ValidationResult (fd_Status d) = Some r" "fv_CheckedDigest r = digest" "validating flowValidationPhaseCleanup (fd_Status d)"
    by (auto simp: inspected_def)
  have "wp (reconcileFlowValidation E parentID snapshot version digest')
      (stored_last (\<lambda>d'. validation_complete digest (fd_Generation d) (fd_Status d'))) (start d)"
    unfolding reconcileFlowValidation_def reconcileFlowValidationCleanup_def finalizeFlowValidation_def now_def
    by (intro wp_intros wp_StatusUpdateI wp_mono [OF gone])
      (use r in \<open>auto simp: validating_def validation_defs validation_complete_def stored_last_def Let_def\<close>)
  from validation_store_last [OF this E] show ?thesis by auto
qed

lemma validation_quiet:
  assumes "validation_complete digest (fd_Generation d) (fd_Status d)"
  shows "run_state (reconcileFlowValidation E parentID snapshot version digest) (start d) = ((no_result, None), start d)"
  using assms by (auto simp: reconcileFlowValidation_def startFlowValidation_def validation_complete_def validation_defs)

text \<open>
  A dry run completes and then stays quiet: when NiFi imports, settles and deletes and the API
  server acknowledges, three reconciles of a deployment that was not validated yet leave no temporary
  group tracked, a result for the artifact, and \<open>Ready\<close> exactly when the result is valid; from then
  on a reconcile of the same artifact and generation makes no call at all.
\<close>

theorem validation_completes:
  assumes "settling E1" "settling E2" "settling E3"
    and "st_ProcessGroupID (fd_Status d) = ''''" "st_ValidationPhase (fd_Status d) = ''''" "st_ValidationResult (fd_Status d) = None"
    and "step = (\<lambda>E. validation_store E parentID snapshot version digest)" and "d' = step E3 (step E2 (step E1 d))"
  shows "(\<exists>r. st_ValidationResult (fd_Status d') = Some r \<and> fv_CheckedDigest r = digest \<and>
            (cs_Ready (st_Common (fd_Status d')) \<longleftrightarrow> fv_Valid r)) \<and>
     st_ValidationProcessGroupID (fd_Status d') = '''' \<and>
     run_state (reconcileFlowValidation E parentID snapshot version digest) (start d') = ((no_result, None), start d')"
proof -
  have "validation_complete digest (fd_Generation d) (fd_Status d')"
    using validation_finishes [OF assms(3) validation_inspects [OF assms(2) validation_starts [OF assms(1,4-6)]]]
    unfolding assms(7,8) by simp
  moreover have "fd_Generation d' = fd_Generation d" by (simp add: assms(7,8))
  ultimately show ?thesis
    using validation_quiet [of digest d'] by (auto simp: validation_complete_def)
qed

definition dry_run_deployment :: NiFiFlowDeployment where
  "dry_run_deployment = sample_deployment\<lparr>fd_Status := sample_status\<lparr>st_ProcessGroupID := ''''\<rparr>\<rparr>"

theorem validation_completes_witness:
  "let step = validation_store sample_env ''root'' ''1 sec'' ''v1'' ''sha256:aa''; d' = step (step (step dry_run_deployment))
   in (\<exists>r. st_ValidationResult (fd_Status d') = Some r \<and> fv_CheckedDigest r = ''sha256:aa'' \<and> (cs_Ready (st_Common (fd_Status d')) \<longleftrightarrow> fv_Valid r)) \<and>
      st_ValidationProcessGroupID (fd_Status d') = '''' \<and>
      run_state (reconcileFlowValidation sample_env ''root'' ''1 sec'' ''v1'' ''sha256:aa'') (start d') = ((no_result, None), start d')"
proof -
  have "settling sample_env"
    by (simp add: settling_def sample_env_def flowSnapshotWithName_def unmarshal_object_def sample_codec_def sample_flow_def field_def
        processGroupEntityID_def sample_pg_def)
  moreover have "st_ProcessGroupID (fd_Status dry_run_deployment) = ''''" "st_ValidationPhase (fd_Status dry_run_deployment) = ''''"
    "st_ValidationResult (fd_Status dry_run_deployment) = None"
    by (simp_all add: dry_run_deployment_def sample_status_def)
  ultimately show ?thesis
    using validation_completes [of sample_env sample_env sample_env dry_run_deployment] by (simp add: Let_def)
qed

end
