(* ===== verification/Flow_Snapshot.thy ===== *)
theory Flow_Snapshot
  imports Flow_Validate
begin

text \<open>
  The snapshot deployment loop (\<open>internal/controller/flow_snapshot_controller.go\<close>): import, drift
  check, in-place replacement through a NiFi replace request, automatic rollback, cancellation
  (\<open>reconcileRolloutCancellation\<close> of \<open>flow_deployment_readiness.go\<close>) and the dispatch to the
  BlueGreen machine. The code holds the replace request both in \<open>Status.LatestReplaceRequest\<close> and in
  a local pointer to it; a write through the pointer is a write to the status here.
\<close>

section \<open>Replace requests\<close>

definition flowReplaceRequestStatus ::
  "ProcessGroupReplaceRequest option \<Rightarrow> string \<Rightarrow> string \<Rightarrow> string \<Rightarrow> string \<Rightarrow> FlowReplaceRequestStatus" where
  "flowReplaceRequestStatus entity targetDigest targetVersion operation snapshotConfigMap =
    (case entity of
       None \<Rightarrow> \<lparr>fr_ID = '''', fr_State = '''', fr_Complete = False, fr_FailureReason = '''', fr_PercentCompleted = 0,
               fr_TargetDigest = targetDigest, fr_TargetVersion = targetVersion, fr_Operation = operation,
               fr_SnapshotConfigMap = snapshotConfigMap\<rparr>
     | Some r \<Rightarrow> \<lparr>fr_ID = rr_RequestID r, fr_State = rr_State r, fr_Complete = rr_Complete r,
               fr_FailureReason = rr_FailureReason r, fr_PercentCompleted = rr_PercentCompleted r,
               fr_TargetDigest = targetDigest, fr_TargetVersion = targetVersion, fr_Operation = operation,
               fr_SnapshotConfigMap = snapshotConfigMap\<rparr>)"

lemma flowReplaceRequestStatus_simps [simp]:
  "fr_Operation (flowReplaceRequestStatus e d v op cm) = op" "fr_TargetDigest (flowReplaceRequestStatus e d v op cm) = d"
  "fr_TargetVersion (flowReplaceRequestStatus e d v op cm) = v" "fr_SnapshotConfigMap (flowReplaceRequestStatus e d v op cm) = cm"
  by (simp_all add: flowReplaceRequestStatus_def split: option.split)

abbreviation set_latest :: "FlowReplaceRequestStatus option \<Rightarrow> unit fhandler" where
  "set_latest r \<equiv> upd_obj (upd_st (\<lambda>st. st\<lparr>st_LatestReplaceRequest := r\<rparr>))"

abbreviation clear_rollout :: "unit fhandler" where
  "clear_rollout \<equiv> upd_obj (upd_st (\<lambda>st. st\<lparr>st_ActiveRollout := None\<rparr>))"

definition cleanup_request :: "fenv \<Rightarrow> FlowReplaceRequestStatus \<Rightarrow> FlowReplaceRequestStatus fhandler" where
  \<comment> \<open>delete the request at NiFi; on success clear the id, through the pointer shared with the status\<close>
  "cleanup_request E request = do {
     e \<leftarrow> DeleteProcessGroupReplaceRequest E (fr_ID request);
     (case e of
        None \<Rightarrow> do { set_latest (Some (request\<lparr>fr_ID := ''''\<rparr>)); ret (request\<lparr>fr_ID := ''''\<rparr>) }
      | Some _ \<Rightarrow> ret request) }"

definition continue_running :: "fenv \<Rightarrow> FlowReplaceRequestStatus \<Rightarrow> int \<Rightarrow> outcome fhandler" where
  "continue_running E status secs = do {
     e \<leftarrow> markFlowDeploymentReplaceRunning E status;
     ret (case e of Some err \<Rightarrow> (no_result, Some err) | None \<Rightarrow> (requeue_after secs, None)) }"

definition begin_rollback :: "FlowReplaceRequestStatus \<Rightarrow> FlowDeploymentHistory \<Rightarrow> string \<Rightarrow> unit fhandler" where
  "begin_rollback failed history message = upd_obj (\<lambda>d. upd_st (\<lambda>st. st\<lparr>st_LastRollback := Some
     \<lparr>lb_FailedGeneration = fd_Generation d, lb_FailedVersion = fr_TargetVersion failed, lb_FailedDigest = fr_TargetDigest failed,
      lb_RestoredVersion = fh_Version history, lb_RestoredDigest = fh_Digest history, lb_CompletedAt = None, lb_Message = message\<rparr>\<rparr>) d)"

function handleFlowReplaceFailure :: "fenv \<Rightarrow> FlowReplaceRequestStatus \<Rightarrow> go_error \<Rightarrow> outcome fhandler" where
  "handleFlowReplaceFailure E failed0 failure = do {
     failed \<leftarrow> (if fr_ID failed0 \<noteq> '''' then cleanup_request E failed0 else ret failed0);
     recordFailedFlowDeployment E (fr_TargetVersion failed0) (fr_TargetDigest failed0) (fr_SnapshotConfigMap failed0) (err_text failure);
     trimFlowDeploymentHistory E;
     (if fr_Operation failed0 = ''Rollback'' then do {
        set_latest (Some failed);
        clear_rollout;
        snapshotDeploymentFailed E ''RollbackFailed'' (wrapf ''automatic rollback failed: '' failure) }
      else do {
        retried \<leftarrow> retryRolloutIfAllowed E (err_text failure);
        deployment \<leftarrow> get_obj;
        (case retried of
           Some out \<Rightarrow> ret out
         | None \<Rightarrow>
           (if \<not> rb_Enabled (fsp_Rollback (fd_Spec deployment)) then do {
              set_latest (Some failed);
              clear_rollout;
              snapshotDeploymentFailed E ''FlowReplaceFailed'' failure }
            else do {
              h \<leftarrow> rollbackSnapshot E;
              (case h of
                 Inl err \<Rightarrow> do {
                   set_latest (Some failed);
                   clear_rollout;
                   snapshotDeploymentFailed E ''RollbackUnavailable'' (wrapf (err_text failure @ ''; '') err) }
               | Inr (snapshot, history) \<Rightarrow> do {
                   g \<leftarrow> GetProcessGroup E (st_ProcessGroupID (fd_Status deployment));
                   (case g of
                      Inl err \<Rightarrow> snapshotDeploymentFailed E ''RollbackPreparationFailed'' (wrapf ''refresh process group for rollback: '' err)
                    | Inr None \<Rightarrow> snapshotDeploymentFailed E ''RollbackPreparationFailed'' (errorf ''NiFi returned no process group for rollback'')
                    | Inr (Some existing) \<Rightarrow> do {
                        c \<leftarrow> CreateProcessGroupReplaceRequest E (st_ProcessGroupID (fd_Status deployment))
                               (re_Version (pg_Revision existing)) snapshot;
                        (case c of
                           Inl err \<Rightarrow> snapshotDeploymentFailed E ''RollbackCreateFailed'' (wrapf ''create automatic rollback request: '' err)
                         | Inr request \<Rightarrow>
                            (let status = flowReplaceRequestStatus request (fh_Digest history) (fh_Version history) ''Rollback''
                                            (fh_SnapshotConfigMap history) in
                             if fr_ID status = ''''
                             then snapshotDeploymentFailed E ''RollbackCreateFailed'' (errorf ''NiFi did not return an automatic rollback request ID'')
                             else do {
                               begin_rollback failed0 history (err_text failure);
                               _ \<leftarrow> ensureActiveFlowRollout E (fh_Version history) (fh_Digest history) ''Rollback'';
                               upd_obj (\<lambda>d. upd_st (upd_active (\<lambda>a. a\<lparr>ro_Phase := ''RollingBack'', ro_Strategy := resolvedRolloutStrategy d\<rparr>)) d);
                               set_latest (Some status);
                               (if fr_FailureReason status \<noteq> '''' then handleFlowReplaceFailure E status (errorf (fr_FailureReason status))
                                else continue_running E status 1) })) }) }) })) }) }"
  by pat_completeness auto

termination
  by (relation "measure (\<lambda>(E, failed, failure). if fr_Operation failed = ''Rollback'' then 0 else 1)") (simp_all split: if_splits)

declare handleFlowReplaceFailure.simps [simp del]

definition reconcilePendingFlowReplace :: "fenv \<Rightarrow> FlowReplaceRequestStatus \<Rightarrow> outcome fhandler" where
  "reconcilePendingFlowReplace E pending = do {
     r \<leftarrow> GetProcessGroupReplaceRequest E (fr_ID pending);
     (case r of
        Inl err \<Rightarrow> snapshotDeploymentFailed E ''FlowReplaceGetFailed'' (wrapf ''failed to get NiFi flow replace request: '' err)
      | Inr request \<Rightarrow> do {
          let answered = flowReplaceRequestStatus request (fr_TargetDigest pending) (fr_TargetVersion pending)
                (fr_Operation pending) (fr_SnapshotConfigMap pending);
          let status = (if fr_ID answered = '''' then answered\<lparr>fr_ID := fr_ID pending\<rparr> else answered);
          set_latest (Some status);
          (if fr_FailureReason status \<noteq> '''' then do {
             failed \<leftarrow> cleanup_request E status;
             handleFlowReplaceFailure E failed (errorf (fr_FailureReason status)) }
           else if \<not> fr_Complete status then continue_running E status 5
           else continue_running E status 1) }) }"

definition completeFlowReplace :: "fenv \<Rightarrow> FlowReplaceRequestStatus \<Rightarrow> string \<Rightarrow> outcome fhandler" where
  "completeFlowReplace E status desiredSnapshot = do {
     deployment \<leftarrow> get_obj;
     let finish = (\<lambda>current targetSnapshot.
       if fr_Operation status = ''Rollback'' then do {
         h \<leftarrow> rollbackSnapshot E;
         (case h of
            Inl err \<Rightarrow> snapshotDeploymentFailed E ''RollbackSnapshotMissing'' err
          | Inr (snapshot, history) \<Rightarrow> do {
              u \<leftarrow> markSnapshotDeploymentRolledBack E (re_Version (pg_Revision current)) history snapshot;
              ret (no_result, u) }) }
       else if readinessGateEnabled deployment then enterRolloutReadiness E (fr_TargetVersion status) (fr_TargetDigest status)
       else do {
         f \<leftarrow> finalizeSuccessfulRollout E (st_ProcessGroupID (fd_Status deployment)) (fr_TargetVersion status)
                (fr_TargetDigest status) targetSnapshot;
         ret (case f of (result, Some err) \<Rightarrow> (result, Some err) | (_, None) \<Rightarrow> (rolloutRequeue, None)) });
     g \<leftarrow> GetProcessGroup E (st_ProcessGroupID (fd_Status deployment));
     (case g of
        Inl err \<Rightarrow> snapshotDeploymentFailed E ''NiFiRefreshFailed'' (wrapf ''failed to refresh replaced process group: '' err)
      | Inr None \<Rightarrow> snapshotDeploymentFailed E ''NiFiRefreshFailed'' (errorf ''NiFi returned an empty replaced process group response'')
      | Inr (Some existing) \<Rightarrow> do {
          m \<leftarrow> reconcileSnapshotDeploymentMetadata E existing;
          (case m of
             Inl err \<Rightarrow> snapshotDeploymentFailed E ''SnapshotMetadataFailed'' err
           | Inr current \<Rightarrow> do {
               d \<leftarrow> DeleteProcessGroupReplaceRequest E (fr_ID status);
               (case d of
                  Some err \<Rightarrow> snapshotDeploymentFailed E ''FlowReplaceCleanupFailed''
                                (wrapf ''failed to clean up NiFi flow replace request: '' err)
                | None \<Rightarrow> do {
                    set_latest (Some (status\<lparr>fr_Complete := True, fr_ID := ''''\<rparr>));
                    f \<leftarrow> finalizeFlowRolloutState E;
                    (case f of
                       Some err \<Rightarrow> snapshotDeploymentFailed E ''RolloutFinalizeFailed'' err
                     | None \<Rightarrow>
                        (if fr_SnapshotConfigMap status \<noteq> '''' then do {
                           cp \<leftarrow> flowDeploymentSnapshotFromConfigMap E (fd_Namespace deployment) (fr_SnapshotConfigMap status);
                           (case cp of
                              Inl checkpointErr \<Rightarrow> snapshotDeploymentFailed E ''RolloutCheckpointMissing'' checkpointErr
                            | Inr checkpoint \<Rightarrow> finish current checkpoint) }
                         else finish current desiredSnapshot)) }) }) }) }"

section \<open>Cancellation\<close>

definition reconcileRolloutCancellation :: "fenv \<Rightarrow> outcome fhandler" where
  "reconcileRolloutCancellation E = do {
     deployment \<leftarrow> get_obj;
     (if blueGreenRolloutInProgress deployment then blueGreenStartRollback E ''rollout cancelled''
      else do {
        (case st_LatestReplaceRequest (fd_Status deployment) of
           Some pending \<Rightarrow> (if fr_ID pending \<noteq> ''''
             then do { _ \<leftarrow> DeleteProcessGroupReplaceRequest E (fr_ID pending); ret () } else ret ())
         | None \<Rightarrow> ret ());
        upd_obj (upd_st (\<lambda>st. st\<lparr>st_LatestReplaceRequest := None, st_ActiveRollout := None, st_SyncState := ''RolloutCancelled''\<rparr>));
        snapshotDeploymentFailed E ''RolloutCancelled'' (errorf ''rollout cancelled by spec.rollout.cancel'') }) }"

section \<open>The snapshot reconcile\<close>

definition importFlowDeployment :: "fenv \<Rightarrow> string \<Rightarrow> string \<Rightarrow> string \<Rightarrow> string \<Rightarrow> outcome fhandler" where
  "importFlowDeployment E parentID snapshot version digest = do {
     _ \<leftarrow> ensureActiveFlowRollout E version digest ''Rollout'';
     r \<leftarrow> ImportProcessGroup E parentID snapshot;
     (case r of
        Inl err \<Rightarrow> snapshotDeploymentFailed E ''SnapshotImportFailed'' (wrapf ''failed to import NiFi flow snapshot: '' err)
      | Inr None \<Rightarrow> snapshotDeploymentFailed E ''SnapshotImportFailed'' (errorf ''NiFi returned an empty process group import response'')
      | Inr (Some imported) \<Rightarrow>
         (if processGroupEntityID imported = '''' then
            snapshotDeploymentFailed E ''SnapshotImportFailed'' (errorf ''NiFi did not return an imported process group ID'')
          else do {
            e \<leftarrow> markFlowDeploymentSnapshotImported E (processGroupEntityID imported) (re_Version (pg_Revision imported)) version digest;
            ret (case e of Some err \<Rightarrow> (no_result, Some err) | None \<Rightarrow> (requeue_after 1, None)) })) }"

definition completeInSync :: "fenv \<Rightarrow> ProcessGroupEntity \<Rightarrow> string \<Rightarrow> string \<Rightarrow> string \<Rightarrow> string \<Rightarrow> string \<Rightarrow> outcome fhandler" where
  \<comment> \<open>the branch \<open>!forceReplace\<close>: the recorded target is deployed and nothing has to be replaced\<close>
  "completeInSync E existing snapshot version digest desiredContentDigest liveContentDigest = do {
     m \<leftarrow> reconcileSnapshotDeploymentMetadata E existing;
     (case m of
        Inl metadataErr \<Rightarrow> snapshotDeploymentFailed E ''SnapshotMetadataFailed'' metadataErr
      | Inr current \<Rightarrow> do {
          deployment \<leftarrow> get_obj;
          let st = fd_Status deployment;
          let needsCompletion = ((case st_LastSuccessful st of None \<Rightarrow> True | Some h \<Rightarrow> fh_Digest h \<noteq> digest) \<or> st_ActiveRollout st \<noteq> None);
          let statusChanged = (\<not> flowDeploymentStatusMatches deployment (st_ProcessGroupID st) (re_Version (pg_Revision current)) version digest ''InSync'' \<or>
                st_DesiredContentDigest st \<noteq> desiredContentDigest \<or> st_LiveContentDigest st \<noteq> liveContentDigest \<or>
                dr_Status (cs_Drift (st_Common st)) \<noteq> ''InSync'');
          f \<leftarrow> (if needsCompletion then finalizeFlowRolloutState E else ret None);
          (case f of
             Some err \<Rightarrow> snapshotDeploymentFailed E ''RolloutFinalizeFailed'' err
           | None \<Rightarrow>
              (if needsCompletion \<or> statusChanged then do {
                 u \<leftarrow> markSnapshotDeploymentInSync E (st_ProcessGroupID st) (re_Version (pg_Revision current)) version digest
                        desiredContentDigest liveContentDigest snapshot;
                 ret (case u of Some err \<Rightarrow> (no_result, Some err) | None \<Rightarrow> (rolloutRequeue, None)) }
               else ret (rolloutRequeue, None))) }) }"

definition startFlowReplace :: "fenv \<Rightarrow> ProcessGroupEntity \<Rightarrow> string \<Rightarrow> string \<Rightarrow> string \<Rightarrow> outcome fhandler" where
  \<comment> \<open>an in-place replacement: prepare, checkpoint, create the replace request\<close>
  "startFlowReplace E existing snapshot version digest = do {
     p \<leftarrow> prepareFlowRollout E version digest;
     (case p of
        Inl err \<Rightarrow> snapshotDeploymentFailed E ''RolloutPreparationFailed'' err
      | Inr prepared \<Rightarrow>
         (if \<not> prepared then ret (requeue_after 1, None)
          else do {
            c \<leftarrow> persistFlowDeploymentSnapshot E snapshot digest;
            (case c of
               Inl err \<Rightarrow> snapshotDeploymentFailed E ''RolloutCheckpointFailed'' err
             | Inr snapshotConfigMap \<Rightarrow> do {
                 set_phase ''Replacing'';
                 deployment \<leftarrow> get_obj;
                 r \<leftarrow> CreateProcessGroupReplaceRequest E (st_ProcessGroupID (fd_Status deployment)) (re_Version (pg_Revision existing)) snapshot;
                 (case r of
                    Inl err \<Rightarrow> snapshotDeploymentFailed E ''FlowReplaceCreateFailed'' (wrapf ''failed to create NiFi flow replace request: '' err)
                  | Inr request \<Rightarrow>
                     (let status = flowReplaceRequestStatus request digest version ''Rollout'' snapshotConfigMap in
                      if fr_ID status = '''' then
                        snapshotDeploymentFailed E ''FlowReplaceCreateFailed'' (errorf ''NiFi did not return a flow replace request ID'')
                      else do {
                        set_latest (Some status);
                        (if fr_FailureReason status \<noteq> '''' then do {
                           failed \<leftarrow> cleanup_request E status;
                           handleFlowReplaceFailure E failed (errorf (fr_FailureReason status)) }
                         else if fr_Complete status then continue_running E status 1
                         else continue_running E status 5) })) }) })) }"

definition checkFlowDrift :: "fenv \<Rightarrow> ProcessGroupEntity \<Rightarrow> string \<Rightarrow> string \<Rightarrow> string \<Rightarrow> outcome option fhandler" where
  \<comment> \<open>the recorded target is deployed: compare with the live flow; \<open>None\<close> is \<open>forceReplace\<close>\<close>
  "checkFlowDrift E existing snapshot version digest = do {
     deployment \<leftarrow> get_obj;
     let mode = resolvedDriftPolicy deployment;
     (if mode = ''Ignore'' then
        (case normalizeFlowSnapshot (fe_json E) snapshot (ignore_fields deployment) of
           Inl err \<Rightarrow> do { out \<leftarrow> snapshotDeploymentFailed E ''DriftCheckFailed'' err; ret (Some out) }
         | Inr (_, desiredContentDigest) \<Rightarrow> do {
             out \<leftarrow> completeInSync E existing snapshot version digest desiredContentDigest desiredContentDigest; ret (Some out) })
      else do {
        l \<leftarrow> DownloadProcessGroup E (st_ProcessGroupID (fd_Status deployment));
        (case l of
           Inl downloadErr \<Rightarrow> do {
             out \<leftarrow> snapshotDeploymentFailed E ''DriftCheckFailed'' (wrapf ''download live NiFi flow: '' downloadErr); ret (Some out) }
         | Inr liveSnapshot \<Rightarrow>
            (case compareFlowSnapshots (fe_json E) snapshot liveSnapshot (ignore_fields deployment) of
               Inl err \<Rightarrow> do { out \<leftarrow> snapshotDeploymentFailed E ''DriftCheckFailed'' err; ret (Some out) }
             | Inr (desiredContentDigest, liveContentDigest, differences) \<Rightarrow>
                (if differences \<noteq> [] \<and> mode = ''Reconcile'' then ret None
                 else if differences \<noteq> [] \<and> (mode = ''Warn'' \<or> mode = ''Fail'') then do {
                   u \<leftarrow> markSnapshotDeploymentDrift E desiredContentDigest liveContentDigest differences mode;
                   ret (Some (case u of Some err \<Rightarrow> (no_result, Some err) | None \<Rightarrow> (rolloutRequeue, None))) }
                 else do {
                   out \<leftarrow> completeInSync E existing snapshot version digest desiredContentDigest liveContentDigest; ret (Some out) }))) }) }"

definition deployFlowSnapshot :: "fenv \<Rightarrow> string \<Rightarrow> string \<Rightarrow> string \<Rightarrow> string \<Rightarrow> outcome fhandler" where
  \<comment> \<open>no request is pending and a process group is recorded\<close>
  "deployFlowSnapshot E parentID snapshot version digest = do {
     deployment \<leftarrow> get_obj;
     g \<leftarrow> GetProcessGroup E (st_ProcessGroupID (fd_Status deployment));
     (case g of
        Inl err \<Rightarrow> snapshotDeploymentFailed E ''NiFiGetFailed'' (wrapf ''failed to get imported process group: '' err)
      | Inr None \<Rightarrow> snapshotDeploymentFailed E ''NiFiGetFailed'' (errorf ''NiFi returned an empty imported process group response'')
      | Inr (Some existing) \<Rightarrow>
         (if rollbackBlocksTarget deployment digest then ret (rolloutRequeue, None)
          else do {
            d \<leftarrow> (if st_ArtifactDigest (fd_Status deployment) = digest \<and> st_DeployedVersion (fd_Status deployment) = version
                 then checkFlowDrift E existing snapshot version digest else ret None);
            (case d of
               Some out \<Rightarrow> ret out
             | None \<Rightarrow>
                (if resolvedRolloutStrategy deployment = ''BlueGreen''
                 then reconcileBlueGreenRollout E parentID snapshot version digest
                 else startFlowReplace E existing snapshot version digest)) })) }"

definition awaiting_readiness :: "NiFiFlowDeployment \<Rightarrow> bool" where
  "awaiting_readiness deployment = (case st_ActiveRollout (fd_Status deployment) of
      Some active \<Rightarrow> ro_Operation active = ''Rollout'' \<and> ro_Phase active = bgPhaseAwaitingReadiness
    | None \<Rightarrow> False)"

definition pending_request :: "NiFiFlowDeployment \<Rightarrow> FlowReplaceRequestStatus option" where
  "pending_request deployment = (case st_LatestReplaceRequest (fd_Status deployment) of
      Some pending \<Rightarrow> (if fr_ID pending \<noteq> '''' then Some pending else None)
    | None \<Rightarrow> None)"

definition reconcileSnapshotFlowDeployment :: "fenv \<Rightarrow> string \<Rightarrow> string \<Rightarrow> string \<Rightarrow> string \<Rightarrow> outcome fhandler" where
  "reconcileSnapshotFlowDeployment E parentID snapshot version digest = do {
     deployment \<leftarrow> get_obj;
     (if st_RetiringProcessGroupID (fd_Status deployment) \<noteq> '''' then do {
        e \<leftarrow> retireBlueProcessGroup E;
        ret (case e of Some err \<Rightarrow> (no_result, Some err) | None \<Rightarrow> (requeue_after 1, None)) }
      else if rs_Cancel (fsp_Rollout (fd_Spec deployment)) \<and> st_ActiveRollout (fd_Status deployment) \<noteq> None then
        reconcileRolloutCancellation E
      else if awaiting_readiness deployment then reconcileRolloutReadiness E version digest snapshot
      else (case pending_request deployment of
         Some pending \<Rightarrow>
           (if fr_FailureReason pending \<noteq> '''' then handleFlowReplaceFailure E pending (errorf (fr_FailureReason pending))
            else if fr_Complete pending then completeFlowReplace E pending snapshot
            else reconcilePendingFlowReplace E pending)
       | None \<Rightarrow>
           (if st_ProcessGroupID (fd_Status deployment) = '''' then importFlowDeployment E parentID snapshot version digest
            else deployFlowSnapshot E parentID snapshot version digest))) }"

section \<open>Which calls a run may make\<close>

definition keeps_flow :: "fcall \<Rightarrow> bool" where
  \<comment> \<open>the calls that leave the deployed flow, its connections and their queues alone\<close>
  "keeps_flow c = (case c of
      CCreateReplaceRequest _ _ _ \<Rightarrow> False | CImportProcessGroup _ _ \<Rightarrow> False | CCreateProcessGroup _ _ \<Rightarrow> False
    | CDeleteProcessGroup _ _ \<Rightarrow> False | CCreateConnection _ _ \<Rightarrow> False | CDeleteConnection _ _ \<Rightarrow> False
    | CDropQueue _ \<Rightarrow> False | CSetRunStatus _ _ _ \<Rightarrow> False | CScheduleProcessGroup _ st \<Rightarrow> st = RunStateRunning
    | CSetControllerServicesState _ _ \<Rightarrow> False | CEnableControllerServices _ \<Rightarrow> False | _ \<Rightarrow> True)"

lemma keeps_flow_simps [simp]:
  "keeps_flow (CGetProcessGroup i)" "keeps_flow (CUpdateProcessGroup e)" "keeps_flow (CStatusUpdate d)"
  "keeps_flow (CDownloadProcessGroup i)" "keeps_flow (CGetParameterContext ns n)" "keeps_flow (CCreateConfigMap cm)"
  "keeps_flow (CGetConfigMap ns n)" "keeps_flow (CDeleteConfigMap ns n)" "keeps_flow (CScheduleProcessGroup i RunStateRunning)"
  by (simp_all add: keeps_flow_def)

lemma failed_only: "only P s0 s \<Longrightarrow> (\<And>d. P (CStatusUpdate d)) \<Longrightarrow> wp (snapshotDeploymentFailed E reason e) (\<lambda>_. only P s0) s"
  unfolding snapshotDeploymentFailed_def markFlowDeploymentNotReady_def nifi_call_defs
  by (intro wp_intros wp_StatusUpdateI) simp_all

lemma metadata_only:
  "only keeps_flow s0 s \<Longrightarrow> wp (reconcileSnapshotDeploymentMetadata E existing) (\<lambda>_. only keeps_flow s0) s"
  unfolding reconcileSnapshotDeploymentMetadata_def nifi_call_defs Let_def
  by (intro wp_intros) simp_all

lemma record_only:
  "only keeps_flow s0 s \<Longrightarrow> wp (recordSuccessfulFlowDeployment E snapshot version digest r) (\<lambda>_. only keeps_flow s0) s"
  unfolding recordSuccessfulFlowDeployment_def persistFlowDeploymentSnapshot_def nifi_call_defs Let_def
  by (intro wp_intros) simp_all

lemma in_sync_only:
  "only keeps_flow s0 s \<Longrightarrow> wp (markSnapshotDeploymentInSync E i rv version digest dd ld snapshot) (\<lambda>_. only keeps_flow s0) s"
  unfolding markSnapshotDeploymentInSync_def nifi_call_defs Let_def
  by (intro wp_intros wp_StatusUpdateI wp_trimI wp_mono [OF record_only]) (auto simp: list_all_iff)

lemma complete_in_sync_only:
  "only keeps_flow s0 s \<Longrightarrow> wp (completeInSync E existing snapshot version digest dd ld) (\<lambda>_. only keeps_flow s0) s"
  unfolding completeInSync_def finalizeFlowRolloutState_def nifi_call_defs Let_def
  by (intro wp_intros wp_mono [OF metadata_only] failed_only wp_mono [OF in_sync_only]) simp_all

lemma drift_mark_only:
  "only keeps_flow s0 s \<Longrightarrow> wp (markSnapshotDeploymentDrift E dd ld ds mode) (\<lambda>_. only keeps_flow s0) s"
  unfolding markSnapshotDeploymentDrift_def nifi_call_defs
  by (intro wp_intros wp_StatusUpdateI) simp_all

lemma check_drift_only:
  assumes "only keeps_flow s0 s"
  shows "wp (checkFlowDrift E existing snapshot version digest)
    (\<lambda>r s'. only keeps_flow s0 s' \<and> (r = None \<longrightarrow> resolvedDriftPolicy (obj s) = ''Reconcile'')) s"
  unfolding checkFlowDrift_def nifi_call_defs Let_def
  by (intro wp_intros wp_mono [OF drift_mark_only] wp_mono [OF failed_only] wp_mono [OF complete_in_sync_only])
     (simp_all add: assms)

definition settled :: "NiFiFlowDeployment \<Rightarrow> bool" where
  \<comment> \<open>a deployed flow with no rollout, replace request or retirement under way\<close>
  "settled d \<longleftrightarrow> st_ProcessGroupID (fd_Status d) \<noteq> '''' \<and> st_RetiringProcessGroupID (fd_Status d) = '''' \<and>
     st_ActiveRollout (fd_Status d) = None \<and> pending_request d = None"

lemma settled_reconcile:
  "settled (obj s) \<Longrightarrow> wp (reconcileSnapshotFlowDeployment E parentID snapshot version digest) Q s =
     wp (deployFlowSnapshot E parentID snapshot version digest) Q s"
  by (simp add: reconcileSnapshotFlowDeployment_def settled_def awaiting_readiness_def wp_simps)

lemma deploy_recorded_only:
  assumes "settled (obj s)" "st_ArtifactDigest (fd_Status (obj s)) = digest" "st_DeployedVersion (fd_Status (obj s)) = version"
    and "resolvedDriftPolicy (obj s) \<noteq> ''Reconcile''"
  shows "wp (reconcileSnapshotFlowDeployment E parentID snapshot version digest) (\<lambda>_. only keeps_flow s) s"
  unfolding settled_reconcile [OF assms(1)] deployFlowSnapshot_def nifi_call_defs
  by (intro wp_intros failed_only wp_mono [OF check_drift_only]) (use assms in \<open>simp_all\<close>)


lemma rolled_back_simps [simp]:
  "st_ActiveRollout (rolled_back_status t g rv h f st) = None"
  "st_LatestReplaceRequest (rolled_back_status t g rv h f st) = None"
  "st_ProcessGroupID (rolled_back_status t g rv h f st) = st_ProcessGroupID st"
  "st_RetiringProcessGroupID (rolled_back_status t g rv h f st) = st_RetiringProcessGroupID st"
  "st_LastRollback (rolled_back_status t g rv h f st) = Some \<lparr>lb_FailedGeneration = fst f, lb_FailedVersion = fst (snd f),
      lb_FailedDigest = snd (snd f), lb_RestoredVersion = fh_Version h, lb_RestoredDigest = fh_Digest h,
      lb_CompletedAt = Some t, lb_Message = ''The previous successful flow snapshot was restored.''\<rparr>"
  by (simp_all add: rolled_back_status_def Let_def)

lemma blocked_only:
  assumes "settled (obj s)" "rollbackBlocksTarget (obj s) digest"
  shows "wp (reconcileSnapshotFlowDeployment E parentID snapshot version digest)
    (\<lambda>_. only (\<lambda>c. c = CGetProcessGroup (st_ProcessGroupID (fd_Status (obj s))) \<or> (\<exists>d. c = CStatusUpdate d)) s) s"
  unfolding settled_reconcile [OF assms(1)] deployFlowSnapshot_def nifi_call_defs
  by (intro wp_intros failed_only) (use assms in \<open>simp_all\<close>)

text \<open>
  Once an automatic rollback has completed, the failed target stays blocked: as long as the
  generation and the requested digest are the failed ones, a reconcile reads the process group and
  possibly reports, and makes no other call.
\<close>

theorem rolled_back_target_is_blocked:
  assumes "st_LastRollback (fd_Status d) = Some rb" "lb_FailedGeneration rb = fd_Generation d"
    and "st_ProcessGroupID (fd_Status d) \<noteq> ''''" "st_RetiringProcessGroupID (fd_Status d) = ''''"
    and "obj s = upd_st (rolled_back_status t (fd_Generation d) rv history (failed_target d)) d"
    and "run_state (reconcileSnapshotFlowDeployment E parentID snapshot version (lb_FailedDigest rb)) s = (out, s')"
  shows "\<forall>c \<in> set (new_calls s s'). c = CGetProcessGroup (st_ProcessGroupID (fd_Status d)) \<or> (\<exists>d'. c = CStatusUpdate d')"
proof -
  have "settled (obj s)" using assms(3,4,5) by (simp add: settled_def pending_request_def)
  moreover have "rollbackBlocksTarget (obj s) (lb_FailedDigest rb)"
    using assms(1,2,5) by (simp add: rollbackBlocksTarget_def failed_target_def)
  ultimately show ?thesis
    using wp_run [OF blocked_only assms(6)] assms(5) by (simp add: only_set)
qed

section \<open>Cancellation of a BlueGreen rollout\<close>

fun snapshot_runs :: "(fenv \<times> string \<times> string \<times> string \<times> string) list \<Rightarrow> (fcall, NiFiFlowDeployment) rstate \<Rightarrow> (fcall, NiFiFlowDeployment) rstate" where
  \<comment> \<open>consecutive reconciles, each with its own environment and target\<close>
  "snapshot_runs [] s = s"
| "snapshot_runs ((E, parentID, snapshot, version, digest) # rs) s =
     snapshot_runs rs (snd (run_state (reconcileSnapshotFlowDeployment E parentID snapshot version digest) s))"

definition cancelling :: "NiFiFlowDeployment \<Rightarrow> bool" where
  "cancelling d \<longleftrightarrow> rs_Cancel (fsp_Rollout (fd_Spec d)) \<and> st_RetiringProcessGroupID (fd_Status d) = '''' \<and> blueGreenRolloutInProgress d"

lemma cancel_step:
  assumes "cancelling (obj s)"
  shows "wp (reconcileSnapshotFlowDeployment E parentID snapshot version digest)
    (\<lambda>_ s'. cancelling (obj s') \<and> (\<exists>d. calls s' = calls s @ [CStatusUpdate d])) s"
  using assms
  by (auto simp: cancelling_def reconcileSnapshotFlowDeployment_def reconcileRolloutCancellation_def blueGreenStartRollback_def
      blueGreenRolloutInProgress_def mark_not_ready_def persist_after_def wp_simps split: option.splits)

text \<open>
  While \<open>spec.rollout.cancel\<close> stays set, no number of reconciles switches the traffic of a
  BlueGreen rollout back: each of them only records the phase \<open>RollingBackTraffic\<close> again (one status
  update, no call to NiFi) and the rollout is still in progress afterwards.
\<close>

theorem cancelled_bluegreen_never_switches_back:
  assumes "cancelling (obj s)"
  shows "(\<exists>ds. length ds = length rs \<and> calls (snapshot_runs rs s) = calls s @ map CStatusUpdate ds) \<and>
    cancelling (obj (snapshot_runs rs s))"
  using assms
proof (induction rs s rule: snapshot_runs.induct)
  case (2 E parentID snapshot version digest rs s)
  obtain out s' where r: "run_state (reconcileSnapshotFlowDeployment E parentID snapshot version digest) s = (out, s')"
    by fastforce
  from wp_run [OF cancel_step [OF "2.prems"] r] obtain d where d: "cancelling (obj s')" "calls s' = calls s @ [CStatusUpdate d]" by blast
  with "2.IH" r obtain ds where "length ds = length rs" "calls (snapshot_runs rs s') = calls s' @ map CStatusUpdate ds"
    "cancelling (obj (snapshot_runs rs s'))" by auto
  with d r show ?case by (auto intro!: exI [of _ "d # ds"])
qed simp

section \<open>Automatic rollback\<close>

definition no_replace :: "fcall \<Rightarrow> bool" where
  "no_replace c = (case c of CCreateReplaceRequest _ _ _ \<Rightarrow> False | _ \<Rightarrow> True)"

lemma no_replace_simps [simp]:
  "no_replace (CStatusUpdate d)" "no_replace (CDeleteReplaceRequest i)" "no_replace (CDeleteConfigMap ns n)"
  "no_replace (CGetConfigMap ns n)" "no_replace (CGetProcessGroup i)" "\<not> no_replace (CCreateReplaceRequest i v sn)"
  by (simp_all add: no_replace_def)

definition same_target :: "NiFiFlowDeployment \<Rightarrow> NiFiFlowDeployment \<Rightarrow> bool" where
  "same_target d d' \<longleftrightarrow> fd_Namespace d' = fd_Namespace d \<and> st_ProcessGroupID (fd_Status d') = st_ProcessGroupID (fd_Status d) \<and>
     st_LastSuccessful (fd_Status d') = st_LastSuccessful (fd_Status d)"

definition checkpoint_read :: "fenv \<Rightarrow> NiFiFlowDeployment \<Rightarrow> string \<Rightarrow> (fcall, NiFiFlowDeployment) rstate \<Rightarrow> (fcall, NiFiFlowDeployment) rstate \<Rightarrow> bool" where
  \<comment> \<open>\<open>snapshot\<close> was read from the ConfigMap of the last successful deployment\<close>
  "checkpoint_read E d snapshot s s' \<longleftrightarrow> (\<exists>h. st_LastSuccessful (fd_Status d) = Some h \<and>
     asked (CGetConfigMap (fd_Namespace d) (fh_SnapshotConfigMap h)) (fe_GetConfigMap E (fd_Namespace d) (fh_SnapshotConfigMap h))
       (\<lambda>r. \<exists>cm. r = Inr cm \<and> cm_data cm flowSnapshotDataKey = snapshot) s s')"

definition one_replace :: "fenv \<Rightarrow> (fcall, NiFiFlowDeployment) rstate \<Rightarrow> (fcall, NiFiFlowDeployment) rstate \<Rightarrow> bool" where
  "one_replace E s s' \<longleftrightarrow> (\<exists>xs ys v snapshot.
     calls s' = calls s @ xs @ [CCreateReplaceRequest (st_ProcessGroupID (fd_Status (obj s))) v snapshot] @ ys \<and>
     list_all no_replace xs \<and> list_all no_replace ys \<and> checkpoint_read E (obj s) snapshot s s')"

lemma only_extends: "only P s s' \<Longrightarrow> extends s s'"
  by (auto simp: within_def extends_def)

lemma one_replace_then: "one_replace E s s1 \<Longrightarrow> only no_replace s1 s2 \<Longrightarrow> one_replace E s s2"
proof -
  assume a: "one_replace E s s1" and o: "only no_replace s1 s2"
  from a obtain xs ys v snapshot where c: "calls s1 = calls s @ xs @ [CCreateReplaceRequest (st_ProcessGroupID (fd_Status (obj s))) v snapshot] @ ys"
    "list_all no_replace xs" "list_all no_replace ys" "checkpoint_read E (obj s) snapshot s s1" by (auto simp: one_replace_def)
  from o obtain zs where z: "calls s2 = calls s1 @ zs" "list_all no_replace zs" by (auto simp: within_def)
  have "checkpoint_read E (obj s) snapshot s s2"
    using c(4) asked_mono [OF _ extends_refl only_extends [OF o]] by (auto simp: checkpoint_read_def)
  then show ?thesis
    using c z unfolding one_replace_def by (intro exI [of _ xs] exI [of _ "ys @ zs"] exI [of _ v] exI [of _ snapshot]) simp
qed

definition still :: "(fcall, NiFiFlowDeployment) rstate \<Rightarrow> (fcall, NiFiFlowDeployment) rstate \<Rightarrow> bool" where
  \<comment> \<open>no replace request yet, and the target of a rollback is the same\<close>
  "still s s' \<longleftrightarrow> only no_replace s s' \<and> same_target (obj s) (obj s')"

lemma still_refl [simp]: "still s s"
  by (simp add: still_def same_target_def)

lemma stillD:
  "still s s' \<Longrightarrow> only no_replace s s'" "still s s' \<Longrightarrow> st_ProcessGroupID (fd_Status (obj s')) = st_ProcessGroupID (fd_Status (obj s))"
  by (simp_all add: still_def same_target_def)

lemma one_replace_at:
  assumes "still s s1" "checkpoint_read E (obj s) snapshot s s1"
    and "calls s2 = calls s1 @ [CGetProcessGroup i, CCreateReplaceRequest (st_ProcessGroupID (fd_Status (obj s))) v snapshot]"
  shows "one_replace E s s2"
proof -
  from assms(3) have "extends s1 s2" by (simp add: extends_def)
  then have "checkpoint_read E (obj s) snapshot s s2"
    using assms(2) asked_mono [OF _ extends_refl] by (auto simp: checkpoint_read_def)
  moreover from stillD(1) [OF assms(1)] obtain xs where "calls s1 = calls s @ xs" "list_all no_replace xs" by (auto simp: within_def)
  ultimately show ?thesis
    using assms(3) unfolding one_replace_def
    by (intro exI [of _ "xs @ [CGetProcessGroup i]"] exI [of _ "[]"] exI [of _ v] exI [of _ snapshot]) simp
qed

lemma one_replace_obj [simp]: "one_replace E s (s'\<lparr>obj := d\<rparr>) = one_replace E s s'"
  by (simp add: one_replace_def checkpoint_read_def)

lemma rollback_snapshot_spec:
  "still s0 s \<Longrightarrow> wp (rollbackSnapshot E) (\<lambda>r s'. still s0 s' \<and>
     (\<forall>snapshot h. r = Inr (snapshot, h) \<longrightarrow> checkpoint_read E (obj s0) snapshot s0 s')) s"
  unfolding rollbackSnapshot_def flowDeploymentSnapshotFromConfigMap_def nifi_call_defs Let_def
  by (intro wp_intros)
     (auto 0 4 simp: still_def same_target_def checkpoint_read_def dest!: sym [of "Some _"] split: if_splits sum.splits
        intro: asked_mono [OF asked_now only_extends extends_refl])

lemma cleanup_spec: "still s0 s \<Longrightarrow> wp (cleanup_request E r) (\<lambda>_. still s0) s"
  unfolding cleanup_request_def nifi_call_defs
  by (intro wp_intros) (auto simp: still_def same_target_def)

lemma record_failed_still: "still s0 s \<Longrightarrow> wp (recordFailedFlowDeployment E v dg cm reason) (\<lambda>_. still s0) s"
  unfolding recordFailedFlowDeployment_def nifi_call_defs
  by (intro wp_intros) (auto simp: still_def same_target_def)

lemma trim_still: "still s0 s \<Longrightarrow> wp (trimFlowDeploymentHistory E) (\<lambda>_. still s0) s"
  by (intro wp_trimI) (auto simp: still_def same_target_def trimmed_def list_all_iff)

lemma retry_still: "still s0 s \<Longrightarrow> wp (retryRolloutIfAllowed E reason) (\<lambda>_. still s0) s"
  unfolding retryRolloutIfAllowed_def mark_not_ready_def nifi_call_defs Let_def
  by (intro wp_intros wp_StatusUpdateI) (auto simp: still_def same_target_def)

lemma ensure_one: "one_replace E' s0 s \<Longrightarrow> wp (ensureActiveFlowRollout E version digest op) (\<lambda>_. one_replace E' s0) s"
  unfolding ensureActiveFlowRollout_def nifi_call_defs Let_def by (intro wp_intros) auto

lemma running_only: "only P s0 s \<Longrightarrow> (\<And>d. P (CStatusUpdate d)) \<Longrightarrow> wp (continue_running E r n) (\<lambda>_. only P s0) s"
  unfolding continue_running_def markFlowDeploymentReplaceRunning_def nifi_call_defs
  by (intro wp_intros wp_StatusUpdateI) simp_all

lemma rollback_failure_only:
  assumes "fr_Operation failed = ''Rollback''"
  shows "wp (handleFlowReplaceFailure E failed failure) (\<lambda>_. only no_replace s) s"
  apply (subst handleFlowReplaceFailure.simps)
  apply (intro wp_intros failed_only wp_mono [OF cleanup_spec [of s]] wp_mono [OF record_failed_still [of s]] wp_mono [OF trim_still [of s]])
  apply (use assms in \<open>simp_all add: stillD\<close>)
  done

definition at_most_one :: "fenv \<Rightarrow> (fcall, NiFiFlowDeployment) rstate \<Rightarrow> (fcall, NiFiFlowDeployment) rstate \<Rightarrow> bool" where
  "at_most_one E s s' \<longleftrightarrow> only no_replace s s' \<or> one_replace E s s'"

lemma at_most_one_then: "at_most_one E s0 s \<Longrightarrow> wp m (\<lambda>_. only no_replace s) s \<Longrightarrow> wp m (\<lambda>_. at_most_one E s0) s"
  by (erule wp_mono) (auto simp: at_most_one_def intro: one_replace_then within_trans)

lemma failure_spec:
  assumes "fr_Operation failed0 \<noteq> ''Rollback''"
  shows "wp (handleFlowReplaceFailure E failed0 failure) (\<lambda>_. at_most_one E s) s"
  apply (subst handleFlowReplaceFailure.simps)
  unfolding begin_rollback_def nifi_call_defs
  apply (intro wp_intros at_most_one_then [OF _ failed_only] wp_mono [OF cleanup_spec [of s]] wp_mono [OF record_failed_still [of s]]
     wp_mono [OF trim_still [of s]] wp_mono [OF retry_still [of s]] wp_mono [OF rollback_snapshot_spec [of s]]
     at_most_one_then [OF _ rollback_failure_only]  at_most_one_then [OF _ running_only] wp_mono [OF ensure_one [of E s]])
  apply (simp_all add: assms stillD at_most_one_def)
  apply (auto intro: one_replace_at)
  done

text \<open>
  C16. A failed replacement is rolled back at most once and only to the recorded checkpoint: whatever
  NiFi and the API server answer, one run of \<open>handleFlowReplaceFailure\<close> makes at most one replace
  request; it makes none when the failed request was itself a rollback; and the request it makes
  replaces the deployed group with the snapshot just read from the ConfigMap of the last successful
  deployment.
\<close>

theorem automatic_rollback_once:
  assumes "run_state (handleFlowReplaceFailure E failed failure) s = (out, s')"
  shows "only no_replace s s' \<or> fr_Operation failed \<noteq> ''Rollback'' \<and> one_replace E s s'"
proof (cases "fr_Operation failed = ''Rollback''")
  case True
  then show ?thesis using wp_run [OF rollback_failure_only assms] by simp
next
  case False
  then show ?thesis using wp_run [OF failure_spec assms] by (simp add: at_most_one_def)
qed

section \<open>Convergence of a first deployment\<close>

definition snapshot_store :: "fenv \<Rightarrow> string \<Rightarrow> string \<Rightarrow> string \<Rightarrow> string \<Rightarrow> NiFiFlowDeployment \<Rightarrow> NiFiFlowDeployment" where
  \<comment> \<open>the resource the API server holds after one snapshot reconcile\<close>
  "snapshot_store E parentID snapshot version digest d = d\<lparr>fd_Status := persisted E []
     (calls (snd (run_state (reconcileSnapshotFlowDeployment E parentID snapshot version digest) (start d)))) (fd_Status d)\<rparr>"

lemma snapshot_store_simps [simp]:
  "fd_Spec (snapshot_store E p sn v dg d) = fd_Spec d" "fd_Generation (snapshot_store E p sn v dg d) = fd_Generation d"
  "fd_Namespace (snapshot_store E p sn v dg d) = fd_Namespace d" "fd_Name (snapshot_store E p sn v dg d) = fd_Name d"
  by (simp_all add: snapshot_store_def)

definition cooperative :: "fenv \<Rightarrow> NiFiFlowDeploymentSpec \<Rightarrow> string \<Rightarrow> ProcessGroupEntity \<Rightarrow> string \<Rightarrow> string \<Rightarrow> bool" where
  \<comment> \<open>the API server stores; NiFi imports the snapshot as the group \<open>pg\<close>, whose live flow is the snapshot\<close>
  "cooperative E spec snapshot pg dd ld \<longleftrightarrow>
     (\<forall>d log. fe_StatusUpdate E d log = None) \<and> fe_HasScheme E \<and> (\<forall>d cm. fe_SetControllerReference E d cm = None) \<and>
     (\<forall>ns n log. \<exists>e. fe_GetConfigMap E ns n log = Inl e \<and> IsNotFound e) \<and> (\<forall>cm log. fe_CreateConfigMap E cm log = None) \<and>
     (\<forall>i st log. fe_ScheduleProcessGroup E i st log = None) \<and>
     processGroupEntityID pg \<noteq> '''' \<and> (\<forall>p log. fe_ImportProcessGroup E p snapshot log = Inr (Some pg)) \<and>
     (\<forall>log. fe_GetProcessGroup E (processGroupEntityID pg) log = Inr (Some pg)) \<and>
     ft_ProcessGroupName (fsp_Target spec) \<in> {'''', pgc_Name (pg_Component pg)} \<and> fsp_ParameterContextRef spec = None \<and>
     dpol_Mode (fsp_DriftPolicy spec) \<noteq> ''Ignore'' \<and>
     (\<forall>log. \<exists>live. fe_DownloadProcessGroup E (processGroupEntityID pg) log = Inr live \<and>
        compareFlowSnapshots (fe_json E) snapshot live (dpol_IgnoreFields (fsp_DriftPolicy spec)) = Inr (dd, ld, []))"

lemma snapshot_store_last:
  assumes "wp (reconcileSnapshotFlowDeployment E parentID snapshot version digest) (stored_last P) (start d)"
    and "\<And>d log. fe_StatusUpdate E d log = None"
  shows "\<exists>d'. fd_Status (snapshot_store E parentID snapshot version digest d) = fd_Status d' \<and> P d'"
proof -
  obtain out s' where run: "run_state (reconcileSnapshotFlowDeployment E parentID snapshot version digest) (start d) = (out, s')" by fastforce
  from wp_run [OF assms(1) run] obtain xs d' where "calls s' = xs @ [CStatusUpdate d']" "P d'" by (auto simp: stored_last_def)
  with run assms(2) show ?thesis by (auto simp: snapshot_store_def persisted_last)
qed

definition imported_status :: "string \<Rightarrow> string \<Rightarrow> string \<Rightarrow> NiFiFlowDeploymentStatus \<Rightarrow> bool" where
  "imported_status i version digest st \<longleftrightarrow> st_ProcessGroupID st = i \<and> st_RetiringProcessGroupID st = '''' \<and> st_LatestReplaceRequest st = None \<and>
     st_ArtifactDigest st = digest \<and> st_DeployedVersion st = version \<and> st_LastRollback st = None \<and>
     (\<exists>a. st_ActiveRollout st = Some a \<and> ro_Phase a = ''Preparing'')"

definition fresh_status :: "NiFiFlowDeploymentStatus \<Rightarrow> bool" where
  "fresh_status st \<longleftrightarrow> st_ProcessGroupID st = '''' \<and> st_RetiringProcessGroupID st = '''' \<and> st_LatestReplaceRequest st = None \<and>
     st_ActiveRollout st = None \<and> st_LastRollback st = None"

lemma import_step:
  assumes E: "cooperative E (fd_Spec d) snapshot pg dd ld" and d: "fresh_status (fd_Status d)"
  shows "imported_status (processGroupEntityID pg) version digest (fd_Status (snapshot_store E parentID snapshot version digest d))"
proof -
  have "wp (reconcileSnapshotFlowDeployment E parentID snapshot version digest)
      (stored_last (\<lambda>d'. imported_status (processGroupEntityID pg) version digest (fd_Status d'))) (start d)"
    unfolding reconcileSnapshotFlowDeployment_def importFlowDeployment_def ensureActiveFlowRollout_def markFlowDeploymentSnapshotImported_def nifi_call_defs
    using E d
    by (simp add: wp_simps fresh_status_def cooperative_def awaiting_readiness_def pending_request_def stored_last_def
        imported_status_def new_rollout_def Let_def)
  from snapshot_store_last [OF this] E show ?thesis by (auto simp: cooperative_def)
qed

lemma metadata_unchanged:
  assumes "cooperative E (fd_Spec (obj s)) snapshot pg dd ld"
  shows "wp (reconcileSnapshotDeploymentMetadata E pg) Q s = Q (Inr pg) s"
  using assms by (auto simp: reconcileSnapshotDeploymentMetadata_def cooperative_def wp_simps Let_def)

lemma persist_cooperative:
  assumes "cooperative E spec snapshot pg dd ld"
  shows "wp (persistFlowDeploymentSnapshot E sn digest)
    (\<lambda>r s'. r = Inr (flowDeploymentHistoryConfigMapName (fd_Name (obj s)) digest) \<and> obj s' = obj s) s"
proof -
  have "fe_GetConfigMap E ns n log \<noteq> Inr cm" "fe_GetConfigMap E ns n log = Inl e \<Longrightarrow> IsNotFound e" for ns n log cm e
    using assms unfolding cooperative_def by (metis Inl_Inr_False, metis sum.inject(1))
  then show ?thesis
    unfolding persistFlowDeploymentSnapshot_def nifi_call_defs Let_def
    by (intro wp_intros) (use assms in \<open>auto simp: cooperative_def\<close>)
qed

definition in_sync :: "ProcessGroupEntity \<Rightarrow> string \<Rightarrow> string \<Rightarrow> string \<Rightarrow> string \<Rightarrow> int \<Rightarrow> NiFiFlowDeploymentStatus \<Rightarrow> bool" where
  \<comment> \<open>the status of a finished rollout\<close>
  "in_sync pg version digest dd ld g st \<longleftrightarrow> st_ProcessGroupID st = processGroupEntityID pg \<and> st_RetiringProcessGroupID st = '''' \<and>
     st_LatestReplaceRequest st = None \<and> st_ActiveRollout st = None \<and> st_LastRollback st = None \<and>
     st_ArtifactDigest st = digest \<and> st_DeployedVersion st = version \<and> st_SyncState st = ''InSync'' \<and>
     st_DesiredContentDigest st = dd \<and> st_LiveContentDigest st = ld \<and> (\<exists>h. st_LastSuccessful st = Some h \<and> fh_Digest h = digest) \<and>
     cs_Ready (st_Common st) \<and> cs_ObservedGeneration (st_Common st) = g \<and> dp_Ready (cs_Dependencies (st_Common st)) \<and>
     cs_NiFiID (st_Common st) = processGroupEntityID pg \<and> rv_Version (cs_Revision (st_Common st)) = re_Version (pg_Revision pg) \<and>
     dr_Status (cs_Drift (st_Common st)) = ''InSync''"

lemma in_sync_status_in_sync:
  assumes "st_RetiringProcessGroupID st = ''''" "st_LastRollback st = None" "\<exists>h. st_LastSuccessful st = Some h \<and> fh_Digest h = digest"
  shows "in_sync pg version digest dd ld g (in_sync_status t g (processGroupEntityID pg) (re_Version (pg_Revision pg)) version digest dd ld st)"
  using assms by (simp add: in_sync_def in_sync_status_def Let_def MarkReady_def)

lemma mark_in_sync_step:
  assumes E: "cooperative E spec snapshot pg dd ld"
    and d: "st_RetiringProcessGroupID (fd_Status (obj s)) = ''''" "st_LastRollback (fd_Status (obj s)) = None"
  shows "wp (markSnapshotDeploymentInSync E (processGroupEntityID pg) (re_Version (pg_Revision pg)) version digest dd ld sn)
    (\<lambda>u s'. u = None \<and> stored_last (\<lambda>d'. in_sync pg version digest dd ld (fd_Generation (obj s)) (fd_Status d')) u s') s"
  unfolding markSnapshotDeploymentInSync_def recordSuccessfulFlowDeployment_def now_def Let_def
  by (intro wp_intros wp_trimI wp_StatusUpdateI wp_mono [OF persist_cooperative [OF E]])
     (use E d in \<open>auto simp: stored_last_def trimmed_def intro!: in_sync_status_in_sync\<close>,
      simp_all add: cooperative_def split: option.splits)

lemma wp_return_fun: "wp (State_Monad.return a) Q = Q a"
  by (rule ext) (simp add: wp_simps)

lemma deploy_complete:
  assumes E: "cooperative E (fd_Spec (obj s)) snapshot pg dd ld"
    and st: "st_ProcessGroupID (fd_Status (obj s)) = processGroupEntityID pg" "st_ArtifactDigest (fd_Status (obj s)) = digest"
      "st_DeployedVersion (fd_Status (obj s)) = version" "st_LastRollback (fd_Status (obj s)) = None"
    and complete: "\<And>s'. obj s' = obj s \<Longrightarrow>
      calls s' = calls s @ [CGetProcessGroup (processGroupEntityID pg), CDownloadProcessGroup (processGroupEntityID pg)] \<Longrightarrow>
      wp (completeInSync E pg snapshot version digest dd ld) Q s'"
  shows "wp (deployFlowSnapshot E parentID snapshot version digest) Q s"
proof -
  from E obtain live where l: "fe_DownloadProcessGroup E (processGroupEntityID pg) (calls s @ [CGetProcessGroup (processGroupEntityID pg)]) = Inr live"
    "compareFlowSnapshots (fe_json E) snapshot live (ignore_fields (obj s)) = Inr (dd, ld, [])"
    "fe_GetProcessGroup E (processGroupEntityID pg) (calls s) = Inr (Some pg)"
    unfolding cooperative_def by blast
  have "resolvedDriftPolicy (obj s) \<noteq> ''Ignore''"
    using E by (simp add: resolvedDriftPolicy_def cooperative_def)
  moreover have "\<not> rollbackBlocksTarget (obj s) digest" using st by (simp add: rollbackBlocksTarget_def)
  ultimately show ?thesis
    using l st complete by (simp add: deployFlowSnapshot_def checkFlowDrift_def wp_simps wp_return_fun Let_def)
qed

lemma sync_step:
  assumes E: "cooperative E (fd_Spec d) snapshot pg dd ld" and d: "imported_status (processGroupEntityID pg) version digest (fd_Status d)"
    and c: "\<not> rs_Cancel (fsp_Rollout (fd_Spec d))"
  shows "in_sync pg version digest dd ld (fd_Generation d) (fd_Status (snapshot_store E parentID snapshot version digest d))"
proof -
  have complete: "wp (completeInSync E pg snapshot version digest dd ld)
      (\<lambda>out. stored_last (\<lambda>d'. in_sync pg version digest dd ld (fd_Generation d) (fd_Status d')) out) s" if "obj s = d" for s
  proof -
    have E': "cooperative E (fd_Spec (obj s)) snapshot pg dd ld" using E that by simp
    show ?thesis
      unfolding completeInSync_def wp_bind metadata_unchanged [OF E'] finalizeFlowRolloutState_def nifi_call_defs Let_def
      by (intro wp_intros failed_only)
         (use E d that in \<open>auto simp: cooperative_def imported_status_def stored_last_def wp_simps
            intro!: wp_mono [OF mark_in_sync_step [OF E]] split: option.splits\<close>)
  qed
  have "wp (deployFlowSnapshot E parentID snapshot version digest)
      (stored_last (\<lambda>d'. in_sync pg version digest dd ld (fd_Generation d) (fd_Status d'))) (start d)"
    by (rule deploy_complete [OF _ _ _ _ _ complete]) (use E d in \<open>simp_all add: imported_status_def\<close>)
  then have "wp (reconcileSnapshotFlowDeployment E parentID snapshot version digest)
      (stored_last (\<lambda>d'. in_sync pg version digest dd ld (fd_Generation d) (fd_Status d'))) (start d)"
    using E d c by (auto simp: reconcileSnapshotFlowDeployment_def wp_simps imported_status_def awaiting_readiness_def
        bgPhaseAwaitingReadiness_def pending_request_def cooperative_def)
  from snapshot_store_last [OF this] E show ?thesis by (auto simp: cooperative_def)
qed

lemma quiet_step:
  assumes E: "cooperative E (fd_Spec d) snapshot pg dd ld" and d: "in_sync pg version digest dd ld (fd_Generation d) (fd_Status d)"
  shows "wp (reconcileSnapshotFlowDeployment E parentID snapshot version digest)
    (\<lambda>out s'. out = (rolloutRequeue, None) \<and> s' = \<lparr>calls = [CGetProcessGroup (processGroupEntityID pg), CDownloadProcessGroup (processGroupEntityID pg)], obj = d\<rparr>) (start d)"
proof -
  have complete: "wp (completeInSync E pg snapshot version digest dd ld) (\<lambda>out s'. out = (rolloutRequeue, None) \<and> s' = \<lparr>calls = cs, obj = d\<rparr>) s"
    if "obj s = d" "calls s = cs" for s cs
  proof -
    have s: "s = \<lparr>calls = cs, obj = d\<rparr>" using that by simp
    have E': "cooperative E (fd_Spec (obj s)) snapshot pg dd ld" using E that by simp
    show ?thesis
      unfolding completeInSync_def wp_bind metadata_unchanged [OF E'] Let_def
      using d by (auto simp: s in_sync_def flowDeploymentStatusMatches_def wp_simps Let_def split: option.splits)
  qed
  have s: "settled (obj (start d))" using E d by (simp add: settled_def in_sync_def pending_request_def cooperative_def)
  show ?thesis
    unfolding settled_reconcile [OF s]
    by (rule deploy_complete [OF _ _ _ _ _ complete]) (use E d in \<open>simp_all add: in_sync_def\<close>)
qed

text \<open>
  C9. A first deployment converges and then stays quiet: when the API server stores and NiFi imports
  the snapshot as a group whose live flow matches it, two reconciles lead from an empty status to one
  that is \<open>Ready\<close>, \<open>InSync\<close> and records the deployed version, digest and process group; every
  further reconcile of the same target reads the group, downloads the live flow, and writes nothing.
\<close>

theorem first_deployment_converges:
  assumes "cooperative E (fd_Spec d) snapshot pg dd ld" "fresh_status (fd_Status d)" "\<not> rs_Cancel (fsp_Rollout (fd_Spec d))"
    and "step = snapshot_store E parentID snapshot version digest" "d' = step (step d)"
  shows "cs_Ready (st_Common (fd_Status d')) \<and> st_SyncState (fd_Status d') = ''InSync'' \<and> st_DeployedVersion (fd_Status d') = version \<and>
     st_ArtifactDigest (fd_Status d') = digest \<and> st_ProcessGroupID (fd_Status d') = processGroupEntityID pg \<and>
     run_state (reconcileSnapshotFlowDeployment E parentID snapshot version digest) (start d') =
       ((rolloutRequeue, None), \<lparr>calls = [CGetProcessGroup (processGroupEntityID pg), CDownloadProcessGroup (processGroupEntityID pg)], obj = d'\<rparr>)"
proof -
  have sync: "in_sync pg version digest dd ld (fd_Generation d') (fd_Status d')"
    using sync_step [of E "step d" snapshot pg dd ld version digest parentID] import_step [OF assms(1,2)] assms by simp
  moreover have "cooperative E (fd_Spec d') snapshot pg dd ld" using assms by simp
  note quiet_step [OF this sync]
  ultimately show ?thesis
    by (auto simp: in_sync_def wp_def split: prod.splits)
qed


section \<open>Witnesses\<close>

definition deployed_sample :: NiFiFlowDeployment where
  "deployed_sample = sample_deployment\<lparr>fd_Status := sample_status\<lparr>st_ArtifactDigest := ''sha256:aa'', st_DeployedVersion := ''v1''\<rparr>\<rparr>"


definition sample_rollback :: FlowRollbackStatus where
  "sample_rollback = \<lparr>lb_FailedGeneration = 1, lb_FailedVersion = ''v2'', lb_FailedDigest = ''sha256:bb'', lb_RestoredVersion = ''v1'',
     lb_RestoredDigest = ''sha256:aa'', lb_CompletedAt = None, lb_Message = ''''\<rparr>"

definition sample_history :: FlowDeploymentHistory where
  "sample_history = \<lparr>fh_Version = ''v1'', fh_Digest = ''sha256:aa'', fh_SnapshotConfigMap = ''demo-history-sha256aa'', fh_Strategy = '''',
     fh_Result = ''Succeeded'', fh_Reason = '''', fh_DeployedAt = 0\<rparr>"

definition rolling_back_deployment :: NiFiFlowDeployment where
  "rolling_back_deployment = sample_deployment\<lparr>fd_Status := sample_status\<lparr>st_LastRollback := Some sample_rollback, st_LastSuccessful := Some sample_history\<rparr>\<rparr>"

theorem rolled_back_target_is_blocked_witness:
  "let d = rolling_back_deployment; s = start (upd_st (rolled_back_status 7 1 4 sample_history (failed_target d)) d)
   in list_all (\<lambda>c. c = CGetProcessGroup ''blue'' \<or> (\<exists>d'. c = CStatusUpdate d'))
        (new_calls s (snd (run_state (reconcileSnapshotFlowDeployment sample_env ''root'' ''1 sec'' ''v2'' ''sha256:bb'') s)))"
proof -
  let ?d = rolling_back_deployment
  let ?s = "start (upd_st (rolled_back_status 7 1 4 sample_history (failed_target ?d)) ?d)"
  obtain out s' where run: "run_state (reconcileSnapshotFlowDeployment sample_env ''root'' ''1 sec'' ''v2'' ''sha256:bb'') ?s = (out, s')" by fastforce
  have "\<forall>c \<in> set (new_calls ?s s'). c = CGetProcessGroup (st_ProcessGroupID (fd_Status ?d)) \<or> (\<exists>d'. c = CStatusUpdate d')"
    by (rule rolled_back_target_is_blocked [of ?d sample_rollback ?s 7 4 sample_history sample_env "''root''" "''1 sec''" "''v2''" out s'])
       (use run in \<open>simp_all add: rolling_back_deployment_def sample_rollback_def sample_defs\<close>)
  then show ?thesis using run by (simp add: list_all_iff rolling_back_deployment_def sample_defs)
qed

definition cancelled_sample :: NiFiFlowDeployment where
  "cancelled_sample = (bluegreen_sample bgPhaseSwitchingTraffic [boundary_sample])\<lparr>fd_Spec := sample_spec\<lparr>fsp_Rollout := sample_rollout\<lparr>rs_Cancel := True\<rparr>\<rparr>\<rparr>"

theorem cancelled_bluegreen_never_switches_back_witness:
  "let r = (sample_env, ''root'', ''1 sec'', ''v1'', ''sha256:aa''); s' = snapshot_runs [r, r, r] (start cancelled_sample)
   in length (calls s') = 3 \<and> list_all (\<lambda>c. \<exists>d. c = CStatusUpdate d) (calls s') \<and> blueGreenRolloutInProgress (obj s')"
proof -
  let ?r = "(sample_env, ''root'', ''1 sec'', ''v1'', ''sha256:aa'')"
  have "cancelling (obj (start cancelled_sample))"
    by (simp add: cancelling_def blueGreenRolloutInProgress_def cancelled_sample_def bluegreen_sample_def new_rollout_def sample_status_def)
  from cancelled_bluegreen_never_switches_back [OF this, of "[?r, ?r, ?r]"] show ?thesis
    by (auto simp: cancelling_def list_all_iff simp del: snapshot_runs.simps)
qed

definition failed_request :: FlowReplaceRequestStatus where
  "failed_request = \<lparr>fr_ID = ''r0'', fr_State = '''', fr_Complete = False, fr_FailureReason = ''boom'', fr_PercentCompleted = 0,
     fr_TargetDigest = ''sha256:bb'', fr_TargetVersion = ''v2'', fr_Operation = ''Rollout'', fr_SnapshotConfigMap = ''''\<rparr>"

definition checkpoint_env :: fenv where
  "checkpoint_env = sample_env\<lparr>fe_GetConfigMap := (\<lambda>_ _ _. Inr (history_config_map sample_deployment ''flow'' ''sha256:aa''))\<rparr>"

theorem automatic_rollback_once_witness:
  "let s = start rolling_back_deployment; s' = snd (run_state (handleFlowReplaceFailure checkpoint_env failed_request (errorf ''boom'')) s)
   in filter (\<lambda>c. \<not> no_replace c) (calls s') = [CCreateReplaceRequest ''blue'' 3 ''flow''] \<and> one_replace checkpoint_env s s'"
proof -
  let ?s = "start rolling_back_deployment"
  obtain out s' where run: "run_state (handleFlowReplaceFailure checkpoint_env failed_request (errorf ''boom'')) ?s = (out, s')" by fastforce
  have "filter (\<lambda>c. \<not> no_replace c) (calls (snd (run_state (handleFlowReplaceFailure checkpoint_env failed_request (errorf ''boom'')) ?s))) =
      [CCreateReplaceRequest ''blue'' 3 ''flow'']"
    by code_simp
  with run have f: "filter (\<lambda>c. \<not> no_replace c) (calls s') = [CCreateReplaceRequest ''blue'' 3 ''flow'']" by simp
  then have "\<not> only no_replace ?s s'" by (auto simp: within_def filter_eq_Cons_iff list_all_iff)
  with automatic_rollback_once [OF run] f run show ?thesis by simp
qed

theorem first_deployment_converges_witness:
  "let step = snapshot_store sample_env ''root'' ''1 sec'' ''v1'' ''sha256:aa''; d' = step (step dry_run_deployment)
   in cs_Ready (st_Common (fd_Status d')) \<and> st_SyncState (fd_Status d') = ''InSync'' \<and> st_ProcessGroupID (fd_Status d') = ''green'' \<and>
      calls (snd (run_state (reconcileSnapshotFlowDeployment sample_env ''root'' ''1 sec'' ''v1'' ''sha256:aa'') (start d'))) =
        [CGetProcessGroup ''green'', CDownloadProcessGroup ''green'']"
proof -
  have cmp: "compareFlowSnapshots sample_codec ''1 sec'' ''1 sec'' [] = Inr (''sha256:'', ''sha256:'', [])" by code_simp
  have "cooperative sample_env (fd_Spec dry_run_deployment) ''1 sec'' (sample_pg ''green'') ''sha256:'' ''sha256:''"
    using cmp by (simp add: cooperative_def dry_run_deployment_def sample_defs processGroupEntityID_def)
  moreover have "fresh_status (fd_Status dry_run_deployment)" "\<not> rs_Cancel (fsp_Rollout (fd_Spec dry_run_deployment))"
    by (simp_all add: fresh_status_def dry_run_deployment_def sample_defs)
  ultimately show ?thesis
    using first_deployment_converges [of sample_env dry_run_deployment "''1 sec''" "sample_pg ''green''" "''sha256:''" "''sha256:''"]
    by (simp add: Let_def processGroupEntityID_def sample_pg_def)
qed

end
