(* ===== verification/Object_Access.thy ===== *)
theory Object_Access
  imports Flow_Types
begin

text \<open>
  Helpers of \<open>internal/controller/support.go\<close> that every controller shares: the finalizer of an
  object, the cluster an object refers to and the other objects it waits for. They are polymorphic in
  the object and in the calls:
  the accessors of the object, its update and the reads are arguments, which each controller
  instantiates with its own.
\<close>

section \<open>Finalizers\<close>

definition NiFiControlFinalizer :: string where
  "NiFiControlFinalizer = ''nifi.controlnifi.io/finalizer''"

definition ensureFinalizer ::
  "('o \<Rightarrow> string list) \<Rightarrow> ((string list \<Rightarrow> string list) \<Rightarrow> 'o \<Rightarrow> 'o) \<Rightarrow> ('c, 'o, go_error option) handler \<Rightarrow> ('c, 'o, bool \<times> go_error option) handler" where
  "ensureFinalizer finalizers upd_finalizers Update = do {
     instance \<leftarrow> get_obj;
     (if NiFiControlFinalizer \<in> set (finalizers instance) then ret (False, None)
      else do {
        upd_obj (upd_finalizers (\<lambda>fs. fs @ [NiFiControlFinalizer]));
        e \<leftarrow> Update;
        ret (True, e) }) }"

definition removeFinalizer ::
  "('o \<Rightarrow> string list) \<Rightarrow> ((string list \<Rightarrow> string list) \<Rightarrow> 'o \<Rightarrow> 'o) \<Rightarrow> ('c, 'o, go_error option) handler \<Rightarrow> ('c, 'o, bool \<times> go_error option) handler" where
  "removeFinalizer finalizers upd_finalizers Update = do {
     instance \<leftarrow> get_obj;
     (if NiFiControlFinalizer \<notin> set (finalizers instance) then ret (False, None)
      else do {
        upd_obj (upd_finalizers (filter (\<lambda>f. f \<noteq> NiFiControlFinalizer)));
        e \<leftarrow> Update;
        ret (True, e) }) }"

section \<open>The referenced cluster\<close>

definition clusterDependency ::
  "(string \<Rightarrow> string \<Rightarrow> ('c, 'o, 'k go_result) handler) \<Rightarrow> ('k \<Rightarrow> ('c, 'o, go_error option) handler) \<Rightarrow> ('k \<Rightarrow> bool) \<Rightarrow>
   string \<Rightarrow> ClusterReference \<Rightarrow> ('c, 'o, ('k option \<times> string list) go_result) handler" where
  "clusterDependency Get configureClusterHTTPClient ready namespace ref =
     (if cr_Name ref = '''' then ret (Inr (None, [''clusterRef.name'']))
      else do {
        let refNamespace = clusterRefNamespace namespace ref;
        r \<leftarrow> Get refNamespace (cr_Name ref);
        (case r of
           Inl err \<Rightarrow> ret (if IsNotFound err then Inr (None, [''NiFiCluster/'' @ refNamespace @ ''/'' @ cr_Name ref]) else Inl err)
         | Inr cluster \<Rightarrow>
            (if \<not> ready cluster then ret (Inr (None, [''NiFiCluster/'' @ refNamespace @ ''/'' @ cr_Name ref @ '':Ready'']))
             else do {
               e \<leftarrow> configureClusterHTTPClient cluster;
               ret (case e of Some err \<Rightarrow> Inl err | None \<Rightarrow> Inr (Some cluster, [])) })) })"

definition readyClusterForReference ::
  "(string \<Rightarrow> string \<Rightarrow> ('c, 'o, 'k go_result) handler) \<Rightarrow> ('k \<Rightarrow> ('c, 'o, go_error option) handler) \<Rightarrow> ('k \<Rightarrow> bool) \<Rightarrow>
   string \<Rightarrow> ClusterReference \<Rightarrow> ('c, 'o, ('k option \<times> string list) go_result) handler" where
  "readyClusterForReference Get configureClusterHTTPClient ready namespace ref =
     clusterDependency Get configureClusterHTTPClient ready namespace ref"

definition clusterForDeletion ::
  "(string \<Rightarrow> string \<Rightarrow> ('c, 'o, 'k go_result) handler) \<Rightarrow> ('k \<Rightarrow> ('c, 'o, go_error option) handler) \<Rightarrow> ('k \<Rightarrow> bool) \<Rightarrow> ('k \<Rightarrow> bool) \<Rightarrow>
   string \<Rightarrow> ClusterReference \<Rightarrow> ('c, 'o, ('k option \<times> bool) go_result) handler" where
  \<comment> \<open>the flag is \<open>gone\<close>\<close>
  "clusterForDeletion Get configureClusterHTTPClient ready deleting namespace ref =
     (if cr_Name ref = '''' then ret (Inr (None, True))
      else do {
        r \<leftarrow> Get (clusterRefNamespace namespace ref) (cr_Name ref);
        (case r of
           Inl err \<Rightarrow> ret (if IsNotFound err then Inr (None, True) else Inl err)
         | Inr cluster \<Rightarrow>
            (if deleting cluster then ret (Inr (None, True))
             else if \<not> ready cluster then ret (Inr (None, False))
             else do {
               e \<leftarrow> configureClusterHTTPClient cluster;
               ret (case e of Some err \<Rightarrow> Inl err | None \<Rightarrow> Inr (Some cluster, False)) })) })"

section \<open>Dependencies\<close>

definition clusterEndpoint :: "NiFiCluster \<Rightarrow> string" where
  "clusterEndpoint cluster = (if cl_Endpoint cluster \<noteq> '''' then cl_Endpoint cluster
     else (case cl_APIURI cluster of Some uri \<Rightarrow> uri | None \<Rightarrow> ''''))"

definition waiting_name :: "string \<Rightarrow> string \<Rightarrow> string \<Rightarrow> bool go_result \<Rightarrow> string list" where
  \<comment> \<open>what a dependency on an object reports: missing, unreadable, not ready, or nothing\<close>
  "waiting_name kind refNamespace name r =
     (let key = kind @ ''/'' @ refNamespace @ ''/'' @ name in
      case r of
        Inl err \<Rightarrow> (if IsNotFound err then [key] else [key @ '':GetError''])
      | Inr ready \<Rightarrow> (if \<not> ready then [key @ '':Ready''] else []))"

definition parameterContextDependencyWaitingFor :: "(string \<Rightarrow> string \<Rightarrow> ('c, 'o, NiFiObject go_result) handler) \<Rightarrow> string \<Rightarrow> LocalObjectReference option \<Rightarrow> string \<Rightarrow> ('c, 'o, string list) handler" where
  "parameterContextDependencyWaitingFor Get namespace ref fieldPath = (case ref of
      None \<Rightarrow> ret []
    | Some ref \<Rightarrow>
       (if lr_Name ref = '''' then ret [fieldPath @ ''.name'']
        else do {
          let refNamespace = localObjectRefNamespace namespace ref;
          r \<leftarrow> Get refNamespace (lr_Name ref);
          ret (waiting_name ''NiFiParameterContext'' refNamespace (lr_Name ref) (map_sum id no_Ready r)) }))"

definition registryClientDependencyWaitingFor :: "(string \<Rightarrow> string \<Rightarrow> ('c, 'o, NiFiObject go_result) handler) \<Rightarrow> string \<Rightarrow> LocalObjectReference \<Rightarrow> string \<Rightarrow> ('c, 'o, string list) handler" where
  "registryClientDependencyWaitingFor Get namespace ref fieldPath =
     (if lr_Name ref = '''' then ret [fieldPath @ ''.name'']
      else do {
        let refNamespace = localObjectRefNamespace namespace ref;
        r \<leftarrow> Get refNamespace (lr_Name ref);
        ret (waiting_name ''NiFiRegistryClient'' refNamespace (lr_Name ref) (map_sum id no_Ready r)) })"

definition processGroupReferenceDependencyWaitingFor :: "(string \<Rightarrow> string \<Rightarrow> ('c, 'o, NiFiObject go_result) handler) \<Rightarrow> string \<Rightarrow> ProcessGroupReference \<Rightarrow> ('c, 'o, string list) handler" where
  "processGroupReferenceDependencyWaitingFor Get namespace ref =
     (if pr_Root ref \<or> pr_Name ref = '''' then ret []
      else do {
        let refNamespace = processGroupRefNamespace namespace ref;
        r \<leftarrow> Get refNamespace (pr_Name ref);
        ret (waiting_name ''NiFiProcessGroup'' refNamespace (pr_Name ref) (map_sum id no_Ready r)) })"

definition processGroupParentID :: "(string \<Rightarrow> string \<Rightarrow> ('c, 'o, NiFiObject go_result) handler) \<Rightarrow> string \<Rightarrow> NiFiCluster \<Rightarrow> ProcessGroupReference \<Rightarrow> ('c, 'o, string go_result) handler" where
  "processGroupParentID Get namespace cluster ref =
     (if pr_Root ref \<or> pr_Name ref = '''' then
        ret (Inr (if cl_RootProcessGroupID cluster \<noteq> '''' then cl_RootProcessGroupID cluster else ''root''))
      else do {
        r \<leftarrow> Get (processGroupRefNamespace namespace ref) (pr_Name ref);
        ret (map_sum id no_NiFiID r) })"

section \<open>Finalizer laws\<close>

text \<open>A finalizer that is ensured is there, and one that is removed is gone; nothing else of the list changes.\<close>

lemma ensure_finalizer_adds:
  assumes "\<And>f d. finalizers (upd f d) = f (finalizers d)" "\<And>s. wp Update (\<lambda>_ s'. obj s' = obj s) s"
  shows "wp (ensureFinalizer finalizers upd Update) (\<lambda>r s'. NiFiControlFinalizer \<in> set (finalizers (obj s')) \<and>
     filter (\<lambda>f. f \<noteq> NiFiControlFinalizer) (finalizers (obj s')) = filter (\<lambda>f. f \<noteq> NiFiControlFinalizer) (finalizers (obj s))) s"
  unfolding ensureFinalizer_def by (intro wp_intros wp_mono [OF assms(2)]) (simp_all add: assms(1))

lemma remove_finalizer_removes:
  assumes "\<And>f d. finalizers (upd f d) = f (finalizers d)" "\<And>s. wp Update (\<lambda>_ s'. obj s' = obj s) s"
  shows "wp (removeFinalizer finalizers upd Update) (\<lambda>r s'.
     finalizers (obj s') = filter (\<lambda>f. f \<noteq> NiFiControlFinalizer) (finalizers (obj s))) s"
  unfolding removeFinalizer_def
  by (intro wp_intros wp_mono [OF assms(2)]) (auto simp: assms(1) intro!: filter_True [symmetric])

end
