(* ===== verification/Component_Diff.thy ===== *)
theory Component_Diff
  imports Flow_Marks
begin

text \<open>
  The NiFi entities of the single-component controllers (\<open>pkg/nifi/client.go\<close>, \<open>reportingtasks.go\<close>,
  \<open>parameterproviders.go\<close>), the resources' specs (\<open>api/v1alpha1\<close>), the entity each controller
  wants (\<open>desired*\<close>) and the comparisons that decide whether NiFi has to be changed (\<open>*NeedsUpdate\<close>
  and their helpers in \<open>internal/controller/phase1_controllers.go\<close>). A Go map is an association list
  that is read through \<open>map_of\<close>.
\<close>

section \<open>Go maps\<close>

type_synonym go_map = "(string \<times> string) list"

definition map_get :: "go_map \<Rightarrow> string \<Rightarrow> string" where
  \<comment> \<open>indexing a map: the zero value for a missing key\<close>
  "map_get m k = (case map_of m k of Some v \<Rightarrow> v | None \<Rightarrow> '''')"

definition map_keys :: "go_map \<Rightarrow> string list" where
  "map_keys m = remdups (map fst m)"

lemma set_map_keys [simp]: "set (map_keys m) = fst ` set m"
  by (simp add: map_keys_def)

lemma map_get_update [simp]: "map_get ((k, v) # m) k' = (if k' = k then v else map_get m k')"
  by (simp add: map_get_def)

section \<open>Entities\<close>

record 'c entity =
  \<comment> \<open>the three fields every component entity of NiFi has\<close>
  en_ID :: string
  en_Revision :: Revision
  en_Component :: 'c

record Bundle =
  bu_Group :: string
  bu_Artifact :: string
  bu_Version :: string

record ProcessorConfig =
  pcf_Properties :: go_map
  pcf_SchedulingStrategy :: string
  pcf_SchedulingPeriod :: string
  pcf_ConcurrentlySchedulableTaskCount :: int
  pcf_AutoTerminatedRelationships :: "string list"

record ProcessorComponent =
  prc_ID :: string
  prc_ParentGroupID :: string
  prc_Name :: string
  prc_Type :: string
  prc_Bundle :: "Bundle option"
  prc_Position :: "Position option"
  prc_State :: string
  prc_ValidationStatus :: string
  prc_Config :: ProcessorConfig

record FunnelComponent =
  fuc_ID :: string
  fuc_ParentGroupID :: string
  fuc_Position :: "Position option"

record LabelComponent =
  lac_ID :: string
  lac_ParentGroupID :: string
  lac_Label :: string
  lac_Position :: "Position option"
  lac_Width :: float64
  lac_Height :: float64
  lac_Style :: go_map

record ControllerServiceComponent =
  csc_ID :: string
  csc_ParentGroupID :: string
  csc_Name :: string
  csc_Type :: string
  csc_Bundle :: "Bundle option"
  csc_Properties :: go_map
  csc_State :: string
  csc_ValidationStatus :: string

record ReportingTaskComponent =
  rtc_ID :: string
  rtc_Name :: string
  rtc_Type :: string
  rtc_Bundle :: "Bundle option"
  rtc_Properties :: go_map
  rtc_SchedulingStrategy :: string
  rtc_SchedulingPeriod :: string
  rtc_State :: string
  rtc_ValidationStatus :: string

record ParameterProviderComponent =
  ppc_ID :: string
  ppc_Name :: string
  ppc_Type :: string
  ppc_Bundle :: "Bundle option"
  ppc_Properties :: go_map
  ppc_ValidationStatus :: string

record RegistryClientComponent =
  rcc_ID :: string
  rcc_Name :: string
  rcc_Type :: string
  rcc_Description :: string
  rcc_Properties :: go_map

type_synonym ProcessorEntity = "ProcessorComponent entity"
type_synonym FunnelEntity = "FunnelComponent entity"
type_synonym LabelEntity = "LabelComponent entity"
type_synonym ControllerServiceEntity = "ControllerServiceComponent entity"
type_synonym ReportingTaskEntity = "ReportingTaskComponent entity"
type_synonym ParameterProviderEntity = "ParameterProviderComponent entity"
type_synonym RegistryClientEntity = "RegistryClientComponent entity"

section \<open>Specs\<close>

record SpecPosition =
  \<comment> \<open>\<open>Position\<close> of \<open>common_types.go\<close>: integer coordinates\<close>
  sp_X :: int
  sp_Y :: int

record ComponentScheduling =
  sch_Strategy :: string
  sch_Period :: string
  sch_ConcurrentlySchedulableTaskCount :: int

record SecretKeyRef =
  sk_Name :: string
  sk_Key :: string
  sk_Optional :: "bool option"

type_synonym SensitivePropertySource = "SecretKeyRef option"

record NiFiFunnelSpec =
  fus_ClusterRef :: ClusterReference
  fus_ParentProcessGroupRef :: ProcessGroupReference
  fus_Position :: "SpecPosition option"
  fus_DeletionPolicy :: string

record NiFiLabelSpec =
  las_ClusterRef :: ClusterReference
  las_ParentProcessGroupRef :: ProcessGroupReference
  las_Text :: string
  las_Position :: "SpecPosition option"
  las_Width :: int
  las_Height :: int
  las_Style :: go_map
  las_DeletionPolicy :: string

record NiFiPortSpec =
  \<comment> \<open>\<open>NiFiInputPortSpec\<close> and \<open>NiFiOutputPortSpec\<close> have the same fields\<close>
  pts_ClusterRef :: ClusterReference
  pts_ParentProcessGroupRef :: ProcessGroupReference
  pts_DisplayName :: string
  pts_Position :: "SpecPosition option"
  pts_ConcurrentlySchedulableTaskCount :: int
  pts_State :: string
  pts_DeletionPolicy :: string

record NiFiProcessorSpec =
  prs_ClusterRef :: ClusterReference
  prs_ParentProcessGroupRef :: ProcessGroupReference
  prs_Type :: string
  prs_DisplayName :: string
  prs_Bundle :: "Bundle option"
  prs_Position :: "SpecPosition option"
  prs_Properties :: go_map
  prs_SensitiveProperties :: "(string \<times> SensitivePropertySource) list"
  prs_AutoTerminatedRelationships :: "string list"
  prs_Scheduling :: ComponentScheduling
  prs_State :: string
  prs_DeletionPolicy :: string
  prs_AdoptionPolicy :: AdoptionPolicy

record ConnectableReference =
  cnr_Type :: string
  cnr_Name :: string
  cnr_Namespace :: string
  cnr_NiFiID :: string
  cnr_PortName :: string

record NiFiConnectionSpec =
  cos_ClusterRef :: ClusterReference
  cos_ParentProcessGroupRef :: ProcessGroupReference
  cos_Source :: ConnectableReference
  cos_Destination :: ConnectableReference
  cos_SelectedRelationships :: "string list"
  cos_BackPressureObjectThreshold :: string
  cos_BackPressureDataSizeThreshold :: string
  cos_FlowFileExpiration :: string
  cos_Prioritizers :: "string list"
  cos_Bends :: "SpecPosition list"
  cos_LoadBalanceStrategy :: string
  cos_LoadBalancePartitionAttribute :: string
  cos_DeletionPolicy :: string

record NiFiProcessGroupSpec =
  pgs_ClusterRef :: ClusterReference
  pgs_ParentProcessGroupRef :: ProcessGroupReference
  pgs_DisplayName :: string
  pgs_Comments :: string
  pgs_Position :: "SpecPosition option"
  pgs_ParameterContextRef :: "LocalObjectReference option"
  pgs_DeletionPolicy :: string
  pgs_AdoptionPolicy :: AdoptionPolicy

record NiFiControllerServiceSpec =
  css_ClusterRef :: ClusterReference
  css_ParentProcessGroupRef :: ProcessGroupReference
  css_Type :: string
  css_Bundle :: "Bundle option"
  css_Properties :: go_map
  css_SensitiveProperties :: "(string \<times> SensitivePropertySource) list"
  css_ParameterContextRef :: "LocalObjectReference option"
  css_State :: string
  css_DeletionPolicy :: string
  css_AdoptionPolicy :: AdoptionPolicy

record NiFiReportingTaskSpec =
  rts_ClusterRef :: ClusterReference
  rts_Type :: string
  rts_Bundle :: "Bundle option"
  rts_Properties :: go_map
  rts_SensitiveProperties :: "(string \<times> SensitivePropertySource) list"
  rts_Scheduling :: ComponentScheduling
  rts_State :: string
  rts_DeletionPolicy :: string
  rts_AdoptionPolicy :: AdoptionPolicy

record NiFiParameterProviderSpec =
  pps_ClusterRef :: ClusterReference
  pps_Type :: string
  pps_Bundle :: "Bundle option"
  pps_Properties :: go_map
  pps_SensitiveProperties :: "(string \<times> SensitivePropertySource) list"
  pps_DeletionPolicy :: string
  pps_AdoptionPolicy :: AdoptionPolicy

section \<open>Comparisons\<close>

definition nifiPositionsEqual :: "Position option \<Rightarrow> Position option \<Rightarrow> bool" where
  "nifiPositionsEqual left right = (case (left, right) of
      (Some l, Some r) \<Rightarrow> float_eq (po_X l) (po_X r) \<and> float_eq (po_Y l) (po_Y r)
    | _ \<Rightarrow> left = None \<and> right = None)"

fun nifiPositionSlicesEqual :: "Position list \<Rightarrow> Position list \<Rightarrow> bool" where
  "nifiPositionSlicesEqual [] [] = True"
| "nifiPositionSlicesEqual (l # ls) (r # rs) = (if \<not> float_eq (po_X l) (po_X r) \<or> \<not> float_eq (po_Y l) (po_Y r) then False else nifiPositionSlicesEqual ls rs)"
| "nifiPositionSlicesEqual _ _ = False"

definition nifiBundlesEqual :: "Bundle option \<Rightarrow> Bundle option \<Rightarrow> bool" where
  "nifiBundlesEqual left right = (case (left, right) of
      (Some l, Some r) \<Rightarrow> bu_Group l = bu_Group r \<and> bu_Artifact l = bu_Artifact r \<and> bu_Version l = bu_Version r
    | _ \<Rightarrow> left = None \<and> right = None)"

definition bundleDiffers :: "Bundle option \<Rightarrow> Bundle option \<Rightarrow> bool" where
  "bundleDiffers desired existing \<longleftrightarrow> desired \<noteq> None \<and> \<not> nifiBundlesEqual desired existing"

definition stringMapsEqual :: "go_map \<Rightarrow> go_map \<Rightarrow> bool" where
  "stringMapsEqual left right \<longleftrightarrow>
     length (map_keys left) = length (map_keys right) \<and> list_all (\<lambda>k. map_get right k = map_get left k) (map_keys left)"

definition managedPropertiesDiffer :: "go_map \<Rightarrow> go_map \<Rightarrow> string list \<Rightarrow> bool" where
  "managedPropertiesDiffer desired existing sensitiveKeys \<longleftrightarrow>
     list_ex (\<lambda>k. k \<notin> set sensitiveKeys \<and> map_get existing k \<noteq> map_get desired k) (map_keys desired)"

definition sensitivePropertyKeys :: "(string \<times> SensitivePropertySource) list \<Rightarrow> string list" where
  "sensitivePropertyKeys props = map fst props"

fun stringSlicesEqual :: "string list \<Rightarrow> string list \<Rightarrow> bool" where
  "stringSlicesEqual [] [] = True"
| "stringSlicesEqual (l # ls) (r # rs) = (if l \<noteq> r then False else stringSlicesEqual ls rs)"
| "stringSlicesEqual _ _ = False"

definition entityID :: "('c \<Rightarrow> string) \<Rightarrow> 'c entity \<Rightarrow> string" where
  "entityID component_id entity = (if en_ID entity \<noteq> '''' then en_ID entity else component_id (en_Component entity))"

definition processorEntityID :: "ProcessorEntity \<Rightarrow> string" where "processorEntityID = entityID prc_ID"
definition funnelEntityID :: "FunnelEntity \<Rightarrow> string" where "funnelEntityID = entityID fuc_ID"
definition labelEntityID :: "LabelEntity \<Rightarrow> string" where "labelEntityID = entityID lac_ID"
definition controllerServiceEntityID :: "ControllerServiceEntity \<Rightarrow> string" where "controllerServiceEntityID = entityID csc_ID"
definition ReportingTaskEntityID :: "ReportingTaskEntity \<Rightarrow> string" where "ReportingTaskEntityID = entityID rtc_ID"
definition ParameterProviderEntityID :: "ParameterProviderEntity \<Rightarrow> string" where "ParameterProviderEntityID = entityID ppc_ID"
definition registryClientEntityID :: "RegistryClientEntity \<Rightarrow> string" where "registryClientEntityID = entityID rcc_ID"

definition portEntityID :: "PortEntity \<Rightarrow> string" where
  "portEntityID entity = (if pt_ID entity \<noteq> '''' then pt_ID entity else ptc_ID (pt_Component entity))"

definition connectionEntityID :: "ConnectionEntity \<Rightarrow> string" where
  "connectionEntityID entity = (if ce_ID entity \<noteq> '''' then ce_ID entity else cc_ID (ce_Component entity))"

definition pinned_differs :: "string \<Rightarrow> string \<Rightarrow> bool" where
  \<comment> \<open>\<open>desired != "" && desired != existing\<close>\<close>
  "pinned_differs desired existing \<longleftrightarrow> desired \<noteq> '''' \<and> desired \<noteq> existing"

definition processGroupNeedsUpdate :: "ProcessGroupEntity \<Rightarrow> ProcessGroupEntity \<Rightarrow> bool" where
  "processGroupNeedsUpdate desired existing \<longleftrightarrow>
     (let d = pg_Component desired; e = pg_Component existing in
      if pgc_Name d \<noteq> pgc_Name e \<or> pgc_Comments d \<noteq> pgc_Comments e \<or>
         pgc_ParentGroupID d \<noteq> '''' \<and> pgc_ParentGroupID d \<noteq> pgc_ParentGroupID e then True
      else if \<not> nifiPositionsEqual (pgc_Position d) (pgc_Position e) then True
      else componentReferenceID (pgc_ParameterContext d) \<noteq> componentReferenceID (pgc_ParameterContext e))"

definition funnelNeedsUpdate :: "FunnelEntity \<Rightarrow> FunnelEntity \<Rightarrow> bool" where
  "funnelNeedsUpdate desired existing \<longleftrightarrow>
     (let d = en_Component desired; e = en_Component existing in
      if pinned_differs (fuc_ParentGroupID d) (fuc_ParentGroupID e) then True
      else \<not> nifiPositionsEqual (fuc_Position d) (fuc_Position e))"

definition labelNeedsUpdate :: "LabelEntity \<Rightarrow> LabelEntity \<Rightarrow> bool" where
  "labelNeedsUpdate desired existing \<longleftrightarrow>
     (let d = en_Component desired; e = en_Component existing in
      if pinned_differs (lac_ParentGroupID d) (lac_ParentGroupID e) then True
      else if lac_Label d \<noteq> lac_Label e \<or> \<not> float_eq (lac_Width d) (lac_Width e) \<or> \<not> float_eq (lac_Height d) (lac_Height e) then True
      else if \<not> nifiPositionsEqual (lac_Position d) (lac_Position e) then True
      else \<not> stringMapsEqual (lac_Style d) (lac_Style e))"

definition portNeedsUpdate :: "PortEntity \<Rightarrow> PortEntity \<Rightarrow> bool" where
  "portNeedsUpdate desired existing \<longleftrightarrow>
     (let d = pt_Component desired; e = pt_Component existing in
      if ptc_Name d \<noteq> ptc_Name e \<or> pinned_differs (ptc_ParentGroupID d) (ptc_ParentGroupID e) \<or>
         ptc_ConcurrentlySchedulableTaskCount d \<noteq> ptc_ConcurrentlySchedulableTaskCount e then True
      else \<not> nifiPositionsEqual (ptc_Position d) (ptc_Position e))"

definition processorConfigNeedsUpdate :: "ProcessorConfig \<Rightarrow> ProcessorConfig \<Rightarrow> string list \<Rightarrow> bool" where
  "processorConfigNeedsUpdate desired existing sensitiveKeys \<longleftrightarrow>
     (if pcf_SchedulingStrategy desired \<noteq> pcf_SchedulingStrategy existing \<or> pcf_SchedulingPeriod desired \<noteq> pcf_SchedulingPeriod existing \<or>
         pcf_ConcurrentlySchedulableTaskCount desired \<noteq> pcf_ConcurrentlySchedulableTaskCount existing then True
      else if managedPropertiesDiffer (pcf_Properties desired) (pcf_Properties existing) sensitiveKeys then True
      else \<not> stringSlicesEqual (pcf_AutoTerminatedRelationships desired) (pcf_AutoTerminatedRelationships existing))"

definition processorNeedsUpdate :: "ProcessorEntity \<Rightarrow> ProcessorEntity \<Rightarrow> string list \<Rightarrow> bool" where
  "processorNeedsUpdate desired existing sensitiveKeys \<longleftrightarrow>
     (let d = en_Component desired; e = en_Component existing in
      if prc_Name d \<noteq> prc_Name e \<or> prc_Type d \<noteq> prc_Type e \<or> pinned_differs (prc_ParentGroupID d) (prc_ParentGroupID e) then True
      else if \<not> nifiPositionsEqual (prc_Position d) (prc_Position e) then True
      else if bundleDiffers (prc_Bundle d) (prc_Bundle e) then True
      else processorConfigNeedsUpdate (prc_Config d) (prc_Config e) sensitiveKeys)"

definition connectionNeedsUpdate :: "ConnectionEntity \<Rightarrow> ConnectionEntity \<Rightarrow> bool" where
  "connectionNeedsUpdate desired existing \<longleftrightarrow>
     (let d = ce_Component desired; e = ce_Component existing in
      if cc_BackPressureObjectThreshold d \<noteq> 0 \<and> cc_BackPressureObjectThreshold d \<noteq> cc_BackPressureObjectThreshold e then True
      else if pinned_differs (cc_BackPressureDataSizeThreshold d) (cc_BackPressureDataSizeThreshold e) then True
      else if pinned_differs (cc_FlowFileExpiration d) (cc_FlowFileExpiration e) then True
      else if pinned_differs (cc_LoadBalanceStrategy d) (cc_LoadBalanceStrategy e) then True
      else if pinned_differs (cc_LoadBalancePartitionAttribute d) (cc_LoadBalancePartitionAttribute e) then True
      else if cc_SelectedRelationships d \<noteq> [] \<and> \<not> stringSlicesEqual (cc_SelectedRelationships d) (cc_SelectedRelationships e) then True
      else if cc_Prioritizers d \<noteq> [] \<and> \<not> stringSlicesEqual (cc_Prioritizers d) (cc_Prioritizers e) then True
      else cc_Bends d \<noteq> [] \<and> \<not> nifiPositionSlicesEqual (cc_Bends d) (cc_Bends e))"

definition controllerServiceNeedsUpdate :: "ControllerServiceEntity \<Rightarrow> ControllerServiceEntity \<Rightarrow> string list \<Rightarrow> bool" where
  "controllerServiceNeedsUpdate desired existing sensitiveKeys \<longleftrightarrow>
     (let d = en_Component desired; e = en_Component existing in
      if csc_Name d \<noteq> csc_Name e \<or> csc_Type d \<noteq> csc_Type e \<or> pinned_differs (csc_ParentGroupID d) (csc_ParentGroupID e) then True
      else if bundleDiffers (csc_Bundle d) (csc_Bundle e) then True
      else managedPropertiesDiffer (csc_Properties d) (csc_Properties e) sensitiveKeys)"

definition reportingTaskNeedsUpdate :: "ReportingTaskEntity \<Rightarrow> ReportingTaskEntity \<Rightarrow> string list \<Rightarrow> bool" where
  "reportingTaskNeedsUpdate desired existing sensitiveKeys \<longleftrightarrow>
     (let d = en_Component desired; e = en_Component existing in
      if rtc_Name d \<noteq> rtc_Name e \<or> rtc_Type d \<noteq> rtc_Type e \<or>
         pinned_differs (rtc_SchedulingStrategy d) (rtc_SchedulingStrategy e) \<or>
         pinned_differs (rtc_SchedulingPeriod d) (rtc_SchedulingPeriod e) then True
      else if bundleDiffers (rtc_Bundle d) (rtc_Bundle e) then True
      else managedPropertiesDiffer (rtc_Properties d) (rtc_Properties e) sensitiveKeys)"

definition parameterProviderNeedsUpdate :: "ParameterProviderEntity \<Rightarrow> ParameterProviderEntity \<Rightarrow> string list \<Rightarrow> bool" where
  "parameterProviderNeedsUpdate desired existing sensitiveKeys \<longleftrightarrow>
     (let d = en_Component desired; e = en_Component existing in
      if ppc_Name d \<noteq> ppc_Name e \<or> ppc_Type d \<noteq> ppc_Type e then True
      else if bundleDiffers (ppc_Bundle d) (ppc_Bundle e) then True
      else managedPropertiesDiffer (ppc_Properties d) (ppc_Properties e) sensitiveKeys)"

definition registryClientNeedsUpdate :: "RegistryClientEntity \<Rightarrow> RegistryClientEntity \<Rightarrow> string list \<Rightarrow> bool" where
  "registryClientNeedsUpdate desired existing sensitiveKeys \<longleftrightarrow>
     (let d = en_Component desired; e = en_Component existing in
      if rcc_Name d \<noteq> rcc_Name e \<or> rcc_Type d \<noteq> rcc_Type e \<or> rcc_Description d \<noteq> rcc_Description e then True
      else managedPropertiesDiffer (rcc_Properties d) (rcc_Properties e) sensitiveKeys)"

section \<open>Pure parts of the desired entities\<close>

definition float64_of_int :: "int \<Rightarrow> float64" where
  \<comment> \<open>the conversion \<open>float64(n)\<close>\<close>
  "float64_of_int n = (if n = 0 then Float64 0 0
     else case round_double \<bar>n\<bar> 1 of Some (q, k) \<Rightarrow> strip_twos 54 (sgn n * q) k | None \<Rightarrow> Float64 0 0)"

definition nifi_position :: "SpecPosition \<Rightarrow> Position" where
  "nifi_position p = \<lparr>po_X = float64_of_int (sp_X p), po_Y = float64_of_int (sp_Y p)\<rparr>"

definition nifiScheduledState :: "string \<Rightarrow> string" where
  "nifiScheduledState state =
     (if state = ''Running'' then ''RUNNING'' else if state = ''Stopped'' then ''STOPPED''
      else if state = ''Enabled'' then ''ENABLED'' else if state = ''Disabled'' then ''DISABLED'' else '''')"

definition ReportingTaskRunState :: "bool \<Rightarrow> string" where
  "ReportingTaskRunState enabled = (if enabled then ''RUNNING'' else ''STOPPED'')"

definition controllerServiceStateSatisfied :: "string \<Rightarrow> string \<Rightarrow> bool" where
  "controllerServiceStateSatisfied current desired \<longleftrightarrow>
     (if desired = ''ENABLED'' then current = ''ENABLED'' \<or> current = ''ENABLING''
      else if desired = ''DISABLED'' then current = ''DISABLED'' \<or> current = ''DISABLING''
      else current = desired)"

definition nifiConnectableType :: "string \<Rightarrow> string" where
  "nifiConnectableType connectableType =
     (if connectableType = ''Processor'' then ''PROCESSOR''
      else if connectableType = ''InputPort'' then ''INPUT_PORT''
      else if connectableType = ''OutputPort'' then ''OUTPUT_PORT''
      else if connectableType = ''Funnel'' then ''FUNNEL''
      else if connectableType = ''RemoteInputPort'' then ''REMOTE_INPUT_PORT''
      else if connectableType = ''RemoteOutputPort'' then ''REMOTE_OUTPUT_PORT''
      else '''')"

definition ParseInt64 :: "string \<Rightarrow> int option" where
  \<comment> \<open>\<open>strconv.ParseInt(s, 10, 64)\<close>: an optional sign and decimal digits within the range of int64\<close>
  "ParseInt64 s =
     (let signed = (s \<noteq> [] \<and> (hd s = CHR ''-'' \<or> hd s = CHR ''+'')); ds = (if signed then tl s else s);
          n = (if s \<noteq> [] \<and> hd s = CHR ''-'' then - digits_value ds else digits_value ds)
      in if ds = [] \<or> \<not> list_all is_digit ds \<or> n < - (2 ^ 63) \<or> 2 ^ 63 \<le> n then None else Some n)"

definition parseBackPressureObjectThreshold :: "string \<Rightarrow> int" where
  "parseBackPressureObjectThreshold value =
     (let value = TrimSpace value in
      if value = '''' then 0 else case ParseInt64 value of None \<Rightarrow> 0 | Some parsed \<Rightarrow> parsed)"

definition desiredPort :: "string \<Rightarrow> SpecPosition option \<Rightarrow> int \<Rightarrow> string \<Rightarrow> PortEntity" where
  "desiredPort name position concurrentlySchedulableTaskCount parentID =
     \<lparr>pt_ID = '''', pt_Revision = \<lparr>re_Version = 0\<rparr>,
      pt_Component = \<lparr>ptc_ID = '''', ptc_ParentGroupID = parentID, ptc_Name = name,
        ptc_Position = map_option nifi_position position, ptc_State = '''',
        ptc_ConcurrentlySchedulableTaskCount = concurrentlySchedulableTaskCount, ptc_ValidationStatus = ''''\<rparr>\<rparr>"

definition new_entity :: "'c \<Rightarrow> 'c entity" where
  "new_entity component = \<lparr>en_ID = '''', en_Revision = \<lparr>re_Version = 0\<rparr>, en_Component = component\<rparr>"

end
