(* ===== verification/Flow_Controller.thy ===== *)
theory Flow_Controller
  imports Flow_Snapshot Object_Access Component_Diff
begin

text \<open>
  The top level of the flow deployment controller (\<open>NiFiFlowDeploymentReconciler.Reconcile\<close> of
  \<open>internal/controller/phase1_controllers.go\<close>): finalizer, deletion, dependencies, source
  resolution, the dispatch to dry runs and snapshot deployments, and the reconcile of a plain process
  group when the source has no snapshot. What \<open>resolvedFlowArtifact\<close> fetches (Git, OCI, NiFi
  Registry) and whether the HTTP client of a cluster can be configured are answers of the environment.
\<close>

section \<open>Calls\<close>

definition UpdateObject :: "fenv \<Rightarrow> go_error option fhandler" where
  \<comment> \<open>\<open>c.Update(ctx, obj)\<close>\<close>
  "UpdateObject E = do { d \<leftarrow> get_obj; ext_call (CUpdate d) (fe_Update E d) }"
definition GetFlowDeployment :: "fenv \<Rightarrow> NiFiFlowDeployment go_result fhandler" where
  "GetFlowDeployment E = ext_call CGetFlowDeployment (fe_GetFlowDeployment E)"
definition GetCluster :: "fenv \<Rightarrow> string \<Rightarrow> string \<Rightarrow> NiFiCluster go_result fhandler" where
  "GetCluster E ns n = ext_call (CGetCluster ns n) (fe_GetCluster E ns n)"
definition configureClusterHTTPClient :: "fenv \<Rightarrow> NiFiCluster \<Rightarrow> go_error option fhandler" where
  "configureClusterHTTPClient E cluster = ext_call (CConfigureClusterHTTPClient cluster) (fe_ConfigureClusterHTTPClient E cluster)"
definition GetProcessGroupObject :: "fenv \<Rightarrow> string \<Rightarrow> string \<Rightarrow> NiFiObject go_result fhandler" where
  "GetProcessGroupObject E ns n = ext_call (CGetProcessGroupObject ns n) (fe_GetProcessGroupObject E ns n)"
definition GetRegistryClient :: "fenv \<Rightarrow> string \<Rightarrow> string \<Rightarrow> NiFiObject go_result fhandler" where
  "GetRegistryClient E ns n = ext_call (CGetRegistryClient ns n) (fe_GetRegistryClient E ns n)"
definition GetFlowBundle :: "fenv \<Rightarrow> string \<Rightarrow> string \<Rightarrow> NiFiFlowBundle go_result fhandler" where
  "GetFlowBundle E ns n = ext_call (CGetFlowBundle ns n) (fe_GetFlowBundle E ns n)"
definition resolvedFlowArtifact :: "fenv \<Rightarrow> string \<Rightarrow> FlowBundleSource \<Rightarrow> string \<Rightarrow> (string \<times> string \<times> string) go_result fhandler" where
  "resolvedFlowArtifact E ns source targetName = ext_call (CResolveFlowArtifact ns source targetName) (fe_ResolveFlowArtifact E ns source targetName)"

lemmas controller_call_defs [wp_simps] = GetFlowDeployment_def GetCluster_def configureClusterHTTPClient_def
  GetProcessGroupObject_def GetRegistryClient_def GetFlowBundle_def resolvedFlowArtifact_def

lemma wp_UpdateObject [wp_simps]:
  "wp (UpdateObject E) Q s = Q (fe_Update E (obj s) (calls s)) (s\<lparr>calls := calls s @ [CUpdate (obj s)]\<rparr>)"
  by (simp add: UpdateObject_def wp_simps)

lemma wp_UpdateObjectI: "Q (fe_Update E (obj s) (calls s)) (s\<lparr>calls := calls s @ [CUpdate (obj s)]\<rparr>) \<Longrightarrow> wp (UpdateObject E) Q s"
  by (simp add: wp_UpdateObject)

section \<open>Clusters and dependencies\<close>

definition upd_finalizers :: "(string list \<Rightarrow> string list) \<Rightarrow> NiFiFlowDeployment \<Rightarrow> NiFiFlowDeployment" where
  "upd_finalizers f d = d\<lparr>fd_Finalizers := f (fd_Finalizers d)\<rparr>"

lemma upd_finalizers_simps [simp]:
  "fd_Finalizers (upd_finalizers f d) = f (fd_Finalizers d)" "fd_Status (upd_finalizers f d) = fd_Status d"
  by (simp_all add: upd_finalizers_def)

definition flowBundleDependencyWaitingFor :: "fenv \<Rightarrow> string \<Rightarrow> LocalObjectReference option \<Rightarrow> string \<Rightarrow> string list fhandler" where
  "flowBundleDependencyWaitingFor E namespace ref fieldPath = (case ref of
      None \<Rightarrow> ret []
    | Some ref \<Rightarrow>
       (if lr_Name ref = '''' then ret [fieldPath @ ''.name'']
        else do {
          let refNamespace = localObjectRefNamespace namespace ref;
          r \<leftarrow> GetFlowBundle E refNamespace (lr_Name ref);
          ret (waiting_name ''NiFiFlowBundle'' refNamespace (lr_Name ref) (map_sum id fbn_Ready r)) }))"

definition flowBundleSourceDependenciesWaitingFor :: "fenv \<Rightarrow> string \<Rightarrow> FlowBundleSource option \<Rightarrow> string \<Rightarrow> string list fhandler" where
  "flowBundleSourceDependenciesWaitingFor E namespace source fieldPath = (case source of
      None \<Rightarrow> ret []
    | Some source \<Rightarrow> (case fb_Registry source of
          None \<Rightarrow> ret []
        | Some registry \<Rightarrow> registryClientDependencyWaitingFor (GetRegistryClient E) namespace (rg_RegistryClientRef registry) (fieldPath @ ''.registry.registryClientRef'')))"

definition flowDeploymentDependenciesWaitingFor :: "fenv \<Rightarrow> string list fhandler" where
  "flowDeploymentDependenciesWaitingFor E = do {
     d \<leftarrow> get_obj;
     let ns = fd_Namespace d;
     let spec = fd_Spec d;
     bundle \<leftarrow> flowBundleDependencyWaitingFor E ns (fs_BundleRef (fsp_Source spec)) ''source.bundleRef'';
     inline \<leftarrow> flowBundleSourceDependenciesWaitingFor E ns (fs_Inline (fsp_Source spec)) ''source.inline'';
     parent \<leftarrow> processGroupReferenceDependencyWaitingFor (GetProcessGroupObject E) ns (ft_ParentProcessGroupRef (fsp_Target spec));
     context \<leftarrow> parameterContextDependencyWaitingFor (GetParameterContext E) ns (fsp_ParameterContextRef spec) ''parameterContextRef'';
     ret (bundle @ inline @ parent @ context) }"

section \<open>Sources\<close>

definition first_nonempty :: "string list \<Rightarrow> string" where
  \<comment> \<open>successive \<open>if version == "" { version = ... }\<close>\<close>
  "first_nonempty vs = (case filter (\<lambda>v. v \<noteq> '''') vs of [] \<Rightarrow> '''' | v # _ \<Rightarrow> v)"

definition resolvedFlowDeploymentSnapshot :: "fenv \<Rightarrow> (string \<times> string \<times> string) go_result fhandler" where
  \<comment> \<open>snapshot, version, digest; the empty snapshot is nil\<close>
  "resolvedFlowDeploymentSnapshot E = do {
     deployment \<leftarrow> get_obj;
     let source = fsp_Source (fd_Spec deployment);
     let resolve = (\<lambda>src ns expectedDigest versions. do {
       r \<leftarrow> resolvedFlowArtifact E ns src (ft_ProcessGroupName (fsp_Target (fd_Spec deployment)));
       ret (case r of
          Inl err \<Rightarrow> Inl err
        | Inr (snapshot, artifactRevision, digest) \<Rightarrow>
           (if expectedDigest \<noteq> '''' \<and> expectedDigest \<noteq> digest
            then Inl (errorf (''resolved artifact digest '' @ digest @ '' does not match ready bundle digest '' @ expectedDigest))
            else Inr (snapshot, first_nonempty (versions @ [artifactRevision, digest]), digest))) });
     (case fs_BundleRef source of
        Some ref \<Rightarrow> do {
          b \<leftarrow> GetFlowBundle E (localObjectRefNamespace (fd_Namespace deployment) ref) (lr_Name ref);
          (case b of
             Inl err \<Rightarrow> ret (Inl err)
           | Inr bundle \<Rightarrow> resolve (fbn_Source bundle) (fbn_Namespace bundle) (fbn_ArtifactDigest bundle)
                             [fs_Version source, fbn_ResolvedRevision bundle, fbn_Version bundle]) }
      | None \<Rightarrow> (case fs_Inline source of
            None \<Rightarrow> ret (Inr ('''', '''', ''''))
          | Some src \<Rightarrow> resolve src (fd_Namespace deployment) '''' [fs_Version source])) }"

definition flowDeploymentSourceMetadata :: "fenv \<Rightarrow> (string \<times> string) go_result fhandler" where
  \<comment> \<open>deployed version and artifact digest\<close>
  "flowDeploymentSourceMetadata E = do {
     deployment \<leftarrow> get_obj;
     let source = fsp_Source (fd_Spec deployment);
     let v = fs_Version source;
     (case fs_BundleRef source of
        Some ref \<Rightarrow> do {
          b \<leftarrow> GetFlowBundle E (localObjectRefNamespace (fd_Namespace deployment) ref) (lr_Name ref);
          ret (case b of
             Inl err \<Rightarrow> Inl err
           | Inr bundle \<Rightarrow> Inr (first_nonempty [v, fbn_ResolvedRevision bundle, fbn_Version bundle], fbn_ArtifactDigest bundle)) }
      | None \<Rightarrow> ret (Inr (case fs_Inline source of
            None \<Rightarrow> (v, '''')
          | Some inline \<Rightarrow> (case fb_Registry inline of
                Some registry \<Rightarrow> (first_nonempty [v, rg_Version registry, rg_FlowID registry], '''')
              | None \<Rightarrow> (case fb_Git inline of
                    Some git \<Rightarrow> (first_nonempty [v, git_Ref git], git_Path git)
                  | None \<Rightarrow> (case fb_OCI inline of
                        Some oci \<Rightarrow> (first_nonempty [v, oci_Digest oci], oci_Digest oci)
                      | None \<Rightarrow> (v, ''''))))))) }"

definition desired_group :: "NiFiFlowDeployment \<Rightarrow> string \<Rightarrow> string option \<Rightarrow> ProcessGroupEntity" where
  "desired_group flowDeployment parentID parameterContext =
     \<lparr>pg_ID = '''', pg_Revision = \<lparr>re_Version = 0\<rparr>,
      pg_Component = \<lparr>pgc_ID = '''', pgc_ParentGroupID = parentID,
        pgc_Name = or_default (ft_ProcessGroupName (fsp_Target (fd_Spec flowDeployment))) (fd_Name flowDeployment),
        pgc_Comments = ''Managed by NiFiControl FlowDeployment '' @ fd_Namespace flowDeployment @ ''/'' @ fd_Name flowDeployment @ ''.'',
        pgc_Position = None, pgc_ParameterContext = parameterContext\<rparr>,
      pg_RunningCount = 0, pg_StoppedCount = 0, pg_InvalidCount = 0, pg_DisabledCount = 0\<rparr>"

definition desiredFlowDeploymentProcessGroup :: "fenv \<Rightarrow> string \<Rightarrow> (ProcessGroupEntity \<times> string \<times> string) go_result fhandler" where
  "desiredFlowDeploymentProcessGroup E parentID = do {
     flowDeployment \<leftarrow> get_obj;
     let finish = (\<lambda>parameterContext. do {
       m \<leftarrow> flowDeploymentSourceMetadata E;
       ret (case m of
          Inl err \<Rightarrow> Inl err
        | Inr (deployedVersion, artifactDigest) \<Rightarrow>
            Inr (desired_group flowDeployment parentID parameterContext, deployedVersion, artifactDigest)) });
     (case fsp_ParameterContextRef (fd_Spec flowDeployment) of
        None \<Rightarrow> finish None
      | Some ref \<Rightarrow> do {
          p \<leftarrow> GetParameterContext E (localObjectRefNamespace (fd_Namespace flowDeployment) ref) (lr_Name ref);
          (case p of
             Inl err \<Rightarrow> ret (Inl err)
           | Inr parameterContext \<Rightarrow> finish (if no_NiFiID parameterContext \<noteq> '''' then Some (no_NiFiID parameterContext) else None)) }) }"

section \<open>A plain process group\<close>

definition report_failure :: "fenv \<Rightarrow> string \<Rightarrow> string \<Rightarrow> ctrl_result \<Rightarrow> ctrl_result \<Rightarrow> outcome fhandler" where
  \<comment> \<open>\<open>if shouldMark... { return r1, markFlowDeploymentNotReady(...) }; return r2, nil\<close>\<close>
  "report_failure E reason message r1 r2 = do {
     instance \<leftarrow> get_obj;
     (if shouldMarkFlowDeploymentNotReady instance reason message then do {
        u \<leftarrow> markFlowDeploymentNotReady E reason message;
        ret (r1, u) }
      else ret (r2, None)) }"

definition report_ready :: "fenv \<Rightarrow> string \<Rightarrow> int \<Rightarrow> string \<Rightarrow> string \<Rightarrow> outcome fhandler" where
  "report_ready E processGroupID revisionVersion deployedVersion artifactDigest = do {
     instance \<leftarrow> get_obj;
     (if \<not> flowDeploymentStatusMatches instance processGroupID revisionVersion deployedVersion artifactDigest ''ProcessGroupReconciled'' then do {
        u \<leftarrow> markFlowDeploymentReady E processGroupID revisionVersion deployedVersion artifactDigest ''ProcessGroupReconciled'';
        ret (no_result, u) }
      else ret (no_result, None)) }"

definition reconcileExistingFlowDeploymentProcessGroup ::
  "fenv \<Rightarrow> ProcessGroupEntity \<Rightarrow> ProcessGroupEntity option \<Rightarrow> string \<Rightarrow> string \<Rightarrow> outcome fhandler" where
  "reconcileExistingFlowDeploymentProcessGroup E desired existing deployedVersion artifactDigest = (case existing of
      None \<Rightarrow> report_failure E ''NiFiGetFailed'' ''NiFi returned an empty flow deployment process group response.'' (requeue_after 30) (requeue_after 30)
    | Some existing \<Rightarrow>
       (let processGroupID = processGroupEntityID existing in
        if processGroupNeedsUpdate desired existing then do {
          r \<leftarrow> UpdateProcessGroup E (desired\<lparr>pg_ID := processGroupID, pg_Component := (pg_Component desired)\<lparr>pgc_ID := processGroupID\<rparr>,
                 pg_Revision := \<lparr>re_Version = re_Version (pg_Revision existing)\<rparr>\<rparr>);
          (case r of
             Inl err \<Rightarrow> report_failure E ''NiFiUpdateFailed'' (''Failed to update NiFi flow deployment process group: '' @ err_text err)
                          (requeue_after 30) (requeue_after 30)
           | Inr (Some updated) \<Rightarrow> do {
               u \<leftarrow> markFlowDeploymentReady E (processGroupEntityID updated) (re_Version (pg_Revision updated)) deployedVersion artifactDigest ''ProcessGroupReconciled'';
               ret (no_result, u) }
           | Inr None \<Rightarrow> report_ready E processGroupID (re_Version (pg_Revision existing)) deployedVersion artifactDigest) }
        else report_ready E processGroupID (re_Version (pg_Revision existing)) deployedVersion artifactDigest))"

definition reconcilePlainProcessGroup :: "fenv \<Rightarrow> string \<Rightarrow> outcome fhandler" where
  \<comment> \<open>the tail of \<open>Reconcile\<close>: the source resolves to no snapshot\<close>
  "reconcilePlainProcessGroup E parentID = do {
     instance \<leftarrow> get_obj;
     p \<leftarrow> desiredFlowDeploymentProcessGroup E parentID;
     (case p of
        Inl err \<Rightarrow> ret (no_result, Some err)
      | Inr (entity, deployedVersion, artifactDigest) \<Rightarrow>
         (if st_ProcessGroupID (fd_Status instance) \<noteq> '''' then do {
            g \<leftarrow> GetProcessGroup E (st_ProcessGroupID (fd_Status instance));
            (case g of
               Inl err \<Rightarrow> report_failure E ''NiFiGetFailed'' (''Failed to get NiFi flow deployment process group: '' @ err_text err)
                            (requeue_after 30) (requeue_after 30)
             | Inr existing \<Rightarrow> reconcileExistingFlowDeploymentProcessGroup E entity existing deployedVersion artifactDigest) }
          else if ap_Mode (fsp_AdoptionPolicy (fd_Spec instance)) = ''AdoptById'' \<and> ap_NiFiID (fsp_AdoptionPolicy (fd_Spec instance)) \<noteq> '''' then do {
            g \<leftarrow> GetProcessGroup E (ap_NiFiID (fsp_AdoptionPolicy (fd_Spec instance)));
            (case g of
               Inl err \<Rightarrow> report_failure E ''AdoptionFailed'' (''Failed to adopt NiFi flow deployment process group: '' @ err_text err)
                            (requeue_after 30) (requeue_after 30)
             | Inr existing \<Rightarrow> reconcileExistingFlowDeploymentProcessGroup E entity existing deployedVersion artifactDigest) }
          else do {
            c \<leftarrow> CreateProcessGroup E parentID entity;
            (case c of
               Inl err \<Rightarrow> report_failure E ''NiFiCreateFailed'' (''Failed to create NiFi flow deployment process group: '' @ err_text err)
                            (requeue_after 30) (requeue_after 30)
             | Inr None \<Rightarrow> report_failure E ''NiFiCreateFailed'' ''NiFi returned an empty flow deployment process group response.''
                            (requeue_after 30) (requeue_after 30)
             | Inr (Some created) \<Rightarrow>
                 report_ready E (processGroupEntityID created) (re_Version (pg_Revision created)) deployedVersion artifactDigest) })) }"

section \<open>Deletion\<close>

definition finish_deletion :: "fenv \<Rightarrow> outcome fhandler" where
  "finish_deletion E = do { r \<leftarrow> removeFinalizer fd_Finalizers upd_finalizers (UpdateObject E); ret (no_result, snd r) }"

definition deleteFlowDeploymentGroup :: "fenv \<Rightarrow> string \<Rightarrow> outcome fhandler" where
  "deleteFlowDeploymentGroup E processGroupID = do {
     instance \<leftarrow> get_obj;
     g \<leftarrow> GetProcessGroup E processGroupID;
     (case g of
        Inl err \<Rightarrow> (if IsNotFound err then finish_deletion E else ret (requeue_after 30, Some err))
      | Inr current \<Rightarrow> do {
          let revision = (case current of Some c \<Rightarrow> re_Version (pg_Revision c) | None \<Rightarrow> rv_Version (cs_Revision (st_Common (fd_Status instance))));
          d \<leftarrow> DeleteProcessGroup E processGroupID revision;
          (case d of
             Some err \<Rightarrow> (if \<not> IsNotFound err then ret (requeue_after 30, Some err) else finish_deletion E)
           | None \<Rightarrow> finish_deletion E) }) }"

definition deletion_target :: "NiFiFlowDeployment \<Rightarrow> string" where
  "deletion_target instance = (if fsp_DeletionPolicy (fd_Spec instance) \<noteq> ''Delete'' then ''''
     else if st_ProcessGroupID (fd_Status instance) = '''' then cs_NiFiID (st_Common (fd_Status instance))
     else st_ProcessGroupID (fd_Status instance))"

definition reconcileFlowDeploymentDelete :: "fenv \<Rightarrow> outcome fhandler" where
  "reconcileFlowDeploymentDelete E = do {
     instance \<leftarrow> get_obj;
     let processGroupID = deletion_target instance;
     let validationPGID = st_ValidationProcessGroupID (fd_Status instance);
     (if fsp_DeletionPolicy (fd_Spec instance) \<noteq> ''Delete'' \<and> validationPGID = '''' then finish_deletion E
      else if processGroupID = '''' \<and> validationPGID = '''' then finish_deletion E
      else do {
        c \<leftarrow> clusterForDeletion (GetCluster E) (configureClusterHTTPClient E) cl_Ready cl_Deleting (fd_Namespace instance) (fsp_ClusterRef (fd_Spec instance));
        (case c of
           Inl err \<Rightarrow> ret (no_result, Some err)
         | Inr (cluster, gone) \<Rightarrow>
            (if gone then finish_deletion E
             else (case cluster of
                None \<Rightarrow> ret (requeue_after 30, None)
              | Some cluster \<Rightarrow>
                 (if clusterEndpoint cluster = '''' then ret (requeue_after 30, None)
                  else do {
                    (if validationPGID \<noteq> '''' then deleteValidationProcessGroup E validationPGID else ret ());
                    (if processGroupID = '''' then finish_deletion E
                     else deleteFlowDeploymentGroup E processGroupID) })))) }) }"

section \<open>Reconcile\<close>

definition dispatchFlowDeployment :: "fenv \<Rightarrow> string \<Rightarrow> outcome fhandler" where
  "dispatchFlowDeployment E parentID = do {
     instance \<leftarrow> get_obj;
     r \<leftarrow> resolvedFlowDeploymentSnapshot E;
     (case r of
        Inl err \<Rightarrow> report_failure E ''InvalidFlowSnapshot'' (''Failed to resolve flow snapshot: '' @ err_text err) no_result no_result
      | Inr (snapshot, snapshotVersion, snapshotDigest) \<Rightarrow>
         (if fsp_ValidateOnly (fd_Spec instance) then
            (if snapshot = '''' then report_failure E ''ValidateOnlyRequiresSnapshot''
                 ''validateOnly requires a source that resolves to a flow snapshot (inline or bundleRef).'' no_result no_result
             else reconcileFlowValidation E parentID snapshot snapshotVersion snapshotDigest)
          else if snapshot \<noteq> '''' then reconcileSnapshotFlowDeployment E parentID snapshot snapshotVersion snapshotDigest
          else reconcilePlainProcessGroup E parentID)) }"

definition reconcileReady :: "fenv \<Rightarrow> NiFiCluster \<Rightarrow> outcome fhandler" where
  "reconcileReady E cluster = do {
     instance \<leftarrow> get_obj;
     (if clusterEndpoint cluster = '''' then
        report_failure E ''ClusterEndpointMissing'' ''Referenced NiFiCluster is ready but does not expose a NiFi API endpoint.''
          no_result (requeue_after 30)
      else do {
        p \<leftarrow> processGroupParentID (GetProcessGroupObject E) (fd_Namespace instance) cluster (ft_ParentProcessGroupRef (fsp_Target (fd_Spec instance)));
        (case p of
           Inl err \<Rightarrow> ret (no_result, Some err)
         | Inr parentID \<Rightarrow>
            (if parentID = '''' then
               report_failure E ''ParentProcessGroupIDMissing'' ''The target parent process group ID is not available yet.'' no_result (requeue_after 30)
             else dispatchFlowDeployment E parentID)) }) }"

definition Reconcile :: "fenv \<Rightarrow> outcome fhandler" where
  "Reconcile E = do {
     g \<leftarrow> GetFlowDeployment E;
     (case g of
        Inl err \<Rightarrow> ret (no_result, if IsNotFound err then None else Some err)
      | Inr instance \<Rightarrow> do {
          upd_obj (\<lambda>_. instance);
          (if fd_Deleting instance then reconcileFlowDeploymentDelete E
           else do {
             f \<leftarrow> ensureFinalizer fd_Finalizers upd_finalizers (UpdateObject E);
             (if snd f \<noteq> None \<or> fst f then ret (no_result, snd f)
              else do {
                c \<leftarrow> readyClusterForReference (GetCluster E) (configureClusterHTTPClient E) cl_Ready (fd_Namespace instance) (fsp_ClusterRef (fd_Spec instance));
                (case c of
                   Inl err \<Rightarrow> ret (no_result, Some err)
                 | Inr (cluster, clusterWaiting) \<Rightarrow> do {
                     deps \<leftarrow> flowDeploymentDependenciesWaitingFor E;
                     let waitingFor = clusterWaiting @ deps;
                     let common = st_Common (fd_Status instance);
                     (if waitingFor \<noteq> [] then
                        (if cs_ObservedGeneration common \<noteq> fd_Generation instance \<or> dp_Ready (cs_Dependencies common) \<or>
                            waitingForChanged (dp_WaitingFor (cs_Dependencies common)) waitingFor
                         then do { u \<leftarrow> markFlowDeploymentWaitingForDependencies E waitingFor; ret (no_result, u) }
                         else ret (no_result, None))
                      else (case cluster of None \<Rightarrow> ret nil_panic | Some cluster \<Rightarrow> reconcileReady E cluster)) }) }) }) }) }"

section \<open>Deletion is safe\<close>

definition deletes_only :: "string set \<Rightarrow> fcall \<Rightarrow> bool" where
  "deletes_only ids c = (case c of CDeleteProcessGroup i v \<Rightarrow> i \<in> ids | CUpdate u \<Rightarrow> False | _ \<Rightarrow> True)"

lemma deletes_only_simps [simp]:
  "deletes_only ids (CGetCluster ns n)" "deletes_only ids (CConfigureClusterHTTPClient c)" "deletes_only ids (CGetProcessGroup i)"
  "deletes_only ids (CScheduleProcessGroup i st)" "deletes_only ids (CSetControllerServicesState i st)" "deletes_only ids CGetFlowDeployment"
  "deletes_only ids (CDeleteProcessGroup i v) = (i \<in> ids)" "\<not> deletes_only ids (CUpdate u)"
  by (simp_all add: deletes_only_def)

definition cluster_gone :: "fenv \<Rightarrow> NiFiFlowDeployment \<Rightarrow> (fcall, NiFiFlowDeployment) rstate \<Rightarrow> (fcall, NiFiFlowDeployment) rstate \<Rightarrow> bool" where
  "cluster_gone E d s s' \<longleftrightarrow> (let ref = fsp_ClusterRef (fd_Spec d); ns = clusterRefNamespace (fd_Namespace d) ref in
     cr_Name ref = '''' \<or> asked (CGetCluster ns (cr_Name ref)) (fe_GetCluster E ns (cr_Name ref))
       (\<lambda>r. case r of Inl e \<Rightarrow> IsNotFound e | Inr c \<Rightarrow> cl_Deleting c) s s')"

definition group_gone :: "fenv \<Rightarrow> string \<Rightarrow> (fcall, NiFiFlowDeployment) rstate \<Rightarrow> (fcall, NiFiFlowDeployment) rstate \<Rightarrow> bool" where
  "group_gone E i s s' \<longleftrightarrow> asked (CGetProcessGroup i) (fe_GetProcessGroup E i) (\<lambda>r. \<exists>e. r = Inl e \<and> IsNotFound e) s s' \<or>
     (\<exists>v. asked (CDeleteProcessGroup i v) (fe_DeleteProcessGroup E i v) (\<lambda>r. case r of None \<Rightarrow> True | Some e \<Rightarrow> IsNotFound e) s s')"

definition dry_run_removed :: "fenv \<Rightarrow> string \<Rightarrow> (fcall, NiFiFlowDeployment) rstate \<Rightarrow> (fcall, NiFiFlowDeployment) rstate \<Rightarrow> bool" where
  \<comment> \<open>the temporary group of a dry run, if one is recorded, was stopped, its services disabled, and what NiFi then had of it deleted\<close>
  "dry_run_removed E i s s' \<longleftrightarrow> i = '''' \<or> (\<exists>log zs.
     calls s' = log @ [CScheduleProcessGroup i ''STOPPED'', CSetControllerServicesState i ''DISABLED'', CGetProcessGroup i] @ zs \<and>
     length (calls s) \<le> length log \<and>
     (\<forall>existing. fe_GetProcessGroup E i (log @ [CScheduleProcessGroup i ''STOPPED'', CSetControllerServicesState i ''DISABLED'']) = Inr (Some existing) \<longrightarrow>
        (\<exists>zs'. zs = CDeleteProcessGroup i (re_Version (pg_Revision existing)) # zs')))"

definition released :: "fenv \<Rightarrow> NiFiFlowDeployment \<Rightarrow> (fcall, NiFiFlowDeployment) rstate \<Rightarrow> (fcall, NiFiFlowDeployment) rstate \<Rightarrow> bool" where
  \<comment> \<open>the cluster is gone, or the live group is gone or stays by policy, and the group of a dry run was removed\<close>
  "released E d s s' \<longleftrightarrow> cluster_gone E d s s' \<or>
     (deletion_target d = '''' \<or> group_gone E (deletion_target d) s s') \<and> dry_run_removed E (st_ValidationProcessGroupID (fd_Status d)) s s'"

definition deleted_safely :: "fenv \<Rightarrow> NiFiFlowDeployment \<Rightarrow> (fcall, NiFiFlowDeployment) rstate \<Rightarrow> (fcall, NiFiFlowDeployment) rstate \<Rightarrow> bool" where
  "deleted_safely E d s s' \<longleftrightarrow> (let ids = {deletion_target d, st_ValidationProcessGroupID (fd_Status d)} - {''''} in
     within (deletes_only ids) (calls s) (calls s') \<or>
     (\<exists>zs u. calls s' = calls s @ zs @ [CUpdate u] \<and> list_all (deletes_only ids) zs \<and> released E d s s'))"

abbreviation group_ids :: "NiFiFlowDeployment \<Rightarrow> string set" where
  "group_ids d \<equiv> {deletion_target d, st_ValidationProcessGroupID (fd_Status d)} - {''''}"

lemma cluster_gone_step: "cluster_gone E d s0 s \<Longrightarrow> calls s' = calls s @ zs \<Longrightarrow> cluster_gone E d s0 s'"
  by (auto simp: cluster_gone_def Let_def dest: asked_step)

lemma group_gone_step: "group_gone E i s0 s \<Longrightarrow> calls s' = calls s @ zs \<Longrightarrow> group_gone E i s0 s'"
  by (auto simp: group_gone_def dest: asked_step)

lemma dry_run_step: "dry_run_removed E i s0 s \<Longrightarrow> calls s' = calls s @ zs \<Longrightarrow> dry_run_removed E i s0 s'"
  by (auto simp: dry_run_removed_def) (metis append_Cons append_Nil2 append_assoc)+

lemma released_step: "released E d s0 s \<Longrightarrow> calls s' = calls s @ zs \<Longrightarrow> released E d s0 s'"
  by (auto simp: released_def dest: cluster_gone_step group_gone_step dry_run_step)

lemma group_gone_get:
  "fe_GetProcessGroup E i log = Inl e \<Longrightarrow> IsNotFound e \<Longrightarrow> calls s' = log @ CGetProcessGroup i # zs \<Longrightarrow> length (calls s0) \<le> length log \<Longrightarrow>
   group_gone E i s0 s'"
  unfolding group_gone_def by (rule disjI1, rule asked_at) auto

lemma group_gone_delete:
  "fe_DeleteProcessGroup E i v (log @ [c]) = r \<Longrightarrow> (case r of None \<Rightarrow> True | Some e \<Rightarrow> IsNotFound e) \<Longrightarrow>
   calls s' = log @ [c, CDeleteProcessGroup i v] \<Longrightarrow> length (calls s0) \<le> length log \<Longrightarrow> group_gone E i s0 s'"
  unfolding group_gone_def by (rule disjI2, rule exI [of _ v], rule asked_at [of _ "log @ [c]"]) auto

lemma finish_deletion_safe:
  assumes "within (deletes_only (group_ids d)) (calls s0) (calls s)" "released E d s0 s"
  shows "wp (finish_deletion E) (\<lambda>_. deleted_safely E d s0) s"
proof -
  have "\<exists>zs u. calls s' = calls s0 @ zs @ [CUpdate u] \<and> list_all (deletes_only (group_ids d)) zs \<and> released E d s0 s'"
    if "calls s' = calls s @ [CUpdate u]" for u s'
    using assms that released_step [OF assms(2) that] by (auto simp: within_def)
  then show ?thesis
    using assms unfolding finish_deletion_def removeFinalizer_def
    by (intro wp_intros wp_UpdateObjectI) (simp_all add: deleted_safely_def Let_def)
qed

lemma dry_run_removedI:
  assumes "calls s' = log @ [CScheduleProcessGroup i ''STOPPED'', CSetControllerServicesState i ''DISABLED'', CGetProcessGroup i] @ zs"
    "length (calls s0) \<le> length log"
    "\<And>existing. fe_GetProcessGroup E i (log @ [CScheduleProcessGroup i ''STOPPED'', CSetControllerServicesState i ''DISABLED'']) = Inr (Some existing) \<Longrightarrow>
       \<exists>zs'. zs = CDeleteProcessGroup i (re_Version (pg_Revision existing)) # zs'"
  shows "dry_run_removed E i s0 s'"
  using assms unfolding dry_run_removed_def by blast

lemma validation_delete_only:
  assumes "within (deletes_only ids) (calls s0) (calls s)" "i \<in> ids"
  shows "wp (deleteValidationProcessGroup E i) (\<lambda>_ s'. obj s' = obj s \<and> within (deletes_only ids) (calls s0) (calls s') \<and> dry_run_removed E i s0 s') s"
  unfolding deleteValidationProcessGroup_def tryDeleteValidationProcessGroup_def nifi_call_defs
  by (intro wp_intros)
    (use assms within_length [OF assms(1)] in \<open>auto simp: topology_defs intro!: dry_run_removedI [where log = "calls s"]\<close>)

lemma kept_safe: "within (deletes_only (group_ids d)) (calls s0) (calls s) \<Longrightarrow> deleted_safely E d s0 s"
  by (simp add: deleted_safely_def Let_def)

lemma group_delete_safe:
  assumes w: "within (deletes_only (group_ids d)) (calls s0) (calls s)" and i: "i = deletion_target d" "i \<noteq> ''''"
    and v: "dry_run_removed E (st_ValidationProcessGroupID (fd_Status d)) s0 s"
  shows "wp (deleteFlowDeploymentGroup E i) (\<lambda>_. deleted_safely E d s0) s"
proof -
  note len = within_length [OF w]
  show ?thesis
    unfolding deleteFlowDeploymentGroup_def nifi_call_defs Let_def
    by (intro wp_intros finish_deletion_safe kept_safe)
       (use w i len in \<open>auto simp: released_def intro: group_gone_get group_gone_delete dry_run_step [OF v]\<close>)
qed

lemma cluster_for_deletion_spec:
  assumes "within (deletes_only (group_ids d)) (calls s0) (calls s)"
  shows "wp (clusterForDeletion (GetCluster E) (configureClusterHTTPClient E) cl_Ready cl_Deleting (fd_Namespace d) (fsp_ClusterRef (fd_Spec d))) (\<lambda>r s'. obj s' = obj s \<and>
    within (deletes_only (group_ids d)) (calls s0) (calls s') \<and> ((\<exists>c. r = Inr (c, True)) \<longrightarrow> cluster_gone E d s0 s')) s"
proof -
  note len = within_length [OF assms]
  show ?thesis
    unfolding clusterForDeletion_def controller_call_defs
    by (intro wp_intros) (use assms len in \<open>auto simp: cluster_gone_def Let_def intro!: asked_at split: option.splits\<close>)
qed

lemma delete_safe: "wp (reconcileFlowDeploymentDelete E) (\<lambda>_. deleted_safely E (obj s) s) s"
  unfolding reconcileFlowDeploymentDelete_def Let_def
  by (intro wp_intros finish_deletion_safe kept_safe wp_mono [OF cluster_for_deletion_spec [of "obj s" s]]
        wp_mono [OF validation_delete_only [of "group_ids (obj s)" s]] group_delete_safe)
     (auto simp: released_def deletion_target_def dry_run_removed_def intro: cluster_gone_step)

lemma deletes_only_set:
  assumes "list_all (deletes_only ids) zs"
  shows "CUpdate u \<notin> set zs" and "CDeleteProcessGroup i v \<in> set zs \<Longrightarrow> i \<in> ids"
  using assms by (force simp: list_all_iff)+


section \<open>Dependencies gate every NiFi call\<close>

definition kube_call :: "fcall \<Rightarrow> bool" where
  \<comment> \<open>calls to the Kubernetes API\<close>
  "kube_call c = (case c of
      CStatusUpdate _ \<Rightarrow> True | CUpdate _ \<Rightarrow> True | CGetFlowDeployment \<Rightarrow> True | CGetCluster _ _ \<Rightarrow> True
    | CConfigureClusterHTTPClient _ \<Rightarrow> True | CGetParameterContext _ _ \<Rightarrow> True | CGetProcessGroupObject _ _ \<Rightarrow> True
    | CGetRegistryClient _ _ \<Rightarrow> True | CGetFlowBundle _ _ \<Rightarrow> True | _ \<Rightarrow> False)"

lemma kube_call_simps [simp]:
  "kube_call (CStatusUpdate d)" "kube_call (CUpdate d)" "kube_call CGetFlowDeployment" "kube_call (CGetCluster ns n)"
  "kube_call (CConfigureClusterHTTPClient c)" "kube_call (CGetParameterContext ns n)" "kube_call (CGetProcessGroupObject ns n)"
  "kube_call (CGetRegistryClient ns n)" "kube_call (CGetFlowBundle ns n)"
  by (simp_all add: kube_call_def)

definition never_ready :: "(fcall list \<Rightarrow> 'a go_result) \<Rightarrow> ('a \<Rightarrow> bool) \<Rightarrow> bool" where
  "never_ready resp ready \<longleftrightarrow> (\<forall>log x. resp log = Inr x \<longrightarrow> \<not> ready x)"

definition unresolved :: "fenv \<Rightarrow> NiFiFlowDeployment \<Rightarrow> bool" where
  \<comment> \<open>some referenced bundle, parameter context or parent group is missing, unreadable or not ready\<close>
  "unresolved E d \<longleftrightarrow> (let ns = fd_Namespace d; spec = fd_Spec d; pref = ft_ParentProcessGroupRef (fsp_Target spec) in
     (\<exists>ref. fs_BundleRef (fsp_Source spec) = Some ref \<and>
        never_ready (fe_GetFlowBundle E (localObjectRefNamespace ns ref) (lr_Name ref)) fbn_Ready) \<or>
     (\<exists>ref. fsp_ParameterContextRef spec = Some ref \<and>
        never_ready (fe_GetParameterContext E (localObjectRefNamespace ns ref) (lr_Name ref)) no_Ready) \<or>
     (\<not> pr_Root pref \<and> pr_Name pref \<noteq> '''' \<and>
        never_ready (fe_GetProcessGroupObject E (processGroupRefNamespace ns pref) (pr_Name pref)) no_Ready))"

definition cluster_down :: "fenv \<Rightarrow> NiFiFlowDeployment \<Rightarrow> bool" where
  "cluster_down E d \<longleftrightarrow> (let cref = fsp_ClusterRef (fd_Spec d) in
     never_ready (fe_GetCluster E (clusterRefNamespace (fd_Namespace d) cref) (cr_Name cref)) cl_Ready)"

lemma waiting_name_nonempty:
  "never_ready resp ready \<Longrightarrow> waiting_name kind ns n (map_sum id ready (resp log)) \<noteq> []"
  by (cases "resp log") (auto simp: waiting_name_def never_ready_def Let_def)

definition dependency_report :: "fcall list \<Rightarrow> (fcall, NiFiFlowDeployment) rstate \<Rightarrow> bool \<Rightarrow> string list \<Rightarrow> (fcall, NiFiFlowDeployment) rstate \<Rightarrow> bool" where
  "dependency_report log s missing ws s' \<longleftrightarrow> obj s' = obj s \<and> within kube_call log (calls s') \<and> (missing \<longrightarrow> ws \<noteq> [])"

lemma bundle_report:
  assumes "within kube_call log (calls s)"
  shows "wp (flowBundleDependencyWaitingFor E ns ref path) (dependency_report log s
     (\<exists>r. ref = Some r \<and> never_ready (fe_GetFlowBundle E (localObjectRefNamespace ns r) (lr_Name r)) fbn_Ready)) s"
  unfolding flowBundleDependencyWaitingFor_def controller_call_defs Let_def
  by (intro wp_intros) (use assms in \<open>simp_all add: dependency_report_def waiting_name_nonempty\<close>)

lemma inline_report:
  assumes "within kube_call log (calls s)"
  shows "wp (flowBundleSourceDependenciesWaitingFor E ns src path) (dependency_report log s False) s"
  unfolding flowBundleSourceDependenciesWaitingFor_def registryClientDependencyWaitingFor_def controller_call_defs Let_def
  by (intro wp_intros) (use assms in \<open>simp_all add: dependency_report_def\<close>)

lemma parent_report:
  assumes "within kube_call log (calls s)"
  shows "wp (processGroupReferenceDependencyWaitingFor (GetProcessGroupObject E) ns ref) (dependency_report log s
     (\<not> pr_Root ref \<and> pr_Name ref \<noteq> '''' \<and>
      never_ready (fe_GetProcessGroupObject E (processGroupRefNamespace ns ref) (pr_Name ref)) no_Ready)) s"
  unfolding processGroupReferenceDependencyWaitingFor_def controller_call_defs Let_def
  by (intro wp_intros) (use assms in \<open>auto simp: dependency_report_def waiting_name_nonempty\<close>)

lemma context_report:
  assumes "within kube_call log (calls s)"
  shows "wp (parameterContextDependencyWaitingFor (GetParameterContext E) ns ref path) (dependency_report log s
     (\<exists>r. ref = Some r \<and> never_ready (fe_GetParameterContext E (localObjectRefNamespace ns r) (lr_Name r)) no_Ready)) s"
  unfolding parameterContextDependencyWaitingFor_def nifi_call_defs Let_def
  by (intro wp_intros) (use assms in \<open>simp_all add: dependency_report_def waiting_name_nonempty\<close>)

lemma dependencies_report:
  assumes "within kube_call log (calls s)"
  shows "wp (flowDeploymentDependenciesWaitingFor E) (dependency_report log s (unresolved E (obj s))) s"
  unfolding flowDeploymentDependenciesWaitingFor_def Let_def
  by (intro wp_intros wp_mono [OF bundle_report [of log]] wp_mono [OF inline_report [of log]]
        wp_mono [OF parent_report [of log]] wp_mono [OF context_report [of log]])
     (use assms in \<open>auto simp: dependency_report_def unresolved_def Let_def\<close>)

lemma cluster_dependency_spec:
  assumes "within kube_call log (calls s)"
  shows "wp (readyClusterForReference (GetCluster E) (configureClusterHTTPClient E) cl_Ready ns ref) (\<lambda>r s'. obj s' = obj s \<and> within kube_call log (calls s') \<and>
    (never_ready (fe_GetCluster E (clusterRefNamespace ns ref) (cr_Name ref)) cl_Ready \<longrightarrow> (\<forall>c ws. r = Inr (c, ws) \<longrightarrow> ws \<noteq> []))) s"
  unfolding readyClusterForReference_def clusterDependency_def controller_call_defs Let_def
  by (intro wp_intros) (use assms in \<open>auto simp: never_ready_def\<close>)

lemma finalizer_spec:
  assumes "within kube_call log (calls s)"
  shows "wp (ensureFinalizer fd_Finalizers upd_finalizers (UpdateObject E)) (\<lambda>f s'. within kube_call log (calls s') \<and> (\<not> fst f \<longrightarrow> s' = s)) s"
  unfolding ensureFinalizer_def by (intro wp_intros wp_UpdateObjectI) (use assms in simp_all)

lemma gated_reconcile:
  assumes d: "fe_GetFlowDeployment E (calls s) = Inr d" and "\<not> fd_Deleting d" and b: "cluster_down E d \<or> unresolved E d"
  shows "wp (Reconcile E) (\<lambda>_ s'. within kube_call (calls s) (calls s')) s"
proof -
  let ?log = "calls s" and ?s = "s\<lparr>calls := calls s @ [CGetFlowDeployment], obj := d\<rparr>"
  have wait: "wp (markFlowDeploymentWaitingForDependencies E ws) (\<lambda>_ s'. within kube_call ?log (calls s')) s'"
    if "within kube_call ?log (calls s')" for ws s'
    unfolding markFlowDeploymentWaitingForDependencies_def now_def by (intro wp_intros wp_StatusUpdateI) (use that in simp_all)
  show ?thesis
    unfolding Reconcile_def GetFlowDeployment_def Let_def
    by (intro wp_intros wp_mono [OF finalizer_spec [of ?log]] wp_mono [OF cluster_dependency_spec [of ?log]]
          wp_mono [OF dependencies_report [of ?log]] wp_mono [OF wait])
       (use assms in \<open>auto simp: dependency_report_def cluster_down_def Let_def\<close>)
qed

text \<open>
  Dependencies gate NiFi: while the referenced cluster, bundle, parameter context or parent process
  group is missing, unreadable or not ready, the reconcile of a deployment that is not being deleted
  calls the Kubernetes API only: nothing is fetched, and nothing is read from or written to NiFi.
\<close>

theorem unresolved_dependencies_gate_nifi:
  assumes "fe_GetFlowDeployment E (calls s) = Inr d" "\<not> fd_Deleting d" "cluster_down E d \<or> unresolved E d"
    "run_state (Reconcile E) s = (out, s')"
  shows "\<forall>c \<in> set (new_calls s s'). kube_call c"
  using wp_run [OF gated_reconcile [OF assms(1-3)] assms(4)] by (simp add: only_set)

section \<open>A bundle is deployed at its ready digest\<close>

lemma first_nonempty_simps [simp]:
  "first_nonempty [] = ''''" "first_nonempty (v # vs) = (if v = '''' then first_nonempty vs else v)"
  by (simp_all add: first_nonempty_def)

lemma first_nonempty_empty: "first_nonempty vs = '''' \<longleftrightarrow> (\<forall>v \<in> set vs. v = '''')"
  by (induction vs) auto

definition tampered_bundle :: "fenv \<Rightarrow> NiFiFlowDeployment \<Rightarrow> bool" where
  \<comment> \<open>the artifact that the bundle's source yields now is not the one the bundle was verified with\<close>
  "tampered_bundle E d \<longleftrightarrow> (\<exists>ref. fs_BundleRef (fsp_Source (fd_Spec d)) = Some ref \<and>
     (\<forall>log bundle log' snapshot rev digest.
        fe_GetFlowBundle E (localObjectRefNamespace (fd_Namespace d) ref) (lr_Name ref) log = Inr bundle \<longrightarrow>
        fe_ResolveFlowArtifact E (fbn_Namespace bundle) (fbn_Source bundle) (ft_ProcessGroupName (fsp_Target (fd_Spec d))) log' = Inr (snapshot, rev, digest) \<longrightarrow>
        fbn_ArtifactDigest bundle \<noteq> '''' \<and> fbn_ArtifactDigest bundle \<noteq> digest))"

definition fetch_call :: "fcall \<Rightarrow> bool" where
  "fetch_call c \<longleftrightarrow> kube_call c \<or> (\<exists>ns source target. c = CResolveFlowArtifact ns source target)"

lemma fetch_call_simps [simp]:
  "fetch_call (CStatusUpdate d)" "fetch_call (CGetFlowBundle ns n)" "fetch_call (CResolveFlowArtifact ns src n)"
  by (simp_all add: fetch_call_def)

lemma tampered_source_spec:
  assumes "tampered_bundle E (obj s)"
  shows "wp (resolvedFlowDeploymentSnapshot E) (\<lambda>r s'. only fetch_call s s' \<and> obj s' = obj s \<and> (\<exists>err. r = Inl err)) s"
  unfolding resolvedFlowDeploymentSnapshot_def controller_call_defs Let_def
  by (intro wp_intros) (use assms in \<open>auto simp: tampered_bundle_def split: sum.splits\<close>)

lemma report_failure_spec:
  assumes "only P s0 s" "\<And>d. P (CStatusUpdate d)"
  shows "wp (report_failure E reason message r1 r2) (\<lambda>_ s'. only P s0 s' \<and> \<not> cs_Ready (st_Common (fd_Status (obj s')))) s"
  unfolding report_failure_def markFlowDeploymentNotReady_def now_def
  by (intro wp_intros wp_StatusUpdateI)
     (use assms report.quiet_means_reported in \<open>auto simp: shouldMarkFlowDeploymentNotReady_def upd_st_def\<close>)

text \<open>
  C32. A bundle is deployed at the digest it was verified with: when the artifact that the source of a
  referenced bundle yields differs from the digest in the bundle's status, the reconcile only fetches
  and reports; no call reaches NiFi and the deployment is left not ready.
\<close>

theorem tampered_bundle_is_not_deployed:
  assumes "tampered_bundle E (obj s)" "run_state (dispatchFlowDeployment E parentID) s = (out, s')"
  shows "(\<forall>c \<in> set (new_calls s s'). fetch_call c) \<and> \<not> cs_Ready (st_Common (fd_Status (obj s')))"
proof -
  have "wp (dispatchFlowDeployment E parentID) (\<lambda>_ s'. only fetch_call s s' \<and> \<not> cs_Ready (st_Common (fd_Status (obj s')))) s"
    unfolding dispatchFlowDeployment_def
    by (intro wp_intros wp_mono [OF tampered_source_spec] wp_mono [OF report_failure_spec]) (use assms(1) in auto)
  from wp_run [OF this assms(2)] show ?thesis by (simp add: only_set)
qed

section \<open>Witnesses\<close>

definition deleting_sample :: NiFiFlowDeployment where
  "deleting_sample = sample_deployment\<lparr>fd_Deleting := True, fd_Finalizers := [NiFiControlFinalizer],
     fd_Spec := sample_spec\<lparr>fsp_DeletionPolicy := ''Delete''\<rparr>,
     fd_Status := sample_status\<lparr>st_ValidationProcessGroupID := ''dry-run''\<rparr>\<rparr>"

definition deletion_calls :: "fcall list" where
  "deletion_calls = [CGetFlowDeployment, CGetCluster ''ns'' ''nifi'', CConfigureClusterHTTPClient sample_cluster,
     CScheduleProcessGroup ''dry-run'' ''STOPPED'', CSetControllerServicesState ''dry-run'' ''DISABLED'', CGetProcessGroup ''dry-run'',
     CDeleteProcessGroup ''dry-run'' 3, CGetProcessGroup ''blue'', CDeleteProcessGroup ''blue'' 3, CUpdate (deleting_sample\<lparr>fd_Finalizers := []\<rparr>)]"

lemmas deletion_run_defs = Reconcile_def reconcileFlowDeploymentDelete_def deletion_target_def clusterForDeletion_def clusterRefNamespace_def
  clusterEndpoint_def deleteFlowDeploymentGroup_def deleteValidationProcessGroup_def tryDeleteValidationProcessGroup_def finish_deletion_def
  removeFinalizer_def upd_finalizers_def UpdateObject_def controller_call_defs nifi_call_defs topology_defs
definition reads :: "NiFiFlowDeployment \<Rightarrow> fenv \<Rightarrow> fenv" where
  "reads d E = E\<lparr>fe_GetFlowDeployment := (\<lambda>_. Inr d)\<rparr>"


text \<open>
  Two ways in which a group stays behind. When NiFi refuses to delete the temporary group of a dry run, for instance because it still
  holds data, the finalizer goes all the same, although the comment in \<open>reconcileFlowDeploymentDelete\<close> says that an interrupted validation never leaks it. And
  the deletion of a deployment in the middle of a blue/green rollout makes the same calls as without a rollout: the candidate and its
  copy of the flow stay in NiFi.
\<close>

lemma refused_dry_run_deletion_is_ignored:
  "let E = (reads deleting_sample sample_env)\<lparr>fe_DeleteProcessGroup := (\<lambda>i v log. if i = ''dry-run'' then Some (errorf ''409'') else None)\<rparr>
   in calls (snd (run_state (Reconcile E) (start deleting_sample))) = deletion_calls"
  by (simp add: deletion_run_defs deletion_calls_def reads_def deleting_sample_def sample_defs Let_def)

lemma candidate_is_left_behind:
  "let d = deleting_sample\<lparr>fd_Status := (fd_Status deleting_sample)\<lparr>st_RetiringProcessGroupID := ''old'', st_ActiveRollout :=
        Some ((new_rollout 0 sample_deployment ''v1'' ''sha256:aa'' ''BlueGreen'')\<lparr>ro_BlueGreen := Some \<lparr>bg_CandidateProcessGroupID = ''green'',
          bg_BlueProcessGroupID = ''blue'', bg_ParentProcessGroupID = ''root'', bg_Inventoried = True, bg_ExternalConnections = []\<rparr>\<rparr>)\<rparr>\<rparr>
   in calls (snd (run_state (Reconcile (reads d sample_env)) (start d))) = butlast deletion_calls @ [CUpdate (d\<lparr>fd_Finalizers := []\<rparr>)]"
  by (simp add: deletion_run_defs deletion_calls_def reads_def deleting_sample_def sample_defs Let_def)

definition finalized_sample :: NiFiFlowDeployment where
  "finalized_sample = sample_deployment\<lparr>fd_Finalizers := [NiFiControlFinalizer]\<rparr>"

definition not_ready_env :: fenv where
  "not_ready_env = reads finalized_sample (sample_env\<lparr>fe_GetCluster := (\<lambda>_ _ _. Inr (sample_cluster\<lparr>cl_Ready := False\<rparr>))\<rparr>)"

theorem unresolved_dependencies_gate_nifi_witness:
  "let s = start finalized_sample; s' = snd (run_state (Reconcile not_ready_env) s)
   in length (calls s') = 3 \<and> list_all kube_call (calls s') \<and>
      dp_WaitingFor (cs_Dependencies (st_Common (fd_Status (obj s')))) = [''NiFiCluster/ns/nifi:Ready'']"
proof -
  let ?s = "start finalized_sample"
  obtain out s' where run: "run_state (Reconcile not_ready_env) ?s = (out, s')" by fastforce
  have c: "length (calls (snd (run_state (Reconcile not_ready_env) ?s))) = 3"
      "dp_WaitingFor (cs_Dependencies (st_Common (fd_Status (obj (snd (run_state (Reconcile not_ready_env) ?s)))))) = [''NiFiCluster/ns/nifi:Ready'']"
    by (simp_all add: Reconcile_def ensureFinalizer_def readyClusterForReference_def clusterDependency_def clusterRefNamespace_def
        flowDeploymentDependenciesWaitingFor_def flowBundleDependencyWaitingFor_def flowBundleSourceDependenciesWaitingFor_def
        processGroupReferenceDependencyWaitingFor_def parameterContextDependencyWaitingFor_def controller_call_defs
        markFlowDeploymentWaitingForDependencies_def MarkWaitingForDependencies_def StatusUpdate_def now_def upd_st_def upd_common_def
        not_ready_env_def reads_def finalized_sample_def sample_defs Let_def)
  have "cluster_down not_ready_env finalized_sample"
    by (simp add: cluster_down_def never_ready_def not_ready_env_def reads_def Let_def)
  then have "\<forall>c \<in> set (new_calls ?s s'). kube_call c"
    by (intro unresolved_dependencies_gate_nifi [OF _ _ _ run, of finalized_sample])
       (simp_all add: not_ready_env_def reads_def finalized_sample_def sample_deployment_def)
  with c run show ?thesis by (simp add: list_all_iff new_calls_def)
qed

definition bundle_sample :: NiFiFlowBundle where
  "bundle_sample = \<lparr>fbn_Namespace = ''ns'', fbn_Source = sample_source, fbn_Version = ''v1'', fbn_Ready = True,
     fbn_ArtifactDigest = ''sha256:bb'', fbn_ResolvedRevision = ''''\<rparr>"

definition bundle_deployment :: NiFiFlowDeployment where
  "bundle_deployment = sample_deployment\<lparr>fd_Spec := sample_spec\<lparr>fsp_Source :=
     \<lparr>fs_BundleRef = Some \<lparr>lr_Name = ''bundle'', lr_Namespace = ''''\<rparr>, fs_Version = '''', fs_Inline = None\<rparr>\<rparr>\<rparr>"

definition bundle_env :: fenv where
  "bundle_env = sample_env\<lparr>fe_GetFlowBundle := (\<lambda>_ _ _. Inr bundle_sample)\<rparr>"

theorem tampered_bundle_is_not_deployed_witness:
  "let s = start bundle_deployment; s' = snd (run_state (dispatchFlowDeployment bundle_env ''root'') s)
   in length (calls s') = 3 \<and> list_all fetch_call (calls s') \<and> \<not> cs_Ready (st_Common (fd_Status (obj s')))"
proof -
  let ?s = "start bundle_deployment"
  obtain out s' where run: "run_state (dispatchFlowDeployment bundle_env ''root'') ?s = (out, s')" by fastforce
  have c: "length (calls (snd (run_state (dispatchFlowDeployment bundle_env ''root'') ?s))) = 3"
    by (simp add: dispatchFlowDeployment_def resolvedFlowDeploymentSnapshot_def controller_call_defs report_failure_def
        shouldMarkFlowDeploymentNotReady_def shouldMarkNotReady_def find_condition_def markFlowDeploymentNotReady_def StatusUpdate_def now_def bundle_env_def bundle_sample_def
        bundle_deployment_def sample_defs Let_def)
  have "tampered_bundle bundle_env bundle_deployment"
    by (auto simp: tampered_bundle_def bundle_env_def bundle_sample_def bundle_deployment_def sample_defs)
  with tampered_bundle_is_not_deployed [OF _ run] c run show ?thesis by (simp add: list_all_iff new_calls_def)
qed

end
