(* ===== verification/Managed_Names.thy ===== *)
theory Managed_Names
  imports Prelude
begin

text \<open>
  Names of the Kubernetes objects of a managed cluster (\<open>boundedManagedName\<close> and its callers in
  \<open>internal/controller/managed_cluster.go\<close> and \<open>nifinodegroup_pod.go\<close>). A name longer than a DNS
  label is shortened and made unique by a digest; the digest (\<open>crypto/sha256\<close> printed in hexadecimal)
  is an argument. Slicing a string out of its bounds panics in Go, which is the value \<open>Inl\<close>.
\<close>

definition slice_panic :: go_error where
  "slice_panic = errorf ''panic: runtime error: slice bounds out of range''"

definition slice_to :: "string \<Rightarrow> int \<Rightarrow> string go_result" where
  \<comment> \<open>\<open>s[:n]\<close>\<close>
  "slice_to s n = (if n < 0 \<or> int (length s) < n then Inl slice_panic else Inr (take (nat n) s))"

definition TrimSuffix :: "string \<Rightarrow> string \<Rightarrow> string" where
  "TrimSuffix s p = (if HasSuffix s p then take (length s - length p) s else s)"

definition boundedManagedName :: "(string \<Rightarrow> string) \<Rightarrow> string \<Rightarrow> string \<Rightarrow> string go_result" where
  "boundedManagedName sha256hex base suffix =
     (let candidate = TrimSuffix base ''-'' @ ''-'' @ suffix in
      if length candidate \<le> 63 then Inr candidate
      else (case slice_to (sha256hex candidate) 8 of
          Inl e \<Rightarrow> Inl e
        | Inr digest \<Rightarrow>
           (let maximumBaseLength = 63 - int (length suffix) - int (length digest) - 2 in
            case slice_to base maximumBaseLength of
              Inl e \<Rightarrow> Inl e
            | Inr front \<Rightarrow> Inr (TrimRight front ''-'' @ ''-'' @ digest @ ''-'' @ suffix))))"

definition nodeGroupStatefulSetName :: "(string \<Rightarrow> string) \<Rightarrow> string \<Rightarrow> string \<Rightarrow> string go_result" where
  "nodeGroupStatefulSetName sha256hex clusterName groupName = boundedManagedName sha256hex clusterName (''nifi-'' @ groupName)"

definition managedClusterResourceName :: "(string \<Rightarrow> string) \<Rightarrow> string \<Rightarrow> string go_result" where
  "managedClusterResourceName sha256hex clusterName = boundedManagedName sha256hex clusterName ''nifi''"

definition managedClusterHeadlessServiceName :: "(string \<Rightarrow> string) \<Rightarrow> string \<Rightarrow> string go_result" where
  "managedClusterHeadlessServiceName sha256hex clusterName = boundedManagedName sha256hex clusterName ''nifi-headless''"

lemma length_TrimSuffix: "length (TrimSuffix s p) \<le> length s"
  by (simp add: TrimSuffix_def)

lemma boundedManagedName_short:
  "length (TrimSuffix base ''-'') + length suffix + 1 \<le> 63 \<Longrightarrow>
   boundedManagedName sha base suffix = Inr (TrimSuffix base ''-'' @ ''-'' @ suffix)"
  by (simp add: boundedManagedName_def Let_def)

lemma boundedManagedName_long:
  assumes "63 < length (TrimSuffix base ''-'') + length suffix + 1" "8 \<le> length (sha (TrimSuffix base ''-'' @ ''-'' @ suffix))"
  shows "boundedManagedName sha base suffix = (if 53 < length suffix then Inl slice_panic
     else Inr (TrimRight (take (53 - length suffix) base) ''-'' @ ''-'' @
               take 8 (sha (TrimSuffix base ''-'' @ ''-'' @ suffix)) @ ''-'' @ suffix))"
proof -
  have "nat (53 - int (length suffix)) = 53 - length suffix" by simp
  moreover have "int (length base) \<ge> 53 - int (length suffix)"
    using assms(1) length_TrimSuffix [of base "''-''"] by linarith
  ultimately show ?thesis
    using assms by (simp add: boundedManagedName_def slice_to_def min_absorb2 Let_def)
qed

lemma bounded_name:
  assumes "\<forall>s. 8 \<le> length (sha s)" "length suffix \<le> 53"
  shows "\<exists>name. boundedManagedName sha base suffix = Inr name \<and> length name \<le> 63 \<and> HasSuffix name (''-'' @ suffix)"
proof (cases "length (TrimSuffix base ''-'') + length suffix + 1 \<le> 63")
  case True
  then show ?thesis by (simp add: boundedManagedName_short HasSuffix_def)
next
  case False
  have "length (TrimRight (take (53 - length suffix) base) ''-'') \<le> 53 - length suffix"
    by (rule order_trans [OF length_TrimRight]) simp
  with False assms show ?thesis
    by (simp add: boundedManagedName_long HasSuffix_def)
qed

text \<open>
  Names of managed objects are DNS labels: with a digest of at least eight characters,
  \<open>boundedManagedName\<close> returns a name of at most 63 characters that ends in the suffix asked for
  whenever the suffix has at most 53 characters.
\<close>

theorem managed_name_is_a_label:
  assumes "\<forall>s. 8 \<le> length (sha s)" "length suffix \<le> 53"
  shows "\<exists>name. boundedManagedName sha base suffix = Inr name \<and> length name \<le> 63 \<and> HasSuffix name (''-'' @ suffix)"
  using assms by (rule bounded_name)

text \<open>
  The bound on the suffix is not checked: the StatefulSet name of a node group uses the suffix
  \<open>nifi-<group>\<close>, and a group name of more than 48 characters makes the name computation panic as
  soon as the unshortened name exceeds 63 characters.
\<close>

theorem long_node_group_name_panics:
  assumes "\<forall>s. 8 \<le> length (sha s)" "48 < length groupName" "57 < length (TrimSuffix clusterName ''-'') + length groupName"
  shows "nodeGroupStatefulSetName sha clusterName groupName = Inl slice_panic"
  using assms by (simp add: nodeGroupStatefulSetName_def boundedManagedName_long)

lemma cluster_names:
  assumes "\<forall>s. 8 \<le> length (sha s)"
  shows "\<exists>n. managedClusterResourceName sha c = Inr n" "\<exists>n. managedClusterHeadlessServiceName sha c = Inr n"
  using bounded_name [OF assms, of "''nifi''" c] bounded_name [OF assms, of "''nifi-headless''" c]
  by (auto simp: managedClusterResourceName_def managedClusterHeadlessServiceName_def)

definition sample_digest :: "string \<Rightarrow> string" where
  "sample_digest s = replicate 64 (CHR ''a'')"

theorem managed_name_is_a_label_witness:
  "\<exists>name. boundedManagedName sample_digest (replicate 70 (CHR ''x'')) ''nifi'' = Inr name \<and> length name \<le> 63 \<and> HasSuffix name ''-nifi''"
  using managed_name_is_a_label [of sample_digest "''nifi''" "replicate 70 (CHR ''x'')"] by (simp add: sample_digest_def)

theorem long_node_group_name_panics_witness:
  "nodeGroupStatefulSetName sample_digest ''production'' (replicate 49 (CHR ''g'')) = Inl slice_panic"
  using long_node_group_name_panics [of sample_digest "replicate 49 (CHR ''g'')" "''production''"]
  by (simp add: sample_digest_def TrimSuffix_def HasSuffix_def)

end
