(* ===== verification/Scale_Down.thy ===== *)
theory Scale_Down
  imports Flow_Controller Managed_Names
begin

text \<open>
  Graceful scale-down (\<open>internal/controller/managed_cluster_scaledown.go\<close>,
  \<open>nifinodegroup_scaledown.go\<close> and the node states of \<open>pkg/nifi/cluster.go\<close>): the highest-ordinal
  node of a pool is disconnected, offloaded and removed through the NiFi API, one step per reconcile,
  and only then does the StatefulSet lose a replica. The step is shared by the primary pool of a cluster
  and the pools of node groups. A panic, which controller-runtime turns into an error, is an error.
\<close>

section \<open>Data\<close>

definition NodeStatusConnected :: string where "NodeStatusConnected = ''CONNECTED''"
definition NodeStatusConnecting :: string where "NodeStatusConnecting = ''CONNECTING''"
definition NodeStatusDisconnecting :: string where "NodeStatusDisconnecting = ''DISCONNECTING''"
definition NodeStatusDisconnected :: string where "NodeStatusDisconnected = ''DISCONNECTED''"
definition NodeStatusOffloading :: string where "NodeStatusOffloading = ''OFFLOADING''"
definition NodeStatusOffloaded :: string where "NodeStatusOffloaded = ''OFFLOADED''"

lemmas node_status_defs = NodeStatusConnected_def NodeStatusConnecting_def NodeStatusDisconnecting_def
  NodeStatusDisconnected_def NodeStatusOffloading_def NodeStatusOffloaded_def

record ClusterNode =
  nd_NodeID :: string
  nd_Address :: string
  nd_APIPort :: int
  nd_Status :: string

definition scaleDownPhaseDisconnecting :: string where "scaleDownPhaseDisconnecting = ''Disconnecting''"
definition scaleDownPhaseOffloading :: string where "scaleDownPhaseOffloading = ''Offloading''"
definition scaleDownPhaseRemoving :: string where "scaleDownPhaseRemoving = ''Removing''"

lemmas scale_phase_defs = scaleDownPhaseDisconnecting_def scaleDownPhaseOffloading_def scaleDownPhaseRemoving_def

definition defaultScaleDownTimeoutSeconds :: int where
  "defaultScaleDownTimeoutSeconds = 600"

record NiFiClusterScaleDownSpec =
  sds_OffloadData :: "bool option"
  sds_TimeoutSeconds :: int
  sds_OnTimeout :: string

definition ScaleDownTimeoutFail :: string where "ScaleDownTimeoutFail = ''Fail''"
definition ScaleDownTimeoutForce :: string where "ScaleDownTimeoutForce = ''Force''"

record NiFiClusterScaleDownStatus =
  sd_NodeAddress :: string
  sd_Phase :: string
  sd_StartedAt :: "go_time option"

text \<open>What the scale-down reads and writes of a managed cluster, beside the fields every controller reads.\<close>

record ManagedCluster = NiFiCluster +
  mc_Mode :: string
  mc_Replicas :: int
  mc_HasCoordination :: bool
  mc_ScaleDownSpec :: "NiFiClusterScaleDownSpec option"
  mc_InternalTLS :: "(bool \<times> int) option"  \<comment> \<open>enabled, HTTPS port\<close>
  mc_ServicePort :: int
  mc_StatusTLSReady :: "bool option"
  mc_ScaleDown :: "NiFiClusterScaleDownStatus option"

record NiFiNodeGroup =
  ng_Name :: string
  ng_Namespace :: string
  ng_Generation :: int
  ng_Deleting :: bool
  ng_Finalizers :: "string list"
  ng_ClusterRef :: ClusterReference
  ng_Replicas :: int
  ng_ScaleDownSpec :: "NiFiClusterScaleDownSpec option"
  ng_DeletionPolicy :: string
  ng_Common :: CommonStatus
  ng_StatefulSetName :: string
  ng_StatusReplicas :: int
  ng_Selector :: string
  ng_ScaleDown :: "NiFiClusterScaleDownStatus option"

text \<open>What the controllers read of a StatefulSet.\<close>

record StatefulSet =
  ss_Replicas :: "int option"
  ss_ReadyReplicas :: int
  ss_UpdatedReplicas :: int
  ss_CurrentRevision :: string
  ss_UpdateRevision :: string
  ss_TLSChecksum :: string  \<comment> \<open>annotation of the pod template\<close>

datatype scall =
    SListClusterNodes string
  | SSetClusterNodeState string string string
  | SDeleteClusterNode string string
  | SConfigureClusterHTTPClient ManagedCluster
  | SClusterStatusUpdate ManagedCluster
  | SGetCluster string string
  | SGroupStatusUpdate NiFiNodeGroup
  | SGroupUpdate NiFiNodeGroup
  | SGetGroup string string
  | SGetStatefulSet string string
  | SReconcileStatefulSet string int "string option"
  | SDeleteStatefulSet string string
  | SListClaims string string
  | SDeleteClaim string
  | SEvent string string

record senv =
  se_Now :: "scall list \<Rightarrow> go_time"
  se_Sha256Hex :: "string \<Rightarrow> string"
  se_ListClusterNodes :: "string \<Rightarrow> scall list \<Rightarrow> ClusterNode list go_result"
  se_SetClusterNodeState :: "string \<Rightarrow> string \<Rightarrow> string \<Rightarrow> scall list \<Rightarrow> go_error option"
  se_DeleteClusterNode :: "string \<Rightarrow> string \<Rightarrow> scall list \<Rightarrow> go_error option"
  se_ConfigureClusterHTTPClient :: "ManagedCluster \<Rightarrow> scall list \<Rightarrow> go_error option"
  se_ClusterStatusUpdate :: "ManagedCluster \<Rightarrow> scall list \<Rightarrow> go_error option"
  se_GetCluster :: "string \<Rightarrow> string \<Rightarrow> scall list \<Rightarrow> ManagedCluster go_result"
  se_GroupStatusUpdate :: "NiFiNodeGroup \<Rightarrow> scall list \<Rightarrow> go_error option"
  se_GroupUpdate :: "NiFiNodeGroup \<Rightarrow> scall list \<Rightarrow> go_error option"
  se_GetGroup :: "string \<Rightarrow> string \<Rightarrow> scall list \<Rightarrow> NiFiNodeGroup go_result"
  se_GetStatefulSet :: "string \<Rightarrow> string \<Rightarrow> scall list \<Rightarrow> StatefulSet go_result"
  se_ReconcileStatefulSet :: "string \<Rightarrow> int \<Rightarrow> string option \<Rightarrow> scall list \<Rightarrow> StatefulSet go_result"
  se_DeleteStatefulSet :: "string \<Rightarrow> string \<Rightarrow> scall list \<Rightarrow> go_error option"
  se_ListClaims :: "string \<Rightarrow> string \<Rightarrow> scall list \<Rightarrow> string list go_result"
  se_DeleteClaim :: "string \<Rightarrow> scall list \<Rightarrow> go_error option"
  se_ScaleSelector :: "ManagedCluster \<Rightarrow> NiFiNodeGroup \<Rightarrow> string"

definition ListClusterNodes :: "senv \<Rightarrow> string \<Rightarrow> (scall, 'o, ClusterNode list go_result) handler" where
  "ListClusterNodes E endpoint = ext_call (SListClusterNodes endpoint) (se_ListClusterNodes E endpoint)"
definition SetClusterNodeState :: "senv \<Rightarrow> string \<Rightarrow> string \<Rightarrow> string \<Rightarrow> (scall, 'o, go_error option) handler" where
  "SetClusterNodeState E endpoint nodeID st = ext_call (SSetClusterNodeState endpoint nodeID st) (se_SetClusterNodeState E endpoint nodeID st)"
definition DeleteClusterNode :: "senv \<Rightarrow> string \<Rightarrow> string \<Rightarrow> (scall, 'o, go_error option) handler" where
  "DeleteClusterNode E endpoint nodeID = ext_call (SDeleteClusterNode endpoint nodeID) (se_DeleteClusterNode E endpoint nodeID)"
definition recordEvent :: "string \<Rightarrow> string \<Rightarrow> (scall, 'o, unit) handler" where
  "recordEvent reason message = ext_call (SEvent reason message) (\<lambda>_. ())"

lemmas node_call_defs = ListClusterNodes_def SetClusterNodeState_def DeleteClusterNode_def recordEvent_def

section \<open>One offload step\<close>

definition poolNodeAddress :: "string \<Rightarrow> string \<Rightarrow> string \<Rightarrow> int \<Rightarrow> string" where
  "poolNodeAddress statefulSetName headlessService namespace ordinal =
     statefulSetName @ ''-'' @ show_int ordinal @ ''.'' @ headlessService @ ''.'' @ namespace @ ''.svc''"

fun findClusterNodeByAddress :: "ClusterNode list \<Rightarrow> string \<Rightarrow> ClusterNode option" where
  "findClusterNodeByAddress [] address = None"
| "findClusterNodeByAddress (n # ns) address = (if nd_Address n = address then Some n else findClusterNodeByAddress ns address)"

definition offloadStartedAt :: "senv \<Rightarrow> NiFiClusterScaleDownStatus option \<Rightarrow> string \<Rightarrow> (scall, 'o, go_time) handler" where
  "offloadStartedAt E current address = (case current of
      Some st \<Rightarrow> (if sd_NodeAddress st = address then (case sd_StartedAt st of Some t \<Rightarrow> ret t | None \<Rightarrow> read_clock (se_Now E))
                  else read_clock (se_Now E))
    | None \<Rightarrow> read_clock (se_Now E))"

record offloadParams =
  op_endpoint :: string
  op_statefulSetName :: string
  op_headlessService :: string
  op_namespace :: string
  op_desired :: int
  op_currentReplicas :: int
  op_offloadEnabled :: bool
  op_timeout :: duration
  op_force :: bool

record scaleDownStep =
  st_replicas :: int
  st_active :: bool
  st_status :: "NiFiClusterScaleDownStatus option"

definition node_address :: "offloadParams \<Rightarrow> string" where
  "node_address p = poolNodeAddress (op_statefulSetName p) (op_headlessService p) (op_namespace p) (op_currentReplicas p - 1)"

definition hold :: "offloadParams \<Rightarrow> NiFiClusterScaleDownStatus option \<Rightarrow> scaleDownStep" where
  "hold p status = \<lparr>st_replicas = op_currentReplicas p, st_active = True, st_status = status\<rparr>"

definition release_replica :: "offloadParams \<Rightarrow> NiFiClusterScaleDownStatus option \<Rightarrow> scaleDownStep" where
  "release_replica p status = \<lparr>st_replicas = op_currentReplicas p - 1, st_active = True, st_status = status\<rparr>"

definition wrap_if :: "string \<Rightarrow> go_error option \<Rightarrow> go_error option" where
  "wrap_if prefix e = map_option (wrapf prefix) e"

definition delete_failed :: "go_error option \<Rightarrow> bool" where
  \<comment> \<open>\<open>err != nil && !nifi.IsNotFound(err)\<close>\<close>
  "delete_failed e = (case e of None \<Rightarrow> False | Some err \<Rightarrow> \<not> IsNotFound err)"

definition advance_node ::
  "senv \<Rightarrow> offloadParams \<Rightarrow> NiFiClusterScaleDownStatus option \<Rightarrow> ClusterNode \<Rightarrow> (string \<Rightarrow> NiFiClusterScaleDownStatus option) \<Rightarrow>
   (scall, 'o, scaleDownStep \<times> go_error option) handler" where
  \<comment> \<open>the switch over \<open>node.Status\<close>\<close>
  "advance_node E p current node statusFor =
     (if nd_Status node = NodeStatusConnected \<or> nd_Status node = NodeStatusConnecting then do {
        e \<leftarrow> SetClusterNodeState E (op_endpoint p) (nd_NodeID node) NodeStatusDisconnecting;
        ret (if e \<noteq> None then (hold p current, wrap_if (''disconnect NiFi node '' @ node_address p @ '': '') e)
             else (hold p (statusFor scaleDownPhaseDisconnecting), None)) }
      else if nd_Status node = NodeStatusDisconnected then do {
        e \<leftarrow> SetClusterNodeState E (op_endpoint p) (nd_NodeID node) NodeStatusOffloading;
        ret (if e \<noteq> None then (hold p current, wrap_if (''offload NiFi node '' @ node_address p @ '': '') e)
             else (hold p (statusFor scaleDownPhaseOffloading), None)) }
      else if nd_Status node = NodeStatusOffloaded then do {
        e \<leftarrow> DeleteClusterNode E (op_endpoint p) (nd_NodeID node);
        ret (if delete_failed e then (hold p current, wrap_if (''remove offloaded NiFi node '' @ node_address p @ '': '') e)
             else (release_replica p (statusFor scaleDownPhaseRemoving), None)) }
      else ret (hold p (statusFor (if nd_Status node = NodeStatusDisconnecting then scaleDownPhaseDisconnecting
                                   else scaleDownPhaseOffloading)), None))"

definition computeOffloadStep ::
  "senv \<Rightarrow> offloadParams \<Rightarrow> NiFiClusterScaleDownStatus option \<Rightarrow> (scall, 'o, scaleDownStep \<times> go_error option) handler" where
  "computeOffloadStep E p current =
     (if op_currentReplicas p \<le> op_desired p \<or> \<not> op_offloadEnabled p
      then ret (\<lparr>st_replicas = op_desired p, st_active = False, st_status = None\<rparr>, None)
      else do {
        let address = node_address p;
        r \<leftarrow> ListClusterNodes E (op_endpoint p);
        (case r of
           Inl err \<Rightarrow> ret (hold p current, Some (wrapf ''list NiFi cluster nodes for scale-down: '' err))
         | Inr nodes \<Rightarrow> (case findClusterNodeByAddress nodes address of
              None \<Rightarrow> ret (release_replica p None, None)
            | Some node \<Rightarrow> do {
                startedAt \<leftarrow> offloadStartedAt E current address;
                let statusFor = (\<lambda>phase. Some \<lparr>sd_NodeAddress = address, sd_Phase = phase, sd_StartedAt = Some startedAt\<rparr>);
                t \<leftarrow> read_clock (se_Now E);
                (if t - startedAt > op_timeout p then
                   (if op_force p then do {
                      e \<leftarrow> DeleteClusterNode E (op_endpoint p) (nd_NodeID node);
                      ret (if delete_failed e
                           then (hold p (statusFor scaleDownPhaseRemoving), wrap_if (''force-remove NiFi node '' @ address @ '' after offload timeout: '') e)
                           else (release_replica p None, None)) }
                    else ret (hold p (statusFor (nd_Status node)),
                           Some (errorf (''NiFi node '' @ address @ '' did not finish offloading within '' @ show_duration (op_timeout p)))))
                 else advance_node E p current node statusFor) })) })"

section \<open>The primary pool of a cluster\<close>

definition managedClusterReplicas :: "ManagedCluster \<Rightarrow> int" where
  "managedClusterReplicas cluster = (if mc_Replicas cluster > 0 then mc_Replicas cluster else 1)"

definition offload_enabled :: "NiFiClusterScaleDownSpec option \<Rightarrow> bool" where
  "offload_enabled spec = (case spec of None \<Rightarrow> True | Some sd \<Rightarrow> (case sds_OffloadData sd of None \<Rightarrow> True | Some b \<Rightarrow> b))"

definition scale_down_timeout :: "NiFiClusterScaleDownSpec option \<Rightarrow> duration" where
  "scale_down_timeout spec = (case spec of
      Some sd \<Rightarrow> (if sds_TimeoutSeconds sd > 0 then sds_TimeoutSeconds sd else defaultScaleDownTimeoutSeconds)
    | None \<Rightarrow> defaultScaleDownTimeoutSeconds) * second"

definition managedClusterOffloadEnabled :: "ManagedCluster \<Rightarrow> bool" where
  "managedClusterOffloadEnabled cluster = offload_enabled (mc_ScaleDownSpec cluster)"

definition managedClusterScaleDownTimeout :: "ManagedCluster \<Rightarrow> duration" where
  "managedClusterScaleDownTimeout cluster = scale_down_timeout (mc_ScaleDownSpec cluster)"

definition managedClusterScaleDownTimeoutPolicy :: "ManagedCluster \<Rightarrow> string" where
  "managedClusterScaleDownTimeoutPolicy cluster = (case mc_ScaleDownSpec cluster of
      Some sd \<Rightarrow> (if sds_OnTimeout sd = ScaleDownTimeoutForce then ScaleDownTimeoutForce else ScaleDownTimeoutFail)
    | None \<Rightarrow> ScaleDownTimeoutFail)"

definition internalTLSEnabled :: "ManagedCluster \<Rightarrow> bool" where
  "internalTLSEnabled cluster = (case mc_InternalTLS cluster of None \<Rightarrow> False | Some (enabled, _) \<Rightarrow> enabled)"

definition defaultHTTPSPort :: int where "defaultHTTPSPort = 8443"
definition defaultNiFiWebPort :: int where "defaultNiFiWebPort = 8080"

definition managedClusterHTTPSPort :: "ManagedCluster \<Rightarrow> int" where
  "managedClusterHTTPSPort cluster = (case mc_InternalTLS cluster of
      Some (enabled, port) \<Rightarrow> (if enabled \<and> port > 0 then port else defaultHTTPSPort)
    | None \<Rightarrow> defaultHTTPSPort)"

definition managedClusterServicePort :: "ManagedCluster \<Rightarrow> int" where
  "managedClusterServicePort cluster = (if internalTLSEnabled cluster then managedClusterHTTPSPort cluster
     else if mc_ServicePort cluster > 0 then mc_ServicePort cluster else defaultNiFiWebPort)"

definition managedClusterEndpoint :: "ManagedCluster \<Rightarrow> string \<Rightarrow> string" where
  \<comment> \<open>the second argument is \<open>managedClusterResourceName(cluster)\<close>\<close>
  "managedClusterEndpoint cluster resourceName =
     (if cl_APIURI cluster \<noteq> None \<and> cl_APIURI cluster \<noteq> Some '''' then the (cl_APIURI cluster)
      else (let scheme = (if internalTLSEnabled cluster then ''https'' else ''http'') in
        scheme @ ''://'' @ resourceName @ ''.'' @ cl_Namespace cluster @ ''.svc:'' @ show_int (managedClusterServicePort cluster)))"

definition scaleDownStatusEqual :: "NiFiClusterScaleDownStatus option \<Rightarrow> NiFiClusterScaleDownStatus option \<Rightarrow> bool" where
  "scaleDownStatusEqual left right = (case (left, right) of
      (Some l, Some r) \<Rightarrow> sd_NodeAddress l = sd_NodeAddress r \<and> sd_Phase l = sd_Phase r
    | _ \<Rightarrow> left = None \<and> right = None)"

definition statusUpdateScaleDown :: "senv \<Rightarrow> (scall, ManagedCluster, go_error option) handler" where
  "statusUpdateScaleDown E = do {
     cluster \<leftarrow> get_obj;
     err \<leftarrow> ext_call (SClusterStatusUpdate cluster) (se_ClusterStatusUpdate E cluster);
     (if (case err of Some e \<Rightarrow> IsConflict e | None \<Rightarrow> False) then do {
        g \<leftarrow> ext_call (SGetCluster (cl_Namespace cluster) (cl_Name cluster)) (se_GetCluster E (cl_Namespace cluster) (cl_Name cluster));
        (case g of
           Inl getErr \<Rightarrow> ret (Some getErr)
         | Inr latest \<Rightarrow> (let latest = latest\<lparr>mc_ScaleDown := mc_ScaleDown cluster\<rparr> in
             ext_call (SClusterStatusUpdate latest) (se_ClusterStatusUpdate E latest))) }
      else ret err) }"

definition setScaleDownStatus :: "senv \<Rightarrow> NiFiClusterScaleDownStatus option \<Rightarrow> (scall, ManagedCluster, go_error option) handler" where
  "setScaleDownStatus E desired = do {
     cluster \<leftarrow> get_obj;
     (if scaleDownStatusEqual (mc_ScaleDown cluster) desired then ret None
      else do { upd_obj (\<lambda>c. c\<lparr>mc_ScaleDown := desired\<rparr>); statusUpdateScaleDown E }) }"

definition clearScaleDownStatus :: "senv \<Rightarrow> (scall, ManagedCluster, go_error option) handler" where
  "clearScaleDownStatus E = do {
     cluster \<leftarrow> get_obj;
     (if mc_ScaleDown cluster = None then ret None
      else do { upd_obj (\<lambda>c. c\<lparr>mc_ScaleDown := None\<rparr>); statusUpdateScaleDown E }) }"

record scaleDownDecision =
  sdn_replicas :: int
  sdn_active :: bool

definition cluster_params :: "senv \<Rightarrow> ManagedCluster \<Rightarrow> int \<Rightarrow> offloadParams go_result" where
  "cluster_params E cluster currentReplicas =
     (case (managedClusterResourceName (se_Sha256Hex E) (cl_Name cluster), managedClusterHeadlessServiceName (se_Sha256Hex E) (cl_Name cluster)) of
        (Inr name, Inr headless) \<Rightarrow> Inr \<lparr>op_endpoint = managedClusterEndpoint cluster name, op_statefulSetName = name,
           op_headlessService = headless, op_namespace = cl_Namespace cluster, op_desired = managedClusterReplicas cluster,
           op_currentReplicas = currentReplicas, op_offloadEnabled = True, op_timeout = managedClusterScaleDownTimeout cluster,
           op_force = (managedClusterScaleDownTimeoutPolicy cluster = ScaleDownTimeoutForce)\<rparr>
      | (Inl e, _) \<Rightarrow> Inl e
      | (_, Inl e) \<Rightarrow> Inl e)"

definition persist_cluster_step :: "senv \<Rightarrow> scaleDownStep \<times> go_error option \<Rightarrow> (scall, ManagedCluster, scaleDownDecision \<times> go_error option) handler" where
  "persist_cluster_step E result = (case result of (step, stepErr) \<Rightarrow> do {
     cluster \<leftarrow> get_obj;
     statusErr \<leftarrow> (case st_status step of
        None \<Rightarrow> do {
          (case mc_ScaleDown cluster of
             Some sd \<Rightarrow> recordEvent ''NodeOffloaded'' (''Offloaded and removed NiFi node '' @ sd_NodeAddress sd @ ''; scaling to '' @
                          show_int (st_replicas step) @ '' replicas.'')
           | None \<Rightarrow> ret ());
          clearScaleDownStatus E }
      | Some status \<Rightarrow> do {
          (if (case mc_ScaleDown cluster of None \<Rightarrow> True | Some sd \<Rightarrow> sd_NodeAddress sd \<noteq> sd_NodeAddress status)
           then recordEvent ''OffloadingNode'' (sd_Phase status @ '' NiFi node '' @ sd_NodeAddress status @ '' before removal.'')
           else ret ());
          setScaleDownStatus E (Some status) });
     let decision = \<lparr>sdn_replicas = st_replicas step, sdn_active = st_active step\<rparr>;
     ret (decision, if stepErr \<noteq> None then stepErr else statusErr) })"

definition reconcileManagedClusterScaleDown ::
  "senv \<Rightarrow> int option \<Rightarrow> (scall, ManagedCluster, scaleDownDecision \<times> go_error option) handler" where
  \<comment> \<open>the argument is \<open>current.Spec.Replicas\<close>, absent when there is no StatefulSet or no count\<close>
  "reconcileManagedClusterScaleDown E current = do {
     cluster \<leftarrow> get_obj;
     let desired = managedClusterReplicas cluster;
     (case current of
        None \<Rightarrow> do { e \<leftarrow> clearScaleDownStatus E; ret (\<lparr>sdn_replicas = desired, sdn_active = False\<rparr>, e) }
      | Some currentReplicas \<Rightarrow>
         (if currentReplicas \<le> desired \<or> \<not> managedClusterOffloadEnabled cluster \<or> currentReplicas \<le> 1
          then do { e \<leftarrow> clearScaleDownStatus E; ret (\<lparr>sdn_replicas = desired, sdn_active = False\<rparr>, e) }
          else do {
            c \<leftarrow> ext_call (SConfigureClusterHTTPClient cluster) (se_ConfigureClusterHTTPClient E cluster);
            (case c of
               Some err \<Rightarrow> ret (\<lparr>sdn_replicas = currentReplicas, sdn_active = True\<rparr>, Some (wrapf ''configure NiFi API client for scale-down: '' err))
             | None \<Rightarrow> (case cluster_params E cluster currentReplicas of
                  Inl panic \<Rightarrow> ret (\<lparr>sdn_replicas = currentReplicas, sdn_active = True\<rparr>, Some panic)
                | Inr p \<Rightarrow> do {
                    result \<leftarrow> computeOffloadStep E p (mc_ScaleDown cluster);
                    persist_cluster_step E result })) })) }"

section \<open>The pool of a node group\<close>

definition nodeGroupReplicas :: "NiFiNodeGroup \<Rightarrow> int" where
  "nodeGroupReplicas group' = (if ng_Replicas group' > 0 then ng_Replicas group' else 0)"

definition nodeGroupScaleDownSpec :: "ManagedCluster \<Rightarrow> NiFiNodeGroup \<Rightarrow> NiFiClusterScaleDownSpec option" where
  "nodeGroupScaleDownSpec cluster group' = (case ng_ScaleDownSpec group' of Some sd \<Rightarrow> Some sd | None \<Rightarrow> mc_ScaleDownSpec cluster)"

definition nodeGroupOffloadEnabled :: "ManagedCluster \<Rightarrow> NiFiNodeGroup \<Rightarrow> bool" where
  "nodeGroupOffloadEnabled cluster group' = offload_enabled (nodeGroupScaleDownSpec cluster group')"

definition nodeGroupScaleDownTimeout :: "ManagedCluster \<Rightarrow> NiFiNodeGroup \<Rightarrow> duration" where
  "nodeGroupScaleDownTimeout cluster group' = scale_down_timeout (nodeGroupScaleDownSpec cluster group')"

definition nodeGroupScaleDownForce :: "ManagedCluster \<Rightarrow> NiFiNodeGroup \<Rightarrow> bool" where
  "nodeGroupScaleDownForce cluster group' = (case nodeGroupScaleDownSpec cluster group' of
      Some sd \<Rightarrow> sds_OnTimeout sd = ScaleDownTimeoutForce | None \<Rightarrow> False)"

definition statusUpdateNodeGroupScaleDown :: "senv \<Rightarrow> (scall, NiFiNodeGroup, go_error option) handler" where
  "statusUpdateNodeGroupScaleDown E = do {
     group' \<leftarrow> get_obj;
     err \<leftarrow> ext_call (SGroupStatusUpdate group') (se_GroupStatusUpdate E group');
     (if (case err of Some e \<Rightarrow> IsConflict e | None \<Rightarrow> False) then do {
        g \<leftarrow> ext_call (SGetGroup (ng_Namespace group') (ng_Name group')) (se_GetGroup E (ng_Namespace group') (ng_Name group'));
        (case g of
           Inl getErr \<Rightarrow> ret (Some getErr)
         | Inr latest \<Rightarrow> (let latest = latest\<lparr>ng_ScaleDown := ng_ScaleDown group'\<rparr> in
             ext_call (SGroupStatusUpdate latest) (se_GroupStatusUpdate E latest))) }
      else ret err) }"

definition setNodeGroupScaleDown :: "senv \<Rightarrow> NiFiClusterScaleDownStatus option \<Rightarrow> (scall, NiFiNodeGroup, go_error option) handler" where
  "setNodeGroupScaleDown E desired = do {
     group' \<leftarrow> get_obj;
     (if scaleDownStatusEqual (ng_ScaleDown group') desired then ret None
      else do { upd_obj (\<lambda>g. g\<lparr>ng_ScaleDown := desired\<rparr>); statusUpdateNodeGroupScaleDown E }) }"

definition clearNodeGroupScaleDown :: "senv \<Rightarrow> (scall, NiFiNodeGroup, go_error option) handler" where
  "clearNodeGroupScaleDown E = do {
     group' \<leftarrow> get_obj;
     (if ng_ScaleDown group' = None then ret None
      else do { upd_obj (\<lambda>g. g\<lparr>ng_ScaleDown := None\<rparr>); statusUpdateNodeGroupScaleDown E }) }"

definition group_params :: "senv \<Rightarrow> ManagedCluster \<Rightarrow> NiFiNodeGroup \<Rightarrow> int \<Rightarrow> offloadParams go_result" where
  "group_params E cluster group' currentReplicas =
     (case (nodeGroupStatefulSetName (se_Sha256Hex E) (cl_Name cluster) (ng_Name group'),
            managedClusterHeadlessServiceName (se_Sha256Hex E) (cl_Name cluster)) of
        (Inr name, Inr headless) \<Rightarrow> Inr \<lparr>op_endpoint = clusterEndpoint (NiFiCluster.truncate cluster), op_statefulSetName = name,
           op_headlessService = headless, op_namespace = ng_Namespace group', op_desired = nodeGroupReplicas group',
           op_currentReplicas = currentReplicas, op_offloadEnabled = nodeGroupOffloadEnabled cluster group',
           op_timeout = nodeGroupScaleDownTimeout cluster group', op_force = nodeGroupScaleDownForce cluster group'\<rparr>
      | (Inl e, _) \<Rightarrow> Inl e
      | (_, Inl e) \<Rightarrow> Inl e)"

definition persist_group_step :: "senv \<Rightarrow> scaleDownStep \<times> go_error option \<Rightarrow> (scall, NiFiNodeGroup, scaleDownStep \<times> go_error option) handler" where
  "persist_group_step E result = (case result of (step, stepErr) \<Rightarrow> do {
     group' \<leftarrow> get_obj;
     statusErr \<leftarrow> (case st_status step of
        None \<Rightarrow> do {
          (case ng_ScaleDown group' of
             Some sd \<Rightarrow> recordEvent ''NodeOffloaded'' (''Offloaded and removed node-group node '' @ sd_NodeAddress sd @ ''; scaling to '' @
                          show_int (st_replicas step) @ '' replicas.'')
           | None \<Rightarrow> ret ());
          clearNodeGroupScaleDown E }
      | Some status \<Rightarrow> do {
          (if (case ng_ScaleDown group' of None \<Rightarrow> True | Some sd \<Rightarrow> sd_NodeAddress sd \<noteq> sd_NodeAddress status)
           then recordEvent ''OffloadingNode'' (sd_Phase status @ '' node-group node '' @ sd_NodeAddress status @ '' before removal.'')
           else ret ());
          setNodeGroupScaleDown E (Some status) });
     ret (step, if stepErr \<noteq> None then stepErr else statusErr) })"

definition reconcileNodeGroupScaleDown ::
  "senv \<Rightarrow> ManagedCluster \<Rightarrow> int option \<Rightarrow> (scall, NiFiNodeGroup, scaleDownStep \<times> go_error option) handler" where
  "reconcileNodeGroupScaleDown E cluster current = do {
     group' \<leftarrow> get_obj;
     let desired = nodeGroupReplicas group';
     (case current of
        None \<Rightarrow> do { e \<leftarrow> clearNodeGroupScaleDown E; ret (\<lparr>st_replicas = desired, st_active = False, st_status = None\<rparr>, e) }
      | Some currentReplicas \<Rightarrow>
         (if currentReplicas \<le> desired
          then do { e \<leftarrow> clearNodeGroupScaleDown E; ret (\<lparr>st_replicas = desired, st_active = False, st_status = None\<rparr>, e) }
          else (case group_params E cluster group' currentReplicas of
              Inl panic \<Rightarrow> ret (\<lparr>st_replicas = currentReplicas, st_active = True, st_status = None\<rparr>, Some panic)
            | Inr p \<Rightarrow> do {
                result \<leftarrow> computeOffloadStep E p (ng_ScaleDown group');
                persist_group_step E result }))) }"

section \<open>The contract of a step\<close>

definition node_released :: "senv \<Rightarrow> offloadParams \<Rightarrow> (scall, 'o) rstate \<Rightarrow> (scall, 'o) rstate \<Rightarrow> bool" where
  \<comment> \<open>NiFi no longer lists the node, or listed it as offloaded (or the forced timeout has passed) and acknowledged its removal\<close>
  "node_released E p s s' \<longleftrightarrow> (\<exists>nodes. asked (SListClusterNodes (op_endpoint p)) (se_ListClusterNodes E (op_endpoint p)) (\<lambda>r. r = Inr nodes) s s' \<and>
     (case findClusterNodeByAddress nodes (node_address p) of
        None \<Rightarrow> True
      | Some node \<Rightarrow> (nd_Status node = NodeStatusOffloaded \<or> op_force p) \<and>
          asked (SDeleteClusterNode (op_endpoint p) (nd_NodeID node)) (se_DeleteClusterNode E (op_endpoint p) (nd_NodeID node))
            (\<lambda>e. \<not> delete_failed e) s s'))"

lemma step_simps [simp]:
  "st_replicas (hold p st) = op_currentReplicas p" "st_replicas (release_replica p st) = op_currentReplicas p - 1"
  "st_active (hold p st)" "st_active (release_replica p st)" "st_status (hold p st) = st" "st_status (release_replica p st) = st"
  by (simp_all add: hold_def release_replica_def)

lemma released_gone:
  assumes "calls s' = log @ SListClusterNodes (op_endpoint p) # zs" "length (calls s) \<le> length log"
    "se_ListClusterNodes E (op_endpoint p) log = Inr nodes" "findClusterNodeByAddress nodes (node_address p) = None"
  shows "node_released E p s s'"
  unfolding node_released_def
  by (intro exI [of _ nodes] conjI asked_at [OF assms(1,2)]) (use assms(3,4) in auto)

lemma released_removed:
  assumes "calls s' = log @ [SListClusterNodes (op_endpoint p), SDeleteClusterNode (op_endpoint p) (nd_NodeID node)]"
    "length (calls s) \<le> length log" "se_ListClusterNodes E (op_endpoint p) log = Inr nodes"
    "findClusterNodeByAddress nodes (node_address p) = Some node" "nd_Status node = NodeStatusOffloaded \<or> op_force p"
    "\<not> delete_failed (se_DeleteClusterNode E (op_endpoint p) (nd_NodeID node) (log @ [SListClusterNodes (op_endpoint p)]))"
  shows "node_released E p s s'"
proof -
  have a: "asked (SListClusterNodes (op_endpoint p)) (se_ListClusterNodes E (op_endpoint p)) (\<lambda>r. r = Inr nodes) s s'"
    by (rule asked_at [of _ log]) (use assms in auto)
  have d: "asked (SDeleteClusterNode (op_endpoint p) (nd_NodeID node)) (se_DeleteClusterNode E (op_endpoint p) (nd_NodeID node))
      (\<lambda>e. \<not> delete_failed e) s s'"
    by (rule asked_at [of _ "log @ [SListClusterNodes (op_endpoint p)]"]) (use assms in auto)
  show ?thesis using a d assms(4,5) by (auto simp: node_released_def)
qed

definition step_contract :: "senv \<Rightarrow> offloadParams \<Rightarrow> (scall, 'o) rstate \<Rightarrow> scaleDownStep \<times> go_error option \<Rightarrow> (scall, 'o) rstate \<Rightarrow> bool" where
  "step_contract E p s r s' \<longleftrightarrow> st_active (fst r) \<and>
     (st_replicas (fst r) = op_currentReplicas p \<or> st_replicas (fst r) = op_currentReplicas p - 1 \<and> node_released E p s s')"

lemma offload_started_spec: "wp (offloadStartedAt E current address) (\<lambda>t s'. s' = s) s"
  unfolding offloadStartedAt_def by (intro wp_intros) simp_all

section \<open>Pools over many reconciles\<close>

text \<open>
  A pool is scaled by running its reconcile again and again: each run sees the current replica count
  and, unless it fails, its answer becomes the count. \<open>removals\<close> lists, for a run of the loop, the
  steps that lowered the count.
\<close>

primrec pool_run :: "('e \<Rightarrow> int \<Rightarrow> 's \<Rightarrow> int option \<times> 's) \<Rightarrow> 'e list \<Rightarrow> int \<times> 's \<Rightarrow> int \<times> 's" where
  "pool_run step [] x = x"
| "pool_run step (e # es) x = (case step e (fst x) (snd x) of (r, s') \<Rightarrow>
     pool_run step es (case r of Some n \<Rightarrow> n | None \<Rightarrow> fst x, s'))"

primrec removals :: "('e \<Rightarrow> int \<Rightarrow> 's \<Rightarrow> int option \<times> 's) \<Rightarrow> 'e list \<Rightarrow> int \<times> 's \<Rightarrow> ('e \<times> int \<times> 's \<times> 's) list" where
  "removals step [] x = []"
| "removals step (e # es) x = (case step e (fst x) (snd x) of (r, s') \<Rightarrow>
     (case r of
        Some n \<Rightarrow> (if n < fst x then [(e, fst x, snd x, s')] else []) @ removals step es (n, s')
      | None \<Rightarrow> removals step es (fst x, s')))"

locale offload_pool =
  fixes step :: "'e \<Rightarrow> int \<Rightarrow> ('c, 'o) rstate \<Rightarrow> int option \<times> ('c, 'o) rstate"
    and desired :: "'o \<Rightarrow> int"
    and graceful :: "'e \<Rightarrow> 'o \<Rightarrow> bool"
    and released :: "'e \<Rightarrow> int \<Rightarrow> ('c, 'o) rstate \<Rightarrow> ('c, 'o) rstate \<Rightarrow> bool"
  assumes keeps_spec: "step e n s = (answer, s') \<Longrightarrow> desired (obj s') = desired (obj s) \<and> graceful e' (obj s') = graceful e' (obj s)"
    and at_rest: "n \<le> desired (obj s) \<Longrightarrow> step e n s = (Some r, s') \<Longrightarrow> r = desired (obj s)"
    and one_down: "desired (obj s) < n \<Longrightarrow> graceful e (obj s) \<Longrightarrow> step e n s = (Some r, s') \<Longrightarrow> r = n \<or> r = n - 1 \<and> released e n s s'"
begin

lemma step_bounds:
  assumes "desired (obj s) \<le> n" "graceful e (obj s)" "step e n s = (Some r, s')"
  shows "desired (obj s) \<le> r \<and> n - 1 \<le> r \<and> r \<le> n"
  using assms at_rest [of n s e r s'] one_down [of s n e r s'] by (cases "n = desired (obj s)") auto

lemma run_safe:
  assumes "desired (obj s) \<le> n" "\<forall>e \<in> set es. graceful e (obj s)"
  shows "let (n', s') = pool_run step es (n, s) in
     desired (obj s) \<le> n' \<and> n' \<le> n \<and> map (\<lambda>x. fst (snd x)) (removals step es (n, s)) = map (\<lambda>k. n - int k) [0..<nat (n - n')] \<and>
     (\<forall>(e, k, s1, s2) \<in> set (removals step es (n, s)). released e k s1 s2)"
  using assms
proof (induction es arbitrary: n s)
  case Nil
  then show ?case by simp
next
  case (Cons e es)
  obtain r s1 where st: "step e n s = (r, s1)" by fastforce
  have k: "desired (obj s1) = desired (obj s)" "\<And>e'. graceful e' (obj s1) = graceful e' (obj s)"
    using keeps_spec [OF st] by auto
  show ?case
  proof (cases r)
    case None
    with Cons.IH [of s1 n] Cons.prems st k show ?thesis by simp
  next
    case (Some m)
    have b: "desired (obj s) \<le> m" "m = n \<or> m = n - 1 \<and> desired (obj s) < n \<and> released e n s s1"
      using step_bounds [of s n e m s1] at_rest [of n s e m s1] one_down [of s n e m s1] Cons.prems st Some
      by (auto simp: not_le [symmetric])
    obtain n' s' where run: "pool_run step es (m, s1) = (n', s')" by fastforce
    have ih: "desired (obj s) \<le> n' \<and> n' \<le> m \<and> map (\<lambda>x. fst (snd x)) (removals step es (m, s1)) = map (\<lambda>k. m - int k) [0..<nat (m - n')] \<and>
       (\<forall>(e, k, s1, s2) \<in> set (removals step es (m, s1)). released e k s1 s2)"
      using Cons.IH [of s1 m] Cons.prems b k run by simp
    from b(2) show ?thesis
    proof
      assume "m = n"
      with ih st Some run show ?thesis by simp
    next
      assume m: "m = n - 1 \<and> desired (obj s) < n \<and> released e n s s1"
      with ih have "nat (n - n') = Suc (nat (m - n'))" by linarith
      then have "map (\<lambda>k. n - int k) [0..<nat (n - n')] = n # map (\<lambda>k. m - int k) [0..<nat (m - n')]"
        using m by (simp add: upt_conv_Cons map_Suc_upt [symmetric] del: upt_Suc)
      with m ih st Some run show ?thesis by simp
    qed
  qed
qed

end

definition primary_step :: "senv \<Rightarrow> int \<Rightarrow> (scall, ManagedCluster) rstate \<Rightarrow> int option \<times> (scall, ManagedCluster) rstate" where
  "primary_step E n s = (case run_state (reconcileManagedClusterScaleDown E (Some n)) s of ((d, e), s') \<Rightarrow>
     (if e = None then Some (sdn_replicas d) else None, s'))"

definition group_step :: "senv \<times> ManagedCluster \<Rightarrow> int \<Rightarrow> (scall, NiFiNodeGroup) rstate \<Rightarrow> int option \<times> (scall, NiFiNodeGroup) rstate" where
  "group_step Ec n s = (case run_state (reconcileNodeGroupScaleDown (fst Ec) (snd Ec) (Some n)) s of ((d, e), s') \<Rightarrow>
     (if e = None then Some (st_replicas d) else None, s'))"

lemma node_released_mono:
  assumes "node_released E p s1 s2" "extends s0 s1" "extends s2 s3"
  shows "node_released E p s0 s3"
proof -
  from assms(1) obtain nodes where
    l: "asked (SListClusterNodes (op_endpoint p)) (se_ListClusterNodes E (op_endpoint p)) (\<lambda>r. r = Inr nodes) s1 s2" and
    n: "case findClusterNodeByAddress nodes (node_address p) of None \<Rightarrow> True
      | Some node \<Rightarrow> (nd_Status node = NodeStatusOffloaded \<or> op_force p) \<and>
          asked (SDeleteClusterNode (op_endpoint p) (nd_NodeID node)) (se_DeleteClusterNode E (op_endpoint p) (nd_NodeID node))
            (\<lambda>e. \<not> delete_failed e) s1 s2"
    unfolding node_released_def by blast
  from l have "asked (SListClusterNodes (op_endpoint p)) (se_ListClusterNodes E (op_endpoint p)) (\<lambda>r. r = Inr nodes) s0 s3"
    by (rule asked_mono [OF _ assms(2,3)])
  with n show ?thesis unfolding node_released_def
    by (intro exI [of _ nodes]) (auto split: option.splits intro: asked_mono [OF _ assms(2,3)])
qed

definition status_only :: "(scall, ManagedCluster) rstate \<Rightarrow> (scall, ManagedCluster) rstate \<Rightarrow> bool" where
  "status_only s s' \<longleftrightarrow> extends s s' \<and> (\<exists>st. obj s' = (obj s)\<lparr>mc_ScaleDown := st\<rparr>)"

lemma status_only_refl [simp]: "status_only s s" "calls s' = calls s @ zs \<Longrightarrow> obj s' = obj s \<Longrightarrow> status_only s s'"
  by (auto simp: status_only_def extends_def intro: exI [of _ "mc_ScaleDown (obj s)"])

lemma cluster_status_update: "wp (statusUpdateScaleDown E) (\<lambda>_ s'. extends s s' \<and> obj s' = obj s) s"
  unfolding statusUpdateScaleDown_def by (intro wp_intros) (auto simp: extends_def)

lemma set_cluster_status: "wp (setScaleDownStatus E st) (\<lambda>_. status_only s) s"
  unfolding setScaleDownStatus_def
  by (intro wp_intros wp_mono [OF cluster_status_update]) (auto simp: status_only_def)

lemma clear_cluster_status: "wp (clearScaleDownStatus E) (\<lambda>_. status_only s) s"
  unfolding clearScaleDownStatus_def
  by (intro wp_intros wp_mono [OF cluster_status_update]) (auto simp: status_only_def)

lemma status_only_event: "status_only (s\<lparr>calls := calls s @ zs\<rparr>) s' \<Longrightarrow> status_only s s'"
  by (auto simp: status_only_def extends_def)

lemma persist_cluster_spec:
  "wp (persist_cluster_step E r) (\<lambda>x s'. status_only s s' \<and> fst x = \<lparr>sdn_replicas = st_replicas (fst r), sdn_active = st_active (fst r)\<rparr>) s"
  unfolding persist_cluster_step_def recordEvent_def
  by (intro wp_intros wp_mono [OF set_cluster_status] wp_mono [OF clear_cluster_status]) (auto dest: status_only_event)

lemma status_only_trans: "status_only s s1 \<Longrightarrow> status_only s1 s' \<Longrightarrow> status_only s s'"
  by (fastforce simp: status_only_def elim: extends_trans)

lemma offload_step_spec:
  assumes "op_desired p < op_currentReplicas p" "op_offloadEnabled p"
  shows "wp (computeOffloadStep E p current) (\<lambda>r s'. obj s' = obj s \<and> extends s s' \<and> step_contract E p s r s') s"
  unfolding computeOffloadStep_def advance_node_def node_call_defs Let_def
  by (intro wp_intros wp_mono [OF offload_started_spec])
     (use assms in \<open>auto simp: step_contract_def extends_def intro: released_gone released_removed\<close>)

lemma offload_and_persist:
  assumes "op_desired p < op_currentReplicas p" "op_offloadEnabled p"
  shows "wp (computeOffloadStep E p current) (\<lambda>r. wp (persist_cluster_step E r) (\<lambda>x s'. status_only s s' \<and>
     (sdn_replicas (fst x) = op_currentReplicas p \<or> sdn_replicas (fst x) = op_currentReplicas p - 1 \<and> node_released E p s s'))) s"
proof (rule wp_mono [OF offload_step_spec [OF assms]])
  fix r s1
  assume r: "obj s1 = obj s \<and> extends s s1 \<and> step_contract E p s r s1"
  show "wp (persist_cluster_step E r) (\<lambda>x s'. status_only s s' \<and>
     (sdn_replicas (fst x) = op_currentReplicas p \<or> sdn_replicas (fst x) = op_currentReplicas p - 1 \<and> node_released E p s s')) s1"
  proof (rule wp_mono [OF persist_cluster_spec])
    fix x s'
    assume x: "status_only s1 s' \<and> fst x = \<lparr>sdn_replicas = st_replicas (fst r), sdn_active = st_active (fst r)\<rparr>"
    have "node_released E p s s1 \<Longrightarrow> node_released E p s s'"
      using x by (auto simp: status_only_def elim: node_released_mono)
    with r x show "status_only s s' \<and>
       (sdn_replicas (fst x) = op_currentReplicas p \<or> sdn_replicas (fst x) = op_currentReplicas p - 1 \<and> node_released E p s s')"
      by (auto simp: step_contract_def intro: status_only_trans [of s s1] status_only_refl(2) elim: extends_def [THEN iffD1, THEN exE])
  qed
qed

lemma cluster_params_fields:
  "cluster_params E c n = Inr p \<Longrightarrow> op_desired p = managedClusterReplicas c \<and> op_currentReplicas p = n \<and> op_offloadEnabled p \<and>
   op_timeout p = managedClusterScaleDownTimeout c"
  by (auto simp: cluster_params_def split: sum.splits)

lemma one_replica: "1 \<le> managedClusterReplicas c"
  by (simp add: managedClusterReplicas_def)

definition primary_released :: "senv \<Rightarrow> int \<Rightarrow> (scall, ManagedCluster) rstate \<Rightarrow> (scall, ManagedCluster) rstate \<Rightarrow> bool" where
  "primary_released E n s s' \<longleftrightarrow> (\<exists>p. cluster_params E (obj s) n = Inr p \<and> node_released E p s s')"

lemma primary_rest:
  assumes "n \<le> managedClusterReplicas (obj s)"
  shows "wp (reconcileManagedClusterScaleDown E (Some n)) (\<lambda>x s'. status_only s s' \<and> sdn_replicas (fst x) = managedClusterReplicas (obj s)) s"
  unfolding reconcileManagedClusterScaleDown_def Let_def
  by (intro wp_intros wp_mono [OF clear_cluster_status]) (use assms in auto)

lemma primary_offloads:
  assumes "managedClusterReplicas (obj s) < n" "managedClusterOffloadEnabled (obj s)"
  shows "wp (reconcileManagedClusterScaleDown E (Some n)) (\<lambda>x s'. status_only s s' \<and>
     (sdn_replicas (fst x) = n \<or> sdn_replicas (fst x) = n - 1 \<and> primary_released E n s s')) s"
proof -
  let ?s = "s\<lparr>calls := calls s @ [SConfigureClusterHTTPClient (obj s)]\<rparr>"
  have e: "extends s ?s" by (simp add: extends_def)
  have post: "primary_released E n s s'" if "cluster_params E (obj s) n = Inr p" "node_released E p ?s s'" for p s'
    using that node_released_mono [OF that(2) e extends_refl] by (auto simp: primary_released_def)
  have n: "\<not> n \<le> 1" "\<not> n \<le> managedClusterReplicas (obj s)" using assms one_replica [of "obj s"] by auto
  have guard: "\<not> (n \<le> managedClusterReplicas (obj s) \<or> \<not> managedClusterOffloadEnabled (obj s) \<or> n \<le> 1)" using n assms by auto
  show ?thesis
  proof (cases "se_ConfigureClusterHTTPClient E (obj s) (calls s)")
    case (Some e)
    with guard show ?thesis by (simp add: reconcileManagedClusterScaleDown_def wp_simps)
  next
    case None
    show ?thesis
    proof (cases "cluster_params E (obj s) n")
      case (Inl e)
      with None guard show ?thesis by (simp add: reconcileManagedClusterScaleDown_def wp_simps)
    next
      case (Inr p)
      then have p: "op_desired p < op_currentReplicas p" "op_offloadEnabled p" "op_currentReplicas p = n"
        using cluster_params_fields [OF Inr] assms(1) by auto
      have eq: "wp (reconcileManagedClusterScaleDown E (Some n)) Q s =
          wp (computeOffloadStep E p (mc_ScaleDown (obj s))) (\<lambda>r. wp (persist_cluster_step E r) Q) ?s" for Q
        using None Inr guard by (simp add: reconcileManagedClusterScaleDown_def wp_simps)
      show ?thesis
        unfolding eq by (rule wp_mono [OF offload_and_persist [OF p(1,2)]], erule wp_mono)
          (use p(3) in \<open>auto dest: status_only_event post [OF Inr]\<close>)
    qed
  qed
qed

lemma primary_bypasses:
  assumes "\<not> managedClusterOffloadEnabled (obj s)"
  shows "wp (reconcileManagedClusterScaleDown E (Some n)) (\<lambda>x s'. status_only s s') s"
  unfolding reconcileManagedClusterScaleDown_def Let_def
  by (intro wp_intros wp_mono [OF clear_cluster_status]) (use assms in auto)

lemma primary_status_only: "wp (reconcileManagedClusterScaleDown E (Some n)) (\<lambda>x s'. status_only s s') s"
proof -
  consider "n \<le> managedClusterReplicas (obj s)" | "managedClusterReplicas (obj s) < n" "managedClusterOffloadEnabled (obj s)"
    | "\<not> managedClusterOffloadEnabled (obj s)" by fastforce
  then show ?thesis
    by cases (auto intro: wp_mono [OF primary_rest] wp_mono [OF primary_offloads] primary_bypasses)
qed

lemma primary_step_wp: "wp (reconcileManagedClusterScaleDown E (Some n)) Q s \<Longrightarrow> primary_step E n s = (r, s') \<Longrightarrow>
   \<exists>x. Q x s' \<and> (\<forall>k. r = Some k \<longrightarrow> k = sdn_replicas (fst x))"
  unfolding primary_step_def by (auto simp: wp_def split: prod.splits if_splits)

interpretation primary: offload_pool primary_step managedClusterReplicas "\<lambda>_. managedClusterOffloadEnabled" primary_released
proof unfold_locales
  fix e e' n s and answer :: "int option" and s'
  assume "primary_step e n s = (answer, s')"
  from primary_step_wp [OF primary_status_only this]
  show "managedClusterReplicas (obj s') = managedClusterReplicas (obj s) \<and> managedClusterOffloadEnabled (obj s') = managedClusterOffloadEnabled (obj s)"
    by (auto simp: status_only_def managedClusterReplicas_def managedClusterOffloadEnabled_def)
next
  fix n s e r s'
  assume "n \<le> managedClusterReplicas (obj s)" "primary_step e n s = (Some r, s')"
  from primary_step_wp [OF primary_rest [OF this(1)] this(2)] show "r = managedClusterReplicas (obj s)" by auto
next
  fix s n e r s'
  assume "managedClusterReplicas (obj s) < n" "managedClusterOffloadEnabled (obj s)" "primary_step e n s = (Some r, s')"
  from primary_step_wp [OF primary_offloads [OF this(1,2)] this(3)] show "r = n \<or> r = n - 1 \<and> primary_released e n s s'" by auto
qed

definition group_status_only :: "(scall, NiFiNodeGroup) rstate \<Rightarrow> (scall, NiFiNodeGroup) rstate \<Rightarrow> bool" where
  "group_status_only s s' \<longleftrightarrow> extends s s' \<and> (\<exists>st. obj s' = (obj s)\<lparr>ng_ScaleDown := st\<rparr>)"

lemma group_status_only_refl [simp]: "extends s s' \<Longrightarrow> obj s' = obj s \<Longrightarrow> group_status_only s s'"
  by (auto simp: group_status_only_def intro: exI [of _ "ng_ScaleDown (obj s)"])

lemma group_status_only_trans: "group_status_only s s1 \<Longrightarrow> group_status_only s1 s' \<Longrightarrow> group_status_only s s'"
  by (fastforce simp: group_status_only_def elim: extends_trans)

lemma group_status_only_event: "group_status_only (s\<lparr>calls := calls s @ zs\<rparr>) s' \<Longrightarrow> group_status_only s s'"
  by (auto simp: group_status_only_def extends_def)

lemma group_status_update: "wp (statusUpdateNodeGroupScaleDown E) (\<lambda>_ s'. extends s s' \<and> obj s' = obj s) s"
  unfolding statusUpdateNodeGroupScaleDown_def by (intro wp_intros) (auto simp: extends_def)

lemma set_group_status: "wp (setNodeGroupScaleDown E st) (\<lambda>_. group_status_only s) s"
  unfolding setNodeGroupScaleDown_def
  by (intro wp_intros wp_mono [OF group_status_update]) (simp_all, auto simp: group_status_only_def)

lemma clear_group_status: "wp (clearNodeGroupScaleDown E) (\<lambda>_. group_status_only s) s"
  unfolding clearNodeGroupScaleDown_def
  by (intro wp_intros wp_mono [OF group_status_update]) (simp_all, auto simp: group_status_only_def)

lemma persist_group_spec: "wp (persist_group_step E r) (\<lambda>x s'. group_status_only s s' \<and> fst x = fst r) s"
  unfolding persist_group_step_def recordEvent_def
  by (intro wp_intros wp_mono [OF set_group_status] wp_mono [OF clear_group_status]) (auto dest: group_status_only_event)

lemma group_params_fields:
  "group_params E c g n = Inr p \<Longrightarrow>
   op_desired p = nodeGroupReplicas g \<and> op_currentReplicas p = n \<and> op_offloadEnabled p = nodeGroupOffloadEnabled c g"
  by (auto simp: group_params_def split: sum.splits)

definition group_released :: "senv \<times> ManagedCluster \<Rightarrow> int \<Rightarrow> (scall, NiFiNodeGroup) rstate \<Rightarrow> (scall, NiFiNodeGroup) rstate \<Rightarrow> bool" where
  "group_released Ec n s s' \<longleftrightarrow> (\<exists>p. group_params (fst Ec) (snd Ec) (obj s) n = Inr p \<and> node_released (fst Ec) p s s')"

lemma group_rest:
  assumes "n \<le> nodeGroupReplicas (obj s)"
  shows "wp (reconcileNodeGroupScaleDown E c (Some n)) (\<lambda>x s'. group_status_only s s' \<and> st_replicas (fst x) = nodeGroupReplicas (obj s)) s"
  unfolding reconcileNodeGroupScaleDown_def Let_def
  by (intro wp_intros wp_mono [OF clear_group_status]) (use assms in auto)

lemma group_offloads:
  assumes "nodeGroupReplicas (obj s) < n" "nodeGroupOffloadEnabled c (obj s)"
  shows "wp (reconcileNodeGroupScaleDown E c (Some n)) (\<lambda>x s'. group_status_only s s' \<and>
     (st_replicas (fst x) = n \<or> st_replicas (fst x) = n - 1 \<and> group_released (E, c) n s s')) s"
proof -
  have step: "wp (computeOffloadStep E p (ng_ScaleDown (obj s))) (\<lambda>r. wp (persist_group_step E r) (\<lambda>x s'. group_status_only s s' \<and>
     (st_replicas (fst x) = n \<or> st_replicas (fst x) = n - 1 \<and> group_released (E, c) n s s'))) s" if p: "group_params E c (obj s) n = Inr p" for p
  proof (rule wp_mono [OF offload_step_spec])
    show "op_desired p < op_currentReplicas p" "op_offloadEnabled p" using group_params_fields [OF p] assms by auto
    fix r s1
    assume r: "obj s1 = obj s \<and> extends s s1 \<and> step_contract E p s r s1"
    show "wp (persist_group_step E r) (\<lambda>x s'. group_status_only s s' \<and>
      (st_replicas (fst x) = n \<or> st_replicas (fst x) = n - 1 \<and> group_released (E, c) n s s')) s1"
    proof (rule wp_mono [OF persist_group_spec])
      fix x s'
      assume x: "group_status_only s1 s' \<and> fst x = fst r"
      have "node_released E p s s1 \<Longrightarrow> node_released E p s s'"
        using x by (auto simp: group_status_only_def elim: node_released_mono)
      with r x p group_params_fields [OF p] show "group_status_only s s' \<and>
        (st_replicas (fst x) = n \<or> st_replicas (fst x) = n - 1 \<and> group_released (E, c) n s s')"
        by (auto simp: step_contract_def group_released_def intro: group_status_only_trans [of s s1])
    qed
  qed
  show ?thesis
    unfolding reconcileNodeGroupScaleDown_def Let_def
    by (intro wp_intros step) (use assms in auto)
qed

lemma offload_disabled:
  "\<not> op_offloadEnabled p \<Longrightarrow> computeOffloadStep E p current = ret (\<lparr>st_replicas = op_desired p, st_active = False, st_status = None\<rparr>, None)"
  by (simp add: computeOffloadStep_def)

lemma group_bypasses:
  assumes "\<not> nodeGroupOffloadEnabled c (obj s)"
  shows "wp (reconcileNodeGroupScaleDown E c (Some n)) (\<lambda>x. group_status_only s) s"
proof -
  have "wp (computeOffloadStep E p (ng_ScaleDown (obj s))) (\<lambda>r. wp (persist_group_step E r) (\<lambda>x. group_status_only s)) s"
    if "group_params E c (obj s) n = Inr p" for p
    using group_params_fields [OF that] assms by (auto simp: offload_disabled wp_simps intro: wp_mono [OF persist_group_spec])
  then show ?thesis
    unfolding reconcileNodeGroupScaleDown_def Let_def
    by (intro wp_intros wp_mono [OF clear_group_status]) (use assms in auto)
qed

lemma group_status_only_always: "wp (reconcileNodeGroupScaleDown E c (Some n)) (\<lambda>x. group_status_only s) s"
proof -
  consider "n \<le> nodeGroupReplicas (obj s)" | "nodeGroupReplicas (obj s) < n" "nodeGroupOffloadEnabled c (obj s)"
    | "\<not> nodeGroupOffloadEnabled c (obj s)" by fastforce
  then show ?thesis
    by cases (auto intro: wp_mono [OF group_rest] wp_mono [OF group_offloads] group_bypasses)
qed

lemma group_step_wp: "wp (reconcileNodeGroupScaleDown (fst Ec) (snd Ec) (Some n)) Q s \<Longrightarrow> group_step Ec n s = (r, s') \<Longrightarrow>
   \<exists>x. Q x s' \<and> (\<forall>k. r = Some k \<longrightarrow> k = st_replicas (fst x))"
  unfolding group_step_def by (auto simp: wp_def split: prod.splits if_splits)

interpretation node_group: offload_pool group_step nodeGroupReplicas "\<lambda>Ec. nodeGroupOffloadEnabled (snd Ec)" group_released
proof unfold_locales
  fix e e' n s and answer :: "int option" and s'
  assume "group_step e n s = (answer, s')"
  from group_step_wp [OF group_status_only_always this]
  show "nodeGroupReplicas (obj s') = nodeGroupReplicas (obj s) \<and> nodeGroupOffloadEnabled (snd e') (obj s') = nodeGroupOffloadEnabled (snd e') (obj s)"
    by (auto simp: group_status_only_def nodeGroupReplicas_def nodeGroupOffloadEnabled_def nodeGroupScaleDownSpec_def)
next
  fix n s e r s'
  assume "n \<le> nodeGroupReplicas (obj s)" "group_step e n s = (Some r, s')"
  from group_step_wp [OF group_rest [OF this(1)] this(2)] show "r = nodeGroupReplicas (obj s)" by auto
next
  fix s n e r s'
  assume "nodeGroupReplicas (obj s) < n" "nodeGroupOffloadEnabled (snd e) (obj s)" "group_step e n s = (Some r, s')"
  from group_step_wp [OF group_offloads [OF this(1,2)] this(3)] show "r = n \<or> r = n - 1 \<and> group_released e n s s'" by auto
qed

end
