(* ===== verification/Scale_Progress.thy ===== *)
theory Scale_Progress
  imports Scale_Down
begin

text \<open>
  Progress of a graceful scale-down over many reconciles: with a NiFi that completes what it is asked,
  three reconciles per surplus node suffice; with a NiFi that rejects the disconnect request of the
  highest-ordinal node, no number of reconciles does, and the timeout policy is never applied. The
  witnesses of both scale-down theories are at the end.
\<close>

section \<open>Replicas are given up only over released nodes\<close>


text \<open>
  The pool of a node group obeys the same discipline, also down to zero replicas and also when the
  policy is inherited from the cluster.
\<close>

theorem group_pool_releases_before_removing:
  assumes "\<forall>Ec \<in> set es. nodeGroupOffloadEnabled (snd Ec) (obj s)" "nodeGroupReplicas (obj s) \<le> n" "pool_run group_step es (n, s) = (n', s')"
  shows "nodeGroupReplicas (obj s) \<le> n' \<and> n' \<le> n \<and>
     map (\<lambda>x. fst (snd x)) (removals group_step es (n, s)) = map (\<lambda>k. n - int k) [0..<nat (n - n')] \<and>
     (\<forall>(Ec, k, s1, s2) \<in> set (removals group_step es (n, s)). group_released Ec k s1 s2)"
  using node_group.run_safe [of s n es] assms by simp

text \<open>
  C35. Replica counts stay 32-bit: from 32-bit counts an offload step returns a 32-bit count, and the
  decrement of the current count, made only above the desired one, does not wrap around.
\<close>

theorem offload_step_counts_fit_int32:
  assumes "is_int32 (op_desired p)" "is_int32 (op_currentReplicas p)" "run_state (computeOffloadStep E p current) s = ((step, err), s')"
  shows "is_int32 (st_replicas step) \<and>
     (op_desired p < op_currentReplicas p \<longrightarrow> int32 (op_currentReplicas p - 1) = op_currentReplicas p - 1)"
proof -
  have lower: "is_int32 (op_currentReplicas p - 1)" if "op_desired p < op_currentReplicas p"
    using assms(1,2) that by (auto simp: is_int32_def)
  have "is_int32 (st_replicas step)"
  proof (cases "op_desired p < op_currentReplicas p \<and> op_offloadEnabled p")
    case True
    with wp_run [OF offload_step_spec assms(3)] lower assms(2) show ?thesis by (auto simp: step_contract_def)
  next
    case False
    with assms(1,3) show ?thesis by (auto simp: computeOffloadStep_def)
  qed
  with lower show ?thesis by simp
qed

section \<open>A prompt NiFi lets the scale-down finish\<close>

definition prompt_node :: "string \<Rightarrow> string \<Rightarrow> string \<Rightarrow> scall list \<Rightarrow> ClusterNode option" where
  \<comment> \<open>a node that completes each requested transition before it is listed again\<close>
  "prompt_node endpoint i address log =
     (if SDeleteClusterNode endpoint i \<in> set log then None
      else Some \<lparr>nd_NodeID = i, nd_Address = address, nd_APIPort = 8443,
        nd_Status = (if SSetClusterNodeState endpoint i NodeStatusOffloading \<in> set log then NodeStatusOffloaded
          else if SSetClusterNodeState endpoint i NodeStatusDisconnecting \<in> set log then NodeStatusDisconnected
          else NodeStatusConnected)\<rparr>)"

definition node_rank :: "string \<Rightarrow> string \<Rightarrow> scall list \<Rightarrow> nat" where
  \<comment> \<open>steps until the node is gone\<close>
  "node_rank endpoint i log =
     (if SDeleteClusterNode endpoint i \<in> set log \<or> SSetClusterNodeState endpoint i NodeStatusOffloading \<in> set log then 1
      else if SSetClusterNodeState endpoint i NodeStatusDisconnecting \<in> set log then 2 else 3)"

definition on_time :: "senv \<Rightarrow> duration \<Rightarrow> bool" where
  "on_time E timeout \<longleftrightarrow> (\<forall>log log'. se_Now E log' - se_Now E log \<le> timeout)"

definition timer_ok :: "senv \<Rightarrow> NiFiClusterScaleDownStatus option \<Rightarrow> bool" where
  "timer_ok E current \<longleftrightarrow> (\<forall>st t. current = Some st \<longrightarrow> sd_StartedAt st = Some t \<longrightarrow> (\<exists>log. t = se_Now E log))"

definition prompt_nifi :: "senv \<Rightarrow> ManagedCluster \<Rightarrow> (int \<Rightarrow> string) \<Rightarrow> int \<Rightarrow> bool" where
  \<comment> \<open>NiFi lists the pool's nodes, acknowledges every request and completes it in time; the API server stores\<close>
  "prompt_nifi E c ids n \<longleftrightarrow> on_time E (managedClusterScaleDownTimeout c) \<and> (\<forall>s. 8 \<le> length (se_Sha256Hex E s)) \<and>
     (\<forall>endpoint i st log. se_SetClusterNodeState E endpoint i st log = None) \<and> (\<forall>endpoint i log. se_DeleteClusterNode E endpoint i log = None) \<and>
     (\<forall>c' log. se_ConfigureClusterHTTPClient E c' log = None) \<and> (\<forall>c' log. se_ClusterStatusUpdate E c' log = None) \<and>
     (\<forall>m p log. m \<le> n \<longrightarrow> managedClusterReplicas c < m \<longrightarrow> cluster_params E c m = Inr p \<longrightarrow>
        (\<exists>nodes. se_ListClusterNodes E (op_endpoint p) log = Inr nodes \<and>
           findClusterNodeByAddress nodes (node_address p) = prompt_node (op_endpoint p) (ids m) (node_address p) log))"

lemma node_rank_mono: "set log \<subseteq> set log' \<Longrightarrow> node_rank endpoint i log' \<le> node_rank endpoint i log"
  by (auto simp: node_rank_def)

lemma node_rank_pos: "0 < node_rank endpoint i log" "node_rank endpoint i log \<le> 3"
  by (simp_all add: node_rank_def)

lemma timer_started:
  assumes "timer_ok E current"
  shows "wp (offloadStartedAt E current address) (\<lambda>t s'. s' = s \<and> (\<exists>log. t = se_Now E log)) s"
  unfolding offloadStartedAt_def by (intro wp_intros) (use assms in \<open>auto simp: timer_ok_def\<close>)

definition step_progress :: "senv \<Rightarrow> offloadParams \<Rightarrow> string \<Rightarrow> (scall, 'o) rstate \<Rightarrow> scaleDownStep \<times> go_error option \<Rightarrow> (scall, 'o) rstate \<Rightarrow> bool" where
  "step_progress E p i s r s' \<longleftrightarrow> snd r = None \<and> timer_ok E (st_status (fst r)) \<and>
     (st_replicas (fst r) = op_currentReplicas p - 1 \<or>
      st_replicas (fst r) = op_currentReplicas p \<and> node_rank (op_endpoint p) i (calls s') < node_rank (op_endpoint p) i (calls s))"

lemma timer_ok_intro [simp]: "timer_ok E None" "timer_ok E (Some \<lparr>sd_NodeAddress = a, sd_Phase = ph, sd_StartedAt = Some (se_Now E log)\<rparr>)"
  by (auto simp: timer_ok_def)

lemma prompt_step:
  assumes "op_desired p < op_currentReplicas p" "op_offloadEnabled p" "on_time E (op_timeout p)" "timer_ok E current"
    "\<And>endpoint i st log. se_SetClusterNodeState E endpoint i st log = None" "\<And>endpoint i log. se_DeleteClusterNode E endpoint i log = None"
    "se_ListClusterNodes E (op_endpoint p) (calls s) = Inr nodes"
    "findClusterNodeByAddress nodes (node_address p) = prompt_node (op_endpoint p) i (node_address p) (calls s)"
  shows "wp (computeOffloadStep E p current) (\<lambda>r s'. obj s' = obj s \<and> extends s s' \<and> step_progress E p i s r s') s"
proof -
  have late: "\<not> op_timeout p < se_Now E a - se_Now E b" for a b
    using assms(3) by (simp add: on_time_def not_less)
  show ?thesis
    unfolding computeOffloadStep_def advance_node_def node_call_defs Let_def
    by (intro wp_intros wp_mono [OF timer_started])
       (use assms(1,2,4-8) in \<open>auto simp: late step_progress_def extends_def delete_failed_def node_rank_def prompt_node_def node_status_defs
          split: if_splits\<close>)
qed

lemma set_cluster_stores:
  assumes "\<And>c' log. se_ClusterStatusUpdate E c' log = None" "timer_ok E st" "timer_ok E (mc_ScaleDown (obj s))"
  shows "wp (setScaleDownStatus E st) (\<lambda>e s'. e = None \<and> timer_ok E (mc_ScaleDown (obj s'))) s"
  unfolding setScaleDownStatus_def statusUpdateScaleDown_def by (intro wp_intros) (use assms in simp_all)

lemma clear_cluster_stores:
  assumes "\<And>c' log. se_ClusterStatusUpdate E c' log = None"
  shows "wp (clearScaleDownStatus E) (\<lambda>e s'. e = None \<and> timer_ok E (mc_ScaleDown (obj s'))) s"
  unfolding clearScaleDownStatus_def statusUpdateScaleDown_def by (intro wp_intros) (use assms in simp_all)

lemma persist_cluster_stores:
  assumes "\<And>c' log. se_ClusterStatusUpdate E c' log = None" "timer_ok E (st_status (fst r))" "snd r = None" "timer_ok E (mc_ScaleDown (obj s))"
  shows "wp (persist_cluster_step E r) (\<lambda>x s'. snd x = None \<and> timer_ok E (mc_ScaleDown (obj s'))) s"
  unfolding persist_cluster_step_def recordEvent_def Let_def
  by (intro wp_intros wp_mono [OF set_cluster_stores [OF assms(1)]] wp_mono [OF clear_cluster_stores [OF assms(1)]]) (use assms(2-) in simp_all)

definition pool_rank :: "senv \<Rightarrow> ManagedCluster \<Rightarrow> (int \<Rightarrow> string) \<Rightarrow> int \<Rightarrow> (scall, ManagedCluster) rstate \<Rightarrow> nat" where
  "pool_rank E c ids n s = (case cluster_params E c n of Inr p \<Rightarrow> node_rank (op_endpoint p) (ids n) (calls s) | Inl e \<Rightarrow> 3)"

definition pool_potential :: "senv \<Rightarrow> ManagedCluster \<Rightarrow> (int \<Rightarrow> string) \<Rightarrow> int \<times> (scall, ManagedCluster) rstate \<Rightarrow> nat" where
  \<comment> \<open>reconciles still needed: three per node, fewer for the one in progress\<close>
  "pool_potential E c ids x = (case x of (n, s) \<Rightarrow> if n \<le> managedClusterReplicas c then 0
     else 3 * nat (n - managedClusterReplicas c - 1) + pool_rank E c ids n s)"

lemma pool_rank_bounds: "0 < pool_rank E c ids n s" "pool_rank E c ids n s \<le> 3"
  by (auto simp: pool_rank_def node_rank_pos split: sum.split)

lemma potential_bound: "pool_potential E c ids (n, s) \<le> 3 * nat (n - managedClusterReplicas c)"
  using pool_rank_bounds(2) [of E c ids n s] by (auto simp: pool_potential_def)

lemma potential_removed:
  assumes "managedClusterReplicas c < n"
  shows "pool_potential E c ids (n - 1, s') < pool_potential E c ids (n, s)"
  using potential_bound [of E c ids "n - 1" s'] pool_rank_bounds(1) [of E c ids n s] assms by (simp add: pool_potential_def)

lemma potential_advanced:
  assumes "managedClusterReplicas c < n" "pool_rank E c ids n s' < pool_rank E c ids n s"
  shows "pool_potential E c ids (n, s') < pool_potential E c ids (n, s)"
  using assms by (simp add: pool_potential_def)

lemma params_of_status: "cluster_params E (c\<lparr>mc_ScaleDown := st\<rparr>) n = cluster_params E c n"
  by (simp add: cluster_params_def managedClusterEndpoint_def internalTLSEnabled_def managedClusterServicePort_def managedClusterHTTPSPort_def
      managedClusterReplicas_def managedClusterScaleDownTimeout_def managedClusterScaleDownTimeoutPolicy_def
      split: sum.split)

lemma primary_progress:
  assumes E: "prompt_nifi E c ids n" and en: "managedClusterOffloadEnabled c" and n: "managedClusterReplicas c < n"
    and s: "obj s = c\<lparr>mc_ScaleDown := st\<rparr>" "timer_ok E st"
  shows "wp (reconcileManagedClusterScaleDown E (Some n)) (\<lambda>x s'. snd x = None \<and> (\<exists>st'. obj s' = c\<lparr>mc_ScaleDown := st'\<rparr> \<and> timer_ok E st') \<and>
     sdn_replicas (fst x) \<le> n \<and> pool_potential E c ids (sdn_replicas (fst x), s') < pool_potential E c ids (n, s)) s"
proof -
  from E obtain p where p: "cluster_params E c n = Inr p"
    using cluster_names [of "se_Sha256Hex E" "cl_Name c"] by (auto simp: prompt_nifi_def cluster_params_def)
  let ?s = "s\<lparr>calls := calls s @ [SConfigureClusterHTTPClient (obj s)]\<rparr>"
  from E n p obtain nodes where nodes: "se_ListClusterNodes E (op_endpoint p) (calls ?s) = Inr nodes"
    "findClusterNodeByAddress nodes (node_address p) = prompt_node (op_endpoint p) (ids n) (node_address p) (calls ?s)"
    unfolding prompt_nifi_def by blast
  have step: "wp (computeOffloadStep E p st) (\<lambda>r s'. obj s' = obj ?s \<and> extends ?s s' \<and> step_progress E p (ids n) ?s r s') ?s"
    by (rule prompt_step [OF _ _ _ s(2) _ _ nodes])
       (use E n cluster_params_fields [OF p] in \<open>auto simp: prompt_nifi_def\<close>)
  have final: "wp (persist_cluster_step E r) (\<lambda>x s'. snd x = None \<and> (\<exists>st'. obj s' = c\<lparr>mc_ScaleDown := st'\<rparr> \<and> timer_ok E st') \<and>
     sdn_replicas (fst x) \<le> n \<and> pool_potential E c ids (sdn_replicas (fst x), s') < pool_potential E c ids (n, s)) s1"
    if r: "obj s1 = obj ?s" "extends ?s s1" "step_progress E p (ids n) ?s r s1" for r s1
  proof (rule wp_mono [OF wp_conj [OF persist_cluster_stores persist_cluster_spec]])
    show "se_ClusterStatusUpdate E c' log = None" for c' log using E by (simp add: prompt_nifi_def)
    show "timer_ok E (st_status (fst r))" "snd r = None" using r(3) by (simp_all add: step_progress_def)
    show "timer_ok E (mc_ScaleDown (obj s1))" using r(1) s by simp
    fix x s'
    assume x: "(snd x = None \<and> timer_ok E (mc_ScaleDown (obj s'))) \<and> status_only s1 s' \<and>
      fst x = \<lparr>sdn_replicas = st_replicas (fst r), sdn_active = st_active (fst r)\<rparr>"
    have sub: "set (calls s1) \<subseteq> set (calls s')" "set (calls s) \<subseteq> set (calls ?s)" using x by (auto simp: status_only_def extends_def)
    have rank: "node_rank (op_endpoint p) (ids n) (calls s') \<le> node_rank (op_endpoint p) (ids n) (calls s1)"
      "node_rank (op_endpoint p) (ids n) (calls ?s) \<le> node_rank (op_endpoint p) (ids n) (calls s)"
      by (rule node_rank_mono [OF sub(1)], rule node_rank_mono [OF sub(2)])
    have "pool_potential E c ids (sdn_replicas (fst x), s') < pool_potential E c ids (n, s)"
    proof (cases "st_replicas (fst r) = n - 1")
      case True
      with x potential_removed [OF n] show ?thesis by simp
    next
      case False
      then have "st_replicas (fst r) = n" "pool_rank E c ids n s' < pool_rank E c ids n s"
        using r(3) cluster_params_fields [OF p] rank p by (auto simp: step_progress_def pool_rank_def)
      with x potential_advanced [OF n] show ?thesis by simp
    qed
    then show "snd x = None \<and> (\<exists>st'. obj s' = c\<lparr>mc_ScaleDown := st'\<rparr> \<and> timer_ok E st') \<and>
     sdn_replicas (fst x) \<le> n \<and> pool_potential E c ids (sdn_replicas (fst x), s') < pool_potential E c ids (n, s)"
      using x r s cluster_params_fields [OF p] by (auto simp: status_only_def step_progress_def)
  qed
  have guard: "\<not> (n \<le> managedClusterReplicas (obj s) \<or> \<not> managedClusterOffloadEnabled (obj s) \<or> n \<le> 1)"
    and conf: "se_ConfigureClusterHTTPClient E (obj s) (calls s) = None"
    and par: "cluster_params E (obj s) n = Inr p" "mc_ScaleDown (obj s) = st"
    using n en p s(1) one_replica [of c] E
    by (auto simp: params_of_status managedClusterReplicas_def managedClusterOffloadEnabled_def prompt_nifi_def)
  have "wp (reconcileManagedClusterScaleDown E (Some n)) Q s = wp (computeOffloadStep E p st) (\<lambda>r. wp (persist_cluster_step E r) Q) ?s" for Q
    using guard by (simp add: reconcileManagedClusterScaleDown_def wp_simps conf par)
  with step final show ?thesis by (auto elim!: wp_mono)
qed

lemma primary_step_run: "wp (reconcileManagedClusterScaleDown E (Some n)) Q s \<Longrightarrow> primary_step E n s = (r, s') \<Longrightarrow>
   \<exists>x. Q x s' \<and> r = (if snd x = None then Some (sdn_replicas (fst x)) else None)"
  by (cases "run_state (reconcileManagedClusterScaleDown E (Some n)) s", rule exI [of _ "fst (run_state (reconcileManagedClusterScaleDown E (Some n)) s)"])
     (auto simp: wp_def primary_step_def)

lemma prompt_less: "prompt_nifi E c ids n \<Longrightarrow> m \<le> n \<Longrightarrow> prompt_nifi E c ids m"
  by (auto simp: prompt_nifi_def)

lemma primary_finishes:
  assumes "prompt_nifi E c ids n" "managedClusterOffloadEnabled c" "managedClusterReplicas c \<le> n"
    "obj s = c\<lparr>mc_ScaleDown := st\<rparr>" "timer_ok E st" "pool_potential E c ids (n, s) \<le> k"
  shows "fst (pool_run primary_step (replicate k E) (n, s)) = managedClusterReplicas c"
  using assms
proof (induction k arbitrary: n s st)
  case 0
  then show ?case using pool_rank_bounds(1) [of E c ids n s] by (auto simp: pool_potential_def split: if_splits)
next
  case (Suc k)
  have d: "managedClusterReplicas (obj s) = managedClusterReplicas c" "managedClusterOffloadEnabled (obj s)"
    using Suc.prems(2,4) by (simp_all add: managedClusterReplicas_def managedClusterOffloadEnabled_def)
  obtain r s1 where st: "primary_step E n s = (r, s1)" by fastforce
  show ?case
  proof (cases "managedClusterReplicas c < n")
    case True
    from primary_step_run [OF primary_progress [OF Suc.prems(1,2) True Suc.prems(4,5)] st]
    obtain x :: "scaleDownDecision \<times> go_error option" where e: "snd x = None" and st': "\<exists>st'. obj s1 = c\<lparr>mc_ScaleDown := st'\<rparr> \<and> timer_ok E st'" and
      le: "sdn_replicas (fst x) \<le> n" and pot: "pool_potential E c ids (sdn_replicas (fst x), s1) < pool_potential E c ids (n, s)" and
      x: "r = (if snd x = None then Some (sdn_replicas (fst x)) else None)" by blast
    from e x have r: "r = Some (sdn_replicas (fst x))" by simp
    from st' obtain st' where s1: "obj s1 = c\<lparr>mc_ScaleDown := st'\<rparr>" "timer_ok E st'" by blast
    have ge: "managedClusterReplicas c \<le> sdn_replicas (fst x)"
      using primary.step_bounds [of s n E "sdn_replicas (fst x)" s1] st r d True by simp
    show ?thesis
      using Suc.IH [OF prompt_less [OF Suc.prems(1) le] Suc.prems(2) ge s1] pot Suc.prems(6) st r by simp
  next
    case False
    with Suc.prems(3) have n: "n = managedClusterReplicas c" by simp
    have s1: "status_only s s1" using primary_step_wp [OF primary_status_only st] by auto
    then obtain st' where st': "obj s1 = c\<lparr>mc_ScaleDown := st'\<rparr>" using Suc.prems(4) by (auto simp: status_only_def)
    have stay: "fst (pool_run primary_step es (n, s')) = n" if "managedClusterReplicas (obj s') = n" "managedClusterOffloadEnabled (obj s')" for es s'
      using primary.run_safe [of s' n es] that by (auto split: prod.splits)
    have "r = None \<or> r = Some n" using primary.at_rest [of n s E _ s1] st n d by (cases r) auto
    then show ?thesis using stay [of s1 "replicate k E"] st n d st'
      by (auto simp: managedClusterReplicas_def managedClusterOffloadEnabled_def Suc.prems(4))
  qed
qed

text \<open>
  C33. A scale-down finishes: when NiFi acknowledges every request and completes it before it is asked
  again, the clock stays within the offload timeout and the API server stores, then three reconciles
  per surplus node bring the primary pool from \<open>n\<close> replicas to the desired count.
\<close>

theorem primary_pool_reaches_desired:
  assumes "prompt_nifi E (obj s) ids n" "managedClusterOffloadEnabled (obj s)" "managedClusterReplicas (obj s) \<le> n"
    "timer_ok E (mc_ScaleDown (obj s))"
  shows "fst (pool_run primary_step (replicate (3 * nat (n - managedClusterReplicas (obj s))) E) (n, s)) = managedClusterReplicas (obj s)"
  by (rule primary_finishes [OF assms(1-3) _ assms(4) potential_bound]) simp

section \<open>The timeout does not cover a node that cannot be disconnected\<close>

definition cannot_disconnect :: "ManagedCluster \<Rightarrow> int \<Rightarrow> senv \<Rightarrow> bool" where
  \<comment> \<open>NiFi lists the highest-ordinal node as connected and rejects every request to disconnect it\<close>
  "cannot_disconnect c n E \<longleftrightarrow> (\<forall>s. 8 \<le> length (se_Sha256Hex E s)) \<and> (\<forall>p log. cluster_params E c n = Inr p \<longrightarrow>
     (\<exists>nodes node. se_ListClusterNodes E (op_endpoint p) log = Inr nodes \<and> findClusterNodeByAddress nodes (node_address p) = Some node \<and>
        nd_Status node = NodeStatusConnected \<and> (\<forall>log'. se_SetClusterNodeState E (op_endpoint p) (nd_NodeID node) NodeStatusDisconnecting log' \<noteq> None)))"

definition no_removal :: "scall \<Rightarrow> bool" where
  "no_removal call \<longleftrightarrow> (\<forall>endpoint i. call \<noteq> SDeleteClusterNode endpoint i)"

lemma timeout_positive: "0 < managedClusterScaleDownTimeout c"
  by (simp add: managedClusterScaleDownTimeout_def scale_down_timeout_def defaultScaleDownTimeoutSeconds_def second_def split: option.splits)

lemma fresh_timer: "wp (offloadStartedAt E None address) (\<lambda>t s'. s' = s \<and> t = se_Now E (calls s)) s"
  by (simp add: offloadStartedAt_def wp_simps)

lemma stuck_step:
  assumes "op_desired p < op_currentReplicas p" "op_offloadEnabled p" "0 < op_timeout p"
    "se_ListClusterNodes E (op_endpoint p) (calls s) = Inr nodes" "findClusterNodeByAddress nodes (node_address p) = Some node"
    "nd_Status node = NodeStatusConnected" "\<And>log. se_SetClusterNodeState E (op_endpoint p) (nd_NodeID node) NodeStatusDisconnecting log \<noteq> None"
  shows "wp (computeOffloadStep E p None) (\<lambda>r s'. snd r \<noteq> None \<and> st_status (fst r) = None \<and> obj s' = obj s \<and> only no_removal s s') s"
  unfolding computeOffloadStep_def advance_node_def node_call_defs Let_def
  by (intro wp_intros wp_mono [OF fresh_timer])
     (use assms in \<open>auto simp: wrap_if_def no_removal_def node_status_defs\<close>)

lemma persist_nothing:
  assumes "st_status (fst r) = None" "mc_ScaleDown (obj s) = None" "snd r \<noteq> None"
  shows "wp (persist_cluster_step E r) (\<lambda>x s'. snd x \<noteq> None \<and> s' = s) s"
  using assms by (cases r) (simp add: persist_cluster_step_def clearScaleDownStatus_def wp_simps)

lemma stuck_reconcile:
  assumes "cannot_disconnect (obj s) n E" "managedClusterReplicas (obj s) < n" "managedClusterOffloadEnabled (obj s)" "mc_ScaleDown (obj s) = None"
  shows "wp (reconcileManagedClusterScaleDown E (Some n)) (\<lambda>x s'. snd x \<noteq> None \<and> obj s' = obj s \<and> only no_removal s s') s"
proof -
  from assms(1) obtain p where p: "cluster_params E (obj s) n = Inr p"
    using cluster_names [of "se_Sha256Hex E" "cl_Name (obj s)"] by (auto simp: cannot_disconnect_def cluster_params_def)
  note f = cluster_params_fields [OF p]
  let ?s = "s\<lparr>calls := calls s @ [SConfigureClusterHTTPClient (obj s)]\<rparr>"
  from assms(1) p obtain nodes node where nd: "se_ListClusterNodes E (op_endpoint p) (calls ?s) = Inr nodes"
    "findClusterNodeByAddress nodes (node_address p) = Some node" "nd_Status node = NodeStatusConnected"
    "\<And>log. se_SetClusterNodeState E (op_endpoint p) (nd_NodeID node) NodeStatusDisconnecting log \<noteq> None"
    unfolding cannot_disconnect_def by meson
  have step: "wp (computeOffloadStep E p None) (\<lambda>r s'. snd r \<noteq> None \<and> st_status (fst r) = None \<and> obj s' = obj ?s \<and> only no_removal ?s s') ?s"
    by (rule stuck_step [OF _ _ _ nd]) (use f assms(2) timeout_positive [of "obj s"] in auto)
  have guard: "\<not> (n \<le> managedClusterReplicas (obj s) \<or> \<not> managedClusterOffloadEnabled (obj s) \<or> n \<le> 1)"
    using assms(2,3) one_replica [of "obj s"] by auto
  have c: "only no_removal s ?s" "no_removal (SConfigureClusterHTTPClient (obj s))" by (simp_all add: no_removal_def)
  have fin: "wp (persist_cluster_step E r) (\<lambda>x s'. snd x \<noteq> None \<and> obj s' = obj s \<and> only no_removal s s') s1"
    if "snd r \<noteq> None \<and> st_status (fst r) = None \<and> obj s1 = obj ?s \<and> only no_removal ?s s1" for r s1
    by (rule wp_mono [OF persist_nothing]) (use that assms(4) within_trans [OF c(1), of "calls s1"] in auto)
  show ?thesis
  proof (cases "se_ConfigureClusterHTTPClient E (obj s) (calls s)")
    case None
    have "wp (reconcileManagedClusterScaleDown E (Some n)) Q s = wp (computeOffloadStep E p None) (\<lambda>r. wp (persist_cluster_step E r) Q) ?s" for Q
      using None guard assms(4) by (simp add: reconcileManagedClusterScaleDown_def wp_simps p)
    with wp_mono [OF step fin] show ?thesis by simp
  next
    case (Some e)
    with guard c show ?thesis by (simp add: reconcileManagedClusterScaleDown_def wp_simps)
  qed
qed

text \<open>
  A node that cannot be disconnected blocks the scale-down for ever: as long as NiFi rejects the
  request to disconnect the highest-ordinal node, every reconcile fails without recording when the
  attempt began, so the offload timeout never passes. However many reconciles run and however far the
  clock advances between them, the replica count stays, the node is never removed and nothing is
  recorded, also when the timeout policy is \<open>Force\<close>.
\<close>

theorem rejected_disconnect_never_times_out:
  assumes "\<forall>E \<in> set es. cannot_disconnect (obj s) n E" "managedClusterReplicas (obj s) < n"
    "managedClusterOffloadEnabled (obj s)" "mc_ScaleDown (obj s) = None" "pool_run primary_step es (n, s) = (n', s')"
  shows "n' = n \<and> mc_ScaleDown (obj s') = None \<and> (\<forall>call \<in> set (new_calls s s'). no_removal call)"
proof -
  have "n' = n \<and> obj s' = obj s \<and> only no_removal s s'" using assms
  proof (induction es arbitrary: s)
    case Nil
    then show ?case by simp
  next
    case (Cons E es)
    obtain r s1 where st: "primary_step E n s = (r, s1)" by fastforce
    from Cons.prems have "cannot_disconnect (obj s) n E" by simp
    from primary_step_run [OF stuck_reconcile [OF this Cons.prems(2-4)] st]
    have s1: "r = None" "obj s1 = obj s" "only no_removal s s1" by auto
    with Cons.IH [of s1] Cons.prems st have "n' = n \<and> obj s' = obj s1 \<and> only no_removal s1 s'" by simp
    with s1 within_trans [of no_removal "calls s" "calls s1" "calls s'"] show ?case by simp
  qed
  with assms(4) show ?thesis by (simp add: only_set)
qed

section \<open>Witnesses\<close>

definition scale_sample :: ManagedCluster where
  "scale_sample = \<lparr>cl_Name = ''prod'', cl_Namespace = ''ns'', cl_Deleting = False, cl_Ready = True, cl_Endpoint = ''http://nifi'',
     cl_RootProcessGroupID = ''root'', cl_APIURI = None, mc_Mode = ''Internal'', mc_Replicas = 1, mc_HasCoordination = True,
     mc_ScaleDownSpec = Some \<lparr>sds_OffloadData = None, sds_TimeoutSeconds = 60, sds_OnTimeout = ''Force''\<rparr>,
     mc_InternalTLS = None, mc_ServicePort = 0, mc_StatusTLSReady = None, mc_ScaleDown = None\<rparr>"

definition group_sample :: NiFiNodeGroup where
  "group_sample = \<lparr>ng_Name = ''extra'', ng_Namespace = ''ns'', ng_Generation = 1, ng_Deleting = False, ng_Finalizers = [NiFiControlFinalizer],
     ng_ClusterRef = \<lparr>cr_Name = ''prod'', cr_Namespace = ''''\<rparr>, ng_Replicas = 0, ng_ScaleDownSpec = None, ng_DeletionPolicy = ''Orphan'',
     ng_Common = sample_common, ng_StatefulSetName = '''', ng_StatusReplicas = 0, ng_Selector = '''', ng_ScaleDown = None\<rparr>"

definition sample_stateful_set :: StatefulSet where
  "sample_stateful_set = \<lparr>ss_Replicas = Some 2, ss_ReadyReplicas = 2, ss_UpdatedReplicas = 2, ss_CurrentRevision = '''', ss_UpdateRevision = '''',
     ss_TLSChecksum = ''''\<rparr>"

definition sample_senv :: senv where
  "sample_senv = \<lparr>se_Now = (\<lambda>_. 0), se_Sha256Hex = sample_digest,
     se_ListClusterNodes = (\<lambda>endpoint log. Inr (case prompt_node endpoint ''n2'' ''prod-nifi-1.prod-nifi-headless.ns.svc'' log of
        Some node \<Rightarrow> [node] | None \<Rightarrow> [])),
     se_SetClusterNodeState = (\<lambda>_ _ _ _. None), se_DeleteClusterNode = (\<lambda>_ _ _. None), se_ConfigureClusterHTTPClient = (\<lambda>_ _. None),
     se_ClusterStatusUpdate = (\<lambda>_ _. None), se_GetCluster = (\<lambda>_ _ _. Inr scale_sample), se_GroupStatusUpdate = (\<lambda>_ _. None),
     se_GroupUpdate = (\<lambda>_ _. None), se_GetGroup = (\<lambda>_ _ _. Inr group_sample), se_GetStatefulSet = (\<lambda>_ _ _. Inr sample_stateful_set),
     se_ReconcileStatefulSet = (\<lambda>_ n _ _. Inr (sample_stateful_set\<lparr>ss_Replicas := Some n\<rparr>)), se_DeleteStatefulSet = (\<lambda>_ _ _. None),
     se_ListClaims = (\<lambda>_ _ _. Inr []), se_DeleteClaim = (\<lambda>_ _. None), se_ScaleSelector = (\<lambda>_ _. ''selector'')\<rparr>"

definition refusing_senv :: senv where
  \<comment> \<open>the node stays connected and cannot be disconnected\<close>
  "refusing_senv = sample_senv\<lparr>
     se_ListClusterNodes := (\<lambda>_ _. Inr [\<lparr>nd_NodeID = ''n2'', nd_Address = ''prod-nifi-1.prod-nifi-headless.ns.svc'', nd_APIPort = 8443,
        nd_Status = ''CONNECTED''\<rparr>]),
     se_SetClusterNodeState := (\<lambda>_ _ _ _. Some (errorf ''node rejected the request''))\<rparr>"

definition sstart :: "'o \<Rightarrow> (scall, 'o) rstate" where
  "sstart d = \<lparr>calls = [], obj = d\<rparr>"

lemma sstart_simps [simp]: "calls (sstart d) = []" "obj (sstart d) = d"
  by (simp_all add: sstart_def)

lemmas scale_sample_defs = scale_sample_def sample_senv_def refusing_senv_def

lemma sample_names:
  "managedClusterResourceName sample_digest ''prod'' = Inr ''prod-nifi''"
  "managedClusterHeadlessServiceName sample_digest ''prod'' = Inr ''prod-nifi-headless''"
  by (simp_all add: managedClusterResourceName_def managedClusterHeadlessServiceName_def boundedManagedName_def TrimSuffix_def HasSuffix_def Let_def)

lemma sample_params: "cluster_params E scale_sample 2 = Inr p \<Longrightarrow> se_Sha256Hex E = sample_digest \<Longrightarrow>
   node_address p = ''prod-nifi-1.prod-nifi-headless.ns.svc''"
proof -
  have one: "show_int 1 = ''1''" by code_simp
  assume "cluster_params E scale_sample 2 = Inr p" "se_Sha256Hex E = sample_digest"
  then show ?thesis by (auto simp: cluster_params_def scale_sample_def sample_names node_address_def poolNodeAddress_def one)
qed

lemma sample_replicas [simp]: "managedClusterReplicas scale_sample = 1" "managedClusterOffloadEnabled scale_sample" "mc_ScaleDown scale_sample = None"
  "scale_sample\<lparr>mc_ScaleDown := None\<rparr> = scale_sample"
  by (simp_all add: scale_sample_def managedClusterReplicas_def managedClusterOffloadEnabled_def offload_enabled_def)

lemma prompt_find: "findClusterNodeByAddress (case prompt_node e i a log of Some node \<Rightarrow> [node] | None \<Rightarrow> []) a = prompt_node e i a log"
  by (auto simp: prompt_node_def)

lemma sample_senv_simps [simp]:
  "se_Now sample_senv log = 0" "se_Sha256Hex sample_senv = sample_digest" "se_SetClusterNodeState sample_senv e i st log = None"
  "se_DeleteClusterNode sample_senv e i log = None" "se_ConfigureClusterHTTPClient sample_senv c log = None"
  "se_ClusterStatusUpdate sample_senv c log = None" "se_ListClusterNodes sample_senv e log =
     Inr (case prompt_node e ''n2'' ''prod-nifi-1.prod-nifi-headless.ns.svc'' log of Some node \<Rightarrow> [node] | None \<Rightarrow> [])"
  "length (sample_digest s) = 64"
  by (simp_all add: sample_senv_def sample_digest_def)

lemma sample_prompt: "prompt_nifi sample_senv scale_sample (\<lambda>_. ''n2'') 2"
proof -
  have m: "m \<le> 2 \<Longrightarrow> 1 < m \<Longrightarrow> m = 2" for m :: int by simp
  have a: "node_address p = ''prod-nifi-1.prod-nifi-headless.ns.svc''" if "cluster_params sample_senv scale_sample 2 = Inr p" for p
    by (rule sample_params [OF that]) simp
  have z: "0 \<le> managedClusterScaleDownTimeout scale_sample" using timeout_positive [of scale_sample] by simp
  show ?thesis unfolding prompt_nifi_def by (auto simp: on_time_def z a prompt_find dest!: m)
qed

theorem primary_pool_reaches_desired_witness:
  "fst (pool_run primary_step (replicate 3 sample_senv) (2, sstart scale_sample)) = 1"
  using primary_pool_reaches_desired [of sample_senv "sstart scale_sample" "\<lambda>_. ''n2''" 2] sample_prompt by simp


lemma refusing_stuck: "cannot_disconnect scale_sample 2 refusing_senv"
proof -
  have a: "node_address p = ''prod-nifi-1.prod-nifi-headless.ns.svc''" if "cluster_params refusing_senv scale_sample 2 = Inr p" for p
    by (rule sample_params [OF that]) (simp add: refusing_senv_def)
  show ?thesis by (auto simp: cannot_disconnect_def a) (simp_all add: refusing_senv_def node_status_defs)
qed

theorem rejected_disconnect_never_times_out_witness:
  "let es = map (\<lambda>t. refusing_senv\<lparr>se_Now := (\<lambda>_. t * 1000 * second)\<rparr>) [1, 2, 3]; x = pool_run primary_step es (2, sstart scale_sample)
   in fst x = 2 \<and> mc_ScaleDown (obj (snd x)) = None \<and> list_all no_removal (calls (snd x))"
proof -
  let ?es = "map (\<lambda>t. refusing_senv\<lparr>se_Now := (\<lambda>_. t * 1000 * second)\<rparr>) [1, 2, 3]"
  obtain n' s' where run: "pool_run primary_step ?es (2, sstart scale_sample) = (n', s')" by fastforce
  have "cannot_disconnect c n (E\<lparr>se_Now := clk\<rparr>) = cannot_disconnect c n E" for c n E clk
    by (simp add: cannot_disconnect_def cluster_params_def)
  then have "\<forall>E \<in> set ?es. cannot_disconnect (obj (sstart scale_sample)) 2 E" using refusing_stuck by simp
  from rejected_disconnect_never_times_out [OF this _ _ _ run] run show ?thesis
    by (simp add: list_all_iff new_calls_def Let_def)
qed

theorem group_pool_releases_before_removing_witness:
  "let x = (1, sstart group_sample); es = [(sample_senv, scale_sample)]
   in fst (pool_run group_step es x) = 0 \<and> list_all (\<lambda>(E, k, s1, s2). group_released E k s1 s2) (removals group_step es x) \<and>
      map (\<lambda>y. fst (snd y)) (removals group_step es x) = [1]"
proof -
  let ?es = "[(sample_senv, scale_sample)]"
  obtain n' s' where run: "pool_run group_step ?es (1, sstart group_sample) = (n', s')" by fastforce
  have zero: "show_int 0 = ''0''" by code_simp
  have name: "nodeGroupStatefulSetName sample_digest ''prod'' ''extra'' = Inr ''prod-nifi-extra''"
    by (simp add: nodeGroupStatefulSetName_def boundedManagedName_def TrimSuffix_def HasSuffix_def Let_def)
  have p: "group_params sample_senv scale_sample group_sample 1 = Inr p \<Longrightarrow> node_address p = ''prod-nifi-extra-0.prod-nifi-headless.ns.svc''" for p
    by (auto simp: group_params_def group_sample_def scale_sample_def sample_names name node_address_def poolNodeAddress_def zero)
  have g: "nodeGroupReplicas group_sample = 0" "nodeGroupOffloadEnabled scale_sample group_sample" "ng_ScaleDown group_sample = None"
    by (simp_all add: group_sample_def scale_sample_def nodeGroupReplicas_def nodeGroupOffloadEnabled_def nodeGroupScaleDownSpec_def offload_enabled_def)
  obtain p where gp: "group_params sample_senv scale_sample group_sample 1 = Inr p"
    by (simp add: group_params_def group_sample_def scale_sample_def sample_names name)
  have "fst (group_step (sample_senv, scale_sample) 1 (sstart group_sample)) = Some 0"
    using group_params_fields [OF gp] g p [OF gp]
    by (simp add: group_step_def reconcileNodeGroupScaleDown_def computeOffloadStep_def persist_group_step_def clearNodeGroupScaleDown_def
        ListClusterNodes_def gp prompt_node_def Let_def)
  with run have "n' = 0" by (auto split: prod.splits)
  with group_pool_releases_before_removing [OF _ _ run] g run show ?thesis
    by (simp add: list_all_iff split: prod.splits)
qed

theorem offload_step_counts_fit_int32_witness:
  "let p = \<lparr>op_endpoint = ''http://nifi'', op_statefulSetName = ''prod-nifi'', op_headlessService = ''prod-nifi-headless'', op_namespace = ''ns'',
     op_desired = -2147483648, op_currentReplicas = -2147483647, op_offloadEnabled = True, op_timeout = 0, op_force = False\<rparr>
   in is_int32 (st_replicas (fst (fst (run_state (computeOffloadStep sample_senv p None) (sstart scale_sample))))) \<and>
      int32 (op_currentReplicas p - 1) = -2147483648"
proof -
  let ?p = "\<lparr>op_endpoint = ''http://nifi'', op_statefulSetName = ''prod-nifi'', op_headlessService = ''prod-nifi-headless'', op_namespace = ''ns'',
     op_desired = -2147483648, op_currentReplicas = -2147483647, op_offloadEnabled = True, op_timeout = 0, op_force = False\<rparr>"
  obtain step err s' where "run_state (computeOffloadStep sample_senv ?p None) (sstart scale_sample) = ((step, err), s')"
    by (metis surj_pair)
  with offload_step_counts_fit_int32 [OF _ _ this] show ?thesis by (simp add: is_int32_def)
qed

end
