(* ===== verification/Node_Group.thy ===== *)
theory Node_Group
  imports Scale_Progress
begin

text \<open>
  The node group controller (\<open>internal/controller/nifinodegroup_controller.go\<close>): an extra pool of NiFi
  nodes with its own StatefulSet. The StatefulSet itself, a pod template built field by field, is the
  answer of \<open>reconcileNodeGroupStatefulSet\<close> for a name, a replica count and a TLS checksum; the pod
  label selector of the scale subresource is a parameter as well.
\<close>

section \<open>Calls\<close>

definition GetNodeGroup :: "senv \<Rightarrow> string \<Rightarrow> string \<Rightarrow> (scall, 'o, NiFiNodeGroup go_result) handler" where
  "GetNodeGroup E ns n = ext_call (SGetGroup ns n) (se_GetGroup E ns n)"
definition UpdateNodeGroup :: "senv \<Rightarrow> (scall, NiFiNodeGroup, go_error option) handler" where
  "UpdateNodeGroup E = do { g \<leftarrow> get_obj; ext_call (SGroupUpdate g) (se_GroupUpdate E g) }"
definition NodeGroupStatusUpdate :: "senv \<Rightarrow> (scall, NiFiNodeGroup, go_error option) handler" where
  "NodeGroupStatusUpdate E = do { g \<leftarrow> get_obj; ext_call (SGroupStatusUpdate g) (se_GroupStatusUpdate E g) }"
definition GetManagedCluster :: "senv \<Rightarrow> string \<Rightarrow> string \<Rightarrow> (scall, 'o, ManagedCluster go_result) handler" where
  "GetManagedCluster E ns n = ext_call (SGetCluster ns n) (se_GetCluster E ns n)"
definition configureManagedClusterClient :: "senv \<Rightarrow> ManagedCluster \<Rightarrow> (scall, 'o, go_error option) handler" where
  "configureManagedClusterClient E c = ext_call (SConfigureClusterHTTPClient c) (se_ConfigureClusterHTTPClient E c)"
definition GetStatefulSet :: "senv \<Rightarrow> string \<Rightarrow> string \<Rightarrow> (scall, 'o, StatefulSet go_result) handler" where
  "GetStatefulSet E ns n = ext_call (SGetStatefulSet ns n) (se_GetStatefulSet E ns n)"
definition reconcileNodeGroupStatefulSet :: "senv \<Rightarrow> string \<Rightarrow> string option \<Rightarrow> int \<Rightarrow> (scall, 'o, StatefulSet go_result) handler" where
  "reconcileNodeGroupStatefulSet E name tls replicas = ext_call (SReconcileStatefulSet name replicas tls) (se_ReconcileStatefulSet E name replicas tls)"
definition DeleteStatefulSet :: "senv \<Rightarrow> string \<Rightarrow> string \<Rightarrow> (scall, 'o, go_error option) handler" where
  "DeleteStatefulSet E ns n = ext_call (SDeleteStatefulSet ns n) (se_DeleteStatefulSet E ns n)"
definition ListClaims :: "senv \<Rightarrow> string \<Rightarrow> string \<Rightarrow> (scall, 'o, string list go_result) handler" where
  "ListClaims E ns pool = ext_call (SListClaims ns pool) (se_ListClaims E ns pool)"
definition DeleteClaim :: "senv \<Rightarrow> string \<Rightarrow> (scall, 'o, go_error option) handler" where
  "DeleteClaim E n = ext_call (SDeleteClaim n) (se_DeleteClaim E n)"

lemmas group_call_defs = GetNodeGroup_def UpdateNodeGroup_def NodeGroupStatusUpdate_def GetManagedCluster_def
  configureManagedClusterClient_def GetStatefulSet_def reconcileNodeGroupStatefulSet_def DeleteStatefulSet_def ListClaims_def DeleteClaim_def

section \<open>Status\<close>

definition upd_group_finalizers :: "(string list \<Rightarrow> string list) \<Rightarrow> NiFiNodeGroup \<Rightarrow> NiFiNodeGroup" where
  "upd_group_finalizers f g = g\<lparr>ng_Finalizers := f (ng_Finalizers g)\<rparr>"

definition resolvedClusterMode :: "ManagedCluster \<Rightarrow> string" where
  "resolvedClusterMode cluster = (if mc_Mode cluster \<noteq> '''' then mc_Mode cluster
     else (case cl_APIURI cluster of Some uri \<Rightarrow> (if uri \<noteq> '''' then ''External'' else ''Internal'') | None \<Rightarrow> ''Internal''))"

definition nodeGroupStatusNeedsUpdate :: "NiFiNodeGroup \<Rightarrow> bool \<Rightarrow> string \<Rightarrow> string \<Rightarrow> int \<Rightarrow> bool" where
  "nodeGroupStatusNeedsUpdate group' ready reason selector replicas =
     (if cs_ObservedGeneration (ng_Common group') \<noteq> ng_Generation group' \<or> cs_Ready (ng_Common group') \<noteq> ready \<or>
         ng_Selector group' \<noteq> selector \<or> ng_StatusReplicas group' \<noteq> replicas then True
      else (case find_condition ConditionReady (cs_Conditions (ng_Common group')) of
          Some condition \<Rightarrow> cd_Reason condition \<noteq> reason
        | None \<Rightarrow> True))"

definition setNodeGroupStatus :: "senv \<Rightarrow> ManagedCluster option \<Rightarrow> bool \<Rightarrow> string \<Rightarrow> string \<Rightarrow> int \<Rightarrow> (scall, NiFiNodeGroup, go_error option) handler" where
  "setNodeGroupStatus E cluster ready reason message replicas = do {
     group' \<leftarrow> get_obj;
     let selector = (case cluster of Some c \<Rightarrow> se_ScaleSelector E c group' | None \<Rightarrow> ng_Selector group');
     (if \<not> nodeGroupStatusNeedsUpdate group' ready reason selector replicas then ret None
      else do {
        t \<leftarrow> read_clock (se_Now E);
        upd_obj (\<lambda>g. g\<lparr>ng_Common := (if ready
            then set_last_error '''' (MarkReady t (ng_Generation g) reason message (ng_Common g))
            else not_ready_common t (ng_Generation g) reason message (ng_Common g)),
          ng_Selector := selector, ng_StatusReplicas := replicas\<rparr>);
        NodeGroupStatusUpdate E }) }"

definition markNodeGroupWaiting :: "senv \<Rightarrow> string list \<Rightarrow> (scall, NiFiNodeGroup, go_error option) handler" where
  "markNodeGroupWaiting E waitingFor = do {
     group' \<leftarrow> get_obj;
     let common = ng_Common group';
     (if cs_ObservedGeneration common = ng_Generation group' \<and> \<not> cs_Ready common \<and>
         \<not> waitingForChanged (dp_WaitingFor (cs_Dependencies common)) waitingFor
      then ret None
      else do {
        t \<leftarrow> read_clock (se_Now E);
        upd_obj (\<lambda>g. g\<lparr>ng_Common := MarkWaitingForDependencies t (ng_Generation g) waitingFor (ng_Common g)\<rparr>);
        NodeGroupStatusUpdate E }) }"

section \<open>Deletion\<close>

fun delete_claims :: "senv \<Rightarrow> string list \<Rightarrow> (scall, 'o, go_error option) handler" where
  "delete_claims E [] = ret None"
| "delete_claims E (c # cs) = do {
     e \<leftarrow> DeleteClaim E c;
     (if delete_failed e then ret e else delete_claims E cs) }"

definition finish_group_deletion :: "senv \<Rightarrow> (scall, NiFiNodeGroup, outcome) handler" where
  "finish_group_deletion E = do {
     r \<leftarrow> removeFinalizer ng_Finalizers upd_group_finalizers (UpdateNodeGroup E);
     ret (no_result, snd r) }"

definition reconcileNodeGroupDelete :: "senv \<Rightarrow> (scall, NiFiNodeGroup, outcome) handler" where
  "reconcileNodeGroupDelete E = do {
     group' \<leftarrow> get_obj;
     (if ng_DeletionPolicy group' = ''Delete'' \<and> ng_StatefulSetName group' \<noteq> '''' then do {
        e \<leftarrow> DeleteStatefulSet E (ng_Namespace group') (ng_StatefulSetName group');
        (if delete_failed e then ret (requeue_after 5, e)
         else do {
           l \<leftarrow> ListClaims E (ng_Namespace group') (ng_Name group');
           (case l of
              Inl err \<Rightarrow> ret (no_result, Some err)
            | Inr pvcs \<Rightarrow> do {
                e \<leftarrow> delete_claims E pvcs;
                (if e \<noteq> None then ret (requeue_after 5, e) else finish_group_deletion E) }) }) }
      else finish_group_deletion E) }"

section \<open>Reconcile\<close>

definition resolveClusterTLS :: "senv \<Rightarrow> ManagedCluster \<Rightarrow> (scall, 'o, (string option \<times> bool) go_result) handler" where
  \<comment> \<open>the checksum of the TLS materials, if any, and whether they are ready\<close>
  "resolveClusterTLS E cluster =
     (if \<not> internalTLSEnabled cluster then ret (Inr (None, True))
      else if mc_StatusTLSReady cluster \<noteq> Some True then ret (Inr (None, False))
      else (case managedClusterResourceName (se_Sha256Hex E) (cl_Name cluster) of
          Inl panic \<Rightarrow> ret (Inl panic)
        | Inr name \<Rightarrow> do {
            p \<leftarrow> GetStatefulSet E (cl_Namespace cluster) name;
            ret (case p of
               Inl err \<Rightarrow> (if \<not> IsNotFound err then Inl err else Inr (Some '''', True))
             | Inr primary \<Rightarrow> Inr (Some (ss_TLSChecksum primary), True)) }))"

definition ready_message :: "int \<Rightarrow> int \<Rightarrow> string" where
  "ready_message ready desired = show_int ready @ ''/'' @ show_int desired"

definition scaling_message :: "NiFiNodeGroup \<Rightarrow> string" where
  "scaling_message group' = (case ng_ScaleDown group' of
      Some sd \<Rightarrow> (if sd_NodeAddress sd \<noteq> '''' then ''Scaling down: '' @ sd_Phase sd @ '' node '' @ sd_NodeAddress sd @ ''.''
                  else ''Gracefully offloading nodes during scale-down to '' @ show_int (nodeGroupReplicas group') @ '' replicas.'')
    | None \<Rightarrow> ''Gracefully offloading nodes during scale-down to '' @ show_int (nodeGroupReplicas group') @ '' replicas.'')"

definition report_workload :: "senv \<Rightarrow> ManagedCluster \<Rightarrow> StatefulSet \<Rightarrow> bool \<Rightarrow> (scall, NiFiNodeGroup, outcome) handler" where
  "report_workload E cluster statefulSet active = do {
     group' \<leftarrow> get_obj;
     let desired = nodeGroupReplicas group';
     let ready = ss_ReadyReplicas statefulSet;
     let upgrading = (ss_UpdateRevision statefulSet \<noteq> '''' \<and> ss_CurrentRevision statefulSet \<noteq> '''' \<and>
                      ss_UpdateRevision statefulSet \<noteq> ss_CurrentRevision statefulSet);
     (if active then do {
        u \<leftarrow> setNodeGroupStatus E (Some cluster) False ''ScalingDown'' (scaling_message group') ready;
        ret (requeue_after 10, u) }
      else if ready < desired \<or> upgrading \<and> ss_UpdatedReplicas statefulSet < desired then do {
        u \<leftarrow> setNodeGroupStatus E (Some cluster) False (if upgrading then ''Upgrading'' else ''Provisioning'')
               (''Waiting for node group: '' @ ready_message ready desired @ '' ready.'') ready;
        ret (requeue_after 10, u) }
      else do {
        u \<leftarrow> setNodeGroupStatus E (Some cluster) True ''NodeGroupReady'' (''Node group is ready: '' @ ready_message ready desired @ '' nodes.'') ready;
        ret (no_result, u) }) }"

definition applyScaleStep :: "senv \<Rightarrow> ManagedCluster \<Rightarrow> string option \<Rightarrow> string \<Rightarrow> int \<Rightarrow> scaleDownStep \<times> go_error option \<Rightarrow> (scall, NiFiNodeGroup, outcome) handler" where
  \<comment> \<open>apply the StatefulSet with the replica count the offload step allows\<close>
  "applyScaleStep E cluster tls stsName currentReady r = (case r of (step, err) \<Rightarrow> (case err of
        Some err \<Rightarrow> do {
          u \<leftarrow> setNodeGroupStatus E (Some cluster) False ''ScaleDownFailed'' (err_text err) currentReady;
          ret (requeue_after 15, u) }
      | None \<Rightarrow> do {
          a \<leftarrow> reconcileNodeGroupStatefulSet E stsName tls (st_replicas step);
          (case a of
             Inl err \<Rightarrow> do {
               u \<leftarrow> setNodeGroupStatus E (Some cluster) False ''StatefulSetReconcileFailed'' (err_text err) currentReady;
               ret (no_result, u) }
           | Inr statefulSet \<Rightarrow> report_workload E cluster statefulSet (st_active step)) }))"

definition scaleAndApply :: "senv \<Rightarrow> ManagedCluster \<Rightarrow> string option \<Rightarrow> string \<Rightarrow> int option \<Rightarrow> int \<Rightarrow> (scall, NiFiNodeGroup, outcome) handler" where
  "scaleAndApply E cluster tls stsName currentReplicas currentReady = do {
     r \<leftarrow> reconcileNodeGroupScaleDown E cluster currentReplicas;
     applyScaleStep E cluster tls stsName currentReady r }"

definition reconcileNodeGroupWorkload :: "senv \<Rightarrow> ManagedCluster \<Rightarrow> string option \<Rightarrow> (scall, NiFiNodeGroup, outcome) handler" where
  \<comment> \<open>the tail of \<open>Reconcile\<close>, from the name of the StatefulSet on\<close>
  "reconcileNodeGroupWorkload E cluster tls = do {
     group' \<leftarrow> get_obj;
     (case nodeGroupStatefulSetName (se_Sha256Hex E) (cl_Name cluster) (ng_Name group') of
        Inl panic \<Rightarrow> ret (no_result, Some panic)
      | Inr stsName \<Rightarrow> do {
          upd_obj (\<lambda>g. g\<lparr>ng_StatefulSetName := stsName\<rparr>);
          x \<leftarrow> GetStatefulSet E (ng_Namespace group') stsName;
          (case x of
             Inl err \<Rightarrow> (if \<not> IsNotFound err then ret (no_result, Some err) else scaleAndApply E cluster tls stsName None 0)
           | Inr existing \<Rightarrow> scaleAndApply E cluster tls stsName (ss_Replicas existing) (ss_ReadyReplicas existing)) }) }"

definition reconcileNodeGroupOnCluster :: "senv \<Rightarrow> ManagedCluster \<Rightarrow> (scall, NiFiNodeGroup, outcome) handler" where
  "reconcileNodeGroupOnCluster E cluster = do {
     group' \<leftarrow> get_obj;
     (if resolvedClusterMode cluster \<noteq> ''Internal'' then do {
        u \<leftarrow> setNodeGroupStatus E (Some cluster) False ''ClusterNotManaged'' ''Node groups require an operator-managed (Internal) NiFiCluster.'' 0;
        ret (no_result, u) }
      else if cl_Namespace cluster \<noteq> ng_Namespace group' then do {
        u \<leftarrow> setNodeGroupStatus E (Some cluster) False ''ClusterNamespaceMismatch'' ''A NiFiNodeGroup must be in the same namespace as its cluster.'' 0;
        ret (no_result, u) }
      else if \<not> mc_HasCoordination cluster then do {
        u \<leftarrow> setNodeGroupStatus E (Some cluster) False ''ClusterNotClustered''
               ''Node groups require a clustered cluster (spec.coordination must be set).'' 0;
        ret (no_result, u) }
      else do {
        t \<leftarrow> resolveClusterTLS E cluster;
        (case t of
           Inl err \<Rightarrow> ret (no_result, Some err)
         | Inr (tls, tlsReady) \<Rightarrow>
            (if \<not> tlsReady then do {
               u \<leftarrow> setNodeGroupStatus E (Some cluster) False ''TLSPending'' (''Waiting for the cluster'' @ [CHR 0x27] @ ''s internal TLS materials to be ready.'') 0;
               ret (requeue_after 15, u) }
             else reconcileNodeGroupWorkload E cluster tls)) }) }"

definition ReconcileNodeGroup :: "senv \<Rightarrow> string \<Rightarrow> string \<Rightarrow> (scall, NiFiNodeGroup, outcome) handler" where
  \<comment> \<open>the arguments are the namespace and name of the request\<close>
  "ReconcileNodeGroup E ns name = do {
     g \<leftarrow> GetNodeGroup E ns name;
     (case g of
        Inl err \<Rightarrow> ret (no_result, if IsNotFound err then None else Some err)
      | Inr group' \<Rightarrow> do {
          upd_obj (\<lambda>_. group');
          (if ng_Deleting group' then reconcileNodeGroupDelete E
           else do {
             f \<leftarrow> ensureFinalizer ng_Finalizers upd_group_finalizers (UpdateNodeGroup E);
             (if snd f \<noteq> None \<or> fst f then ret (no_result, snd f)
              else do {
                c \<leftarrow> readyClusterForReference (GetManagedCluster E) (configureManagedClusterClient E) cl_Ready
                       (ng_Namespace group') (ng_ClusterRef group');
                (case c of
                   Inl err \<Rightarrow> ret (no_result, Some err)
                 | Inr (cluster, waitingFor) \<Rightarrow>
                    (if waitingFor \<noteq> [] then do { u \<leftarrow> markNodeGroupWaiting E waitingFor; ret (requeue_after 15, u) }
                     else (case cluster of None \<Rightarrow> ret nil_panic | Some cluster \<Rightarrow> reconcileNodeGroupOnCluster E cluster))) }) }) }) }"

section \<open>The StatefulSet shrinks only over released nodes\<close>

definition not_applied :: "scall \<Rightarrow> bool" where
  "not_applied c = (case c of SReconcileStatefulSet sts n tls \<Rightarrow> False | _ \<Rightarrow> True)"

lemma not_applied_simps [simp]:
  "not_applied (SListClusterNodes e)" "not_applied (SSetClusterNodeState e i st)" "not_applied (SDeleteClusterNode e i)"
  "not_applied (SConfigureClusterHTTPClient c)" "not_applied (SClusterStatusUpdate c)" "not_applied (SGetCluster ns n)"
  "not_applied (SGroupStatusUpdate g)" "not_applied (SGroupUpdate g)" "not_applied (SGetGroup ns n)" "not_applied (SGetStatefulSet ns n)"
  "not_applied (SDeleteStatefulSet ns n)" "not_applied (SListClaims ns n)" "not_applied (SDeleteClaim n)" "not_applied (SEvent r m)"
  "\<not> not_applied (SReconcileStatefulSet sts k tls)"
  by (simp_all add: not_applied_def)

lemma set_status_not_applied:
  "only not_applied s0 s \<Longrightarrow> wp (setNodeGroupStatus E c ready reason message n) (\<lambda>_ s'. only not_applied s0 s') s"
  unfolding setNodeGroupStatus_def NodeGroupStatusUpdate_def Let_def by (intro wp_intros) simp_all

lemma report_not_applied:
  "only not_applied s0 s \<Longrightarrow> wp (report_workload E c ss active) (\<lambda>_ s'. only not_applied s0 s') s"
  unfolding report_workload_def Let_def by (intro wp_intros wp_mono [OF set_status_not_applied [of s0]]) simp_all

lemma started_not_applied: "only not_applied s0 s \<Longrightarrow> wp (offloadStartedAt E st a) (\<lambda>_ s'. only not_applied s0 s') s"
  by (rule wp_mono [OF offload_started_spec]) simp

lemma offload_not_applied: "only not_applied s0 s \<Longrightarrow> wp (computeOffloadStep E p st) (\<lambda>_ s'. only not_applied s0 s') s"
  unfolding computeOffloadStep_def advance_node_def node_call_defs Let_def
  by (intro wp_intros wp_mono [OF started_not_applied [of s0]]) simp_all

lemma group_status_not_applied:
  "only not_applied s0 s \<Longrightarrow> wp (setNodeGroupScaleDown E st) (\<lambda>_ s'. only not_applied s0 s') s"
  "only not_applied s0 s \<Longrightarrow> wp (clearNodeGroupScaleDown E) (\<lambda>_ s'. only not_applied s0 s') s"
  unfolding setNodeGroupScaleDown_def clearNodeGroupScaleDown_def statusUpdateNodeGroupScaleDown_def Let_def
  by ((intro wp_intros; simp), (intro wp_intros; simp))

lemma persist_not_applied: "only not_applied s0 s \<Longrightarrow> wp (persist_group_step E r) (\<lambda>_ s'. only not_applied s0 s') s"
  unfolding persist_group_step_def recordEvent_def
  by (intro wp_intros wp_mono [OF group_status_not_applied(1) [of s0]] wp_mono [OF group_status_not_applied(2) [of s0]]) simp_all

lemma scale_down_not_applied:
  "only not_applied s0 s \<Longrightarrow> wp (reconcileNodeGroupScaleDown E c m) (\<lambda>_ s'. only not_applied s0 s') s"
  unfolding reconcileNodeGroupScaleDown_def Let_def
  by (intro wp_intros wp_mono [OF group_status_not_applied(2) [of s0]] wp_mono [OF offload_not_applied [of s0]] persist_not_applied) simp_all

definition count_allowed :: "senv \<Rightarrow> ManagedCluster \<Rightarrow> NiFiNodeGroup \<Rightarrow> int option \<Rightarrow> int \<Rightarrow> (scall, NiFiNodeGroup) rstate \<Rightarrow> (scall, NiFiNodeGroup) rstate \<Rightarrow> bool" where
  "count_allowed E c g m n s s' \<longleftrightarrow> (\<forall>k. m = Some k \<longrightarrow> nodeGroupReplicas g < k \<longrightarrow> nodeGroupOffloadEnabled c g \<longrightarrow>
     n = k \<or> n = k - 1 \<and> (\<exists>p. group_params E c g k = Inr p \<and> node_released E p s s'))"

lemma scale_down_allowed:
  "wp (reconcileNodeGroupScaleDown E c m) (\<lambda>r s'. extends s s' \<and> count_allowed E c (obj s) m (st_replicas (fst r)) s s') s"
proof (cases m)
  case None
  then show ?thesis
    by (simp add: reconcileNodeGroupScaleDown_def wp_simps)
       (rule wp_mono [OF clear_group_status], auto simp: count_allowed_def group_status_only_def wp_simps)
next
  case (Some k)
  show ?thesis
  proof (cases "nodeGroupReplicas (obj s) < k \<and> nodeGroupOffloadEnabled c (obj s)")
    case True
    then show ?thesis unfolding Some
      by (intro wp_mono [OF group_offloads]) (auto simp: count_allowed_def group_released_def group_status_only_def)
  next
    case False
    then show ?thesis unfolding Some
      by (intro wp_mono [OF group_status_only_always]) (auto simp: count_allowed_def group_status_only_def)
  qed
qed

definition applied_once :: "string \<Rightarrow> string option \<Rightarrow> (int \<Rightarrow> (scall, NiFiNodeGroup) rstate \<Rightarrow> bool) \<Rightarrow> (scall, NiFiNodeGroup) rstate \<Rightarrow> (scall, NiFiNodeGroup) rstate \<Rightarrow> bool" where
  \<comment> \<open>the StatefulSet was not touched, or was applied once with a count that was allowed when it was applied\<close>
  "applied_once sts tls ok s0 s' \<longleftrightarrow> only not_applied s0 s' \<or>
     (\<exists>s1 n. only not_applied s0 s1 \<and> ok n s1 \<and> within not_applied (calls s1 @ [SReconcileStatefulSet sts n tls]) (calls s'))"

lemma apply_spec:
  "wp (scaleAndApply E c tls sts m ready) (\<lambda>_. applied_once sts tls (\<lambda>n s1. count_allowed E c (obj s) m n s s1) s) s"
proof -
  have allowed: "wp (reconcileNodeGroupScaleDown E c m) (\<lambda>r s'. only not_applied s s' \<and> extends s s' \<and>
      count_allowed E c (obj s) m (st_replicas (fst r)) s s') s"
    by (intro wp_conj scale_down_not_applied scale_down_allowed) simp
  have fail: "wp (setNodeGroupStatus E (Some c) False reason message n) (\<lambda>_. applied_once sts tls ok s) s1"
    if "only not_applied s s1" for reason message n ok s1
    using that by (auto simp: applied_once_def intro: wp_mono [OF set_status_not_applied])
  have "wp (applyScaleStep E c tls sts ready r) (\<lambda>_. applied_once sts tls (\<lambda>n s1. count_allowed E c (obj s) m n s s1) s) s1"
    if r: "only not_applied s s1" "count_allowed E c (obj s) m (st_replicas (fst r)) s s1" for r s1
  proof -
    obtain step err where re: "r = (step, err)" by fastforce
    let ?s = "s1\<lparr>calls := calls s1 @ [SReconcileStatefulSet sts (st_replicas step) tls]\<rparr>"
    have after: "applied_once sts tls (\<lambda>n s1. count_allowed E c (obj s) m n s s1) s s'" if "only not_applied ?s s'" for s'
      using r re that by (auto simp: applied_once_def)
    show ?thesis
      unfolding applyScaleStep_def re prod.case reconcileNodeGroupStatefulSet_def
      by (intro wp_intros wp_mono [OF fail [OF r(1)]] wp_mono [OF set_status_not_applied [of ?s]] wp_mono [OF report_not_applied [of ?s]])
         (simp_all add: after)
  qed
  then show ?thesis
    unfolding scaleAndApply_def by (intro wp_bindI wp_mono [OF allowed]) simp
qed

lemma count_allowed_mono:
  "count_allowed E c g m n s1 s2 \<Longrightarrow> extends s0 s1 \<Longrightarrow> extends s2 s3 \<Longrightarrow> count_allowed E c g m n s0 s3"
  unfolding count_allowed_def by (blast intro: node_released_mono)

lemma group_fields_cong: "count_allowed E c (g\<lparr>ng_StatefulSetName := n'\<rparr>) m n s s' = count_allowed E c g m n s s'"
  by (simp add: count_allowed_def group_params_def nodeGroupReplicas_def nodeGroupOffloadEnabled_def nodeGroupScaleDownSpec_def
      nodeGroupScaleDownTimeout_def nodeGroupScaleDownForce_def split: sum.split)

lemma only_extends_state: "only P s s' \<Longrightarrow> extends s s'"
  by (auto simp: within_def extends_def)

definition shrinks_safely :: "senv \<Rightarrow> ManagedCluster \<Rightarrow> NiFiNodeGroup \<Rightarrow> (scall, NiFiNodeGroup) rstate \<Rightarrow> (scall, NiFiNodeGroup) rstate \<Rightarrow> bool" where
  "shrinks_safely E c g s s' \<longleftrightarrow> (\<forall>sts n tls. SReconcileStatefulSet sts n tls \<in> set (new_calls s s') \<longrightarrow>
     (\<exists>x. asked (SGetStatefulSet (ng_Namespace g) sts) (se_GetStatefulSet E (ng_Namespace g) sts) (\<lambda>r. r = x) s s' \<and>
        (\<forall>ss. x = Inr ss \<longrightarrow> count_allowed E c g (ss_Replicas ss) n s s')))"

lemma untouched_shrinks_safely: "only not_applied s s' \<Longrightarrow> shrinks_safely E c g s s'"
  by (fastforce simp: shrinks_safely_def only_set)

lemma applied_shrinks_safely:
  assumes a: "applied_once sts tls (\<lambda>n s3. count_allowed E c g m n s2 s3) s2 s'" and o: "only not_applied s s1"
    and s2: "calls s2 = calls s1 @ [SGetStatefulSet (ng_Namespace g) sts]"
    and x: "\<And>ss. se_GetStatefulSet E (ng_Namespace g) sts (calls s1) = Inr ss \<Longrightarrow> m = ss_Replicas ss"
  shows "shrinks_safely E c g s s'"
proof -
  have o2: "only not_applied s s2" using o s2 by simp
  from a consider "only not_applied s2 s'" | s3 n where "only not_applied s2 s3" "count_allowed E c g m n s2 s3"
      "within not_applied (calls s3 @ [SReconcileStatefulSet sts n tls]) (calls s')"
    unfolding applied_once_def by blast
  then show ?thesis
  proof cases
    case 1
    with o2 show ?thesis by (intro untouched_shrinks_safely) (rule within_trans)
  next
    case (2 s3 n)
    from 2(1) o2 have o3: "only not_applied s s3" by (metis within_trans)
    from o3 2(3) obtain ys zs where ys: "calls s3 = calls s @ ys" "list_all not_applied ys"
      and zs: "calls s' = calls s3 @ SReconcileStatefulSet sts n tls # zs" "list_all not_applied zs" by (auto simp: within_def)
    have only_n: "sts' = sts \<and> n' = n" if "SReconcileStatefulSet sts' n' tls' \<in> set (new_calls s s')" for sts' n' tls'
      using that ys zs by (auto simp: new_calls_def list_all_iff)
    have e: "extends s s2" "extends s3 s'" "extends s2 s'"
      using o2 zs 2(1) by (auto simp: extends_def within_def)
    from e(3) obtain ws where ws: "calls s' = calls s1 @ SGetStatefulSet (ng_Namespace g) sts # ws" by (auto simp: extends_def s2)
    have asked: "asked (SGetStatefulSet (ng_Namespace g) sts) (se_GetStatefulSet E (ng_Namespace g) sts)
        (\<lambda>r. r = se_GetStatefulSet E (ng_Namespace g) sts (calls s1)) s s'"
      by (rule asked_at [OF ws]) (use within_length [OF o] in auto)
    have "count_allowed E c g m n s s'" by (rule count_allowed_mono [OF 2(2) e(1,2)])
    with x asked only_n show ?thesis unfolding shrinks_safely_def by metis
  qed
qed

lemma workload_shrinks_safely:
  assumes "only not_applied s0 s"
  shows "wp (reconcileNodeGroupWorkload E c tls) (\<lambda>_. shrinks_safely E c (obj s) s0) s"
proof -
  have post: "wp (scaleAndApply E c tls sts m ready) (\<lambda>_. shrinks_safely E c (obj s) s0)
      (s\<lparr>obj := (obj s)\<lparr>ng_StatefulSetName := sts\<rparr>, calls := calls s @ [SGetStatefulSet (ng_Namespace (obj s)) sts]\<rparr>)"
    if "\<And>ss. se_GetStatefulSet E (ng_Namespace (obj s)) sts (calls s) = Inr ss \<Longrightarrow> m = ss_Replicas ss" for sts m ready
    by (rule wp_mono [OF apply_spec], rule applied_shrinks_safely [OF _ assms]) (use that in \<open>auto simp: group_fields_cong\<close>)
  show ?thesis
    unfolding reconcileNodeGroupWorkload_def group_call_defs
    by (intro wp_intros) (use assms in \<open>auto intro!: untouched_shrinks_safely post\<close>)
qed

lemma tls_not_applied:
  "only not_applied s0 s \<Longrightarrow> wp (resolveClusterTLS E c) (\<lambda>_ s'. only not_applied s0 s' \<and> obj s' = obj s) s"
  unfolding resolveClusterTLS_def group_call_defs by (intro wp_intros) simp_all

lemma on_cluster_shrinks_safely:
  assumes "only not_applied s0 s"
  shows "wp (reconcileNodeGroupOnCluster E c) (\<lambda>_. shrinks_safely E c (obj s) s0) s"
proof -
  have w: "wp (reconcileNodeGroupWorkload E c tls) (\<lambda>_. shrinks_safely E c (obj s) s0) s1"
    if "only not_applied s0 s1 \<and> obj s1 = obj s" for tls s1
    using workload_shrinks_safely [of s0 s1] that by simp
  show ?thesis
    unfolding reconcileNodeGroupOnCluster_def
    by (intro wp_intros w wp_mono [OF set_status_not_applied [of s0]] wp_mono [OF tls_not_applied [of s0]])
       (use assms in \<open>auto intro: untouched_shrinks_safely\<close>)
qed

lemma delete_not_applied: "only not_applied s0 s \<Longrightarrow> wp (delete_claims E cs) (\<lambda>_ s'. only not_applied s0 s') s"
  by (induction cs arbitrary: s) (simp_all add: wp_simps DeleteClaim_def)

lemma group_delete_not_applied: "only not_applied s0 s \<Longrightarrow> wp (reconcileNodeGroupDelete E) (\<lambda>_ s'. only not_applied s0 s') s"
  unfolding reconcileNodeGroupDelete_def finish_group_deletion_def removeFinalizer_def group_call_defs
  by (intro wp_intros wp_mono [OF delete_not_applied [of s0]]) simp_all

lemma group_cluster_not_applied:
  assumes "only not_applied s0 s"
  shows "wp (readyClusterForReference (GetManagedCluster E) (configureManagedClusterClient E) cl_Ready ns ref)
    (\<lambda>r s'. only not_applied s0 s' \<and> obj s' = obj s \<and> (\<forall>c ws. r = Inr (Some c, ws) \<longrightarrow>
       (\<exists>log. se_GetCluster E (clusterRefNamespace ns ref) (cr_Name ref) log = Inr c))) s"
  unfolding readyClusterForReference_def clusterDependency_def group_call_defs Let_def
  by (intro wp_intros) (use assms in \<open>auto split: option.splits\<close>)

lemma waiting_not_applied: "only not_applied s0 s \<Longrightarrow> wp (markNodeGroupWaiting E ws) (\<lambda>_ s'. only not_applied s0 s') s"
  unfolding markNodeGroupWaiting_def NodeGroupStatusUpdate_def Let_def by (intro wp_intros) simp_all

lemma group_finalizer_spec:
  "only not_applied s0 s \<Longrightarrow> wp (ensureFinalizer ng_Finalizers upd_group_finalizers (UpdateNodeGroup E))
     (\<lambda>f s'. only not_applied s0 s' \<and> (\<not> fst f \<longrightarrow> obj s' = obj s)) s"
  unfolding ensureFinalizer_def UpdateNodeGroup_def by (intro wp_intros) simp_all

text \<open>
  The node group controller keeps the discipline of the scale-down: whenever a reconcile applies
  the StatefulSet of a group with a replica count, it has read that StatefulSet, and if the count it
  read exceeds the desired one and offloading is enabled, the applied count is the one it read or one
  less, and one less only after the highest-ordinal node was released.
\<close>

theorem node_group_shrinks_after_release:
  assumes "se_GetGroup E ns name (calls s) = Inr g" "run_state (ReconcileNodeGroup E ns name) s = (out, s')"
    "SReconcileStatefulSet sts n tls \<in> set (new_calls s s')"
  shows "\<exists>c x. (\<exists>log. se_GetCluster E (clusterRefNamespace (ng_Namespace g) (ng_ClusterRef g)) (cr_Name (ng_ClusterRef g)) log = Inr c) \<and>
     asked (SGetStatefulSet (ng_Namespace g) sts) (se_GetStatefulSet E (ng_Namespace g) sts) (\<lambda>r. r = x) s s' \<and>
     (\<forall>ss k. x = Inr ss \<longrightarrow> ss_Replicas ss = Some k \<longrightarrow> nodeGroupReplicas g < k \<longrightarrow> nodeGroupOffloadEnabled c g \<longrightarrow>
        n = k \<or> n = k - 1 \<and> (\<exists>p. group_params E c g k = Inr p \<and> node_released E p s s'))"
proof -
  let ?post = "\<lambda>s'. \<exists>c. (\<exists>log. se_GetCluster E (clusterRefNamespace (ng_Namespace g) (ng_ClusterRef g)) (cr_Name (ng_ClusterRef g)) log = Inr c) \<and>
     shrinks_safely E c g s s'"
  have on: "wp (reconcileNodeGroupOnCluster E c) (\<lambda>_ s'. only not_applied s s' \<or> ?post s') s1"
    if "only not_applied s s1" "obj s1 = g" "\<exists>log. se_GetCluster E (clusterRefNamespace (ng_Namespace g) (ng_ClusterRef g)) (cr_Name (ng_ClusterRef g)) log = Inr c"
    for c s1
    using on_cluster_shrinks_safely [of s s1 E c] that by (auto elim!: wp_mono)
  have "wp (ReconcileNodeGroup E ns name) (\<lambda>_ s'. only not_applied s s' \<or> ?post s') s"
    unfolding ReconcileNodeGroup_def GetNodeGroup_def
    by (intro wp_intros on wp_mono [OF group_delete_not_applied [of s]] wp_mono [OF group_finalizer_spec [of s]]
          wp_mono [OF group_cluster_not_applied [of s]] wp_mono [OF waiting_not_applied [of s]])
       (use assms(1) in auto)
  from wp_run [OF this assms(2)] show ?thesis
  proof
    assume "only not_applied s s'"
    with assms(3) show ?thesis by (fastforce simp: only_set)
  next
    assume "?post s'"
    with assms(3) show ?thesis unfolding shrinks_safely_def count_allowed_def by blast
  qed
qed

section \<open>Deletion of a node group\<close>

definition claims_deleted :: "senv \<Rightarrow> string list \<Rightarrow> (scall, 'o) rstate \<Rightarrow> (scall, 'o) rstate \<Rightarrow> bool" where
  "claims_deleted E cs s s' \<longleftrightarrow> (\<forall>c \<in> set cs. asked (SDeleteClaim c) (se_DeleteClaim E c) (\<lambda>e. \<not> delete_failed e) s s')"

definition group_storage_gone :: "senv \<Rightarrow> NiFiNodeGroup \<Rightarrow> (scall, NiFiNodeGroup) rstate \<Rightarrow> (scall, NiFiNodeGroup) rstate \<Rightarrow> bool" where
  \<comment> \<open>the API server has acknowledged that the StatefulSet and every listed volume claim are gone\<close>
  "group_storage_gone E g s s' \<longleftrightarrow>
     asked (SDeleteStatefulSet (ng_Namespace g) (ng_StatefulSetName g)) (se_DeleteStatefulSet E (ng_Namespace g) (ng_StatefulSetName g))
       (\<lambda>e. \<not> delete_failed e) s s' \<and>
     (\<exists>cs. asked (SListClaims (ng_Namespace g) (ng_Name g)) (se_ListClaims E (ng_Namespace g) (ng_Name g)) (\<lambda>r. r = Inr cs) s s' \<and>
        claims_deleted E cs s s')"

definition keeps_storage :: "scall \<Rightarrow> bool" where
  "keeps_storage c = (case c of SDeleteStatefulSet ns n \<Rightarrow> False | SDeleteClaim n \<Rightarrow> False | _ \<Rightarrow> True)"

definition keeps_finalizer :: "scall \<Rightarrow> bool" where
  "keeps_finalizer c = (case c of SGroupUpdate g \<Rightarrow> False | _ \<Rightarrow> True)"

lemma storage_simps [simp]:
  "keeps_storage (SGroupUpdate g)" "keeps_storage (SGetGroup ns n)"
  "keeps_finalizer (SDeleteStatefulSet ns n)" "keeps_finalizer (SListClaims ns n)" "keeps_finalizer (SDeleteClaim n)" "keeps_finalizer (SGetGroup ns n)"
  by (simp_all add: keeps_storage_def keeps_finalizer_def)

lemma claims_deleted_mono: "claims_deleted E cs s1 s2 \<Longrightarrow> extends s0 s1 \<Longrightarrow> extends s2 s3 \<Longrightarrow> claims_deleted E cs s0 s3"
  unfolding claims_deleted_def by (blast intro: asked_mono)

lemma delete_claims_spec:
  "wp (delete_claims E cs) (\<lambda>e s'. obj s' = obj s \<and> only keeps_finalizer s s' \<and> (e = None \<longrightarrow> claims_deleted E cs s s')) s"
proof (induction cs arbitrary: s)
  case Nil
  then show ?case by (simp add: wp_simps claims_deleted_def)
next
  case (Cons c cs)
  let ?s = "s\<lparr>calls := calls s @ [SDeleteClaim c]\<rparr>"
  have e: "extends s ?s" by (simp add: extends_def)
  show ?case
  proof (cases "delete_failed (se_DeleteClaim E c (calls s))")
    case True
    then show ?thesis by (auto simp: wp_simps DeleteClaim_def delete_failed_def split: option.splits)
  next
    case False
    have now: "asked (SDeleteClaim c) (se_DeleteClaim E c) (\<lambda>e. \<not> delete_failed e) s s'" if "extends ?s s'" for s'
      using that False by (auto simp: extends_def intro: asked_at [of s' "calls s"])
    have "obj s' = obj s \<and> only keeps_finalizer s s' \<and> (r = None \<longrightarrow> claims_deleted E (c # cs) s s')"
      if r: "obj s' = obj ?s \<and> only keeps_finalizer ?s s' \<and> (r = None \<longrightarrow> claims_deleted E cs ?s s')" for r s'
    proof -
      have x: "extends ?s s'" using r by (auto intro: only_extends_state)
      have "only keeps_finalizer s ?s" by simp
      with r have "only keeps_finalizer s s'" by (metis within_trans)
      with r x now [OF x] claims_deleted_mono [OF _ e extends_refl, of E cs s'] show ?thesis by (auto simp: claims_deleted_def)
    qed
    with False Cons.IH [of ?s] show ?thesis by (auto simp: wp_simps DeleteClaim_def elim!: wp_mono)
  qed
qed

lemma finish_group_deletion_spec:
  "wp (finish_group_deletion E) (\<lambda>_ s'. calls s' = calls s \<or> (\<exists>u. calls s' = calls s @ [SGroupUpdate u])) s"
  unfolding finish_group_deletion_def removeFinalizer_def UpdateNodeGroup_def by (intro wp_intros) auto

definition deleted_in_order :: "senv \<Rightarrow> NiFiNodeGroup \<Rightarrow> (scall, NiFiNodeGroup) rstate \<Rightarrow> (scall, NiFiNodeGroup) rstate \<Rightarrow> bool" where
  "deleted_in_order E g s s' \<longleftrightarrow> only keeps_finalizer s s' \<or>
     (\<exists>s1 u. calls s' = calls s1 @ [SGroupUpdate u] \<and> only keeps_finalizer s s1 \<and> group_storage_gone E g s s1)"

lemma group_delete_in_order:
  assumes "ng_DeletionPolicy (obj s) = ''Delete''" "ng_StatefulSetName (obj s) \<noteq> ''''"
  shows "wp (reconcileNodeGroupDelete E) (\<lambda>_. deleted_in_order E (obj s) s) s"
proof -
  let ?ns = "ng_Namespace (obj s)" and ?sts = "ng_StatefulSetName (obj s)"
  let ?s1 = "s\<lparr>calls := calls s @ [SDeleteStatefulSet ?ns ?sts]\<rparr>"
  let ?s2 = "s\<lparr>calls := calls s @ [SDeleteStatefulSet ?ns ?sts, SListClaims ?ns (ng_Name (obj s))]\<rparr>"
  have fin: "wp (finish_group_deletion E) (\<lambda>_. deleted_in_order E (obj s) s) s3"
    if "only keeps_finalizer s s3" "group_storage_gone E (obj s) s s3" for s3
    by (rule wp_mono [OF finish_group_deletion_spec]) (use that in \<open>auto simp: deleted_in_order_def\<close>)
  have gone: "group_storage_gone E (obj s) s s3"
    if d: "\<not> delete_failed (se_DeleteStatefulSet E ?ns ?sts (calls s))"
      and l: "se_ListClaims E ?ns (ng_Name (obj s)) (calls ?s1) = Inr cs" and x: "extends ?s2 s3" and c: "claims_deleted E cs ?s2 s3" for cs s3
  proof -
    from x obtain zs where zs: "calls s3 = calls s @ SDeleteStatefulSet ?ns ?sts # SListClaims ?ns (ng_Name (obj s)) # zs"
      by (auto simp: extends_def)
    have a: "asked (SDeleteStatefulSet ?ns ?sts) (se_DeleteStatefulSet E ?ns ?sts) (\<lambda>e. \<not> delete_failed e) s s3"
      by (rule asked_at [OF zs]) (use d in auto)
    have b: "asked (SListClaims ?ns (ng_Name (obj s))) (se_ListClaims E ?ns (ng_Name (obj s))) (\<lambda>r. r = Inr cs) s s3"
      by (rule asked_at [of _ "calls ?s1"]) (use zs l in auto)
    have "claims_deleted E cs s s3"
      by (rule claims_deleted_mono [OF c]) (simp_all add: extends_def)
    with a b show ?thesis by (auto simp: group_storage_gone_def)
  qed
  have claims: "wp (delete_claims E cs) (\<lambda>e. wp (if e \<noteq> None then ret (requeue_after 5, e) else finish_group_deletion E) (\<lambda>_. deleted_in_order E (obj s) s)) ?s2"
    if d: "\<not> delete_failed (se_DeleteStatefulSet E ?ns ?sts (calls s))" and l: "se_ListClaims E ?ns (ng_Name (obj s)) (calls ?s1) = Inr cs" for cs
  proof (rule wp_mono [OF delete_claims_spec])
    fix e :: "go_error option" and s3
    assume a: "obj s3 = obj ?s2 \<and> only keeps_finalizer ?s2 s3 \<and> (e = None \<longrightarrow> claims_deleted E cs ?s2 s3)"
    have "only keeps_finalizer s ?s2" by simp
    with a have o: "only keeps_finalizer s s3" by (metis within_trans)
    from a have x: "extends ?s2 s3" by (auto intro: only_extends_state)
    show "wp (if e \<noteq> None then ret (requeue_after 5, e) else finish_group_deletion E) (\<lambda>_. deleted_in_order E (obj s) s) s3"
      by (intro wp_intros fin o gone [OF d l x]) (use a o in \<open>auto simp: deleted_in_order_def\<close>)
  qed
  show ?thesis
    using claims assms by (auto simp: reconcileNodeGroupDelete_def group_call_defs wp_simps deleted_in_order_def split: sum.split)
qed

lemma orphan_keeps_storage:
  assumes "\<not> (ng_DeletionPolicy (obj s) = ''Delete'' \<and> ng_StatefulSetName (obj s) \<noteq> '''')"
  shows "wp (reconcileNodeGroupDelete E) (\<lambda>_ s'. only keeps_storage s s') s"
proof -
  have "wp (finish_group_deletion E) (\<lambda>_ s'. only keeps_storage s s') s"
    by (rule wp_mono [OF finish_group_deletion_spec]) auto
  with assms show ?thesis by (auto simp: reconcileNodeGroupDelete_def wp_simps)
qed

text \<open>
  Deleting a node group respects its policy: under \<open>Delete\<close> the finalizer is removed only after the
  API server has acknowledged that the StatefulSet and every volume claim listed for the pool are gone;
  under any other policy no StatefulSet and no volume claim is deleted.
\<close>

theorem node_group_deletion_respects_policy:
  assumes "se_GetGroup E ns name (calls s) = Inr g" "ng_Deleting g" "ng_StatefulSetName g \<noteq> ''''" "run_state (ReconcileNodeGroup E ns name) s = (out, s')"
  shows "if ng_DeletionPolicy g = ''Delete'' then (\<exists>u. SGroupUpdate u \<in> set (new_calls s s')) \<longrightarrow> group_storage_gone E g s s'
     else (\<forall>c \<in> set (new_calls s s'). keeps_storage c)"
proof -
  let ?s = "s\<lparr>calls := calls s @ [SGetGroup ns name], obj := g\<rparr>"
  have eq: "wp (ReconcileNodeGroup E ns name) Q s = wp (reconcileNodeGroupDelete E) Q ?s" for Q
    using assms(1,2) by (simp add: ReconcileNodeGroup_def GetNodeGroup_def wp_simps)
  have e: "extends s ?s" by (simp add: extends_def)
  show ?thesis
  proof (cases "ng_DeletionPolicy g = ''Delete''")
    case True
    have "wp (ReconcileNodeGroup E ns name) (\<lambda>_. deleted_in_order E g ?s) s"
      unfolding eq using group_delete_in_order [of ?s E] True assms(3) by simp
    from wp_run [OF this assms(4)] consider "only keeps_finalizer ?s s'"
      | s1 u where "calls s' = calls s1 @ [SGroupUpdate u]" "only keeps_finalizer ?s s1" "group_storage_gone E g ?s s1"
      by (auto simp: deleted_in_order_def)
    then show ?thesis
    proof cases
      case 1
      then have "\<forall>c \<in> set (new_calls s s'). keeps_finalizer c"
        by (auto simp: within_def new_calls_def list_all_iff)
      with True show ?thesis by (fastforce simp: keeps_finalizer_def)
    next
      case 2
      have x: "extends s1 s'" using 2(1) by (simp add: extends_def)
      from 2(3) have "group_storage_gone E g s s'"
        unfolding group_storage_gone_def by (blast intro: asked_mono [OF _ e x] claims_deleted_mono [OF _ e x])
      with True show ?thesis by simp
    qed
  next
    case False
    have "wp (ReconcileNodeGroup E ns name) (\<lambda>_ s'. only keeps_storage ?s s') s"
      unfolding eq using orphan_keeps_storage [of ?s E] False by simp
    from wp_run [OF this assms(4)] False show ?thesis
      by (auto simp: within_def new_calls_def list_all_iff)
  qed
qed

section \<open>Witnesses\<close>

definition group_env :: "NiFiNodeGroup \<Rightarrow> senv" where
  "group_env g = sample_senv\<lparr>se_GetGroup := (\<lambda>_ _ _. Inr g), se_ListClaims := (\<lambda>_ _ _. Inr [''data-0'', ''data-1''])\<rparr>"

definition deleting_group :: NiFiNodeGroup where
  "deleting_group = group_sample\<lparr>ng_Deleting := True, ng_DeletionPolicy := ''Delete'', ng_StatefulSetName := ''prod-nifi-extra''\<rparr>"

theorem node_group_deletion_respects_policy_witness:
  "let E = group_env deleting_group; s = sstart deleting_group; s' = snd (run_state (ReconcileNodeGroup E ''ns'' ''extra'') s)
   in calls s' = [SGetGroup ''ns'' ''extra'', SDeleteStatefulSet ''ns'' ''prod-nifi-extra'', SListClaims ''ns'' ''extra'',
        SDeleteClaim ''data-0'', SDeleteClaim ''data-1'', SGroupUpdate (deleting_group\<lparr>ng_Finalizers := []\<rparr>)] \<and>
      group_storage_gone E deleting_group s s'"
proof -
  let ?E = "group_env deleting_group" and ?s = "sstart deleting_group"
  obtain out s' where run: "run_state (ReconcileNodeGroup ?E ''ns'' ''extra'') ?s = (out, s')" by fastforce
  have c: "calls (snd (run_state (ReconcileNodeGroup ?E ''ns'' ''extra'') ?s)) =
     [SGetGroup ''ns'' ''extra'', SDeleteStatefulSet ''ns'' ''prod-nifi-extra'', SListClaims ''ns'' ''extra'',
        SDeleteClaim ''data-0'', SDeleteClaim ''data-1'', SGroupUpdate (deleting_group\<lparr>ng_Finalizers := []\<rparr>)]"
    by (simp add: ReconcileNodeGroup_def reconcileNodeGroupDelete_def finish_group_deletion_def removeFinalizer_def upd_group_finalizers_def
        group_call_defs group_env_def deleting_group_def group_sample_def sample_senv_def delete_failed_def)
  with run have "\<exists>u. SGroupUpdate u \<in> set (new_calls ?s s')" by (auto simp: new_calls_def)
  with node_group_deletion_respects_policy [OF _ _ _ run, of deleting_group]
  have "group_storage_gone ?E deleting_group ?s s'" by (simp add: group_env_def deleting_group_def)
  with c run show ?thesis by simp
qed

theorem node_group_shrinks_after_release_witness:
  "let E = group_env group_sample; s = sstart group_sample; s' = snd (run_state (ReconcileNodeGroup E ''ns'' ''extra'') s)
   in SReconcileStatefulSet ''prod-nifi-extra'' 1 None \<in> set (calls s') \<and>
      (\<exists>p. group_params E scale_sample group_sample 2 = Inr p \<and> node_released E p s s')"
proof -
  let ?E = "group_env group_sample" and ?s = "sstart group_sample"
  obtain out s' where run: "run_state (ReconcileNodeGroup ?E ''ns'' ''extra'') ?s = (out, s')" by fastforce
  have one: "show_int 1 = ''1''" by code_simp
  have name: "nodeGroupStatefulSetName sample_digest ''prod'' ''extra'' = Inr ''prod-nifi-extra''"
    by (simp add: nodeGroupStatefulSetName_def boundedManagedName_def TrimSuffix_def HasSuffix_def Let_def)
  have env: "se_Sha256Hex ?E = sample_digest" "se_GetStatefulSet ?E a b log = Inr sample_stateful_set" "se_GetCluster ?E a b log = Inr scale_sample"
    "se_GetGroup ?E a b log = Inr group_sample" for a b log
    by (simp_all add: group_env_def sample_senv_def)
  have c: "SReconcileStatefulSet ''prod-nifi-extra'' 1 None \<in> set (calls (snd (run_state (ReconcileNodeGroup ?E ''ns'' ''extra'') ?s)))"
    by (simp add: ReconcileNodeGroup_def ensureFinalizer_def readyClusterForReference_def clusterDependency_def clusterRefNamespace_def
        reconcileNodeGroupOnCluster_def resolvedClusterMode_def resolveClusterTLS_def internalTLSEnabled_def
        reconcileNodeGroupWorkload_def scaleAndApply_def reconcileNodeGroupScaleDown_def nodeGroupReplicas_def group_params_def
        managedClusterHeadlessServiceName_def boundedManagedName_def TrimSuffix_def HasSuffix_def
        nodeGroupOffloadEnabled_def nodeGroupScaleDownSpec_def offload_enabled_def computeOffloadStep_def node_address_def poolNodeAddress_def
        ListClusterNodes_def prompt_node_def persist_group_step_def clearNodeGroupScaleDown_def applyScaleStep_def report_workload_def
        setNodeGroupStatus_def nodeGroupStatusNeedsUpdate_def
        group_call_defs group_env_def group_sample_def sample_senv_def sample_stateful_set_def scale_sample_def name one Let_def)
  have g: "nodeGroupReplicas group_sample = 0" "nodeGroupOffloadEnabled scale_sample group_sample" "ss_Replicas sample_stateful_set = Some 2"
    by (simp_all add: group_sample_def scale_sample_def sample_stateful_set_def nodeGroupReplicas_def nodeGroupOffloadEnabled_def
        nodeGroupScaleDownSpec_def offload_enabled_def)
  from c run have "SReconcileStatefulSet ''prod-nifi-extra'' 1 None \<in> set (new_calls ?s s')" by (simp add: new_calls_def)
  from node_group_shrinks_after_release [OF _ run this, of group_sample] obtain x where
    "asked (SGetStatefulSet (ng_Namespace group_sample) ''prod-nifi-extra'') (se_GetStatefulSet ?E (ng_Namespace group_sample) ''prod-nifi-extra'') (\<lambda>r. r = x) ?s s'"
    "\<forall>ss k. x = Inr ss \<longrightarrow> ss_Replicas ss = Some k \<longrightarrow> nodeGroupReplicas group_sample < k \<longrightarrow> nodeGroupOffloadEnabled scale_sample group_sample \<longrightarrow>
        (1 :: int) = k \<or> 1 = k - 1 \<and> (\<exists>p. group_params ?E scale_sample group_sample k = Inr p \<and> node_released ?E p ?s s')"
    by (auto simp: env)
  with c run g show ?thesis by (auto simp: asked_def env(2))
qed

end
