(* ===== verification/Component_Frame.thy ===== *)
theory Component_Frame
  imports Object_Access Component_Diff
begin

text \<open>
  What the controllers of single NiFi objects share. In \<open>internal/controller/phase1_controllers.go\<close> every
  controller repeats the same \<open>Reconcile\<close>, the same deletion and one of two ways to bring an existing
  object up to date; here each of these is written once, over a record \<open>kind\<close> of the accessors in which
  the copies differ. A resource is polymorphic in its spec and in the part of its status that is not
  \<open>CommonStatus\<close>; the calls and the environment are polymorphic in the resource and in the NiFi entity,
  one instance per client interface.
\<close>

section \<open>Resources, calls and environment\<close>

record ('sp, 'st) resource =
  ob_Name :: string
  ob_Namespace :: string
  ob_Generation :: int
  ob_Deleting :: bool
  ob_Finalizers :: "string list"
  ob_Spec :: 'sp
  ob_Common :: CommonStatus
  ob_Status :: 'st

text \<open>What a controller reads of a referenced processor, port or funnel, of a remote process group and of a Secret.\<close>

record ConnectableObject =
  co_Ready :: bool
  co_NiFiID :: string
  co_ParentProcessGroupID :: string

record DiscoveredPort =
  dpt_Name :: string
  dpt_NiFiID :: string

record RemoteProcessGroupObject =
  rgo_NiFiID :: string
  rgo_DiscoveredInputPorts :: "DiscoveredPort list"
  rgo_DiscoveredOutputPorts :: "DiscoveredPort list"

record TenantObject =
  tn_Ready :: bool
  tn_NiFiID :: string
  tn_ClusterRef :: ClusterReference

record ParameterContextUpdateRequest =
  \<comment> \<open>an asynchronous update of a parameter context, as NiFi reports it\<close>
  ur_RequestID :: string
  ur_URI :: string
  ur_SubmissionTime :: string
  ur_LastUpdated :: string
  ur_Complete :: bool
  ur_FailureReason :: string
  ur_PercentCompleted :: int
  ur_State :: string

record BatchSettings =
  bts_Count :: int
  bts_Size :: string
  bts_Duration :: string

record RemoteProcessGroupPort =
  \<comment> \<open>a port of the target of a remote process group, as NiFi discovered it\<close>
  rpp_ID :: string
  rpp_GroupID :: string
  rpp_TargetID :: string
  rpp_Name :: string
  rpp_Comments :: string
  rpp_UseCompression :: bool
  rpp_ConcurrentlySchedulableTaskCount :: int
  rpp_BatchSettings :: "BatchSettings option"
  rpp_Transmitting :: bool
  rpp_Exists :: bool
  rpp_Connected :: bool
  rpp_TargetRunning :: bool

record RemoteProcessGroupPortEntity =
  rpe_Revision :: Revision
  rpe_RemoteProcessGroupPort :: RemoteProcessGroupPort

datatype ('o, 'e) kcall =
    KGet string
  | KCreate string 'e
  | KUpdate 'e
  | KSetRunState string int string
  | KDelete string int
  | KList
  | KListIn string
  | KFind string string
  | KCreateUpdateRequest string 'e
  | KGetUpdateRequest string string
  | KUpdatePort bool string RemoteProcessGroupPortEntity \<comment> \<open>a remote output or input port of a group\<close>
  | KSetPortState bool string string int string
  | KEvent string string \<comment> \<open>a Kubernetes event: reason and message\<close>
  | KStatusUpdate 'o
  | KUpdateObject 'o
  | KGetObject
  | KGetCluster string string
  | KConfigureClusterHTTPClient NiFiCluster
  | KGetParameterContext string string
  | KGetProcessGroupObject string string
  | KGetConnectable string string string
  | KGetRemoteProcessGroup string string
  | KGetTenant string string string
  | KGetSecret string string

type_synonym ('o, 'e, 'a) kreply = "('o, 'e) kcall list \<Rightarrow> 'a go_result"
type_synonym ('o, 'e) kack = "('o, 'e) kcall list \<Rightarrow> go_error option"

record ('o, 'e) kenv =
  ke_Now :: "('o, 'e) kcall list \<Rightarrow> go_time"
  ke_Range :: "('o, 'e) kcall list \<Rightarrow> string list \<Rightarrow> string list" \<comment> \<open>the order in which a loop visits the keys of a map\<close>
  ke_Get :: "string \<Rightarrow> ('o, 'e, 'e option) kreply"
  ke_Create :: "string \<Rightarrow> 'e \<Rightarrow> ('o, 'e, 'e option) kreply"
  ke_Update :: "'e \<Rightarrow> ('o, 'e, 'e option) kreply"
  ke_SetRunState :: "string \<Rightarrow> int \<Rightarrow> string \<Rightarrow> ('o, 'e, 'e option) kreply"
  ke_Delete :: "string \<Rightarrow> int \<Rightarrow> ('o, 'e) kack"
  ke_List :: "('o, 'e, 'e list) kreply"
  ke_ListIn :: "string \<Rightarrow> ('o, 'e, 'e list) kreply"
  ke_UpdatePort :: "bool \<Rightarrow> string \<Rightarrow> RemoteProcessGroupPortEntity \<Rightarrow> ('o, 'e) kack"
  ke_SetPortState :: "bool \<Rightarrow> string \<Rightarrow> string \<Rightarrow> int \<Rightarrow> string \<Rightarrow> ('o, 'e) kack"
  ke_Find :: "string \<Rightarrow> string \<Rightarrow> ('o, 'e, 'e option) kreply"
  ke_CreateUpdateRequest :: "string \<Rightarrow> 'e \<Rightarrow> ('o, 'e, ParameterContextUpdateRequest option) kreply"
  ke_GetUpdateRequest :: "string \<Rightarrow> string \<Rightarrow> ('o, 'e, ParameterContextUpdateRequest option) kreply"
  ke_StatusUpdate :: "'o \<Rightarrow> ('o, 'e) kack"
  ke_UpdateObject :: "'o \<Rightarrow> ('o, 'e) kack"
  ke_GetObject :: "('o, 'e, 'o) kreply"
  ke_GetCluster :: "string \<Rightarrow> string \<Rightarrow> ('o, 'e, NiFiCluster) kreply"
  ke_ConfigureClusterHTTPClient :: "NiFiCluster \<Rightarrow> ('o, 'e) kack"
  ke_GetParameterContext :: "string \<Rightarrow> string \<Rightarrow> ('o, 'e, NiFiObject) kreply"
  ke_GetProcessGroupObject :: "string \<Rightarrow> string \<Rightarrow> ('o, 'e, NiFiObject) kreply"
  ke_GetConnectable :: "string \<Rightarrow> string \<Rightarrow> string \<Rightarrow> ('o, 'e, ConnectableObject) kreply"
  ke_GetRemoteProcessGroup :: "string \<Rightarrow> string \<Rightarrow> ('o, 'e, RemoteProcessGroupObject) kreply"
  ke_GetTenant :: "string \<Rightarrow> string \<Rightarrow> string \<Rightarrow> ('o, 'e, TenantObject) kreply"
  ke_GetSecret :: "string \<Rightarrow> string \<Rightarrow> ('o, 'e, go_map) kreply"

type_synonym ('sp, 'st, 'e) renv = "(('sp, 'st) resource, 'e) kenv"
type_synonym ('sp, 'st, 'e, 'a) khandler = "((('sp, 'st) resource, 'e) kcall, ('sp, 'st) resource, 'a) handler"
type_synonym ('sp, 'st, 'e) kstate = "((('sp, 'st) resource, 'e) kcall, ('sp, 'st) resource) rstate"

definition k_now :: "('sp, 'st, 'e) renv \<Rightarrow> ('sp, 'st, 'e, go_time) khandler" where
  "k_now E = read_clock (ke_Now E)"
definition k_range :: "('sp, 'st, 'e) renv \<Rightarrow> string list \<Rightarrow> ('sp, 'st, 'e, string list) khandler" where
  \<comment> \<open>a \<open>for range\<close> over the keys of a map\<close>
  "k_range E keys = State (\<lambda>s. (ke_Range E (calls s) keys, s))"
definition k_Get :: "('sp, 'st, 'e) renv \<Rightarrow> string \<Rightarrow> ('sp, 'st, 'e, 'e option go_result) khandler" where
  "k_Get E i = ext_call (KGet i) (ke_Get E i)"
definition k_Create :: "('sp, 'st, 'e) renv \<Rightarrow> string \<Rightarrow> 'e \<Rightarrow> ('sp, 'st, 'e, 'e option go_result) khandler" where
  "k_Create E p e = ext_call (KCreate p e) (ke_Create E p e)"
definition k_Update :: "('sp, 'st, 'e) renv \<Rightarrow> 'e \<Rightarrow> ('sp, 'st, 'e, 'e option go_result) khandler" where
  "k_Update E e = ext_call (KUpdate e) (ke_Update E e)"
definition k_SetRunState :: "('sp, 'st, 'e) renv \<Rightarrow> string \<Rightarrow> int \<Rightarrow> string \<Rightarrow> ('sp, 'st, 'e, 'e option go_result) khandler" where
  "k_SetRunState E i v st = ext_call (KSetRunState i v st) (ke_SetRunState E i v st)"
definition k_Delete :: "('sp, 'st, 'e) renv \<Rightarrow> string \<Rightarrow> int \<Rightarrow> ('sp, 'st, 'e, go_error option) khandler" where
  "k_Delete E i v = ext_call (KDelete i v) (ke_Delete E i v)"
definition k_List :: "('sp, 'st, 'e) renv \<Rightarrow> ('sp, 'st, 'e, 'e list go_result) khandler" where
  "k_List E = ext_call KList (ke_List E)"
definition k_ListIn :: "('sp, 'st, 'e) renv \<Rightarrow> string \<Rightarrow> ('sp, 'st, 'e, 'e list go_result) khandler" where
  "k_ListIn E p = ext_call (KListIn p) (ke_ListIn E p)"
definition k_UpdatePort :: "('sp, 'st, 'e) renv \<Rightarrow> bool \<Rightarrow> string \<Rightarrow> RemoteProcessGroupPortEntity \<Rightarrow> ('sp, 'st, 'e, go_error option) khandler" where
  \<comment> \<open>the returned port is not used\<close>
  "k_UpdatePort E output g p = ext_call (KUpdatePort output g p) (ke_UpdatePort E output g p)"
definition k_SetPortState :: "('sp, 'st, 'e) renv \<Rightarrow> bool \<Rightarrow> string \<Rightarrow> string \<Rightarrow> int \<Rightarrow> string \<Rightarrow> ('sp, 'st, 'e, go_error option) khandler" where
  "k_SetPortState E output g i v st = ext_call (KSetPortState output g i v st) (ke_SetPortState E output g i v st)"
definition k_event :: "string \<Rightarrow> string \<Rightarrow> ('sp, 'st, 'e, unit) khandler" where
  "k_event reason message = ext_call (KEvent reason message) (\<lambda>_. ())"
definition k_Find :: "('sp, 'st, 'e) renv \<Rightarrow> string \<Rightarrow> string \<Rightarrow> ('sp, 'st, 'e, 'e option go_result) khandler" where
  "k_Find E a r = ext_call (KFind a r) (ke_Find E a r)"
definition k_CreateUpdateRequest :: "('sp, 'st, 'e) renv \<Rightarrow> string \<Rightarrow> 'e \<Rightarrow> ('sp, 'st, 'e, ParameterContextUpdateRequest option go_result) khandler" where
  "k_CreateUpdateRequest E i e = ext_call (KCreateUpdateRequest i e) (ke_CreateUpdateRequest E i e)"
definition k_GetUpdateRequest :: "('sp, 'st, 'e) renv \<Rightarrow> string \<Rightarrow> string \<Rightarrow> ('sp, 'st, 'e, ParameterContextUpdateRequest option go_result) khandler" where
  "k_GetUpdateRequest E i r = ext_call (KGetUpdateRequest i r) (ke_GetUpdateRequest E i r)"
definition k_GetObject :: "('sp, 'st, 'e) renv \<Rightarrow> ('sp, 'st, 'e, ('sp, 'st) resource go_result) khandler" where
  "k_GetObject E = ext_call KGetObject (ke_GetObject E)"
definition k_GetCluster :: "('sp, 'st, 'e) renv \<Rightarrow> string \<Rightarrow> string \<Rightarrow> ('sp, 'st, 'e, NiFiCluster go_result) khandler" where
  "k_GetCluster E ns n = ext_call (KGetCluster ns n) (ke_GetCluster E ns n)"
definition k_Configure :: "('sp, 'st, 'e) renv \<Rightarrow> NiFiCluster \<Rightarrow> ('sp, 'st, 'e, go_error option) khandler" where
  "k_Configure E c = ext_call (KConfigureClusterHTTPClient c) (ke_ConfigureClusterHTTPClient E c)"
definition k_GetParameterContext :: "('sp, 'st, 'e) renv \<Rightarrow> string \<Rightarrow> string \<Rightarrow> ('sp, 'st, 'e, NiFiObject go_result) khandler" where
  "k_GetParameterContext E ns n = ext_call (KGetParameterContext ns n) (ke_GetParameterContext E ns n)"
definition k_GetProcessGroupObject :: "('sp, 'st, 'e) renv \<Rightarrow> string \<Rightarrow> string \<Rightarrow> ('sp, 'st, 'e, NiFiObject go_result) khandler" where
  "k_GetProcessGroupObject E ns n = ext_call (KGetProcessGroupObject ns n) (ke_GetProcessGroupObject E ns n)"
definition k_GetConnectable :: "('sp, 'st, 'e) renv \<Rightarrow> string \<Rightarrow> string \<Rightarrow> string \<Rightarrow> ('sp, 'st, 'e, ConnectableObject go_result) khandler" where
  "k_GetConnectable E k ns n = ext_call (KGetConnectable k ns n) (ke_GetConnectable E k ns n)"
definition k_GetRemoteProcessGroup :: "('sp, 'st, 'e) renv \<Rightarrow> string \<Rightarrow> string \<Rightarrow> ('sp, 'st, 'e, RemoteProcessGroupObject go_result) khandler" where
  "k_GetRemoteProcessGroup E ns n = ext_call (KGetRemoteProcessGroup ns n) (ke_GetRemoteProcessGroup E ns n)"
definition k_GetTenant :: "('sp, 'st, 'e) renv \<Rightarrow> string \<Rightarrow> string \<Rightarrow> string \<Rightarrow> ('sp, 'st, 'e, TenantObject go_result) khandler" where
  "k_GetTenant E k ns n = ext_call (KGetTenant k ns n) (ke_GetTenant E k ns n)"
definition k_GetSecret :: "('sp, 'st, 'e) renv \<Rightarrow> string \<Rightarrow> string \<Rightarrow> ('sp, 'st, 'e, go_map go_result) khandler" where
  "k_GetSecret E ns n = ext_call (KGetSecret ns n) (ke_GetSecret E ns n)"

definition k_StatusUpdate :: "('sp, 'st, 'e) renv \<Rightarrow> ('sp, 'st, 'e, go_error option) khandler" where
  "k_StatusUpdate E = do { d \<leftarrow> get_obj; ext_call (KStatusUpdate d) (ke_StatusUpdate E d) }"
definition k_UpdateObject :: "('sp, 'st, 'e) renv \<Rightarrow> ('sp, 'st, 'e, go_error option) khandler" where
  "k_UpdateObject E = do { d \<leftarrow> get_obj; ext_call (KUpdateObject d) (ke_UpdateObject E d) }"

lemmas k_call_defs = k_now_def k_Get_def k_Create_def k_Update_def k_SetRunState_def k_Delete_def k_List_def k_ListIn_def k_UpdatePort_def k_SetPortState_def k_event_def k_Find_def k_CreateUpdateRequest_def k_GetUpdateRequest_def
  k_GetObject_def k_GetCluster_def k_Configure_def k_GetParameterContext_def k_GetProcessGroupObject_def k_GetConnectable_def
  k_GetRemoteProcessGroup_def k_GetTenant_def k_GetSecret_def k_StatusUpdate_def k_UpdateObject_def

lemma wp_k_range [wp_intros]: "Q (ke_Range E (calls s) keys) s \<Longrightarrow> wp (k_range E keys) Q s"
  by (simp add: wp_def k_range_def)

section \<open>Kinds\<close>

record ('sp, 'e) kind =
  \<comment> \<open>the points in which the copies of the reconcile code differ\<close>
  kd_Label :: string \<comment> \<open>how messages call the object\<close>
  kd_ClusterRef :: "'sp \<Rightarrow> ClusterReference"
  kd_DeletionPolicy :: "'sp \<Rightarrow> string"
  kd_AdoptID :: "'sp \<Rightarrow> string option" \<comment> \<open>the id to adopt, where the controller adopts by id\<close>
  kd_EntityID :: "'e \<Rightarrow> string"
  kd_Revision :: "'e \<Rightarrow> int"
  kd_Address :: "string \<Rightarrow> int \<Rightarrow> 'e \<Rightarrow> 'e" \<comment> \<open>sets the ids and the revision of an update\<close>

definition adopt_by_id :: "AdoptionPolicy \<Rightarrow> string option" where
  "adopt_by_id policy = (if ap_Mode policy = ''AdoptById'' \<and> ap_NiFiID policy \<noteq> '''' then Some (ap_NiFiID policy) else None)"

definition upd_object_finalizers :: "(string list \<Rightarrow> string list) \<Rightarrow> ('sp, 'st) resource \<Rightarrow> ('sp, 'st) resource" where
  "upd_object_finalizers f d = d\<lparr>ob_Finalizers := f (ob_Finalizers d)\<rparr>"

section \<open>Reports\<close>

definition mark_resource_not_ready :: "('sp, 'st, 'e) renv \<Rightarrow> string \<Rightarrow> string \<Rightarrow> ('sp, 'st, 'e, go_error option) khandler" where
  "mark_resource_not_ready E reason message = do {
     t \<leftarrow> k_now E;
     upd_obj (\<lambda>d. d\<lparr>ob_Common := not_ready_common t (ob_Generation d) reason message (ob_Common d)\<rparr>);
     k_StatusUpdate E }"

definition mark_waiting :: "('sp, 'st, 'e) renv \<Rightarrow> string list \<Rightarrow> ('sp, 'st, 'e, go_error option) khandler" where
  "mark_waiting E waitingFor = do {
     t \<leftarrow> k_now E;
     upd_obj (\<lambda>d. d\<lparr>ob_Common := MarkWaitingForDependencies t (ob_Generation d) waitingFor (ob_Common d)\<rparr>);
     k_StatusUpdate E }"

definition ready_common :: "go_time \<Rightarrow> int \<Rightarrow> string \<Rightarrow> string \<Rightarrow> string \<Rightarrow> int \<Rightarrow> CommonStatus \<Rightarrow> CommonStatus" where
  "ready_common t g reason message nifiID revisionVersion c =
     set_last_error '''' (set_revision_version revisionVersion ((MarkReady t g reason message c)\<lparr>cs_NiFiID := nifiID\<rparr>))"

definition mark_ready ::
  "('sp, 'st, 'e) renv \<Rightarrow> string \<Rightarrow> string \<Rightarrow> string \<Rightarrow> int \<Rightarrow> ('st \<Rightarrow> 'st) \<Rightarrow> ('sp, 'st, 'e, go_error option) khandler" where
  "mark_ready E reason message nifiID revisionVersion set_fields = do {
     t \<leftarrow> k_now E;
     upd_obj (\<lambda>d. d\<lparr>ob_Common := ready_common t (ob_Generation d) reason message nifiID revisionVersion (ob_Common d),
                    ob_Status := set_fields (ob_Status d)\<rparr>);
     k_StatusUpdate E }"

definition status_matches :: "('sp, 'st) resource \<Rightarrow> string \<Rightarrow> int \<Rightarrow> bool" where
  \<comment> \<open>the conjuncts all \<open>*StatusMatches\<close> functions share\<close>
  "status_matches instance nifiID revisionVersion \<longleftrightarrow>
     (let c = ob_Common instance in
      cs_ObservedGeneration c = ob_Generation instance \<and> cs_Ready c \<and> dp_Ready (cs_Dependencies c) \<and>
      cs_NiFiID c = nifiID \<and> rv_Version (cs_Revision c) = revisionVersion)"

definition shouldMarkResourceNotReady :: "('sp, 'st) resource \<Rightarrow> string \<Rightarrow> string \<Rightarrow> bool" where
  "shouldMarkResourceNotReady instance reason message = shouldMarkNotReady (ob_Generation instance) (ob_Common instance) reason message"

definition report_not_ready :: "('sp, 'st, 'e) renv \<Rightarrow> string \<Rightarrow> string \<Rightarrow> ctrl_result \<Rightarrow> ctrl_result \<Rightarrow> ('sp, 'st, 'e, outcome) khandler" where
  \<comment> \<open>\<open>if shouldMark...NotReady { return r1, mark...NotReady(...) }; return r2, nil\<close>\<close>
  "report_not_ready E reason message r1 r2 = do {
     instance \<leftarrow> get_obj;
     (if shouldMarkResourceNotReady instance reason message then do { u \<leftarrow> mark_resource_not_ready E reason message; ret (r1, u) }
      else ret (r2, None)) }"

abbreviation report_failed :: "('sp, 'st, 'e) renv \<Rightarrow> string \<Rightarrow> string \<Rightarrow> ('sp, 'st, 'e, outcome) khandler" where
  "report_failed E reason message \<equiv> report_not_ready E reason message (requeue_after 30) (requeue_after 30)"

definition report_waiting :: "('sp, 'st, 'e) renv \<Rightarrow> string list \<Rightarrow> ('sp, 'st, 'e, outcome) khandler" where
  "report_waiting E waitingFor = do {
     instance \<leftarrow> get_obj;
     let c = ob_Common instance;
     (if cs_ObservedGeneration c \<noteq> ob_Generation instance \<or> dp_Ready (cs_Dependencies c) \<or>
         waitingForChanged (dp_WaitingFor (cs_Dependencies c)) waitingFor
      then do { u \<leftarrow> mark_waiting E waitingFor; ret (no_result, u) }
      else ret (no_result, None)) }"

section \<open>Reconcile\<close>

definition with_ready_cluster ::
  "('sp, 'e) kind \<Rightarrow> ('sp, 'st, 'e) renv \<Rightarrow> ('sp, 'st, 'e, outcome) khandler \<Rightarrow> ('sp, 'st, 'e, string list) khandler \<Rightarrow>
   (NiFiCluster \<Rightarrow> ('sp, 'st, 'e, outcome) khandler) \<Rightarrow> ('sp, 'st, 'e, outcome) khandler" where
  "with_ready_cluster K E reconcileDelete dependenciesWaitingFor continue = do {
     g \<leftarrow> k_GetObject E;
     (case g of
        Inl err \<Rightarrow> ret (no_result, if IsNotFound err then None else Some err)
      | Inr instance \<Rightarrow> do {
          upd_obj (\<lambda>_. instance);
          (if ob_Deleting instance then reconcileDelete
           else do {
             f \<leftarrow> ensureFinalizer ob_Finalizers upd_object_finalizers (k_UpdateObject E);
             (if snd f \<noteq> None \<or> fst f then ret (no_result, snd f)
              else do {
                c \<leftarrow> readyClusterForReference (k_GetCluster E) (k_Configure E) cl_Ready (ob_Namespace instance) (kd_ClusterRef K (ob_Spec instance));
                (case c of
                   Inl err \<Rightarrow> ret (no_result, Some err)
                 | Inr (cluster, clusterWaiting) \<Rightarrow> do {
                     dependencies \<leftarrow> dependenciesWaitingFor;
                     let waitingFor = clusterWaiting @ dependencies;
                     (if waitingFor \<noteq> [] then report_waiting E waitingFor
                      else (case cluster of
                         None \<Rightarrow> ret (no_result, Some (errorf ''invalid memory address or nil pointer dereference''))
                       | Some cluster \<Rightarrow> continue cluster)) }) }) }) }) }"

definition with_endpoint :: "('sp, 'st, 'e) renv \<Rightarrow> NiFiCluster \<Rightarrow> ('sp, 'st, 'e, outcome) khandler \<Rightarrow> ('sp, 'st, 'e, outcome) khandler" where
  "with_endpoint E cluster continue =
     (if clusterEndpoint cluster = ''''
      then report_not_ready E ''ClusterEndpointMissing'' ''Referenced NiFiCluster is ready but does not expose a NiFi API endpoint.''
             no_result (requeue_after 30)
      else continue)"

definition with_parent ::
  "('sp, 'st, 'e) renv \<Rightarrow> NiFiCluster \<Rightarrow> ProcessGroupReference \<Rightarrow> (string \<Rightarrow> ('sp, 'st, 'e, outcome) khandler) \<Rightarrow> ('sp, 'st, 'e, outcome) khandler" where
  "with_parent E cluster ref continue = do {
     instance \<leftarrow> get_obj;
     p \<leftarrow> processGroupParentID (k_GetProcessGroupObject E) (ob_Namespace instance) cluster ref;
     (case p of
        Inl err \<Rightarrow> ret (no_result, Some err)
      | Inr parentID \<Rightarrow>
         (if parentID = ''''
          then report_not_ready E ''ParentProcessGroupIDMissing'' ''The parent process group ID is not available yet.'' no_result (requeue_after 30)
          else continue parentID)) }"

definition empty_response :: "('sp, 'e) kind \<Rightarrow> string" where
  "empty_response K = ''NiFi returned an empty '' @ kd_Label K @ '' response.''"

definition failed_to :: "string \<Rightarrow> ('sp, 'e) kind \<Rightarrow> go_error \<Rightarrow> string" where
  \<comment> \<open>\<open>fmt.Sprintf("Failed to %s NiFi <label>: %v", verb, err)\<close>\<close>
  "failed_to verb K err = ''Failed to '' @ verb @ '' NiFi '' @ kd_Label K @ '': '' @ err_text err"

definition create_component ::
  "('sp, 'e) kind \<Rightarrow> ('sp, 'st, 'e) renv \<Rightarrow> string \<Rightarrow> 'e \<Rightarrow> ('e \<Rightarrow> ('sp, 'st, 'e, outcome) khandler) \<Rightarrow> ('sp, 'st, 'e, outcome) khandler" where
  "create_component K E parentID entity created_path = do {
     c \<leftarrow> k_Create E parentID entity;
     (case c of
        Inl err \<Rightarrow> report_failed E ''NiFiCreateFailed'' (failed_to ''create'' K err)
      | Inr created \<Rightarrow> (case created of
           None \<Rightarrow> report_failed E ''NiFiCreateFailed'' (empty_response K)
         | Some created \<Rightarrow> created_path created)) }"

definition find_or_create ::
  "('sp, 'e) kind \<Rightarrow> ('sp, 'st, 'e) renv \<Rightarrow> string \<Rightarrow> 'e \<Rightarrow> ('e option \<Rightarrow> ('sp, 'st, 'e, outcome) khandler) \<Rightarrow> ('e \<Rightarrow> ('sp, 'st, 'e, outcome) khandler) \<Rightarrow> ('sp, 'st, 'e, outcome) khandler" where
  \<comment> \<open>a recorded or adopted object is read, otherwise one is created\<close>
  "find_or_create K E parentID entity existing_path created_path = do {
     instance \<leftarrow> get_obj;
     (if cs_NiFiID (ob_Common instance) \<noteq> '''' then do {
        g \<leftarrow> k_Get E (cs_NiFiID (ob_Common instance));
        (case g of
           Inl err \<Rightarrow> report_failed E ''NiFiGetFailed'' (failed_to ''get'' K err)
         | Inr existing \<Rightarrow> existing_path existing) }
      else (case kd_AdoptID K (ob_Spec instance) of
         Some i \<Rightarrow> do {
           g \<leftarrow> k_Get E i;
           (case g of
              Inl err \<Rightarrow> report_failed E ''AdoptionFailed'' (failed_to ''adopt'' K err)
            | Inr existing \<Rightarrow> existing_path existing) }
       | None \<Rightarrow> create_component K E parentID entity created_path)) }"

definition find_or_recreate ::
  "('sp, 'e) kind \<Rightarrow> ('sp, 'st, 'e) renv \<Rightarrow> 'e \<Rightarrow> ('e \<Rightarrow> ('sp, 'st, 'e, outcome) khandler) \<Rightarrow> ('sp, 'st, 'e, outcome) khandler" where
  \<comment> \<open>the variant of reporting tasks and parameter providers: an object that is gone is created again\<close>
  "find_or_recreate K E entity existing_path = do {
     instance \<leftarrow> get_obj;
     let create = create_component K E '''' entity existing_path;
     let adopt = (case kd_AdoptID K (ob_Spec instance) of
          None \<Rightarrow> create
        | Some i \<Rightarrow> do {
            g \<leftarrow> k_Get E i;
            (case g of
               Inl err \<Rightarrow> report_failed E ''AdoptionFailed'' (failed_to ''adopt'' K err)
             | Inr existing \<Rightarrow> (case existing of Some existing \<Rightarrow> existing_path existing | None \<Rightarrow> create)) });
     (if cs_NiFiID (ob_Common instance) \<noteq> '''' then do {
        g \<leftarrow> k_Get E (cs_NiFiID (ob_Common instance));
        (case g of
           Inl err \<Rightarrow> (if \<not> IsNotFound err then report_failed E ''NiFiGetFailed'' (failed_to ''get'' K err) else adopt)
         | Inr existing \<Rightarrow> (case existing of Some existing \<Rightarrow> existing_path existing | None \<Rightarrow> adopt)) }
      else adopt) }"

section \<open>Secrets\<close>

definition resolveSecretKey :: "('sp, 'st, 'e) renv \<Rightarrow> string \<Rightarrow> SecretKeyRef \<Rightarrow> ('sp, 'st, 'e, (string \<times> string) go_result) khandler" where
  \<comment> \<open>the value and what to wait for\<close>
  "resolveSecretKey E namespace ref = do {
     r \<leftarrow> k_GetSecret E namespace (sk_Name ref);
     let key = ''Secret/'' @ namespace @ ''/'' @ sk_Name ref;
     ret (case r of
        Inl err \<Rightarrow> (if IsNotFound err then Inr ('''', key) else Inl err)
      | Inr data \<Rightarrow> (case map_of data (sk_Key ref) of
           Some value \<Rightarrow> Inr (value, '''')
         | None \<Rightarrow> (if sk_Optional ref = Some True then Inr ('''', '''') else Inr ('''', key @ '':'' @ sk_Key ref)))) }"

primrec resolve_each ::
  "('sp, 'st, 'e) renv \<Rightarrow> string \<Rightarrow> (string \<times> SensitivePropertySource) list \<Rightarrow> string list \<Rightarrow> go_map \<Rightarrow> string list \<Rightarrow>
   ('sp, 'st, 'e, (go_map \<times> string list) go_result) khandler" where
  "resolve_each E namespace sources [] properties waitingFor = ret (Inr (properties, waitingFor))"
| "resolve_each E namespace sources (propertyName # rest) properties waitingFor =
     (case map_of sources propertyName of
        None \<Rightarrow> resolve_each E namespace sources rest properties waitingFor
      | Some source \<Rightarrow> (case source of
           None \<Rightarrow> resolve_each E namespace sources rest properties (waitingFor @ [''sensitiveProperties.'' @ propertyName @ ''.secretKeyRef''])
         | Some secretRef \<Rightarrow> do {
             r \<leftarrow> resolveSecretKey E namespace secretRef;
             (case r of
                Inl err \<Rightarrow> ret (Inl err)
              | Inr (value, wait) \<Rightarrow>
                 (if wait \<noteq> '''' then resolve_each E namespace sources rest properties (waitingFor @ [wait])
                  else resolve_each E namespace sources rest ((propertyName, value) # properties) waitingFor)) }))"

definition resolve_sensitive ::
  "('sp, 'st, 'e) renv \<Rightarrow> string \<Rightarrow> (string \<times> SensitivePropertySource) list \<Rightarrow> go_map \<Rightarrow> string list \<Rightarrow>
   ('sp, 'st, 'e, (go_map \<times> string list) go_result) khandler" where
  \<comment> \<open>the loop over \<open>spec.sensitiveProperties\<close>; a resolved value overrides a plain property of the same name\<close>
  "resolve_sensitive E namespace sources properties waitingFor = do {
     keys \<leftarrow> k_range E (remdups (map fst sources));
     resolve_each E namespace sources keys properties waitingFor }"

definition with_desired ::
  "('sp, 'st, 'e) renv \<Rightarrow> ('sp, 'st, 'e, ('d \<times> string list) go_result) khandler \<Rightarrow> ('d \<Rightarrow> ('sp, 'st, 'e, outcome) khandler) \<Rightarrow> ('sp, 'st, 'e, outcome) khandler" where
  \<comment> \<open>\<open>entity, waitingFor, err := r.desired...\<close>: an error is returned, a missing Secret is waited for\<close>
  "with_desired E desired continue = do {
     d \<leftarrow> desired;
     (case d of
        Inl err \<Rightarrow> ret (no_result, Some err)
      | Inr (entity, waitingFor) \<Rightarrow> (if waitingFor \<noteq> [] then report_waiting E waitingFor else continue entity)) }"

section \<open>Bringing an existing object up to date\<close>

definition settle_ready ::
  "('sp, 'st, 'e) renv \<Rightarrow> (('sp, 'st) resource \<Rightarrow> string \<Rightarrow> int \<Rightarrow> bool) \<Rightarrow> (string \<Rightarrow> int \<Rightarrow> ('sp, 'st, 'e, go_error option) khandler) \<Rightarrow>
   string \<Rightarrow> int \<Rightarrow> ('sp, 'st, 'e, outcome) khandler" where
  \<comment> \<open>\<open>if !...StatusMatches { return mark...Ready }; return ctrl.Result{}, nil\<close>\<close>
  "settle_ready E matches mark nifiID revisionVersion = do {
     instance \<leftarrow> get_obj;
     (if \<not> matches instance nifiID revisionVersion then do { u \<leftarrow> mark nifiID revisionVersion; ret (no_result, u) }
      else ret (no_result, None)) }"

definition update_in_place ::
  "('sp, 'e) kind \<Rightarrow> ('sp, 'st, 'e) renv \<Rightarrow> bool \<Rightarrow> 'e \<Rightarrow> 'e \<Rightarrow> (('sp, 'st) resource \<Rightarrow> string \<Rightarrow> int \<Rightarrow> bool) \<Rightarrow>
   (string \<Rightarrow> int \<Rightarrow> ('sp, 'st, 'e, go_error option) khandler) \<Rightarrow> ('sp, 'st, 'e, outcome) khandler" where
  \<comment> \<open>objects without a run state: \<open>desired\<close> is what an update sends\<close>
  "update_in_place K E needs desired existing matches mark =
     (let nifiID = kd_EntityID K existing;
          settle = settle_ready E matches mark nifiID (kd_Revision K existing) in
      if needs then do {
        r \<leftarrow> k_Update E (kd_Address K nifiID (kd_Revision K existing) desired);
        (case r of
           Inl err \<Rightarrow> report_failed E ''NiFiUpdateFailed'' (failed_to ''update'' K err)
         | Inr updated \<Rightarrow> (case updated of
              Some updated \<Rightarrow> do { u \<leftarrow> mark (kd_EntityID K updated) (kd_Revision K updated); ret (no_result, u) }
            | None \<Rightarrow> settle)) }
      else settle)"

definition write_stopped ::
  "('sp, 'e) kind \<Rightarrow> ('sp, 'st, 'e) renv \<Rightarrow> ('e \<Rightarrow> bool) \<Rightarrow> string \<Rightarrow> string \<Rightarrow> bool \<Rightarrow> 'e \<Rightarrow> 'e \<Rightarrow>
   ('e \<Rightarrow> ('sp, 'st, 'e, outcome) khandler) \<Rightarrow> ('sp, 'st, 'e, outcome) khandler" where
  \<comment> \<open>objects with a run state: a running object is stopped before it is changed\<close>
  "write_stopped K E running verb stop_state needs desired existing continue =
     (let nifiID = kd_EntityID K existing;
          write = (\<lambda>current. do {
            r \<leftarrow> k_Update E (kd_Address K nifiID (kd_Revision K current) desired);
            (case r of
               Inl err \<Rightarrow> report_failed E ''NiFiUpdateFailed'' (failed_to ''update'' K err)
             | Inr updated \<Rightarrow> continue (case updated of Some updated \<Rightarrow> updated | None \<Rightarrow> current)) }) in
      if \<not> needs then continue existing
      else if running existing then do {
        r \<leftarrow> k_SetRunState E nifiID (kd_Revision K existing) stop_state;
        (case r of
           Inl err \<Rightarrow> report_failed E ''NiFiUpdateFailed'' (failed_to verb K err)
         | Inr stopped \<Rightarrow> write (case stopped of Some stopped \<Rightarrow> stopped | None \<Rightarrow> existing)) }
      else write existing)"

section \<open>Deletion\<close>

definition finish :: "('sp, 'st, 'e) renv \<Rightarrow> ('sp, 'st, 'e, outcome) khandler" where
  \<comment> \<open>\<open>_, err = removeFinalizer(...); return ctrl.Result{}, err\<close>\<close>
  "finish E = do { r \<leftarrow> removeFinalizer ob_Finalizers upd_object_finalizers (k_UpdateObject E); ret (no_result, snd r) }"

definition delete_frame :: "('sp, 'e) kind \<Rightarrow> ('sp, 'st, 'e) renv \<Rightarrow> ('sp, 'st, 'e, outcome) khandler \<Rightarrow> ('sp, 'st, 'e, outcome) khandler" where
  "delete_frame K E remove = do {
     instance \<leftarrow> get_obj;
     (if kd_DeletionPolicy K (ob_Spec instance) \<noteq> ''Delete'' \<or> cs_NiFiID (ob_Common instance) = '''' then finish E
      else do {
        c \<leftarrow> clusterForDeletion (k_GetCluster E) (k_Configure E) cl_Ready cl_Deleting (ob_Namespace instance) (kd_ClusterRef K (ob_Spec instance));
        (case c of
           Inl err \<Rightarrow> ret (no_result, Some err)
         | Inr (cluster, gone) \<Rightarrow>
            (if gone then finish E
             else (case cluster of
                None \<Rightarrow> ret (requeue_after 30, None)
              | Some cluster \<Rightarrow> (if clusterEndpoint cluster = '''' then ret (requeue_after 30, None) else remove)))) }) }"

definition delete_tolerant :: "('sp, 'st, 'e) renv \<Rightarrow> string \<Rightarrow> int \<Rightarrow> ('sp, 'st, 'e, outcome) khandler" where
  \<comment> \<open>an object that is already gone counts as deleted\<close>
  "delete_tolerant E nifiID revision = do {
     r \<leftarrow> k_Delete E nifiID revision;
     (case r of
        Some err \<Rightarrow> (if \<not> IsNotFound err then ret (requeue_after 30, Some err) else finish E)
      | None \<Rightarrow> finish E) }"

definition remove_stored :: "('sp, 'e) kind \<Rightarrow> ('sp, 'st, 'e) renv \<Rightarrow> ('sp, 'st, 'e, outcome) khandler" where
  "remove_stored K E = do {
     instance \<leftarrow> get_obj;
     let nifiID = cs_NiFiID (ob_Common instance);
     g \<leftarrow> k_Get E nifiID;
     (case g of
        Inl err \<Rightarrow> (if IsNotFound err then finish E else ret (requeue_after 30, Some err))
      | Inr current \<Rightarrow> delete_tolerant E nifiID
          (case current of Some current \<Rightarrow> kd_Revision K current | None \<Rightarrow> rv_Version (cs_Revision (ob_Common instance)))) }"

definition remove_current :: "('sp, 'e) kind \<Rightarrow> ('sp, 'st, 'e) renv \<Rightarrow> ('e \<Rightarrow> bool) \<Rightarrow> string \<Rightarrow> ('sp, 'st, 'e, outcome) khandler" where
  \<comment> \<open>an object that NiFi no longer returns is not deleted; a running one is stopped first\<close>
  "remove_current K E running stop_state = do {
     instance \<leftarrow> get_obj;
     let nifiID = cs_NiFiID (ob_Common instance);
     g \<leftarrow> k_Get E nifiID;
     (case g of
        Inl err \<Rightarrow> (if \<not> IsNotFound err then ret (requeue_after 30, Some err) else finish E)
      | Inr current \<Rightarrow> (case current of
           None \<Rightarrow> finish E
         | Some current \<Rightarrow>
            (if running current then do {
               r \<leftarrow> k_SetRunState E nifiID (kd_Revision K current) stop_state;
               (case r of
                  Inl err \<Rightarrow> ret (requeue_after 30, Some err)
                | Inr stopped \<Rightarrow> delete_tolerant E nifiID (case stopped of Some stopped \<Rightarrow> kd_Revision K stopped | None \<Rightarrow> kd_Revision K current)) }
             else delete_tolerant E nifiID (kd_Revision K current)))) }"

definition remove_recorded :: "('sp, 'st, 'e) renv \<Rightarrow> ('sp, 'st, 'e, outcome) khandler" where
  \<comment> \<open>users and groups: deleted at the recorded revision\<close>
  "remove_recorded E = do {
     instance \<leftarrow> get_obj;
     delete_tolerant E (cs_NiFiID (ob_Common instance)) (rv_Version (cs_Revision (ob_Common instance))) }"

definition remove_strict :: "('sp, 'st, 'e) renv \<Rightarrow> ('sp, 'st, 'e, outcome) khandler" where
  \<comment> \<open>registry clients: every error is an error\<close>
  "remove_strict E = do {
     instance \<leftarrow> get_obj;
     r \<leftarrow> k_Delete E (cs_NiFiID (ob_Common instance)) (rv_Version (cs_Revision (ob_Common instance)));
     (case r of Some err \<Rightarrow> ret (requeue_after 30, Some err) | None \<Rightarrow> finish E) }"

end
