(* ===== verification/Component_Laws.thy ===== *)
theory Component_Laws
  imports Component_Frame
begin

text \<open>
  Laws of the shared reconcile code. A law is a predicate on a call and the log before it;
  \<open>keeps\<close> says that every call a handler makes obeys it, and \<open>keeps_when\<close> does so for runs that start
  with a given log property, such as what NiFi last answered. Each frame of \<open>Component_Frame\<close> gets one
  rule, and the controllers of all kinds are checked with these rules.
\<close>

section \<open>Laws of a call log\<close>

definition lawful :: "('c list \<Rightarrow> 'c \<Rightarrow> bool) \<Rightarrow> 'c list \<Rightarrow> 'c list \<Rightarrow> bool" where
  \<comment> \<open>\<open>log'\<close> extends \<open>log\<close>, and every added call obeys the law at its place\<close>
  "lawful P log log' \<longleftrightarrow> (\<exists>zs. log' = log @ zs \<and> (\<forall>k < length zs. P (log @ take k zs) (zs ! k)))"

lemma lawful_refl [simp, intro]: "lawful P log log"
  by (simp add: lawful_def)

lemma lawful_snoc: "lawful P log log' \<Longrightarrow> P log' c \<Longrightarrow> lawful P log (log' @ [c])"
  unfolding lawful_def by (fastforce simp: nth_append less_Suc_eq)

lemma lawful_single [simp]: "lawful P log (log @ [c]) = P log c"
  by (auto simp: lawful_def)

lemma lawful_trans:
  assumes "lawful P a b" "lawful P b c" shows "lawful P a c"
proof -
  obtain xs where xs: "b = a @ xs" "\<forall>k < length xs. P (a @ take k xs) (xs ! k)"
    using assms(1) by (auto simp: lawful_def)
  obtain ys where ys: "c = b @ ys" "\<forall>k < length ys. P (b @ take k ys) (ys ! k)"
    using assms(2) by (auto simp: lawful_def)
  have "P (a @ take k (xs @ ys)) ((xs @ ys) ! k)" if k: "k < length (xs @ ys)" for k
  proof (cases "k < length xs")
    case False
    then have "k - length xs < length ys" using k by simp
    with ys(2) have "P (b @ take (k - length xs) ys) (ys ! (k - length xs))" by blast
    with False show ?thesis by (simp add: xs(1) nth_append)
  qed (use xs(2) in \<open>simp add: nth_append\<close>)
  then show ?thesis by (auto simp: lawful_def xs(1) ys(1))
qed

lemma lawful_extends: "lawful P log log' \<Longrightarrow> \<exists>zs. log' = log @ zs"
  by (auto simp: lawful_def)

lemma lawful_at:
  assumes "lawful P log (log @ pre @ c # post)" shows "P (log @ pre) c"
  using assms unfolding lawful_def
  by (auto dest!: spec [of _ "length pre"] simp: nth_append)

lemma lawful_mono: "lawful P log log' \<Longrightarrow> (\<And>l c. P l c \<Longrightarrow> Q l c) \<Longrightarrow> lawful Q log log'"
  by (auto simp: lawful_def)

lemma lawful_conj: "lawful P log log' \<Longrightarrow> lawful Q log log' \<Longrightarrow> lawful (\<lambda>l c. P l c \<and> Q l c) log log'"
  by (auto simp: lawful_def)

section \<open>Handlers that keep a law\<close>

definition keeps_when :: "('c list \<Rightarrow> 'c \<Rightarrow> bool) \<Rightarrow> ('c list \<Rightarrow> bool) \<Rightarrow> ('c, 'o, 'a) handler \<Rightarrow> bool" where
  "keeps_when P I m \<longleftrightarrow> (\<forall>s. I (calls s) \<longrightarrow> wp m (\<lambda>_ s'. lawful P (calls s) (calls s')) s)"

abbreviation keeps :: "('c list \<Rightarrow> 'c \<Rightarrow> bool) \<Rightarrow> ('c, 'o, 'a) handler \<Rightarrow> bool" where
  "keeps P m \<equiv> keeps_when P (\<lambda>_. True) m"

named_theorems keeps_intros "one rule per construct of a handler"

lemma keeps_whenI: "(\<And>s. I (calls s) \<Longrightarrow> wp m (\<lambda>_ s'. lawful P (calls s) (calls s')) s) \<Longrightarrow> keeps_when P I m"
  by (simp add: keeps_when_def)

lemma keeps_whenD: "keeps_when P I m \<Longrightarrow> calls s = log \<Longrightarrow> I log \<Longrightarrow> wp m (\<lambda>_ s'. lawful P log (calls s')) s"
  by (auto simp: keeps_when_def)

lemma keeps_weaken: "keeps_when P I m \<Longrightarrow> (\<And>log. J log \<Longrightarrow> I log) \<Longrightarrow> keeps_when P J m"
  by (simp add: keeps_when_def)

lemma keeps_then:
  fixes m :: "('c, 'o, 'a) handler"
  assumes "keeps_when P I m" "\<And>a. keeps P (f a)" shows "keeps_when P I (State_Monad.bind m f)"
proof (rule keeps_whenI)
  fix s :: "('c, 'o) rstate" assume "I (calls s)"
  with assms(1) have "wp m (\<lambda>a s'. lawful P (calls s) (calls s')) s" by (simp add: keeps_when_def)
  then show "wp (State_Monad.bind m f) (\<lambda>_ s'. lawful P (calls s) (calls s')) s"
    by (rule wp_bindI [OF wp_mono]) (rule wp_mono [OF keeps_whenD [OF assms(2) refl TrueI]], rule lawful_trans)
qed

lemmas keeps_bind [keeps_intros] = keeps_then [where I = "\<lambda>_. True"]

lemma keeps_call_bind:
  \<comment> \<open>a call, and what is known of the log after it\<close>
  fixes f :: "'r \<Rightarrow> ('c, 'o, 'a) handler"
  assumes "\<And>log. I log \<Longrightarrow> P log c" "\<And>r. keeps_when P (\<lambda>l. \<exists>log. l = log @ [c] \<and> I log \<and> r = resp log) (f r)"
  shows "keeps_when P I (State_Monad.bind (ext_call c resp) f)"
  unfolding keeps_when_def
proof (intro allI impI)
  fix s :: "('c, 'o) rstate" assume i: "I (calls s)"
  let ?s = "s\<lparr>calls := calls s @ [c]\<rparr>"
  have "wp (f (resp (calls s))) (\<lambda>_ s'. lawful P (calls ?s) (calls s')) ?s"
    by (rule keeps_whenD [OF assms(2) refl]) (use i in auto)
  then have "wp (f (resp (calls s))) (\<lambda>_ s'. lawful P (calls s) (calls s')) ?s"
    by (rule wp_mono) (use assms(1) [OF i] in \<open>auto intro: lawful_trans [OF _, of _ _ "calls s @ [c]"]\<close>)
  then show "wp (State_Monad.bind (ext_call c resp) f) (\<lambda>_ s'. lawful P (calls s) (calls s')) s"
    by (intro wp_bindI wp_ext_callI)
qed

lemma keeps_get_bind: "(\<And>d. keeps_when P I (f d)) \<Longrightarrow> keeps_when P I (State_Monad.bind get_obj f)"
  unfolding keeps_when_def by (auto intro!: wp_bindI wp_get_objI)

lemma keeps_upd_bind: "keeps_when P I (f ()) \<Longrightarrow> keeps_when P I (State_Monad.bind (upd_obj g) f)"
  by (rule keeps_whenI) (auto intro!: wp_bindI wp_upd_objI elim: keeps_whenD)

lemma keeps_ret [keeps_intros]: "keeps_when P I (ret a)"
  by (simp add: keeps_when_def wp_simps)

lemma keeps_ext_call [keeps_intros]: "(\<And>log. P log c) \<Longrightarrow> keeps P (ext_call c r)"
  by (simp add: keeps_when_def wp_simps)

lemma keeps_get_obj [keeps_intros]: "keeps P get_obj"
  by (simp add: keeps_when_def wp_simps)

lemma keeps_upd_obj [keeps_intros]: "keeps P (upd_obj f)"
  by (simp add: keeps_when_def wp_simps)

lemma keeps_read_clock [keeps_intros]: "keeps P (read_clock clk)"
  by (simp add: keeps_when_def wp_simps)

lemma keeps_range [keeps_intros]: "keeps P (k_range E ks)"
  by (simp add: keeps_when_def wp_def k_range_def)

lemma keeps_if [keeps_intros]: "(b \<Longrightarrow> keeps_when P I m) \<Longrightarrow> (\<not> b \<Longrightarrow> keeps_when P I n) \<Longrightarrow> keeps_when P I (if b then m else n)"
  by simp

lemma keeps_Let [keeps_intros]: "keeps_when P I (f t) \<Longrightarrow> keeps_when P I (Let t f)"
  by simp

lemma keeps_case_option [keeps_intros]:
  "(x = None \<Longrightarrow> keeps_when P I m) \<Longrightarrow> (\<And>y. x = Some y \<Longrightarrow> keeps_when P I (f y)) \<Longrightarrow> keeps_when P I (case x of None \<Rightarrow> m | Some y \<Rightarrow> f y)"
  by (simp split: option.split)

lemma keeps_case_sum [keeps_intros]:
  "(\<And>e. x = Inl e \<Longrightarrow> keeps_when P I (f e)) \<Longrightarrow> (\<And>y. x = Inr y \<Longrightarrow> keeps_when P I (g y)) \<Longrightarrow>
   keeps_when P I (case x of Inl e \<Rightarrow> f e | Inr y \<Rightarrow> g y)"
  by (simp split: sum.split)

lemma keeps_case_prod [keeps_intros]: "(\<And>a b. x = (a, b) \<Longrightarrow> keeps_when P I (f a b)) \<Longrightarrow> keeps_when P I (case x of (a, b) \<Rightarrow> f a b)"
  by (simp split: prod.split)

lemma wp_lawful_bind:
  assumes "keeps P m" "wp m R s" "\<And>a s1. R a s1 \<Longrightarrow> wp (f a) (\<lambda>_ s'. lawful P (calls s1) (calls s')) s1"
  shows "wp (State_Monad.bind m f) (\<lambda>_ s'. lawful P (calls s) (calls s')) s"
proof (rule wp_bindI, rule wp_mono)
  show "wp m (\<lambda>a s1. lawful P (calls s) (calls s1) \<and> R a s1) s"
    by (rule wp_conj [OF keeps_whenD [OF assms(1) refl TrueI] assms(2)])
next
  fix a s1 assume "lawful P (calls s) (calls s1) \<and> R a s1"
  with assms(3) [of a s1] show "wp (f a) (\<lambda>_ s'. lawful P (calls s) (calls s')) s1"
    by (auto elim!: wp_mono intro: lawful_trans)
qed

section \<open>What NiFi answered\<close>

fun reply :: "('o, 'e) kenv \<Rightarrow> ('o, 'e) kcall list \<Rightarrow> ('o, 'e) kcall \<Rightarrow> 'e list" where
  \<comment> \<open>the entities in the answer to a call\<close>
  "reply E log (KGet i) = (case ke_Get E i log of Inr (Some e) \<Rightarrow> [e] | _ \<Rightarrow> [])"
| "reply E log (KCreate p e) = (case ke_Create E p e log of Inr (Some e) \<Rightarrow> [e] | _ \<Rightarrow> [])"
| "reply E log (KUpdate e) = (case ke_Update E e log of Inr (Some e) \<Rightarrow> [e] | _ \<Rightarrow> [])"
| "reply E log (KSetRunState i v st) = (case ke_SetRunState E i v st log of Inr (Some e) \<Rightarrow> [e] | _ \<Rightarrow> [])"
| "reply E log (KFind a r) = (case ke_Find E a r log of Inr (Some e) \<Rightarrow> [e] | _ \<Rightarrow> [])"
| "reply E log (KListIn p) = (case ke_ListIn E p log of Inr es \<Rightarrow> es | _ \<Rightarrow> [])"
| "reply E log KList = (case ke_List E log of Inr es \<Rightarrow> es | _ \<Rightarrow> [])"
| "reply E log _ = []"

fun heard_before :: "('o, 'e) kenv \<Rightarrow> ('o, 'e) kcall list \<Rightarrow> 'e list" where
  "heard_before E [] = []"
| "heard_before E (c # earlier) = (let es = reply E (rev earlier) c in if es = [] then heard_before E earlier else es)"

definition heard :: "('o, 'e) kenv \<Rightarrow> ('o, 'e) kcall list \<Rightarrow> 'e list" where
  \<comment> \<open>the entities of the last answer that had any\<close>
  "heard E log = heard_before E (rev log)"

lemma heard_snoc: "heard E (log @ [c]) = (let es = reply E log c in if es = [] then heard E log else es)"
  by (simp add: heard_def Let_def)

definition nifi_write :: "('o, 'e) kcall \<Rightarrow> bool" where
  "nifi_write c = (case c of KCreate _ _ \<Rightarrow> True | KUpdate _ \<Rightarrow> True | KSetRunState _ _ _ \<Rightarrow> True | KDelete _ _ \<Rightarrow> True
     | KCreateUpdateRequest _ _ \<Rightarrow> True | KUpdatePort _ _ _ \<Rightarrow> True | KSetPortState _ _ _ _ _ \<Rightarrow> True | _ \<Rightarrow> False)"

lemma nifi_write_simps [simp]:
  "nifi_write (KCreate p e)" "nifi_write (KUpdate e)" "nifi_write (KSetRunState i v st)" "nifi_write (KDelete i v)"
  "nifi_write (KCreateUpdateRequest i e)" "nifi_write (KUpdatePort b g pe)" "nifi_write (KSetPortState b g i v st)"
  "\<not> nifi_write (KListIn p)" "\<not> nifi_write (KEvent reason message)" "\<not> nifi_write (KGet i)" "\<not> nifi_write KList" "\<not> nifi_write (KFind a r)"
  "\<not> nifi_write (KGetUpdateRequest i r)" "\<not> nifi_write (KStatusUpdate d)" "\<not> nifi_write (KUpdateObject d)" "\<not> nifi_write KGetObject"
  "\<not> nifi_write (KGetCluster ns n)" "\<not> nifi_write (KConfigureClusterHTTPClient c)" "\<not> nifi_write (KGetParameterContext ns n)"
  "\<not> nifi_write (KGetProcessGroupObject ns n)" "\<not> nifi_write (KGetConnectable k ns n)" "\<not> nifi_write (KGetRemoteProcessGroup ns n)"
  "\<not> nifi_write (KGetTenant k ns n)" "\<not> nifi_write (KGetSecret ns n)"
  by (simp_all add: nifi_write_def)

section \<open>Laws on writes\<close>

text \<open>A law that restricts the writes to NiFi only is kept by all the shared code in between.\<close>

locale law_on_writes =
  fixes P :: "(('sp, 'st) resource, 'e) kcall list \<Rightarrow> (('sp, 'st) resource, 'e) kcall \<Rightarrow> bool"
  assumes reads_are_free: "\<not> nifi_write c \<Longrightarrow> P log c"
begin

lemma keeps_calls:
  "keeps P (k_now E)" "keeps P (k_Get E i)" "keeps P (k_List E)" "keeps P (k_ListIn E p)" "keeps P (k_event reason message)" "keeps P (k_Find E a r)" "keeps P (k_GetUpdateRequest E i r)"
  "keeps P (k_GetObject E)" "keeps P (k_GetCluster E ns n)" "keeps P (k_Configure E c)" "keeps P (k_GetParameterContext E ns n)"
  "keeps P (k_GetProcessGroupObject E ns n)" "keeps P (k_GetConnectable E k ns n)" "keeps P (k_GetRemoteProcessGroup E ns n)"
  "keeps P (k_GetTenant E k ns n)" "keeps P (k_GetSecret E ns n)" "keeps P (k_StatusUpdate E)" "keeps P (k_UpdateObject E)"
  unfolding k_call_defs by (intro keeps_intros reads_are_free; simp)+

lemma keeps_reports:
  "keeps P (mark_resource_not_ready E reason message)" "keeps P (mark_waiting E w)" "keeps P (mark_ready E reason message i v f)"
  "keeps P (report_not_ready E reason message r1 r2)" "keeps P (report_waiting E w)" "keeps P (finish E)"
  unfolding mark_resource_not_ready_def mark_waiting_def mark_ready_def report_not_ready_def report_waiting_def finish_def removeFinalizer_def
  by (intro keeps_intros keeps_calls)+

lemma keeps_settle_ready: "(\<And>i v. keeps P (mark i v)) \<Longrightarrow> keeps P (settle_ready E matches mark i v)"
  unfolding settle_ready_def by (intro keeps_intros)

lemma keeps_with_ready_cluster:
  "keeps P reconcileDelete \<Longrightarrow> keeps P dependencies \<Longrightarrow> (\<And>c. keeps P (continue c)) \<Longrightarrow>
   keeps P (with_ready_cluster K E reconcileDelete dependencies continue)"
  unfolding with_ready_cluster_def ensureFinalizer_def readyClusterForReference_def clusterDependency_def
  by (intro keeps_intros keeps_calls keeps_reports)

lemma keeps_with_endpoint: "keeps P continue \<Longrightarrow> keeps P (with_endpoint E cluster continue)"
  unfolding with_endpoint_def by (intro keeps_intros keeps_reports)

lemma keeps_with_parent: "(\<And>p. keeps P (continue p)) \<Longrightarrow> keeps P (with_parent E cluster ref continue)"
  unfolding with_parent_def processGroupParentID_def by (intro keeps_intros keeps_calls keeps_reports)

lemma keeps_with_desired: "keeps P desired \<Longrightarrow> (\<And>e. keeps P (continue e)) \<Longrightarrow> keeps P (with_desired E desired continue)"
  unfolding with_desired_def by (intro keeps_intros keeps_reports)

lemma keeps_resolve_secret: "keeps P (resolveSecretKey E namespace ref)"
  unfolding resolveSecretKey_def by (intro keeps_intros keeps_calls)

lemma keeps_resolve_each: "keeps P (resolve_each E namespace sources keys properties w)"
  by (induction keys arbitrary: properties w) (auto intro!: keeps_intros keeps_resolve_secret split: option.split)

lemma keeps_resolve_sensitive: "keeps P (resolve_sensitive E namespace sources properties w)"
  unfolding resolve_sensitive_def by (intro keeps_intros keeps_resolve_each)

lemma keeps_dependencies:
  "keeps P (processGroupReferenceDependencyWaitingFor (k_GetProcessGroupObject E) namespace pref)"
  "keeps P (parameterContextDependencyWaitingFor (k_GetParameterContext E) namespace cref path)"
  unfolding processGroupReferenceDependencyWaitingFor_def parameterContextDependencyWaitingFor_def
  by (intro keeps_intros keeps_calls)+

lemma keeps_delete_frame: "keeps P remove \<Longrightarrow> keeps P (delete_frame K E remove)"
  unfolding delete_frame_def clusterForDeletion_def by (intro keeps_intros keeps_calls keeps_reports)

lemmas keeps_shared = keeps_calls keeps_reports keeps_settle_ready keeps_with_ready_cluster keeps_with_endpoint keeps_with_parent
  keeps_with_desired keeps_resolve_secret keeps_resolve_sensitive keeps_dependencies keeps_delete_frame

end

section \<open>Following the object through a run\<close>

definition knows :: "('o, 'e) kenv \<Rightarrow> 'e \<Rightarrow> ('o, 'e) kcall list \<Rightarrow> bool" where
  \<comment> \<open>\<open>e\<close> is in NiFi's last answer\<close>
  "knows E e log \<longleftrightarrow> e \<in> set (heard E log)"

definition just_stopped :: "string \<Rightarrow> ('o, 'e) kenv \<Rightarrow> ('o, 'e) kcall list \<Rightarrow> bool" where
  \<comment> \<open>the last call stopped the object, and NiFi agreed\<close>
  "just_stopped stop E log \<longleftrightarrow> (case rev log of KSetRunState i v st # earlier \<Rightarrow> st = stop \<and> \<not> isl (ke_SetRunState E i v st (rev earlier)) | _ \<Rightarrow> False)"

lemma just_stopped_snoc [simp]:
  "just_stopped stop E (log @ [KSetRunState i v st]) \<longleftrightarrow> st = stop \<and> \<not> isl (ke_SetRunState E i v st log)"
  by (simp add: just_stopped_def)

lemma knows_reply: "e \<in> set (reply E log c) \<Longrightarrow> knows E e (log @ [c])"
  by (auto simp: knows_def heard_snoc Let_def)

lemma knows_silent: "reply E log c = [] \<Longrightarrow> knows E e log \<Longrightarrow> knows E e (log @ [c])"
  by (simp add: knows_def heard_snoc)

lemma keeps_knowing:
  \<comment> \<open>the common case of \<open>keeps_call_bind\<close>: the continuation needs to know the answered entity, or the one known before\<close>
  assumes "\<And>log. I log \<Longrightarrow> P log c"
    and "\<And>err. keeps P (f (Inl err))"
    and "\<And>e. keeps_when P (\<lambda>l. knows E e l \<and> (\<exists>log. l = log @ [c] \<and> I log \<and> resp log = Inr (Some e))) (f (Inr (Some e)))"
    and "keeps_when P (\<lambda>l. \<exists>log. l = log @ [c] \<and> I log \<and> resp log = Inr None \<and> (\<forall>e. knows E e log \<longrightarrow> knows E e l)) (f (Inr None))"
    and "\<And>log. reply E log c = (case resp log of Inr (Some e) \<Rightarrow> [e] | _ \<Rightarrow> [])"
  shows "keeps_when P I (State_Monad.bind (ext_call c resp) f)"
proof (rule keeps_call_bind)
  show "P log c" if "I log" for log using that by (rule assms(1))
next
  fix r
  show "keeps_when P (\<lambda>l. \<exists>log. l = log @ [c] \<and> I log \<and> r = resp log) (f r)"
  proof (cases r)
    case (Inl err)
    then show ?thesis by (simp add: keeps_weaken [OF assms(2)])
  next
    case (Inr o')
    show ?thesis
    proof (cases o')
      case None
      show ?thesis unfolding Inr None
        by (rule keeps_weaken [OF assms(4)]) (auto simp: assms(5) eq_commute [of "Inr None"] intro!: knows_silent)
    next
      case (Some e)
      show ?thesis unfolding Inr Some
        by (rule keeps_weaken [OF assms(3)]) (auto simp: assms(5) eq_commute [of "Inr (Some e)"] intro!: knows_reply)
    qed
  qed
qed

lemma knows_weaken: "keeps_when P (knows E e) m \<Longrightarrow> (\<And>log. J log \<Longrightarrow> knows E e log) \<Longrightarrow> keeps_when P J m"
  by (rule keeps_weaken)

context law_on_writes
begin

lemma keeps_create_component:
  assumes "\<And>log. P log (KCreate parentID entity)" "\<And>e. keeps_when P (knows E e) (created_path e)"
  shows "keeps P (create_component K E parentID entity created_path)"
  unfolding create_component_def k_Create_def
  by (rule keeps_knowing [where E = E]) (auto intro: assms keeps_reports knows_weaken [OF assms(2)] keeps_weaken [OF keeps_reports(4)])

lemma keeps_read:
  \<comment> \<open>an object is read and worked on; other answers need no knowledge\<close>
  assumes "\<And>err. keeps P (f (Inl err))" "keeps P (f (Inr None))" "\<And>e. keeps_when P (knows E e) (f (Inr (Some e)))"
  shows "keeps P (State_Monad.bind (k_Get E i) f)"
  unfolding k_Get_def
  by (rule keeps_knowing [where E = E])
     (auto intro: assms(1) reads_are_free keeps_weaken [OF assms(2)] knows_weaken [OF assms(3)])

lemma keeps_find_or_create:
  assumes "\<And>log. P log (KCreate parentID entity)" "\<And>e. keeps_when P (knows E e) (created_path e)"
    "keeps P (existing_path None)" "\<And>e. keeps_when P (knows E e) (existing_path (Some e))"
  shows "keeps P (find_or_create K E parentID entity existing_path created_path)"
  unfolding find_or_create_def
  by (intro keeps_get_bind keeps_if keeps_case_option keeps_read keeps_create_component)
     (use assms in \<open>auto intro: keeps_reports\<close>)

lemma keeps_find_or_recreate:
  assumes "\<And>log. P log (KCreate '''' entity)" "\<And>e. keeps_when P (knows E e) (existing_path e)"
  shows "keeps P (find_or_recreate K E entity existing_path)"
proof -
  have c: "keeps P (create_component K E '''' entity existing_path)"
    by (rule keeps_create_component) (use assms in auto)
  have a: "keeps P (case kd_AdoptID K spec of None \<Rightarrow> create_component K E '''' entity existing_path
      | Some i \<Rightarrow> State_Monad.bind (k_Get E i) (\<lambda>g. case g of Inl err \<Rightarrow> report_failed E ''AdoptionFailed'' (failed_to ''adopt'' K err)
         | Inr existing \<Rightarrow> (case existing of Some existing \<Rightarrow> existing_path existing | None \<Rightarrow> create_component K E '''' entity existing_path)))" for spec
    by (intro keeps_case_option keeps_read c) (auto intro: assms keeps_reports c)
  show ?thesis
    unfolding find_or_recreate_def Let_def
    by (intro keeps_get_bind keeps_if keeps_read a) (auto intro: assms keeps_reports a [unfolded Let_def])
qed

lemma keeps_update_in_place:
  assumes "\<And>log. needs \<Longrightarrow> knows E existing log \<Longrightarrow> P log (KUpdate (kd_Address K (kd_EntityID K existing) (kd_Revision K existing) desired))"
    and "\<And>i v. keeps P (mark i v)"
  shows "keeps_when P (knows E existing) (update_in_place K E needs desired existing matches mark)"
proof -
  have m: "keeps_when P I (State_Monad.bind (mark i v) (\<lambda>u. ret (no_result, u)))" for I i v
    by (rule keeps_weaken [where I = "\<lambda>_. True"]) (intro keeps_intros assms(2), simp)
  have r: "keeps_when P I (settle_ready E matches mark i v)" for I i v
    by (rule keeps_weaken [OF keeps_settle_ready]) (simp_all add: assms(2))
  have f: "keeps_when P I (report_failed E reason message)" for I reason message
    by (rule keeps_weaken [OF keeps_reports(4)]) simp
  show ?thesis
    unfolding update_in_place_def Let_def k_Update_def
    by (intro keeps_if keeps_knowing [where E = E] r) (auto intro: assms(1) m r f)
qed

lemma keeps_write_stopped:
  assumes stp: "\<And>log. needs \<Longrightarrow> running existing \<Longrightarrow> knows E existing log \<Longrightarrow> P log (KSetRunState (kd_EntityID K existing) (kd_Revision K existing) stop_state)"
    and wrt: "\<And>log current. needs \<Longrightarrow> knows E current log \<Longrightarrow> running current \<longrightarrow> just_stopped stop_state E log \<Longrightarrow>
      P log (KUpdate (kd_Address K (kd_EntityID K existing) (kd_Revision K current) desired))"
    and cont: "\<And>current. keeps_when P (knows E current) (continue current)"
  shows "keeps_when P (knows E existing) (write_stopped K E running verb stop_state needs desired existing continue)"
proof -
  have f: "keeps_when P I (report_failed E reason message)" for I reason message
    by (rule keeps_weaken [OF keeps_reports(4)]) simp
  have w: "keeps_when P (\<lambda>log. knows E current log \<and> (running current \<longrightarrow> just_stopped stop_state E log))
      (State_Monad.bind (k_Update E (kd_Address K (kd_EntityID K existing) (kd_Revision K current) desired)) (\<lambda>r. case r of
         Inl err \<Rightarrow> report_failed E ''NiFiUpdateFailed'' (failed_to ''update'' K err)
       | Inr updated \<Rightarrow> continue (case updated of Some updated \<Rightarrow> updated | None \<Rightarrow> current)))" if needs for current
    unfolding k_Update_def
    by (rule keeps_knowing [where E = E])
       (auto intro: wrt [OF that] f knows_weaken [OF cont])
  show ?thesis
    unfolding write_stopped_def Let_def k_SetRunState_def
    by (intro keeps_if keeps_knowing [where E = E] cont)
       (auto intro: stp f keeps_weaken [OF w] cong: option.case_cong)
qed

end

section \<open>Deletions\<close>

definition read_nothing :: "('o, 'e) kenv \<Rightarrow> ('o, 'e) kcall list \<Rightarrow> bool" where
  \<comment> \<open>the last call asked for an object and NiFi answered without one\<close>
  "read_nothing E log \<longleftrightarrow> (case rev log of KGet i # earlier \<Rightarrow> ke_Get E i (rev earlier) = Inr None | _ \<Rightarrow> False)"

context law_on_writes
begin

lemma keeps_finish: "keeps_when P I (finish E)"
  by (rule keeps_weaken [OF keeps_reports(6)]) simp

lemma keeps_delete_tolerant:
  assumes "\<And>log. I log \<Longrightarrow> P log (KDelete i v)" shows "keeps_when P I (delete_tolerant E i v)"
  unfolding delete_tolerant_def k_Delete_def
  by (rule keeps_call_bind) (auto intro!: keeps_case_option keeps_if keeps_ret keeps_finish intro: assms)

lemma keeps_remove_stored:
  assumes "\<And>log i v. read_nothing E log \<Longrightarrow> P log (KDelete i v)" "\<And>log i e. knows E e log \<Longrightarrow> P log (KDelete i (kd_Revision K e))"
  shows "keeps P (remove_stored K E)"
proof -
  have r: "read_nothing E (log @ [KGet i])" if "ke_Get E i log = Inr None" for log i using that by (simp add: read_nothing_def)
  show ?thesis
    unfolding remove_stored_def Let_def k_Get_def
    by (intro keeps_get_bind keeps_knowing [where E = E])
       (auto intro!: keeps_if keeps_ret keeps_finish keeps_delete_tolerant intro: reads_are_free assms r)
qed

lemma keeps_remove_current:
  assumes stp: "\<And>log i e. knows E e log \<Longrightarrow> running e \<Longrightarrow> P log (KSetRunState i (kd_Revision K e) stop_state)"
    and del: "\<And>log i e. knows E e log \<Longrightarrow> running e \<longrightarrow> just_stopped stop_state E log \<Longrightarrow> P log (KDelete i (kd_Revision K e))"
  shows "keeps P (remove_current K E running stop_state)"
proof -
  have s: "keeps_when P (knows E e) (State_Monad.bind (k_SetRunState E i (kd_Revision K e) stop_state) (\<lambda>r. case r of
         Inl err \<Rightarrow> ret (requeue_after 30, Some err)
       | Inr stopped \<Rightarrow> delete_tolerant E i (case stopped of Some stopped \<Rightarrow> kd_Revision K stopped | None \<Rightarrow> kd_Revision K e)))"
    if "running e" for e i
    unfolding k_SetRunState_def
    by (rule keeps_knowing [where E = E]) (auto intro!: keeps_ret keeps_delete_tolerant intro: stp that del)
  show ?thesis
    unfolding remove_current_def Let_def
    by (intro keeps_get_bind keeps_read) (auto intro!: keeps_ret keeps_finish keeps_delete_tolerant s intro: del)
qed

end

section \<open>Revisions and run states\<close>

text \<open>
  \<open>write_law\<close>: an update carries the revision of NiFi's last answer, and a running object is changed only
  right after NiFi agreed to stop it; a run-state change carries that revision too and starts only an object that
  is fit to start. \<open>delete_law\<close> is the same for deletions.
\<close>

record 'e run_rules =
  rr_Running :: "'e \<Rightarrow> bool"
  rr_Stop :: string
  rr_Start :: string
  rr_Startable :: "'e \<Rightarrow> bool"

definition no_run_state :: "'e run_rules" where
  "no_run_state = \<lparr>rr_Running = (\<lambda>_. False), rr_Stop = '''', rr_Start = '''', rr_Startable = (\<lambda>_. True)\<rparr>"

lemma never_running [simp]: "\<not> rr_Running no_run_state e"
  by (simp add: no_run_state_def)

definition write_law :: "('sp, 'e) kind \<Rightarrow> 'e run_rules \<Rightarrow> ('o, 'e) kenv \<Rightarrow> ('o, 'e) kcall list \<Rightarrow> ('o, 'e) kcall \<Rightarrow> bool" where
  "write_law K R E log c = (case c of
      KUpdate e \<Rightarrow> \<exists>current \<in> set (heard E log). kd_Revision K e = kd_Revision K current \<and> (rr_Running R current \<longrightarrow> just_stopped (rr_Stop R) E log)
    | KSetRunState i v st \<Rightarrow> \<exists>current \<in> set (heard E log). v = kd_Revision K current \<and> (st = rr_Start R \<longrightarrow> rr_Startable R current)
    | KCreateUpdateRequest i e \<Rightarrow> \<exists>current \<in> set (heard E log). kd_Revision K e = kd_Revision K current
    | _ \<Rightarrow> True)"

definition delete_law :: "('sp, 'e) kind \<Rightarrow> 'e run_rules \<Rightarrow> ('o, 'e) kenv \<Rightarrow> ('o, 'e) kcall list \<Rightarrow> ('o, 'e) kcall \<Rightarrow> bool" where
  "delete_law K R E log c = (case c of
      KDelete i v \<Rightarrow> read_nothing E log \<or>
        (\<exists>current \<in> set (heard E log). v = kd_Revision K current \<and> (rr_Running R current \<longrightarrow> just_stopped (rr_Stop R) E log))
    | _ \<Rightarrow> True)"

interpretation writes: law_on_writes "write_law K R E" for K R E
  by unfold_locales (auto simp: write_law_def nifi_write_def split: kcall.splits)

interpretation deletes: law_on_writes "delete_law K R E" for K R E
  by unfold_locales (auto simp: delete_law_def nifi_write_def split: kcall.splits)

text \<open>What a kind has to provide: an update carries the revision and the id that it was addressed with.\<close>

locale addressed =
  fixes K :: "('sp, 'e) kind"
  assumes revision_address: "kd_Revision K (kd_Address K i v e) = v"
    and id_address: "i \<noteq> '''' \<Longrightarrow> kd_EntityID K (kd_Address K i v e) = i"
begin

lemma update_lawful:
  "knows E current log \<Longrightarrow> rr_Running R current \<longrightarrow> just_stopped (rr_Stop R) E log \<Longrightarrow>
   write_law K R E log (KUpdate (kd_Address K i (kd_Revision K current) desired))"
  by (auto simp: write_law_def knows_def revision_address)

lemma state_lawful:
  "knows E current log \<Longrightarrow> (st = rr_Start R \<Longrightarrow> rr_Startable R current) \<Longrightarrow> write_law K R E log (KSetRunState i (kd_Revision K current) st)"
  by (auto simp: write_law_def knows_def)

lemma updates_in_place:
  assumes "\<not> rr_Running R existing" "\<And>i v. keeps (write_law K R E) (mark i v)"
  shows "keeps_when (write_law K R E) (knows E existing) (update_in_place K E needs desired existing matches mark)"
  by (rule writes.keeps_update_in_place) (use assms in \<open>auto intro: update_lawful\<close>)

lemma writes_stopped:
  assumes "rr_Stop R \<noteq> rr_Start R" "\<And>current. keeps_when (write_law K R E) (knows E current) (continue current)"
  shows "keeps_when (write_law K R E) (knows E existing)
    (write_stopped K E (rr_Running R) verb (rr_Stop R) needs desired existing continue)"
  by (rule writes.keeps_write_stopped) (use assms in \<open>auto intro: update_lawful state_lawful\<close>)

lemma removes_stored: "keeps (write_law K R E) (remove_stored K E)"
  by (rule writes.keeps_remove_stored) (simp_all add: write_law_def)

lemma removes_current: "rr_Stop R \<noteq> rr_Start R \<or> (\<forall>e. \<not> running e) \<Longrightarrow> keeps (write_law K R E) (remove_current K E running (rr_Stop R))"
  by (rule writes.keeps_remove_current) (auto simp: write_law_def knows_def)

lemma creates_freely: "write_law K R E log (KCreate p e)"
  by (simp add: write_law_def)

end

end
