(* ===== verification/Component_Sample.thy ===== *)
theory Component_Sample
  imports Component_Frame
begin

text \<open>A concrete cluster, status and environment on which the witnesses of the component theories evaluate the model.\<close>

definition component_cluster :: NiFiCluster where
  "component_cluster = \<lparr>cl_Name = ''nifi'', cl_Namespace = ''ns'', cl_Deleting = False, cl_Ready = True,
     cl_Endpoint = ''https://nifi'', cl_RootProcessGroupID = ''root'', cl_APIURI = None\<rparr>"

definition component_env :: "('o, 'e) kenv" where
  \<comment> \<open>the cluster is ready; NiFi does not know any object and returns nothing else\<close>
  "component_env = \<lparr>ke_Now = (\<lambda>_. 0), ke_Range = (\<lambda>_ ks. ks),
     ke_Get = (\<lambda>_ _. Inl (GoErr NotFound ''not found'')), ke_Create = (\<lambda>_ _ _. Inr None), ke_Update = (\<lambda>_ _. Inr None),
     ke_SetRunState = (\<lambda>_ _ _ _. Inr None), ke_Delete = (\<lambda>_ _ _. Some (GoErr NotFound ''not found'')), ke_List = (\<lambda>_. Inr []), ke_ListIn = (\<lambda>_ _. Inr []),
     ke_UpdatePort = (\<lambda>_ _ _ _. None), ke_SetPortState = (\<lambda>_ _ _ _ _ _. None),
     ke_Find = (\<lambda>_ _ _. Inl (GoErr NotFound ''not found'')), ke_CreateUpdateRequest = (\<lambda>_ _ _. Inr None),
     ke_GetUpdateRequest = (\<lambda>_ _ _. Inr None), ke_StatusUpdate = (\<lambda>_ _. None), ke_UpdateObject = (\<lambda>_ _. None),
     ke_GetObject = (\<lambda>_. Inl (GoErr NotFound ''not found'')), ke_GetCluster = (\<lambda>_ _ _. Inr component_cluster),
     ke_ConfigureClusterHTTPClient = (\<lambda>_ _. None), ke_GetParameterContext = (\<lambda>_ _ _. Inr \<lparr>no_Ready = True, no_NiFiID = ''pc''\<rparr>),
     ke_GetProcessGroupObject = (\<lambda>_ _ _. Inr \<lparr>no_Ready = True, no_NiFiID = ''pg''\<rparr>),
     ke_GetConnectable = (\<lambda>_ _ _ _. Inr \<lparr>co_Ready = True, co_NiFiID = ''c'', co_ParentProcessGroupID = ''pg''\<rparr>),
     ke_GetRemoteProcessGroup = (\<lambda>_ _ _. Inl (GoErr NotFound ''not found'')),
     ke_GetTenant = (\<lambda>_ _ _ _. Inl (GoErr NotFound ''not found'')), ke_GetSecret = (\<lambda>_ _ _. Inr [(''key'', ''value'')])\<rparr>"

definition component_status :: "string \<Rightarrow> int \<Rightarrow> CommonStatus" where
  \<comment> \<open>ready at generation 1, with a recorded object and revision\<close>
  "component_status i v = \<lparr>cs_ObservedGeneration = 1, cs_Ready = True, cs_NiFiID = i, cs_Revision = \<lparr>rv_Version = v, rv_ClientID = ''''\<rparr>,
     cs_Conditions = [], cs_Dependencies = \<lparr>dp_Ready = True, dp_WaitingFor = []\<rparr>,
     cs_Drift = \<lparr>dr_Status = '''', dr_LastDetectedTime = None, dr_Differences = []\<rparr>,
     cs_Sync = \<lparr>sy_LastAttemptTime = None, sy_LastSuccessfulTime = None, sy_LastError = ''''\<rparr>\<rparr>"

definition component_resource :: "CommonStatus \<Rightarrow> 'sp \<Rightarrow> 'st \<Rightarrow> ('sp, 'st) resource" where
  "component_resource c sp st = \<lparr>ob_Name = ''obj'', ob_Namespace = ''ns'', ob_Generation = 1, ob_Deleting = False,
     ob_Finalizers = [NiFiControlFinalizer], ob_Spec = sp, ob_Common = c, ob_Status = st\<rparr>"

definition component_ref :: ClusterReference where
  "component_ref = \<lparr>cr_Name = ''nifi'', cr_Namespace = ''''\<rparr>"

definition start_run :: "'o \<Rightarrow> ('c, 'o) rstate" where
  "start_run d = \<lparr>calls = [], obj = d\<rparr>"

lemma start_run_simps [simp]: "calls (start_run d) = []" "obj (start_run d) = d"
  by (simp_all add: start_run_def)

lemmas component_defs = component_cluster_def component_env_def component_status_def component_resource_def component_ref_def

end
