(* ===== verification/Canvas_Objects.thy ===== *)
theory Canvas_Objects
  imports Component_Frame
begin

text \<open>
  The controllers of the objects on NiFi's canvas (\<open>internal/controller/phase1_controllers.go\<close>): funnels,
  labels, process groups and connections, which are updated in place, and input ports, output ports and
  processors, which have a run state and are stopped before they are changed.
\<close>

section \<open>Kinds\<close>

definition address_entity :: "(string \<Rightarrow> 'c \<Rightarrow> 'c) \<Rightarrow> string \<Rightarrow> int \<Rightarrow> 'c entity \<Rightarrow> 'c entity" where
  "address_entity set_id nifiID version e = e\<lparr>en_ID := nifiID, en_Revision := \<lparr>re_Version = version\<rparr>, en_Component := set_id nifiID (en_Component e)\<rparr>"

definition entity_revision :: "'c entity \<Rightarrow> int" where
  "entity_revision e = re_Version (en_Revision e)"

definition funnel_kind :: "(NiFiFunnelSpec, FunnelEntity) kind" where
  "funnel_kind = \<lparr>kd_Label = ''funnel'', kd_ClusterRef = fus_ClusterRef, kd_DeletionPolicy = fus_DeletionPolicy,
     kd_AdoptID = (\<lambda>_. None), kd_EntityID = funnelEntityID, kd_Revision = entity_revision,
     kd_Address = address_entity (\<lambda>i c. c\<lparr>fuc_ID := i\<rparr>)\<rparr>"

definition label_kind :: "(NiFiLabelSpec, LabelEntity) kind" where
  "label_kind = \<lparr>kd_Label = ''label'', kd_ClusterRef = las_ClusterRef, kd_DeletionPolicy = las_DeletionPolicy,
     kd_AdoptID = (\<lambda>_. None), kd_EntityID = labelEntityID, kd_Revision = entity_revision,
     kd_Address = address_entity (\<lambda>i c. c\<lparr>lac_ID := i\<rparr>)\<rparr>"

definition process_group_kind :: "(NiFiProcessGroupSpec, ProcessGroupEntity) kind" where
  "process_group_kind = \<lparr>kd_Label = ''process group'', kd_ClusterRef = pgs_ClusterRef, kd_DeletionPolicy = pgs_DeletionPolicy,
     kd_AdoptID = adopt_by_id \<circ> pgs_AdoptionPolicy, kd_EntityID = processGroupEntityID, kd_Revision = re_Version \<circ> pg_Revision,
     kd_Address = (\<lambda>i v e. e\<lparr>pg_ID := i, pg_Revision := \<lparr>re_Version = v\<rparr>, pg_Component := (pg_Component e)\<lparr>pgc_ID := i\<rparr>\<rparr>)\<rparr>"

definition connection_kind :: "(NiFiConnectionSpec, ConnectionEntity) kind" where
  "connection_kind = \<lparr>kd_Label = ''connection'', kd_ClusterRef = cos_ClusterRef, kd_DeletionPolicy = cos_DeletionPolicy,
     kd_AdoptID = (\<lambda>_. None), kd_EntityID = connectionEntityID, kd_Revision = re_Version \<circ> ce_Revision,
     kd_Address = (\<lambda>i v e. e\<lparr>ce_ID := i, ce_Revision := \<lparr>re_Version = v\<rparr>, ce_Component := (ce_Component e)\<lparr>cc_ID := i\<rparr>\<rparr>)\<rparr>"

definition port_kind :: "string \<Rightarrow> (NiFiPortSpec, PortEntity) kind" where
  "port_kind label = \<lparr>kd_Label = label, kd_ClusterRef = pts_ClusterRef, kd_DeletionPolicy = pts_DeletionPolicy,
     kd_AdoptID = (\<lambda>_. None), kd_EntityID = portEntityID, kd_Revision = re_Version \<circ> pt_Revision,
     kd_Address = (\<lambda>i v e. e\<lparr>pt_ID := i, pt_Revision := \<lparr>re_Version = v\<rparr>, pt_Component := (pt_Component e)\<lparr>ptc_ID := i\<rparr>\<rparr>)\<rparr>"

definition processor_kind :: "(NiFiProcessorSpec, ProcessorEntity) kind" where
  "processor_kind = \<lparr>kd_Label = ''processor'', kd_ClusterRef = prs_ClusterRef, kd_DeletionPolicy = prs_DeletionPolicy,
     kd_AdoptID = adopt_by_id \<circ> prs_AdoptionPolicy, kd_EntityID = processorEntityID, kd_Revision = entity_revision,
     kd_Address = address_entity (\<lambda>i c. c\<lparr>prc_ID := i\<rparr>)\<rparr>"

lemmas kind_defs = funnel_kind_def label_kind_def process_group_kind_def connection_kind_def port_kind_def processor_kind_def

section \<open>Statuses\<close>

record ParentStatus =
  \<comment> \<open>\<open>NiFiFunnelStatus\<close>, \<open>NiFiLabelStatus\<close>, \<open>NiFiProcessGroupStatus\<close>, \<open>NiFiInputPortStatus\<close> and \<open>NiFiOutputPortStatus\<close>\<close>
  pas_ParentProcessGroupID :: string

record NiFiProcessorStatus =
  pst_ParentProcessGroupID :: string
  pst_ValidationStatus :: string

record NiFiConnectionStatus =
  cst_SourceID :: string
  cst_DestinationID :: string

type_synonym NiFiFunnel = "(NiFiFunnelSpec, ParentStatus) resource"
type_synonym NiFiLabel = "(NiFiLabelSpec, ParentStatus) resource"
type_synonym NiFiProcessGroup = "(NiFiProcessGroupSpec, ParentStatus) resource"
type_synonym NiFiInputPort = "(NiFiPortSpec, ParentStatus) resource"
type_synonym NiFiOutputPort = "(NiFiPortSpec, ParentStatus) resource"
type_synonym NiFiProcessor = "(NiFiProcessorSpec, NiFiProcessorStatus) resource"
type_synonym NiFiConnection = "(NiFiConnectionSpec, NiFiConnectionStatus) resource"

type_synonym 'a funnel_handler = "(NiFiFunnelSpec, ParentStatus, FunnelEntity, 'a) khandler"
type_synonym 'a label_handler = "(NiFiLabelSpec, ParentStatus, LabelEntity, 'a) khandler"
type_synonym 'a group_handler = "(NiFiProcessGroupSpec, ParentStatus, ProcessGroupEntity, 'a) khandler"
type_synonym 'a port_handler = "(NiFiPortSpec, ParentStatus, PortEntity, 'a) khandler"
type_synonym 'a processor_handler = "(NiFiProcessorSpec, NiFiProcessorStatus, ProcessorEntity, 'a) khandler"
type_synonym 'a connection_handler = "(NiFiConnectionSpec, NiFiConnectionStatus, ConnectionEntity, 'a) khandler"

type_synonym funnel_env = "(NiFiFunnelSpec, ParentStatus, FunnelEntity) renv"
type_synonym label_env = "(NiFiLabelSpec, ParentStatus, LabelEntity) renv"
type_synonym process_group_env = "(NiFiProcessGroupSpec, ParentStatus, ProcessGroupEntity) renv"
type_synonym port_env = "(NiFiPortSpec, ParentStatus, PortEntity) renv"
type_synonym processor_env = "(NiFiProcessorSpec, NiFiProcessorStatus, ProcessorEntity) renv"
type_synonym connection_env = "(NiFiConnectionSpec, NiFiConnectionStatus, ConnectionEntity) renv"

definition parent_matches :: "('sp, ParentStatus) resource \<Rightarrow> string \<Rightarrow> int \<Rightarrow> string \<Rightarrow> bool" where
  "parent_matches instance nifiID revisionVersion parentID \<longleftrightarrow>
     status_matches instance nifiID revisionVersion \<and> pas_ParentProcessGroupID (ob_Status instance) = parentID"

section \<open>Funnels\<close>

definition markFunnelReady :: "funnel_env \<Rightarrow> string \<Rightarrow> int \<Rightarrow> string \<Rightarrow> go_error option funnel_handler" where
  "markFunnelReady E nifiID revisionVersion parentProcessGroupID =
     mark_ready E ''FunnelReady'' ''The NiFi funnel is reconciled.'' nifiID revisionVersion
       (\<lambda>st. st\<lparr>pas_ParentProcessGroupID := parentProcessGroupID\<rparr>)"

definition funnelStatusMatches :: "NiFiFunnel \<Rightarrow> string \<Rightarrow> int \<Rightarrow> string \<Rightarrow> bool" where
  "funnelStatusMatches = parent_matches"

definition funnelDependenciesWaitingFor :: "funnel_env \<Rightarrow> string list funnel_handler" where
  "funnelDependenciesWaitingFor E = do {
     funnel \<leftarrow> get_obj;
     processGroupReferenceDependencyWaitingFor (k_GetProcessGroupObject E) (ob_Namespace funnel) (fus_ParentProcessGroupRef (ob_Spec funnel)) }"

definition desiredFunnel :: "NiFiFunnel \<Rightarrow> string \<Rightarrow> FunnelEntity" where
  "desiredFunnel funnel parentID =
     new_entity \<lparr>fuc_ID = '''', fuc_ParentGroupID = parentID, fuc_Position = map_option nifi_position (fus_Position (ob_Spec funnel))\<rparr>"

definition reconcileExistingFunnel :: "funnel_env \<Rightarrow> FunnelEntity \<Rightarrow> FunnelEntity option \<Rightarrow> string \<Rightarrow> outcome funnel_handler" where
  "reconcileExistingFunnel E desired existing parentID = (case existing of
      None \<Rightarrow> report_failed E ''NiFiGetFailed'' (empty_response funnel_kind)
    | Some existing \<Rightarrow> update_in_place funnel_kind E (funnelNeedsUpdate desired existing) desired existing
        (\<lambda>i n v. funnelStatusMatches i n v parentID) (\<lambda>n v. markFunnelReady E n v parentID))"

definition reconcileFunnelDelete :: "funnel_env \<Rightarrow> outcome funnel_handler" where
  "reconcileFunnelDelete E = delete_frame funnel_kind E (remove_stored funnel_kind E)"

definition NiFiFunnelReconciler_Reconcile :: "funnel_env \<Rightarrow> outcome funnel_handler" where
  "NiFiFunnelReconciler_Reconcile E =
     with_ready_cluster funnel_kind E (reconcileFunnelDelete E) (funnelDependenciesWaitingFor E) (\<lambda>cluster.
       with_endpoint E cluster (do {
         instance \<leftarrow> get_obj;
         with_parent E cluster (fus_ParentProcessGroupRef (ob_Spec instance)) (\<lambda>parentID.
           let entity = desiredFunnel instance parentID in
           find_or_create funnel_kind E parentID entity (\<lambda>existing. reconcileExistingFunnel E entity existing parentID)
             (\<lambda>created. settle_ready E (\<lambda>i n v. funnelStatusMatches i n v parentID) (\<lambda>n v. markFunnelReady E n v parentID)
                          (funnelEntityID created) (entity_revision created))) }))"

section \<open>Labels\<close>

definition markLabelReady :: "label_env \<Rightarrow> string \<Rightarrow> int \<Rightarrow> string \<Rightarrow> go_error option label_handler" where
  "markLabelReady E nifiID revisionVersion parentProcessGroupID =
     mark_ready E ''LabelReady'' ''The NiFi label is reconciled.'' nifiID revisionVersion
       (\<lambda>st. st\<lparr>pas_ParentProcessGroupID := parentProcessGroupID\<rparr>)"

definition labelStatusMatches :: "NiFiLabel \<Rightarrow> string \<Rightarrow> int \<Rightarrow> string \<Rightarrow> bool" where
  "labelStatusMatches = parent_matches"

definition labelDependenciesWaitingFor :: "label_env \<Rightarrow> string list label_handler" where
  "labelDependenciesWaitingFor E = do {
     label \<leftarrow> get_obj;
     processGroupReferenceDependencyWaitingFor (k_GetProcessGroupObject E) (ob_Namespace label) (las_ParentProcessGroupRef (ob_Spec label)) }"

definition desiredLabel :: "NiFiLabel \<Rightarrow> string \<Rightarrow> LabelEntity" where
  "desiredLabel label parentID = (let spec = ob_Spec label in
     new_entity \<lparr>lac_ID = '''', lac_ParentGroupID = parentID, lac_Label = las_Text spec,
       lac_Position = map_option nifi_position (las_Position spec), lac_Width = float64_of_int (las_Width spec),
       lac_Height = float64_of_int (las_Height spec), lac_Style = las_Style spec\<rparr>)"

definition reconcileExistingLabel :: "label_env \<Rightarrow> LabelEntity \<Rightarrow> LabelEntity option \<Rightarrow> string \<Rightarrow> outcome label_handler" where
  "reconcileExistingLabel E desired existing parentID = (case existing of
      None \<Rightarrow> report_failed E ''NiFiGetFailed'' (empty_response label_kind)
    | Some existing \<Rightarrow> update_in_place label_kind E (labelNeedsUpdate desired existing) desired existing
        (\<lambda>i n v. labelStatusMatches i n v parentID) (\<lambda>n v. markLabelReady E n v parentID))"

definition reconcileLabelDelete :: "label_env \<Rightarrow> outcome label_handler" where
  "reconcileLabelDelete E = delete_frame label_kind E (remove_stored label_kind E)"

definition NiFiLabelReconciler_Reconcile :: "label_env \<Rightarrow> outcome label_handler" where
  "NiFiLabelReconciler_Reconcile E =
     with_ready_cluster label_kind E (reconcileLabelDelete E) (labelDependenciesWaitingFor E) (\<lambda>cluster.
       with_endpoint E cluster (do {
         instance \<leftarrow> get_obj;
         with_parent E cluster (las_ParentProcessGroupRef (ob_Spec instance)) (\<lambda>parentID.
           let entity = desiredLabel instance parentID in
           find_or_create label_kind E parentID entity (\<lambda>existing. reconcileExistingLabel E entity existing parentID)
             (\<lambda>created. settle_ready E (\<lambda>i n v. labelStatusMatches i n v parentID) (\<lambda>n v. markLabelReady E n v parentID)
                          (labelEntityID created) (entity_revision created))) }))"

section \<open>Process groups\<close>

definition markProcessGroupReady :: "process_group_env \<Rightarrow> string \<Rightarrow> int \<Rightarrow> string \<Rightarrow> go_error option group_handler" where
  "markProcessGroupReady E nifiID revisionVersion parentProcessGroupID =
     mark_ready E ''ProcessGroupReady'' ''The NiFi process group is reconciled.'' nifiID revisionVersion
       (\<lambda>st. st\<lparr>pas_ParentProcessGroupID := parentProcessGroupID\<rparr>)"

definition processGroupStatusMatches :: "NiFiProcessGroup \<Rightarrow> string \<Rightarrow> int \<Rightarrow> string \<Rightarrow> bool" where
  "processGroupStatusMatches = parent_matches"

definition processGroupDependenciesWaitingFor :: "process_group_env \<Rightarrow> string list group_handler" where
  "processGroupDependenciesWaitingFor E = do {
     processGroup \<leftarrow> get_obj;
     parent \<leftarrow> processGroupReferenceDependencyWaitingFor (k_GetProcessGroupObject E) (ob_Namespace processGroup) (pgs_ParentProcessGroupRef (ob_Spec processGroup));
     context \<leftarrow> parameterContextDependencyWaitingFor (k_GetParameterContext E) (ob_Namespace processGroup) (pgs_ParameterContextRef (ob_Spec processGroup)) ''parameterContextRef'';
     ret (parent @ context) }"

definition processGroupDisplayName :: "NiFiProcessGroup \<Rightarrow> string" where
  "processGroupDisplayName processGroup =
     (if pgs_DisplayName (ob_Spec processGroup) \<noteq> '''' then pgs_DisplayName (ob_Spec processGroup) else ob_Name processGroup)"

definition desiredProcessGroup :: "process_group_env \<Rightarrow> string \<Rightarrow> ProcessGroupEntity go_result group_handler" where
  "desiredProcessGroup E parentID = do {
     processGroup \<leftarrow> get_obj;
     let spec = ob_Spec processGroup;
     let group = (\<lambda>parameterContext. \<lparr>pg_ID = '''', pg_Revision = \<lparr>re_Version = 0\<rparr>,
       pg_Component = \<lparr>pgc_ID = '''', pgc_ParentGroupID = parentID, pgc_Name = processGroupDisplayName processGroup,
         pgc_Comments = pgs_Comments spec, pgc_Position = map_option nifi_position (pgs_Position spec),
         pgc_ParameterContext = parameterContext\<rparr>,
       pg_RunningCount = 0, pg_StoppedCount = 0, pg_InvalidCount = 0, pg_DisabledCount = 0\<rparr>);
     (case pgs_ParameterContextRef spec of
        None \<Rightarrow> ret (Inr (group None))
      | Some ref \<Rightarrow> do {
          p \<leftarrow> k_GetParameterContext E (localObjectRefNamespace (ob_Namespace processGroup) ref) (lr_Name ref);
          ret (case p of
             Inl err \<Rightarrow> Inl err
           | Inr parameterContext \<Rightarrow> Inr (group (if no_NiFiID parameterContext \<noteq> '''' then Some (no_NiFiID parameterContext) else None))) }) }"

definition reconcileExistingProcessGroup :: "process_group_env \<Rightarrow> ProcessGroupEntity \<Rightarrow> ProcessGroupEntity option \<Rightarrow> string \<Rightarrow> outcome group_handler" where
  "reconcileExistingProcessGroup E desired existing parentID = (case existing of
      None \<Rightarrow> report_failed E ''NiFiGetFailed'' (empty_response process_group_kind)
    | Some existing \<Rightarrow> update_in_place process_group_kind E (processGroupNeedsUpdate desired existing) desired existing
        (\<lambda>i n v. processGroupStatusMatches i n v parentID) (\<lambda>n v. markProcessGroupReady E n v parentID))"

definition reconcileProcessGroupDelete :: "process_group_env \<Rightarrow> outcome group_handler" where
  "reconcileProcessGroupDelete E = delete_frame process_group_kind E (remove_stored process_group_kind E)"

definition NiFiProcessGroupReconciler_Reconcile :: "process_group_env \<Rightarrow> outcome group_handler" where
  "NiFiProcessGroupReconciler_Reconcile E =
     with_ready_cluster process_group_kind E (reconcileProcessGroupDelete E) (processGroupDependenciesWaitingFor E) (\<lambda>cluster.
       with_endpoint E cluster (do {
         instance \<leftarrow> get_obj;
         with_parent E cluster (pgs_ParentProcessGroupRef (ob_Spec instance)) (\<lambda>parentID. do {
           d \<leftarrow> desiredProcessGroup E parentID;
           (case d of
              Inl err \<Rightarrow> ret (no_result, Some err)
            | Inr entity \<Rightarrow>
               find_or_create process_group_kind E parentID entity (\<lambda>existing. reconcileExistingProcessGroup E entity existing parentID)
                 (\<lambda>created. settle_ready E (\<lambda>i n v. processGroupStatusMatches i n v parentID) (\<lambda>n v. markProcessGroupReady E n v parentID)
                              (processGroupEntityID created) (re_Version (pg_Revision created)))) }) }))"

section \<open>Connections\<close>

definition connectableRefNamespace :: "string \<Rightarrow> ConnectableReference \<Rightarrow> string" where
  "connectableRefNamespace defaultNamespace ref = (if cnr_Namespace ref \<noteq> '''' then cnr_Namespace ref else defaultNamespace)"

definition markConnectionReady :: "connection_env \<Rightarrow> string \<Rightarrow> int \<Rightarrow> string \<Rightarrow> string \<Rightarrow> go_error option connection_handler" where
  "markConnectionReady E nifiID revisionVersion sourceID destinationID =
     mark_ready E ''ConnectionReady'' ''The NiFi connection is reconciled.'' nifiID revisionVersion
       (\<lambda>st. st\<lparr>cst_SourceID := sourceID, cst_DestinationID := destinationID\<rparr>)"

definition connectionStatusMatches :: "NiFiConnection \<Rightarrow> string \<Rightarrow> int \<Rightarrow> string \<Rightarrow> string \<Rightarrow> bool" where
  "connectionStatusMatches instance nifiID revisionVersion sourceID destinationID \<longleftrightarrow>
     status_matches instance nifiID revisionVersion \<and>
     cst_SourceID (ob_Status instance) = sourceID \<and> cst_DestinationID (ob_Status instance) = destinationID"

definition is_remote_port :: "string \<Rightarrow> bool" where
  "is_remote_port connectableType \<longleftrightarrow> connectableType = ''RemoteInputPort'' \<or> connectableType = ''RemoteOutputPort''"

definition is_local_connectable :: "string \<Rightarrow> bool" where
  "is_local_connectable connectableType \<longleftrightarrow> connectableType \<in> set [''Processor'', ''InputPort'', ''OutputPort'', ''Funnel'']"

definition remote_ports :: "string \<Rightarrow> RemoteProcessGroupObject \<Rightarrow> DiscoveredPort list" where
  "remote_ports connectableType rpg =
     (if connectableType = ''RemoteOutputPort'' then rgo_DiscoveredOutputPorts rpg else rgo_DiscoveredInputPorts rpg)"

definition connectableReferenceDependencyWaitingFor :: "connection_env \<Rightarrow> string \<Rightarrow> ConnectableReference \<Rightarrow> string \<Rightarrow> string list connection_handler" where
  "connectableReferenceDependencyWaitingFor E namespace ref fieldPath =
     (if cnr_Name ref = '''' then ret (if cnr_NiFiID ref \<noteq> '''' then [] else [fieldPath @ ''.name''])
      else let refNamespace = connectableRefNamespace namespace ref in
      if is_local_connectable (cnr_Type ref) then do {
        r \<leftarrow> k_GetConnectable E (cnr_Type ref) refNamespace (cnr_Name ref);
        ret (waiting_name (''NiFi'' @ cnr_Type ref) refNamespace (cnr_Name ref) (map_sum id co_Ready r)) }
      else if is_remote_port (cnr_Type ref) then do {
        r \<leftarrow> k_GetRemoteProcessGroup E refNamespace (cnr_Name ref);
        let key = ''NiFiRemoteProcessGroup/'' @ refNamespace @ ''/'' @ cnr_Name ref;
        ret (case r of
           Inl err \<Rightarrow> (if IsNotFound err then [key] else [key @ '':GetError''])
         | Inr rpg \<Rightarrow>
            (if list_ex (\<lambda>p. dpt_Name p = cnr_PortName ref \<and> dpt_NiFiID p \<noteq> '''') (remote_ports (cnr_Type ref) rpg) then []
             else [key @ '':port/'' @ cnr_PortName ref])) }
      else ret [fieldPath @ ''.type''])"

definition connectionDependenciesWaitingFor :: "connection_env \<Rightarrow> string list connection_handler" where
  "connectionDependenciesWaitingFor E = do {
     connection \<leftarrow> get_obj;
     parent \<leftarrow> processGroupReferenceDependencyWaitingFor (k_GetProcessGroupObject E) (ob_Namespace connection) (cos_ParentProcessGroupRef (ob_Spec connection));
     source \<leftarrow> connectableReferenceDependencyWaitingFor E (ob_Namespace connection) (cos_Source (ob_Spec connection)) ''source'';
     destination \<leftarrow> connectableReferenceDependencyWaitingFor E (ob_Namespace connection) (cos_Destination (ob_Spec connection)) ''destination'';
     ret (parent @ source @ destination) }"

definition nifiConnectable :: "connection_env \<Rightarrow> string \<Rightarrow> ConnectableReference \<Rightarrow> string \<Rightarrow> Connectable go_result connection_handler" where
  "nifiConnectable E namespace ref fallbackGroupID =
     (let connectable = (\<lambda>i group. \<lparr>cn_ID = i, cn_Type = nifiConnectableType (cnr_Type ref),
            cn_GroupID = (if group = '''' then fallbackGroupID else group)\<rparr>);
          refNamespace = connectableRefNamespace namespace ref in
      if cnr_Name ref = '''' then ret (Inr (connectable (cnr_NiFiID ref) fallbackGroupID))
      else if is_local_connectable (cnr_Type ref) then do {
        r \<leftarrow> k_GetConnectable E (cnr_Type ref) refNamespace (cnr_Name ref);
        ret (map_sum id (\<lambda>c. connectable (co_NiFiID c) (co_ParentProcessGroupID c)) r) }
      else if is_remote_port (cnr_Type ref) then do {
        r \<leftarrow> k_GetRemoteProcessGroup E refNamespace (cnr_Name ref);
        ret (map_sum id (\<lambda>rpg. connectable
          (case find (\<lambda>p. dpt_Name p = cnr_PortName ref) (remote_ports (cnr_Type ref) rpg) of Some p \<Rightarrow> dpt_NiFiID p | None \<Rightarrow> cnr_NiFiID ref)
          (rgo_NiFiID rpg)) r) }
      else ret (Inr (connectable (cnr_NiFiID ref) fallbackGroupID)))"

definition connection_component :: "NiFiConnectionSpec \<Rightarrow> string \<Rightarrow> Connectable \<Rightarrow> Connectable \<Rightarrow> ConnectionComponent" where
  "connection_component spec parentID source destination =
     \<lparr>cc_ID = '''', cc_ParentGroupID = parentID, cc_Source = source, cc_Destination = destination,
      cc_SelectedRelationships = cos_SelectedRelationships spec,
      cc_BackPressureObjectThreshold = parseBackPressureObjectThreshold (cos_BackPressureObjectThreshold spec),
      cc_BackPressureDataSizeThreshold = cos_BackPressureDataSizeThreshold spec, cc_FlowFileExpiration = cos_FlowFileExpiration spec,
      cc_Prioritizers = cos_Prioritizers spec, cc_Bends = map nifi_position (cos_Bends spec),
      cc_LoadBalanceStrategy = cos_LoadBalanceStrategy spec, cc_LoadBalancePartitionAttribute = cos_LoadBalancePartitionAttribute spec\<rparr>"

definition desiredConnection :: "connection_env \<Rightarrow> string \<Rightarrow> (ConnectionEntity \<times> string \<times> string) go_result connection_handler" where
  "desiredConnection E parentID = do {
     connection \<leftarrow> get_obj;
     let spec = ob_Spec connection;
     source \<leftarrow> nifiConnectable E (ob_Namespace connection) (cos_Source spec) parentID;
     (case source of
        Inl err \<Rightarrow> ret (Inl err)
      | Inr source \<Rightarrow> do {
          destination \<leftarrow> nifiConnectable E (ob_Namespace connection) (cos_Destination spec) parentID;
          ret (map_sum id (\<lambda>destination.
            (\<lparr>ce_ID = '''', ce_Revision = \<lparr>re_Version = 0\<rparr>, ce_Component = connection_component spec parentID source destination\<rparr>,
             cn_ID source, cn_ID destination)) destination) }) }"

definition keep_endpoints :: "ConnectionEntity \<Rightarrow> ConnectionEntity \<Rightarrow> ConnectionEntity" where
  "keep_endpoints existing desired = desired\<lparr>ce_Component := (ce_Component desired)
     \<lparr>cc_Source := cc_Source (ce_Component existing), cc_Destination := cc_Destination (ce_Component existing)\<rparr>\<rparr>"

definition reconcileExistingConnection :: "connection_env \<Rightarrow> ConnectionEntity \<Rightarrow> ConnectionEntity option \<Rightarrow> string \<Rightarrow> string \<Rightarrow> outcome connection_handler" where
  "reconcileExistingConnection E desired existing sourceID destinationID = (case existing of
      None \<Rightarrow> report_failed E ''NiFiGetFailed'' (empty_response connection_kind)
    | Some existing \<Rightarrow> update_in_place connection_kind E (connectionNeedsUpdate desired existing) (keep_endpoints existing desired) existing
        (\<lambda>i n v. connectionStatusMatches i n v sourceID destinationID) (\<lambda>n v. markConnectionReady E n v sourceID destinationID))"

definition reconcileConnectionDelete :: "connection_env \<Rightarrow> outcome connection_handler" where
  "reconcileConnectionDelete E = delete_frame connection_kind E (remove_stored connection_kind E)"

definition NiFiConnectionReconciler_Reconcile :: "connection_env \<Rightarrow> outcome connection_handler" where
  "NiFiConnectionReconciler_Reconcile E =
     with_ready_cluster connection_kind E (reconcileConnectionDelete E) (connectionDependenciesWaitingFor E) (\<lambda>cluster.
       with_endpoint E cluster (do {
         instance \<leftarrow> get_obj;
         with_parent E cluster (cos_ParentProcessGroupRef (ob_Spec instance)) (\<lambda>parentID. do {
           d \<leftarrow> desiredConnection E parentID;
           (case d of
              Inl err \<Rightarrow> ret (no_result, Some err)
            | Inr (entity, sourceID, destinationID) \<Rightarrow>
               (if sourceID = '''' \<or> destinationID = ''''
                then report_not_ready E ''ConnectableIDMissing'' ''The connection source or destination ID is not available yet.''
                       no_result (requeue_after 30)
                else find_or_create connection_kind E parentID entity
                       (\<lambda>existing. reconcileExistingConnection E entity existing sourceID destinationID)
                       (\<lambda>created. settle_ready E (\<lambda>i n v. connectionStatusMatches i n v sourceID destinationID)
                          (\<lambda>n v. markConnectionReady E n v sourceID destinationID)
                          (connectionEntityID created) (re_Version (ce_Revision created))))) }) }))"

end
