(* ===== verification/Canvas_Run.thy ===== *)
theory Canvas_Run
  imports Canvas_Objects
begin

text \<open>
  The controllers of the canvas objects with a run state (\<open>internal/controller/phase1_controllers.go\<close>,
  \<open>support.go\<close>): input ports, output ports and processors. A running object is stopped before it is
  changed, and its run state is applied afterwards through NiFi's run-status endpoint.
\<close>

section \<open>Run states\<close>

definition change_state ::
  "('sp, 'e) kind \<Rightarrow> ('sp, 'st, 'e) renv \<Rightarrow> string \<Rightarrow> string \<Rightarrow> 'e \<Rightarrow> string \<Rightarrow> ('e \<Rightarrow> ('sp, 'st, 'e, outcome) khandler) \<Rightarrow> ('sp, 'st, 'e, outcome) khandler" where
  "change_state K E verb nifiID current desiredState continue = do {
     r \<leftarrow> k_SetRunState E nifiID (kd_Revision K current) desiredState;
     (case r of
        Inl err \<Rightarrow> report_failed E ''NiFiStateFailed'' (failed_to verb K err)
      | Inr changed \<Rightarrow> continue (case changed of Some changed \<Rightarrow> changed | None \<Rightarrow> current)) }"

definition when_valid ::
  "('sp, 'st, 'e) renv \<Rightarrow> string \<Rightarrow> string \<Rightarrow> string \<Rightarrow> int \<Rightarrow> ('sp, 'st, 'e, outcome) khandler \<Rightarrow> ('sp, 'st, 'e, outcome) khandler" where
  \<comment> \<open>\<open>switch current.Component.ValidationStatus\<close> before an object is started or enabled\<close>
  "when_valid E validationStatus reason message seconds continue =
     (if validationStatus = ''INVALID'' then report_not_ready E reason message (requeue_after seconds) (requeue_after seconds)
      else if validationStatus = ''VALIDATING'' then ret (requeue_after 10, None)
      else continue)"

section \<open>Ports\<close>

definition mark_port_ready :: "port_env \<Rightarrow> string \<Rightarrow> string \<Rightarrow> string \<Rightarrow> int \<Rightarrow> string \<Rightarrow> go_error option port_handler" where
  "mark_port_ready E reason message nifiID revisionVersion parentProcessGroupID =
     mark_ready E reason message nifiID revisionVersion (\<lambda>st. st\<lparr>pas_ParentProcessGroupID := parentProcessGroupID\<rparr>)"

definition reconcilePortRunState :: "port_env \<Rightarrow> string \<Rightarrow> PortEntity \<Rightarrow> string \<Rightarrow> (PortEntity \<times> string \<times> string) go_result port_handler" where
  "reconcilePortRunState E nifiID current desiredState =
     (let validation = ptc_ValidationStatus (pt_Component current) in
      if desiredState = '''' \<or> ptc_State (pt_Component current) = desiredState then ret (Inr (current, '''', ''''))
      else if desiredState = ''RUNNING'' \<and> validation = ''INVALID''
      then ret (Inr (current, ''PortInvalid'', ''The port is INVALID and cannot be started; it needs at least one valid connection.''))
      else if desiredState = ''RUNNING'' \<and> validation = ''VALIDATING''
      then ret (Inr (current, ''PortValidating'', ''The port is still being validated by NiFi.''))
      else do {
        r \<leftarrow> k_SetRunState E nifiID (re_Version (pt_Revision current)) desiredState;
        ret (map_sum id (\<lambda>changed. (case changed of Some changed \<Rightarrow> changed | None \<Rightarrow> current, '''', '''')) r) })"

definition reconcile_existing_port ::
  "(NiFiPortSpec, PortEntity) kind \<Rightarrow> port_env \<Rightarrow> (string \<Rightarrow> int \<Rightarrow> string \<Rightarrow> go_error option port_handler) \<Rightarrow>
   PortEntity \<Rightarrow> PortEntity option \<Rightarrow> string \<Rightarrow> outcome port_handler" where
  \<comment> \<open>\<open>reconcileExistingInputPort\<close> and \<open>reconcileExistingOutputPort\<close>, which differ in names only\<close>
  "reconcile_existing_port K E mark desired existing parentID = (case existing of
      None \<Rightarrow> report_failed E ''NiFiGetFailed'' (empty_response K)
    | Some existing \<Rightarrow>
       write_stopped K E (\<lambda>p. ptc_State (pt_Component p) = ''RUNNING'') ''stop'' ''STOPPED'' (portNeedsUpdate desired existing) desired existing (\<lambda>current. do {
         instance \<leftarrow> get_obj;
         r \<leftarrow> reconcilePortRunState E (portEntityID existing) current (nifiScheduledState (pts_State (ob_Spec instance)));
         (case r of
            Inl err \<Rightarrow> report_failed E ''NiFiStateFailed'' (failed_to ''set run state of'' K err)
          | Inr (current, pendingReason, pendingMsg) \<Rightarrow>
             (if pendingReason \<noteq> '''' then report_not_ready E pendingReason pendingMsg (requeue_after 15) (requeue_after 15)
              else settle_ready E (\<lambda>i n v. parent_matches i n v parentID) (\<lambda>n v. mark n v parentID)
                     (portEntityID existing) (re_Version (pt_Revision current)))) }))"

definition port_display_name :: "(NiFiPortSpec, ParentStatus) resource \<Rightarrow> string" where
  "port_display_name port = (if pts_DisplayName (ob_Spec port) \<noteq> '''' then pts_DisplayName (ob_Spec port) else ob_Name port)"

definition port_dependencies :: "port_env \<Rightarrow> string list port_handler" where
  "port_dependencies E = do {
     port \<leftarrow> get_obj;
     processGroupReferenceDependencyWaitingFor (k_GetProcessGroupObject E) (ob_Namespace port) (pts_ParentProcessGroupRef (ob_Spec port)) }"

definition desired_port_of :: "(NiFiPortSpec, ParentStatus) resource \<Rightarrow> string \<Rightarrow> PortEntity" where
  "desired_port_of port parentID =
     desiredPort (port_display_name port) (pts_Position (ob_Spec port)) (pts_ConcurrentlySchedulableTaskCount (ob_Spec port)) parentID"

definition reconcile_port ::
  "(NiFiPortSpec, PortEntity) kind \<Rightarrow> port_env \<Rightarrow> outcome port_handler \<Rightarrow> string list port_handler \<Rightarrow> ((NiFiPortSpec, ParentStatus) resource \<Rightarrow> string \<Rightarrow> PortEntity) \<Rightarrow>
   (PortEntity \<Rightarrow> PortEntity option \<Rightarrow> string \<Rightarrow> outcome port_handler) \<Rightarrow> outcome port_handler" where
  "reconcile_port K E reconcileDelete dependencies desired reconcileExisting =
     with_ready_cluster K E reconcileDelete dependencies (\<lambda>cluster.
       with_endpoint E cluster (do {
         instance \<leftarrow> get_obj;
         with_parent E cluster (pts_ParentProcessGroupRef (ob_Spec instance)) (\<lambda>parentID.
           let entity = desired instance parentID in
           find_or_create K E parentID entity (\<lambda>existing. reconcileExisting entity existing parentID)
             (\<lambda>created. reconcileExisting entity (Some created) parentID)) }))"

definition inputPortDisplayName :: "NiFiInputPort \<Rightarrow> string" where "inputPortDisplayName = port_display_name"
definition outputPortDisplayName :: "NiFiOutputPort \<Rightarrow> string" where "outputPortDisplayName = port_display_name"
definition inputPortDependenciesWaitingFor :: "port_env \<Rightarrow> string list port_handler" where "inputPortDependenciesWaitingFor = port_dependencies"
definition outputPortDependenciesWaitingFor :: "port_env \<Rightarrow> string list port_handler" where "outputPortDependenciesWaitingFor = port_dependencies"
definition desiredInputPort :: "NiFiInputPort \<Rightarrow> string \<Rightarrow> PortEntity" where "desiredInputPort = desired_port_of"
definition desiredOutputPort :: "NiFiOutputPort \<Rightarrow> string \<Rightarrow> PortEntity" where "desiredOutputPort = desired_port_of"

definition markInputPortReady :: "port_env \<Rightarrow> string \<Rightarrow> int \<Rightarrow> string \<Rightarrow> go_error option port_handler" where
  "markInputPortReady E = mark_port_ready E ''InputPortReady'' ''The NiFi input port is reconciled.''"

definition markOutputPortReady :: "port_env \<Rightarrow> string \<Rightarrow> int \<Rightarrow> string \<Rightarrow> go_error option port_handler" where
  "markOutputPortReady E = mark_port_ready E ''OutputPortReady'' ''The NiFi output port is reconciled.''"

abbreviation input_port_kind :: "(NiFiPortSpec, PortEntity) kind" where "input_port_kind \<equiv> port_kind ''input port''"
abbreviation output_port_kind :: "(NiFiPortSpec, PortEntity) kind" where "output_port_kind \<equiv> port_kind ''output port''"

definition reconcileExistingInputPort :: "port_env \<Rightarrow> PortEntity \<Rightarrow> PortEntity option \<Rightarrow> string \<Rightarrow> outcome port_handler" where
  "reconcileExistingInputPort E = reconcile_existing_port input_port_kind E (markInputPortReady E)"

definition reconcileExistingOutputPort :: "port_env \<Rightarrow> PortEntity \<Rightarrow> PortEntity option \<Rightarrow> string \<Rightarrow> outcome port_handler" where
  "reconcileExistingOutputPort E = reconcile_existing_port output_port_kind E (markOutputPortReady E)"

definition reconcileInputPortDelete :: "port_env \<Rightarrow> outcome port_handler" where
  "reconcileInputPortDelete E = delete_frame input_port_kind E (remove_stored input_port_kind E)"

definition reconcileOutputPortDelete :: "port_env \<Rightarrow> outcome port_handler" where
  "reconcileOutputPortDelete E = delete_frame output_port_kind E (remove_stored output_port_kind E)"

definition NiFiInputPortReconciler_Reconcile :: "port_env \<Rightarrow> outcome port_handler" where
  "NiFiInputPortReconciler_Reconcile E = reconcile_port input_port_kind E (reconcileInputPortDelete E)
     (inputPortDependenciesWaitingFor E) desiredInputPort (reconcileExistingInputPort E)"

definition NiFiOutputPortReconciler_Reconcile :: "port_env \<Rightarrow> outcome port_handler" where
  "NiFiOutputPortReconciler_Reconcile E = reconcile_port output_port_kind E (reconcileOutputPortDelete E)
     (outputPortDependenciesWaitingFor E) desiredOutputPort (reconcileExistingOutputPort E)"

section \<open>Processors\<close>

definition markProcessorReady :: "processor_env \<Rightarrow> string \<Rightarrow> int \<Rightarrow> string \<Rightarrow> string \<Rightarrow> go_error option processor_handler" where
  "markProcessorReady E nifiID revisionVersion parentProcessGroupID validationStatus =
     mark_ready E ''ProcessorReady'' ''The NiFi processor is reconciled.'' nifiID revisionVersion
       (\<lambda>st. st\<lparr>pst_ParentProcessGroupID := parentProcessGroupID, pst_ValidationStatus := validationStatus\<rparr>)"

definition processorStatusMatches :: "NiFiProcessor \<Rightarrow> string \<Rightarrow> int \<Rightarrow> string \<Rightarrow> string \<Rightarrow> bool" where
  "processorStatusMatches instance nifiID revisionVersion parentID validationStatus \<longleftrightarrow>
     status_matches instance nifiID revisionVersion \<and> pst_ParentProcessGroupID (ob_Status instance) = parentID \<and>
     pst_ValidationStatus (ob_Status instance) = validationStatus"

definition processorDependenciesWaitingFor :: "processor_env \<Rightarrow> string list processor_handler" where
  "processorDependenciesWaitingFor E = do {
     processor \<leftarrow> get_obj;
     processGroupReferenceDependencyWaitingFor (k_GetProcessGroupObject E) (ob_Namespace processor) (prs_ParentProcessGroupRef (ob_Spec processor)) }"

definition processorDisplayName :: "NiFiProcessor \<Rightarrow> string" where
  "processorDisplayName processor = (if prs_DisplayName (ob_Spec processor) \<noteq> '''' then prs_DisplayName (ob_Spec processor) else ob_Name processor)"

definition desiredProcessor :: "NiFiProcessor \<Rightarrow> string \<Rightarrow> ProcessorEntity" where
  "desiredProcessor processor parentID = (let spec = ob_Spec processor in
     new_entity \<lparr>prc_ID = '''', prc_ParentGroupID = parentID, prc_Name = processorDisplayName processor, prc_Type = prs_Type spec,
       prc_Bundle = prs_Bundle spec, prc_Position = map_option nifi_position (prs_Position spec), prc_State = '''', prc_ValidationStatus = '''',
       prc_Config = \<lparr>pcf_Properties = prs_Properties spec, pcf_SchedulingStrategy = sch_Strategy (prs_Scheduling spec),
         pcf_SchedulingPeriod = sch_Period (prs_Scheduling spec),
         pcf_ConcurrentlySchedulableTaskCount = sch_ConcurrentlySchedulableTaskCount (prs_Scheduling spec),
         pcf_AutoTerminatedRelationships = prs_AutoTerminatedRelationships spec\<rparr>\<rparr>)"

definition processor_running :: "ProcessorEntity \<Rightarrow> bool" where
  "processor_running p \<longleftrightarrow> prc_State (en_Component p) = ''RUNNING''"

definition settle_processor :: "processor_env \<Rightarrow> string \<Rightarrow> string \<Rightarrow> ProcessorEntity \<Rightarrow> outcome processor_handler" where
  "settle_processor E nifiID parentID current =
     settle_ready E (\<lambda>i n v. processorStatusMatches i n v parentID (prc_ValidationStatus (en_Component current)))
       (\<lambda>n v. markProcessorReady E n v parentID (prc_ValidationStatus (en_Component current)))
       nifiID (entity_revision current)"

definition run_processor :: "processor_env \<Rightarrow> string \<Rightarrow> string \<Rightarrow> string \<Rightarrow> ProcessorEntity \<Rightarrow> outcome processor_handler" where
  \<comment> \<open>the part of \<open>reconcileExistingProcessor\<close> behind the update: the run state, then the status\<close>
  "run_processor E desiredState nifiID parentID current =
     (if desiredState \<noteq> '''' \<and> prc_State (en_Component current) \<noteq> desiredState then
        (let change = change_state processor_kind E ''set run state of'' nifiID current desiredState (settle_processor E nifiID parentID) in
         if desiredState = ''RUNNING''
         then when_valid E (prc_ValidationStatus (en_Component current)) ''ProcessorInvalid''
                ''The processor is INVALID and cannot be started; check its properties, relationships, and referenced services.'' 15 change
         else change)
      else settle_processor E nifiID parentID current)"

definition reconcileExistingProcessor :: "processor_env \<Rightarrow> ProcessorEntity \<Rightarrow> ProcessorEntity option \<Rightarrow> string \<Rightarrow> outcome processor_handler" where
  "reconcileExistingProcessor E desired existing parentID = (case existing of
      None \<Rightarrow> report_failed E ''NiFiGetFailed'' (empty_response processor_kind)
    | Some existing \<Rightarrow> do {
        instance \<leftarrow> get_obj;
        write_stopped processor_kind E processor_running ''stop'' ''STOPPED''
          (processorNeedsUpdate desired existing (sensitivePropertyKeys (prs_SensitiveProperties (ob_Spec instance)))) desired existing
          (run_processor E (nifiScheduledState (prs_State (ob_Spec instance))) (processorEntityID existing) parentID) })"

definition reconcileProcessorDelete :: "processor_env \<Rightarrow> outcome processor_handler" where
  "reconcileProcessorDelete E = delete_frame processor_kind E (remove_current processor_kind E processor_running ''STOPPED'')"

definition NiFiProcessorReconciler_Reconcile :: "processor_env \<Rightarrow> outcome processor_handler" where
  "NiFiProcessorReconciler_Reconcile E =
     with_ready_cluster processor_kind E (reconcileProcessorDelete E) (processorDependenciesWaitingFor E) (\<lambda>cluster.
       with_endpoint E cluster (do {
         instance \<leftarrow> get_obj;
         with_parent E cluster (prs_ParentProcessGroupRef (ob_Spec instance)) (\<lambda>parentID.
           let entity = desiredProcessor instance parentID in
           find_or_create processor_kind E parentID entity (\<lambda>existing. reconcileExistingProcessor E entity existing parentID)
             (\<lambda>created. reconcileExistingProcessor E entity (Some created) parentID)) }))"

end
