(* ===== verification/Service_Objects.thy ===== *)
theory Service_Objects
  imports Canvas_Run
begin

text \<open>
  The controllers of the objects that are configured with properties and Secrets
  (\<open>internal/controller/phase1_controllers.go\<close>, \<open>support.go\<close>): controller services and reporting tasks,
  which have a run state, parameter providers and registry clients, which have none.
\<close>

section \<open>Specs, statuses and kinds\<close>

record GitHubFlowRegistrySpec =
  gh_RepositoryOwner :: string
  gh_RepositoryName :: string
  gh_RepositoryPath :: string
  gh_DefaultBranch :: string
  gh_APIURL :: string
  gh_PersonalAccessTokenSecretRef :: "SecretKeyRef option"

record GitLabFlowRegistrySpec =
  gl_RepositoryNamespace :: string
  gl_RepositoryName :: string
  gl_RepositoryPath :: string
  gl_DefaultBranch :: string
  gl_APIURL :: string
  gl_AccessTokenSecretRef :: "SecretKeyRef option"

record NiFiRegistryClientSpec =
  rcs_ClusterRef :: ClusterReference
  rcs_Type :: string
  rcs_Description :: string
  rcs_URI :: string
  rcs_GitHub :: "GitHubFlowRegistrySpec option"
  rcs_GitLab :: "GitLabFlowRegistrySpec option"
  rcs_Properties :: go_map
  rcs_SensitiveProperties :: "(string \<times> SensitivePropertySource) list"
  rcs_DeletionPolicy :: string
  rcs_AdoptionPolicy :: AdoptionPolicy

record ValidatedStatus =
  \<comment> \<open>\<open>NiFiControllerServiceStatus\<close>, \<open>NiFiReportingTaskStatus\<close> and \<open>NiFiParameterProviderStatus\<close>\<close>
  vas_ValidationStatus :: string

record NiFiRegistryClientStatus =
  rst_ResolvedType :: string

type_synonym NiFiControllerService = "(NiFiControllerServiceSpec, ValidatedStatus) resource"
type_synonym NiFiReportingTask = "(NiFiReportingTaskSpec, ValidatedStatus) resource"
type_synonym NiFiParameterProvider = "(NiFiParameterProviderSpec, ValidatedStatus) resource"
type_synonym NiFiRegistryClient = "(NiFiRegistryClientSpec, NiFiRegistryClientStatus) resource"

type_synonym 'a service_handler = "(NiFiControllerServiceSpec, ValidatedStatus, ControllerServiceEntity, 'a) khandler"
type_synonym 'a task_handler = "(NiFiReportingTaskSpec, ValidatedStatus, ReportingTaskEntity, 'a) khandler"
type_synonym 'a provider_handler = "(NiFiParameterProviderSpec, ValidatedStatus, ParameterProviderEntity, 'a) khandler"
type_synonym 'a registry_handler = "(NiFiRegistryClientSpec, NiFiRegistryClientStatus, RegistryClientEntity, 'a) khandler"

type_synonym service_env = "(NiFiControllerServiceSpec, ValidatedStatus, ControllerServiceEntity) renv"
type_synonym task_env = "(NiFiReportingTaskSpec, ValidatedStatus, ReportingTaskEntity) renv"
type_synonym provider_env = "(NiFiParameterProviderSpec, ValidatedStatus, ParameterProviderEntity) renv"
type_synonym registry_env = "(NiFiRegistryClientSpec, NiFiRegistryClientStatus, RegistryClientEntity) renv"

definition controller_service_kind :: "(NiFiControllerServiceSpec, ControllerServiceEntity) kind" where
  "controller_service_kind = \<lparr>kd_Label = ''controller service'', kd_ClusterRef = css_ClusterRef, kd_DeletionPolicy = css_DeletionPolicy,
     kd_AdoptID = adopt_by_id \<circ> css_AdoptionPolicy, kd_EntityID = controllerServiceEntityID, kd_Revision = entity_revision,
     kd_Address = address_entity (\<lambda>i c. c\<lparr>csc_ID := i\<rparr>)\<rparr>"

definition reporting_task_kind :: "(NiFiReportingTaskSpec, ReportingTaskEntity) kind" where
  "reporting_task_kind = \<lparr>kd_Label = ''reporting task'', kd_ClusterRef = rts_ClusterRef, kd_DeletionPolicy = rts_DeletionPolicy,
     kd_AdoptID = adopt_by_id \<circ> rts_AdoptionPolicy, kd_EntityID = ReportingTaskEntityID, kd_Revision = entity_revision,
     kd_Address = address_entity (\<lambda>i c. c\<lparr>rtc_ID := i\<rparr>)\<rparr>"

definition parameter_provider_kind :: "(NiFiParameterProviderSpec, ParameterProviderEntity) kind" where
  "parameter_provider_kind = \<lparr>kd_Label = ''parameter provider'', kd_ClusterRef = pps_ClusterRef, kd_DeletionPolicy = pps_DeletionPolicy,
     kd_AdoptID = adopt_by_id \<circ> pps_AdoptionPolicy, kd_EntityID = ParameterProviderEntityID, kd_Revision = entity_revision,
     kd_Address = address_entity (\<lambda>i c. c\<lparr>ppc_ID := i\<rparr>)\<rparr>"

definition registry_client_kind :: "(NiFiRegistryClientSpec, RegistryClientEntity) kind" where
  "registry_client_kind = \<lparr>kd_Label = ''registry client'', kd_ClusterRef = rcs_ClusterRef, kd_DeletionPolicy = rcs_DeletionPolicy,
     kd_AdoptID = adopt_by_id \<circ> rcs_AdoptionPolicy, kd_EntityID = registryClientEntityID, kd_Revision = entity_revision,
     kd_Address = address_entity (\<lambda>i c. c\<lparr>rcc_ID := i\<rparr>)\<rparr>"

definition validated_matches :: "('sp, ValidatedStatus) resource \<Rightarrow> string \<Rightarrow> int \<Rightarrow> string \<Rightarrow> bool" where
  "validated_matches instance nifiID revisionVersion validationStatus \<longleftrightarrow>
     status_matches instance nifiID revisionVersion \<and> vas_ValidationStatus (ob_Status instance) = validationStatus"

section \<open>Controller services\<close>

definition markControllerServiceReady :: "service_env \<Rightarrow> string \<Rightarrow> int \<Rightarrow> string \<Rightarrow> go_error option service_handler" where
  "markControllerServiceReady E nifiID revisionVersion validationStatus =
     mark_ready E ''ControllerServiceReady'' ''The NiFi controller service is reconciled.'' nifiID revisionVersion
       (\<lambda>st. st\<lparr>vas_ValidationStatus := validationStatus\<rparr>)"

definition controllerServiceStatusMatches :: "NiFiControllerService \<Rightarrow> string \<Rightarrow> int \<Rightarrow> string \<Rightarrow> bool" where
  "controllerServiceStatusMatches = validated_matches"

definition controllerServiceDependenciesWaitingFor :: "service_env \<Rightarrow> string list service_handler" where
  "controllerServiceDependenciesWaitingFor E = do {
     controllerService \<leftarrow> get_obj;
     parent \<leftarrow> processGroupReferenceDependencyWaitingFor (k_GetProcessGroupObject E) (ob_Namespace controllerService)
       (css_ParentProcessGroupRef (ob_Spec controllerService));
     context \<leftarrow> parameterContextDependencyWaitingFor (k_GetParameterContext E) (ob_Namespace controllerService)
       (css_ParameterContextRef (ob_Spec controllerService)) ''parameterContextRef'';
     ret (parent @ context) }"

definition desiredControllerService :: "service_env \<Rightarrow> string \<Rightarrow> (ControllerServiceEntity \<times> string list) go_result service_handler" where
  "desiredControllerService E parentID = do {
     controllerService \<leftarrow> get_obj;
     let spec = ob_Spec controllerService;
     r \<leftarrow> resolve_sensitive E (ob_Namespace controllerService) (css_SensitiveProperties spec) (css_Properties spec) [];
     ret (map_sum id (\<lambda>(properties, waitingFor).
       (new_entity \<lparr>csc_ID = '''', csc_ParentGroupID = parentID, csc_Name = ob_Name controllerService, csc_Type = css_Type spec,
          csc_Bundle = css_Bundle spec, csc_Properties = properties, csc_State = '''', csc_ValidationStatus = ''''\<rparr>, waitingFor)) r) }"

definition service_enabled :: "ControllerServiceEntity \<Rightarrow> bool" where
  "service_enabled e \<longleftrightarrow> csc_State (en_Component e) = ''ENABLED'' \<or> csc_State (en_Component e) = ''ENABLING''"

definition reconcileExistingControllerService :: "service_env \<Rightarrow> ControllerServiceEntity \<Rightarrow> ControllerServiceEntity option \<Rightarrow> outcome service_handler" where
  "reconcileExistingControllerService E desired existing = (case existing of
      None \<Rightarrow> report_failed E ''NiFiGetFailed'' (empty_response controller_service_kind)
    | Some existing \<Rightarrow> do {
        instance \<leftarrow> get_obj;
        let nifiID = controllerServiceEntityID existing;
        let settle = (\<lambda>current. settle_ready E (\<lambda>i n v. controllerServiceStatusMatches i n v (csc_ValidationStatus (en_Component current)))
                                  (\<lambda>n v. markControllerServiceReady E n v (csc_ValidationStatus (en_Component current)))
                                  nifiID (entity_revision current));
        let desiredState = nifiScheduledState (css_State (ob_Spec instance));
        write_stopped controller_service_kind E service_enabled ''disable'' ''DISABLED''
          (controllerServiceNeedsUpdate desired existing (sensitivePropertyKeys (css_SensitiveProperties (ob_Spec instance)))) desired existing (\<lambda>current.
          if desiredState \<noteq> '''' \<and> \<not> controllerServiceStateSatisfied (csc_State (en_Component current)) desiredState then
            (let change = change_state controller_service_kind E ''set state of'' nifiID current desiredState settle in
             if desiredState = ''ENABLED''
             then when_valid E (csc_ValidationStatus (en_Component current)) ''ControllerServiceInvalid''
                    ''The controller service is INVALID and cannot be enabled; check its properties.'' 15 change
             else change)
          else settle current) })"

definition reconcileControllerServiceDelete :: "service_env \<Rightarrow> outcome service_handler" where
  "reconcileControllerServiceDelete E =
     delete_frame controller_service_kind E (remove_current controller_service_kind E service_enabled ''DISABLED'')"

definition NiFiControllerServiceReconciler_Reconcile :: "service_env \<Rightarrow> outcome service_handler" where
  "NiFiControllerServiceReconciler_Reconcile E =
     with_ready_cluster controller_service_kind E (reconcileControllerServiceDelete E) (controllerServiceDependenciesWaitingFor E) (\<lambda>cluster.
       with_endpoint E cluster (do {
         instance \<leftarrow> get_obj;
         with_parent E cluster (css_ParentProcessGroupRef (ob_Spec instance)) (\<lambda>parentID.
           with_desired E (desiredControllerService E parentID) (\<lambda>entity.
             find_or_create controller_service_kind E parentID entity (\<lambda>existing. reconcileExistingControllerService E entity existing)
               (\<lambda>created. reconcileExistingControllerService E entity (Some created)))) }))"

section \<open>Reporting tasks\<close>

definition markReportingTaskReady :: "task_env \<Rightarrow> string \<Rightarrow> int \<Rightarrow> string \<Rightarrow> go_error option task_handler" where
  "markReportingTaskReady E nifiID revisionVersion validationStatus =
     mark_ready E ''ReportingTaskReady'' ''The NiFi reporting task is reconciled.'' nifiID revisionVersion
       (\<lambda>st. st\<lparr>vas_ValidationStatus := validationStatus\<rparr>)"

definition reportingTaskStatusMatches :: "NiFiReportingTask \<Rightarrow> string \<Rightarrow> int \<Rightarrow> string \<Rightarrow> bool" where
  "reportingTaskStatusMatches = validated_matches"

definition desiredReportingTask :: "task_env \<Rightarrow> (ReportingTaskEntity \<times> string list) go_result task_handler" where
  "desiredReportingTask E = do {
     instance \<leftarrow> get_obj;
     let spec = ob_Spec instance;
     r \<leftarrow> resolve_sensitive E (ob_Namespace instance) (rts_SensitiveProperties spec) (rts_Properties spec) [];
     ret (map_sum id (\<lambda>(properties, waitingFor).
       (new_entity \<lparr>rtc_ID = '''', rtc_Name = ob_Name instance, rtc_Type = rts_Type spec, rtc_Bundle = rts_Bundle spec,
          rtc_Properties = properties, rtc_SchedulingStrategy = sch_Strategy (rts_Scheduling spec),
          rtc_SchedulingPeriod = sch_Period (rts_Scheduling spec), rtc_State = '''', rtc_ValidationStatus = ''''\<rparr>, waitingFor)) r) }"

definition task_running :: "ReportingTaskEntity \<Rightarrow> bool" where
  "task_running e \<longleftrightarrow> rtc_State (en_Component e) = ''RUNNING''"

definition reconcileExistingReportingTask :: "task_env \<Rightarrow> ReportingTaskEntity \<Rightarrow> ReportingTaskEntity \<Rightarrow> outcome task_handler" where
  "reconcileExistingReportingTask E desired existing = do {
     instance \<leftarrow> get_obj;
     let nifiID = ReportingTaskEntityID existing;
     let settle = (\<lambda>current. settle_ready E (\<lambda>i n v. reportingTaskStatusMatches i n v (rtc_ValidationStatus (en_Component current)))
                               (\<lambda>n v. markReportingTaskReady E n v (rtc_ValidationStatus (en_Component current)))
                               nifiID (entity_revision current));
     let desiredState = ReportingTaskRunState (rts_State (ob_Spec instance) = ''Enabled'');
     write_stopped reporting_task_kind E task_running ''stop'' ''STOPPED''
       (reportingTaskNeedsUpdate desired existing (sensitivePropertyKeys (rts_SensitiveProperties (ob_Spec instance)))) desired existing (\<lambda>current.
       let apply_state = (if rtc_State (en_Component current) \<noteq> desiredState
                          then change_state reporting_task_kind E ''set run state of'' nifiID current desiredState settle
                          else settle current) in
       if desiredState = ''RUNNING''
       then when_valid E (rtc_ValidationStatus (en_Component current)) ''ReportingTaskInvalid''
              ''The reporting task is INVALID and cannot be started; check its properties and bundle.'' 30 apply_state
       else apply_state) }"

definition reconcileReportingTaskDelete :: "task_env \<Rightarrow> outcome task_handler" where
  "reconcileReportingTaskDelete E = delete_frame reporting_task_kind E (remove_current reporting_task_kind E task_running ''STOPPED'')"

definition NiFiReportingTaskReconciler_Reconcile :: "task_env \<Rightarrow> outcome task_handler" where
  "NiFiReportingTaskReconciler_Reconcile E =
     with_ready_cluster reporting_task_kind E (reconcileReportingTaskDelete E) (ret []) (\<lambda>cluster.
       with_endpoint E cluster
         (with_desired E (desiredReportingTask E) (\<lambda>entity.
            find_or_recreate reporting_task_kind E entity (reconcileExistingReportingTask E entity))))"

section \<open>Parameter providers\<close>

definition markParameterProviderReady :: "provider_env \<Rightarrow> string \<Rightarrow> int \<Rightarrow> string \<Rightarrow> go_error option provider_handler" where
  "markParameterProviderReady E nifiID revisionVersion validationStatus =
     mark_ready E ''ParameterProviderReady'' ''The NiFi parameter provider is reconciled.'' nifiID revisionVersion
       (\<lambda>st. st\<lparr>vas_ValidationStatus := validationStatus\<rparr>)"

definition parameterProviderStatusMatches :: "NiFiParameterProvider \<Rightarrow> string \<Rightarrow> int \<Rightarrow> string \<Rightarrow> bool" where
  "parameterProviderStatusMatches = validated_matches"

definition desiredParameterProvider :: "provider_env \<Rightarrow> (ParameterProviderEntity \<times> string list) go_result provider_handler" where
  "desiredParameterProvider E = do {
     instance \<leftarrow> get_obj;
     let spec = ob_Spec instance;
     r \<leftarrow> resolve_sensitive E (ob_Namespace instance) (pps_SensitiveProperties spec) (pps_Properties spec) [];
     ret (map_sum id (\<lambda>(properties, waitingFor).
       (new_entity \<lparr>ppc_ID = '''', ppc_Name = ob_Name instance, ppc_Type = pps_Type spec, ppc_Bundle = pps_Bundle spec,
          ppc_Properties = properties, ppc_ValidationStatus = ''''\<rparr>, waitingFor)) r) }"

definition reconcileExistingParameterProvider :: "provider_env \<Rightarrow> ParameterProviderEntity \<Rightarrow> ParameterProviderEntity \<Rightarrow> outcome provider_handler" where
  "reconcileExistingParameterProvider E desired existing = do {
     instance \<leftarrow> get_obj;
     write_stopped parameter_provider_kind E (\<lambda>_. False) '''' ''''
       (parameterProviderNeedsUpdate desired existing (sensitivePropertyKeys (pps_SensitiveProperties (ob_Spec instance)))) desired existing (\<lambda>current.
       settle_ready E (\<lambda>i n v. parameterProviderStatusMatches i n v (ppc_ValidationStatus (en_Component current)))
         (\<lambda>n v. markParameterProviderReady E n v (ppc_ValidationStatus (en_Component current)))
         (ParameterProviderEntityID existing) (entity_revision current)) }"

definition reconcileParameterProviderDelete :: "provider_env \<Rightarrow> outcome provider_handler" where
  "reconcileParameterProviderDelete E = delete_frame parameter_provider_kind E (remove_current parameter_provider_kind E (\<lambda>_. False) '''')"

definition NiFiParameterProviderReconciler_Reconcile :: "provider_env \<Rightarrow> outcome provider_handler" where
  "NiFiParameterProviderReconciler_Reconcile E =
     with_ready_cluster parameter_provider_kind E (reconcileParameterProviderDelete E) (ret []) (\<lambda>cluster.
       with_endpoint E cluster
         (with_desired E (desiredParameterProvider E) (\<lambda>entity.
            find_or_recreate parameter_provider_kind E entity (reconcileExistingParameterProvider E entity))))"

section \<open>Registry clients\<close>

definition registryClientType :: "string \<Rightarrow> string" where
  "registryClientType registryType =
     (if registryType = ''GitHub'' then ''org.apache.nifi.github.GitHubFlowRegistryClient''
      else if registryType = ''GitLab'' then ''org.apache.nifi.gitlab.GitLabFlowRegistryClient''
      else ''org.apache.nifi.registry.flow.NifiRegistryFlowRegistryClient'')"

definition stringOrDefault :: "string \<Rightarrow> string \<Rightarrow> string" where
  "stringOrDefault value fallback = (if value \<noteq> '''' then value else fallback)"

definition github_properties :: "GitHubFlowRegistrySpec \<Rightarrow> go_map" where
  "github_properties gh =
     [(''Authentication Type'', if gh_PersonalAccessTokenSecretRef gh \<noteq> None then ''PERSONAL_ACCESS_TOKEN'' else ''NONE''),
      (''GitHub API URL'', stringOrDefault (gh_APIURL gh) ''https://api.github.com/''),
      (''Default Branch'', stringOrDefault (gh_DefaultBranch gh) ''main'')] @
     (if gh_RepositoryPath gh \<noteq> '''' then [(''Repository Path'', gh_RepositoryPath gh)] else []) @
     [(''Repository Name'', gh_RepositoryName gh), (''Repository Owner'', gh_RepositoryOwner gh)]"

definition gitlab_properties :: "GitLabFlowRegistrySpec \<Rightarrow> go_map" where
  "gitlab_properties gl =
     [(''Authentication Type'', ''ACCESS_TOKEN''),
      (''GitLab API URL'', stringOrDefault (gl_APIURL gl) ''https://gitlab.com/''),
      (''Default Branch'', stringOrDefault (gl_DefaultBranch gl) ''main'')] @
     (if gl_RepositoryPath gl \<noteq> '''' then [(''Repository Path'', gl_RepositoryPath gl)] else []) @
     [(''Repository Name'', gl_RepositoryName gl), (''Repository Namespace'', gl_RepositoryNamespace gl)]"

definition with_token ::
  "registry_env \<Rightarrow> string \<Rightarrow> string \<Rightarrow> SecretKeyRef option \<Rightarrow> go_map \<Rightarrow> (go_map \<times> string list \<times> string list) go_result registry_handler" where
  \<comment> \<open>the properties with the token, the sensitive keys and what to wait for\<close>
  "with_token E namespace tokenName ref properties = (case ref of
      None \<Rightarrow> ret (Inr (properties, [], []))
    | Some ref \<Rightarrow> do {
        r \<leftarrow> resolveSecretKey E namespace ref;
        ret (map_sum id (\<lambda>(token, wait).
          if wait \<noteq> '''' then (properties, [tokenName], [wait]) else ((tokenName, token) # properties, [tokenName], [])) r) })"

definition typed_properties :: "registry_env \<Rightarrow> string \<Rightarrow> NiFiRegistryClientSpec \<Rightarrow> (go_map \<times> string list \<times> string list) go_result registry_handler" where
  \<comment> \<open>the switch over \<open>spec.type\<close>\<close>
  "typed_properties E namespace spec =
     (if rcs_Type spec = ''GitHub'' then (case rcs_GitHub spec of
         None \<Rightarrow> ret (Inr ([], [], [''github'']))
       | Some gh \<Rightarrow> with_token E namespace ''Personal Access Token'' (gh_PersonalAccessTokenSecretRef gh) (github_properties gh))
      else if rcs_Type spec = ''GitLab'' then (case rcs_GitLab spec of
         None \<Rightarrow> ret (Inr ([], [], [''gitlab'']))
       | Some gl \<Rightarrow> with_token E namespace ''Access Token'' (gl_AccessTokenSecretRef gl) (gitlab_properties gl))
      else ret (Inr (if rcs_URI spec \<noteq> '''' then [(''url'', rcs_URI spec)] else [], [], [])))"

definition desiredRegistryClient :: "registry_env \<Rightarrow> ((RegistryClientEntity \<times> string \<times> string list) \<times> string list) go_result registry_handler" where
  \<comment> \<open>the entity, the resolved type and the sensitive keys, and what to wait for\<close>
  "desiredRegistryClient E = do {
     instance \<leftarrow> get_obj;
     let spec = ob_Spec instance;
     let resolvedType = registryClientType (rcs_Type spec);
     t \<leftarrow> typed_properties E (ob_Namespace instance) spec;
     (case t of
        Inl err \<Rightarrow> ret (Inl err)
      | Inr (typed, typedKeys, typedWaiting) \<Rightarrow> do {
          r \<leftarrow> resolve_sensitive E (ob_Namespace instance) (rcs_SensitiveProperties spec) (rcs_Properties spec @ typed) typedWaiting;
          ret (map_sum id (\<lambda>(properties, waitingFor).
            ((new_entity \<lparr>rcc_ID = '''', rcc_Name = ob_Name instance, rcc_Type = resolvedType, rcc_Description = rcs_Description spec,
                rcc_Properties = properties\<rparr>, resolvedType, map fst (rcs_SensitiveProperties spec) @ typedKeys), waitingFor)) r) }) }"

definition markRegistryClientReady :: "registry_env \<Rightarrow> string \<Rightarrow> int \<Rightarrow> string \<Rightarrow> go_error option registry_handler" where
  "markRegistryClientReady E nifiID revisionVersion resolvedType =
     mark_ready E ''RegistryClientReady'' ''The NiFi registry client is reconciled.'' nifiID revisionVersion
       (\<lambda>st. st\<lparr>rst_ResolvedType := resolvedType\<rparr>)"

definition registryClientStatusMatches :: "NiFiRegistryClient \<Rightarrow> string \<Rightarrow> int \<Rightarrow> string \<Rightarrow> bool" where
  "registryClientStatusMatches instance nifiID revisionVersion resolvedType \<longleftrightarrow>
     status_matches instance nifiID revisionVersion \<and> rst_ResolvedType (ob_Status instance) = resolvedType"

definition reconcileExistingRegistryClient ::
  "registry_env \<Rightarrow> RegistryClientEntity \<Rightarrow> RegistryClientEntity option \<Rightarrow> string \<Rightarrow> string list \<Rightarrow> outcome registry_handler" where
  "reconcileExistingRegistryClient E desired existing resolvedType sensitiveKeys = (case existing of
      None \<Rightarrow> report_failed E ''NiFiGetFailed'' (empty_response registry_client_kind)
    | Some existing \<Rightarrow> update_in_place registry_client_kind E (registryClientNeedsUpdate desired existing sensitiveKeys) desired existing
        (\<lambda>i n v. registryClientStatusMatches i n v resolvedType) (\<lambda>n v. markRegistryClientReady E n v resolvedType))"

definition reconcileRegistryClientDelete :: "registry_env \<Rightarrow> outcome registry_handler" where
  "reconcileRegistryClientDelete E = delete_frame registry_client_kind E (remove_strict E)"

definition NiFiRegistryClientReconciler_Reconcile :: "registry_env \<Rightarrow> outcome registry_handler" where
  "NiFiRegistryClientReconciler_Reconcile E =
     with_ready_cluster registry_client_kind E (reconcileRegistryClientDelete E) (ret []) (\<lambda>cluster.
       with_endpoint E cluster
         (with_desired E (desiredRegistryClient E) (\<lambda>(entity, resolvedType, sensitiveKeys).
            find_or_create registry_client_kind E '''' entity
              (\<lambda>existing. reconcileExistingRegistryClient E entity existing resolvedType sensitiveKeys)
              (\<lambda>created. settle_ready E (\<lambda>i n v. registryClientStatusMatches i n v resolvedType)
                           (\<lambda>n v. markRegistryClientReady E n v resolvedType) (registryClientEntityID created) (entity_revision created)))))"

end
