(* ===== verification/Tenants.thy ===== *)
theory Tenants
  imports Component_Frame
begin

text \<open>
  Users, user groups and access policies (\<open>phase1_controllers.go\<close>, \<open>tenants.go\<close>,
  \<open>nifipolicy_controller.go\<close>; the entities are those of \<open>pkg/nifi/tenants.go\<close> and \<open>policies.go\<close>).
  A tenant is found by its recorded id, then by its identity, and created otherwise. A policy is shared
  with other writers of the same NiFi policy: the controller adds its grants and takes back only those
  it recorded.
\<close>

section \<open>Entities\<close>

record TenantRef =
  tr_ID :: string
  tr_Component :: "string option" \<comment> \<open>the id of the component, when NiFi sent one\<close>

record UserComponent =
  uc_ID :: string
  uc_Identity :: string

record UserGroupComponent =
  ugc_ID :: string
  ugc_Identity :: string
  ugc_Users :: "TenantRef list"

record AccessPolicyComponent =
  apc_ID :: string
  apc_Resource :: string
  apc_Action :: string
  apc_Users :: "TenantRef list"
  apc_UserGroups :: "TenantRef list"

type_synonym UserEntity = "UserComponent entity"
type_synonym UserGroupEntity = "UserGroupComponent entity"
type_synonym AccessPolicyEntity = "AccessPolicyComponent entity"

definition UserEntityID :: "UserEntity \<Rightarrow> string" where "UserEntityID = entityID uc_ID"
definition UserGroupEntityID :: "UserGroupEntity \<Rightarrow> string" where "UserGroupEntityID = entityID ugc_ID"
definition AccessPolicyEntityID :: "AccessPolicyEntity \<Rightarrow> string" where "AccessPolicyEntityID = entityID apc_ID"

section \<open>Specs and statuses\<close>

record NiFiUserSpec =
  uss_ClusterRef :: ClusterReference
  uss_Identity :: string
  uss_DeletionPolicy :: string

record NiFiUserGroupSpec =
  ugs_ClusterRef :: ClusterReference
  ugs_Identity :: string
  ugs_Users :: "LocalObjectReference list"
  ugs_DeletionPolicy :: string

record NiFiPolicySpec =
  pos_ClusterRef :: ClusterReference
  pos_Resource :: string
  pos_Action :: string
  pos_UserRefs :: "LocalObjectReference list"
  pos_UserGroupRefs :: "LocalObjectReference list"
  pos_DeletionPolicy :: string

record NiFiUserGroupStatus =
  ugst_MemberIDs :: "string list"

record NiFiPolicyStatus =
  post_UserIDs :: "string list"
  post_UserGroupIDs :: "string list"

type_synonym NiFiUser = "(NiFiUserSpec, unit) resource"
type_synonym NiFiUserGroup = "(NiFiUserGroupSpec, NiFiUserGroupStatus) resource"
type_synonym NiFiPolicy = "(NiFiPolicySpec, NiFiPolicyStatus) resource"

type_synonym 'a user_handler = "(NiFiUserSpec, unit, UserEntity, 'a) khandler"
type_synonym 'a user_group_handler = "(NiFiUserGroupSpec, NiFiUserGroupStatus, UserGroupEntity, 'a) khandler"
type_synonym 'a policy_handler = "(NiFiPolicySpec, NiFiPolicyStatus, AccessPolicyEntity, 'a) khandler"
type_synonym user_env = "(NiFiUserSpec, unit, UserEntity) renv"
type_synonym user_group_env = "(NiFiUserGroupSpec, NiFiUserGroupStatus, UserGroupEntity) renv"
type_synonym policy_env = "(NiFiPolicySpec, NiFiPolicyStatus, AccessPolicyEntity) renv"

definition user_kind :: "(NiFiUserSpec, UserEntity) kind" where
  "user_kind = \<lparr>kd_Label = ''user'', kd_ClusterRef = uss_ClusterRef, kd_DeletionPolicy = uss_DeletionPolicy, kd_AdoptID = (\<lambda>_. None),
     kd_EntityID = UserEntityID, kd_Revision = re_Version \<circ> en_Revision,
     kd_Address = (\<lambda>i v e. e\<lparr>en_ID := i, en_Revision := \<lparr>re_Version = v\<rparr>, en_Component := (en_Component e)\<lparr>uc_ID := i\<rparr>\<rparr>)\<rparr>"

definition user_group_kind :: "(NiFiUserGroupSpec, UserGroupEntity) kind" where
  "user_group_kind = \<lparr>kd_Label = ''user group'', kd_ClusterRef = ugs_ClusterRef, kd_DeletionPolicy = ugs_DeletionPolicy, kd_AdoptID = (\<lambda>_. None),
     kd_EntityID = UserGroupEntityID, kd_Revision = re_Version \<circ> en_Revision,
     kd_Address = (\<lambda>i v e. e\<lparr>en_ID := i, en_Revision := \<lparr>re_Version = v\<rparr>, en_Component := (en_Component e)\<lparr>ugc_ID := i\<rparr>\<rparr>)\<rparr>"

definition policy_kind :: "(NiFiPolicySpec, AccessPolicyEntity) kind" where
  "policy_kind = \<lparr>kd_Label = ''access policy'', kd_ClusterRef = pos_ClusterRef, kd_DeletionPolicy = pos_DeletionPolicy, kd_AdoptID = (\<lambda>_. None),
     kd_EntityID = AccessPolicyEntityID, kd_Revision = re_Version \<circ> en_Revision,
     kd_Address = (\<lambda>i v e. e\<lparr>en_ID := i, en_Revision := \<lparr>re_Version = v\<rparr>, en_Component := (en_Component e)\<lparr>apc_ID := i\<rparr>\<rparr>)\<rparr>"

section \<open>Sets of tenants\<close>

definition tenantRefs :: "string list \<Rightarrow> TenantRef list" where
  "tenantRefs ids = map (\<lambda>i. \<lparr>tr_ID = i, tr_Component = None\<rparr>) ids"

definition tenantRefID :: "TenantRef \<Rightarrow> string" where
  "tenantRefID ref = (if tr_ID ref \<noteq> '''' then tr_ID ref else case tr_Component ref of Some i \<Rightarrow> i | None \<Rightarrow> '''')"

definition sameStringSet :: "string list \<Rightarrow> string list \<Rightarrow> bool" where
  "sameStringSet left right \<longleftrightarrow> length left = length right \<and> list_all (\<lambda>value. value \<in> set left) right"

definition sameTenantSet :: "TenantRef list \<Rightarrow> TenantRef list \<Rightarrow> bool" where
  "sameTenantSet left right \<longleftrightarrow> length left = length right \<and> list_all (\<lambda>ref. tenantRefID ref \<in> tenantRefID ` set left) right"

definition tenantSetContainsAll :: "TenantRef list \<Rightarrow> TenantRef list \<Rightarrow> bool" where
  "tenantSetContainsAll existing desired \<longleftrightarrow>
     (let seen = filter (\<lambda>i. i \<noteq> '''') (map tenantRefID existing) in
      list_all (\<lambda>ref. \<not> (tenantRefID ref \<noteq> '''' \<and> tenantRefID ref \<notin> set seen)) desired)"

fun merge_each :: "string list \<Rightarrow> TenantRef list \<Rightarrow> TenantRef list" where
  \<comment> \<open>the references to append; \<open>seen\<close> are the ids present so far\<close>
  "merge_each seen [] = []"
| "merge_each seen (ref # rest) = (let i = tenantRefID ref in
     if i = '''' \<or> i \<in> set seen then merge_each seen rest
     else \<lparr>tr_ID = i, tr_Component = None\<rparr> # merge_each (i # seen) rest)"

definition mergeTenantRefs :: "TenantRef list \<Rightarrow> TenantRef list \<Rightarrow> TenantRef list" where
  "mergeTenantRefs existing desired = existing @ merge_each (filter (\<lambda>i. i \<noteq> '''') (map tenantRefID existing)) desired"

definition removeTenantRefs :: "TenantRef list \<Rightarrow> string list \<Rightarrow> TenantRef list" where
  "removeTenantRefs existing removeIDs =
     (let remove = filter (\<lambda>i. i \<noteq> '''') removeIDs in filter (\<lambda>ref. tenantRefID ref \<notin> set remove) existing)"

section \<open>Finding a tenant\<close>

definition create_tenant :: "('sp, 'e) kind \<Rightarrow> ('sp, 'st, 'e) renv \<Rightarrow> 'e \<Rightarrow> ('e \<Rightarrow> ('sp, 'st, 'e, go_error option) khandler) \<Rightarrow> ('sp, 'st, 'e, outcome) khandler" where
  \<comment> \<open>the created entity is dereferenced without a check\<close>
  "create_tenant K E entity mark = do {
     c \<leftarrow> k_Create E '''' entity;
     (case c of
        Inl err \<Rightarrow> report_failed E ''NiFiCreateFailed'' (failed_to ''create'' K err)
      | Inr created \<Rightarrow> (case created of
           None \<Rightarrow> ret (no_result, Some (errorf ''invalid memory address or nil pointer dereference''))
         | Some created \<Rightarrow> do { u \<leftarrow> mark created; ret (no_result, u) })) }"

definition find_recorded ::
  "('sp, 'e) kind \<Rightarrow> ('sp, 'st, 'e) renv \<Rightarrow> ('e \<Rightarrow> ('sp, 'st, 'e, outcome) khandler) \<Rightarrow> ('sp, 'st, 'e, outcome) khandler \<Rightarrow> ('sp, 'st, 'e, outcome) khandler" where
  \<comment> \<open>by the recorded id; a tenant that is gone is searched for again\<close>
  "find_recorded K E existing_path search = do {
     instance \<leftarrow> get_obj;
     (if cs_NiFiID (ob_Common instance) \<noteq> '''' then do {
        g \<leftarrow> k_Get E (cs_NiFiID (ob_Common instance));
        (case g of
           Inl err \<Rightarrow> (if \<not> IsNotFound err then report_failed E ''NiFiGetFailed'' (failed_to ''get'' K err) else search)
         | Inr existing \<Rightarrow> (case existing of Some existing \<Rightarrow> existing_path existing | None \<Rightarrow> search)) }
      else search) }"

definition find_listed ::
  "('sp, 'e) kind \<Rightarrow> ('sp, 'st, 'e) renv \<Rightarrow> ('e list \<Rightarrow> 'e option) \<Rightarrow> ('e \<Rightarrow> ('sp, 'st, 'e, outcome) khandler) \<Rightarrow> ('sp, 'st, 'e, outcome) khandler \<Rightarrow> ('sp, 'st, 'e, outcome) khandler" where
  "find_listed K E select existing_path create = do {
     l \<leftarrow> k_List E;
     (case l of
        Inl err \<Rightarrow> report_failed E ''NiFiListFailed'' (''Failed to list NiFi '' @ kd_Label K @ ''s: '' @ err_text err)
      | Inr all \<Rightarrow> (case select all of Some existing \<Rightarrow> existing_path existing | None \<Rightarrow> create)) }"

section \<open>Users\<close>

definition findUserByIdentity :: "UserEntity list \<Rightarrow> string \<Rightarrow> UserEntity option" where
  "findUserByIdentity users identity = find (\<lambda>u. uc_Identity (en_Component u) = identity) users"

definition markUserReady :: "user_env \<Rightarrow> string \<Rightarrow> int \<Rightarrow> go_error option user_handler" where
  "markUserReady E nifiID revisionVersion =
     mark_ready E ''UserReady'' ''The NiFi user tenant is reconciled.'' nifiID revisionVersion (\<lambda>st. st)"

definition userStatusMatches :: "NiFiUser \<Rightarrow> string \<Rightarrow> int \<Rightarrow> bool" where
  "userStatusMatches = status_matches"

definition reconcileExistingUser :: "user_env \<Rightarrow> UserEntity \<Rightarrow> outcome user_handler" where
  "reconcileExistingUser E existing = do {
     instance \<leftarrow> get_obj;
     let identity = uss_Identity (ob_Spec instance);
     update_in_place user_kind E (uc_Identity (en_Component existing) \<noteq> identity)
       (existing\<lparr>en_Component := (en_Component existing)\<lparr>uc_Identity := identity\<rparr>\<rparr>) existing userStatusMatches (markUserReady E) }"

definition reconcileUserDelete :: "user_env \<Rightarrow> outcome user_handler" where
  "reconcileUserDelete E = delete_frame user_kind E (remove_recorded E)"

definition NiFiUserReconciler_Reconcile :: "user_env \<Rightarrow> outcome user_handler" where
  "NiFiUserReconciler_Reconcile E =
     with_ready_cluster user_kind E (reconcileUserDelete E) (ret []) (\<lambda>cluster.
       with_endpoint E cluster (do {
         instance \<leftarrow> get_obj;
         find_recorded user_kind E (reconcileExistingUser E)
           (find_listed user_kind E (\<lambda>all. findUserByIdentity all (uss_Identity (ob_Spec instance))) (reconcileExistingUser E)
              (create_tenant user_kind E (new_entity \<lparr>uc_ID = '''', uc_Identity = uss_Identity (ob_Spec instance)\<rparr>)
                 (\<lambda>created. markUserReady E (UserEntityID created) (re_Version (en_Revision created))))) }))"

section \<open>User groups\<close>

definition findUserGroupByIdentity :: "UserGroupEntity list \<Rightarrow> string \<Rightarrow> UserGroupEntity option" where
  "findUserGroupByIdentity groups identity = find (\<lambda>g. ugc_Identity (en_Component g) = identity) groups"

definition userGroupNeedsUpdate :: "UserGroupEntity \<Rightarrow> UserGroupComponent \<Rightarrow> bool" where
  "userGroupNeedsUpdate existing desired \<longleftrightarrow>
     (if ugc_Identity (en_Component existing) \<noteq> ugc_Identity desired then True
      else \<not> sameTenantSet (ugc_Users (en_Component existing)) (ugc_Users desired))"

definition markUserGroupReady :: "user_group_env \<Rightarrow> string list \<Rightarrow> string \<Rightarrow> int \<Rightarrow> go_error option user_group_handler" where
  "markUserGroupReady E memberIDs nifiID revisionVersion =
     mark_ready E ''UserGroupReady'' ''The NiFi user group tenant is reconciled.'' nifiID revisionVersion (\<lambda>st. st\<lparr>ugst_MemberIDs := memberIDs\<rparr>)"

definition userGroupStatusMatches :: "string list \<Rightarrow> NiFiUserGroup \<Rightarrow> string \<Rightarrow> int \<Rightarrow> bool" where
  "userGroupStatusMatches memberIDs instance nifiID revisionVersion \<longleftrightarrow>
     status_matches instance nifiID revisionVersion \<and> sameStringSet (ugst_MemberIDs (ob_Status instance)) memberIDs"

primrec member_dependencies :: "user_group_env \<Rightarrow> string \<Rightarrow> LocalObjectReference list \<Rightarrow> string list user_group_handler" where
  "member_dependencies E namespace [] = ret []"
| "member_dependencies E namespace (member # rest) =
     (if lr_Name member = '''' then do { w \<leftarrow> member_dependencies E namespace rest; ret (''users[].userRef.name'' # w) }
      else do {
        let refNamespace = localObjectRefNamespace namespace member;
        r \<leftarrow> k_GetTenant E ''NiFiUser'' refNamespace (lr_Name member);
        w \<leftarrow> member_dependencies E namespace rest;
        ret (waiting_name ''NiFiUser'' refNamespace (lr_Name member) (map_sum id tn_Ready r) @ w) })"

definition userGroupMemberDependenciesWaitingFor :: "user_group_env \<Rightarrow> string list user_group_handler" where
  "userGroupMemberDependenciesWaitingFor E = do {
     userGroup \<leftarrow> get_obj;
     member_dependencies E (ob_Namespace userGroup) (ugs_Users (ob_Spec userGroup)) }"

definition clusterRefIndexValue :: "string \<Rightarrow> ClusterReference \<Rightarrow> string" where
  "clusterRefIndexValue namespace ref = (if cr_Name ref = '''' then '''' else clusterRefNamespace namespace ref @ ''/'' @ cr_Name ref)"

primrec member_mismatch :: "user_group_env \<Rightarrow> string \<Rightarrow> string \<Rightarrow> LocalObjectReference list \<Rightarrow> string go_result user_group_handler" where
  "member_mismatch E namespace groupCluster [] = ret (Inr '''')"
| "member_mismatch E namespace groupCluster (member # rest) =
     (if lr_Name member = '''' then member_mismatch E namespace groupCluster rest
      else do {
        let refNamespace = localObjectRefNamespace namespace member;
        r \<leftarrow> k_GetTenant E ''NiFiUser'' refNamespace (lr_Name member);
        (case r of
           Inl err \<Rightarrow> (if IsNotFound err then member_mismatch E namespace groupCluster rest else ret (Inl err))
         | Inr user \<Rightarrow>
            (if clusterRefIndexValue refNamespace (tn_ClusterRef user) \<noteq> groupCluster then ret (Inr (refNamespace @ ''/'' @ lr_Name member))
             else member_mismatch E namespace groupCluster rest)) })"

definition userGroupMemberClusterMismatch :: "user_group_env \<Rightarrow> string go_result user_group_handler" where
  "userGroupMemberClusterMismatch E = do {
     userGroup \<leftarrow> get_obj;
     member_mismatch E (ob_Namespace userGroup) (clusterRefIndexValue (ob_Namespace userGroup) (ugs_ClusterRef (ob_Spec userGroup)))
       (ugs_Users (ob_Spec userGroup)) }"

primrec tenant_ids :: "('sp, 'st, 'e) renv \<Rightarrow> string \<Rightarrow> string \<Rightarrow> LocalObjectReference list \<Rightarrow> ('sp, 'st, 'e, string list go_result) khandler" where
  \<comment> \<open>the recorded ids of the referenced tenants, those without one left out\<close>
  "tenant_ids E kind namespace [] = ret (Inr [])"
| "tenant_ids E kind namespace (ref # rest) = do {
     r \<leftarrow> k_GetTenant E kind (localObjectRefNamespace namespace ref) (lr_Name ref);
     (case r of
        Inl err \<Rightarrow> ret (Inl err)
      | Inr tenant \<Rightarrow> do {
          ids \<leftarrow> tenant_ids E kind namespace rest;
          ret (map_sum id (\<lambda>ids. if tn_NiFiID tenant \<noteq> '''' then tn_NiFiID tenant # ids else ids) ids) }) }"

definition resolveUserGroupMemberIDs :: "user_group_env \<Rightarrow> string list go_result user_group_handler" where
  "resolveUserGroupMemberIDs E = do {
     instance \<leftarrow> get_obj;
     tenant_ids E ''NiFiUser'' (ob_Namespace instance) (ugs_Users (ob_Spec instance)) }"

definition reconcileExistingUserGroup :: "user_group_env \<Rightarrow> UserGroupComponent \<Rightarrow> string list \<Rightarrow> UserGroupEntity \<Rightarrow> outcome user_group_handler" where
  "reconcileExistingUserGroup E desired memberIDs existing =
     update_in_place user_group_kind E (userGroupNeedsUpdate existing desired) (new_entity desired) existing
       (userGroupStatusMatches memberIDs) (markUserGroupReady E memberIDs)"

definition reconcileUserGroupDelete :: "user_group_env \<Rightarrow> outcome user_group_handler" where
  "reconcileUserGroupDelete E = delete_frame user_group_kind E (remove_recorded E)"

definition write_user_group :: "user_group_env \<Rightarrow> string \<Rightarrow> string list \<Rightarrow> outcome user_group_handler" where
  "write_user_group E identity memberIDs =
     (let desired = \<lparr>ugc_ID = '''', ugc_Identity = identity, ugc_Users = tenantRefs memberIDs\<rparr> in
      find_recorded user_group_kind E (reconcileExistingUserGroup E desired memberIDs)
        (find_listed user_group_kind E (\<lambda>all. findUserGroupByIdentity all identity) (reconcileExistingUserGroup E desired memberIDs)
           (create_tenant user_group_kind E (new_entity desired)
              (\<lambda>created. markUserGroupReady E memberIDs (UserGroupEntityID created) (re_Version (en_Revision created))))))"

definition group_with_members :: "user_group_env \<Rightarrow> outcome user_group_handler" where
  "group_with_members E = do {
     instance \<leftarrow> get_obj;
     ids \<leftarrow> resolveUserGroupMemberIDs E;
     (case ids of
        Inl err \<Rightarrow> ret (no_result, Some err)
      | Inr memberIDs \<Rightarrow> write_user_group E (ugs_Identity (ob_Spec instance)) memberIDs) }"

definition reconcile_user_group :: "user_group_env \<Rightarrow> NiFiCluster \<Rightarrow> outcome user_group_handler" where
  \<comment> \<open>the part of \<open>Reconcile\<close> behind the dependency checks\<close>
  "reconcile_user_group E cluster =
     with_endpoint E cluster (do {
       m \<leftarrow> userGroupMemberClusterMismatch E;
       (case m of
          Inl err \<Rightarrow> ret (no_result, Some err)
        | Inr mismatch \<Rightarrow>
           (if mismatch \<noteq> ''''
            then report_failed E ''MemberClusterMismatch''
                   (''Member '' @ quoteq mismatch @ '' references a different NiFiCluster than the group; a NiFi user group can only contain users from its own cluster.'')
            else group_with_members E)) })"

definition NiFiUserGroupReconciler_Reconcile :: "user_group_env \<Rightarrow> outcome user_group_handler" where
  "NiFiUserGroupReconciler_Reconcile E =
     with_ready_cluster user_group_kind E (reconcileUserGroupDelete E) (userGroupMemberDependenciesWaitingFor E) (reconcile_user_group E)"

section \<open>Access policies\<close>

definition policyNeedsUpdate :: "AccessPolicyEntity \<Rightarrow> AccessPolicyComponent \<Rightarrow> bool" where
  "policyNeedsUpdate existing desired \<longleftrightarrow>
     \<not> tenantSetContainsAll (apc_Users (en_Component existing)) (apc_Users desired) \<or>
     \<not> tenantSetContainsAll (apc_UserGroups (en_Component existing)) (apc_UserGroups desired)"

definition merged_policy :: "AccessPolicyEntity \<Rightarrow> AccessPolicyComponent \<Rightarrow> AccessPolicyComponent" where
  "merged_policy existing desired = desired\<lparr>
     apc_Users := mergeTenantRefs (apc_Users (en_Component existing)) (apc_Users desired),
     apc_UserGroups := mergeTenantRefs (apc_UserGroups (en_Component existing)) (apc_UserGroups desired)\<rparr>"

definition markPolicyReady :: "policy_env \<Rightarrow> string list \<Rightarrow> string list \<Rightarrow> string \<Rightarrow> int \<Rightarrow> go_error option policy_handler" where
  "markPolicyReady E userIDs groupIDs nifiID revisionVersion =
     mark_ready E ''PolicyReady'' ''The NiFi access policy is reconciled.'' nifiID revisionVersion
       (\<lambda>st. st\<lparr>post_UserIDs := userIDs, post_UserGroupIDs := groupIDs\<rparr>)"

definition policyStatusMatches :: "string list \<Rightarrow> string list \<Rightarrow> NiFiPolicy \<Rightarrow> string \<Rightarrow> int \<Rightarrow> bool" where
  "policyStatusMatches userIDs groupIDs instance nifiID revisionVersion \<longleftrightarrow>
     status_matches instance nifiID revisionVersion \<and> sameStringSet (post_UserIDs (ob_Status instance)) userIDs \<and>
     sameStringSet (post_UserGroupIDs (ob_Status instance)) groupIDs"

primrec tenant_dependencies :: "policy_env \<Rightarrow> string \<Rightarrow> string \<Rightarrow> LocalObjectReference list \<Rightarrow> string list policy_handler" where
  "tenant_dependencies E kind namespace [] = ret []"
| "tenant_dependencies E kind namespace (ref # rest) = do {
     let refNamespace = localObjectRefNamespace namespace ref;
     r \<leftarrow> k_GetTenant E kind refNamespace (lr_Name ref);
     w \<leftarrow> tenant_dependencies E kind namespace rest;
     ret (waiting_name kind refNamespace (lr_Name ref) (map_sum id (\<lambda>t. tn_Ready t \<and> tn_NiFiID t \<noteq> '''') r) @ w) }"

definition policyDependenciesWaitingFor :: "policy_env \<Rightarrow> string list policy_handler" where
  "policyDependenciesWaitingFor E = do {
     instance \<leftarrow> get_obj;
     users \<leftarrow> tenant_dependencies E ''NiFiUser'' (ob_Namespace instance) (pos_UserRefs (ob_Spec instance));
     groups \<leftarrow> tenant_dependencies E ''NiFiUserGroup'' (ob_Namespace instance) (pos_UserGroupRefs (ob_Spec instance));
     ret (users @ groups) }"

definition resolvePolicyTenants :: "policy_env \<Rightarrow> (string list \<times> string list) go_result policy_handler" where
  "resolvePolicyTenants E = do {
     instance \<leftarrow> get_obj;
     users \<leftarrow> tenant_ids E ''NiFiUser'' (ob_Namespace instance) (pos_UserRefs (ob_Spec instance));
     (case users of
        Inl err \<Rightarrow> ret (Inl err)
      | Inr userIDs \<Rightarrow> do {
          groups \<leftarrow> tenant_ids E ''NiFiUserGroup'' (ob_Namespace instance) (pos_UserGroupRefs (ob_Spec instance));
          ret (map_sum id (\<lambda>groupIDs. (userIDs, groupIDs)) groups) }) }"

definition reconcileExistingPolicy :: "policy_env \<Rightarrow> AccessPolicyComponent \<Rightarrow> string list \<Rightarrow> string list \<Rightarrow> AccessPolicyEntity \<Rightarrow> outcome policy_handler" where
  "reconcileExistingPolicy E desired userIDs groupIDs existing =
     update_in_place policy_kind E (policyNeedsUpdate existing desired) (new_entity (merged_policy existing desired)) existing
       (policyStatusMatches userIDs groupIDs) (markPolicyReady E userIDs groupIDs)"

definition policyGetFailed :: "policy_env \<Rightarrow> go_error \<Rightarrow> outcome policy_handler" where
  "policyGetFailed E err = report_failed E ''NiFiGetFailed'' (failed_to ''get'' policy_kind err)"

definition find_for_resource :: "policy_env \<Rightarrow> NiFiPolicySpec \<Rightarrow> (AccessPolicyEntity \<Rightarrow> outcome policy_handler) \<Rightarrow> outcome policy_handler \<Rightarrow> outcome policy_handler" where
  \<comment> \<open>an answer for another resource is an inherited policy and is not the one to change\<close>
  "find_for_resource E spec existing_path create = do {
     g \<leftarrow> k_Find E (pos_Action spec) (pos_Resource spec);
     (case g of
        Inl err \<Rightarrow> (if \<not> IsNotFound err then policyGetFailed E err else create)
      | Inr found \<Rightarrow> (case found of
           None \<Rightarrow> create
         | Some existing \<Rightarrow>
            (if apc_Resource (en_Component existing) = pos_Resource spec \<and> apc_Action (en_Component existing) = pos_Action spec
             then existing_path existing else create))) }"

definition revoke_grants :: "policy_env \<Rightarrow> outcome policy_handler" where
  \<comment> \<open>the part of \<open>reconcilePolicyDelete\<close> behind the deletion frame\<close>
  "revoke_grants E = do {
     instance \<leftarrow> get_obj;
     let nifiID = cs_NiFiID (ob_Common instance);
     g \<leftarrow> k_Get E nifiID;
     (case g of
        Inl err \<Rightarrow> (if IsNotFound err then finish E else ret (requeue_after 30, Some err))
      | Inr existing \<Rightarrow> (case existing of
           None \<Rightarrow> finish E
         | Some existing \<Rightarrow>
            (let component = en_Component existing;
                 remainingUsers = removeTenantRefs (apc_Users component) (post_UserIDs (ob_Status instance));
                 remainingGroups = removeTenantRefs (apc_UserGroups component) (post_UserGroupIDs (ob_Status instance)) in
             if remainingUsers = [] \<and> remainingGroups = [] then delete_tolerant E nifiID (re_Version (en_Revision existing))
             else if \<not> sameTenantSet remainingUsers (apc_Users component) \<or> \<not> sameTenantSet remainingGroups (apc_UserGroups component) then do {
               r \<leftarrow> k_Update E \<lparr>en_ID = nifiID, en_Revision = en_Revision existing,
                      en_Component = \<lparr>apc_ID = nifiID, apc_Resource = apc_Resource component, apc_Action = apc_Action component,
                        apc_Users = remainingUsers, apc_UserGroups = remainingGroups\<rparr>\<rparr>;
               (case r of Inl err \<Rightarrow> ret (requeue_after 30, Some err) | Inr _ \<Rightarrow> finish E) }
             else finish E))) }"

definition reconcilePolicyDelete :: "policy_env \<Rightarrow> outcome policy_handler" where
  "reconcilePolicyDelete E = delete_frame policy_kind E (revoke_grants E)"

definition reconcile_policy :: "policy_env \<Rightarrow> NiFiCluster \<Rightarrow> outcome policy_handler" where
  \<comment> \<open>the part of \<open>Reconcile\<close> behind the dependency checks\<close>
  "reconcile_policy E cluster =
     with_endpoint E cluster (do {
       instance \<leftarrow> get_obj;
       let spec = ob_Spec instance;
       t \<leftarrow> resolvePolicyTenants E;
       (case t of
          Inl err \<Rightarrow> ret (no_result, Some err)
        | Inr (userIDs, groupIDs) \<Rightarrow>
           (let desired = \<lparr>apc_ID = '''', apc_Resource = pos_Resource spec, apc_Action = pos_Action spec,
                  apc_Users = tenantRefs userIDs, apc_UserGroups = tenantRefs groupIDs\<rparr>;
                existing_path = reconcileExistingPolicy E desired userIDs groupIDs in
            find_recorded policy_kind E existing_path
              (find_for_resource E spec existing_path
                 (create_tenant policy_kind E (new_entity desired)
                    (\<lambda>created. markPolicyReady E userIDs groupIDs (AccessPolicyEntityID created) (re_Version (en_Revision created))))))) })"

definition NiFiPolicyReconciler_Reconcile :: "policy_env \<Rightarrow> outcome policy_handler" where
  "NiFiPolicyReconciler_Reconcile E =
     with_ready_cluster policy_kind E (reconcilePolicyDelete E) (policyDependenciesWaitingFor E) (reconcile_policy E)"

end
