(* ===== verification/Parameter_Context.thy ===== *)
theory Parameter_Context
  imports Component_Frame
begin

text \<open>
  Parameter contexts (\<open>internal/controller/phase1_controllers.go\<close>, \<open>support.go\<close>; entities of
  \<open>pkg/nifi/client.go\<close>). An existing context is changed through an asynchronous update request that
  the controller records in the status and polls.
\<close>

section \<open>Entities, spec and status\<close>

record Parameter =
  pm_Name :: string
  pm_Description :: string
  pm_Sensitive :: bool
  pm_Value :: "string option"

record ParameterContextComponent =
  pcc_ID :: string
  pcc_Name :: string
  pcc_Description :: string
  pcc_Parameters :: "Parameter list"

type_synonym ParameterContextEntity = "ParameterContextComponent entity"

record DeclaredParameter =
  \<comment> \<open>\<open>Parameter\<close> of \<open>nifiparametercontext_types.go\<close>\<close>
  dpm_Name :: string
  dpm_Value :: string
  dpm_Description :: string
  dpm_SensitiveValueFrom :: "SensitivePropertySource option"

record NiFiParameterContextSpec =
  pcs_ClusterRef :: ClusterReference
  pcs_Description :: string
  pcs_Parameters :: "DeclaredParameter list"
  pcs_DeletionPolicy :: string
  pcs_AdoptionPolicy :: AdoptionPolicy

record ParameterContextUpdateRequestStatus =
  us_ID :: string
  us_URI :: string
  us_SubmissionTime :: string
  us_LastUpdated :: string
  us_Complete :: bool
  us_FailureReason :: string
  us_PercentCompleted :: int
  us_State :: string

record NiFiParameterContextStatus =
  pcst_LatestUpdateRequest :: "ParameterContextUpdateRequestStatus option"

type_synonym NiFiParameterContext = "(NiFiParameterContextSpec, NiFiParameterContextStatus) resource"
type_synonym 'a context_handler = "(NiFiParameterContextSpec, NiFiParameterContextStatus, ParameterContextEntity, 'a) khandler"
type_synonym context_env = "(NiFiParameterContextSpec, NiFiParameterContextStatus, ParameterContextEntity) renv"

definition parameterContextEntityID :: "ParameterContextEntity \<Rightarrow> string" where "parameterContextEntityID = entityID pcc_ID"

definition parameter_context_kind :: "(NiFiParameterContextSpec, ParameterContextEntity) kind" where
  "parameter_context_kind = \<lparr>kd_Label = ''parameter context'', kd_ClusterRef = pcs_ClusterRef, kd_DeletionPolicy = pcs_DeletionPolicy,
     kd_AdoptID = (\<lambda>_. None), kd_EntityID = parameterContextEntityID, kd_Revision = re_Version \<circ> en_Revision,
     kd_Address = (\<lambda>i v e. e\<lparr>en_ID := i, en_Revision := \<lparr>re_Version = v\<rparr>, en_Component := (en_Component e)\<lparr>pcc_ID := i\<rparr>\<rparr>)\<rparr>"

section \<open>The desired context and its comparison\<close>

primrec resolve_parameters ::
  "context_env \<Rightarrow> string \<Rightarrow> DeclaredParameter list \<Rightarrow> Parameter list \<Rightarrow> string list \<Rightarrow> (Parameter list \<times> string list) go_result context_handler" where
  "resolve_parameters E namespace [] parameters waitingFor = ret (Inr (parameters, waitingFor))"
| "resolve_parameters E namespace (declared # rest) parameters waitingFor =
     (let entity = (\<lambda>sensitive value. \<lparr>pm_Name = dpm_Name declared, pm_Description = dpm_Description declared,
            pm_Sensitive = sensitive, pm_Value = Some value\<rparr>) in
      case dpm_SensitiveValueFrom declared of
        None \<Rightarrow> resolve_parameters E namespace rest (parameters @ [entity False (dpm_Value declared)]) waitingFor
      | Some source \<Rightarrow> (case source of
           None \<Rightarrow> resolve_parameters E namespace rest parameters
                    (waitingFor @ [''Parameter/'' @ dpm_Name declared @ '':sensitiveValueFrom.secretKeyRef''])
         | Some secretRef \<Rightarrow> do {
             r \<leftarrow> resolveSecretKey E namespace secretRef;
             (case r of
                Inl err \<Rightarrow> ret (Inl err)
              | Inr (value, wait) \<Rightarrow>
                 (if wait \<noteq> '''' then resolve_parameters E namespace rest parameters (waitingFor @ [wait])
                  else resolve_parameters E namespace rest (parameters @ [entity True value]) waitingFor)) }))"

definition desiredParameterContext :: "context_env \<Rightarrow> (ParameterContextEntity \<times> string list) go_result context_handler" where
  "desiredParameterContext E = do {
     instance \<leftarrow> get_obj;
     r \<leftarrow> resolve_parameters E (ob_Namespace instance) (pcs_Parameters (ob_Spec instance)) [] [];
     ret (map_sum id (\<lambda>(parameters, waitingFor).
       (new_entity \<lparr>pcc_ID = '''', pcc_Name = ob_Name instance, pcc_Description = pcs_Description (ob_Spec instance),
          pcc_Parameters = parameters\<rparr>, waitingFor)) r) }"

definition parameterContextByID :: "ParameterContextEntity list \<Rightarrow> string \<Rightarrow> ParameterContextEntity option" where
  "parameterContextByID contexts i =
     (if i = '''' then None else find (\<lambda>c. en_ID c = i \<or> pcc_ID (en_Component c) = i) contexts)"

definition parameterContextByName :: "ParameterContextEntity list \<Rightarrow> string \<Rightarrow> ParameterContextEntity option" where
  "parameterContextByName contexts name = find (\<lambda>c. pcc_Name (en_Component c) = name) contexts"

definition parameterContextAdoptionAllowed :: "AdoptionPolicy \<Rightarrow> bool" where
  "parameterContextAdoptionAllowed policy \<longleftrightarrow> ap_Mode policy = ''IfExists'' \<or> ap_Mode policy = ''AdoptByName''"

definition parameterValue :: "Parameter \<Rightarrow> string" where
  "parameterValue parameter = (case pm_Value parameter of None \<Rightarrow> '''' | Some v \<Rightarrow> v)"

definition parameter_map :: "Parameter list \<Rightarrow> string \<rightharpoonup> Parameter" where
  \<comment> \<open>\<open>existingParameters[name] = parameter\<close> for each in turn: the last one of a name stays\<close>
  "parameter_map ps = map_of (rev (map (\<lambda>p. (pm_Name p, p)) ps))"

definition parameter_differs :: "(string \<rightharpoonup> Parameter) \<Rightarrow> Parameter \<Rightarrow> bool" where
  "parameter_differs existing desired = (case existing (pm_Name desired) of
      None \<Rightarrow> True
    | Some e \<Rightarrow> pm_Description desired \<noteq> pm_Description e \<or> pm_Sensitive desired \<noteq> pm_Sensitive e \<or>
                \<not> pm_Sensitive desired \<and> parameterValue desired \<noteq> parameterValue e)"

definition parameterContextNeedsUpdate :: "ParameterContextEntity \<Rightarrow> ParameterContextEntity \<Rightarrow> bool" where
  "parameterContextNeedsUpdate desired existing \<longleftrightarrow>
     (let d = en_Component desired; e = en_Component existing in
      if pcc_Name d \<noteq> pcc_Name e \<or> pcc_Description d \<noteq> pcc_Description e then True
      else if length (pcc_Parameters d) \<noteq> length (pcc_Parameters e) then True
      else list_ex (parameter_differs (parameter_map (pcc_Parameters e))) (pcc_Parameters d))"

section \<open>Reports\<close>

definition parameterContextUpdateRequestStatus :: "ParameterContextUpdateRequest option \<Rightarrow> ParameterContextUpdateRequestStatus" where
  "parameterContextUpdateRequestStatus entity = (case entity of
      None \<Rightarrow> \<lparr>us_ID = '''', us_URI = '''', us_SubmissionTime = '''', us_LastUpdated = '''', us_Complete = False,
               us_FailureReason = '''', us_PercentCompleted = 0, us_State = ''''\<rparr>
    | Some request \<Rightarrow> \<lparr>us_ID = ur_RequestID request, us_URI = ur_URI request, us_SubmissionTime = ur_SubmissionTime request,
               us_LastUpdated = ur_LastUpdated request, us_Complete = ur_Complete request, us_FailureReason = ur_FailureReason request,
               us_PercentCompleted = ur_PercentCompleted request, us_State = ur_State request\<rparr>)"

definition set_request :: "ParameterContextUpdateRequestStatus \<Rightarrow> NiFiParameterContext \<Rightarrow> NiFiParameterContext" where
  "set_request request d = d\<lparr>ob_Status := (ob_Status d)\<lparr>pcst_LatestUpdateRequest := Some request\<rparr>\<rparr>"

definition markParameterContextReady :: "context_env \<Rightarrow> string \<Rightarrow> int \<Rightarrow> go_error option context_handler" where
  "markParameterContextReady E nifiID revisionVersion =
     mark_ready E ''ParameterContextReady'' ''The NiFi parameter context is reconciled.'' nifiID revisionVersion (\<lambda>st. st)"

definition markParameterContextUpdateRunning :: "context_env \<Rightarrow> ParameterContextUpdateRequestStatus \<Rightarrow> go_error option context_handler" where
  "markParameterContextUpdateRunning E request = do {
     t \<leftarrow> k_now E;
     upd_obj (\<lambda>d. set_request request (d\<lparr>ob_Common := set_last_error '''' (not_ready_common t (ob_Generation d) ''UpdateRunning''
       ''The NiFi parameter context update request is still running.'' (ob_Common d))\<rparr>));
     k_StatusUpdate E }"

definition parameterContextStatusMatches :: "NiFiParameterContext \<Rightarrow> string \<Rightarrow> int \<Rightarrow> bool" where
  "parameterContextStatusMatches = status_matches"

definition markParameterContextReadyFromNiFi :: "context_env \<Rightarrow> string \<Rightarrow> int \<Rightarrow> outcome context_handler" where
  "markParameterContextReadyFromNiFi E nifiID fallbackRevision = do {
     g \<leftarrow> k_Get E nifiID;
     (case g of
        Inl err \<Rightarrow> report_failed E ''NiFiRefreshFailed'' (''Failed to refresh NiFi parameter context after update: '' @ err_text err)
      | Inr current \<Rightarrow> do {
          u \<leftarrow> markParameterContextReady E nifiID (case current of Some current \<Rightarrow> re_Version (en_Revision current) | None \<Rightarrow> fallbackRevision);
          ret (no_result, u) }) }"

section \<open>Reconcile\<close>

definition update_in_flight :: "NiFiParameterContext \<Rightarrow> ParameterContextUpdateRequestStatus option" where
  \<comment> \<open>\<open>pending != nil && !pending.Complete\<close>\<close>
  "update_in_flight instance = (case pcst_LatestUpdateRequest (ob_Status instance) of
      Some pending \<Rightarrow> if us_Complete pending then None else Some pending | None \<Rightarrow> None)"

definition follow_request :: "context_env \<Rightarrow> string \<Rightarrow> int \<Rightarrow> ParameterContextUpdateRequest option \<Rightarrow> outcome context_handler" where
  \<comment> \<open>what is done with the state of a request, the same after creating and after polling it\<close>
  "follow_request E nifiID revision request = (let status = parameterContextUpdateRequestStatus request in
     if us_FailureReason status \<noteq> '''' then do {
       instance \<leftarrow> get_obj;
       (if shouldMarkResourceNotReady instance ''UpdateRequestFailed'' (us_FailureReason status) then do {
          upd_obj (set_request status);
          u \<leftarrow> mark_resource_not_ready E ''UpdateRequestFailed'' (us_FailureReason status);
          ret (no_result, u) }
        else ret (no_result, None)) }
     else if \<not> us_Complete status then do { u \<leftarrow> markParameterContextUpdateRunning E status; ret (requeue_after 5, u) }
     else do { upd_obj (set_request status); markParameterContextReadyFromNiFi E nifiID revision })"

definition reconcileExistingParameterContext :: "context_env \<Rightarrow> ParameterContextEntity \<Rightarrow> ParameterContextEntity option \<Rightarrow> outcome context_handler" where
  "reconcileExistingParameterContext E desired existing = (case existing of
      None \<Rightarrow> report_failed E ''NiFiGetFailed'' (empty_response parameter_context_kind)
    | Some existing \<Rightarrow> do {
        instance \<leftarrow> get_obj;
        let nifiID = parameterContextEntityID existing;
        let version = re_Version (en_Revision existing);
        (case update_in_flight instance of
           Some pending \<Rightarrow> do {
             r \<leftarrow> k_GetUpdateRequest E nifiID (us_ID pending);
             (case r of
                Inl err \<Rightarrow> report_failed E ''UpdateRequestGetFailed'' (''Failed to get NiFi parameter context update request: '' @ err_text err)
              | Inr request \<Rightarrow> follow_request E nifiID version request) }
         | None \<Rightarrow>
            (if parameterContextNeedsUpdate desired existing then do {
               r \<leftarrow> k_CreateUpdateRequest E nifiID (kd_Address parameter_context_kind nifiID version desired);
               (case r of
                  Inl err \<Rightarrow> report_failed E ''UpdateRequestCreateFailed'' (''Failed to create NiFi parameter context update request: '' @ err_text err)
                | Inr request \<Rightarrow> follow_request E nifiID version request) }
             else settle_ready E parameterContextStatusMatches (markParameterContextReady E) nifiID version)) })"

definition reconcileParameterContextDelete :: "context_env \<Rightarrow> outcome context_handler" where
  "reconcileParameterContextDelete E = delete_frame parameter_context_kind E (remove_stored parameter_context_kind E)"

definition read_full :: "context_env \<Rightarrow> ParameterContextEntity \<Rightarrow> ParameterContextEntity \<Rightarrow> outcome context_handler" where
  "read_full E entity existing = do {
     g \<leftarrow> k_Get E (parameterContextEntityID existing);
     (case g of
        Inl err \<Rightarrow> report_failed E ''NiFiGetFailed'' (failed_to ''get'' parameter_context_kind err)
      | Inr full \<Rightarrow> reconcileExistingParameterContext E entity full) }"

definition reconcile_listed :: "context_env \<Rightarrow> ParameterContextEntity \<Rightarrow> ParameterContextEntity list \<Rightarrow> outcome context_handler" where
  "reconcile_listed E entity contexts = do {
     instance \<leftarrow> get_obj;
     let nifiID = cs_NiFiID (ob_Common instance);
     (case parameterContextByID contexts nifiID of
        Some existing \<Rightarrow> read_full E entity existing
      | None \<Rightarrow> (case update_in_flight instance of
           Some pending \<Rightarrow> report_not_ready E ''UpdateTargetNotFound''
             (''NiFi parameter context update request '' @ quoteq (us_ID pending) @ '' is pending, but parameter context '' @ quoteq nifiID @ '' was not found.'')
             no_result no_result
         | None \<Rightarrow> (case parameterContextByName contexts (ob_Name instance) of
              Some existing \<Rightarrow>
                (if \<not> parameterContextAdoptionAllowed (pcs_AdoptionPolicy (ob_Spec instance)) \<and> nifiID = ''''
                 then report_not_ready E ''AdoptionRequired''
                   (''A NiFi parameter context named '' @ quoteq (ob_Name instance) @ '' already exists; set adoptionPolicy.mode to AdoptByName or IfExists to manage it.'')
                   no_result no_result
                 else read_full E entity existing)
            | None \<Rightarrow> create_component parameter_context_kind E '''' entity (\<lambda>created.
                settle_ready E parameterContextStatusMatches (markParameterContextReady E)
                  (parameterContextEntityID created) (re_Version (en_Revision created)))))) }"

definition NiFiParameterContextReconciler_Reconcile :: "context_env \<Rightarrow> outcome context_handler" where
  "NiFiParameterContextReconciler_Reconcile E =
     with_ready_cluster parameter_context_kind E (reconcileParameterContextDelete E) (ret []) (\<lambda>cluster.
       with_desired E (desiredParameterContext E) (\<lambda>entity.
         with_endpoint E cluster (do {
           l \<leftarrow> k_List E;
           (case l of
              Inl err \<Rightarrow> report_failed E ''NiFiListFailed'' (''Failed to list NiFi parameter contexts: '' @ err_text err)
            | Inr contexts \<Rightarrow> reconcile_listed E entity contexts) })))"

end
