(* ===== verification/Canvas_Laws.thy ===== *)
theory Canvas_Laws
  imports Component_Laws Component_Sample Service_Objects Tenants Parameter_Context
begin

text \<open>
  The laws of \<open>Component_Laws\<close> for the controllers of all kinds: revisions and run states, deletion, what is
  written and when nothing is.
\<close>

section \<open>The kinds\<close>

lemmas all_kind_defs = kind_defs controller_service_kind_def reporting_task_kind_def parameter_provider_kind_def registry_client_kind_def
  user_kind_def user_group_kind_def policy_kind_def parameter_context_kind_def

lemmas entity_id_defs = entityID_def funnelEntityID_def labelEntityID_def processorEntityID_def controllerServiceEntityID_def
  ReportingTaskEntityID_def ParameterProviderEntityID_def registryClientEntityID_def portEntityID_def connectionEntityID_def
  UserEntityID_def UserGroupEntityID_def AccessPolicyEntityID_def parameterContextEntityID_def processGroupEntityID_def

interpretation funnel: addressed funnel_kind
  by unfold_locales (simp_all add: all_kind_defs entity_id_defs address_entity_def entity_revision_def)
interpretation label: addressed label_kind
  by unfold_locales (simp_all add: all_kind_defs entity_id_defs address_entity_def entity_revision_def)
interpretation process_group: addressed process_group_kind
  by unfold_locales (simp_all add: all_kind_defs entity_id_defs)
interpretation connection: addressed connection_kind
  by unfold_locales (simp_all add: all_kind_defs entity_id_defs)
interpretation port: addressed "port_kind name" for name
  by unfold_locales (simp_all add: all_kind_defs entity_id_defs)
interpretation processor: addressed processor_kind
  by unfold_locales (simp_all add: all_kind_defs entity_id_defs address_entity_def entity_revision_def)
interpretation service: addressed controller_service_kind
  by unfold_locales (simp_all add: all_kind_defs entity_id_defs address_entity_def entity_revision_def)
interpretation task: addressed reporting_task_kind
  by unfold_locales (simp_all add: all_kind_defs entity_id_defs address_entity_def entity_revision_def)
interpretation provider: addressed parameter_provider_kind
  by unfold_locales (simp_all add: all_kind_defs entity_id_defs address_entity_def entity_revision_def)
interpretation registry: addressed registry_client_kind
  by unfold_locales (simp_all add: all_kind_defs entity_id_defs address_entity_def entity_revision_def)
interpretation user: addressed user_kind
  by unfold_locales (simp_all add: all_kind_defs entity_id_defs)
interpretation user_group: addressed user_group_kind
  by unfold_locales (simp_all add: all_kind_defs entity_id_defs)
interpretation policy: addressed policy_kind
  by unfold_locales (simp_all add: all_kind_defs entity_id_defs)
interpretation parameter_context: addressed parameter_context_kind
  by unfold_locales (simp_all add: all_kind_defs entity_id_defs)

definition fit :: "string \<Rightarrow> bool" where
  "fit validationStatus \<longleftrightarrow> validationStatus \<noteq> ''INVALID'' \<and> validationStatus \<noteq> ''VALIDATING''"

definition port_rules :: "PortEntity run_rules" where
  "port_rules = \<lparr>rr_Running = (\<lambda>p. ptc_State (pt_Component p) = ''RUNNING''), rr_Stop = ''STOPPED'', rr_Start = ''RUNNING'',
     rr_Startable = (\<lambda>p. fit (ptc_ValidationStatus (pt_Component p)))\<rparr>"

definition processor_rules :: "ProcessorEntity run_rules" where
  "processor_rules = \<lparr>rr_Running = processor_running, rr_Stop = ''STOPPED'', rr_Start = ''RUNNING'',
     rr_Startable = (\<lambda>p. fit (prc_ValidationStatus (en_Component p)))\<rparr>"

definition service_rules :: "ControllerServiceEntity run_rules" where
  "service_rules = \<lparr>rr_Running = service_enabled, rr_Stop = ''DISABLED'', rr_Start = ''ENABLED'',
     rr_Startable = (\<lambda>c. fit (csc_ValidationStatus (en_Component c)))\<rparr>"

definition task_rules :: "ReportingTaskEntity run_rules" where
  "task_rules = \<lparr>rr_Running = task_running, rr_Stop = ''STOPPED'', rr_Start = ''RUNNING'',
     rr_Startable = (\<lambda>t. fit (rtc_ValidationStatus (en_Component t)))\<rparr>"

lemma rules_simps [simp]:
  "rr_Running port_rules = (\<lambda>p. ptc_State (pt_Component p) = ''RUNNING'')" "rr_Stop port_rules = ''STOPPED''" "rr_Start port_rules = ''RUNNING''"
  "rr_Startable port_rules = (\<lambda>p. fit (ptc_ValidationStatus (pt_Component p)))"
  "rr_Running processor_rules = processor_running" "rr_Stop processor_rules = ''STOPPED''" "rr_Start processor_rules = ''RUNNING''"
  "rr_Startable processor_rules = (\<lambda>p. fit (prc_ValidationStatus (en_Component p)))"
  "rr_Running service_rules = service_enabled" "rr_Stop service_rules = ''DISABLED''" "rr_Start service_rules = ''ENABLED''"
  "rr_Startable service_rules = (\<lambda>c. fit (csc_ValidationStatus (en_Component c)))"
  "rr_Running task_rules = task_running" "rr_Stop task_rules = ''STOPPED''" "rr_Start task_rules = ''RUNNING''"
  "rr_Startable task_rules = (\<lambda>t. fit (rtc_ValidationStatus (en_Component t)))"
  by (simp_all add: port_rules_def processor_rules_def service_rules_def task_rules_def)

section \<open>Run states\<close>

context law_on_writes
begin

lemma keeps_change_state:
  assumes "\<And>log. knows E current log \<Longrightarrow> P log (KSetRunState nifiID (kd_Revision K current) st)"
    "\<And>current. keeps_when P (knows E current) (continue current)"
  shows "keeps_when P (knows E current) (change_state K E verb nifiID current st continue)"
proof -
  have f: "keeps_when P I (report_failed E reason message)" for I reason message
    by (rule keeps_weaken [OF keeps_reports(4)]) simp
  show ?thesis
    unfolding change_state_def k_SetRunState_def
    by (rule keeps_knowing [where E = E]) (auto intro: assms(1) f knows_weaken [OF assms(2)])
qed

lemma keeps_when_valid:
  assumes "fit validationStatus \<Longrightarrow> keeps_when P I continue"
  shows "keeps_when P I (when_valid E validationStatus reason message seconds continue)"
  unfolding when_valid_def
  by (intro keeps_if keeps_ret keeps_weaken [OF keeps_reports(4)] assms) (simp_all add: fit_def)

lemma keeps_settle: "(\<And>i v. keeps P (mark i v)) \<Longrightarrow> keeps_when P I (settle_ready E matches mark i v)"
  by (rule keeps_weaken [OF keeps_settle_ready]) simp_all

end

section \<open>Comparisons\<close>

lemma positions_equal_refl [simp]: "nifiPositionsEqual p p"
  by (simp add: nifiPositionsEqual_def split: option.split)

lemma position_slices_equal_refl [simp]: "nifiPositionSlicesEqual ps ps"
  by (induction ps) simp_all

lemma string_slices_equal: "stringSlicesEqual xs ys \<longleftrightarrow> xs = ys"
  by (induction xs ys rule: stringSlicesEqual.induct) auto

lemma bundle_differs_refl [simp]: "\<not> bundleDiffers b b"
  by (auto simp: bundleDiffers_def nifiBundlesEqual_def split: option.split)

lemma string_maps_equal_refl [simp]: "stringMapsEqual m m"
  by (simp add: stringMapsEqual_def list_all_iff)

lemma managed_properties_refl [simp]: "\<not> managedPropertiesDiffer m m keys"
  by (simp add: managedPropertiesDiffer_def list_ex_iff)

lemma pinned_refl [simp]: "\<not> pinned_differs x x"
  by (simp add: pinned_differs_def)

lemmas needs_update_defs = funnelNeedsUpdate_def labelNeedsUpdate_def processGroupNeedsUpdate_def connectionNeedsUpdate_def portNeedsUpdate_def
  processorNeedsUpdate_def processorConfigNeedsUpdate_def controllerServiceNeedsUpdate_def reportingTaskNeedsUpdate_def
  parameterProviderNeedsUpdate_def registryClientNeedsUpdate_def

section \<open>The report of a ready object\<close>

lemma mark_ready_reports:
  "wp (mark_ready E reason message i v f) (\<lambda>_ s'. status_matches (obj s') i v \<and> ob_Status (obj s') = f (ob_Status (obj s)) \<and>
     ob_Spec (obj s') = ob_Spec (obj s) \<and> calls s' = calls s @ [KStatusUpdate (obj s')]) s"
  unfolding mark_ready_def k_now_def k_StatusUpdate_def
  by (intro wp_intros) (simp add: status_matches_def ready_common_def MarkReady_def Let_def)

section \<open>Updates of each kind\<close>

lemma funnel_writes: "keeps (write_law funnel_kind no_run_state E) (NiFiFunnelReconciler_Reconcile E)" (is "keeps ?P _")
proof -
  have m: "keeps ?P (markFunnelReady E i v p)" for i v p
    unfolding markFunnelReady_def by (rule writes.keeps_reports)
  have x: "keeps_when ?P (knows E e) (reconcileExistingFunnel E d (Some e) p)" "keeps ?P (reconcileExistingFunnel E d None p)" for d e p
    unfolding reconcileExistingFunnel_def by (simp_all add: funnel.updates_in_place m writes.keeps_reports)
  show ?thesis
    unfolding NiFiFunnelReconciler_Reconcile_def funnelDependenciesWaitingFor_def reconcileFunnelDelete_def Let_def
    by (intro keeps_get_bind writes.keeps_shared writes.keeps_find_or_create funnel.removes_stored x writes.keeps_settle m funnel.creates_freely)
qed

lemma label_writes: "keeps (write_law label_kind no_run_state E) (NiFiLabelReconciler_Reconcile E)" (is "keeps ?P _")
proof -
  have m: "keeps ?P (markLabelReady E i v p)" for i v p
    unfolding markLabelReady_def by (rule writes.keeps_reports)
  have x: "keeps_when ?P (knows E e) (reconcileExistingLabel E d (Some e) p)" "keeps ?P (reconcileExistingLabel E d None p)" for d e p
    unfolding reconcileExistingLabel_def by (simp_all add: label.updates_in_place m writes.keeps_reports)
  show ?thesis
    unfolding NiFiLabelReconciler_Reconcile_def labelDependenciesWaitingFor_def reconcileLabelDelete_def Let_def
    by (intro keeps_get_bind writes.keeps_shared writes.keeps_find_or_create label.removes_stored x writes.keeps_settle m label.creates_freely)
qed

lemma process_group_writes: "keeps (write_law process_group_kind no_run_state E) (NiFiProcessGroupReconciler_Reconcile E)" (is "keeps ?P _")
proof -
  have m: "keeps ?P (markProcessGroupReady E i v p)" for i v p
    unfolding markProcessGroupReady_def by (rule writes.keeps_reports)
  have x: "keeps_when ?P (knows E e) (reconcileExistingProcessGroup E d (Some e) p)" "keeps ?P (reconcileExistingProcessGroup E d None p)" for d e p
    unfolding reconcileExistingProcessGroup_def by (simp_all add: process_group.updates_in_place m writes.keeps_reports)
  have d: "keeps ?P (desiredProcessGroup E p)" "keeps ?P (processGroupDependenciesWaitingFor E)" for p
    unfolding desiredProcessGroup_def processGroupDependenciesWaitingFor_def by (intro keeps_intros writes.keeps_shared)+
  show ?thesis
    unfolding NiFiProcessGroupReconciler_Reconcile_def reconcileProcessGroupDelete_def
    by (intro keeps_intros writes.keeps_shared writes.keeps_find_or_create process_group.removes_stored d x writes.keeps_settle m process_group.creates_freely)
qed

lemma connection_reads:
  assumes "law_on_writes P"
  shows "keeps P (desiredConnection E p)" "keeps P (connectionDependenciesWaitingFor E)"
proof -
  note free = law_on_writes.keeps_shared [OF assms]
  show "keeps P (desiredConnection E p)" "keeps P (connectionDependenciesWaitingFor E)"
    unfolding desiredConnection_def nifiConnectable_def connectionDependenciesWaitingFor_def connectableReferenceDependencyWaitingFor_def
    by (intro keeps_intros free)+
qed

lemma connection_writes: "keeps (write_law connection_kind no_run_state E) (NiFiConnectionReconciler_Reconcile E)" (is "keeps ?P _")
proof -
  have m: "keeps ?P (markConnectionReady E i v p q)" for i v p q
    unfolding markConnectionReady_def by (rule writes.keeps_reports)
  have x: "keeps_when ?P (knows E e) (reconcileExistingConnection E d (Some e) p q)" "keeps ?P (reconcileExistingConnection E d None p q)" for d e p q
    unfolding reconcileExistingConnection_def by (simp_all add: connection.updates_in_place m writes.keeps_reports)
  show ?thesis
    unfolding NiFiConnectionReconciler_Reconcile_def reconcileConnectionDelete_def
    by (intro keeps_intros writes.keeps_shared writes.keeps_find_or_create connection.removes_stored
          connection_reads [OF writes.law_on_writes_axioms] x writes.keeps_settle m connection.creates_freely)
qed

lemma port_state:
  assumes "law_on_writes P" "\<And>log st. knows E current log \<Longrightarrow> (st = ''RUNNING'' \<Longrightarrow> rr_Startable port_rules current) \<Longrightarrow> P log (KSetRunState i (re_Version (pt_Revision current)) st)"
  shows "keeps_when P (knows E current) (reconcilePortRunState E i current st)"
  unfolding reconcilePortRunState_def Let_def k_SetRunState_def
  by (intro keeps_if keeps_ret keeps_call_bind assms(2)) (auto simp: port_rules_def fit_def)

abbreviation port_law :: "string \<Rightarrow> port_env \<Rightarrow> ((NiFiPortSpec, ParentStatus) resource, PortEntity) kcall list \<Rightarrow> ((NiFiPortSpec, ParentStatus) resource, PortEntity) kcall \<Rightarrow> bool" where
  "port_law name \<equiv> write_law (port_kind name) port_rules"

lemma existing_port_writes:
  assumes m: "\<And>i v p. keeps (port_law name E) (mark i v p)"
  shows "keeps_when (port_law name E) (knows E e) (reconcile_existing_port (port_kind name) E mark d (Some e) p)"
    "keeps (port_law name E) (reconcile_existing_port (port_kind name) E mark d None p)"
proof -
  have st: "keeps_when (port_law name E) (knows E current) (reconcilePortRunState E i current st)" for current i st
    by (rule port_state [OF writes.law_on_writes_axioms])
       (use port.state_lawful [of E _ _ _ port_rules name] in \<open>auto simp: kind_defs\<close>)
  have c: "keeps_when (port_law name E) (knows E current) (State_Monad.bind get_obj (\<lambda>instance.
      State_Monad.bind (reconcilePortRunState E i current (nifiScheduledState (pts_State (ob_Spec instance)))) (\<lambda>r. case r of
         Inl err \<Rightarrow> report_failed E reason (message err)
       | Inr (current, pendingReason, pendingMsg) \<Rightarrow>
          (if pendingReason \<noteq> '''' then report_not_ready E pendingReason pendingMsg (requeue_after 15) (requeue_after 15)
           else settle_ready E (\<lambda>i n v. parent_matches i n v p) (\<lambda>n v. mark n v p) i (re_Version (pt_Revision current))))))" for current i reason message
    by (intro keeps_get_bind keeps_then [OF st] keeps_intros writes.keeps_reports writes.keeps_settle m)
  show "keeps_when (port_law name E) (knows E e) (reconcile_existing_port (port_kind name) E mark d (Some e) p)"
    unfolding reconcile_existing_port_def
    by (simp, rule port.writes_stopped [where R = port_rules, simplified]) (rule c)
  show "keeps (port_law name E) (reconcile_existing_port (port_kind name) E mark d None p)"
    unfolding reconcile_existing_port_def by (simp add: writes.keeps_reports)
qed

lemma reconcile_port_writes:
  assumes "keeps (port_law name E) del" "keeps (port_law name E) deps"
    "\<And>d e p. keeps_when (port_law name E) (knows E e) (rec d (Some e) p)" "\<And>d p. keeps (port_law name E) (rec d None p)"
  shows "keeps (port_law name E) (reconcile_port (port_kind name) E del deps desired rec)"
  unfolding reconcile_port_def Let_def
  by (intro keeps_get_bind writes.keeps_shared writes.keeps_find_or_create assms port.creates_freely)

lemma port_writes:
  "keeps (write_law input_port_kind port_rules E) (NiFiInputPortReconciler_Reconcile E)" (is "keeps ?P _")
  "keeps (write_law output_port_kind port_rules E) (NiFiOutputPortReconciler_Reconcile E)" (is "keeps ?Q _")
proof -
  have m: "keeps ?P (markInputPortReady E i v p)" "keeps ?Q (markOutputPortReady E i v p)" for i v p
    unfolding markInputPortReady_def markOutputPortReady_def mark_port_ready_def by (rule writes.keeps_reports)+
  have deps: "keeps (write_law (port_kind n) port_rules E) (port_dependencies E)" for n
    unfolding port_dependencies_def by (intro keeps_intros writes.keeps_shared)
  have del: "keeps (write_law (port_kind n) port_rules E) (delete_frame (port_kind n) E (remove_stored (port_kind n) E))" for n
    by (intro writes.keeps_shared port.removes_stored)
  show "keeps ?P (NiFiInputPortReconciler_Reconcile E)"
    unfolding NiFiInputPortReconciler_Reconcile_def reconcileInputPortDelete_def inputPortDependenciesWaitingFor_def reconcileExistingInputPort_def
    by (intro reconcile_port_writes deps del existing_port_writes m)
  show "keeps ?Q (NiFiOutputPortReconciler_Reconcile E)"
    unfolding NiFiOutputPortReconciler_Reconcile_def reconcileOutputPortDelete_def outputPortDependenciesWaitingFor_def reconcileExistingOutputPort_def
    by (intro reconcile_port_writes deps del existing_port_writes m)
qed

lemma processor_writes: "keeps (write_law processor_kind processor_rules E) (NiFiProcessorReconciler_Reconcile E)" (is "keeps ?P _")
proof -
  have m: "keeps ?P (markProcessorReady E i v p w)" for i v p w
    unfolding markProcessorReady_def by (rule writes.keeps_reports)
  have set: "?P log (KSetRunState i (kd_Revision processor_kind current) st)"
    if "knows E current log" "st = ''RUNNING'' \<Longrightarrow> fit (prc_ValidationStatus (en_Component current))" for log i current st
    using processor.state_lawful [OF that(1), of st processor_rules] that(2) by simp
  have x: "keeps_when ?P (knows E e) (reconcileExistingProcessor E d (Some e) p)" for d e p
    unfolding reconcileExistingProcessor_def run_processor_def settle_processor_def Let_def option.case
    by (rule keeps_get_bind, rule processor.writes_stopped [where R = processor_rules, simplified])
       (intro keeps_if writes.keeps_when_valid writes.keeps_change_state writes.keeps_settle m set; simp)
  have n: "keeps ?P (reconcileExistingProcessor E d None p)" for d p
    unfolding reconcileExistingProcessor_def by (simp add: writes.keeps_reports)
  show ?thesis
    unfolding NiFiProcessorReconciler_Reconcile_def processorDependenciesWaitingFor_def reconcileProcessorDelete_def Let_def
    by (intro keeps_get_bind writes.keeps_shared writes.keeps_find_or_create x n processor.creates_freely
          processor.removes_current [where R = processor_rules, simplified])
qed

lemma service_writes: "keeps (write_law controller_service_kind service_rules E) (NiFiControllerServiceReconciler_Reconcile E)" (is "keeps ?P _")
proof -
  have m: "keeps ?P (markControllerServiceReady E i v w)" for i v w
    unfolding markControllerServiceReady_def by (rule writes.keeps_reports)
  have set: "?P log (KSetRunState i (kd_Revision controller_service_kind current) st)"
    if "knows E current log" "st = ''ENABLED'' \<Longrightarrow> fit (csc_ValidationStatus (en_Component current))" for log i current st
    using service.state_lawful [OF that(1), of st service_rules] that(2) by simp
  have x: "keeps_when ?P (knows E e) (reconcileExistingControllerService E d (Some e))" for d e
    unfolding reconcileExistingControllerService_def Let_def option.case
    by (rule keeps_get_bind, rule service.writes_stopped [where R = service_rules, simplified])
       (intro keeps_if writes.keeps_when_valid writes.keeps_change_state writes.keeps_settle m set; simp)
  have n: "keeps ?P (reconcileExistingControllerService E d None)" for d
    unfolding reconcileExistingControllerService_def by (simp add: writes.keeps_reports)
  have d: "keeps ?P (desiredControllerService E p)" "keeps ?P (controllerServiceDependenciesWaitingFor E)" for p
    unfolding desiredControllerService_def controllerServiceDependenciesWaitingFor_def by (intro keeps_intros writes.keeps_shared)+
  show ?thesis
    unfolding NiFiControllerServiceReconciler_Reconcile_def reconcileControllerServiceDelete_def
    by (intro keeps_get_bind writes.keeps_shared writes.keeps_find_or_create d x n service.creates_freely
          service.removes_current [where R = service_rules, simplified])
qed

lemma task_writes: "keeps (write_law reporting_task_kind task_rules E) (NiFiReportingTaskReconciler_Reconcile E)" (is "keeps ?P _")
proof -
  have m: "keeps ?P (markReportingTaskReady E i v w)" for i v w
    unfolding markReportingTaskReady_def by (rule writes.keeps_reports)
  have set: "?P log (KSetRunState i (kd_Revision reporting_task_kind current) st)"
    if "knows E current log" "st = ''RUNNING'' \<Longrightarrow> fit (rtc_ValidationStatus (en_Component current))" for log i current st
    using task.state_lawful [OF that(1), of st task_rules] that(2) by simp
  have x: "keeps_when ?P (knows E e) (reconcileExistingReportingTask E d e)" for d e
    unfolding reconcileExistingReportingTask_def Let_def
    by (rule keeps_get_bind, rule task.writes_stopped [where R = task_rules, simplified])
       (intro keeps_if writes.keeps_when_valid writes.keeps_change_state writes.keeps_settle m set; simp)
  have d: "keeps ?P (desiredReportingTask E)"
    unfolding desiredReportingTask_def by (intro keeps_intros writes.keeps_shared)
  show ?thesis
    unfolding NiFiReportingTaskReconciler_Reconcile_def reconcileReportingTaskDelete_def
    by (intro keeps_ret writes.keeps_shared writes.keeps_find_or_recreate d x task.creates_freely
          task.removes_current [where R = task_rules, simplified])
qed

lemma provider_writes: "keeps (write_law parameter_provider_kind no_run_state E) (NiFiParameterProviderReconciler_Reconcile E)" (is "keeps ?P _")
proof -
  have m: "keeps ?P (markParameterProviderReady E i v w)" for i v w
    unfolding markParameterProviderReady_def by (rule writes.keeps_reports)
  have x: "keeps_when ?P (knows E e) (reconcileExistingParameterProvider E d e)" for d e
    unfolding reconcileExistingParameterProvider_def
    by (intro keeps_get_bind writes.keeps_write_stopped writes.keeps_settle m) (auto intro: provider.update_lawful)
  have d: "keeps ?P (desiredParameterProvider E)"
    unfolding desiredParameterProvider_def by (intro keeps_intros writes.keeps_shared)
  have r: "keeps ?P (remove_current parameter_provider_kind E (\<lambda>_. False) '''')"
    by (rule writes.keeps_remove_current) (simp_all add: write_law_def)
  show ?thesis
    unfolding NiFiParameterProviderReconciler_Reconcile_def reconcileParameterProviderDelete_def
    by (intro keeps_ret writes.keeps_shared writes.keeps_find_or_recreate d x r provider.creates_freely)
qed

lemma registry_writes: "keeps (write_law registry_client_kind no_run_state E) (NiFiRegistryClientReconciler_Reconcile E)" (is "keeps ?P _")
proof -
  have m: "keeps ?P (markRegistryClientReady E i v w)" for i v w
    unfolding markRegistryClientReady_def by (rule writes.keeps_reports)
  have x: "keeps_when ?P (knows E e) (reconcileExistingRegistryClient E d (Some e) t ks)" "keeps ?P (reconcileExistingRegistryClient E d None t ks)" for d e t ks
    unfolding reconcileExistingRegistryClient_def by (simp_all add: registry.updates_in_place m writes.keeps_reports)
  have d: "keeps ?P (desiredRegistryClient E)"
    unfolding desiredRegistryClient_def typed_properties_def with_token_def by (intro keeps_intros writes.keeps_shared)
  have r: "keeps ?P (remove_strict E)"
    unfolding remove_strict_def k_Delete_def Let_def by (intro keeps_intros writes.keeps_shared) (simp_all add: write_law_def)
  show ?thesis
    unfolding NiFiRegistryClientReconciler_Reconcile_def reconcileRegistryClientDelete_def
    by (intro keeps_ret keeps_case_prod writes.keeps_shared writes.keeps_find_or_create d x r writes.keeps_settle m registry.creates_freely)
qed

section \<open>Tenants, policies and parameter contexts\<close>

lemma revision_simps:
  "kd_Revision policy_kind e = re_Version (en_Revision e)" "kd_Revision parameter_context_kind c = re_Version (en_Revision c)"
  "re_Version (en_Revision (kd_Address parameter_context_kind i v c)) = v"
  by (simp_all add: policy_kind_def parameter_context_kind_def)

context law_on_writes
begin

lemma keeps_create_tenant:
  assumes "\<And>log. P log (KCreate '''' entity)" "\<And>e. keeps P (mark e)" shows "keeps P (create_tenant K E entity mark)"
  unfolding create_tenant_def k_Create_def by (intro keeps_intros keeps_shared assms)

lemma keeps_find_recorded:
  assumes "\<And>e. keeps_when P (knows E e) (existing_path e)" "keeps P search" shows "keeps P (find_recorded K E existing_path search)"
  unfolding find_recorded_def by (intro keeps_get_bind keeps_if keeps_read) (auto intro: assms keeps_reports)

lemma keeps_find_listed:
  assumes "\<And>es e. select es = Some e \<Longrightarrow> e \<in> set es" "\<And>e. keeps_when P (knows E e) (existing_path e)" "keeps P create"
  shows "keeps P (find_listed K E select existing_path create)"
  unfolding find_listed_def k_List_def
proof (rule keeps_call_bind)
  fix r :: "'e list go_result"
  show "keeps_when P (\<lambda>l. \<exists>log. l = log @ [KList] \<and> True \<and> r = ke_List E log) (case r of
      Inl err \<Rightarrow> report_failed E ''NiFiListFailed'' (''Failed to list NiFi '' @ kd_Label K @ ''s: '' @ err_text err)
    | Inr all \<Rightarrow> (case select all of Some existing \<Rightarrow> existing_path existing | None \<Rightarrow> create))"
    by (intro keeps_case_sum keeps_case_option)
       (auto intro: keeps_weaken [OF keeps_reports(4)] keeps_weaken [OF assms(3)] intro!: knows_weaken [OF assms(2)] knows_reply
             split: sum.split, metis assms(1))
qed (simp add: reads_are_free)

end

lemma keeps_find_for_resource:
  assumes law: "law_on_writes P" and e: "\<And>e. keeps_when P (knows E e) (existing_path e)" and c: "keeps P create"
  shows "keeps P (find_for_resource E spec existing_path create)"
  unfolding find_for_resource_def k_Find_def policyGetFailed_def
  by (rule keeps_knowing [where E = E])
     (auto intro: law_on_writes.reads_are_free [OF law] law_on_writes.keeps_reports [OF law] c keeps_weaken [OF c] knows_weaken [OF e])

lemma find_is_member: "find p xs = Some x \<Longrightarrow> x \<in> set xs"
  by (auto simp: find_Some_iff)

lemma member_reads:
  assumes "law_on_writes P" shows "keeps P (member_dependencies E ns refs)" "keeps P (member_mismatch E ns c refs)"
  by (induction refs)
     (auto intro!: keeps_intros law_on_writes.keeps_calls [OF assms] simp: Let_def split: sum.split)

lemma tenant_reads:
  assumes "law_on_writes P" shows "keeps P (tenant_ids E kind ns refs)"
  by (induction refs) (auto intro!: keeps_intros law_on_writes.keeps_calls [OF assms])

lemma tenant_dependency_reads:
  assumes "law_on_writes P" shows "keeps P (tenant_dependencies E kind ns refs)"
  by (induction refs) (auto intro!: keeps_intros law_on_writes.keeps_calls [OF assms] simp: Let_def)

lemma user_writes: "keeps (write_law user_kind no_run_state E) (NiFiUserReconciler_Reconcile E)" (is "keeps ?P _")
proof -
  have m: "keeps ?P (markUserReady E i v)" for i v
    unfolding markUserReady_def by (rule writes.keeps_reports)
  have x: "keeps_when ?P (knows E e) (reconcileExistingUser E e)" for e
    unfolding reconcileExistingUser_def Let_def by (intro keeps_get_bind user.updates_in_place m) simp
  have r: "keeps ?P (remove_recorded E)"
    unfolding remove_recorded_def by (intro keeps_get_bind writes.keeps_delete_tolerant) (simp add: write_law_def)
  show ?thesis
    unfolding NiFiUserReconciler_Reconcile_def reconcileUserDelete_def
    by (intro keeps_get_bind keeps_ret writes.keeps_shared writes.keeps_find_recorded writes.keeps_find_listed writes.keeps_create_tenant
          x r m user.creates_freely) (simp add: findUserByIdentity_def find_is_member)
qed

lemma user_group_writes: "keeps (write_law user_group_kind no_run_state E) (NiFiUserGroupReconciler_Reconcile E)" (is "keeps ?P _")
proof -
  have m: "keeps ?P (markUserGroupReady E ids i v)" for ids i v
    unfolding markUserGroupReady_def by (rule writes.keeps_reports)
  have x: "keeps_when ?P (knows E e) (reconcileExistingUserGroup E d ids e)" for d ids e
    unfolding reconcileExistingUserGroup_def by (intro user_group.updates_in_place m) simp
  have r: "keeps ?P (remove_recorded E)"
    unfolding remove_recorded_def by (intro keeps_get_bind writes.keeps_delete_tolerant) (simp add: write_law_def)
  have t: "keeps ?P (userGroupMemberDependenciesWaitingFor E)" "keeps ?P (userGroupMemberClusterMismatch E)" "keeps ?P (resolveUserGroupMemberIDs E)"
    unfolding userGroupMemberDependenciesWaitingFor_def userGroupMemberClusterMismatch_def resolveUserGroupMemberIDs_def
    by (intro keeps_intros member_reads tenant_reads tenant_dependency_reads writes.law_on_writes_axioms)+
  show ?thesis
    unfolding NiFiUserGroupReconciler_Reconcile_def reconcile_user_group_def group_with_members_def write_user_group_def Let_def reconcileUserGroupDelete_def
    by (intro keeps_intros writes.keeps_shared writes.keeps_find_recorded writes.keeps_find_listed writes.keeps_create_tenant
          x r m t user_group.creates_freely) (simp add: findUserGroupByIdentity_def find_is_member)
qed

lemma policy_writes: "keeps (write_law policy_kind no_run_state E) (NiFiPolicyReconciler_Reconcile E)" (is "keeps ?P _")
proof -
  have m: "keeps ?P (markPolicyReady E us gs i v)" for us gs i v
    unfolding markPolicyReady_def by (rule writes.keeps_reports)
  have x: "keeps_when ?P (knows E e) (reconcileExistingPolicy E d us gs e)" for d us gs e
    unfolding reconcileExistingPolicy_def by (intro policy.updates_in_place m) simp
  have f: "keeps_when ?P I (finish E)" "keeps_when ?P I (delete_tolerant E i v)" for I i v
    by (rule writes.keeps_finish, rule writes.keeps_delete_tolerant, simp add: write_law_def)
  have u: "keeps_when ?P (knows E e) (State_Monad.bind (k_Update E \<lparr>en_ID = i, en_Revision = en_Revision e, en_Component = c\<rparr>)
      (\<lambda>r. case r of Inl err \<Rightarrow> ret (requeue_after 30, Some err) | Inr _ \<Rightarrow> finish E))" for e i c
    unfolding k_Update_def
    by (rule keeps_call_bind) (auto simp: write_law_def knows_def revision_simps intro!: keeps_case_sum keeps_ret f)
  have r: "keeps ?P (revoke_grants E)"
    unfolding revoke_grants_def Let_def by (intro keeps_get_bind writes.keeps_read) (auto intro!: f u keeps_ret)
  have t: "keeps ?P (policyDependenciesWaitingFor E)" "keeps ?P (resolvePolicyTenants E)"
    unfolding policyDependenciesWaitingFor_def resolvePolicyTenants_def
    by (intro keeps_intros member_reads tenant_reads tenant_dependency_reads writes.law_on_writes_axioms)+
  show ?thesis
    unfolding NiFiPolicyReconciler_Reconcile_def reconcile_policy_def reconcilePolicyDelete_def Let_def
    by (intro keeps_intros writes.keeps_shared writes.keeps_find_recorded keeps_find_for_resource writes.law_on_writes_axioms writes.keeps_create_tenant
          x r m t policy.creates_freely)
qed

lemma parameter_context_writes:
  "keeps (write_law parameter_context_kind no_run_state E) (NiFiParameterContextReconciler_Reconcile E)" (is "keeps ?P _")
proof -
  have m: "keeps ?P (markParameterContextReady E i v)" for i v
    unfolding markParameterContextReady_def by (rule writes.keeps_reports)
  have u: "keeps ?P (markParameterContextUpdateRunning E rq)" for rq
    unfolding markParameterContextUpdateRunning_def by (intro keeps_intros writes.keeps_shared)
  have w: "keeps ?P (follow_request E i v rq)" for i v rq
    unfolding follow_request_def markParameterContextReadyFromNiFi_def by (intro keeps_intros writes.keeps_shared m u)
  have q: "keeps_when ?P (knows E e) (State_Monad.bind (k_CreateUpdateRequest E i (kd_Address parameter_context_kind i (re_Version (en_Revision e)) d))
      (\<lambda>r. case r of Inl err \<Rightarrow> report_failed E reason (message err) | Inr request \<Rightarrow> follow_request E i v request))" for e i d reason message v
    unfolding k_CreateUpdateRequest_def
    by (rule keeps_call_bind)
       (auto simp: write_law_def knows_def revision_simps intro!: keeps_case_sum intro: keeps_weaken [OF writes.keeps_reports(4)] keeps_weaken [OF w])
  have g: "keeps ?P (State_Monad.bind (k_GetUpdateRequest E i j)
      (\<lambda>r. case r of Inl err \<Rightarrow> report_failed E reason (message err) | Inr request \<Rightarrow> follow_request E i v request))" for i j reason message v
    by (intro keeps_intros writes.keeps_shared w)
  have x: "keeps_when ?P (knows E e) (reconcileExistingParameterContext E d (Some e))" for d e
    unfolding reconcileExistingParameterContext_def Let_def option.case
    by (intro keeps_get_bind keeps_case_option keeps_if q writes.keeps_settle m keeps_weaken [OF g] TrueI)
  have n: "keeps ?P (reconcileExistingParameterContext E d None)" for d
    unfolding reconcileExistingParameterContext_def by (simp add: writes.keeps_reports)
  have l: "keeps ?P (reconcile_listed E d cs)" for d cs
    unfolding reconcile_listed_def read_full_def Let_def
    by (intro keeps_get_bind keeps_case_option keeps_if writes.keeps_read keeps_case_sum)
       (auto intro!: writes.keeps_shared writes.keeps_create_component writes.keeps_settle x n m parameter_context.creates_freely)
  have p: "keeps ?P (resolve_parameters E ns ds ps wf)" for ns ds ps wf
    by (induction ds arbitrary: ps wf) (auto simp: Let_def intro!: keeps_intros writes.keeps_shared split: option.split)
  show ?thesis
    unfolding NiFiParameterContextReconciler_Reconcile_def reconcileParameterContextDelete_def desiredParameterContext_def
    by (intro keeps_intros writes.keeps_shared parameter_context.removes_stored p l)
qed

end
