(* ===== verification/Component_Deletion.thy ===== *)
theory Component_Deletion
  imports Canvas_Laws
begin

text \<open>
  Deletion of the NiFi objects: at which revision and in which run state an object is deleted, when the
  finalizer of the resource may go, and that it does go. The way an object is removed is the interface
  \<open>removal\<close>; its five implementations are interpreted below and every controller uses one of them.
\<close>

section \<open>What a deletion may do\<close>

definition touches_only :: "string \<Rightarrow> ('o, 'e) kcall \<Rightarrow> bool" where
  \<comment> \<open>no resource is released, and NiFi is only asked to stop or delete the object \<open>i\<close>\<close>
  "touches_only i c = (case c of
      KDelete j _ \<Rightarrow> j = i \<and> i \<noteq> '''' | KSetRunState j _ _ \<Rightarrow> j = i \<and> i \<noteq> ''''
    | KCreate _ _ \<Rightarrow> False | KUpdate _ \<Rightarrow> False | KCreateUpdateRequest _ _ \<Rightarrow> False | KUpdatePort _ _ _ \<Rightarrow> False
    | KSetPortState _ _ _ _ _ \<Rightarrow> False | KUpdateObject _ \<Rightarrow> False | _ \<Rightarrow> True)"

lemma touches_only_simps [simp]:
  "touches_only i (KDelete j v) \<longleftrightarrow> j = i \<and> i \<noteq> ''''" "touches_only i (KSetRunState j v st) \<longleftrightarrow> j = i \<and> i \<noteq> ''''"
  "touches_only i (KGet j)" "touches_only i (KGetCluster ns n)" "touches_only i (KConfigureClusterHTTPClient c)"
  "\<not> touches_only i (KUpdateObject d)"
  by (simp_all add: touches_only_def)

definition cluster_is_gone :: "('sp, 'e) kind \<Rightarrow> ('sp, 'st, 'e) renv \<Rightarrow> ('sp, 'st) resource \<Rightarrow> ('sp, 'st, 'e) kstate \<Rightarrow> ('sp, 'st, 'e) kstate \<Rightarrow> bool" where
  "cluster_is_gone K E d s s' \<longleftrightarrow> (let ref = kd_ClusterRef K (ob_Spec d); ns = clusterRefNamespace (ob_Namespace d) ref in
     cr_Name ref = '''' \<or> asked (KGetCluster ns (cr_Name ref)) (ke_GetCluster E ns (cr_Name ref))
       (\<lambda>r. case r of Inl e \<Rightarrow> IsNotFound e | Inr c \<Rightarrow> cl_Deleting c) s s')"

definition object_is_gone :: "('sp, 'st, 'e) renv \<Rightarrow> string \<Rightarrow> ('sp, 'st, 'e) kstate \<Rightarrow> ('sp, 'st, 'e) kstate \<Rightarrow> bool" where
  "object_is_gone E i s s' \<longleftrightarrow>
     asked (KGet i) (ke_Get E i) (\<lambda>r. case r of Inl e \<Rightarrow> IsNotFound e | Inr e \<Rightarrow> e = None) s s' \<or>
     (\<exists>v. asked (KDelete i v) (ke_Delete E i v) (\<lambda>r. case r of None \<Rightarrow> True | Some e \<Rightarrow> IsNotFound e) s s')"

definition may_release :: "('sp, 'e) kind \<Rightarrow> ('sp, 'st, 'e) renv \<Rightarrow> ('sp, 'st) resource \<Rightarrow> ('sp, 'st, 'e) kstate \<Rightarrow> ('sp, 'st, 'e) kstate \<Rightarrow> bool" where
  "may_release K E d s s' \<longleftrightarrow> kd_DeletionPolicy K (ob_Spec d) \<noteq> ''Delete'' \<or> cs_NiFiID (ob_Common d) = '''' \<or>
     cluster_is_gone K E d s s' \<or> object_is_gone E (cs_NiFiID (ob_Common d)) s s'"

definition removed_safely :: "('sp, 'e) kind \<Rightarrow> ('sp, 'st, 'e) renv \<Rightarrow> ('sp, 'st) resource \<Rightarrow> ('sp, 'st, 'e) kstate \<Rightarrow> ('sp, 'st, 'e) kstate \<Rightarrow> bool" where
  \<comment> \<open>only the recorded object is touched, and the resource is released last and for one of the allowed reasons\<close>
  "removed_safely K E d s s' \<longleftrightarrow> (let i = cs_NiFiID (ob_Common d) in
     within (touches_only i) (calls s) (calls s') \<or>
     (\<exists>zs u. calls s' = calls s @ zs @ [KUpdateObject u] \<and> list_all (touches_only i) zs \<and> may_release K E d s s'))"

lemma may_release_step: "may_release K E d s0 s \<Longrightarrow> calls s' = calls s @ zs \<Longrightarrow> may_release K E d s0 s'"
  by (auto simp: may_release_def cluster_is_gone_def object_is_gone_def Let_def dest: asked_step)

lemma finish_safe:
  assumes "within (touches_only (cs_NiFiID (ob_Common d))) (calls s0) (calls s)" "may_release K E d s0 s"
  shows "wp (finish E) (\<lambda>_. removed_safely K E d s0) s"
proof -
  have "\<exists>zs u. calls s' = calls s0 @ zs @ [KUpdateObject u] \<and> list_all (touches_only (cs_NiFiID (ob_Common d))) zs \<and> may_release K E d s0 s'"
    if "calls s' = calls s @ [KUpdateObject u]" for u s'
    using assms that may_release_step [OF assms(2) that] by (auto simp: within_def)
  then show ?thesis
    using assms unfolding finish_def removeFinalizer_def k_UpdateObject_def
    by (intro wp_intros) (simp_all add: removed_safely_def Let_def)
qed

lemma untouched_safe: "within (touches_only (cs_NiFiID (ob_Common d))) (calls s0) (calls s) \<Longrightarrow> removed_safely K E d s0 s"
  by (simp add: removed_safely_def Let_def)

lemma object_gone_get:
  "ke_Get E i log = r \<Longrightarrow> (case r of Inl e \<Rightarrow> IsNotFound e | Inr e \<Rightarrow> e = None) \<Longrightarrow> calls s' = log @ KGet i # zs \<Longrightarrow> length (calls s0) \<le> length log \<Longrightarrow>
   object_is_gone E i s0 s'"
  unfolding object_is_gone_def by (rule disjI1, rule asked_at) auto

lemma object_gone_delete:
  "ke_Delete E i v log = r \<Longrightarrow> (case r of None \<Rightarrow> True | Some e \<Rightarrow> IsNotFound e) \<Longrightarrow> calls s' = log @ [KDelete i v] \<Longrightarrow>
   length (calls s0) \<le> length log \<Longrightarrow> object_is_gone E i s0 s'"
  unfolding object_is_gone_def by (rule disjI2, rule exI [of _ v], rule asked_at) auto

section \<open>The interface of a removal\<close>

locale removal =
  fixes K :: "('sp, 'e) kind" and E :: "('sp, 'st, 'e) renv" and remove :: "('sp, 'st, 'e, outcome) khandler"
  assumes remove_safe: "cs_NiFiID (ob_Common (obj s)) \<noteq> '''' \<Longrightarrow>
    within (touches_only (cs_NiFiID (ob_Common (obj s)))) (calls s0) (calls s) \<Longrightarrow> wp remove (\<lambda>_. removed_safely K E (obj s) s0) s"
begin

lemma cluster_for_deletion_safe:
  assumes "within (touches_only (cs_NiFiID (ob_Common d))) (calls s0) (calls s)"
  shows "wp (clusterForDeletion (k_GetCluster E) (k_Configure E) cl_Ready cl_Deleting (ob_Namespace d) (kd_ClusterRef K (ob_Spec d)))
    (\<lambda>r s'. obj s' = obj s \<and> within (touches_only (cs_NiFiID (ob_Common d))) (calls s0) (calls s') \<and>
       ((\<exists>c. r = Inr (c, True)) \<longrightarrow> cluster_is_gone K E d s0 s')) s"
proof -
  note len = within_length [OF assms]
  show ?thesis
    unfolding clusterForDeletion_def k_GetCluster_def k_Configure_def
    by (intro wp_intros) (use assms len in \<open>auto simp: cluster_is_gone_def Let_def intro!: asked_at split: option.splits\<close>)
qed

lemma removal_safe: "wp (delete_frame K E remove) (\<lambda>_. removed_safely K E (obj s) s) s"
  unfolding delete_frame_def
proof (intro wp_bindI wp_get_objI wp_ifI, goal_cases)
  case 1
  then show ?case by (intro finish_safe) (auto simp: may_release_def)
next
  case 2
  show ?case
  proof (rule wp_mono [OF cluster_for_deletion_safe [OF within_refl]], elim conjE, goal_cases)
    case (1 c s')
    with 2 show ?case
      by (intro wp_case_sumI wp_case_prodI wp_ifI wp_case_optionI wp_returnI finish_safe remove_safe [where s = s', unfolded 1(1)])
         (auto simp: may_release_def untouched_safe)
  qed
qed

end

lemma delete_tolerant_safe:
  assumes "i = cs_NiFiID (ob_Common d)" "i \<noteq> ''''" "within (touches_only i) (calls s0) (calls s)"
  shows "wp (delete_tolerant E i v) (\<lambda>_. removed_safely K E d s0) s"
  using within_length [OF assms(3)] assms unfolding delete_tolerant_def k_Delete_def
  by (intro wp_intros finish_safe untouched_safe) (auto simp: may_release_def intro!: object_gone_delete)

lemma remove_stored_safe:
  assumes a: "cs_NiFiID (ob_Common (obj s)) \<noteq> ''''" and w: "within (touches_only (cs_NiFiID (ob_Common (obj s)))) (calls s0) (calls s)"
  shows "wp (remove_stored K E) (\<lambda>_. removed_safely K E (obj s) s0) s"
  using within_length [OF w] a w unfolding remove_stored_def k_Get_def Let_def
  by (intro wp_intros finish_safe untouched_safe delete_tolerant_safe) (auto simp: may_release_def intro!: object_gone_get)

lemma remove_current_safe:
  assumes a: "cs_NiFiID (ob_Common (obj s)) \<noteq> ''''" and w: "within (touches_only (cs_NiFiID (ob_Common (obj s)))) (calls s0) (calls s)"
  shows "wp (remove_current K E running stop_state) (\<lambda>_. removed_safely K E (obj s) s0) s"
  using within_length [OF w] a w unfolding remove_current_def k_Get_def k_SetRunState_def Let_def
  by (intro wp_intros finish_safe untouched_safe delete_tolerant_safe) (auto simp: may_release_def intro!: object_gone_get)

lemma remove_recorded_safe:
  assumes "cs_NiFiID (ob_Common (obj s)) \<noteq> ''''" "within (touches_only (cs_NiFiID (ob_Common (obj s)))) (calls s0) (calls s)"
  shows "wp (remove_recorded E) (\<lambda>_. removed_safely K E (obj s) s0) s"
  using assms unfolding remove_recorded_def by (intro wp_intros delete_tolerant_safe) simp_all

lemma remove_strict_safe:
  assumes a: "cs_NiFiID (ob_Common (obj s)) \<noteq> ''''" and w: "within (touches_only (cs_NiFiID (ob_Common (obj s)))) (calls s0) (calls s)"
  shows "wp (remove_strict E) (\<lambda>_. removed_safely K E (obj s) s0) s"
  using within_length [OF w] a w unfolding remove_strict_def k_Delete_def
  by (intro wp_intros finish_safe untouched_safe) (auto simp: may_release_def intro!: object_gone_delete)

interpretation stored: removal K E "remove_stored K E" for K E
  by unfold_locales (rule remove_stored_safe)

interpretation current: removal K E "remove_current K E running stop_state" for K E running stop_state
  by unfold_locales (rule remove_current_safe)

interpretation recorded: removal K E "remove_recorded E" for K E
  by unfold_locales (rule remove_recorded_safe)

interpretation strict: removal K E "remove_strict E" for K E
  by unfold_locales (rule remove_strict_safe)

section \<open>A deletion that NiFi does not refuse is finished\<close>

definition unrefused :: "('sp, 'e) kind \<Rightarrow> ('sp, 'st, 'e) renv \<Rightarrow> ('sp, 'st) resource \<Rightarrow> bool" where
  \<comment> \<open>the cluster is ready, and for the object NiFi answers every read, stop and delete, if only with "not found"\<close>
  "unrefused K E d \<longleftrightarrow> (let ref = kd_ClusterRef K (ob_Spec d); ns = clusterRefNamespace (ob_Namespace d) ref; i = cs_NiFiID (ob_Common d) in
     (\<forall>log e. ke_GetCluster E ns (cr_Name ref) log \<noteq> Inl e) \<and>
     (\<forall>log cl. ke_GetCluster E ns (cr_Name ref) log = Inr cl \<longrightarrow> cl_Ready cl \<and> clusterEndpoint cl \<noteq> '''') \<and>
     (\<forall>log cl. ke_ConfigureClusterHTTPClient E cl log = None) \<and>
     (\<forall>log e. ke_Get E i log = Inl e \<longrightarrow> IsNotFound e) \<and>
     (\<forall>log v st e. ke_SetRunState E i v st log \<noteq> Inl e) \<and>
     (\<forall>log v e. ke_Delete E i v log = Some e \<longrightarrow> IsNotFound e))"

lemma unrefusedD:
  assumes "unrefused K E d"
  shows "ke_GetCluster E (clusterRefNamespace (ob_Namespace d) (kd_ClusterRef K (ob_Spec d))) (cr_Name (kd_ClusterRef K (ob_Spec d))) log = Inl e \<Longrightarrow> False"
    and "ke_GetCluster E (clusterRefNamespace (ob_Namespace d) (kd_ClusterRef K (ob_Spec d))) (cr_Name (kd_ClusterRef K (ob_Spec d))) log = Inr cl \<Longrightarrow>
         cl_Ready cl \<and> clusterEndpoint cl \<noteq> ''''"
    and "ke_ConfigureClusterHTTPClient E c log = None"
    and "ke_Get E (cs_NiFiID (ob_Common d)) log = Inl e \<Longrightarrow> IsNotFound e"
    and "ke_SetRunState E (cs_NiFiID (ob_Common d)) v st log = Inl e \<Longrightarrow> False"
    and "ke_Delete E (cs_NiFiID (ob_Common d)) v log = Some e \<Longrightarrow> IsNotFound e"
  using assms unfolding unrefused_def Let_def
  by blast+

definition deletion_done :: "('sp, 'st, 'e) renv \<Rightarrow> ('sp, 'st) resource \<Rightarrow> outcome \<Rightarrow> ('sp, 'st, 'e) kstate \<Rightarrow> bool" where
  \<comment> \<open>the last call sent the resource with the finalizer taken off and nothing else changed, if it had the finalizer; no retry is asked
     for, and an error is returned exactly if the API server answered with that error\<close>
  "deletion_done E d r s' \<longleftrightarrow> fst r = no_result \<and>
     (if NiFiControlFinalizer \<in> set (ob_Finalizers d)
      then (let d' = d\<lparr>ob_Finalizers := filter (\<lambda>f. f \<noteq> NiFiControlFinalizer) (ob_Finalizers d)\<rparr> in
            \<exists>log. calls s' = log @ [KUpdateObject d'] \<and> snd r = ke_UpdateObject E d' log)
      else snd r = None)"

lemma finish_releases: "obj s = d \<Longrightarrow> wp (finish E) (deletion_done E d) s"
  unfolding finish_def removeFinalizer_def k_UpdateObject_def deletion_done_def
  by (intro wp_intros) (auto simp: upd_object_finalizers_def Let_def)

locale releasing = removal K E remove
  for K :: "('sp, 'e) kind" and E :: "('sp, 'st, 'e) renv" and remove :: "('sp, 'st, 'e, outcome) khandler" +
  assumes remove_releases: "unrefused K E d \<Longrightarrow> obj s = d \<Longrightarrow> wp remove (deletion_done E d) s"
begin

lemma delete_releases:
  assumes "unrefused K E (obj s)" shows "wp (delete_frame K E remove) (deletion_done E (obj s)) s"
  unfolding delete_frame_def clusterForDeletion_def k_GetCluster_def k_Configure_def
  by (intro wp_intros finish_releases remove_releases)
     (use assms in \<open>auto simp: unrefusedD(3) dest: unrefusedD(1,2)\<close>)

end

lemma delete_tolerant_releases:
  assumes "unrefused K E d" "i = cs_NiFiID (ob_Common d)" "obj s = d"
  shows "wp (delete_tolerant E i v) (deletion_done E d) s"
  unfolding delete_tolerant_def k_Delete_def
  by (intro wp_intros finish_releases) (use assms in \<open>auto dest: unrefusedD(6)\<close>)

lemma remove_stored_releases: "unrefused K E d \<Longrightarrow> obj s = d \<Longrightarrow> wp (remove_stored K E) (deletion_done E d) s"
  unfolding remove_stored_def k_Get_def
  by (intro wp_intros finish_releases delete_tolerant_releases) (auto dest: unrefusedD(4))

lemma remove_current_releases:
  "unrefused K E d \<Longrightarrow> obj s = d \<Longrightarrow> wp (remove_current K E running stop_state) (deletion_done E d) s"
  unfolding remove_current_def k_Get_def k_SetRunState_def
  by (intro wp_intros finish_releases delete_tolerant_releases) (auto dest: unrefusedD(4,5))

lemma remove_recorded_releases: "unrefused K E d \<Longrightarrow> obj s = d \<Longrightarrow> wp (remove_recorded E) (deletion_done E d) s"
  unfolding remove_recorded_def by (intro wp_intros delete_tolerant_releases) auto

lemma strict_releases:
  assumes un: "unrefused K E (obj s) \<and> (\<forall>v log. ke_Delete E (cs_NiFiID (ob_Common (obj s))) v log = None)"
  shows "wp (delete_frame K E (remove_strict E)) (deletion_done E (obj s)) s"
  unfolding delete_frame_def clusterForDeletion_def k_GetCluster_def k_Configure_def remove_strict_def k_Delete_def
  by (intro wp_intros finish_releases) (use un in \<open>auto simp: unrefusedD(3) [OF conjunct1 [OF un]] dest: unrefusedD(1,2)\<close>)

interpretation stored: releasing K E "remove_stored K E" for K E
  by unfold_locales (rule remove_stored_releases)

interpretation current: releasing K E "remove_current K E running stop_state" for K E running stop_state
  by unfold_locales (rule remove_current_releases)

interpretation recorded: releasing K E "remove_recorded E" for K E
  by unfold_locales (rule remove_recorded_releases)

section \<open>Revision and run state of a deletion\<close>

lemma stored_deletion_lawful: "keeps (delete_law K no_run_state E) (delete_frame K E (remove_stored K E))"
  by (intro deletes.keeps_shared deletes.keeps_remove_stored) (auto simp: delete_law_def knows_def)

lemma current_deletion_lawful: "keeps (delete_law K R E) (delete_frame K E (remove_current K E (rr_Running R) (rr_Stop R)))"
  by (intro deletes.keeps_shared deletes.keeps_remove_current) (auto simp: delete_law_def knows_def)

lemma stateless_deletion_lawful: "keeps (delete_law K no_run_state E) (delete_frame K E (remove_current K E (\<lambda>_. False) ''''))"
  using current_deletion_lawful [of K no_run_state E] by (simp add: no_run_state_def [THEN arg_cong, of rr_Running] no_run_state_def [THEN arg_cong, of rr_Stop])

section \<open>Deletion of every kind\<close>

lemmas deletion_defs = reconcileFunnelDelete_def reconcileLabelDelete_def reconcileProcessGroupDelete_def reconcileConnectionDelete_def
  reconcileInputPortDelete_def reconcileOutputPortDelete_def reconcileProcessorDelete_def reconcileControllerServiceDelete_def
  reconcileReportingTaskDelete_def reconcileParameterProviderDelete_def reconcileRegistryClientDelete_def reconcileUserDelete_def
  reconcileUserGroupDelete_def reconcileParameterContextDelete_def

text \<open>
  C3. Deletion of a resource touches in NiFi only the object recorded in its status, and the finalizer is taken
  off last and only when nothing is to be deleted, the cluster is gone, or NiFi has confirmed that the
  object is gone (already missing or deleted in this run). This holds for all fourteen controllers that own a single object.
\<close>

theorem deletion_is_safe:
  "(wp (reconcileFunnelDelete E1) (\<lambda>_. removed_safely funnel_kind E1 (obj s1) s1) s1) \<and>
   (wp (reconcileLabelDelete E2) (\<lambda>_. removed_safely label_kind E2 (obj s2) s2) s2) \<and>
   (wp (reconcileProcessGroupDelete E3) (\<lambda>_. removed_safely process_group_kind E3 (obj s3) s3) s3) \<and>
   (wp (reconcileConnectionDelete E4) (\<lambda>_. removed_safely connection_kind E4 (obj s4) s4) s4) \<and>
   (wp (reconcileInputPortDelete E5) (\<lambda>_. removed_safely input_port_kind E5 (obj s5) s5) s5) \<and>
   (wp (reconcileOutputPortDelete E5) (\<lambda>_. removed_safely output_port_kind E5 (obj s5) s5) s5) \<and>
   (wp (reconcileProcessorDelete E6) (\<lambda>_. removed_safely processor_kind E6 (obj s6) s6) s6) \<and>
   (wp (reconcileControllerServiceDelete E7) (\<lambda>_. removed_safely controller_service_kind E7 (obj s7) s7) s7) \<and>
   (wp (reconcileReportingTaskDelete E8) (\<lambda>_. removed_safely reporting_task_kind E8 (obj s8) s8) s8) \<and>
   (wp (reconcileParameterProviderDelete E9) (\<lambda>_. removed_safely parameter_provider_kind E9 (obj s9) s9) s9) \<and>
   (wp (reconcileRegistryClientDelete E10) (\<lambda>_. removed_safely registry_client_kind E10 (obj s10) s10) s10) \<and>
   (wp (reconcileUserDelete E11) (\<lambda>_. removed_safely user_kind E11 (obj s11) s11) s11) \<and>
   (wp (reconcileUserGroupDelete E12) (\<lambda>_. removed_safely user_group_kind E12 (obj s12) s12) s12) \<and>
   (wp (reconcileParameterContextDelete E13) (\<lambda>_. removed_safely parameter_context_kind E13 (obj s13) s13) s13)"
  unfolding deletion_defs
  by (intro conjI stored.removal_safe current.removal_safe recorded.removal_safe strict.removal_safe)

text \<open>
  An object is deleted at the revision that NiFi reported in the same run, and a processor, controller service or
  reporting task that NiFi reported as running is deleted only right after NiFi agreed to stop it.
\<close>

theorem deletion_at_current_revision:
  "(keeps (delete_law funnel_kind no_run_state E1) (reconcileFunnelDelete E1)) \<and>
   (keeps (delete_law label_kind no_run_state E2) (reconcileLabelDelete E2)) \<and>
   (keeps (delete_law process_group_kind no_run_state E3) (reconcileProcessGroupDelete E3)) \<and>
   (keeps (delete_law connection_kind no_run_state E4) (reconcileConnectionDelete E4)) \<and>
   (keeps (delete_law input_port_kind no_run_state E5) (reconcileInputPortDelete E5)) \<and>
   (keeps (delete_law output_port_kind no_run_state E5) (reconcileOutputPortDelete E5)) \<and>
   (keeps (delete_law processor_kind processor_rules E6) (reconcileProcessorDelete E6)) \<and>
   (keeps (delete_law controller_service_kind service_rules E7) (reconcileControllerServiceDelete E7)) \<and>
   (keeps (delete_law reporting_task_kind task_rules E8) (reconcileReportingTaskDelete E8)) \<and>
   (keeps (delete_law parameter_provider_kind no_run_state E9) (reconcileParameterProviderDelete E9)) \<and>
   (keeps (delete_law parameter_context_kind no_run_state E13) (reconcileParameterContextDelete E13))"
  unfolding deletion_defs
  by (intro conjI stored_deletion_lawful stateless_deletion_lawful current_deletion_lawful [where R = processor_rules, simplified]
        current_deletion_lawful [where R = service_rules, simplified] current_deletion_lawful [where R = task_rules, simplified])

text \<open>
  C37. A deletion that NiFi does not refuse is finished in one reconcile. For the resources of thirteen kinds, when the cluster is ready and NiFi answers reads,
  stops and the deletion, if only with "not found", so whether the object still exists, is running, or was already
  removed by someone else, the last call of the reconcile sends the resource with the finalizer of the controller taken off and nothing
  else changed; the reconcile asks for no retry and returns an error exactly if the API server refused that update. For a registry client the
  same holds if NiFi accepts the deletion; one that is already gone stays (\<open>registry_client_stuck\<close>).
\<close>

theorem deletion_finishes:
  "(unrefused funnel_kind E1 (obj s1) \<longrightarrow> wp (reconcileFunnelDelete E1) (deletion_done E1 (obj s1)) s1) \<and>
   (unrefused label_kind E2 (obj s2) \<longrightarrow> wp (reconcileLabelDelete E2) (deletion_done E2 (obj s2)) s2) \<and>
   (unrefused process_group_kind E3 (obj s3) \<longrightarrow> wp (reconcileProcessGroupDelete E3) (deletion_done E3 (obj s3)) s3) \<and>
   (unrefused connection_kind E4 (obj s4) \<longrightarrow> wp (reconcileConnectionDelete E4) (deletion_done E4 (obj s4)) s4) \<and>
   (unrefused input_port_kind E5 (obj s5) \<longrightarrow> wp (reconcileInputPortDelete E5) (deletion_done E5 (obj s5)) s5) \<and>
   (unrefused output_port_kind E5 (obj s5) \<longrightarrow> wp (reconcileOutputPortDelete E5) (deletion_done E5 (obj s5)) s5) \<and>
   (unrefused processor_kind E6 (obj s6) \<longrightarrow> wp (reconcileProcessorDelete E6) (deletion_done E6 (obj s6)) s6) \<and>
   (unrefused controller_service_kind E7 (obj s7) \<longrightarrow> wp (reconcileControllerServiceDelete E7) (deletion_done E7 (obj s7)) s7) \<and>
   (unrefused reporting_task_kind E8 (obj s8) \<longrightarrow> wp (reconcileReportingTaskDelete E8) (deletion_done E8 (obj s8)) s8) \<and>
   (unrefused parameter_provider_kind E9 (obj s9) \<longrightarrow> wp (reconcileParameterProviderDelete E9) (deletion_done E9 (obj s9)) s9) \<and>
   (unrefused user_kind E11 (obj s11) \<longrightarrow> wp (reconcileUserDelete E11) (deletion_done E11 (obj s11)) s11) \<and>
   (unrefused user_group_kind E12 (obj s12) \<longrightarrow> wp (reconcileUserGroupDelete E12) (deletion_done E12 (obj s12)) s12) \<and>
   (unrefused parameter_context_kind E13 (obj s13) \<longrightarrow> wp (reconcileParameterContextDelete E13) (deletion_done E13 (obj s13)) s13) \<and>
   (unrefused registry_client_kind E10 (obj s10) \<and> (\<forall>v log. ke_Delete E10 (cs_NiFiID (ob_Common (obj s10))) v log = None) \<longrightarrow>
      wp (reconcileRegistryClientDelete E10) (deletion_done E10 (obj s10)) s10)"
  unfolding deletion_defs
  by (intro conjI impI stored.delete_releases current.delete_releases recorded.delete_releases strict_releases) simp_all

lemma component_env_unrefused: "unrefused K component_env d"
  by (simp add: unrefused_def component_env_def component_cluster_def clusterEndpoint_def)

theorem deletion_finishes_witness:
  "(\<forall>s. wp (reconcileFunnelDelete component_env) (deletion_done component_env (obj s)) s) \<and>
   (\<forall>s. wp (reconcileLabelDelete component_env) (deletion_done component_env (obj s)) s) \<and>
   (\<forall>s. wp (reconcileProcessGroupDelete component_env) (deletion_done component_env (obj s)) s) \<and>
   (\<forall>s. wp (reconcileConnectionDelete component_env) (deletion_done component_env (obj s)) s) \<and>
   (\<forall>s. wp (reconcileInputPortDelete component_env) (deletion_done component_env (obj s)) s) \<and>
   (\<forall>s. wp (reconcileOutputPortDelete component_env) (deletion_done component_env (obj s)) s) \<and>
   (\<forall>s. wp (reconcileProcessorDelete component_env) (deletion_done component_env (obj s)) s) \<and>
   (\<forall>s. wp (reconcileControllerServiceDelete component_env) (deletion_done component_env (obj s)) s) \<and>
   (\<forall>s. wp (reconcileReportingTaskDelete component_env) (deletion_done component_env (obj s)) s) \<and>
   (\<forall>s. wp (reconcileParameterProviderDelete component_env) (deletion_done component_env (obj s)) s) \<and>
   (\<forall>s. wp (reconcileUserDelete component_env) (deletion_done component_env (obj s)) s) \<and>
   (\<forall>s. wp (reconcileUserGroupDelete component_env) (deletion_done component_env (obj s)) s) \<and>
   (\<forall>s. wp (reconcileParameterContextDelete component_env) (deletion_done component_env (obj s)) s) \<and>
   (\<forall>s. wp (reconcileRegistryClientDelete (component_env\<lparr>ke_Delete := (\<lambda>_ _ _. None)\<rparr>)) (deletion_done (component_env\<lparr>ke_Delete := (\<lambda>_ _ _. None)\<rparr>) (obj s)) s)"
  by (simp add: deletion_finishes component_env_unrefused) (simp add: deletion_finishes unrefused_def component_env_def component_cluster_def clusterEndpoint_def)

section \<open>A registry client that is already gone is never released\<close>

lemma registry_client_stuck:
  assumes "unrefused registry_client_kind E (obj s)" "rcs_DeletionPolicy (ob_Spec (obj s)) = ''Delete''" "cs_NiFiID (ob_Common (obj s)) \<noteq> ''''"
    "cr_Name (rcs_ClusterRef (ob_Spec (obj s))) \<noteq> ''''"
    "\<And>cl log. ke_GetCluster E (clusterRefNamespace (ob_Namespace (obj s)) (rcs_ClusterRef (ob_Spec (obj s)))) (cr_Name (rcs_ClusterRef (ob_Spec (obj s)))) log = Inr cl \<Longrightarrow> \<not> cl_Deleting cl"
    "\<And>v log. ke_Delete E (cs_NiFiID (ob_Common (obj s))) v log \<noteq> None"
  shows "wp (reconcileRegistryClientDelete E) (\<lambda>r s'. obj s' = obj s \<and> fst r = requeue_after 30) s"
proof -
  have k: "kd_ClusterRef registry_client_kind = rcs_ClusterRef" "kd_DeletionPolicy registry_client_kind = rcs_DeletionPolicy"
    by (simp_all add: registry_client_kind_def)
  note un = unrefusedD [OF assms(1), unfolded k]
  show ?thesis
    unfolding reconcileRegistryClientDelete_def delete_frame_def clusterForDeletion_def remove_strict_def k_GetCluster_def k_Configure_def k_Delete_def k
    by (intro wp_intros) (use assms(2-4) in \<open>auto simp: un(3) dest: un(1) un(2) assms(5) assms(6) [THEN notE]\<close>)
qed

end
