(* ===== verification/Canvas_Facts.thy ===== *)
theory Canvas_Facts
  imports Canvas_Laws
begin

text \<open>
  What the controllers of single objects write: the discipline of revisions and run states for all kinds, the
  convergence of the comparisons, the endpoints of connections, and when a reconcile leaves everything alone.
\<close>

section \<open>Revisions and run states\<close>

text \<open>
  C12. Every update of an object without a run state, and every update request of a parameter context, carries the revision of NiFi's last
  answer about the object, whatever that answer was to: a read, a search, a creation or an earlier write of the same reconcile.
\<close>

theorem updates_carry_current_revision:
  "keeps (write_law funnel_kind no_run_state E1) (NiFiFunnelReconciler_Reconcile E1) \<and>
   keeps (write_law label_kind no_run_state E2) (NiFiLabelReconciler_Reconcile E2) \<and>
   keeps (write_law process_group_kind no_run_state E3) (NiFiProcessGroupReconciler_Reconcile E3) \<and>
   keeps (write_law connection_kind no_run_state E4) (NiFiConnectionReconciler_Reconcile E4) \<and>
   keeps (write_law parameter_provider_kind no_run_state E5) (NiFiParameterProviderReconciler_Reconcile E5) \<and>
   keeps (write_law registry_client_kind no_run_state E6) (NiFiRegistryClientReconciler_Reconcile E6) \<and>
   keeps (write_law user_kind no_run_state E7) (NiFiUserReconciler_Reconcile E7) \<and>
   keeps (write_law user_group_kind no_run_state E8) (NiFiUserGroupReconciler_Reconcile E8) \<and>
   keeps (write_law policy_kind no_run_state E9) (NiFiPolicyReconciler_Reconcile E9) \<and>
   keeps (write_law parameter_context_kind no_run_state E10) (NiFiParameterContextReconciler_Reconcile E10)"
  by (intro conjI funnel_writes label_writes process_group_writes connection_writes provider_writes registry_writes
        user_writes user_group_writes policy_writes parameter_context_writes)

text \<open>
  C1. Input ports, output ports, processors, controller services and reporting tasks are changed only while stopped: if NiFi
  reported the object as running, the call just before the update stopped it and NiFi agreed. They are started only when NiFi
  reported them neither as INVALID nor as VALIDATING, and all of it at the revision NiFi last reported.
\<close>

theorem running_objects_are_stopped_first:
  "keeps (write_law input_port_kind port_rules E1) (NiFiInputPortReconciler_Reconcile E1) \<and>
   keeps (write_law output_port_kind port_rules E1) (NiFiOutputPortReconciler_Reconcile E1) \<and>
   keeps (write_law processor_kind processor_rules E2) (NiFiProcessorReconciler_Reconcile E2) \<and>
   keeps (write_law controller_service_kind service_rules E3) (NiFiControllerServiceReconciler_Reconcile E3) \<and>
   keeps (write_law reporting_task_kind task_rules E4) (NiFiReportingTaskReconciler_Reconcile E4)"
  by (intro conjI port_writes processor_writes service_writes task_writes)

section \<open>Convergence\<close>

lemma mark_ready_matches:
  "wp (mark_ready E reason message i v f) (\<lambda>_ s'. status_matches (obj s') i v \<and> ob_Status (obj s') = f (ob_Status (obj s)) \<and>
     heard E (calls s') = heard E (calls s)) s"
  by (rule wp_mono [OF mark_ready_reports]) (auto simp: heard_snoc)

definition takes_updates ::
  "('sp, 'e) kind \<Rightarrow> ('o, 'e) kenv \<Rightarrow> ('e \<Rightarrow> bool) \<Rightarrow> ('e \<Rightarrow> 'e) \<Rightarrow> ('e \<Rightarrow> 'e \<Rightarrow> 'e \<Rightarrow> bool) \<Rightarrow> bool" where
  \<comment> \<open>an update of the entity that NiFi last reported, at the reported revision, is answered with an entity that is the reported one
     with the sent fields put into it\<close>
  "takes_updates K E fitting sent patched \<longleftrightarrow> (\<forall>e log. heard E log = [e] \<longrightarrow> fitting e \<longrightarrow>
     (\<exists>r. ke_Update E (kd_Address K (kd_EntityID K e) (kd_Revision K e) (sent e)) log = Inr (Some r) \<and> patched e (sent e) r))"

definition settled_object :: "('e \<Rightarrow> bool) \<Rightarrow> ('e \<Rightarrow> ('sp, 'st, 'e, outcome) khandler) \<Rightarrow> ('sp, 'st, 'e) renv \<Rightarrow> ('sp, 'st, 'e) kstate \<Rightarrow> bool" where
  \<comment> \<open>what NiFi last reported agrees with the spec, and \<open>reconcileExisting\<close> makes no call and changes nothing\<close>
  "settled_object agrees reconcileExisting E s \<longleftrightarrow>
     (\<exists>r. heard E (calls s) = [r] \<and> agrees r \<and> run_state (reconcileExisting r) s = ((no_result, None), s))"

definition settles :: "('e \<Rightarrow> bool) \<Rightarrow> ('e \<Rightarrow> bool) \<Rightarrow> ('e \<Rightarrow> ('sp, 'st, 'e, outcome) khandler) \<Rightarrow> ('sp, 'st, 'e) renv \<Rightarrow> bool" where
  \<comment> \<open>one pass over an object that NiFi just reported is enough\<close>
  "settles fitting agrees reconcileExisting E \<longleftrightarrow>
     (\<forall>s e. heard E (calls s) = [e] \<longrightarrow> fitting e \<longrightarrow> wp (reconcileExisting e) (\<lambda>_. settled_object agrees reconcileExisting E) s)"

locale in_place = addressed K for K :: "('sp, 'e) kind" +
  fixes E :: "('sp, 'st, 'e) renv" and needs fitting agrees :: "'e \<Rightarrow> bool" and sent :: "'e \<Rightarrow> 'e" and patched :: "'e \<Rightarrow> 'e \<Rightarrow> 'e \<Rightarrow> bool"
    and matches :: "('sp, 'st) resource \<Rightarrow> string \<Rightarrow> int \<Rightarrow> bool" and mark :: "string \<Rightarrow> int \<Rightarrow> ('sp, 'st, 'e, go_error option) khandler"
  assumes unneeded: "fitting e \<Longrightarrow> \<not> needs e \<Longrightarrow> agrees e"
    and converges: "fitting e \<Longrightarrow> patched e (sent e) r \<Longrightarrow> agrees r \<and> \<not> needs r"
    and marked: "wp (mark i v) (\<lambda>_ s'. matches (obj s') i v \<and> heard E (calls s') = heard E (calls s)) s"
begin

lemma settledI:
  assumes "heard E (calls s) = [e]" "agrees e" "\<not> needs e" "matches (obj s) (kd_EntityID K e) (kd_Revision K e)"
  shows "settled_object agrees (\<lambda>e. update_in_place K E (needs e) (sent e) e matches mark) E s"
  using assms by (auto simp: settled_object_def update_in_place_def settle_ready_def Let_def get_obj_def)

lemma settle_reached:
  assumes "heard E (calls s) = [e]"
  shows "wp (settle_ready E matches mark (kd_EntityID K e) (kd_Revision K e))
    (\<lambda>_ s'. heard E (calls s') = [e] \<and> matches (obj s') (kd_EntityID K e) (kd_Revision K e)) s"
  unfolding settle_ready_def by (intro wp_intros wp_mono [OF marked]) (use assms in auto)

lemma reached:
  assumes st: "takes_updates K E fitting sent patched" and h: "heard E (calls s) = [e]" and f: "fitting e"
  shows "wp (update_in_place K E (needs e) (sent e) e matches mark)
    (\<lambda>_ s'. \<exists>r. heard E (calls s') = [r] \<and> agrees r \<and> \<not> needs r \<and> matches (obj s') (kd_EntityID K r) (kd_Revision K r)) s"
proof (cases "needs e")
  case False
  then show ?thesis
    unfolding update_in_place_def Let_def by (auto intro!: wp_mono [OF settle_reached [OF h]] unneeded [OF f])
next
  case True
  let ?u = "kd_Address K (kd_EntityID K e) (kd_Revision K e) (sent e)"
  obtain r where r: "ke_Update E ?u (calls s) = Inr (Some r)" "patched e (sent e) r"
    using st h f by (auto simp: takes_updates_def)
  have h': "heard E (calls s @ [KUpdate ?u]) = [r]" by (simp add: heard_snoc r)
  show ?thesis
    using True unfolding update_in_place_def k_Update_def Let_def
    by (auto simp: r h' converges [OF f r(2)] intro!: wp_bindI wp_ext_callI wp_intros wp_mono [OF marked])
qed

lemma one_pass: "takes_updates K E fitting sent patched \<Longrightarrow> settles fitting agrees (\<lambda>e. update_in_place K E (needs e) (sent e) e matches mark) E"
  unfolding settles_def by (blast intro: wp_mono [OF reached] settledI)

end

subsection \<open>What NiFi makes of an update\<close>

text \<open>
  The client leaves a field out of the request when it has its zero value (\<open>omitempty\<close>), and NiFi keeps what it has for a field it
  is not sent. So a field of NiFi's answer is the sent one if that is set, and otherwise the one NiFi reported before. NiFi does not
  move an object to another group and does not change the type of a registry client; the relationships of a connection are a set.
\<close>

definition overlay :: "'a \<Rightarrow> 'a \<Rightarrow> 'a \<Rightarrow> 'a" where
  "overlay unset old new = (if new = unset then old else new)"

definition settable :: "'a \<Rightarrow> 'a \<Rightarrow> 'a \<Rightarrow> bool" where
  \<comment> \<open>an update can bring the field to the wanted value\<close>
  "settable unset new old \<longleftrightarrow> new \<noteq> unset \<or> old = unset"

definition stays_in :: "string \<Rightarrow> string \<Rightarrow> bool" where
  \<comment> \<open>the object is in the parent group that is asked for, if one is\<close>
  "stays_in wanted actual \<longleftrightarrow> wanted = '''' \<or> wanted = actual"

definition same_place :: "Position option \<Rightarrow> Position option \<Rightarrow> bool" where
  "same_place p q \<longleftrightarrow> (case p of None \<Rightarrow> q = None | Some a \<Rightarrow> \<exists>b. q = Some b \<and> float_eq (po_X a) (po_X b) \<and> float_eq (po_Y a) (po_Y b))"

definition shows_entries :: "go_map \<Rightarrow> go_map \<Rightarrow> string list \<Rightarrow> bool" where
  \<comment> \<open>every entry of the first map, but those under the given keys, is in the second one\<close>
  "shows_entries wanted actual except \<longleftrightarrow> (\<forall>k \<in> fst ` set wanted. k \<notin> set except \<longrightarrow> map_get actual k = map_get wanted k)"

lemma overlay_settable [simp]: "settable unset new old \<Longrightarrow> overlay unset old new = new"
  by (auto simp: overlay_def settable_def)

lemma same_place_refl [simp]: "same_place p p"
  by (simp add: same_place_def split: option.split)

lemma same_place_iff: "same_place p q \<longleftrightarrow> nifiPositionsEqual p q"
  by (auto simp: same_place_def nifiPositionsEqual_def split: option.splits)

definition funnel_patched :: "FunnelEntity \<Rightarrow> FunnelEntity \<Rightarrow> FunnelEntity \<Rightarrow> bool" where
  "funnel_patched old new answer \<longleftrightarrow>
     (let o' = en_Component old; n = en_Component new; a = en_Component answer in
      fuc_ParentGroupID a = fuc_ParentGroupID o' \<and> fuc_Position a = overlay None (fuc_Position o') (fuc_Position n))"

definition funnel_fits :: "FunnelEntity \<Rightarrow> FunnelEntity \<Rightarrow> bool" where
  "funnel_fits desired existing \<longleftrightarrow>
     (let d = en_Component desired; e = en_Component existing in
      stays_in (fuc_ParentGroupID d) (fuc_ParentGroupID e) \<and> settable None (fuc_Position d) (fuc_Position e))"

definition funnel_agrees :: "FunnelEntity \<Rightarrow> FunnelEntity \<Rightarrow> bool" where
  "funnel_agrees desired existing \<longleftrightarrow>
     (let d = en_Component desired; e = en_Component existing in
      stays_in (fuc_ParentGroupID d) (fuc_ParentGroupID e) \<and> same_place (fuc_Position d) (fuc_Position e))"

definition label_patched :: "LabelEntity \<Rightarrow> LabelEntity \<Rightarrow> LabelEntity \<Rightarrow> bool" where
  "label_patched old new answer \<longleftrightarrow>
     (let o' = en_Component old; n = en_Component new; a = en_Component answer in
      lac_ParentGroupID a = lac_ParentGroupID o' \<and> lac_Label a = overlay '''' (lac_Label o') (lac_Label n) \<and>
      lac_Width a = overlay (float64_of_int 0) (lac_Width o') (lac_Width n) \<and>
      lac_Height a = overlay (float64_of_int 0) (lac_Height o') (lac_Height n) \<and>
      lac_Position a = overlay None (lac_Position o') (lac_Position n) \<and>
      map_of (lac_Style a) = map_of (overlay [] (lac_Style o') (lac_Style n)))"

definition label_fits :: "LabelEntity \<Rightarrow> LabelEntity \<Rightarrow> bool" where
  "label_fits desired existing \<longleftrightarrow>
     (let d = en_Component desired; e = en_Component existing in
      stays_in (lac_ParentGroupID d) (lac_ParentGroupID e) \<and> settable '''' (lac_Label d) (lac_Label e) \<and>
      settable (float64_of_int 0) (lac_Width d) (lac_Width e) \<and> settable (float64_of_int 0) (lac_Height d) (lac_Height e) \<and>
      settable None (lac_Position d) (lac_Position e) \<and> settable [] (lac_Style d) (lac_Style e))"

definition label_agrees :: "LabelEntity \<Rightarrow> LabelEntity \<Rightarrow> bool" where
  "label_agrees desired existing \<longleftrightarrow>
     (let d = en_Component desired; e = en_Component existing in
      stays_in (lac_ParentGroupID d) (lac_ParentGroupID e) \<and> lac_Label e = lac_Label d \<and>
      float_eq (lac_Width d) (lac_Width e) \<and> float_eq (lac_Height d) (lac_Height e) \<and>
      same_place (lac_Position d) (lac_Position e) \<and> shows_entries (lac_Style d) (lac_Style e) [])"

definition process_group_patched :: "ProcessGroupEntity \<Rightarrow> ProcessGroupEntity \<Rightarrow> ProcessGroupEntity \<Rightarrow> bool" where
  "process_group_patched old new answer \<longleftrightarrow>
     (let o' = pg_Component old; n = pg_Component new; a = pg_Component answer in
      pgc_ParentGroupID a = pgc_ParentGroupID o' \<and> pgc_Name a = overlay '''' (pgc_Name o') (pgc_Name n) \<and>
      pgc_Comments a = overlay '''' (pgc_Comments o') (pgc_Comments n) \<and>
      pgc_Position a = overlay None (pgc_Position o') (pgc_Position n) \<and>
      pgc_ParameterContext a = overlay None (pgc_ParameterContext o') (pgc_ParameterContext n))"

definition process_group_fits :: "ProcessGroupEntity \<Rightarrow> ProcessGroupEntity \<Rightarrow> bool" where
  "process_group_fits desired existing \<longleftrightarrow>
     (let d = pg_Component desired; e = pg_Component existing in
      stays_in (pgc_ParentGroupID d) (pgc_ParentGroupID e) \<and> settable '''' (pgc_Name d) (pgc_Name e) \<and>
      settable '''' (pgc_Comments d) (pgc_Comments e) \<and> settable None (pgc_Position d) (pgc_Position e) \<and>
      settable None (pgc_ParameterContext d) (pgc_ParameterContext e))"

definition process_group_agrees :: "ProcessGroupEntity \<Rightarrow> ProcessGroupEntity \<Rightarrow> bool" where
  "process_group_agrees desired existing \<longleftrightarrow>
     (let d = pg_Component desired; e = pg_Component existing in
      stays_in (pgc_ParentGroupID d) (pgc_ParentGroupID e) \<and> pgc_Name e = pgc_Name d \<and> pgc_Comments e = pgc_Comments d \<and>
      same_place (pgc_Position d) (pgc_Position e) \<and> (\<forall>i. pgc_ParameterContext d = Some i \<and> i \<noteq> '''' \<longrightarrow> pgc_ParameterContext e = Some i))"

definition connection_patched :: "ConnectionEntity \<Rightarrow> ConnectionEntity \<Rightarrow> ConnectionEntity \<Rightarrow> bool" where
  "connection_patched old new answer \<longleftrightarrow>
     (let o' = ce_Component old; n = ce_Component new; a = ce_Component answer in
      cc_BackPressureObjectThreshold a = overlay 0 (cc_BackPressureObjectThreshold o') (cc_BackPressureObjectThreshold n) \<and>
      cc_BackPressureDataSizeThreshold a = overlay '''' (cc_BackPressureDataSizeThreshold o') (cc_BackPressureDataSizeThreshold n) \<and>
      cc_FlowFileExpiration a = overlay '''' (cc_FlowFileExpiration o') (cc_FlowFileExpiration n) \<and>
      cc_LoadBalanceStrategy a = overlay '''' (cc_LoadBalanceStrategy o') (cc_LoadBalanceStrategy n) \<and>
      cc_LoadBalancePartitionAttribute a = overlay '''' (cc_LoadBalancePartitionAttribute o') (cc_LoadBalancePartitionAttribute n) \<and>
      distinct (cc_SelectedRelationships a) \<and>
      set (cc_SelectedRelationships a) = set (overlay [] (cc_SelectedRelationships o') (cc_SelectedRelationships n)) \<and>
      cc_Prioritizers a = overlay [] (cc_Prioritizers o') (cc_Prioritizers n) \<and> cc_Bends a = overlay [] (cc_Bends o') (cc_Bends n))"

definition connection_fits :: "ConnectionEntity \<Rightarrow> ConnectionEntity \<Rightarrow> bool" where
  "connection_fits desired existing \<longleftrightarrow> length (cc_SelectedRelationships (ce_Component desired)) \<le> 1"

definition connection_agrees :: "ConnectionEntity \<Rightarrow> ConnectionEntity \<Rightarrow> bool" where
  \<comment> \<open>every tuning of the connection that the spec sets\<close>
  "connection_agrees desired existing \<longleftrightarrow>
     (let d = ce_Component desired; e = ce_Component existing in
      (cc_BackPressureObjectThreshold d \<noteq> 0 \<longrightarrow> cc_BackPressureObjectThreshold d = cc_BackPressureObjectThreshold e) \<and>
      (cc_BackPressureDataSizeThreshold d \<noteq> '''' \<longrightarrow> cc_BackPressureDataSizeThreshold d = cc_BackPressureDataSizeThreshold e) \<and>
      (cc_FlowFileExpiration d \<noteq> '''' \<longrightarrow> cc_FlowFileExpiration d = cc_FlowFileExpiration e) \<and>
      (cc_LoadBalanceStrategy d \<noteq> '''' \<longrightarrow> cc_LoadBalanceStrategy d = cc_LoadBalanceStrategy e) \<and>
      (cc_LoadBalancePartitionAttribute d \<noteq> '''' \<longrightarrow> cc_LoadBalancePartitionAttribute d = cc_LoadBalancePartitionAttribute e) \<and>
      (cc_SelectedRelationships d \<noteq> [] \<longrightarrow> cc_SelectedRelationships d = cc_SelectedRelationships e) \<and>
      (cc_Prioritizers d \<noteq> [] \<longrightarrow> cc_Prioritizers d = cc_Prioritizers e) \<and>
      (cc_Bends d \<noteq> [] \<longrightarrow> list_all2 (\<lambda>a b. float_eq (po_X a) (po_X b) \<and> float_eq (po_Y a) (po_Y b)) (cc_Bends d) (cc_Bends e)))"

definition registry_patched :: "string list \<Rightarrow> RegistryClientEntity \<Rightarrow> RegistryClientEntity \<Rightarrow> RegistryClientEntity \<Rightarrow> bool" where
  \<comment> \<open>what NiFi shows for a sensitive property, or for one it was not sent, is left open\<close>
  "registry_patched sensitiveKeys old new answer \<longleftrightarrow>
     (let o' = en_Component old; n = en_Component new; a = en_Component answer in
      rcc_Name a = overlay '''' (rcc_Name o') (rcc_Name n) \<and> rcc_Type a = rcc_Type o' \<and>
      rcc_Description a = overlay '''' (rcc_Description o') (rcc_Description n) \<and>
      shows_entries (rcc_Properties n) (rcc_Properties a) sensitiveKeys)"

definition registry_fits :: "RegistryClientEntity \<Rightarrow> RegistryClientEntity \<Rightarrow> bool" where
  "registry_fits desired existing \<longleftrightarrow>
     (let d = en_Component desired; e = en_Component existing in
      rcc_Type e = rcc_Type d \<and> settable '''' (rcc_Name d) (rcc_Name e) \<and> settable '''' (rcc_Description d) (rcc_Description e))"

definition registry_agrees :: "string list \<Rightarrow> RegistryClientEntity \<Rightarrow> RegistryClientEntity \<Rightarrow> bool" where
  "registry_agrees sensitiveKeys desired existing \<longleftrightarrow>
     (let d = en_Component desired; e = en_Component existing in
      rcc_Type e = rcc_Type d \<and> rcc_Name e = rcc_Name d \<and> rcc_Description e = rcc_Description d \<and>
      shows_entries (rcc_Properties d) (rcc_Properties e) sensitiveKeys)"

lemma position_slices_iff:
  "nifiPositionSlicesEqual ps qs \<longleftrightarrow> list_all2 (\<lambda>a b. float_eq (po_X a) (po_X b) \<and> float_eq (po_Y a) (po_Y b)) ps qs"
  by (induction ps qs rule: nifiPositionSlicesEqual.induct) auto

lemma managed_shown: "\<not> managedPropertiesDiffer d e keys \<longleftrightarrow> shows_entries d e keys"
  by (auto simp: managedPropertiesDiffer_def shows_entries_def list_ex_iff)

lemma equal_maps_shown: "stringMapsEqual d e \<Longrightarrow> shows_entries d e []"
  by (force simp: stringMapsEqual_def shows_entries_def list_all_iff)

lemma same_maps_equal: "map_of e = map_of d \<Longrightarrow> stringMapsEqual d e"
proof -
  assume m: "map_of e = map_of d"
  have "set (map_keys e) = set (map_keys d)" using arg_cong [OF m, of dom] by (simp add: dom_map_of_conv_image_fst)
  moreover have "distinct (map_keys e)" "distinct (map_keys d)" by (simp_all add: map_keys_def)
  ultimately have "length (map_keys d) = length (map_keys e)" by (metis distinct_card)
  then show ?thesis using m by (simp add: stringMapsEqual_def map_get_def list_all_iff)
qed

lemma one_relationship: "length xs \<le> 1 \<Longrightarrow> xs \<noteq> [] \<Longrightarrow> distinct ys \<Longrightarrow> set ys = set xs \<Longrightarrow> ys = xs"
  by (cases xs; cases ys; cases "tl ys") auto

lemma any_difference: "(if c then True else rest) \<longleftrightarrow> c \<or> rest"
  by simp

lemmas ready_mark_defs = markFunnelReady_def markLabelReady_def markProcessGroupReady_def markConnectionReady_def markRegistryClientReady_def
  markUserGroupReady_def markPolicyReady_def

lemmas status_match_defs = funnelStatusMatches_def labelStatusMatches_def processGroupStatusMatches_def connectionStatusMatches_def
  registryClientStatusMatches_def parent_matches_def

lemmas patch_defs = funnel_patched_def funnel_fits_def funnel_agrees_def label_patched_def label_fits_def label_agrees_def
  process_group_patched_def process_group_fits_def process_group_agrees_def connection_patched_def connection_fits_def connection_agrees_def
  registry_patched_def registry_fits_def registry_agrees_def

lemmas pass_simps = any_difference needs_update_defs ready_mark_defs status_match_defs same_place_iff position_slices_iff managed_shown
  keep_endpoints_def string_slices_equal pinned_differs_def stays_in_def Let_def

interpretation funnel_pass: in_place funnel_kind E "funnelNeedsUpdate desired" "funnel_fits desired" "funnel_agrees desired" "\<lambda>_. desired" funnel_patched
    "\<lambda>i n v. funnelStatusMatches i n v parent" "\<lambda>n v. markFunnelReady E n v parent" for E desired parent
  by unfold_locales (auto simp: pass_simps patch_defs intro!: wp_mono [OF mark_ready_matches])

interpretation label_pass: in_place label_kind E "labelNeedsUpdate desired" "label_fits desired" "label_agrees desired" "\<lambda>_. desired" label_patched
    "\<lambda>i n v. labelStatusMatches i n v parent" "\<lambda>n v. markLabelReady E n v parent" for E desired parent
  by unfold_locales (auto simp: pass_simps patch_defs equal_maps_shown same_maps_equal intro!: wp_mono [OF mark_ready_matches])

interpretation process_group_pass: in_place process_group_kind E "processGroupNeedsUpdate desired" "process_group_fits desired"
    "process_group_agrees desired" "\<lambda>_. desired" process_group_patched
    "\<lambda>i n v. processGroupStatusMatches i n v parent" "\<lambda>n v. markProcessGroupReady E n v parent" for E desired parent
  by unfold_locales (auto simp: pass_simps patch_defs componentReferenceID_def intro!: wp_mono [OF mark_ready_matches] split: option.splits)

interpretation connection_pass: in_place connection_kind E "connectionNeedsUpdate desired" "connection_fits desired" "connection_agrees desired"
    "\<lambda>e. keep_endpoints e desired" connection_patched
    "\<lambda>i n v. connectionStatusMatches i n v source destination" "\<lambda>n v. markConnectionReady E n v source destination" for E desired source destination
proof unfold_locales
  show "connection_agrees desired r \<and> \<not> connectionNeedsUpdate desired r"
    if "connection_fits desired e" "connection_patched e (keep_endpoints e desired) r" for e r
  proof -
    have "cc_SelectedRelationships (ce_Component desired) = cc_SelectedRelationships (ce_Component r)"
      if ne: "cc_SelectedRelationships (ce_Component desired) \<noteq> []"
    proof -
      have "distinct (cc_SelectedRelationships (ce_Component r)) \<and>
        set (cc_SelectedRelationships (ce_Component r)) = set (cc_SelectedRelationships (ce_Component desired))"
        using \<open>connection_patched e _ r\<close> ne by (auto simp: connection_patched_def keep_endpoints_def overlay_def Let_def)
      with one_relationship [OF _ ne] \<open>connection_fits desired e\<close> show ?thesis by (metis connection_fits_def)
    qed
    then show ?thesis using \<open>connection_patched e _ r\<close> by (simp add: pass_simps patch_defs overlay_def list_all2_refl disj_imp)
  qed
  show "connection_agrees desired e" if "\<not> connectionNeedsUpdate desired e" for e
    using that by (simp add: pass_simps connection_agrees_def disj_imp)
qed (simp add: pass_simps wp_mono [OF mark_ready_matches])

interpretation registry_pass: in_place registry_client_kind E "\<lambda>e. registryClientNeedsUpdate desired e keys" "registry_fits desired"
    "registry_agrees keys desired" "\<lambda>_. desired" "registry_patched keys"
    "\<lambda>i n v. registryClientStatusMatches i n v type" "\<lambda>n v. markRegistryClientReady E n v type" for E desired keys type
  by unfold_locales (auto simp: pass_simps patch_defs shows_entries_def intro!: wp_mono [OF mark_ready_matches])


definition storing_env :: "('sp, 'e) kind \<Rightarrow> ('o, 'e) kenv" where
  \<comment> \<open>NiFi takes the entity as it is sent, under the next revision\<close>
  "storing_env K = component_env\<lparr>ke_Update := (\<lambda>e log. Inr (Some (kd_Address K (kd_EntityID K e) (kd_Revision K e + 1) e)))\<rparr>"

definition wanted_position :: "Position option" where
  "wanted_position = Some \<lparr>po_X = float64_of_int 16, po_Y = float64_of_int 8\<rparr>"

definition wanted_label :: LabelEntity where
  "wanted_label = new_entity \<lparr>lac_ID = '''', lac_ParentGroupID = ''pg'', lac_Label = ''text'', lac_Position = wanted_position,
     lac_Width = float64_of_int 3, lac_Height = float64_of_int 4, lac_Style = [(''color'', ''red'')]\<rparr>"

definition stale_label :: LabelEntity where
  \<comment> \<open>what NiFi has: another text, another place\<close>
  "stale_label = \<lparr>en_ID = ''l1'', en_Revision = \<lparr>re_Version = 7\<rparr>, en_Component = \<lparr>lac_ID = ''l1'', lac_ParentGroupID = ''pg'',
     lac_Label = ''old'', lac_Position = Some \<lparr>po_X = float64_of_int 1, po_Y = float64_of_int 1\<rparr>,
     lac_Width = float64_of_int 3, lac_Height = float64_of_int 4, lac_Style = []\<rparr>\<rparr>"

definition label_read_env :: "((NiFiLabelSpec, ParentStatus) resource, LabelEntity) kenv" where
  "label_read_env = (storing_env label_kind)\<lparr>ke_Get := (\<lambda>_ _. Inr (Some stale_label))\<rparr>"

definition wanted_funnel :: FunnelEntity where
  "wanted_funnel = new_entity \<lparr>fuc_ID = '''', fuc_ParentGroupID = ''pg'', fuc_Position = wanted_position\<rparr>"

definition wanted_group :: ProcessGroupEntity where
  "wanted_group = \<lparr>pg_ID = '''', pg_Revision = \<lparr>re_Version = 0\<rparr>, pg_Component = \<lparr>pgc_ID = '''', pgc_ParentGroupID = ''pg'',
     pgc_Name = ''group'', pgc_Comments = ''text'', pgc_Position = wanted_position, pgc_ParameterContext = Some ''pc''\<rparr>,
     pg_RunningCount = 0, pg_StoppedCount = 0, pg_InvalidCount = 0, pg_DisabledCount = 0\<rparr>"

definition wanted_tuning :: ConnectionEntity where
  "wanted_tuning = (let c = \<lparr>cn_ID = ''p'', cn_Type = ''PROCESSOR'', cn_GroupID = ''pg''\<rparr> in
     \<lparr>ce_ID = '''', ce_Revision = \<lparr>re_Version = 0\<rparr>, ce_Component = \<lparr>cc_ID = '''', cc_ParentGroupID = ''pg'', cc_Source = c, cc_Destination = c,
       cc_SelectedRelationships = [''success''], cc_BackPressureObjectThreshold = 10, cc_BackPressureDataSizeThreshold = ''1 GB'',
       cc_FlowFileExpiration = ''1 hour'', cc_Prioritizers = [''fifo''], cc_Bends = [\<lparr>po_X = float64_of_int 1, po_Y = float64_of_int 2\<rparr>],
       cc_LoadBalanceStrategy = ''ROUND_ROBIN'', cc_LoadBalancePartitionAttribute = ''key''\<rparr>\<rparr>)"

definition wanted_client :: RegistryClientEntity where
  "wanted_client = new_entity \<lparr>rcc_ID = '''', rcc_Name = ''registry'', rcc_Type = ''type'', rcc_Description = ''text'', rcc_Properties = [(''url'', ''u'')]\<rparr>"

lemma patch_env [simp]: "ke_Update (storing_env K) e log = Inr (Some (kd_Address K (kd_EntityID K e) (kd_Revision K e + 1) e))"
  by (simp add: storing_env_def)

lemma float64_sizes [simp]: "float64_of_int 3 \<noteq> float64_of_int 0" "float64_of_int 4 \<noteq> float64_of_int 0"
  by code_simp+

lemmas sample_patch_defs = all_kind_defs address_entity_def patch_defs takes_updates_def overlay_def stays_in_def Let_def
  wanted_position_def wanted_label_def wanted_funnel_def wanted_group_def wanted_tuning_def wanted_client_def new_entity_def shows_entries_def


section \<open>Endpoints of connections\<close>

definition endpoints_law :: "(('sp, 'st) resource, ConnectionEntity) kenv \<Rightarrow> (('sp, 'st) resource, ConnectionEntity) kcall list \<Rightarrow>
    (('sp, 'st) resource, ConnectionEntity) kcall \<Rightarrow> bool" where
  \<comment> \<open>an update leaves the source and the destination as NiFi reported them\<close>
  "endpoints_law E log c = (case c of
      KUpdate e \<Rightarrow> \<exists>current \<in> set (heard E log). cc_Source (ce_Component e) = cc_Source (ce_Component current) \<and>
        cc_Destination (ce_Component e) = cc_Destination (ce_Component current)
    | _ \<Rightarrow> True)"

interpretation endpoints: law_on_writes "endpoints_law E" for E
  by unfold_locales (auto simp: endpoints_law_def nifi_write_def split: kcall.splits)

lemma endpoints_free: "endpoints_law E log (KCreate p e)" "endpoints_law E log (KDelete i v)" "endpoints_law E log (KSetRunState i v st)"
  by (simp_all add: endpoints_law_def)

text \<open>
  No update of a connection moves it: whatever the spec says about source and destination, an update carries the source and the
  destination that NiFi last reported, since a connection with queued data must not be rerouted silently.
\<close>

theorem connections_are_never_moved: "keeps (endpoints_law E) (NiFiConnectionReconciler_Reconcile E)"
proof -
  have m: "keeps (endpoints_law E) (markConnectionReady E i v p q)" for i v p q
    unfolding markConnectionReady_def by (rule endpoints.keeps_reports)
  have x: "keeps_when (endpoints_law E) (knows E e) (reconcileExistingConnection E d (Some e) p q)" for d e p q
    unfolding reconcileExistingConnection_def option.case
    by (rule endpoints.keeps_update_in_place) (auto simp: endpoints_law_def knows_def keep_endpoints_def connection_kind_def m)
  have n: "keeps (endpoints_law E) (reconcileExistingConnection E d None p q)" for d p q
    unfolding reconcileExistingConnection_def by (simp add: endpoints.keeps_reports)
  show ?thesis
    unfolding NiFiConnectionReconciler_Reconcile_def reconcileConnectionDelete_def
    by (intro keeps_intros endpoints.keeps_shared endpoints.keeps_find_or_create endpoints.keeps_remove_stored
          connection_reads [OF endpoints.law_on_writes_axioms] x n endpoints.keeps_settle m endpoints_free)
qed

end
