(* ===== verification/Processor_Facts.thy ===== *)
theory Processor_Facts
  imports Canvas_Facts
begin

text \<open>
  Processors against a NiFi that does what it is told: one pass brings a processor to its configuration and run state, and the
  next one leaves it alone. Properties that NiFi adds on its own do not count as a difference, but a position that the spec
  leaves open does.
\<close>

section \<open>Managed properties\<close>

definition agree_on_managed :: "go_map \<Rightarrow> string list \<Rightarrow> go_map \<Rightarrow> go_map \<Rightarrow> bool" where
  \<comment> \<open>two reports of NiFi agree on every property that the spec sets and that is not sensitive\<close>
  "agree_on_managed desired sensitiveKeys ps qs \<longleftrightarrow>
     list_all (\<lambda>k. k \<in> set sensitiveKeys \<or> map_get ps k = map_get qs k) (map_keys desired)"

lemma managed_properties_cong:
  "agree_on_managed desired keys ps qs \<Longrightarrow> managedPropertiesDiffer desired ps keys = managedPropertiesDiffer desired qs keys"
  unfolding agree_on_managed_def managedPropertiesDiffer_def list_all_iff list_ex_iff by (rule bex_cong) auto

text \<open>
  C38. Defaults that NiFi adds and the masked values it returns for sensitive properties never look like drift: the comparisons of
  processors, controller services, reporting tasks, parameter providers and registry clients give the same answer for any two
  reports of NiFi that agree on the properties the spec sets and that do not come from a Secret.
\<close>

theorem unmanaged_properties_are_ignored:
  assumes "agree_on_managed (pcf_Properties (prc_Config (en_Component d1))) keys ps (pcf_Properties (prc_Config (en_Component e1)))"
    "agree_on_managed (csc_Properties (en_Component d2)) keys ps (csc_Properties (en_Component e2))"
    "agree_on_managed (rtc_Properties (en_Component d3)) keys ps (rtc_Properties (en_Component e3))"
    "agree_on_managed (ppc_Properties (en_Component d4)) keys ps (ppc_Properties (en_Component e4))"
    "agree_on_managed (rcc_Properties (en_Component d5)) keys ps (rcc_Properties (en_Component e5))"
  shows "processorNeedsUpdate d1 (e1\<lparr>en_Component := (en_Component e1)\<lparr>prc_Config := (prc_Config (en_Component e1))\<lparr>pcf_Properties := ps\<rparr>\<rparr>\<rparr>) keys =
      processorNeedsUpdate d1 e1 keys \<and>
    controllerServiceNeedsUpdate d2 (e2\<lparr>en_Component := (en_Component e2)\<lparr>csc_Properties := ps\<rparr>\<rparr>) keys = controllerServiceNeedsUpdate d2 e2 keys \<and>
    reportingTaskNeedsUpdate d3 (e3\<lparr>en_Component := (en_Component e3)\<lparr>rtc_Properties := ps\<rparr>\<rparr>) keys = reportingTaskNeedsUpdate d3 e3 keys \<and>
    parameterProviderNeedsUpdate d4 (e4\<lparr>en_Component := (en_Component e4)\<lparr>ppc_Properties := ps\<rparr>\<rparr>) keys = parameterProviderNeedsUpdate d4 e4 keys \<and>
    registryClientNeedsUpdate d5 (e5\<lparr>en_Component := (en_Component e5)\<lparr>rcc_Properties := ps\<rparr>\<rparr>) keys = registryClientNeedsUpdate d5 e5 keys"
  using assms [THEN managed_properties_cong]
  by (simp add: processorNeedsUpdate_def processorConfigNeedsUpdate_def controllerServiceNeedsUpdate_def reportingTaskNeedsUpdate_def
      parameterProviderNeedsUpdate_def registryClientNeedsUpdate_def Let_def)

section \<open>Calls that come first\<close>

interpretation any_calls: law_on_writes "\<lambda>_ _. True"
  by unfold_locales simp

definition first_call :: "('c, 'o) rstate \<Rightarrow> 'c \<Rightarrow> ('c, 'o) rstate \<Rightarrow> bool" where
  "first_call s c s' \<longleftrightarrow> (\<exists>zs. calls s' = calls s @ c # zs)"

lemma first_callI:
  assumes "\<And>r. keeps (\<lambda>_ _. True) (f r)" shows "wp (State_Monad.bind (ext_call c resp) f) (\<lambda>_. first_call s c) s"
  by (intro wp_bindI wp_ext_callI wp_mono [OF keeps_whenD [OF assms refl TrueI]]) (auto simp: first_call_def dest: lawful_extends)

lemma write_stopped_stops:
  assumes "needs" "running e" "\<And>current. keeps (\<lambda>_ _. True) (continue current)"
  shows "wp (write_stopped K E running verb stop needs desired e continue) (\<lambda>_. first_call s (KSetRunState (kd_EntityID K e) (kd_Revision K e) stop)) s"
  using assms(1,2) unfolding write_stopped_def Let_def k_SetRunState_def k_Update_def
  by (simp, intro first_callI keeps_intros any_calls.keeps_reports assms(3)) simp_all

lemma change_any: "(\<And>current. keeps (\<lambda>_ _. True) (continue current)) \<Longrightarrow> keeps (\<lambda>_ _. True) (change_state K E verb i current st continue)"
  unfolding change_state_def k_SetRunState_def by (intro keeps_intros any_calls.keeps_reports) simp_all

section \<open>One pass\<close>

text \<open>
  What NiFi makes of the two calls that change a processor, as for the objects in \<open>Canvas_Facts\<close>: an update puts the fields it sends
  into the processor and leaves the others, the type, the group and the run state; the change of the run state changes nothing else. The relationships are a set.
\<close>

definition processor_patched :: "string list \<Rightarrow> ProcessorEntity \<Rightarrow> ProcessorEntity \<Rightarrow> ProcessorEntity \<Rightarrow> bool" where
  \<comment> \<open>what NiFi shows for a sensitive property, or for one it was not sent, is left open; NiFi finds the updated processor valid\<close>
  "processor_patched sensitiveKeys old new answer \<longleftrightarrow>
     (let o' = en_Component old; n = en_Component new; a = en_Component answer; oc = prc_Config o'; nc = prc_Config n; ac = prc_Config a in
      processorEntityID answer = processorEntityID old \<and> prc_ParentGroupID a = prc_ParentGroupID o' \<and> prc_Type a = prc_Type o' \<and>
      prc_State a = prc_State o' \<and> fit (prc_ValidationStatus a) \<and>
      prc_Name a = overlay '''' (prc_Name o') (prc_Name n) \<and> prc_Bundle a = overlay None (prc_Bundle o') (prc_Bundle n) \<and>
      prc_Position a = overlay None (prc_Position o') (prc_Position n) \<and>
      pcf_SchedulingStrategy ac = overlay '''' (pcf_SchedulingStrategy oc) (pcf_SchedulingStrategy nc) \<and>
      pcf_SchedulingPeriod ac = overlay '''' (pcf_SchedulingPeriod oc) (pcf_SchedulingPeriod nc) \<and>
      pcf_ConcurrentlySchedulableTaskCount ac = overlay 0 (pcf_ConcurrentlySchedulableTaskCount oc) (pcf_ConcurrentlySchedulableTaskCount nc) \<and>
      shows_entries (pcf_Properties nc) (pcf_Properties ac) sensitiveKeys \<and> distinct (pcf_AutoTerminatedRelationships ac) \<and>
      set (pcf_AutoTerminatedRelationships ac) = set (overlay [] (pcf_AutoTerminatedRelationships oc) (pcf_AutoTerminatedRelationships nc)))"

definition in_state :: "Revision \<Rightarrow> string \<Rightarrow> ProcessorEntity \<Rightarrow> ProcessorEntity" where
  "in_state revision st e = e\<lparr>en_Revision := revision, en_Component := (en_Component e)\<lparr>prc_State := st\<rparr>\<rparr>"

definition takes_run_states :: "processor_env \<Rightarrow> bool" where
  "takes_run_states E \<longleftrightarrow> (\<forall>e st log. heard E log = [e] \<longrightarrow>
     (\<exists>revision. ke_SetRunState E (processorEntityID e) (entity_revision e) st log = Inr (Some (in_state revision st e))))"

definition sensitive_keys :: "NiFiProcessor \<Rightarrow> string list" where
  "sensitive_keys instance = map fst (prs_SensitiveProperties (ob_Spec instance))"

definition can_become_specified :: "NiFiProcessor \<Rightarrow> string \<Rightarrow> ProcessorEntity \<Rightarrow> bool" where
  \<comment> \<open>a processor of the group and type asked for; what the spec leaves open, NiFi has open too\<close>
  "can_become_specified instance parent e \<longleftrightarrow>
     (let spec = ob_Spec instance; c = en_Component e; cfg = prc_Config c; sch = prs_Scheduling spec in
      processorEntityID e \<noteq> '''' \<and> stays_in parent (prc_ParentGroupID c) \<and> prc_Type c = prs_Type spec \<and>
      settable '''' (processorDisplayName instance) (prc_Name c) \<and> settable None (map_option nifi_position (prs_Position spec)) (prc_Position c) \<and>
      settable '''' (sch_Strategy sch) (pcf_SchedulingStrategy cfg) \<and> settable '''' (sch_Period sch) (pcf_SchedulingPeriod cfg) \<and>
      settable 0 (sch_ConcurrentlySchedulableTaskCount sch) (pcf_ConcurrentlySchedulableTaskCount cfg) \<and>
      settable [] (prs_AutoTerminatedRelationships spec) (pcf_AutoTerminatedRelationships cfg) \<and> length (prs_AutoTerminatedRelationships spec) \<le> 1)"

definition as_specified :: "NiFiProcessor \<Rightarrow> string \<Rightarrow> ProcessorEntity \<Rightarrow> bool" where
  \<comment> \<open>every field of the spec that reaches NiFi, apart from the sensitive properties, and nothing about other properties\<close>
  "as_specified instance parent e \<longleftrightarrow>
     (let spec = ob_Spec instance; c = en_Component e; cfg = prc_Config c; sch = prs_Scheduling spec in
      processorDisplayName instance = prc_Name c \<and> prs_Type spec = prc_Type c \<and> stays_in parent (prc_ParentGroupID c) \<and>
      same_place (map_option nifi_position (prs_Position spec)) (prc_Position c) \<and> (prs_Bundle spec = None \<or> prs_Bundle spec = prc_Bundle c) \<and>
      sch_Strategy sch = pcf_SchedulingStrategy cfg \<and> sch_Period sch = pcf_SchedulingPeriod cfg \<and>
      sch_ConcurrentlySchedulableTaskCount sch = pcf_ConcurrentlySchedulableTaskCount cfg \<and>
      shows_entries (prs_Properties spec) (pcf_Properties cfg) (sensitive_keys instance) \<and>
      prs_AutoTerminatedRelationships spec = pcf_AutoTerminatedRelationships cfg)"

definition runs_as :: "string \<Rightarrow> string \<Rightarrow> bool" where
  \<comment> \<open>the state in NiFi is the one the spec asks for, if it asks for one\<close>
  "runs_as wanted actual \<longleftrightarrow> (\<forall>(w, a) \<in> set [(''Running'', ''RUNNING''), (''Stopped'', ''STOPPED''), (''Enabled'', ''ENABLED''), (''Disabled'', ''DISABLED'')].
     wanted = w \<longrightarrow> actual = a)"

definition processor_goal :: "string \<Rightarrow> NiFiProcessor \<Rightarrow> ProcessorEntity \<Rightarrow> bool" where
  \<comment> \<open>configured, in its run state, and reported as ready with the id, revision, group and validation status that NiFi has\<close>
  "processor_goal parent instance e \<longleftrightarrow> as_specified instance parent e \<and>
     runs_as (prs_State (ob_Spec instance)) (prc_State (en_Component e)) \<and>
     cs_Ready (ob_Common instance) \<and> dp_Ready (cs_Dependencies (ob_Common instance)) \<and> cs_ObservedGeneration (ob_Common instance) = ob_Generation instance \<and>
     cs_NiFiID (ob_Common instance) = processorEntityID e \<and> rv_Version (cs_Revision (ob_Common instance)) = entity_revision e \<and>
     pst_ParentProcessGroupID (ob_Status instance) = parent \<and> pst_ValidationStatus (ob_Status instance) = prc_ValidationStatus (en_Component e)"

definition same_instance :: "NiFiProcessor \<Rightarrow> NiFiProcessor \<Rightarrow> bool" where
  "same_instance d d' \<longleftrightarrow> ob_Spec d' = ob_Spec d \<and> ob_Name d' = ob_Name d"

lemma same_instance_cong:
  assumes "same_instance d d'"
  shows "as_specified d' = as_specified d" "desiredProcessor d' = desiredProcessor d"
  using assms by (auto simp: same_instance_def as_specified_def desiredProcessor_def processorDisplayName_def sensitive_keys_def fun_eq_iff Let_def)

lemma bundle_differs_iff: "bundleDiffers b b' \<longleftrightarrow> b \<noteq> None \<and> b \<noteq> b'"
  by (cases b; cases b') (auto simp: bundleDiffers_def nifiBundlesEqual_def)

lemma specified_needs_nothing:
  "as_specified d p e \<longleftrightarrow> \<not> processorNeedsUpdate (desiredProcessor d p) e (sensitivePropertyKeys (prs_SensitiveProperties (ob_Spec d)))"
  by (simp add: bundle_differs_iff as_specified_def desiredProcessor_def new_entity_def pass_simps sensitive_keys_def sensitivePropertyKeys_def conj_ac)

lemma patched_is_specified:
  assumes c: "can_become_specified d p e" and r: "processor_patched (sensitive_keys d) e (desiredProcessor d p) r"
  shows "as_specified d p r \<and> processorEntityID r = processorEntityID e \<and> fit (prc_ValidationStatus (en_Component r))"
proof -
  have "pcf_AutoTerminatedRelationships (prc_Config (en_Component r)) = prs_AutoTerminatedRelationships (ob_Spec d)"
  proof (cases "prs_AutoTerminatedRelationships (ob_Spec d) = []")
    case True
    then show ?thesis
      using c r by (simp add: can_become_specified_def processor_patched_def desiredProcessor_def new_entity_def settable_def overlay_def Let_def)
  next
    case False
    have "length (prs_AutoTerminatedRelationships (ob_Spec d)) \<le> 1" using c by (simp add: can_become_specified_def Let_def)
    moreover have "distinct (pcf_AutoTerminatedRelationships (prc_Config (en_Component r)))"
      "set (pcf_AutoTerminatedRelationships (prc_Config (en_Component r))) = set (prs_AutoTerminatedRelationships (ob_Spec d))"
      using r False by (simp_all add: processor_patched_def desiredProcessor_def new_entity_def overlay_def Let_def)
    ultimately show ?thesis by (rule one_relationship [OF _ False])
  qed
  then show ?thesis
    using c r
    by (simp add: can_become_specified_def processor_patched_def as_specified_def desiredProcessor_def new_entity_def Let_def)
      (simp add: overlay_def)
qed

lemma in_state_same [simp]:
  "as_specified d p (in_state v st e) = as_specified d p e" "can_become_specified d p (in_state v st e) = can_become_specified d p e"
  "processorEntityID (in_state v st e) = processorEntityID e" "prc_State (en_Component (in_state v st e)) = st"
  "prc_ValidationStatus (en_Component (in_state v st e)) = prc_ValidationStatus (en_Component e)"
  by (simp_all add: in_state_def as_specified_def can_become_specified_def processorEntityID_def entityID_def Let_def)

lemma wanted_state: "runs_as st actual \<longleftrightarrow> nifiScheduledState st = '''' \<or> actual = nifiScheduledState st"
  by (simp add: runs_as_def nifiScheduledState_def)

lemma takes_run_state:
  "takes_run_states E \<Longrightarrow> heard E log = [e] \<Longrightarrow>
   \<exists>rv. ke_SetRunState E (processorEntityID e) (entity_revision e) st log = Inr (Some (in_state rv st e))"
  by (simp add: takes_run_states_def)

lemma takes_update:
  assumes "takes_updates processor_kind E fitting sent patched" "heard E log = [e]" "fitting e"
  shows "\<exists>r. ke_Update E (kd_Address processor_kind (processorEntityID e) (entity_revision e) (sent e)) log = Inr (Some r) \<and> patched e (sent e) r"
  using assms by (simp add: takes_updates_def processor_kind_def)

lemma goal_is_left_alone:
  assumes "processor_goal parent (obj s) e"
  shows "run_state (reconcileExistingProcessor E (desiredProcessor (obj s) parent) (Some e) parent) s = ((no_result, None), s)"
  using assms specified_needs_nothing [of "obj s" parent e]
  by (auto simp: processor_goal_def wanted_state reconcileExistingProcessor_def run_processor_def settle_processor_def write_stopped_def
      settle_ready_def get_obj_def processorStatusMatches_def status_matches_def Let_def)

lemma settle_reaches:
  "wp (settle_processor E i parent e) (\<lambda>_ s'. processorStatusMatches (obj s') i (entity_revision e) parent (prc_ValidationStatus (en_Component e)) \<and>
     same_instance (obj s) (obj s') \<and> heard E (calls s') = heard E (calls s)) s"
proof -
  have m: "wp (mark_ready E reason message i v f) (\<lambda>_ s'. same_instance (obj s) (obj s')) s" for reason message v f s
    unfolding mark_ready_def k_now_def k_StatusUpdate_def by (intro wp_intros) (simp add: same_instance_def)
  show ?thesis
    unfolding settle_processor_def settle_ready_def markProcessorReady_def
    by (intro wp_intros wp_mono [OF wp_conj [OF mark_ready_matches m]]) (auto simp: processorStatusMatches_def same_instance_def)
qed

definition reaches_goal :: "processor_env \<Rightarrow> string \<Rightarrow> outcome processor_handler \<Rightarrow> (NiFiProcessorSpec, NiFiProcessorStatus, ProcessorEntity) kstate \<Rightarrow> bool" where
  "reaches_goal E parent handler s \<longleftrightarrow>
     wp handler (\<lambda>_ s'. \<exists>r. heard E (calls s') = [r] \<and> same_instance (obj s) (obj s') \<and> processor_goal parent (obj s') r) s"

lemma run_reaches:
  assumes st: "takes_run_states E" and h: "heard E (calls s) = [e]" and a: "as_specified (obj s) parent e" and v: "fit (prc_ValidationStatus (en_Component e))"
  shows "reaches_goal E parent (run_processor E (nifiScheduledState (prs_State (ob_Spec (obj s)))) (processorEntityID e) parent e) s"
proof -
  let ?st = "nifiScheduledState (prs_State (ob_Spec (obj s)))" and ?i = "processorEntityID e"
  have settled: "reaches_goal E parent (settle_processor E ?i parent r) s1"
    if "obj s1 = obj s" "heard E (calls s1) = [r]" "?st = '''' \<or> prc_State (en_Component r) = ?st" "as_specified (obj s) parent r" "processorEntityID r = ?i" for s1 r
    unfolding reaches_goal_def
  proof (rule wp_mono [OF settle_reaches])
    fix a s'
    assume s': "processorStatusMatches (obj s') ?i (entity_revision r) parent (prc_ValidationStatus (en_Component r)) \<and>
      same_instance (obj s1) (obj s') \<and> heard E (calls s') = heard E (calls s1)"
    then have "as_specified (obj s') parent r" using that(1,4) same_instance_cong [of "obj s" "obj s'"] by simp
    moreover have "ob_Spec (obj s') = ob_Spec (obj s)" using s' that(1) by (simp add: same_instance_def)
    ultimately have "processor_goal parent (obj s') r"
      using s' that by (simp add: processor_goal_def wanted_state processorStatusMatches_def status_matches_def Let_def)
    then show "\<exists>r. heard E (calls s') = [r] \<and> same_instance (obj s1) (obj s') \<and> processor_goal parent (obj s') r"
      using s' that(2) by auto
  qed
  obtain rv where rv: "ke_SetRunState E ?i (entity_revision e) ?st (calls s) = Inr (Some (in_state rv ?st e))"
    using takes_run_state [OF st h] by blast
  let ?s1 = "s\<lparr>calls := calls s @ [KSetRunState ?i (entity_revision e) ?st]\<rparr>"
  have "heard E (calls ?s1) = [in_state rv ?st e]" by (simp add: heard_snoc rv)
  then have "reaches_goal E parent (settle_processor E ?i parent (in_state rv ?st e)) ?s1" by (intro settled) (simp_all add: a)
  then have change: "reaches_goal E parent (change_state processor_kind E verb ?i e ?st (settle_processor E ?i parent)) s" for verb
    unfolding change_state_def k_SetRunState_def reaches_goal_def
    by (intro wp_bindI wp_ext_callI) (simp add: processor_kind_def rv)
  with v settled [OF refl h _ a refl] show ?thesis
    unfolding run_processor_def by (auto simp: Let_def when_valid_def fit_def)
qed

definition accepts_spec :: "NiFiProcessor \<Rightarrow> string \<Rightarrow> processor_env \<Rightarrow> bool" where
  \<comment> \<open>NiFi takes the updates that the spec leads to, and every change of the run state\<close>
  "accepts_spec instance parent E \<longleftrightarrow> takes_run_states E \<and>
     takes_updates processor_kind E (can_become_specified instance parent) (\<lambda>_. desiredProcessor instance parent) (processor_patched (sensitive_keys instance))"

lemma write_reaches:
  assumes ok: "accepts_spec (obj s) parent E" and h: "heard E (calls s) = [e]" and c: "can_become_specified (obj s) parent e"
    and v: "fit (prc_ValidationStatus (en_Component e))"
  shows "reaches_goal E parent (reconcileExistingProcessor E (desiredProcessor (obj s) parent) (Some e) parent) s"
proof -
  let ?d = "desiredProcessor (obj s) parent" and ?keys = "sensitivePropertyKeys (prs_SensitiveProperties (ob_Spec (obj s)))"
  let ?run = "run_processor E (nifiScheduledState (prs_State (ob_Spec (obj s)))) (processorEntityID e) parent"
  have st: "takes_run_states E" using ok by (simp add: accepts_spec_def)
  have run: "reaches_goal E parent (?run r) s1"
    if "obj s1 = obj s" "heard E (calls s1) = [r]" "as_specified (obj s) parent r" "fit (prc_ValidationStatus (en_Component r))"
      "processorEntityID r = processorEntityID e" for s1 r
    using run_reaches [OF st that(2), of parent] that by simp
  have upd: "reaches_goal E parent (State_Monad.bind (k_Update E (kd_Address processor_kind (processorEntityID e) (entity_revision e1) ?d)) (\<lambda>r. case r of
         Inl err \<Rightarrow> report_failed E reason (message err)
       | Inr updated \<Rightarrow> ?run (case updated of Some updated \<Rightarrow> updated | None \<Rightarrow> e1))) s1"
    if "obj s1 = obj s" "heard E (calls s1) = [e1]" "can_become_specified (obj s) parent e1" "processorEntityID e1 = processorEntityID e" for s1 e1 reason message
  proof -
    let ?u = "kd_Address processor_kind (processorEntityID e) (entity_revision e1) ?d"
    have "takes_updates processor_kind E (can_become_specified (obj s) parent) (\<lambda>_. ?d) (processor_patched (sensitive_keys (obj s)))"
      using ok by (simp add: accepts_spec_def)
    from takes_update [OF this that(2,3)] that(4)
    obtain r where r: "ke_Update E ?u (calls s1) = Inr (Some r)" "processor_patched (sensitive_keys (obj s)) e1 ?d r" by auto
    have "reaches_goal E parent (?run r) (s1\<lparr>calls := calls s1 @ [KUpdate ?u]\<rparr>)"
      using patched_is_specified [OF that(3) r(2)] that by (intro run) (simp_all add: heard_snoc r)
    then show ?thesis
      unfolding k_Update_def reaches_goal_def by (intro wp_bindI wp_ext_callI) (simp add: r)
  qed
  obtain rv where rv: "ke_SetRunState E (processorEntityID e) (entity_revision e) ''STOPPED'' (calls s) = Inr (Some (in_state rv ''STOPPED'' e))"
    using takes_run_state [OF st h] by blast
  let ?s1 = "s\<lparr>calls := calls s @ [KSetRunState (processorEntityID e) (entity_revision e) ''STOPPED'']\<rparr>"
  have "heard E (calls ?s1) = [in_state rv ''STOPPED'' e]" by (simp add: heard_snoc rv)
  note stopped = upd [of ?s1, OF _ this] and direct = upd [OF refl h c refl] and alone = run [OF refl h _ v refl]
  show ?thesis
  proof (cases "processorNeedsUpdate ?d e ?keys")
    case False
    then show ?thesis
      using alone specified_needs_nothing [of "obj s" parent e]
      by (simp add: reconcileExistingProcessor_def write_stopped_def reaches_goal_def wp_simps Let_def)
  next
    case True
    then have "\<not> \<not> processorNeedsUpdate ?d e ?keys" by simp
    have k: "kd_EntityID processor_kind = processorEntityID" "kd_Revision processor_kind = entity_revision" by (simp_all add: processor_kind_def)
    have "reaches_goal E parent (write_stopped processor_kind E processor_running ''stop'' ''STOPPED'' (processorNeedsUpdate ?d e ?keys) ?d e ?run) s"
    proof (cases "processor_running e")
      case True
      show ?thesis
        unfolding write_stopped_def Let_def k reaches_goal_def k_SetRunState_def if_P [OF True] if_not_P [OF \<open>\<not> \<not> processorNeedsUpdate ?d e ?keys\<close>]
          wp_bind wp_ext_call rv sum.case option.case
        using stopped [unfolded reaches_goal_def wp_bind] c by simp
    next
      case False
      show ?thesis
        unfolding write_stopped_def Let_def k if_not_P [OF False] using direct True by simp
    qed
    then show ?thesis
      unfolding reconcileExistingProcessor_def option.case reaches_goal_def by (intro wp_bindI wp_get_objI) simp
  qed
qed


definition sample_processor_spec :: NiFiProcessorSpec where
  "sample_processor_spec = \<lparr>prs_ClusterRef = component_ref, prs_ParentProcessGroupRef = \<lparr>pr_Name = '''', pr_Namespace = '''', pr_Root = True\<rparr>,
     prs_Type = ''Generate'', prs_DisplayName = ''gen'', prs_Bundle = None, prs_Position = None, prs_Properties = [(''a'', ''1'')],
     prs_SensitiveProperties = [(''pw'', None)], prs_AutoTerminatedRelationships = [],
     prs_Scheduling = \<lparr>sch_Strategy = ''TIMER_DRIVEN'', sch_Period = ''1 min'', sch_ConcurrentlySchedulableTaskCount = 1\<rparr>, prs_State = ''Running'',
     prs_DeletionPolicy = ''Delete'', prs_AdoptionPolicy = \<lparr>ap_Mode = '''', ap_NiFiID = '''', ap_RequireAnnotation = False, ap_ReviewBeforeMutate = False\<rparr>\<rparr>"

definition sample_processor :: NiFiProcessor where
  "sample_processor = component_resource (component_status ''p'' 3) sample_processor_spec \<lparr>pst_ParentProcessGroupID = ''root'', pst_ValidationStatus = ''VALID''\<rparr>"

definition running_processor :: ProcessorEntity where
  "running_processor = (desiredProcessor sample_processor ''root'')\<lparr>en_ID := ''p'', en_Component := (en_Component (desiredProcessor sample_processor ''root''))
     \<lparr>prc_Position := Some \<lparr>po_X = Float64 0 0, po_Y = Float64 0 0\<rparr>, prc_State := ''RUNNING'', prc_ValidationStatus := ''VALID''\<rparr>\<rparr>"

subsection \<open>A NiFi that does what it is told\<close>

fun told :: "(('sp, 'st) resource, ProcessorEntity) kcall \<Rightarrow> ProcessorEntity \<Rightarrow> ProcessorEntity" where
  \<comment> \<open>what a call makes of the processor, when the update sets every field\<close>
  "told (KUpdate sent) e = sent\<lparr>en_Revision := \<lparr>re_Version = entity_revision e + 1\<rparr>, en_Component := (en_Component sent)
     \<lparr>prc_State := prc_State (en_Component e), prc_ValidationStatus := ''VALID''\<rparr>\<rparr>"
| "told (KSetRunState i v st) e = in_state \<lparr>re_Version = entity_revision e + 1\<rparr> st e"
| "told _ e = e"

definition world :: "ProcessorEntity \<Rightarrow> (('sp, 'st) resource, ProcessorEntity) kcall list \<Rightarrow> ProcessorEntity" where
  "world origin log = fold told log origin"

lemma world_snoc [simp]: "world origin (log @ [c]) = told c (world origin log)"
  by (simp add: world_def)

lemmas sample_processor_defs = sample_processor_def sample_processor_spec_def running_processor_def component_resource_def
  desiredProcessor_def processorDisplayName_def new_entity_def

definition obedient_env :: "ProcessorEntity \<Rightarrow> processor_env" where
  "obedient_env origin = component_env\<lparr>ke_Get := (\<lambda>_ log. Inr (Some (world origin log))),
     ke_Update := (\<lambda>sent log. Inr (Some (world origin (log @ [KUpdate sent])))),
     ke_SetRunState := (\<lambda>i v st log. Inr (Some (world origin (log @ [KSetRunState i v st]))))\<rparr>"

lemma reply_world:
  "reply (obedient_env origin) log c = [world origin (log @ [c])] \<or> reply (obedient_env origin) log c = [] \<and> told c e = e"
  by (cases c) (simp_all add: obedient_env_def component_env_def)

lemma heard_world: "heard (obedient_env origin) log = [] \<or> heard (obedient_env origin) log = [world origin log]"
proof (induction log rule: rev_induct)
  case (snoc c log)
  then show ?case
    using reply_world [of origin log c "world origin log"] by (auto simp: heard_snoc Let_def)
qed (simp add: heard_def)

definition placed_spec :: NiFiProcessorSpec where
  "placed_spec = sample_processor_spec\<lparr>prs_Position := Some \<lparr>sp_X = 16, sp_Y = 8\<rparr>, prs_AutoTerminatedRelationships := [''success''],
     prs_Bundle := Some \<lparr>bu_Group = ''g'', bu_Artifact = ''a'', bu_Version = ''1''\<rparr>\<rparr>"

definition placed_processor :: NiFiProcessor where
  "placed_processor = sample_processor\<lparr>ob_Spec := placed_spec\<rparr>"

definition stale_processor :: ProcessorEntity where
  \<comment> \<open>running with another value of the property, at another place\<close>
  "stale_processor = running_processor\<lparr>en_Component := (en_Component running_processor)\<lparr>prc_Config := (prc_Config (en_Component running_processor))
     \<lparr>pcf_Properties := [(''a'', ''2'')]\<rparr>\<rparr>\<rparr>"

lemmas placed_defs = placed_processor_def placed_spec_def stale_processor_def sample_processor_defs

lemma obedient_replies:
  "ke_Update (obedient_env origin) sent log = Inr (Some (told (KUpdate sent :: (NiFiProcessor, ProcessorEntity) kcall) (world origin log)))"
  "ke_SetRunState (obedient_env origin) i v st log = Inr (Some (in_state \<lparr>re_Version = entity_revision (world origin log) + 1\<rparr> st (world origin log)))"
  by (simp_all add: obedient_env_def)

lemma obedient_accepts: "accepts_spec placed_processor ''root'' (obedient_env stale_processor)"
proof -
  have w: "world stale_processor log = e" if "heard (obedient_env stale_processor) log = [e]" for log e
    using heard_world [of stale_processor log] that by auto
  have "processor_patched (sensitive_keys placed_processor) e (desiredProcessor placed_processor ''root'')
      (told (KUpdate (kd_Address processor_kind (processorEntityID e) v (desiredProcessor placed_processor ''root''))
         :: (NiFiProcessor, ProcessorEntity) kcall) e)"
    if "can_become_specified placed_processor ''root'' e" for e v
    using that
    by (simp add: processor_patched_def can_become_specified_def placed_defs processorEntityID_def entityID_def processor_kind_def
        address_entity_def overlay_def stays_in_def shows_entries_def fit_def Let_def)
  then show ?thesis
    by (auto simp: accepts_spec_def takes_run_states_def takes_updates_def obedient_replies processor_kind_def dest!: w)
qed

definition placed_run :: "(NiFiProcessorSpec, NiFiProcessorStatus, ProcessorEntity) kstate" where
  "placed_run = \<lparr>calls = [KGet ''p''], obj = placed_processor\<rparr>"


definition sample_service :: ControllerServiceEntity where
  "sample_service = new_entity \<lparr>csc_ID = ''s'', csc_ParentGroupID = ''root'', csc_Name = ''s'', csc_Type = ''T'', csc_Bundle = None,
     csc_Properties = [(''a'', ''1'')], csc_State = '''', csc_ValidationStatus = ''''\<rparr>"

definition sample_task :: ReportingTaskEntity where
  "sample_task = new_entity \<lparr>rtc_ID = ''t'', rtc_Name = ''t'', rtc_Type = ''T'', rtc_Bundle = None, rtc_Properties = [(''a'', ''1'')],
     rtc_SchedulingStrategy = '''', rtc_SchedulingPeriod = '''', rtc_State = '''', rtc_ValidationStatus = ''''\<rparr>"

definition sample_provider :: ParameterProviderEntity where
  "sample_provider = new_entity \<lparr>ppc_ID = ''p'', ppc_Name = ''p'', ppc_Type = ''T'', ppc_Bundle = None, ppc_Properties = [(''a'', ''1'')],
     ppc_ValidationStatus = ''''\<rparr>"

definition sample_registry_client :: RegistryClientEntity where
  "sample_registry_client = new_entity \<lparr>rcc_ID = ''r'', rcc_Name = ''r'', rcc_Type = ''T'', rcc_Description = '''', rcc_Properties = [(''a'', ''1'')]\<rparr>"

theorem unmanaged_properties_are_ignored_witness:
  "let d = desiredProcessor sample_processor ''root'';
       reported = [(''pw'', ''****''), (''a'', ''1''), (''default'', ''x'')] in
   processorNeedsUpdate d (d\<lparr>en_Component := (en_Component d)\<lparr>prc_Config := (prc_Config (en_Component d))\<lparr>pcf_Properties := reported\<rparr>\<rparr>\<rparr>) [''pw''] =
     processorNeedsUpdate d d [''pw'']"
  unfolding Let_def
  by (rule unmanaged_properties_are_ignored [of "desiredProcessor sample_processor ''root''" "[''pw'']" "[(''pw'', ''****''), (''a'', ''1''), (''default'', ''x'')]"
        "desiredProcessor sample_processor ''root''" sample_service sample_service sample_task sample_task sample_provider sample_provider
        sample_registry_client sample_registry_client, THEN conjunct1])
    (simp_all add: agree_on_managed_def map_keys_def sample_processor_defs sample_service_def sample_task_def sample_provider_def sample_registry_client_def)

section \<open>Positions that the spec leaves open\<close>

text \<open>
  A spec that leaves the position open never settles: NiFi reports a position for every processor, and a spec without one is
  then compared as different. So every pass over a running processor begins with stopping it, whatever else the spec and NiFi agree
  on, although open optional fields elsewhere and managed properties are compared so that they never look like drift.
\<close>

theorem open_position_always_stops:
  assumes "prs_Position (ob_Spec (obj s)) = None" "prc_Position (en_Component r) = Some p" "processor_running r"
  shows "wp (reconcileExistingProcessor E (desiredProcessor (obj s) parent) (Some r) parent)
    (\<lambda>_. first_call s (KSetRunState (processorEntityID r) (entity_revision r) ''STOPPED'')) s"
proof -
  have n: "processorNeedsUpdate (desiredProcessor (obj s) parent) r keys" for keys
    using assms by (simp add: needs_update_defs nifiPositionsEqual_def desiredProcessor_def new_entity_def Let_def)
  have k: "keeps (\<lambda>_ _. True) (markProcessorReady E i v pa w)" for i v pa w
    unfolding markProcessorReady_def by (rule any_calls.keeps_reports)
  have d: "keeps (\<lambda>_ _. True) (run_processor E st i pa current)" for st i pa current
    unfolding run_processor_def settle_processor_def Let_def
    by (intro keeps_if change_any any_calls.keeps_settle k any_calls.keeps_when_valid)
  have a: "kd_EntityID processor_kind = processorEntityID" "kd_Revision processor_kind = entity_revision" by (simp_all add: processor_kind_def)
  show ?thesis
    unfolding reconcileExistingProcessor_def option.case
    by (intro wp_bindI wp_get_objI) (rule write_stopped_stops [of _ _ r _ processor_kind, unfolded a], simp_all add: n assms d)
qed

theorem open_position_always_stops_witness:
  "wp (reconcileExistingProcessor component_env (desiredProcessor sample_processor ''root'') (Some running_processor) ''root'')
    (\<lambda>_. first_call (start_run sample_processor) (KSetRunState ''p'' 0 ''STOPPED'')) (start_run sample_processor)"
  using open_position_always_stops [of "start_run sample_processor" running_processor _ component_env "''root''"]
  by (simp add: sample_processor_defs processor_running_def processorEntityID_def entityID_def entity_revision_def)

end
