(* ===== verification/Tenant_Facts.thy ===== *)
theory Tenant_Facts
  imports Canvas_Facts
begin

text \<open>
  Access policies and user groups. A NiFi policy is shared with other writers: the controller only adds grants, and a
  deletion takes back what it recorded. A group contains users of its own cluster only.
\<close>

section \<open>Sets of tenants\<close>

abbreviation tenant_ids_of :: "TenantRef list \<Rightarrow> string set" where
  \<comment> \<open>the tenants that a list of references names\<close>
  "tenant_ids_of refs \<equiv> tenantRefID ` set refs - {''''}"

lemma tenantRefID_ref [simp]: "tenantRefID \<lparr>tr_ID = i, tr_Component = None\<rparr> = i"
  by (simp add: tenantRefID_def)

lemma ids_of_tenantRefs [simp]: "tenantRefID ` set (tenantRefs ids) = set ids"
  by (simp add: tenantRefs_def image_image)

lemma same_tenants_refl [simp]: "sameTenantSet refs refs"
  by (simp add: sameTenantSet_def list_all_iff)

lemma same_strings_refl [simp]: "sameStringSet xs xs"
  by (simp add: sameStringSet_def list_all_iff)

lemma contains_all_iff: "tenantSetContainsAll existing desired \<longleftrightarrow> tenant_ids_of desired \<subseteq> tenant_ids_of existing"
  by (auto simp: tenantSetContainsAll_def list_all_iff Let_def)

lemma merge_each_ids: "tenantRefID ` set (merge_each seen refs) = tenant_ids_of refs - set seen"
  by (induction seen refs rule: merge_each.induct) (auto simp: Let_def)

lemma merge_each_distinct: "distinct (map tenantRefID (merge_each seen refs))"
proof (induction seen refs rule: merge_each.induct)
  case (2 seen ref rest)
  then show ?case using merge_each_ids [of "tenantRefID ref # seen" rest] by (auto simp: Let_def)
qed simp

lemma merge_ids: "tenant_ids_of (mergeTenantRefs existing desired) = tenant_ids_of existing \<union> tenant_ids_of desired"
  by (auto simp: mergeTenantRefs_def image_Un merge_each_ids)

lemma removed_refs: "removeTenantRefs refs ids = filter (\<lambda>ref. tenantRefID ref \<notin> set ids - {''''}) refs"
  by (simp add: removeTenantRefs_def Let_def)

text \<open>
  C24. Granting and revoking cancel out: taking back the ids just merged into a policy leaves exactly the references that named none
  of them, in their order and without a change. So the grants of other writers survive, and the policy is as before, when none of the
  granted ids was in it; one that was in it before is lost with the others.
\<close>

theorem revoke_undoes_grant:
  "removeTenantRefs (mergeTenantRefs existing (tenantRefs ids)) ids = filter (\<lambda>ref. tenantRefID ref \<notin> set ids - {''''}) existing"
  unfolding removed_refs mergeTenantRefs_def filter_append
  using merge_each_ids [of "filter (\<lambda>i. i \<noteq> '''') (map tenantRefID existing)" "tenantRefs ids"]
  by (auto simp: filter_empty_conv)

text \<open>Without duplicates, the comparison of members is equality of sets.\<close>

lemma same_tenants_iff:
  assumes "distinct (map tenantRefID left)" "distinct (map tenantRefID right)"
  shows "sameTenantSet left right \<longleftrightarrow> tenantRefID ` set left = tenantRefID ` set right"
proof
  assume s: "sameTenantSet left right"
  then have "tenantRefID ` set right \<subseteq> tenantRefID ` set left" by (auto simp: sameTenantSet_def list_all_iff)
  moreover have "card (tenantRefID ` set left) = card (tenantRefID ` set right)"
    using s assms distinct_card [OF assms(1)] distinct_card [OF assms(2)] by (simp add: sameTenantSet_def)
  ultimately show "tenantRefID ` set left = tenantRefID ` set right" by (metis List.finite_set card_subset_eq finite_imageI)
next
  assume e: "tenantRefID ` set left = tenantRefID ` set right"
  then have "length left = length right"
    using distinct_card [OF assms(1)] distinct_card [OF assms(2)] by simp
  with e show "sameTenantSet left right" by (auto simp: sameTenantSet_def list_all_iff)
qed

section \<open>Policies\<close>

type_synonym policy_call = "(NiFiPolicy, AccessPolicyEntity) kcall"

definition only_grants :: "policy_env \<Rightarrow> policy_call list \<Rightarrow> policy_call \<Rightarrow> bool" where
  \<comment> \<open>an update sends all references that NiFi reported, before any of its own; nothing is deleted\<close>
  "only_grants E log c = (case c of
      KUpdate e \<Rightarrow> \<exists>current \<in> set (heard E log). \<exists>users groups.
        apc_Users (en_Component e) = apc_Users (en_Component current) @ users \<and>
        apc_UserGroups (en_Component e) = apc_UserGroups (en_Component current) @ groups
    | KDelete i v \<Rightarrow> False
    | _ \<Rightarrow> True)"

interpretation granting: law_on_writes "only_grants E" for E
  by unfold_locales (auto simp: only_grants_def nifi_write_def split: kcall.splits)

lemma reconcile_grants: "keeps (only_grants E) (reconcile_policy E cluster)"
proof -
  have m: "keeps (only_grants E) (markPolicyReady E us gs i v)" for us gs i v
    unfolding markPolicyReady_def by (rule granting.keeps_reports)
  have x: "keeps_when (only_grants E) (knows E e) (reconcileExistingPolicy E d us gs e)" for d us gs e
    unfolding reconcileExistingPolicy_def
    by (rule granting.keeps_update_in_place)
       (auto simp: only_grants_def knows_def policy_kind_def new_entity_def merged_policy_def mergeTenantRefs_def m)
  have c: "only_grants E log (KCreate p e)" for log p e by (simp add: only_grants_def)
  have t: "keeps (only_grants E) (resolvePolicyTenants E)"
    unfolding resolvePolicyTenants_def by (intro keeps_intros tenant_reads granting.law_on_writes_axioms)
  show ?thesis
    unfolding reconcile_policy_def Let_def
    by (intro keeps_intros granting.keeps_shared granting.keeps_find_recorded keeps_find_for_resource granting.law_on_writes_axioms
          granting.keeps_create_tenant x m c t)
qed

definition only_recorded :: "string list \<Rightarrow> string list \<Rightarrow> policy_env \<Rightarrow> policy_call list \<Rightarrow> policy_call \<Rightarrow> bool" where
  \<comment> \<open>a write takes back the recorded ids and nothing else; a deletion leaves no other grant behind\<close>
  "only_recorded userIDs groupIDs E log c =
     (let mine = (\<lambda>ids ref. tenantRefID ref \<in> set ids - {''''}) in
      case c of
        KUpdate e \<Rightarrow> \<exists>current \<in> set (heard E log).
          apc_Users (en_Component e) = filter (\<lambda>ref. \<not> mine userIDs ref) (apc_Users (en_Component current)) \<and>
          apc_UserGroups (en_Component e) = filter (\<lambda>ref. \<not> mine groupIDs ref) (apc_UserGroups (en_Component current)) \<and>
          apc_Resource (en_Component e) = apc_Resource (en_Component current) \<and> apc_Action (en_Component e) = apc_Action (en_Component current)
      | KDelete i v \<Rightarrow> \<exists>current \<in> set (heard E log).
          list_all (mine userIDs) (apc_Users (en_Component current)) \<and> list_all (mine groupIDs) (apc_UserGroups (en_Component current))
      | _ \<Rightarrow> \<not> nifi_write c)"

interpretation revoking: law_on_writes "only_recorded us gs E" for us gs E
  by unfold_locales (auto simp: only_recorded_def nifi_write_def split: kcall.splits)

lemma nothing_left: "removeTenantRefs refs ids = [] \<longleftrightarrow> list_all (\<lambda>ref. tenantRefID ref \<in> set ids - {''''}) refs"
  by (auto simp: removed_refs filter_empty_conv list_all_iff)

text \<open>
  The deletion of a policy resource takes back the grants recorded in its status and nothing else: an update keeps every other
  reference that NiFi reported, with resource and action, and the NiFi policy is deleted only when no other grant is left in it.
\<close>

lemma revocation_lawful:
  "wp (revoke_grants E)
     (\<lambda>_ s'. lawful (only_recorded (post_UserIDs (ob_Status (obj s))) (post_UserGroupIDs (ob_Status (obj s))) E) (calls s) (calls s')) s"
proof -
  let ?P = "only_recorded (post_UserIDs (ob_Status (obj s))) (post_UserGroupIDs (ob_Status (obj s))) E"
  have u: "keeps_when ?P (knows E e) (State_Monad.bind (k_Update E \<lparr>en_ID = i, en_Revision = en_Revision e,
      en_Component = \<lparr>apc_ID = i, apc_Resource = apc_Resource (en_Component e), apc_Action = apc_Action (en_Component e),
        apc_Users = removeTenantRefs (apc_Users (en_Component e)) (post_UserIDs (ob_Status (obj s))),
        apc_UserGroups = removeTenantRefs (apc_UserGroups (en_Component e)) (post_UserGroupIDs (ob_Status (obj s)))\<rparr>\<rparr>)
      (\<lambda>r. case r of Inl err \<Rightarrow> ret (requeue_after 30, Some err) | Inr _ \<Rightarrow> finish E))" for e i
    unfolding k_Update_def
    by (rule keeps_call_bind)
       (auto simp: only_recorded_def knows_def removed_refs Let_def intro!: keeps_case_sum keeps_ret revoking.keeps_finish)
  have d: "keeps_when ?P (knows E e) (delete_tolerant E i v)"
    if "removeTenantRefs (apc_Users (en_Component e)) (post_UserIDs (ob_Status (obj s))) = []"
       "removeTenantRefs (apc_UserGroups (en_Component e)) (post_UserGroupIDs (ob_Status (obj s))) = []" for e i v
    by (rule revoking.keeps_delete_tolerant) (use that in \<open>auto simp: only_recorded_def knows_def nothing_left Let_def\<close>)
  show ?thesis
    unfolding revoke_grants_def Let_def
    by (intro wp_bindI [of get_obj] wp_get_objI, rule keeps_whenD [OF revoking.keeps_read refl TrueI])
       (auto intro!: keeps_intros keeps_if u d revoking.keeps_finish)
qed

lemma run_deleting:
  assumes "ke_GetObject E (calls s) = Inr instance" "ob_Deleting instance"
    and "wp reconcileDelete Q (s\<lparr>calls := calls s @ [KGetObject], obj := instance\<rparr>)"
  shows "wp (with_ready_cluster K E reconcileDelete dependencies continue) Q s"
  unfolding with_ready_cluster_def k_GetObject_def by (intro wp_bindI wp_ext_callI) (use assms in \<open>simp add: wp_simps\<close>)

lemma run_not_deleting:
  assumes "\<And>instance. ke_GetObject E (calls s) = Inr instance \<Longrightarrow> \<not> ob_Deleting instance"
    and "wp (with_ready_cluster K E (ret (no_result, None)) dependencies continue) Q s"
  shows "wp (with_ready_cluster K E reconcileDelete dependencies continue) Q s"
  using assms unfolding with_ready_cluster_def k_GetObject_def by (auto simp: wp_simps split: sum.splits)

lemma cluster_reads_quiet:
  "wp (clusterForDeletion (k_GetCluster E) (k_Configure E) ready deleting ns ref) (\<lambda>_ s'. obj s' = obj s) s"
  unfolding clusterForDeletion_def k_GetCluster_def k_Configure_def by (intro wp_intros) simp_all

lemma policy_deletion:
  "wp (reconcilePolicyDelete E)
     (\<lambda>_ s'. lawful (only_recorded (post_UserIDs (ob_Status (obj s))) (post_UserGroupIDs (ob_Status (obj s))) E) (calls s) (calls s')) s"
proof -
  let ?P = "only_recorded (post_UserIDs (ob_Status (obj s))) (post_UserGroupIDs (ob_Status (obj s))) E"
  have keep: "keeps ?P h \<Longrightarrow> wp h (\<lambda>_ s'. lawful ?P (calls s1) (calls s')) s1" for h :: "outcome policy_handler" and s1
    by (simp add: keeps_when_def)
  have c: "keeps ?P (clusterForDeletion (k_GetCluster E) (k_Configure E) ready deleting ns ref)" for ready deleting ns ref
    unfolding clusterForDeletion_def by (intro keeps_intros revoking.keeps_calls)
  have r: "wp (revoke_grants E) (\<lambda>_ s'. lawful ?P (calls s1) (calls s')) s1" if "obj s1 = obj s" for s1
    using revocation_lawful [of E s1] that by simp
  show ?thesis
    unfolding reconcilePolicyDelete_def delete_frame_def
    by (intro wp_bindI [of get_obj] wp_get_objI wp_ifI wp_lawful_bind [OF c cluster_reads_quiet])
      (auto intro!: keep keeps_ret revoking.keeps_finish r split: sum.split option.split prod.split)
qed

definition policy_law :: "NiFiPolicy go_result \<Rightarrow> policy_env \<Rightarrow> policy_call list \<Rightarrow> policy_call \<Rightarrow> bool" where
  \<comment> \<open>a policy resource that exists only grants, one that is being deleted only takes back what it recorded\<close>
  "policy_law read E log c = (case read of
      Inl err \<Rightarrow> \<not> nifi_write c
    | Inr policy \<Rightarrow>
       (if ob_Deleting policy then only_recorded (post_UserIDs (ob_Status policy)) (post_UserGroupIDs (ob_Status policy)) E log c
        else only_grants E log c))"


section \<open>One pass is enough\<close>

definition members_are :: "UserGroupComponent \<Rightarrow> UserGroupEntity \<Rightarrow> bool" where
  \<comment> \<open>the group that is wanted: its identity and exactly its members\<close>
  "members_are desired e \<longleftrightarrow> ugc_Identity (en_Component e) = ugc_Identity desired \<and>
     mset (map tenantRefID (ugc_Users (en_Component e))) = mset (map tenantRefID (ugc_Users desired))"

definition names_members :: "UserGroupComponent \<Rightarrow> UserGroupEntity \<Rightarrow> bool" where
  "names_members desired e \<longleftrightarrow> ugc_Identity (en_Component e) = ugc_Identity desired \<and>
     tenantRefID ` set (ugc_Users desired) \<subseteq> tenantRefID ` set (ugc_Users (en_Component e))"

definition grants :: "AccessPolicyComponent \<Rightarrow> AccessPolicyEntity \<Rightarrow> bool" where
  "grants desired e \<longleftrightarrow> tenant_ids_of (apc_Users desired) \<subseteq> tenant_ids_of (apc_Users (en_Component e)) \<and>
     tenant_ids_of (apc_UserGroups desired) \<subseteq> tenant_ids_of (apc_UserGroups (en_Component e))"

definition same_grants :: "AccessPolicyEntity \<Rightarrow> AccessPolicyEntity \<Rightarrow> bool" where
  "same_grants new answer \<longleftrightarrow> tenant_ids_of (apc_Users (en_Component answer)) = tenant_ids_of (apc_Users (en_Component new)) \<and>
     tenant_ids_of (apc_UserGroups (en_Component answer)) = tenant_ids_of (apc_UserGroups (en_Component new))"

lemma members_are_same:
  assumes "members_are desired e"
  shows "names_members desired e \<and> \<not> userGroupNeedsUpdate e desired"
proof -
  have m: "mset (map tenantRefID (ugc_Users (en_Component e))) = mset (map tenantRefID (ugc_Users desired))"
    using assms by (simp add: members_are_def)
  from mset_eq_setD [OF m] mset_eq_length [OF m] assms show ?thesis
    by (auto simp: members_are_def names_members_def userGroupNeedsUpdate_def sameTenantSet_def list_all_iff)
qed

interpretation user_group_pass: in_place user_group_kind E "\<lambda>e. userGroupNeedsUpdate e desired" "\<lambda>_. True" "names_members desired"
    "\<lambda>_. new_entity desired" "\<lambda>_ new. members_are (en_Component new)" "userGroupStatusMatches ids" "markUserGroupReady E ids" for E desired ids
  by unfold_locales
    (auto simp: new_entity_def members_are_same names_members_def userGroupNeedsUpdate_def sameTenantSet_def list_all_iff
       markUserGroupReady_def userGroupStatusMatches_def dest: members_are_same intro!: wp_mono [OF mark_ready_matches] split: if_splits)

interpretation policy_pass: in_place policy_kind E "\<lambda>e. policyNeedsUpdate e desired" "\<lambda>_. True" "grants desired"
    "\<lambda>e. new_entity (merged_policy e desired)" "\<lambda>_. same_grants" "policyStatusMatches us gs" "markPolicyReady E us gs" for E desired us gs
  by unfold_locales
    (auto simp: policyNeedsUpdate_def contains_all_iff merged_policy_def merge_ids grants_def same_grants_def new_entity_def
       markPolicyReady_def policyStatusMatches_def intro!: wp_mono [OF mark_ready_matches])

text \<open>
  User groups and policies settle like the canvas objects: when NiFi keeps the members and grants an update sends, one pass over an existing
  group or policy is enough, and the next pass makes no call. For a policy this holds although the update sends the grants of others too.
\<close>

theorem tenants_settle:
  assumes "takes_updates user_group_kind E1 (\<lambda>_. True) (\<lambda>_. new_entity d1) (\<lambda>_ new. members_are (en_Component new))"
    and "takes_updates policy_kind E2 (\<lambda>_. True) (\<lambda>e. new_entity (merged_policy e d2)) (\<lambda>_. same_grants)"
  shows "settles (\<lambda>_. True) (names_members d1) (reconcileExistingUserGroup E1 d1 ids) E1 \<and>
    settles (\<lambda>_. True) (grants d2) (reconcileExistingPolicy E2 d2 us gs) E2"
proof -
  have "settles (\<lambda>_. True) (names_members d1) (\<lambda>e. reconcileExistingUserGroup E1 d1 ids e) E1"
    "settles (\<lambda>_. True) (grants d2) (\<lambda>e. reconcileExistingPolicy E2 d2 us gs e) E2"
    unfolding reconcileExistingUserGroup_def reconcileExistingPolicy_def
    by (rule user_group_pass.one_pass [OF assms(1)], rule policy_pass.one_pass [OF assms(2)])
  then show ?thesis by simp
qed

theorem tenants_settle_witness:
  "settles (\<lambda>_. True) (grants \<lparr>apc_ID = '''', apc_Resource = ''/flow'', apc_Action = ''read'', apc_Users = tenantRefs [''u1''], apc_UserGroups = []\<rparr>)
      (reconcileExistingPolicy (storing_env policy_kind)
      \<lparr>apc_ID = '''', apc_Resource = ''/flow'', apc_Action = ''read'', apc_Users = tenantRefs [''u1''], apc_UserGroups = []\<rparr> [''u1''] []) (storing_env policy_kind)"
proof (rule conjunct2 [OF tenants_settle])
  show "takes_updates user_group_kind (storing_env user_group_kind) (\<lambda>_. True) (\<lambda>_. new_entity \<lparr>ugc_ID = '''', ugc_Identity = ''g'', ugc_Users = []\<rparr>)
      (\<lambda>_ new. members_are (en_Component new))"
    by (auto simp: takes_updates_def storing_env_def user_group_kind_def members_are_def new_entity_def)
qed (auto simp: takes_updates_def storing_env_def policy_kind_def same_grants_def new_entity_def)

section \<open>Members of a group\<close>

text \<open>
  A group that needs no update has the identity of the spec and exactly its members, provided that neither NiFi nor the spec names
  one of them twice.
\<close>

theorem settled_group_has_exact_members:
  assumes "\<not> userGroupNeedsUpdate e \<lparr>ugc_ID = '''', ugc_Identity = identity, ugc_Users = tenantRefs ids\<rparr>"
    "distinct ids" "distinct (map tenantRefID (ugc_Users (en_Component e)))"
  shows "ugc_Identity (en_Component e) = identity \<and> tenantRefID ` set (ugc_Users (en_Component e)) = set ids"
proof -
  have "map tenantRefID (tenantRefs ids) = ids" by (simp add: tenantRefs_def comp_def)
  with assms(2,3) show ?thesis
    using assms(1) same_tenants_iff [of "ugc_Users (en_Component e)" "tenantRefs ids"]
    by (simp add: userGroupNeedsUpdate_def split: if_splits)
qed

theorem settled_group_has_exact_members_witness:
  "let e = new_entity \<lparr>ugc_ID = ''g'', ugc_Identity = ''ops'', ugc_Users = tenantRefs [''u2'', ''u1'']\<rparr> in
   ugc_Identity (en_Component e) = ''ops'' \<and> tenantRefID ` set (ugc_Users (en_Component e)) = set [''u1'', ''u2'']"
  unfolding Let_def
  by (rule settled_group_has_exact_members)
     (simp_all add: userGroupNeedsUpdate_def new_entity_def sameTenantSet_def tenantRefs_def tenantRefID_def)

text \<open>With a duplicate in the spec the comparison misses a member too many.\<close>

lemma duplicate_member_hides_drift:
  "\<not> userGroupNeedsUpdate (new_entity \<lparr>ugc_ID = ''g'', ugc_Identity = ''ops'', ugc_Users = tenantRefs [''u1'', ''u2'']\<rparr>)
     \<lparr>ugc_ID = '''', ugc_Identity = ''ops'', ugc_Users = tenantRefs [''u1'', ''u1'']\<rparr>"
  by (simp add: userGroupNeedsUpdate_def new_entity_def sameTenantSet_def tenantRefs_def tenantRefID_def)

section \<open>The cluster of the members\<close>

definition reads_tenants :: "(string \<Rightarrow> string \<Rightarrow> TenantObject go_result) \<Rightarrow> user_group_env \<Rightarrow> bool" where
  \<comment> \<open>the users do not change during a reconcile, and no object lacks a name\<close>
  "reads_tenants users E \<longleftrightarrow> (\<forall>ns n log. ke_GetTenant E ''NiFiUser'' ns n log = users ns n) \<and> (\<forall>ns. isl (users ns ''''))"

definition own_user :: "(string \<Rightarrow> string \<Rightarrow> TenantObject go_result) \<Rightarrow> NiFiUserGroup \<Rightarrow> string \<Rightarrow> bool" where
  \<comment> \<open>\<open>i\<close> is the id of a user that the spec lists and that belongs to the cluster of the group\<close>
  "own_user users userGroup i \<longleftrightarrow> (\<exists>member \<in> set (ugs_Users (ob_Spec userGroup)). \<exists>user.
     let namespace = localObjectRefNamespace (ob_Namespace userGroup) member in
     users namespace (lr_Name member) = Inr user \<and> tn_NiFiID user = i \<and>
     clusterRefIndexValue namespace (tn_ClusterRef user) = clusterRefIndexValue (ob_Namespace userGroup) (ugs_ClusterRef (ob_Spec userGroup)))"

definition own_members :: "(string \<Rightarrow> bool) \<Rightarrow> (NiFiUserGroup, UserGroupEntity) kcall list \<Rightarrow> (NiFiUserGroup, UserGroupEntity) kcall \<Rightarrow> bool" where
  \<comment> \<open>a group is written with members that fulfil \<open>own\<close> only\<close>
  "own_members own log c = (case c of
      KCreate p e \<Rightarrow> list_all (own \<circ> tenantRefID) (ugc_Users (en_Component e))
    | KUpdate e \<Rightarrow> list_all (own \<circ> tenantRefID) (ugc_Users (en_Component e))
    | _ \<Rightarrow> True)"

interpretation members: law_on_writes "own_members own" for own
  by unfold_locales (auto simp: own_members_def nifi_write_def split: kcall.splits)

lemma member_mismatch_none:
  assumes rd: "reads_tenants users E"
  shows "wp (member_mismatch E ns cluster refs) (\<lambda>r s'. obj s' = obj s \<and>
    (r = Inr '''' \<longrightarrow> (\<forall>ref \<in> set refs. \<forall>user. users (localObjectRefNamespace ns ref) (lr_Name ref) = Inr user \<longrightarrow>
       clusterRefIndexValue (localObjectRefNamespace ns ref) (tn_ClusterRef user) = cluster))) s"
proof (induction refs arbitrary: s cluster)
  case (Cons ref rest)
  let ?u = "users (localObjectRefNamespace ns ref) (lr_Name ref)"
  have u: "ke_GetTenant E ''NiFiUser'' (localObjectRefNamespace ns ref) (lr_Name ref) log = ?u" "lr_Name ref = '''' \<Longrightarrow> isl ?u" for log
    using rd by (auto simp: reads_tenants_def)
  show ?case
  proof (cases "lr_Name ref = ''''")
    case True
    then show ?thesis using u(2) by (auto intro!: wp_mono [OF Cons])
  next
    case False
    then show ?thesis
      unfolding k_GetTenant_def Let_def member_mismatch.simps
      by (cases ?u) (auto simp: u(1) wp_simps intro!: wp_mono [OF Cons])
  qed
qed (simp add: wp_simps)

lemma tenant_ids_resolved:
  assumes rd: "reads_tenants users E"
  shows "wp (tenant_ids E ''NiFiUser'' ns refs) (\<lambda>r s'. obj s' = obj s \<and>
    (\<forall>ids. r = Inr ids \<longrightarrow> (\<forall>i \<in> set ids. \<exists>ref \<in> set refs. \<exists>user.
       users (localObjectRefNamespace ns ref) (lr_Name ref) = Inr user \<and> tn_NiFiID user = i))) s"
proof (induction refs arbitrary: s)
  case (Cons ref rest)
  let ?u = "users (localObjectRefNamespace ns ref) (lr_Name ref)"
  have u: "ke_GetTenant E ''NiFiUser'' (localObjectRefNamespace ns ref) (lr_Name ref) log = ?u" for log
    using rd by (auto simp: reads_tenants_def)
  show ?case
    unfolding k_GetTenant_def tenant_ids.simps
  proof (cases ?u)
    case (Inr user)
    show "wp (State_Monad.bind (ext_call (KGetTenant ''NiFiUser'' (localObjectRefNamespace ns ref) (lr_Name ref)) (ke_GetTenant E ''NiFiUser'' (localObjectRefNamespace ns ref) (lr_Name ref))) (\<lambda>r. case r of
        Inl err \<Rightarrow> ret (Inl err)
      | Inr tenant \<Rightarrow> State_Monad.bind (tenant_ids E ''NiFiUser'' ns rest) (\<lambda>ids.
          ret (map_sum id (\<lambda>ids. if tn_NiFiID tenant \<noteq> '''' then tn_NiFiID tenant # ids else ids) ids))))
     (\<lambda>r s'. obj s' = obj s \<and>
    (\<forall>ids. r = Inr ids \<longrightarrow> (\<forall>i \<in> set ids. \<exists>ref \<in> set (ref # rest). \<exists>user.
       users (localObjectRefNamespace ns ref) (lr_Name ref) = Inr user \<and> tn_NiFiID user = i))) s"
      by (intro wp_bindI wp_ext_callI) (auto simp: u Inr wp_simps map_sum_def split: sum.splits if_splits intro!: wp_mono [OF Cons])
  qed (auto simp: u wp_simps)
qed (simp add: wp_simps)

lemma group_written_with:
  assumes "list_all own ids"
  shows "keeps (own_members own) (write_user_group E identity ids)"
proof -
  let ?d = "\<lparr>ugc_ID = '''', ugc_Identity = identity, ugc_Users = tenantRefs ids\<rparr>"
  have own: "list_all (own \<circ> tenantRefID) (tenantRefs ids)"
    using assms by (auto simp: list_all_iff tenantRefs_def)
  have m: "keeps (own_members own) (markUserGroupReady E ids i v)" for i v
    unfolding markUserGroupReady_def by (rule members.keeps_reports)
  have x: "keeps_when (own_members own) (knows E e) (reconcileExistingUserGroup E ?d ids e)" for e
    unfolding reconcileExistingUserGroup_def
    by (rule members.keeps_update_in_place) (use own in \<open>auto simp: own_members_def user_group_kind_def new_entity_def m\<close>)
  have c: "own_members own log (KCreate p (new_entity ?d))" for p log
    using own by (simp add: own_members_def new_entity_def)
  show ?thesis
    unfolding write_user_group_def Let_def
    by (intro members.keeps_find_recorded members.keeps_find_listed members.keeps_create_tenant x c m)
       (simp add: findUserGroupByIdentity_def find_is_member)
qed

definition members_in_cluster :: "(string \<Rightarrow> string \<Rightarrow> TenantObject go_result) \<Rightarrow> NiFiUserGroup \<Rightarrow> bool" where
  "members_in_cluster users userGroup \<longleftrightarrow> (\<forall>ref \<in> set (ugs_Users (ob_Spec userGroup)). \<forall>user.
     users (localObjectRefNamespace (ob_Namespace userGroup) ref) (lr_Name ref) = Inr user \<longrightarrow>
     clusterRefIndexValue (localObjectRefNamespace (ob_Namespace userGroup) ref) (tn_ClusterRef user) =
       clusterRefIndexValue (ob_Namespace userGroup) (ugs_ClusterRef (ob_Spec userGroup)))"

lemma mismatch_finds:
  assumes "reads_tenants users E"
  shows "wp (userGroupMemberClusterMismatch E) (\<lambda>r s'. obj s' = obj s \<and> (r = Inr '''' \<longrightarrow> members_in_cluster users (obj s))) s"
  unfolding userGroupMemberClusterMismatch_def members_in_cluster_def
  by (intro wp_bindI wp_get_objI member_mismatch_none assms)

lemma resolved_are_own:
  assumes "reads_tenants users E" "members_in_cluster users (obj s)"
  shows "wp (resolveUserGroupMemberIDs E) (\<lambda>r _. \<forall>ids. r = Inr ids \<longrightarrow> list_all (own_user users (obj s)) ids) s"
  unfolding resolveUserGroupMemberIDs_def
  by (intro wp_bindI wp_get_objI wp_mono [OF tenant_ids_resolved [OF assms(1)]])
     (use assms(2) in \<open>fastforce simp: list_all_iff own_user_def members_in_cluster_def Let_def\<close>)

lemma reads_keep_members:
  "keeps (own_members own) (userGroupMemberClusterMismatch E)" "keeps (own_members own) (resolveUserGroupMemberIDs E)"
  unfolding userGroupMemberClusterMismatch_def resolveUserGroupMemberIDs_def
  by (intro keeps_intros member_reads tenant_reads members.law_on_writes_axioms)+

lemma group_with_own_members:
  assumes "reads_tenants users E" "members_in_cluster users (obj s)"
  shows "wp (group_with_members E) (\<lambda>_ s'. lawful (own_members (own_user users (obj s))) (calls s) (calls s')) s"
  unfolding group_with_members_def
proof (intro wp_bindI [of get_obj] wp_get_objI wp_lawful_bind [OF reads_keep_members(2) resolved_are_own [OF assms]])
  fix r :: "string list go_result" and s1 :: "(NiFiUserGroupSpec, NiFiUserGroupStatus, UserGroupEntity) kstate"
  assume "\<forall>ids. r = Inr ids \<longrightarrow> list_all (own_user users (obj s)) ids"
  then have "keeps (own_members (own_user users (obj s))) (case r of Inl err \<Rightarrow> ret (no_result, Some err)
      | Inr memberIDs \<Rightarrow> write_user_group E (ugs_Identity (ob_Spec (obj s))) memberIDs)"
    by (intro keeps_case_sum keeps_ret group_written_with) auto
  then show "wp (case r of Inl err \<Rightarrow> ret (no_result, Some err) | Inr memberIDs \<Rightarrow> write_user_group E (ugs_Identity (ob_Spec (obj s))) memberIDs)
      (\<lambda>_ s'. lawful (own_members (own_user users (obj s))) (calls s1) (calls s')) s1"
    by (simp add: keeps_when_def)
qed

lemma members_written:
  assumes "reads_tenants users E"
  shows "wp (reconcile_user_group E cluster) (\<lambda>_ s'. lawful (own_members (own_user users (obj s))) (calls s) (calls s')) s"
proof -
  have keep: "keeps P h \<Longrightarrow> wp h (\<lambda>_ s'. lawful P (calls s1) (calls s')) s1" for P and h :: "outcome user_group_handler" and s1
    by (simp add: keeps_when_def)
  have checked: "wp (State_Monad.bind (userGroupMemberClusterMismatch E) f) (\<lambda>_ s'. lawful (own_members (own_user users (obj s))) (calls s) (calls s')) s"
      if "f = (\<lambda>m. case m of Inl err \<Rightarrow> ret (no_result, Some err)
        | Inr mismatch \<Rightarrow> (if mismatch \<noteq> '''' then report_failed E reason (message mismatch) else group_with_members E))" for f reason message
  proof (rule wp_lawful_bind [OF reads_keep_members(1) mismatch_finds [OF assms]], elim conjE)
    fix r :: "string go_result" and s1 :: "(NiFiUserGroupSpec, NiFiUserGroupStatus, UserGroupEntity) kstate"
    assume "obj s1 = obj s" "r = Inr '''' \<longrightarrow> members_in_cluster users (obj s)"
    then show "wp (f r) (\<lambda>_ s'. lawful (own_members (own_user users (obj s))) (calls s1) (calls s')) s1"
      using group_with_own_members [OF assms, of s1]
      by (auto simp: that intro!: keep keeps_ret members.keeps_reports split: sum.split)
  qed
  show ?thesis
    unfolding reconcile_user_group_def with_endpoint_def
    by (intro wp_ifI checked [OF refl] keep members.keeps_reports)
qed

subsection \<open>A member of another cluster\<close>

definition members_readable :: "(string \<Rightarrow> string \<Rightarrow> TenantObject go_result) \<Rightarrow> NiFiUserGroup \<Rightarrow> bool" where
  \<comment> \<open>every member exists or is reported as missing\<close>
  "members_readable users userGroup \<longleftrightarrow> (\<forall>ref \<in> set (ugs_Users (ob_Spec userGroup)).
     case users (localObjectRefNamespace (ob_Namespace userGroup) ref) (lr_Name ref) of Inl err \<Rightarrow> IsNotFound err | Inr user \<Rightarrow> True)"

definition reported_not_ready :: "string \<Rightarrow> NiFiUserGroup \<Rightarrow> bool" where
  \<comment> \<open>the status is not ready at the current generation, and its condition gives the reason\<close>
  "reported_not_ready reason d \<longleftrightarrow> cs_ObservedGeneration (ob_Common d) = ob_Generation d \<and> \<not> cs_Ready (ob_Common d) \<and>
     (\<exists>c. find_condition ConditionReady (cs_Conditions (ob_Common d)) = Some c \<and> cd_Reason c = reason)"

abbreviation no_write :: "(NiFiUserGroup, UserGroupEntity) kcall list \<Rightarrow> (NiFiUserGroup, UserGroupEntity) kcall \<Rightarrow> bool" where
  "no_write log c \<equiv> \<not> nifi_write c"

interpretation idle: law_on_writes no_write
  by unfold_locales simp

lemma mismatch_answers:
  assumes rd: "reads_tenants users E"
    and "\<forall>ref \<in> set refs. case users (localObjectRefNamespace ns ref) (lr_Name ref) of Inl err \<Rightarrow> IsNotFound err | Inr user \<Rightarrow> True"
  shows "wp (member_mismatch E ns cluster refs) (\<lambda>r _. \<not> isl r) s"
  using assms(2)
proof (induction refs arbitrary: s)
  case (Cons ref rest)
  let ?u = "users (localObjectRefNamespace ns ref) (lr_Name ref)"
  have u: "ke_GetTenant E ''NiFiUser'' (localObjectRefNamespace ns ref) (lr_Name ref) log = ?u" for log
    using rd by (simp add: reads_tenants_def)
  show ?case
    using Cons unfolding k_GetTenant_def Let_def member_mismatch.simps
    by (cases ?u) (auto simp: u wp_simps)
qed (simp add: wp_simps)

lemma failure_reported:
  "wp (report_failed E reason message) (\<lambda>_ s'. reported_not_ready reason (obj s')) s"
proof -
  have c: "\<exists>cd. find_condition ConditionReady (cs_Conditions (not_ready_common t g reason message c)) = Some cd \<and> cd_Reason cd = reason" for t g c
    using not_ready_common_condition by blast
  show ?thesis
    unfolding report_not_ready_def mark_resource_not_ready_def k_now_def k_StatusUpdate_def shouldMarkResourceNotReady_def
    by (intro wp_intros) (auto simp: reported_not_ready_def shouldMarkNotReady_def c split: if_splits option.splits)
qed

lemma foreign_members_refused:
  assumes rd: "reads_tenants users E" and foreign: "\<not> members_in_cluster users (obj s)"
  shows "wp (reconcile_user_group E cluster) (\<lambda>_ s'. lawful no_write (calls s) (calls s') \<and>
    (clusterEndpoint cluster \<noteq> '''' \<and> members_readable users (obj s) \<longrightarrow> reported_not_ready ''MemberClusterMismatch'' (obj s'))) s"
proof -
  have q: "keeps no_write (userGroupMemberClusterMismatch E)"
    unfolding userGroupMemberClusterMismatch_def by (intro keeps_intros member_reads idle.law_on_writes_axioms)
  have answers: "wp (userGroupMemberClusterMismatch E) (\<lambda>r _. members_readable users (obj s) \<longrightarrow> \<not> isl r) s"
  proof (cases "members_readable users (obj s)")
    case True
    then show ?thesis
      unfolding userGroupMemberClusterMismatch_def members_readable_def
      by (intro wp_bindI wp_get_objI) (auto intro: wp_mono [OF mismatch_answers [OF rd]])
  qed (simp add: wp_def split: prod.split)
  have found: "wp (userGroupMemberClusterMismatch E)
      (\<lambda>r s'. lawful no_write (calls s) (calls s') \<and> r \<noteq> Inr '''' \<and> (members_readable users (obj s) \<longrightarrow> \<not> isl r)) s"
    by (rule wp_mono [OF wp_conj [OF keeps_whenD [OF q refl TrueI] wp_conj [OF mismatch_finds [OF rd] answers]]]) (use foreign in auto)
  have report: "wp (report_failed E reason message) (\<lambda>_ s'. lawful no_write (calls s1) (calls s') \<and> reported_not_ready reason (obj s')) s1"
    for reason message s1
    by (rule wp_conj [OF keeps_whenD [OF idle.keeps_reports(4) refl TrueI] failure_reported])
  have missing: "wp (report_not_ready E reason message r1 r2) (\<lambda>_ s'. lawful no_write (calls s1) (calls s')) s1" for reason message r1 r2 s1
    by (rule keeps_whenD [OF idle.keeps_reports(4) refl TrueI])
  show ?thesis
    unfolding reconcile_user_group_def with_endpoint_def
    by (auto simp: wp_simps intro!: missing wp_mono [OF found] wp_mono [OF report] intro: lawful_trans split: sum.split)
qed

text \<open>
  C36. A user group is written only with users of its own cluster: when the users stay as they are during the reconcile, every id in a created
  or updated group is the recorded id of a user that the spec lists and whose cluster reference is that of the group. A group that
  lists a user of another cluster is not written at all, and is reported not ready as a \<open>MemberClusterMismatch\<close> at its current
  generation, unless the cluster has no endpoint or the read of a member fails with another error than that it is missing.
\<close>

theorem group_members_of_own_cluster:
  assumes "reads_tenants users E"
  shows "wp (reconcile_user_group E cluster) (\<lambda>_ s'. lawful (own_members (own_user users (obj s))) (calls s) (calls s') \<and>
    (\<not> members_in_cluster users (obj s) \<longrightarrow> lawful no_write (calls s) (calls s') \<and>
       (clusterEndpoint cluster \<noteq> '''' \<and> members_readable users (obj s) \<longrightarrow> reported_not_ready ''MemberClusterMismatch'' (obj s')))) s"
proof (cases "members_in_cluster users (obj s)")
  case True
  then show ?thesis by (auto intro: wp_mono [OF members_written [OF assms]])
next
  case False
  then show ?thesis by (auto intro: wp_mono [OF wp_conj [OF members_written [OF assms] foreign_members_refused [OF assms False]]])
qed

definition group_users :: "string \<Rightarrow> string \<Rightarrow> TenantObject go_result" where
  \<comment> \<open>one user of the group's cluster, one of another\<close>
  "group_users ns n =
     (if n = ''alice'' then Inr \<lparr>tn_Ready = True, tn_NiFiID = ''u1'', tn_ClusterRef = component_ref\<rparr>
      else if n = ''bob'' then Inr \<lparr>tn_Ready = True, tn_NiFiID = ''u2'', tn_ClusterRef = component_ref\<lparr>cr_Name := ''other''\<rparr>\<rparr>
      else Inl (GoErr NotFound ''not found''))"

definition group_of :: "string list \<Rightarrow> (NiFiUserGroupSpec, NiFiUserGroupStatus, UserGroupEntity) kstate" where
  "group_of names = start_run (component_resource (component_status ''g'' 1)
     \<lparr>ugs_ClusterRef = component_ref, ugs_Identity = ''ops'', ugs_Users = map (\<lambda>n. \<lparr>lr_Name = n, lr_Namespace = ''''\<rparr>) names,
      ugs_DeletionPolicy = ''Delete''\<rparr> \<lparr>ugst_MemberIDs = []\<rparr>)"

theorem group_members_of_own_cluster_witness:
  "let E = component_env\<lparr>ke_GetTenant := (\<lambda>k ns n log. group_users ns n)\<rparr> in
   wp (reconcile_user_group E component_cluster) (\<lambda>_ s'. reported_not_ready ''MemberClusterMismatch'' (obj s')) (group_of [''alice'', ''bob'']) \<and>
   wp (reconcile_user_group E component_cluster) (\<lambda>_ s'. \<exists>p e. KCreate p e \<in> set (calls s') \<and> map tenantRefID (ugc_Users (en_Component e)) = [''u1'']) (group_of [''alice''])"
proof -
  let ?E = "component_env\<lparr>ke_GetTenant := (\<lambda>k ns n log. group_users ns n)\<rparr>"
  let ?s = "group_of [''alice'', ''bob'']"
  have "reads_tenants group_users ?E" by (simp add: reads_tenants_def group_users_def)
  from group_members_of_own_cluster [OF this, of component_cluster ?s]
  have "wp (reconcile_user_group ?E component_cluster) (\<lambda>_ s'. reported_not_ready ''MemberClusterMismatch'' (obj s')) ?s"
    by (rule wp_mono)
      (simp add: group_of_def members_in_cluster_def members_readable_def group_users_def component_defs clusterRefIndexValue_def
         clusterRefNamespace_def localObjectRefNamespace_def clusterEndpoint_def)
  moreover have "wp (reconcile_user_group ?E component_cluster)
      (\<lambda>_ s'. \<exists>p e. KCreate p e \<in> set (calls s') \<and> map tenantRefID (ugc_Users (en_Component e)) = [''u1'']) (group_of [''alice''])"
    by (simp add: group_of_def reconcile_user_group_def with_endpoint_def component_defs clusterEndpoint_def userGroupMemberClusterMismatch_def
        k_GetTenant_def group_users_def clusterRefIndexValue_def clusterRefNamespace_def localObjectRefNamespace_def group_with_members_def
        resolveUserGroupMemberIDs_def write_user_group_def find_recorded_def find_listed_def create_tenant_def wp_simps Let_def
        k_Get_def k_List_def k_Create_def findUserGroupByIdentity_def new_entity_def tenantRefs_def tenantRefID_def)
  ultimately show ?thesis by (simp add: Let_def)
qed

end
