(* ===== verification/Context_Facts.thy ===== *)
theory Context_Facts
  imports Canvas_Laws
begin

text \<open>
  Parameter contexts: when a context needs no update, one update request at a time, adoption by name only when it is allowed,
  and what becomes of a context that was adopted by name and is updated asynchronously.
\<close>

section \<open>The comparison\<close>

lemma find_last_of_distinct:
  assumes "distinct (map pm_Name ps)" "p \<in> set ps" shows "parameter_map ps (pm_Name p) = Some p"
  unfolding parameter_map_def by (rule map_of_is_SomeI) (use assms in \<open>auto simp: rev_map [symmetric] comp_def\<close>)

lemma parameter_map_member: "parameter_map ps n = Some p \<Longrightarrow> p \<in> set ps \<and> pm_Name p = n"
  by (auto simp: parameter_map_def dest: map_of_SomeD)

text \<open>
  A context that needs no update is the declared one: name and description agree, NiFi has exactly the declared parameters,
  and each declared parameter has its declared description and kind there and, unless it is sensitive, its declared value.
\<close>

theorem settled_context_agrees:
  assumes "\<not> parameterContextNeedsUpdate d e" "distinct (map pm_Name (pcc_Parameters (en_Component d)))"
  shows "pcc_Name (en_Component e) = pcc_Name (en_Component d) \<and> pcc_Description (en_Component e) = pcc_Description (en_Component d) \<and>
    set (map pm_Name (pcc_Parameters (en_Component e))) = set (map pm_Name (pcc_Parameters (en_Component d))) \<and>
    (\<forall>p \<in> set (pcc_Parameters (en_Component d)). \<exists>q \<in> set (pcc_Parameters (en_Component e)). pm_Name q = pm_Name p \<and>
       pm_Description q = pm_Description p \<and> pm_Sensitive q = pm_Sensitive p \<and> (pm_Sensitive p \<or> parameterValue q = parameterValue p))"
proof -
  let ?d = "pcc_Parameters (en_Component d)" and ?e = "pcc_Parameters (en_Component e)"
  have len: "length ?d = length ?e" and all: "\<forall>p \<in> set ?d. \<not> parameter_differs (parameter_map ?e) p"
    and head: "pcc_Name (en_Component e) = pcc_Name (en_Component d)" "pcc_Description (en_Component e) = pcc_Description (en_Component d)"
    using assms(1) by (auto simp: parameterContextNeedsUpdate_def list_ex_iff Let_def split: if_splits)
  have found: "\<exists>q \<in> set ?e. pm_Name q = pm_Name p \<and> pm_Description q = pm_Description p \<and> pm_Sensitive q = pm_Sensitive p \<and>
      (pm_Sensitive p \<or> parameterValue q = parameterValue p)" if "p \<in> set ?d" for p
    using all that by (fastforce simp: parameter_differs_def split: option.splits dest: parameter_map_member)
  have sub: "set (map pm_Name ?d) \<subseteq> set (map pm_Name ?e)"
  proof clarsimp
    fix p assume "p \<in> set ?d"
    from found [OF this] show "pm_Name p \<in> pm_Name ` set ?e" by (metis image_eqI)
  qed
  have "card (set (map pm_Name ?e)) \<le> card (set (map pm_Name ?d))"
    using distinct_card [OF assms(2)] card_length [of "map pm_Name ?e"] len by simp
  with sub have "set (map pm_Name ?e) = set (map pm_Name ?d)" by (metis List.finite_set card_seteq)
  with head found show ?thesis by blast
qed

section \<open>One update request at a time\<close>

type_synonym context_call = "(NiFiParameterContext, ParameterContextEntity) kcall"

definition only_polls :: "string \<Rightarrow> context_call list \<Rightarrow> context_call \<Rightarrow> bool" where
  \<comment> \<open>nothing is written to NiFi, and no other update request is asked for\<close>
  "only_polls requestID log c \<longleftrightarrow> \<not> nifi_write c \<and> (case c of KGetUpdateRequest i r \<Rightarrow> r = requestID | _ \<Rightarrow> True)"

lemma polls_free: "c \<noteq> KGetUpdateRequest i r \<Longrightarrow> \<not> nifi_write c \<Longrightarrow> (\<And>i r. c \<noteq> KGetUpdateRequest i r) \<Longrightarrow> only_polls requestID log c"
  by (simp add: only_polls_def split: kcall.split)

lemma polls_calls:
  "keeps (only_polls r) (k_now E)" "keeps (only_polls r) (k_Get E i)" "keeps (only_polls r) (k_StatusUpdate E)"
  unfolding k_call_defs by (intro keeps_intros; simp add: only_polls_def)+

lemma polls_reports:
  "keeps (only_polls r) (mark_resource_not_ready E reason message)" "keeps (only_polls r) (mark_ready E reason message i v f)"
  "keeps (only_polls r) (report_not_ready E reason message r1 r2)"
  unfolding mark_resource_not_ready_def mark_ready_def report_not_ready_def by (intro keeps_intros polls_calls)+

lemma follow_polls: "keeps (only_polls r) (follow_request E i v request)"
  unfolding follow_request_def markParameterContextUpdateRunning_def markParameterContextReadyFromNiFi_def markParameterContextReady_def
  by (intro keeps_intros polls_calls polls_reports)

text \<open>
  C39. While an update request is in flight, the reconcile only polls it: whatever NiFi lists and whatever the spec says by now, nothing
  is created, updated or requested, and only the recorded request is asked for.
\<close>

theorem one_request_at_a_time:
  assumes "update_in_flight (obj s) = Some pending"
  shows "wp (reconcile_listed E entity contexts) (\<lambda>_ s'. lawful (only_polls (us_ID pending)) (calls s) (calls s')) s"
proof -
  let ?P = "only_polls (us_ID pending)"
  have keep: "keeps ?P h \<Longrightarrow> wp h (\<lambda>_ s'. lawful ?P (calls s1) (calls s')) s1" for h :: "outcome context_handler" and s1
    by (simp add: keeps_when_def)
  have poll: "keeps ?P (k_GetUpdateRequest E i (us_ID pending))" for i
    unfolding k_GetUpdateRequest_def by (intro keeps_intros) (simp add: only_polls_def)
  have existing: "wp (reconcileExistingParameterContext E entity full) (\<lambda>_ s'. lawful ?P (calls s1) (calls s')) s1"
    if "obj s1 = obj s" for full s1
    unfolding reconcileExistingParameterContext_def
    by (cases full) (auto simp: that assms Let_def intro!: keep keeps_intros poll polls_reports follow_polls wp_bindI [of get_obj] wp_get_objI)
  have full: "wp (read_full E entity existing) (\<lambda>_ s'. lawful ?P (calls s) (calls s')) s" for existing
    unfolding read_full_def
  proof (rule wp_lawful_bind [where R = "\<lambda>_ s1. obj s1 = obj s"])
    show "keeps ?P (k_Get E (parameterContextEntityID existing))" by (rule polls_calls)
    show "wp (k_Get E (parameterContextEntityID existing)) (\<lambda>_ s1. obj s1 = obj s) s"
      unfolding k_Get_def by (intro wp_ext_callI) simp
  qed (auto intro!: keep polls_reports existing split: sum.split)
  show ?thesis
    unfolding reconcile_listed_def Let_def
    by (intro wp_bindI [of get_obj] wp_get_objI) (auto simp: assms intro!: full keep polls_reports split: option.split)
qed

section \<open>Adoption\<close>

text \<open>
  A parameter context of NiFi that happens to have the name of the resource is not touched unless the spec allows to adopt it:
  without a recorded object and without the adoption modes for existing names, the reconcile only reports and makes no call to NiFi at all.
\<close>

theorem foreign_context_is_not_touched:
  assumes "cs_NiFiID (ob_Common (obj s)) = ''''" "update_in_flight (obj s) = None"
    "\<not> parameterContextAdoptionAllowed (pcs_AdoptionPolicy (ob_Spec (obj s)))" "parameterContextByName contexts (ob_Name (obj s)) = Some existing"
  shows "wp (reconcile_listed E entity contexts) (\<lambda>r s'. fst r = no_result \<and>
    (calls s' = calls s \<or> (\<exists>d. calls s' = calls s @ [KStatusUpdate d] \<and> \<not> cs_Ready (ob_Common d)))) s"
  unfolding reconcile_listed_def Let_def report_not_ready_def mark_resource_not_ready_def k_now_def k_StatusUpdate_def
  using assms by (auto simp: parameterContextByID_def wp_simps not_ready_common_def MarkNotReady_def Let_def)

section \<open>A context adopted by name\<close>

definition wedged :: "NiFiParameterContext \<Rightarrow> bool" where
  \<comment> \<open>an update is recorded as running, but not of which context\<close>
  "wedged instance \<longleftrightarrow> cs_NiFiID (ob_Common instance) = '''' \<and> update_in_flight instance \<noteq> None"

text \<open>
  Adopting a context by name and updating it asynchronously ends in a state that the controller cannot leave: a request that is not complete
  at once is recorded while the id of the context is not, and from then on no reconcile asks NiFi for the request or writes anything,
  whatever NiFi lists. It only reports, without asking to be called again, and the state stays as it is.
\<close>

theorem adopted_update_wedges:
  "(cs_NiFiID (ob_Common (obj s)) = '''' \<longrightarrow> ur_FailureReason request = '''' \<longrightarrow> \<not> ur_Complete request \<longrightarrow>
      wp (follow_request E nifiID revision (Some request)) (\<lambda>_ s'. wedged (obj s')) s) \<and>
   (wedged (obj s) \<longrightarrow> wp (reconcile_listed E entity contexts)
      (\<lambda>r s'. fst r = no_result \<and> wedged (obj s') \<and> (calls s' = calls s \<or> (\<exists>d. calls s' = calls s @ [KStatusUpdate d]))) s)"
proof (intro conjI impI)
  assume "cs_NiFiID (ob_Common (obj s)) = ''''" "ur_FailureReason request = ''''" "\<not> ur_Complete request"
  then show "wp (follow_request E nifiID revision (Some request)) (\<lambda>_ s'. wedged (obj s')) s"
    unfolding follow_request_def markParameterContextUpdateRunning_def k_now_def k_StatusUpdate_def
    by (auto simp: wedged_def update_in_flight_def set_request_def parameterContextUpdateRequestStatus_def wp_simps not_ready_common_def MarkNotReady_def Let_def)
next
  assume "wedged (obj s)"
  then show "wp (reconcile_listed E entity contexts)
      (\<lambda>r s'. fst r = no_result \<and> wedged (obj s') \<and> (calls s' = calls s \<or> (\<exists>d. calls s' = calls s @ [KStatusUpdate d]))) s"
    unfolding reconcile_listed_def Let_def report_not_ready_def mark_resource_not_ready_def k_now_def k_StatusUpdate_def
    by (auto simp: wedged_def update_in_flight_def parameterContextByID_def wp_simps not_ready_common_def MarkNotReady_def Let_def split: option.splits if_splits)
qed

section \<open>Witnesses\<close>

definition sample_context :: "string \<Rightarrow> string \<Rightarrow> ParameterContextUpdateRequestStatus option \<Rightarrow> NiFiParameterContext" where
  \<comment> \<open>recorded id, adoption mode and update request\<close>
  "sample_context i mode request = component_resource (component_status i 1)
     \<lparr>pcs_ClusterRef = component_ref, pcs_Description = ''d'', pcs_Parameters = [], pcs_DeletionPolicy = ''Orphan'',
      pcs_AdoptionPolicy = \<lparr>ap_Mode = mode, ap_NiFiID = '''', ap_RequireAnnotation = False, ap_ReviewBeforeMutate = False\<rparr>\<rparr>
     \<lparr>pcst_LatestUpdateRequest = request\<rparr>"

definition sample_parameter :: "string \<Rightarrow> bool \<Rightarrow> string option \<Rightarrow> Parameter" where
  "sample_parameter n sensitive value = \<lparr>pm_Name = n, pm_Description = '''', pm_Sensitive = sensitive, pm_Value = value\<rparr>"

definition context_entity :: "string \<Rightarrow> Parameter list \<Rightarrow> ParameterContextEntity" where
  "context_entity i ps = new_entity \<lparr>pcc_ID = i, pcc_Name = ''obj'', pcc_Description = ''d'', pcc_Parameters = ps\<rparr>"

definition sample_update_request :: ParameterContextUpdateRequest where
  "sample_update_request = \<lparr>ur_RequestID = ''r1'', ur_URI = '''', ur_SubmissionTime = '''', ur_LastUpdated = '''', ur_Complete = False,
     ur_FailureReason = '''', ur_PercentCompleted = 0, ur_State = ''''\<rparr>"

abbreviation sample_pending :: ParameterContextUpdateRequestStatus where
  "sample_pending \<equiv> parameterContextUpdateRequestStatus (Some sample_update_request)"

lemmas sample_context_defs = sample_context_def sample_parameter_def context_entity_def sample_update_request_def parameterContextUpdateRequestStatus_def
  component_defs new_entity_def update_in_flight_def

theorem settled_context_agrees_witness:
  "let d = context_entity '''' [sample_parameter ''user'' False (Some ''x''), sample_parameter ''pw'' True (Some ''secret'')];
       e = context_entity ''c'' [sample_parameter ''pw'' True None, sample_parameter ''user'' False (Some ''x'')] in
   set (map pm_Name (pcc_Parameters (en_Component e))) = set (map pm_Name (pcc_Parameters (en_Component d)))"
  unfolding Let_def
  by (rule settled_context_agrees [THEN conjunct2, THEN conjunct2, THEN conjunct1])
     (simp_all add: parameterContextNeedsUpdate_def parameter_differs_def parameter_map_def parameterValue_def sample_context_defs)

theorem one_request_at_a_time_witness:
  "wp (reconcile_listed component_env (context_entity '''' []) [context_entity ''c'' [sample_parameter ''user'' False (Some ''x'')]])
     (\<lambda>_ s'. lawful (only_polls ''r1'') [] (calls s')) (start_run (sample_context ''c'' '''' (Some sample_pending)))"
  using one_request_at_a_time [of "start_run (sample_context ''c'' '''' (Some sample_pending))" sample_pending component_env "context_entity '''' []"
      "[context_entity ''c'' [sample_parameter ''user'' False (Some ''x'')]]"]
  by (simp add: sample_context_defs)

theorem foreign_context_is_not_touched_witness:
  "wp (reconcile_listed component_env (context_entity '''' []) [context_entity ''c'' []]) (\<lambda>r s'. fst r = no_result \<and>
    (calls s' = [] \<or> (\<exists>d. calls s' = [KStatusUpdate d] \<and> \<not> cs_Ready (ob_Common d)))) (start_run (sample_context '''' '''' None))"
  using foreign_context_is_not_touched [of "start_run (sample_context '''' '''' None)" "[context_entity ''c'' []]" "context_entity ''c'' []" component_env
      "context_entity '''' []"]
  by (simp add: sample_context_defs parameterContextAdoptionAllowed_def parameterContextByName_def)

theorem adopted_update_wedges_witness:
  "wp (follow_request component_env ''c'' 1 (Some sample_update_request)) (\<lambda>_ s'. wedged (obj s')) (start_run (sample_context '''' ''AdoptByName'' None)) \<and>
   wp (reconcile_listed component_env (context_entity '''' []) [context_entity ''c'' []])
     (\<lambda>r s'. fst r = no_result \<and> wedged (obj s') \<and> (calls s' = [] \<or> (\<exists>d. calls s' = [KStatusUpdate d])))
     (start_run (sample_context '''' ''AdoptByName'' (Some sample_pending)))"
  using adopted_update_wedges [of "start_run (sample_context '''' ''AdoptByName'' None)" sample_update_request component_env "''c''" 1]
    adopted_update_wedges [of "start_run (sample_context '''' ''AdoptByName'' (Some sample_pending))" sample_update_request component_env "''c''" 1
      "context_entity '''' []" "[context_entity ''c'' []]"]
  by (simp add: sample_context_defs wedged_def)

end
