(* ===== verification/Remote_Group.thy ===== *)
theory Remote_Group
  imports Tenants
begin

text \<open>
  Remote process groups (\<open>internal/controller/nifiremoteprocessgroup_controller.go\<close>; entities of
  \<open>pkg/nifi/remoteprocessgroups.go\<close>): site-to-site links to another NiFi. The configuration of a group
  is compared with NiFi and corrected, reported or tolerated according to the drift policy; the ports of
  the target that the spec lists are configured and started one after the other.
\<close>

section \<open>Entities, spec and status\<close>

record RemoteProcessGroupContents =
  rct_InputPorts :: "RemoteProcessGroupPort list"
  rct_OutputPorts :: "RemoteProcessGroupPort list"

record RemoteProcessGroupComponent =
  rgc_ID :: string
  rgc_ParentGroupID :: string
  rgc_Name :: string
  rgc_Comments :: string
  rgc_TargetURIs :: string
  rgc_TransportProtocol :: string
  rgc_CommunicationsTimeout :: string
  rgc_YieldDuration :: string
  rgc_LocalNetworkInterface :: string
  rgc_ProxyHost :: string
  rgc_ProxyPort :: int
  rgc_ProxyUser :: string
  rgc_ProxyPassword :: string
  rgc_Position :: "Position option"
  rgc_Transmitting :: bool
  rgc_TargetSecure :: bool
  rgc_InputPortCount :: int
  rgc_OutputPortCount :: int
  rgc_Contents :: "RemoteProcessGroupContents option"

type_synonym RemoteProcessGroupEntity = "RemoteProcessGroupComponent entity"

definition RemoteProcessGroupEntityID :: "RemoteProcessGroupEntity \<Rightarrow> string" where
  "RemoteProcessGroupEntityID = entityID rgc_ID"

record RemoteProcessGroupProxy =
  rpx_Host :: string
  rpx_Port :: int
  rpx_User :: string
  rpx_PasswordSecretRef :: "SecretKeyRef option"

record RemoteProcessGroupPortConfig =
  rcf_Name :: string
  rcf_Transmitting :: bool
  rcf_ConcurrentTasks :: int
  rcf_UseCompression :: bool
  rcf_BatchCount :: int
  rcf_BatchSize :: string
  rcf_BatchDuration :: string

record NiFiRemoteProcessGroupSpec =
  rgs_ClusterRef :: ClusterReference
  rgs_ParentProcessGroupRef :: ProcessGroupReference
  rgs_TargetURIs :: "string list"
  rgs_TransportProtocol :: string
  rgs_CommunicationsTimeout :: string
  rgs_YieldDuration :: string
  rgs_LocalNetworkInterface :: string
  rgs_Comments :: string
  rgs_Proxy :: "RemoteProcessGroupProxy option"
  rgs_Position :: "SpecPosition option"
  rgs_InputPorts :: "RemoteProcessGroupPortConfig list"
  rgs_OutputPorts :: "RemoteProcessGroupPortConfig list"
  rgs_DeletionPolicy :: string
  rgs_DriftPolicy :: DriftPolicy
  rgs_AdoptionPolicy :: AdoptionPolicy

record RemoteProcessGroupPortStatus =
  rpst_Name :: string
  rpst_NiFiID :: string
  rpst_Transmitting :: bool
  rpst_Connected :: bool
  rpst_Exists :: bool

record NiFiRemoteProcessGroupStatus =
  rgst_ParentProcessGroupID :: string
  rgst_TransmissionStatus :: string
  rgst_TargetSecure :: bool
  rgst_InputPortCount :: int
  rgst_OutputPortCount :: int
  rgst_DiscoveredInputPorts :: "RemoteProcessGroupPortStatus list"
  rgst_DiscoveredOutputPorts :: "RemoteProcessGroupPortStatus list"

type_synonym NiFiRemoteProcessGroup = "(NiFiRemoteProcessGroupSpec, NiFiRemoteProcessGroupStatus) resource"
type_synonym 'a remote_handler = "(NiFiRemoteProcessGroupSpec, NiFiRemoteProcessGroupStatus, RemoteProcessGroupEntity, 'a) khandler"
type_synonym remote_env = "(NiFiRemoteProcessGroupSpec, NiFiRemoteProcessGroupStatus, RemoteProcessGroupEntity) renv"

definition remote_group_kind :: "(NiFiRemoteProcessGroupSpec, RemoteProcessGroupEntity) kind" where
  "remote_group_kind = \<lparr>kd_Label = ''remote process group'', kd_ClusterRef = rgs_ClusterRef, kd_DeletionPolicy = rgs_DeletionPolicy,
     kd_AdoptID = adopt_by_id \<circ> rgs_AdoptionPolicy, kd_EntityID = RemoteProcessGroupEntityID, kd_Revision = re_Version \<circ> en_Revision,
     kd_Address = (\<lambda>i v e. e\<lparr>en_ID := i, en_Revision := \<lparr>re_Version = v\<rparr>, en_Component := (en_Component e)\<lparr>rgc_ID := i\<rparr>\<rparr>)\<rparr>"

section \<open>Comparisons\<close>

fun join_with :: "string \<Rightarrow> string list \<Rightarrow> string" where
  \<comment> \<open>\<open>strings.Join\<close>\<close>
  "join_with sep [] = ''''"
| "join_with sep [x] = x"
| "join_with sep (x # y # rest) = x @ sep @ join_with sep (y # rest)"

fun split_commas :: "string \<Rightarrow> string list" where
  \<comment> \<open>\<open>strings.Split(value, ",")\<close>\<close>
  "split_commas [] = [[]]"
| "split_commas (c # cs) = (if c = CHR '','' then [] # split_commas cs
     else case split_commas cs of part # parts \<Rightarrow> (c # part) # parts | [] \<Rightarrow> [[c]])"

definition target_parts :: "string \<Rightarrow> string list" where
  "target_parts value = sort (filter (\<lambda>part. part \<noteq> '''') (map TrimSpace (split_commas value)))"

definition targetURIsEqual :: "string \<Rightarrow> string \<Rightarrow> bool" where
  "targetURIsEqual left right \<longleftrightarrow> target_parts left = target_parts right"

definition remoteProcessGroupNeedsUpdate :: "RemoteProcessGroupEntity \<Rightarrow> RemoteProcessGroupEntity \<Rightarrow> bool" where
  "remoteProcessGroupNeedsUpdate desired existing \<longleftrightarrow> (let d = en_Component desired; e = en_Component existing in
     if rgc_ParentGroupID d \<noteq> '''' \<and> rgc_ParentGroupID d \<noteq> rgc_ParentGroupID e then True
     else if rgc_Comments d \<noteq> rgc_Comments e \<or> rgc_TransportProtocol d \<noteq> rgc_TransportProtocol e \<or>
        rgc_CommunicationsTimeout d \<noteq> rgc_CommunicationsTimeout e \<or> rgc_YieldDuration d \<noteq> rgc_YieldDuration e \<or>
        rgc_LocalNetworkInterface d \<noteq> rgc_LocalNetworkInterface e \<or> rgc_ProxyHost d \<noteq> rgc_ProxyHost e \<or>
        rgc_ProxyPort d \<noteq> rgc_ProxyPort e \<or> rgc_ProxyUser d \<noteq> rgc_ProxyUser e then True
     else if \<not> targetURIsEqual (rgc_TargetURIs d) (rgc_TargetURIs e) then True
     else \<not> nifiPositionsEqual (rgc_Position d) (rgc_Position e))"

definition difference :: "string \<Rightarrow> string \<Rightarrow> string \<Rightarrow> string list" where
  "difference name want got =
     (if want \<noteq> got then [name @ '': desired '' @ quoteq want @ '', actual '' @ quoteq got] else [])"

definition remoteProcessGroupDifferences :: "RemoteProcessGroupEntity \<Rightarrow> RemoteProcessGroupEntity \<Rightarrow> string list" where
  "remoteProcessGroupDifferences desired existing = (let d = en_Component desired; e = en_Component existing;
     diffs = (if \<not> targetURIsEqual (rgc_TargetURIs d) (rgc_TargetURIs e)
              then difference ''targetUris'' (rgc_TargetURIs d) (rgc_TargetURIs e) else []) @
       difference ''transportProtocol'' (rgc_TransportProtocol d) (rgc_TransportProtocol e) @
       difference ''communicationsTimeout'' (rgc_CommunicationsTimeout d) (rgc_CommunicationsTimeout e) @
       difference ''yieldDuration'' (rgc_YieldDuration d) (rgc_YieldDuration e) @
       difference ''localNetworkInterface'' (rgc_LocalNetworkInterface d) (rgc_LocalNetworkInterface e) @
       difference ''comments'' (rgc_Comments d) (rgc_Comments e) @
       difference ''proxyHost'' (rgc_ProxyHost d) (rgc_ProxyHost e) @
       difference ''proxyUser'' (rgc_ProxyUser d) (rgc_ProxyUser e) in
     if diffs = [] then [''remote process group configuration differs from the desired state''] else diffs)"

section \<open>Ports\<close>

definition portKind :: "bool \<Rightarrow> string" where
  "portKind output = (if output then ''output'' else ''input'')"

definition remote_contents :: "bool \<Rightarrow> RemoteProcessGroupContents \<Rightarrow> RemoteProcessGroupPort list" where
  "remote_contents output contents = (if output then rct_OutputPorts contents else rct_InputPorts contents)"

definition findRemotePort :: "RemoteProcessGroupEntity \<Rightarrow> string \<Rightarrow> bool \<Rightarrow> RemoteProcessGroupPort option" where
  "findRemotePort entity name output = (case rgc_Contents (en_Component entity) of
      None \<Rightarrow> None
    | Some contents \<Rightarrow> find (\<lambda>p. rpp_Name p = name) (remote_contents output contents))"

definition remotePortConfigDiffers :: "RemoteProcessGroupPortConfig \<Rightarrow> RemoteProcessGroupPort \<Rightarrow> bool" where
  "remotePortConfigDiffers cfg port \<longleftrightarrow>
     (let (count, size, duration) = (case rpp_BatchSettings port of
            Some b \<Rightarrow> (bts_Count b, bts_Size b, bts_Duration b) | None \<Rightarrow> (0, '''', '''')) in
      rcf_UseCompression cfg \<noteq> rpp_UseCompression port \<or>
      rcf_ConcurrentTasks cfg \<noteq> 0 \<and> rcf_ConcurrentTasks cfg \<noteq> rpp_ConcurrentlySchedulableTaskCount port \<or>
      rcf_BatchCount cfg \<noteq> 0 \<and> rcf_BatchCount cfg \<noteq> count \<or>
      rcf_BatchSize cfg \<noteq> '''' \<and> rcf_BatchSize cfg \<noteq> size \<or>
      rcf_BatchDuration cfg \<noteq> '''' \<and> rcf_BatchDuration cfg \<noteq> duration)"

definition desiredRemotePort :: "RemoteProcessGroupPortConfig \<Rightarrow> string \<Rightarrow> string \<Rightarrow> RemoteProcessGroupPort" where
  "desiredRemotePort cfg portID groupID =
     \<lparr>rpp_ID = portID, rpp_GroupID = groupID, rpp_TargetID = '''', rpp_Name = '''', rpp_Comments = '''',
      rpp_UseCompression = rcf_UseCompression cfg,
      rpp_ConcurrentlySchedulableTaskCount = (if rcf_ConcurrentTasks cfg \<noteq> 0 then rcf_ConcurrentTasks cfg else 0),
      rpp_BatchSettings = (if rcf_BatchCount cfg \<noteq> 0 \<or> rcf_BatchSize cfg \<noteq> '''' \<or> rcf_BatchDuration cfg \<noteq> ''''
        then Some \<lparr>bts_Count = rcf_BatchCount cfg, bts_Size = rcf_BatchSize cfg, bts_Duration = rcf_BatchDuration cfg\<rparr> else None),
      rpp_Transmitting = False, rpp_Exists = False, rpp_Connected = False, rpp_TargetRunning = False\<rparr>"

type_synonym port_result = "(RemoteProcessGroupEntity \<times> string list) go_result" \<comment> \<open>the group as last read and what to wait for\<close>

definition refresh :: "remote_env \<Rightarrow> string \<Rightarrow> RemoteProcessGroupEntity \<Rightarrow> RemoteProcessGroupEntity go_result remote_handler" where
  "refresh E rpgID current = do {
     g \<leftarrow> k_Get E rpgID;
     ret (map_sum id (\<lambda>refreshed. case refreshed of Some e \<Rightarrow> e | None \<Rightarrow> current) g) }"

definition setRemotePortRunStatus :: "remote_env \<Rightarrow> string \<Rightarrow> string \<Rightarrow> int \<Rightarrow> string \<Rightarrow> bool \<Rightarrow> go_error option remote_handler" where
  "setRemotePortRunStatus E rpgID portID revisionVersion st output = k_SetPortState E output rpgID portID revisionVersion st"

definition after_write :: "remote_env \<Rightarrow> string \<Rightarrow> RemoteProcessGroupEntity \<Rightarrow> go_error option \<Rightarrow>
    (RemoteProcessGroupEntity \<Rightarrow> port_result remote_handler) \<Rightarrow> port_result remote_handler" where
  \<comment> \<open>\<open>if err != nil { return err }; if err := refresh(); err != nil { return err }\<close>\<close>
  "after_write E rpgID current e continue = (case e of
      Some err \<Rightarrow> ret (Inl err)
    | None \<Rightarrow> do {
        r \<leftarrow> refresh E rpgID current;
        (case r of Inl err \<Rightarrow> ret (Inl err) | Inr current \<Rightarrow> continue current) })"

definition transmit_port :: "remote_env \<Rightarrow> string \<Rightarrow> bool \<Rightarrow> RemoteProcessGroupPortConfig \<Rightarrow> RemoteProcessGroupEntity \<Rightarrow>
    RemoteProcessGroupPort \<Rightarrow> port_result remote_handler" where
  \<comment> \<open>the \<open>switch\<close> at the end of \<open>reconcileOne\<close>\<close>
  "transmit_port E rpgID output cfg current port =
     (let version = re_Version (en_Revision current);
          switch = (\<lambda>st reason verb. do {
            e \<leftarrow> setRemotePortRunStatus E rpgID (rpp_ID port) version st output;
            (if e = None then k_event reason (verb @ '' site-to-site transmission on '' @ portKind output @ '' port '' @ quoteq (rcf_Name cfg)) else ret ());
            after_write E rpgID current e (\<lambda>current. ret (Inr (current, []))) }) in
      if rcf_Transmitting cfg \<and> \<not> rpp_Transmitting port then
        (if \<not> rpp_Connected port then ret (Inr (current, [portKind output @ ''-port/'' @ rcf_Name cfg @ '':connected'']))
         else switch ''TRANSMITTING'' ''PortTransmissionStarted'' ''Started'')
      else if \<not> rcf_Transmitting cfg \<and> rpp_Transmitting port then switch ''STOPPED'' ''PortTransmissionStopped'' ''Stopped''
      else ret (Inr (current, [])))"

definition edit_port :: "remote_env \<Rightarrow> string \<Rightarrow> bool \<Rightarrow> RemoteProcessGroupPortConfig \<Rightarrow> RemoteProcessGroupEntity \<Rightarrow>
    RemoteProcessGroupPort \<Rightarrow> port_result remote_handler" where
  "edit_port E rpgID output cfg current port = do {
     e \<leftarrow> k_UpdatePort E output rpgID \<lparr>rpe_Revision = \<lparr>re_Version = re_Version (en_Revision current)\<rparr>,
            rpe_RemoteProcessGroupPort = desiredRemotePort cfg (rpp_ID port) rpgID\<rparr>;
     after_write E rpgID current e (\<lambda>current. case findRemotePort current (rcf_Name cfg) output of
         None \<Rightarrow> ret (Inr (current, []))
       | Some port \<Rightarrow> transmit_port E rpgID output cfg current port) }"

definition reconcile_one_port :: "remote_env \<Rightarrow> string \<Rightarrow> bool \<Rightarrow> RemoteProcessGroupPortConfig \<Rightarrow> RemoteProcessGroupEntity \<Rightarrow>
    port_result remote_handler" where
  \<comment> \<open>\<open>reconcileOne\<close>\<close>
  "reconcile_one_port E rpgID output cfg current = (case findRemotePort current (rcf_Name cfg) output of
      None \<Rightarrow> ret (Inr (current, [portKind output @ ''-port/'' @ rcf_Name cfg]))
    | Some port \<Rightarrow>
       (if \<not> remotePortConfigDiffers cfg port then transmit_port E rpgID output cfg current port
        else if rpp_Transmitting port then do {
          e \<leftarrow> setRemotePortRunStatus E rpgID (rpp_ID port) (re_Version (en_Revision current)) ''STOPPED'' output;
          after_write E rpgID current e (\<lambda>current. case findRemotePort current (rcf_Name cfg) output of
              None \<Rightarrow> ret (Inr (current, []))
            | Some port \<Rightarrow> edit_port E rpgID output cfg current port) }
        else edit_port E rpgID output cfg current port))"

primrec reconcile_each_port :: "remote_env \<Rightarrow> string \<Rightarrow> (bool \<times> RemoteProcessGroupPortConfig) list \<Rightarrow> RemoteProcessGroupEntity \<Rightarrow>
    string list \<Rightarrow> port_result remote_handler" where
  "reconcile_each_port E rpgID [] current waitingFor = ret (Inr (current, waitingFor))"
| "reconcile_each_port E rpgID (p # rest) current waitingFor = do {
     r \<leftarrow> reconcile_one_port E rpgID (fst p) (snd p) current;
     (case r of
        Inl err \<Rightarrow> ret (Inl err)
      | Inr (current, waits) \<Rightarrow> reconcile_each_port E rpgID rest current (waitingFor @ waits)) }"

definition declared_ports :: "NiFiRemoteProcessGroupSpec \<Rightarrow> (bool \<times> RemoteProcessGroupPortConfig) list" where
  "declared_ports spec = map (Pair False) (rgs_InputPorts spec) @ map (Pair True) (rgs_OutputPorts spec)"

definition reconcileRemoteProcessGroupPorts :: "remote_env \<Rightarrow> RemoteProcessGroupEntity \<Rightarrow> port_result remote_handler" where
  "reconcileRemoteProcessGroupPorts E current = do {
     instance \<leftarrow> get_obj;
     reconcile_each_port E (RemoteProcessGroupEntityID current) (declared_ports (ob_Spec instance)) current [] }"

section \<open>Reports\<close>

definition remoteProcessGroupTransmissionStatus :: "bool \<Rightarrow> string" where
  "remoteProcessGroupTransmissionStatus transmitting = (if transmitting then ''Transmitting'' else ''Stopped'')"

definition port_statuses :: "RemoteProcessGroupPort list \<Rightarrow> RemoteProcessGroupPortStatus list" where
  \<comment> \<open>\<open>convert\<close>; the order of ports with the same name, which \<open>sort.Slice\<close> leaves open, is that of NiFi\<close>
  "port_statuses ports = sort_key rpst_Name (map (\<lambda>p. \<lparr>rpst_Name = rpp_Name p, rpst_NiFiID = rpp_ID p,
     rpst_Transmitting = rpp_Transmitting p, rpst_Connected = rpp_Connected p, rpst_Exists = rpp_Exists p\<rparr>) ports)"

definition remoteProcessGroupDiscoveredPortStatuses ::
  "RemoteProcessGroupComponent \<Rightarrow> RemoteProcessGroupPortStatus list \<times> RemoteProcessGroupPortStatus list" where
  "remoteProcessGroupDiscoveredPortStatuses component = (case rgc_Contents component of
      None \<Rightarrow> ([], [])
    | Some contents \<Rightarrow> (port_statuses (rct_InputPorts contents), port_statuses (rct_OutputPorts contents)))"

definition portStatusesEqual :: "RemoteProcessGroupPortStatus list \<Rightarrow> RemoteProcessGroupPortStatus list \<Rightarrow> bool" where
  "portStatusesEqual a b \<longleftrightarrow> a = b"

definition remoteProcessGroupDiscoveredPortsMatch :: "NiFiRemoteProcessGroup \<Rightarrow> RemoteProcessGroupComponent \<Rightarrow> bool" where
  "remoteProcessGroupDiscoveredPortsMatch instance component \<longleftrightarrow>
     (let (inPorts, outPorts) = remoteProcessGroupDiscoveredPortStatuses component in
      portStatusesEqual (rgst_DiscoveredInputPorts (ob_Status instance)) inPorts \<and>
      portStatusesEqual (rgst_DiscoveredOutputPorts (ob_Status instance)) outPorts)"

definition observed_group :: "string \<Rightarrow> RemoteProcessGroupComponent \<Rightarrow> NiFiRemoteProcessGroupStatus \<Rightarrow> NiFiRemoteProcessGroupStatus" where
  \<comment> \<open>the part of the status that three reports copy from NiFi\<close>
  "observed_group parentProcessGroupID component st = st\<lparr>rgst_ParentProcessGroupID := parentProcessGroupID,
     rgst_TransmissionStatus := remoteProcessGroupTransmissionStatus (rgc_Transmitting component),
     rgst_TargetSecure := rgc_TargetSecure component, rgst_InputPortCount := rgc_InputPortCount component,
     rgst_OutputPortCount := rgc_OutputPortCount component,
     rgst_DiscoveredInputPorts := fst (remoteProcessGroupDiscoveredPortStatuses component),
     rgst_DiscoveredOutputPorts := snd (remoteProcessGroupDiscoveredPortStatuses component)\<rparr>"

definition remoteProcessGroupStatusMatches :: "NiFiRemoteProcessGroup \<Rightarrow> string \<Rightarrow> int \<Rightarrow> string \<Rightarrow> RemoteProcessGroupComponent \<Rightarrow> bool" where
  "remoteProcessGroupStatusMatches instance nifiID revisionVersion parentID component \<longleftrightarrow>
     (let st = ob_Status instance in
      status_matches instance nifiID revisionVersion \<and> rgst_ParentProcessGroupID st = parentID \<and>
      rgst_TransmissionStatus st = remoteProcessGroupTransmissionStatus (rgc_Transmitting component) \<and>
      rgst_TargetSecure st = rgc_TargetSecure component \<and> rgst_InputPortCount st = rgc_InputPortCount component \<and>
      rgst_OutputPortCount st = rgc_OutputPortCount component \<and> remoteProcessGroupDiscoveredPortsMatch instance component)"

definition markRemoteProcessGroupReady :: "remote_env \<Rightarrow> string \<Rightarrow> int \<Rightarrow> string \<Rightarrow> RemoteProcessGroupComponent \<Rightarrow> go_error option remote_handler" where
  "markRemoteProcessGroupReady E nifiID revisionVersion parentProcessGroupID component =
     mark_ready E ''RemoteProcessGroupReady'' ''The NiFi remote process group is reconciled.'' nifiID revisionVersion
       (observed_group parentProcessGroupID component)"

definition record_group :: "string \<Rightarrow> int \<Rightarrow> string \<Rightarrow> RemoteProcessGroupComponent \<Rightarrow> NiFiRemoteProcessGroup \<Rightarrow> NiFiRemoteProcessGroup" where
  "record_group nifiID revisionVersion parentProcessGroupID component d =
     d\<lparr>ob_Common := set_revision_version revisionVersion ((ob_Common d)\<lparr>cs_NiFiID := nifiID\<rparr>),
       ob_Status := observed_group parentProcessGroupID component (ob_Status d)\<rparr>"

definition markRemoteProcessGroupPortsPending ::
  "remote_env \<Rightarrow> string \<Rightarrow> int \<Rightarrow> string \<Rightarrow> RemoteProcessGroupComponent \<Rightarrow> string \<Rightarrow> outcome remote_handler" where
  "markRemoteProcessGroupPortsPending E nifiID revisionVersion parentProcessGroupID component message = do {
     instance \<leftarrow> get_obj;
     (if \<not> shouldMarkResourceNotReady instance ''PortsPending'' message \<and> cs_NiFiID (ob_Common instance) = nifiID \<and>
         remoteProcessGroupDiscoveredPortsMatch instance component
      then ret (requeue_after 15, None)
      else do {
        upd_obj (record_group nifiID revisionVersion parentProcessGroupID component);
        u \<leftarrow> mark_resource_not_ready E ''PortsPending'' message;
        ret (requeue_after 15, u) }) }"

definition set_drift :: "go_time \<Rightarrow> int \<Rightarrow> string list \<Rightarrow> string \<Rightarrow> CommonStatus \<Rightarrow> CommonStatus" where
  "set_drift t g differences message c = set_last_error '''' (SetCondition t ConditionDriftDetected ConditionTrue ''DriftDetected'' message g
     (c\<lparr>cs_Drift := \<lparr>dr_Status = ''OutOfSync'', dr_LastDetectedTime = Some t, dr_Differences = differences\<rparr>\<rparr>))"

definition markRemoteProcessGroupDrift ::
  "remote_env \<Rightarrow> string \<Rightarrow> RemoteProcessGroupEntity \<Rightarrow> string \<Rightarrow> string list \<Rightarrow> bool \<Rightarrow> outcome remote_handler" where
  "markRemoteProcessGroupDrift E nifiID current parentProcessGroupID differences fail = do {
     instance \<leftarrow> get_obj;
     let c = ob_Common instance;
     let component = en_Component current;
     (if dr_Status (cs_Drift c) = ''OutOfSync'' \<and> cs_ObservedGeneration c = ob_Generation instance \<and> cs_NiFiID c = nifiID \<and>
         cs_Ready c = (\<not> fail) \<and> \<not> waitingForChanged (dr_Differences (cs_Drift c)) differences \<and>
         remoteProcessGroupDiscoveredPortsMatch instance component
      then ret (requeue_after 30, None)
      else do {
        let message = (if fail then ''NiFi configuration drift detected and driftPolicy.mode is Fail: ''
          else ''NiFi configuration drift detected; not corrected because driftPolicy.mode is Warn: '') @ join_with ''; '' differences;
        t \<leftarrow> k_now E;
        upd_obj (\<lambda>d. d\<lparr>ob_Common := (if fail then MarkNotReady t (ob_Generation d) ''DriftDetected'' message (ob_Common d)
          else MarkReady t (ob_Generation d) ''RemoteProcessGroupReady'' ''The NiFi remote process group is reconciled.'' (ob_Common d))\<rparr>);
        upd_obj (record_group nifiID (re_Version (en_Revision current)) parentProcessGroupID component);
        t2 \<leftarrow> k_now E;
        upd_obj (\<lambda>d. d\<lparr>ob_Common := set_drift t2 (ob_Generation d) differences message (ob_Common d)\<rparr>);
        u \<leftarrow> k_StatusUpdate E;
        ret (requeue_after 30, u) }) }"

definition remoteProcessGroupWriteFailed :: "remote_env \<Rightarrow> string \<Rightarrow> string \<Rightarrow> go_error \<Rightarrow> outcome remote_handler" where
  "remoteProcessGroupWriteFailed E reason verb err = report_failed E reason (failed_to verb remote_group_kind err)"

section \<open>Reconcile\<close>

definition manage_ports :: "remote_env \<Rightarrow> string \<Rightarrow> string \<Rightarrow> string list \<Rightarrow> RemoteProcessGroupEntity \<Rightarrow> outcome remote_handler" where
  \<comment> \<open>the part of \<open>reconcileExistingRemoteProcessGroup\<close> behind the configuration\<close>
  "manage_ports E nifiID parentID componentDrift current = do {
     r \<leftarrow> reconcileRemoteProcessGroupPorts E current;
     (case r of
        Inl err \<Rightarrow> remoteProcessGroupWriteFailed E ''NiFiPortReconcileFailed'' ''reconcile ports of'' err
      | Inr (current, portWaiting) \<Rightarrow>
         (if portWaiting \<noteq> [] then markRemoteProcessGroupPortsPending E nifiID (re_Version (en_Revision current)) parentID
              (en_Component current) (''Waiting on remote ports: '' @ join_with '', '' portWaiting)
          else if componentDrift \<noteq> [] then markRemoteProcessGroupDrift E nifiID current parentID componentDrift False
          else settle_ready E (\<lambda>i n v. remoteProcessGroupStatusMatches i n v parentID (en_Component current))
                 (\<lambda>n v. markRemoteProcessGroupReady E n v parentID (en_Component current)) nifiID (re_Version (en_Revision current)))) }"

definition spec_changed :: "NiFiRemoteProcessGroup \<Rightarrow> bool" where
  "spec_changed instance \<longleftrightarrow> cs_ObservedGeneration (ob_Common instance) \<noteq> ob_Generation instance"

definition drift_mode :: "NiFiRemoteProcessGroup \<Rightarrow> string" where
  "drift_mode instance = (let mode = dpol_Mode (rgs_DriftPolicy (ob_Spec instance)) in if mode = '''' then ''Warn'' else mode)"

definition reconcileExistingRemoteProcessGroup ::
  "remote_env \<Rightarrow> RemoteProcessGroupEntity \<Rightarrow> RemoteProcessGroupEntity option \<Rightarrow> string \<Rightarrow> outcome remote_handler" where
  "reconcileExistingRemoteProcessGroup E desired existing parentID = (case existing of
      None \<Rightarrow> report_failed E ''NiFiGetFailed'' (empty_response remote_group_kind)
    | Some existing \<Rightarrow> do {
        instance \<leftarrow> get_obj;
        let nifiID = RemoteProcessGroupEntityID existing;
        let differences = remoteProcessGroupDifferences desired existing;
        let driftMode = drift_mode instance;
        (if \<not> remoteProcessGroupNeedsUpdate desired existing then manage_ports E nifiID parentID [] existing
         else if spec_changed instance \<or> driftMode = ''Reconcile'' then
           write_stopped remote_group_kind E (\<lambda>e. rgc_Transmitting (en_Component e)) ''stop'' ''STOPPED'' True desired existing
             (manage_ports E nifiID parentID [])
         else if driftMode = ''Fail'' then do {
           k_event ''DriftDetected'' (join_with ''; '' differences);
           markRemoteProcessGroupDrift E nifiID existing parentID differences True }
         else if driftMode = ''Warn'' then do {
           k_event ''DriftDetected'' (join_with ''; '' differences);
           manage_ports E nifiID parentID differences existing }
         else manage_ports E nifiID parentID [] existing) })"

definition desiredRemoteProcessGroup :: "remote_env \<Rightarrow> string \<Rightarrow> (RemoteProcessGroupEntity \<times> string list) go_result remote_handler" where
  "desiredRemoteProcessGroup E parentID = do {
     instance \<leftarrow> get_obj;
     let spec = ob_Spec instance;
     let component = \<lparr>rgc_ID = '''', rgc_ParentGroupID = parentID, rgc_Name = '''', rgc_Comments = rgs_Comments spec,
       rgc_TargetURIs = join_with '','' (rgs_TargetURIs spec), rgc_TransportProtocol = rgs_TransportProtocol spec,
       rgc_CommunicationsTimeout = rgs_CommunicationsTimeout spec, rgc_YieldDuration = rgs_YieldDuration spec,
       rgc_LocalNetworkInterface = rgs_LocalNetworkInterface spec, rgc_ProxyHost = '''', rgc_ProxyPort = 0, rgc_ProxyUser = '''',
       rgc_ProxyPassword = '''', rgc_Position = map_option nifi_position (rgs_Position spec), rgc_Transmitting = False,
       rgc_TargetSecure = False, rgc_InputPortCount = 0, rgc_OutputPortCount = 0, rgc_Contents = None\<rparr>;
     (case rgs_Proxy spec of
        None \<Rightarrow> ret (Inr (new_entity component, []))
      | Some proxy \<Rightarrow>
         (let component = component\<lparr>rgc_ProxyHost := rpx_Host proxy, rgc_ProxyPort := rpx_Port proxy, rgc_ProxyUser := rpx_User proxy\<rparr> in
          case rpx_PasswordSecretRef proxy of
            None \<Rightarrow> ret (Inr (new_entity component, []))
          | Some ref \<Rightarrow> do {
              r \<leftarrow> resolveSecretKey E (ob_Namespace instance) ref;
              ret (map_sum id (\<lambda>(value, wait). (new_entity (component\<lparr>rgc_ProxyPassword := value\<rparr>),
                if wait \<noteq> '''' then [wait] else [])) r) })) }"

definition remoteProcessGroupDependenciesWaitingFor :: "remote_env \<Rightarrow> string list remote_handler" where
  "remoteProcessGroupDependenciesWaitingFor E = do {
     rpg \<leftarrow> get_obj;
     processGroupReferenceDependencyWaitingFor (k_GetProcessGroupObject E) (ob_Namespace rpg) (rgs_ParentProcessGroupRef (ob_Spec rpg)) }"

definition remoteProcessGroupAdoptionAllowed :: "AdoptionPolicy \<Rightarrow> bool" where
  "remoteProcessGroupAdoptionAllowed policy \<longleftrightarrow> ap_Mode policy = ''IfExists'' \<or> ap_Mode policy = ''AdoptByName''"

definition findAdoptableRemoteProcessGroup :: "RemoteProcessGroupEntity list \<Rightarrow> NiFiRemoteProcessGroup \<Rightarrow> RemoteProcessGroupEntity option" where
  "findAdoptableRemoteProcessGroup list instance =
     (let byName = (ap_Mode (rgs_AdoptionPolicy (ob_Spec instance)) = ''AdoptByName'');
          desiredTargets = join_with '','' (rgs_TargetURIs (ob_Spec instance)) in
      find (\<lambda>e. if byName then rgc_Name (en_Component e) = ob_Name instance
        else targetURIsEqual (rgc_TargetURIs (en_Component e)) desiredTargets \<or> rgc_Name (en_Component e) = ob_Name instance) list)"

definition adopt_or_create :: "remote_env \<Rightarrow> string \<Rightarrow> RemoteProcessGroupEntity \<Rightarrow> outcome remote_handler" where
  \<comment> \<open>the search among the groups under the parent, and the creation\<close>
  "adopt_or_create E parentID desired = do {
     instance \<leftarrow> get_obj;
     let existing_path = (\<lambda>e. reconcileExistingRemoteProcessGroup E desired (Some e) parentID);
     let create = create_component remote_group_kind E parentID desired (\<lambda>created. do {
       k_event ''RemoteProcessGroupCreated'' (''Created remote process group '' @ RemoteProcessGroupEntityID created @ '' targeting '' @
         join_with '','' (rgs_TargetURIs (ob_Spec instance)));
       existing_path created });
     (if cs_NiFiID (ob_Common instance) = '''' \<and> remoteProcessGroupAdoptionAllowed (rgs_AdoptionPolicy (ob_Spec instance)) then do {
        l \<leftarrow> k_ListIn E parentID;
        (case l of
           Inl err \<Rightarrow> report_failed E ''AdoptionFailed'' (''Failed to list NiFi remote process groups for adoption: '' @ err_text err)
         | Inr existingList \<Rightarrow> (case findAdoptableRemoteProcessGroup existingList instance of
              Some match \<Rightarrow> do {
                k_event ''RemoteProcessGroupAdopted'' (''Adopted existing remote process group '' @ RemoteProcessGroupEntityID match);
                existing_path match }
            | None \<Rightarrow> create)) }
      else create) }"

definition find_remote_group :: "remote_env \<Rightarrow> string \<Rightarrow> RemoteProcessGroupEntity \<Rightarrow> outcome remote_handler" where
  "find_remote_group E parentID desired = (let existing_path = (\<lambda>e. reconcileExistingRemoteProcessGroup E desired (Some e) parentID) in
     find_recorded remote_group_kind E existing_path (do {
       instance \<leftarrow> get_obj;
       (case kd_AdoptID remote_group_kind (ob_Spec instance) of
          None \<Rightarrow> adopt_or_create E parentID desired
        | Some i \<Rightarrow> do {
            g \<leftarrow> k_Get E i;
            (case g of
               Inl err \<Rightarrow> report_failed E ''AdoptionFailed'' (failed_to ''adopt'' remote_group_kind err)
             | Inr existing \<Rightarrow> (case existing of Some e \<Rightarrow> existing_path e | None \<Rightarrow> adopt_or_create E parentID desired)) }) }))"

definition delete_remote_group :: "remote_env \<Rightarrow> outcome remote_handler" where
  \<comment> \<open>the part of the deletion behind the frame: a transmitting group is stopped, then deleted\<close>
  "delete_remote_group E = do {
     instance \<leftarrow> get_obj;
     let nifiID = cs_NiFiID (ob_Common instance);
     let remove = (\<lambda>revision. do {
       r \<leftarrow> k_Delete E nifiID revision;
       (case r of
          Some err \<Rightarrow> (if \<not> IsNotFound err then ret (requeue_after 30, Some err)
            else do { k_event ''RemoteProcessGroupDeleted'' (''Deleted remote process group '' @ nifiID @ '' from NiFi''); finish E })
        | None \<Rightarrow> do { k_event ''RemoteProcessGroupDeleted'' (''Deleted remote process group '' @ nifiID @ '' from NiFi''); finish E }) });
     g \<leftarrow> k_Get E nifiID;
     (case g of
        Inl err \<Rightarrow> (if \<not> IsNotFound err then ret (requeue_after 30, Some err) else finish E)
      | Inr current \<Rightarrow> (case current of
           None \<Rightarrow> finish E
         | Some current \<Rightarrow>
            (if rgc_Transmitting (en_Component current) then do {
               r \<leftarrow> k_SetRunState E nifiID (re_Version (en_Revision current)) ''STOPPED'';
               (case r of
                  Inl err \<Rightarrow> ret (requeue_after 30, Some err)
                | Inr stopped \<Rightarrow> remove (case stopped of Some stopped \<Rightarrow> re_Version (en_Revision stopped) | None \<Rightarrow> re_Version (en_Revision current))) }
             else remove (re_Version (en_Revision current))))) }"

definition reconcileRemoteProcessGroupDelete :: "remote_env \<Rightarrow> outcome remote_handler" where
  "reconcileRemoteProcessGroupDelete E = delete_frame remote_group_kind E (delete_remote_group E)"

definition NiFiRemoteProcessGroupReconciler_Reconcile :: "remote_env \<Rightarrow> outcome remote_handler" where
  "NiFiRemoteProcessGroupReconciler_Reconcile E =
     with_ready_cluster remote_group_kind E (reconcileRemoteProcessGroupDelete E) (remoteProcessGroupDependenciesWaitingFor E) (\<lambda>cluster.
       with_endpoint E cluster (do {
         instance \<leftarrow> get_obj;
         with_parent E cluster (rgs_ParentProcessGroupRef (ob_Spec instance)) (\<lambda>parentID.
           with_desired E (desiredRemoteProcessGroup E parentID) (find_remote_group E parentID)) }))"

end
