(* ===== verification/Watches.thy ===== *)
theory Watches
  imports Canvas_Run Service_Objects Tenants Parameter_Context Remote_Group
begin

text \<open>
  The watches of the controllers (\<open>internal/controller/phase1_controllers.go\<close>, \<open>nifipolicy_controller.go\<close>,
  \<open>nifiremoteprocessgroup_controller.go\<close>):
  which resources an event on another Kubernetes object puts into the work queue. A controller that
  waits for another object does not come back on its own, so these functions are what makes it
  continue. \<open>client_object\<close> is the \<open>client.Object\<close> of an event, \<open>informer_cache\<close> what the manager's
  client answers to a \<open>List\<close> of each kind, and \<open>SetupWithManager\<close> is translated as the function
  from an event to the requests of all sources that it registers.
\<close>

section \<open>Events, the cache and requests\<close>

type_synonym request = "string \<times> string" \<comment> \<open>namespace and name\<close>

datatype client_object =
    RegistryClientObj NiFiRegistryClient
  | ParameterContextObj NiFiParameterContext
  | UserObj NiFiUser
  | UserGroupObj NiFiUserGroup
  | ProcessGroupObj NiFiProcessGroup
  | ControllerServiceObj NiFiControllerService
  | FlowDeploymentObj NiFiFlowDeployment
  | ProcessorObj NiFiProcessor
  | InputPortObj NiFiInputPort
  | OutputPortObj NiFiOutputPort
  | ConnectionObj NiFiConnection
  | ReportingTaskObj NiFiReportingTask
  | ParameterProviderObj NiFiParameterProvider
  | FunnelObj NiFiFunnel
  | LabelObj NiFiLabel
  | RemoteProcessGroupObj NiFiRemoteProcessGroup
  | PolicyObj NiFiPolicy
  | ClusterObj NiFiCluster
  | FlowBundleObj string string
  | SecretObj string string \<comment> \<open>the last two by namespace and name\<close>

definition resource_key :: "('sp, 'st) resource \<Rightarrow> request" where
  "resource_key d = (ob_Namespace d, ob_Name d)"

definition deployment_key :: "NiFiFlowDeployment \<Rightarrow> request" where
  "deployment_key d = (fd_Namespace d, fd_Name d)"

definition object_key :: "client_object \<Rightarrow> request" where
  \<comment> \<open>\<open>obj.GetNamespace()\<close> and \<open>obj.GetName()\<close>\<close>
  "object_key changed = (case changed of
      RegistryClientObj d \<Rightarrow> resource_key d
    | ParameterContextObj d \<Rightarrow> resource_key d
    | UserObj d \<Rightarrow> resource_key d
    | UserGroupObj d \<Rightarrow> resource_key d
    | ProcessGroupObj d \<Rightarrow> resource_key d
    | ControllerServiceObj d \<Rightarrow> resource_key d
    | FlowDeploymentObj d \<Rightarrow> deployment_key d
    | ProcessorObj d \<Rightarrow> resource_key d
    | InputPortObj d \<Rightarrow> resource_key d
    | OutputPortObj d \<Rightarrow> resource_key d
    | ConnectionObj d \<Rightarrow> resource_key d
    | ReportingTaskObj d \<Rightarrow> resource_key d
    | ParameterProviderObj d \<Rightarrow> resource_key d
    | FunnelObj d \<Rightarrow> resource_key d
    | LabelObj d \<Rightarrow> resource_key d
    | RemoteProcessGroupObj d \<Rightarrow> resource_key d
    | PolicyObj d \<Rightarrow> resource_key d
    | ClusterObj c \<Rightarrow> (cl_Namespace c, cl_Name c)
    | FlowBundleObj ns n \<Rightarrow> (ns, n)
    | SecretObj ns n \<Rightarrow> (ns, n))"

record informer_cache =
  ca_RegistryClients :: "NiFiRegistryClient list go_result"
  ca_ParameterContexts :: "NiFiParameterContext list go_result"
  ca_Users :: "NiFiUser list go_result"
  ca_UserGroups :: "NiFiUserGroup list go_result"
  ca_ProcessGroups :: "NiFiProcessGroup list go_result"
  ca_ControllerServices :: "NiFiControllerService list go_result"
  ca_FlowDeployments :: "NiFiFlowDeployment list go_result"
  ca_Processors :: "NiFiProcessor list go_result"
  ca_InputPorts :: "NiFiInputPort list go_result"
  ca_OutputPorts :: "NiFiOutputPort list go_result"
  ca_Connections :: "NiFiConnection list go_result"
  ca_ReportingTasks :: "NiFiReportingTask list go_result"
  ca_ParameterProviders :: "NiFiParameterProvider list go_result"
  ca_Funnels :: "NiFiFunnel list go_result"
  ca_Labels :: "NiFiLabel list go_result"
  ca_RemoteProcessGroups :: "NiFiRemoteProcessGroup list go_result"
  ca_Policies :: "NiFiPolicy list go_result"

definition enqueue :: "('o \<Rightarrow> request) \<Rightarrow> ('o \<Rightarrow> bool) \<Rightarrow> 'o list go_result \<Rightarrow> request list" where
  \<comment> \<open>the loop of all \<open>requestsFor...\<close> functions; an error of the \<open>List\<close> enqueues nothing\<close>
  "enqueue key matches list = (case list of Inl err \<Rightarrow> [] | Inr items \<Rightarrow> map key (filter matches items))"

section \<open>References\<close>

definition localObjectReferenceMatches :: "string \<Rightarrow> LocalObjectReference \<Rightarrow> client_object \<Rightarrow> bool" where
  "localObjectReferenceMatches defaultNamespace ref changed \<longleftrightarrow>
     lr_Name ref \<noteq> '''' \<and> lr_Name ref = snd (object_key changed) \<and> localObjectRefNamespace defaultNamespace ref = fst (object_key changed)"

definition processGroupReferenceMatches :: "string \<Rightarrow> ProcessGroupReference \<Rightarrow> client_object \<Rightarrow> bool" where
  "processGroupReferenceMatches defaultNamespace ref changed \<longleftrightarrow>
     \<not> (pr_Root ref \<or> pr_Name ref = '''') \<and>
     pr_Name ref = snd (object_key changed) \<and> processGroupRefNamespace defaultNamespace ref = fst (object_key changed)"

definition connectableReferenceMatches :: "string \<Rightarrow> ConnectableReference \<Rightarrow> string \<Rightarrow> client_object \<Rightarrow> bool" where
  "connectableReferenceMatches defaultNamespace ref connectableType changed \<longleftrightarrow>
     \<not> (cnr_Type ref \<noteq> connectableType \<or> cnr_Name ref = '''') \<and>
     cnr_Name ref = snd (object_key changed) \<and> connectableRefNamespace defaultNamespace ref = fst (object_key changed)"

definition optional_reference_matches :: "string \<Rightarrow> LocalObjectReference option \<Rightarrow> client_object \<Rightarrow> bool" where
  \<comment> \<open>\<open>ref != nil && localObjectReferenceMatches(...)\<close>\<close>
  "optional_reference_matches defaultNamespace ref changed = (case ref of
      None \<Rightarrow> False | Some ref \<Rightarrow> localObjectReferenceMatches defaultNamespace ref changed)"

section \<open>The cluster index\<close>

definition indexClusterRef :: "string \<Rightarrow> ClusterReference \<Rightarrow> string list" where
  "indexClusterRef namespace ref =
     (let value = clusterRefIndexValue namespace ref in if value = '''' then [] else [value])"

definition indexRegistryClientClusterRef :: "client_object \<Rightarrow> string list" where
  "indexRegistryClientClusterRef changed = (case changed of
      RegistryClientObj d \<Rightarrow> indexClusterRef (ob_Namespace d) (rcs_ClusterRef (ob_Spec d)) | _ \<Rightarrow> [])"

definition indexParameterContextClusterRef :: "client_object \<Rightarrow> string list" where
  "indexParameterContextClusterRef changed = (case changed of
      ParameterContextObj d \<Rightarrow> indexClusterRef (ob_Namespace d) (pcs_ClusterRef (ob_Spec d)) | _ \<Rightarrow> [])"

definition indexUserClusterRef :: "client_object \<Rightarrow> string list" where
  "indexUserClusterRef changed = (case changed of
      UserObj d \<Rightarrow> indexClusterRef (ob_Namespace d) (uss_ClusterRef (ob_Spec d)) | _ \<Rightarrow> [])"

definition indexUserGroupClusterRef :: "client_object \<Rightarrow> string list" where
  "indexUserGroupClusterRef changed = (case changed of
      UserGroupObj d \<Rightarrow> indexClusterRef (ob_Namespace d) (ugs_ClusterRef (ob_Spec d)) | _ \<Rightarrow> [])"

definition indexProcessGroupClusterRef :: "client_object \<Rightarrow> string list" where
  "indexProcessGroupClusterRef changed = (case changed of
      ProcessGroupObj d \<Rightarrow> indexClusterRef (ob_Namespace d) (pgs_ClusterRef (ob_Spec d)) | _ \<Rightarrow> [])"

definition indexControllerServiceClusterRef :: "client_object \<Rightarrow> string list" where
  "indexControllerServiceClusterRef changed = (case changed of
      ControllerServiceObj d \<Rightarrow> indexClusterRef (ob_Namespace d) (css_ClusterRef (ob_Spec d)) | _ \<Rightarrow> [])"

definition indexFlowDeploymentClusterRef :: "client_object \<Rightarrow> string list" where
  "indexFlowDeploymentClusterRef changed = (case changed of
      FlowDeploymentObj d \<Rightarrow> indexClusterRef (fd_Namespace d) (fsp_ClusterRef (fd_Spec d)) | _ \<Rightarrow> [])"

definition indexProcessorClusterRef :: "client_object \<Rightarrow> string list" where
  "indexProcessorClusterRef changed = (case changed of
      ProcessorObj d \<Rightarrow> indexClusterRef (ob_Namespace d) (prs_ClusterRef (ob_Spec d)) | _ \<Rightarrow> [])"

definition indexInputPortClusterRef :: "client_object \<Rightarrow> string list" where
  "indexInputPortClusterRef changed = (case changed of
      InputPortObj d \<Rightarrow> indexClusterRef (ob_Namespace d) (pts_ClusterRef (ob_Spec d)) | _ \<Rightarrow> [])"

definition indexOutputPortClusterRef :: "client_object \<Rightarrow> string list" where
  "indexOutputPortClusterRef changed = (case changed of
      OutputPortObj d \<Rightarrow> indexClusterRef (ob_Namespace d) (pts_ClusterRef (ob_Spec d)) | _ \<Rightarrow> [])"

definition indexConnectionClusterRef :: "client_object \<Rightarrow> string list" where
  "indexConnectionClusterRef changed = (case changed of
      ConnectionObj d \<Rightarrow> indexClusterRef (ob_Namespace d) (cos_ClusterRef (ob_Spec d)) | _ \<Rightarrow> [])"

definition indexReportingTaskClusterRef :: "client_object \<Rightarrow> string list" where
  "indexReportingTaskClusterRef changed = (case changed of
      ReportingTaskObj d \<Rightarrow> indexClusterRef (ob_Namespace d) (rts_ClusterRef (ob_Spec d)) | _ \<Rightarrow> [])"

definition indexParameterProviderClusterRef :: "client_object \<Rightarrow> string list" where
  "indexParameterProviderClusterRef changed = (case changed of
      ParameterProviderObj d \<Rightarrow> indexClusterRef (ob_Namespace d) (pps_ClusterRef (ob_Spec d)) | _ \<Rightarrow> [])"

definition indexFunnelClusterRef :: "client_object \<Rightarrow> string list" where
  "indexFunnelClusterRef changed = (case changed of
      FunnelObj d \<Rightarrow> indexClusterRef (ob_Namespace d) (fus_ClusterRef (ob_Spec d)) | _ \<Rightarrow> [])"

definition indexLabelClusterRef :: "client_object \<Rightarrow> string list" where
  "indexLabelClusterRef changed = (case changed of
      LabelObj d \<Rightarrow> indexClusterRef (ob_Namespace d) (las_ClusterRef (ob_Spec d)) | _ \<Rightarrow> [])"

definition indexRemoteProcessGroupClusterRef :: "client_object \<Rightarrow> string list" where
  "indexRemoteProcessGroupClusterRef changed = (case changed of
      RemoteProcessGroupObj d \<Rightarrow> indexClusterRef (ob_Namespace d) (rgs_ClusterRef (ob_Spec d)) | _ \<Rightarrow> [])"

lemmas index_defs = indexRegistryClientClusterRef_def indexParameterContextClusterRef_def indexUserClusterRef_def indexUserGroupClusterRef_def indexProcessGroupClusterRef_def indexControllerServiceClusterRef_def indexFlowDeploymentClusterRef_def indexProcessorClusterRef_def indexInputPortClusterRef_def indexOutputPortClusterRef_def indexConnectionClusterRef_def indexReportingTaskClusterRef_def indexParameterProviderClusterRef_def indexFunnelClusterRef_def indexLabelClusterRef_def indexRemoteProcessGroupClusterRef_def

definition listByClusterRef :: "(client_object \<Rightarrow> string list) \<Rightarrow> ('o \<Rightarrow> client_object) \<Rightarrow> client_object \<Rightarrow> 'o list go_result \<Rightarrow> 'o list go_result" where
  \<comment> \<open>a \<open>List\<close> with \<open>MatchingFields\<close>: the cached objects whose index holds the value\<close>
  "listByClusterRef index client_object cluster list =
     (let indexValue = fst (object_key cluster) @ ''/'' @ snd (object_key cluster) in
      map_sum id (filter (\<lambda>item. indexValue \<in> set (index (client_object item)))) list)"

section \<open>Requests for clusters\<close>

definition NiFiRegistryClientReconciler_requestsForCluster :: "informer_cache \<Rightarrow> client_object \<Rightarrow> request list" where
  "NiFiRegistryClientReconciler_requestsForCluster ca changed =
     enqueue resource_key (\<lambda>_. True) (listByClusterRef indexRegistryClientClusterRef RegistryClientObj changed (ca_RegistryClients ca))"

definition NiFiParameterContextReconciler_requestsForCluster :: "informer_cache \<Rightarrow> client_object \<Rightarrow> request list" where
  "NiFiParameterContextReconciler_requestsForCluster ca changed =
     enqueue resource_key (\<lambda>_. True) (listByClusterRef indexParameterContextClusterRef ParameterContextObj changed (ca_ParameterContexts ca))"

definition NiFiUserReconciler_requestsForCluster :: "informer_cache \<Rightarrow> client_object \<Rightarrow> request list" where
  "NiFiUserReconciler_requestsForCluster ca changed =
     enqueue resource_key (\<lambda>_. True) (listByClusterRef indexUserClusterRef UserObj changed (ca_Users ca))"

definition NiFiUserGroupReconciler_requestsForCluster :: "informer_cache \<Rightarrow> client_object \<Rightarrow> request list" where
  "NiFiUserGroupReconciler_requestsForCluster ca changed =
     enqueue resource_key (\<lambda>_. True) (listByClusterRef indexUserGroupClusterRef UserGroupObj changed (ca_UserGroups ca))"

definition NiFiProcessGroupReconciler_requestsForCluster :: "informer_cache \<Rightarrow> client_object \<Rightarrow> request list" where
  "NiFiProcessGroupReconciler_requestsForCluster ca changed =
     enqueue resource_key (\<lambda>_. True) (listByClusterRef indexProcessGroupClusterRef ProcessGroupObj changed (ca_ProcessGroups ca))"

definition NiFiControllerServiceReconciler_requestsForCluster :: "informer_cache \<Rightarrow> client_object \<Rightarrow> request list" where
  "NiFiControllerServiceReconciler_requestsForCluster ca changed =
     enqueue resource_key (\<lambda>_. True) (listByClusterRef indexControllerServiceClusterRef ControllerServiceObj changed (ca_ControllerServices ca))"

definition NiFiFlowDeploymentReconciler_requestsForCluster :: "informer_cache \<Rightarrow> client_object \<Rightarrow> request list" where
  "NiFiFlowDeploymentReconciler_requestsForCluster ca changed =
     enqueue deployment_key (\<lambda>_. True) (listByClusterRef indexFlowDeploymentClusterRef FlowDeploymentObj changed (ca_FlowDeployments ca))"

definition NiFiProcessorReconciler_requestsForCluster :: "informer_cache \<Rightarrow> client_object \<Rightarrow> request list" where
  "NiFiProcessorReconciler_requestsForCluster ca changed =
     enqueue resource_key (\<lambda>_. True) (listByClusterRef indexProcessorClusterRef ProcessorObj changed (ca_Processors ca))"

definition NiFiInputPortReconciler_requestsForCluster :: "informer_cache \<Rightarrow> client_object \<Rightarrow> request list" where
  "NiFiInputPortReconciler_requestsForCluster ca changed =
     enqueue resource_key (\<lambda>_. True) (listByClusterRef indexInputPortClusterRef InputPortObj changed (ca_InputPorts ca))"

definition NiFiOutputPortReconciler_requestsForCluster :: "informer_cache \<Rightarrow> client_object \<Rightarrow> request list" where
  "NiFiOutputPortReconciler_requestsForCluster ca changed =
     enqueue resource_key (\<lambda>_. True) (listByClusterRef indexOutputPortClusterRef OutputPortObj changed (ca_OutputPorts ca))"

definition NiFiConnectionReconciler_requestsForCluster :: "informer_cache \<Rightarrow> client_object \<Rightarrow> request list" where
  "NiFiConnectionReconciler_requestsForCluster ca changed =
     enqueue resource_key (\<lambda>_. True) (listByClusterRef indexConnectionClusterRef ConnectionObj changed (ca_Connections ca))"

definition NiFiReportingTaskReconciler_requestsForCluster :: "informer_cache \<Rightarrow> client_object \<Rightarrow> request list" where
  "NiFiReportingTaskReconciler_requestsForCluster ca changed =
     enqueue resource_key (\<lambda>_. True) (listByClusterRef indexReportingTaskClusterRef ReportingTaskObj changed (ca_ReportingTasks ca))"

definition NiFiParameterProviderReconciler_requestsForCluster :: "informer_cache \<Rightarrow> client_object \<Rightarrow> request list" where
  "NiFiParameterProviderReconciler_requestsForCluster ca changed =
     enqueue resource_key (\<lambda>_. True) (listByClusterRef indexParameterProviderClusterRef ParameterProviderObj changed (ca_ParameterProviders ca))"

definition NiFiFunnelReconciler_requestsForCluster :: "informer_cache \<Rightarrow> client_object \<Rightarrow> request list" where
  "NiFiFunnelReconciler_requestsForCluster ca changed =
     enqueue resource_key (\<lambda>_. True) (listByClusterRef indexFunnelClusterRef FunnelObj changed (ca_Funnels ca))"

definition NiFiLabelReconciler_requestsForCluster :: "informer_cache \<Rightarrow> client_object \<Rightarrow> request list" where
  "NiFiLabelReconciler_requestsForCluster ca changed =
     enqueue resource_key (\<lambda>_. True) (listByClusterRef indexLabelClusterRef LabelObj changed (ca_Labels ca))"

definition NiFiRemoteProcessGroupReconciler_requestsForCluster :: "informer_cache \<Rightarrow> client_object \<Rightarrow> request list" where
  "NiFiRemoteProcessGroupReconciler_requestsForCluster ca changed =
     enqueue resource_key (\<lambda>_. True) (listByClusterRef indexRemoteProcessGroupClusterRef RemoteProcessGroupObj changed (ca_RemoteProcessGroups ca))"

lemmas requests_for_cluster_defs = NiFiRegistryClientReconciler_requestsForCluster_def NiFiParameterContextReconciler_requestsForCluster_def NiFiUserReconciler_requestsForCluster_def NiFiUserGroupReconciler_requestsForCluster_def NiFiProcessGroupReconciler_requestsForCluster_def NiFiControllerServiceReconciler_requestsForCluster_def NiFiFlowDeploymentReconciler_requestsForCluster_def NiFiProcessorReconciler_requestsForCluster_def NiFiInputPortReconciler_requestsForCluster_def NiFiOutputPortReconciler_requestsForCluster_def NiFiConnectionReconciler_requestsForCluster_def NiFiReportingTaskReconciler_requestsForCluster_def NiFiParameterProviderReconciler_requestsForCluster_def NiFiFunnelReconciler_requestsForCluster_def NiFiLabelReconciler_requestsForCluster_def NiFiRemoteProcessGroupReconciler_requestsForCluster_def

section \<open>Requests for process groups, parameter contexts and flow bundles\<close>

definition NiFiProcessGroupReconciler_requestsForProcessGroup :: "informer_cache \<Rightarrow> client_object \<Rightarrow> request list" where
  "NiFiProcessGroupReconciler_requestsForProcessGroup ca changed = enqueue resource_key
     (\<lambda>item. processGroupReferenceMatches (ob_Namespace item) (pgs_ParentProcessGroupRef (ob_Spec item)) changed) (ca_ProcessGroups ca)"

definition NiFiControllerServiceReconciler_requestsForProcessGroup :: "informer_cache \<Rightarrow> client_object \<Rightarrow> request list" where
  "NiFiControllerServiceReconciler_requestsForProcessGroup ca changed = enqueue resource_key
     (\<lambda>item. processGroupReferenceMatches (ob_Namespace item) (css_ParentProcessGroupRef (ob_Spec item)) changed) (ca_ControllerServices ca)"

definition NiFiProcessorReconciler_requestsForProcessGroup :: "informer_cache \<Rightarrow> client_object \<Rightarrow> request list" where
  "NiFiProcessorReconciler_requestsForProcessGroup ca changed = enqueue resource_key
     (\<lambda>item. processGroupReferenceMatches (ob_Namespace item) (prs_ParentProcessGroupRef (ob_Spec item)) changed) (ca_Processors ca)"

definition NiFiInputPortReconciler_requestsForProcessGroup :: "informer_cache \<Rightarrow> client_object \<Rightarrow> request list" where
  "NiFiInputPortReconciler_requestsForProcessGroup ca changed = enqueue resource_key
     (\<lambda>item. processGroupReferenceMatches (ob_Namespace item) (pts_ParentProcessGroupRef (ob_Spec item)) changed) (ca_InputPorts ca)"

definition NiFiOutputPortReconciler_requestsForProcessGroup :: "informer_cache \<Rightarrow> client_object \<Rightarrow> request list" where
  "NiFiOutputPortReconciler_requestsForProcessGroup ca changed = enqueue resource_key
     (\<lambda>item. processGroupReferenceMatches (ob_Namespace item) (pts_ParentProcessGroupRef (ob_Spec item)) changed) (ca_OutputPorts ca)"

definition NiFiConnectionReconciler_requestsForProcessGroup :: "informer_cache \<Rightarrow> client_object \<Rightarrow> request list" where
  "NiFiConnectionReconciler_requestsForProcessGroup ca changed = enqueue resource_key
     (\<lambda>item. processGroupReferenceMatches (ob_Namespace item) (cos_ParentProcessGroupRef (ob_Spec item)) changed) (ca_Connections ca)"

definition NiFiFunnelReconciler_requestsForProcessGroup :: "informer_cache \<Rightarrow> client_object \<Rightarrow> request list" where
  "NiFiFunnelReconciler_requestsForProcessGroup ca changed = enqueue resource_key
     (\<lambda>item. processGroupReferenceMatches (ob_Namespace item) (fus_ParentProcessGroupRef (ob_Spec item)) changed) (ca_Funnels ca)"

definition NiFiLabelReconciler_requestsForProcessGroup :: "informer_cache \<Rightarrow> client_object \<Rightarrow> request list" where
  "NiFiLabelReconciler_requestsForProcessGroup ca changed = enqueue resource_key
     (\<lambda>item. processGroupReferenceMatches (ob_Namespace item) (las_ParentProcessGroupRef (ob_Spec item)) changed) (ca_Labels ca)"

definition NiFiRemoteProcessGroupReconciler_requestsForProcessGroup :: "informer_cache \<Rightarrow> client_object \<Rightarrow> request list" where
  "NiFiRemoteProcessGroupReconciler_requestsForProcessGroup ca changed = enqueue resource_key
     (\<lambda>item. processGroupReferenceMatches (ob_Namespace item) (rgs_ParentProcessGroupRef (ob_Spec item)) changed) (ca_RemoteProcessGroups ca)"

definition NiFiProcessGroupReconciler_requestsForParameterContext :: "informer_cache \<Rightarrow> client_object \<Rightarrow> request list" where
  "NiFiProcessGroupReconciler_requestsForParameterContext ca changed = enqueue resource_key
     (\<lambda>item. optional_reference_matches (ob_Namespace item) (pgs_ParameterContextRef (ob_Spec item)) changed) (ca_ProcessGroups ca)"

definition NiFiControllerServiceReconciler_requestsForParameterContext :: "informer_cache \<Rightarrow> client_object \<Rightarrow> request list" where
  "NiFiControllerServiceReconciler_requestsForParameterContext ca changed = enqueue resource_key
     (\<lambda>item. optional_reference_matches (ob_Namespace item) (css_ParameterContextRef (ob_Spec item)) changed) (ca_ControllerServices ca)"

definition NiFiFlowDeploymentReconciler_requestsForFlowBundle :: "informer_cache \<Rightarrow> client_object \<Rightarrow> request list" where
  "NiFiFlowDeploymentReconciler_requestsForFlowBundle ca changed = enqueue deployment_key
     (\<lambda>item. optional_reference_matches (fd_Namespace item) (fs_BundleRef (fsp_Source (fd_Spec item))) changed) (ca_FlowDeployments ca)"

definition NiFiFlowDeploymentReconciler_requestsForParameterContext :: "informer_cache \<Rightarrow> client_object \<Rightarrow> request list" where
  "NiFiFlowDeploymentReconciler_requestsForParameterContext ca changed = enqueue deployment_key
     (\<lambda>item. optional_reference_matches (fd_Namespace item) (fsp_ParameterContextRef (fd_Spec item)) changed) (ca_FlowDeployments ca)"

definition NiFiFlowDeploymentReconciler_requestsForProcessGroup :: "informer_cache \<Rightarrow> client_object \<Rightarrow> request list" where
  "NiFiFlowDeploymentReconciler_requestsForProcessGroup ca changed = enqueue deployment_key
     (\<lambda>item. processGroupReferenceMatches (fd_Namespace item) (ft_ParentProcessGroupRef (fsp_Target (fd_Spec item))) changed) (ca_FlowDeployments ca)"

section \<open>Requests for the ends of connections\<close>

definition requestsForConnectable :: "informer_cache \<Rightarrow> client_object \<Rightarrow> string \<Rightarrow> request list" where
  "requestsForConnectable ca changed connectableType = enqueue resource_key
     (\<lambda>item. connectableReferenceMatches (ob_Namespace item) (cos_Source (ob_Spec item)) connectableType changed \<or>
             connectableReferenceMatches (ob_Namespace item) (cos_Destination (ob_Spec item)) connectableType changed) (ca_Connections ca)"

definition requestsForProcessor :: "informer_cache \<Rightarrow> client_object \<Rightarrow> request list" where
  "requestsForProcessor ca changed = requestsForConnectable ca changed ''Processor''"

definition requestsForInputPort :: "informer_cache \<Rightarrow> client_object \<Rightarrow> request list" where
  "requestsForInputPort ca changed = requestsForConnectable ca changed ''InputPort''"

definition requestsForOutputPort :: "informer_cache \<Rightarrow> client_object \<Rightarrow> request list" where
  "requestsForOutputPort ca changed = requestsForConnectable ca changed ''OutputPort''"

definition requestsForFunnel :: "informer_cache \<Rightarrow> client_object \<Rightarrow> request list" where
  "requestsForFunnel ca changed = requestsForConnectable ca changed ''Funnel''"

definition requestsForRemoteProcessGroup :: "informer_cache \<Rightarrow> client_object \<Rightarrow> request list" where
  "requestsForRemoteProcessGroup ca changed = enqueue resource_key
     (\<lambda>item. connectableReferenceMatches (ob_Namespace item) (cos_Source (ob_Spec item)) ''RemoteInputPort'' changed \<or>
             connectableReferenceMatches (ob_Namespace item) (cos_Source (ob_Spec item)) ''RemoteOutputPort'' changed \<or>
             connectableReferenceMatches (ob_Namespace item) (cos_Destination (ob_Spec item)) ''RemoteInputPort'' changed \<or>
             connectableReferenceMatches (ob_Namespace item) (cos_Destination (ob_Spec item)) ''RemoteOutputPort'' changed) (ca_Connections ca)"

section \<open>Requests for tenants\<close>

definition requestsForMemberUser :: "informer_cache \<Rightarrow> client_object \<Rightarrow> request list" where
  "requestsForMemberUser ca changed = enqueue resource_key
     (\<lambda>group. list_ex (\<lambda>member. lr_Name member = snd (object_key changed) \<and>
        localObjectRefNamespace (ob_Namespace group) member = fst (object_key changed)) (ugs_Users (ob_Spec group))) (ca_UserGroups ca)"

definition allPolicies :: "informer_cache \<Rightarrow> NiFiPolicy list" where
  "allPolicies ca = (case ca_Policies ca of Inl err \<Rightarrow> [] | Inr items \<Rightarrow> items)"

definition requestsForPolicyCluster :: "informer_cache \<Rightarrow> client_object \<Rightarrow> request list" where
  "requestsForPolicyCluster ca changed = map resource_key (filter
     (\<lambda>policy. cr_Name (pos_ClusterRef (ob_Spec policy)) = snd (object_key changed) \<and>
        clusterRefNamespace (ob_Namespace policy) (pos_ClusterRef (ob_Spec policy)) = fst (object_key changed)) (allPolicies ca))"

definition requestsForPolicyUser :: "informer_cache \<Rightarrow> client_object \<Rightarrow> request list" where
  "requestsForPolicyUser ca changed = map resource_key (filter
     (\<lambda>policy. list_ex (\<lambda>ref. lr_Name ref = snd (object_key changed) \<and>
        localObjectRefNamespace (ob_Namespace policy) ref = fst (object_key changed)) (pos_UserRefs (ob_Spec policy))) (allPolicies ca))"

definition requestsForPolicyUserGroup :: "informer_cache \<Rightarrow> client_object \<Rightarrow> request list" where
  "requestsForPolicyUserGroup ca changed = map resource_key (filter
     (\<lambda>policy. list_ex (\<lambda>ref. lr_Name ref = snd (object_key changed) \<and>
        localObjectRefNamespace (ob_Namespace policy) ref = fst (object_key changed)) (pos_UserGroupRefs (ob_Spec policy))) (allPolicies ca))"

section \<open>The watches of each controller\<close>

definition NiFiRegistryClientReconciler_SetupWithManager :: "informer_cache \<Rightarrow> client_object \<Rightarrow> request list" where
  "NiFiRegistryClientReconciler_SetupWithManager ca changed = (case changed of
      RegistryClientObj d \<Rightarrow> [resource_key d]
    | ClusterObj _ \<Rightarrow> NiFiRegistryClientReconciler_requestsForCluster ca changed
    | _ \<Rightarrow> [])"

definition NiFiParameterContextReconciler_SetupWithManager :: "informer_cache \<Rightarrow> client_object \<Rightarrow> request list" where
  "NiFiParameterContextReconciler_SetupWithManager ca changed = (case changed of
      ParameterContextObj d \<Rightarrow> [resource_key d]
    | ClusterObj _ \<Rightarrow> NiFiParameterContextReconciler_requestsForCluster ca changed
    | _ \<Rightarrow> [])"

definition NiFiUserReconciler_SetupWithManager :: "informer_cache \<Rightarrow> client_object \<Rightarrow> request list" where
  "NiFiUserReconciler_SetupWithManager ca changed = (case changed of
      UserObj d \<Rightarrow> [resource_key d]
    | ClusterObj _ \<Rightarrow> NiFiUserReconciler_requestsForCluster ca changed
    | _ \<Rightarrow> [])"

definition NiFiUserGroupReconciler_SetupWithManager :: "informer_cache \<Rightarrow> client_object \<Rightarrow> request list" where
  "NiFiUserGroupReconciler_SetupWithManager ca changed = (case changed of
      UserGroupObj d \<Rightarrow> [resource_key d]
    | ClusterObj _ \<Rightarrow> NiFiUserGroupReconciler_requestsForCluster ca changed
    | UserObj _ \<Rightarrow> requestsForMemberUser ca changed
    | _ \<Rightarrow> [])"

definition NiFiProcessGroupReconciler_SetupWithManager :: "informer_cache \<Rightarrow> client_object \<Rightarrow> request list" where
  "NiFiProcessGroupReconciler_SetupWithManager ca changed = (case changed of
      ProcessGroupObj d \<Rightarrow> [resource_key d] @ NiFiProcessGroupReconciler_requestsForProcessGroup ca changed
    | ClusterObj _ \<Rightarrow> NiFiProcessGroupReconciler_requestsForCluster ca changed
    | ParameterContextObj _ \<Rightarrow> NiFiProcessGroupReconciler_requestsForParameterContext ca changed
    | _ \<Rightarrow> [])"

definition NiFiControllerServiceReconciler_SetupWithManager :: "informer_cache \<Rightarrow> client_object \<Rightarrow> request list" where
  "NiFiControllerServiceReconciler_SetupWithManager ca changed = (case changed of
      ControllerServiceObj d \<Rightarrow> [resource_key d]
    | ClusterObj _ \<Rightarrow> NiFiControllerServiceReconciler_requestsForCluster ca changed
    | ParameterContextObj _ \<Rightarrow> NiFiControllerServiceReconciler_requestsForParameterContext ca changed
    | ProcessGroupObj _ \<Rightarrow> NiFiControllerServiceReconciler_requestsForProcessGroup ca changed
    | _ \<Rightarrow> [])"

definition NiFiProcessorReconciler_SetupWithManager :: "informer_cache \<Rightarrow> client_object \<Rightarrow> request list" where
  "NiFiProcessorReconciler_SetupWithManager ca changed = (case changed of
      ProcessorObj d \<Rightarrow> [resource_key d]
    | ClusterObj _ \<Rightarrow> NiFiProcessorReconciler_requestsForCluster ca changed
    | ProcessGroupObj _ \<Rightarrow> NiFiProcessorReconciler_requestsForProcessGroup ca changed
    | _ \<Rightarrow> [])"

definition NiFiInputPortReconciler_SetupWithManager :: "informer_cache \<Rightarrow> client_object \<Rightarrow> request list" where
  "NiFiInputPortReconciler_SetupWithManager ca changed = (case changed of
      InputPortObj d \<Rightarrow> [resource_key d]
    | ClusterObj _ \<Rightarrow> NiFiInputPortReconciler_requestsForCluster ca changed
    | ProcessGroupObj _ \<Rightarrow> NiFiInputPortReconciler_requestsForProcessGroup ca changed
    | _ \<Rightarrow> [])"

definition NiFiOutputPortReconciler_SetupWithManager :: "informer_cache \<Rightarrow> client_object \<Rightarrow> request list" where
  "NiFiOutputPortReconciler_SetupWithManager ca changed = (case changed of
      OutputPortObj d \<Rightarrow> [resource_key d]
    | ClusterObj _ \<Rightarrow> NiFiOutputPortReconciler_requestsForCluster ca changed
    | ProcessGroupObj _ \<Rightarrow> NiFiOutputPortReconciler_requestsForProcessGroup ca changed
    | _ \<Rightarrow> [])"

definition NiFiConnectionReconciler_SetupWithManager :: "informer_cache \<Rightarrow> client_object \<Rightarrow> request list" where
  "NiFiConnectionReconciler_SetupWithManager ca changed = (case changed of
      ConnectionObj d \<Rightarrow> [resource_key d]
    | ClusterObj _ \<Rightarrow> NiFiConnectionReconciler_requestsForCluster ca changed
    | ProcessGroupObj _ \<Rightarrow> NiFiConnectionReconciler_requestsForProcessGroup ca changed
    | ProcessorObj _ \<Rightarrow> requestsForProcessor ca changed
    | InputPortObj _ \<Rightarrow> requestsForInputPort ca changed
    | OutputPortObj _ \<Rightarrow> requestsForOutputPort ca changed
    | FunnelObj _ \<Rightarrow> requestsForFunnel ca changed
    | RemoteProcessGroupObj _ \<Rightarrow> requestsForRemoteProcessGroup ca changed
    | _ \<Rightarrow> [])"

definition NiFiReportingTaskReconciler_SetupWithManager :: "informer_cache \<Rightarrow> client_object \<Rightarrow> request list" where
  "NiFiReportingTaskReconciler_SetupWithManager ca changed = (case changed of
      ReportingTaskObj d \<Rightarrow> [resource_key d]
    | ClusterObj _ \<Rightarrow> NiFiReportingTaskReconciler_requestsForCluster ca changed
    | _ \<Rightarrow> [])"

definition NiFiParameterProviderReconciler_SetupWithManager :: "informer_cache \<Rightarrow> client_object \<Rightarrow> request list" where
  "NiFiParameterProviderReconciler_SetupWithManager ca changed = (case changed of
      ParameterProviderObj d \<Rightarrow> [resource_key d]
    | ClusterObj _ \<Rightarrow> NiFiParameterProviderReconciler_requestsForCluster ca changed
    | _ \<Rightarrow> [])"

definition NiFiFunnelReconciler_SetupWithManager :: "informer_cache \<Rightarrow> client_object \<Rightarrow> request list" where
  "NiFiFunnelReconciler_SetupWithManager ca changed = (case changed of
      FunnelObj d \<Rightarrow> [resource_key d]
    | ClusterObj _ \<Rightarrow> NiFiFunnelReconciler_requestsForCluster ca changed
    | ProcessGroupObj _ \<Rightarrow> NiFiFunnelReconciler_requestsForProcessGroup ca changed
    | _ \<Rightarrow> [])"

definition NiFiLabelReconciler_SetupWithManager :: "informer_cache \<Rightarrow> client_object \<Rightarrow> request list" where
  "NiFiLabelReconciler_SetupWithManager ca changed = (case changed of
      LabelObj d \<Rightarrow> [resource_key d]
    | ClusterObj _ \<Rightarrow> NiFiLabelReconciler_requestsForCluster ca changed
    | ProcessGroupObj _ \<Rightarrow> NiFiLabelReconciler_requestsForProcessGroup ca changed
    | _ \<Rightarrow> [])"

definition NiFiRemoteProcessGroupReconciler_SetupWithManager :: "informer_cache \<Rightarrow> client_object \<Rightarrow> request list" where
  "NiFiRemoteProcessGroupReconciler_SetupWithManager ca changed = (case changed of
      RemoteProcessGroupObj d \<Rightarrow> [resource_key d]
    | ClusterObj _ \<Rightarrow> NiFiRemoteProcessGroupReconciler_requestsForCluster ca changed
    | ProcessGroupObj _ \<Rightarrow> NiFiRemoteProcessGroupReconciler_requestsForProcessGroup ca changed
    | _ \<Rightarrow> [])"

definition NiFiPolicyReconciler_SetupWithManager :: "informer_cache \<Rightarrow> client_object \<Rightarrow> request list" where
  "NiFiPolicyReconciler_SetupWithManager ca changed = (case changed of
      PolicyObj d \<Rightarrow> [resource_key d]
    | ClusterObj _ \<Rightarrow> requestsForPolicyCluster ca changed
    | UserObj _ \<Rightarrow> requestsForPolicyUser ca changed
    | UserGroupObj _ \<Rightarrow> requestsForPolicyUserGroup ca changed
    | _ \<Rightarrow> [])"

lemmas setup_defs = NiFiRegistryClientReconciler_SetupWithManager_def NiFiParameterContextReconciler_SetupWithManager_def NiFiUserReconciler_SetupWithManager_def NiFiUserGroupReconciler_SetupWithManager_def NiFiProcessGroupReconciler_SetupWithManager_def NiFiControllerServiceReconciler_SetupWithManager_def NiFiProcessorReconciler_SetupWithManager_def NiFiInputPortReconciler_SetupWithManager_def NiFiOutputPortReconciler_SetupWithManager_def NiFiConnectionReconciler_SetupWithManager_def NiFiReportingTaskReconciler_SetupWithManager_def NiFiParameterProviderReconciler_SetupWithManager_def NiFiFunnelReconciler_SetupWithManager_def NiFiLabelReconciler_SetupWithManager_def NiFiRemoteProcessGroupReconciler_SetupWithManager_def NiFiPolicyReconciler_SetupWithManager_def

end
