(* ===== verification/Watch_Facts.thy ===== *)
theory Watch_Facts
  imports Watches Component_Frame Component_Laws Component_Sample
begin

text \<open>
  Every Kubernetes object that a reconcile reads wakes the resource up again when it changes: the reads of a
  run are followed through the handlers (\<open>minds\<close>, one rule per construct and one per shared frame)
  and compared with the requests of the watches.
\<close>

section \<open>Reads\<close>

definition looks_up :: "('o, 'e) kcall \<Rightarrow> client_object \<Rightarrow> bool" where
  \<comment> \<open>the call asks the Kubernetes API for the object\<close>
  "looks_up c changed = (case c of
      KGetCluster ns n \<Rightarrow> object_key changed = (ns, n) \<and> (case changed of ClusterObj _ \<Rightarrow> True | _ \<Rightarrow> False)
    | KGetParameterContext ns n \<Rightarrow> object_key changed = (ns, n) \<and> (case changed of ParameterContextObj _ \<Rightarrow> True | _ \<Rightarrow> False)
    | KGetProcessGroupObject ns n \<Rightarrow> object_key changed = (ns, n) \<and> (case changed of ProcessGroupObj _ \<Rightarrow> True | _ \<Rightarrow> False)
    | KGetConnectable kind ns n \<Rightarrow> object_key changed = (ns, n) \<and> (case changed of ProcessorObj _ \<Rightarrow> kind = ''Processor''
        | InputPortObj _ \<Rightarrow> kind = ''InputPort'' | OutputPortObj _ \<Rightarrow> kind = ''OutputPort'' | FunnelObj _ \<Rightarrow> kind = ''Funnel'' | _ \<Rightarrow> False)
    | KGetRemoteProcessGroup ns n \<Rightarrow> object_key changed = (ns, n) \<and> (case changed of RemoteProcessGroupObj _ \<Rightarrow> True | _ \<Rightarrow> False)
    | KGetTenant kind ns n \<Rightarrow> object_key changed = (ns, n) \<and> (case changed of UserObj _ \<Rightarrow> kind = ''NiFiUser''
        | UserGroupObj _ \<Rightarrow> kind = ''NiFiUserGroup'' | _ \<Rightarrow> False)
    | KGetSecret ns n \<Rightarrow> changed = SecretObj ns n
    | _ \<Rightarrow> False)"

definition wakes :: "(client_object \<Rightarrow> request list) \<Rightarrow> request \<Rightarrow> ('o, 'e) kcall \<Rightarrow> bool" where
  \<comment> \<open>an event on a named object the call read, other than a Secret, enqueues the resource\<close>
  "wakes watches key c \<longleftrightarrow> (\<forall>changed. looks_up c changed \<and> snd (object_key changed) \<noteq> '''' \<and> (\<forall>ns n. changed \<noteq> SecretObj ns n) \<longrightarrow>
     key \<in> set (watches changed))"

section \<open>Following the reads of a handler\<close>

definition same_spec :: "('sp, 'st) resource \<Rightarrow> ('sp, 'st) resource \<Rightarrow> bool" where
  "same_spec i d \<longleftrightarrow> ob_Spec d = ob_Spec i \<and> ob_Namespace d = ob_Namespace i"

definition minds :: "('sp, 'st) resource \<Rightarrow> ((('sp, 'st) resource, 'e) kcall \<Rightarrow> bool) \<Rightarrow> ('sp, 'st, 'e, 'a) khandler \<Rightarrow> bool" where
  \<comment> \<open>run on an object with the spec of \<open>i\<close>, the handler keeps that spec and makes calls of \<open>P\<close> only\<close>
  "minds i P m \<longleftrightarrow> (\<forall>s. same_spec i (obj s) \<longrightarrow> wp m (\<lambda>_ s'. same_spec i (obj s') \<and> only P s s') s)"

named_theorems minds_intros "one rule per construct of a handler"

lemma minds_bind [minds_intros]:
  fixes m :: "('sp, 'st, 'e, 'a) khandler"
  assumes "minds i P m" "\<And>a. minds i P (f a)" shows "minds i P (State_Monad.bind m f)"
  unfolding minds_def
proof (intro allI impI wp_bindI)
  fix s :: "('sp, 'st, 'e) kstate" assume "same_spec i (obj s)"
  with assms(1) have "wp m (\<lambda>_ s'. same_spec i (obj s') \<and> only P s s') s" by (simp add: minds_def)
  then show "wp m (\<lambda>a. wp (f a) (\<lambda>_ s'. same_spec i (obj s') \<and> only P s s')) s"
  proof (rule wp_mono)
    fix a s1 assume s1: "same_spec i (obj s1) \<and> only P s s1"
    with assms(2) [of a] have "wp (f a) (\<lambda>_ s'. same_spec i (obj s') \<and> only P s1 s') s1" by (simp add: minds_def)
    then show "wp (f a) (\<lambda>_ s'. same_spec i (obj s') \<and> only P s s') s1"
      by (rule wp_mono) (use s1 in \<open>auto intro: within_trans\<close>)
  qed
qed

lemma minds_get: "(\<And>d. ob_Spec d = ob_Spec i \<Longrightarrow> ob_Namespace d = ob_Namespace i \<Longrightarrow> minds i P (f d)) \<Longrightarrow> minds i P (State_Monad.bind get_obj f)"
  unfolding minds_def by (auto intro!: wp_bindI wp_get_objI simp: same_spec_def)

lemma minds_upd [minds_intros]: "(\<And>d. same_spec i (g d) = same_spec i d) \<Longrightarrow> minds i P (upd_obj g)"
  by (simp add: minds_def wp_simps)

lemma minds_ret [minds_intros]: "minds i P (ret a)"
  by (simp add: minds_def wp_simps)

lemma minds_call [minds_intros]: "P c \<Longrightarrow> minds i P (ext_call c r)"
  by (simp add: minds_def wp_simps)

lemma minds_clock [minds_intros]: "minds i P (read_clock clk)"
  by (simp add: minds_def wp_simps)

lemma minds_range [minds_intros]: "minds i P (k_range E ks)"
  by (simp add: minds_def wp_def k_range_def)

lemma minds_if [minds_intros]: "(b \<Longrightarrow> minds i P m) \<Longrightarrow> (\<not> b \<Longrightarrow> minds i P n) \<Longrightarrow> minds i P (if b then m else n)"
  by simp

lemma minds_Let [minds_intros]: "minds i P (f t) \<Longrightarrow> minds i P (Let t f)"
  by simp

lemma minds_case_option [minds_intros]:
  "(x = None \<Longrightarrow> minds i P m) \<Longrightarrow> (\<And>y. x = Some y \<Longrightarrow> minds i P (f y)) \<Longrightarrow> minds i P (case x of None \<Rightarrow> m | Some y \<Rightarrow> f y)"
  by (simp split: option.split)

lemma minds_case_sum [minds_intros]:
  "(\<And>e. x = Inl e \<Longrightarrow> minds i P (f e)) \<Longrightarrow> (\<And>y. x = Inr y \<Longrightarrow> minds i P (g y)) \<Longrightarrow>
   minds i P (case x of Inl e \<Rightarrow> f e | Inr y \<Rightarrow> g y)"
  by (simp split: sum.split)

lemma minds_case_prod [minds_intros]: "(\<And>a b. x = (a, b) \<Longrightarrow> minds i P (f a b)) \<Longrightarrow> minds i P (case x of (a, b) \<Rightarrow> f a b)"
  by (simp split: prod.split)

definition k8s_read :: "('o, 'e) kcall \<Rightarrow> bool" where
  "k8s_read c = (case c of KGetCluster _ _ \<Rightarrow> True | KGetParameterContext _ _ \<Rightarrow> True | KGetProcessGroupObject _ _ \<Rightarrow> True
     | KGetConnectable _ _ _ \<Rightarrow> True | KGetRemoteProcessGroup _ _ \<Rightarrow> True | KGetTenant _ _ _ \<Rightarrow> True | _ \<Rightarrow> False)"

section \<open>The shared code\<close>

text \<open>A set of calls that restricts the reads of other objects only, and what a resource with its references needs of it.\<close>

locale watching =
  fixes P :: "(('sp, 'st) resource, 'e) kcall \<Rightarrow> bool" and i :: "('sp, 'st) resource"
  assumes free: "\<not> k8s_read c \<Longrightarrow> P c"
begin

lemma calls_free [minds_intros]:
  "minds i P (k_now E)" "minds i P (k_Get E n)" "minds i P (k_Create E p e)" "minds i P (k_Update E e)" "minds i P (k_SetRunState E n v st)"
  "minds i P (k_Delete E n v)" "minds i P (k_List E)" "minds i P (k_ListIn E p)" "minds i P (k_event reason message)"
  "minds i P (k_UpdatePort E b g pe)" "minds i P (k_SetPortState E b g n v st)" "minds i P (k_Find E a r)" "minds i P (k_CreateUpdateRequest E n e)"
  "minds i P (k_GetUpdateRequest E n r)" "minds i P (k_Configure E c)" "minds i P (k_GetSecret E ns n)"
  unfolding k_call_defs by (intro minds_intros free; simp add: k8s_read_def)+

lemma calls_object [minds_intros]: "minds i P (k_StatusUpdate E)" "minds i P (k_UpdateObject E)"
  unfolding k_call_defs by (intro minds_get minds_call free; simp add: k8s_read_def)+

lemma reports [minds_intros]:
  "minds i P (mark_resource_not_ready E reason message)" "minds i P (mark_waiting E w)" "minds i P (mark_ready E reason message n v f)"
  "minds i P (report_not_ready E reason message r1 r2)" "minds i P (report_waiting E w)" "minds i P (finish E)"
  unfolding mark_resource_not_ready_def mark_waiting_def mark_ready_def report_not_ready_def report_waiting_def finish_def removeFinalizer_def
  by (intro minds_get minds_intros; simp add: same_spec_def upd_object_finalizers_def)+

lemma settles [minds_intros]: "(\<And>n v. minds i P (mark n v)) \<Longrightarrow> minds i P (settle_ready E matches mark n v)"
  unfolding settle_ready_def by (intro minds_get minds_intros)

lemma in_place [minds_intros]:
  "(\<And>n v. minds i P (mark n v)) \<Longrightarrow> minds i P (update_in_place K E needs desired existing matches mark)"
  unfolding update_in_place_def by (intro minds_intros)

lemma stopped [minds_intros]:
  "(\<And>current. minds i P (continue current)) \<Longrightarrow> minds i P (write_stopped K E running verb stop_state needs desired existing continue)"
  unfolding write_stopped_def by (intro minds_intros)

lemma deletes [minds_intros]:
  "minds i P (delete_tolerant E n v)" "minds i P (remove_stored K E)" "minds i P (remove_current K E running stop_state)"
  "minds i P (remove_recorded E)" "minds i P (remove_strict E)"
  unfolding delete_tolerant_def remove_stored_def remove_current_def remove_recorded_def remove_strict_def
  by (intro minds_get minds_intros)+

lemma finds [minds_intros]:
  "(\<And>e. minds i P (created_path e)) \<Longrightarrow> minds i P (create_component K E p entity created_path)"
  "(\<And>e. minds i P (existing_path e)) \<Longrightarrow> (\<And>e. minds i P (created_path e)) \<Longrightarrow> minds i P (find_or_create K E p entity existing_path created_path)"
  "(\<And>e. minds i P (found_path e)) \<Longrightarrow> minds i P (find_or_recreate K E entity found_path)"
  unfolding create_component_def find_or_create_def find_or_recreate_def
  by (intro minds_get minds_intros; simp)+

lemma secrets [minds_intros]: "minds i P (resolveSecretKey E namespace ref)"
  unfolding resolveSecretKey_def by (intro minds_intros)

lemma each_secret: "minds i P (resolve_each E namespace sources keys properties w)"
  by (induction keys arbitrary: properties w) (auto intro!: minds_intros split: option.split)

lemma sensitive [minds_intros]: "minds i P (resolve_sensitive E namespace sources properties w)"
  unfolding resolve_sensitive_def by (intro minds_intros each_secret)

lemma desired [minds_intros]:
  "minds i P m \<Longrightarrow> (\<And>e. minds i P (continue e)) \<Longrightarrow> minds i P (with_desired E m continue)"
  unfolding with_desired_def by (intro minds_intros)

lemma endpoint [minds_intros]: "minds i P continue \<Longrightarrow> minds i P (with_endpoint E cluster continue)"
  unfolding with_endpoint_def by (intro minds_intros)

lemma run_states [minds_intros]:
  "(\<And>e. minds i P (continue e)) \<Longrightarrow> minds i P (change_state K E verb n current st continue)"
  "minds i P after \<Longrightarrow> minds i P (when_valid E st reason message seconds after)"
  unfolding change_state_def when_valid_def by (intro minds_intros; simp)+

lemma reads_of_others [minds_intros]:
  "P (KGetParameterContext ns n) \<Longrightarrow> minds i P (k_GetParameterContext E ns n)"
  "P (KGetConnectable t ns n) \<Longrightarrow> minds i P (k_GetConnectable E t ns n)"
  "P (KGetRemoteProcessGroup ns n) \<Longrightarrow> minds i P (k_GetRemoteProcessGroup E ns n)"
  "P (KGetTenant t ns n) \<Longrightarrow> minds i P (k_GetTenant E t ns n)"
  unfolding k_call_defs by (rule minds_call; assumption)+

lemma parent_dependency [minds_intros]:
  assumes "\<not> pr_Root ref \<Longrightarrow> pr_Name ref \<noteq> '''' \<Longrightarrow> P (KGetProcessGroupObject (processGroupRefNamespace namespace ref) (pr_Name ref))"
  shows "minds i P (processGroupReferenceDependencyWaitingFor (k_GetProcessGroupObject E) namespace ref)"
  unfolding processGroupReferenceDependencyWaitingFor_def k_call_defs by (intro minds_intros) (use assms in auto)

lemma context_dependency [minds_intros]:
  assumes "\<And>r. ref = Some r \<Longrightarrow> P (KGetParameterContext (localObjectRefNamespace namespace r) (lr_Name r))"
  shows "minds i P (parameterContextDependencyWaitingFor (k_GetParameterContext E) namespace ref path)"
  unfolding parameterContextDependencyWaitingFor_def k_call_defs by (intro minds_intros) (use assms in auto)

lemma parent [minds_intros]:
  assumes "\<not> pr_Root ref \<Longrightarrow> pr_Name ref \<noteq> '''' \<Longrightarrow> P (KGetProcessGroupObject (processGroupRefNamespace (ob_Namespace i) ref) (pr_Name ref))"
    and "\<And>parentID. minds i P (continue parentID)"
  shows "minds i P (with_parent E cluster ref continue)"
  unfolding with_parent_def processGroupParentID_def k_call_defs by (intro minds_get minds_intros) (use assms in auto)

lemma cluster_read [minds_intros]:
  assumes "cr_Name ref \<noteq> '''' \<Longrightarrow> P (KGetCluster (clusterRefNamespace namespace ref) (cr_Name ref))"
  shows "minds i P (readyClusterForReference (k_GetCluster E) (k_Configure E) cl_Ready namespace ref)"
    "minds i P (clusterForDeletion (k_GetCluster E) (k_Configure E) cl_Ready cl_Deleting namespace ref)"
  unfolding readyClusterForReference_def clusterDependency_def clusterForDeletion_def k_GetCluster_def
  by (intro minds_intros; use assms in simp)+

lemma deletion [minds_intros]:
  assumes "cr_Name (kd_ClusterRef K (ob_Spec i)) \<noteq> '''' \<Longrightarrow>
      P (KGetCluster (clusterRefNamespace (ob_Namespace i) (kd_ClusterRef K (ob_Spec i))) (cr_Name (kd_ClusterRef K (ob_Spec i))))"
    and "minds i P remove"
  shows "minds i P (delete_frame K E remove)"
  unfolding delete_frame_def by (intro minds_get minds_intros) (use assms in auto)

lemma reconcile_reads:
  assumes "ke_GetObject E (calls s) = Inr i"
    and cl: "cr_Name (kd_ClusterRef K (ob_Spec i)) \<noteq> '''' \<Longrightarrow>
      P (KGetCluster (clusterRefNamespace (ob_Namespace i) (kd_ClusterRef K (ob_Spec i))) (cr_Name (kd_ClusterRef K (ob_Spec i))))"
    and parts: "minds i P delete" "minds i P dependencies" "\<And>c. minds i P (continue c)"
  shows "wp (with_ready_cluster K E delete dependencies continue) (\<lambda>_ s'. only P s s') s"
proof -
  let ?s = "s\<lparr>calls := calls s @ [KGetObject], obj := i\<rparr>"
  have f: "minds i P (ensureFinalizer ob_Finalizers upd_object_finalizers (k_UpdateObject E))"
    unfolding ensureFinalizer_def by (intro minds_get minds_intros) (simp add: same_spec_def upd_object_finalizers_def)
  have "minds i P (if ob_Deleting i then delete else State_Monad.bind (ensureFinalizer ob_Finalizers upd_object_finalizers (k_UpdateObject E))
      (\<lambda>f. if snd f \<noteq> None \<or> fst f then ret (no_result, snd f)
           else State_Monad.bind (readyClusterForReference (k_GetCluster E) (k_Configure E) cl_Ready (ob_Namespace i) (kd_ClusterRef K (ob_Spec i)))
             (\<lambda>c. case c of Inl err \<Rightarrow> ret (no_result, Some err)
              | Inr (cluster, clusterWaiting) \<Rightarrow> State_Monad.bind dependencies (\<lambda>dependencies.
                  let waitingFor = clusterWaiting @ dependencies in
                  if waitingFor \<noteq> [] then report_waiting E waitingFor
                  else (case cluster of None \<Rightarrow> ret (no_result, Some (errorf ''invalid memory address or nil pointer dereference''))
                        | Some cluster \<Rightarrow> continue cluster)))))" (is "minds i P ?m")
    by (intro f parts minds_intros cl)
  then have "wp ?m (\<lambda>_ s'. only P ?s s') ?s"
    unfolding minds_def by (rule allE [of _ ?s]) (auto simp: same_spec_def elim!: wp_mono)
  moreover have "P KGetObject" by (rule free) (simp add: k8s_read_def)
  then have "only P s s'" if "only P ?s s'" for s' :: "('sp, 'st, 'e) kstate"
    using that by (auto simp: within_def)
  ultimately show ?thesis
    unfolding with_ready_cluster_def k_GetObject_def
    by (simp add: wp_simps assms(1) Let_def) (auto simp: wp_bind elim!: wp_mono)
qed

end

section \<open>Requests\<close>

definition cached :: "('sp, 'st) resource list go_result \<Rightarrow> ('sp, 'st) resource \<Rightarrow> bool" where
  \<comment> \<open>the cache holds the resource with its spec\<close>
  "cached list i \<longleftrightarrow> (case list of Inl err \<Rightarrow> False | Inr items \<Rightarrow> \<exists>d \<in> set items. resource_key d = resource_key i \<and> ob_Spec d = ob_Spec i)"

definition woken_by_reads ::
  "('sp, 'st, 'e) renv \<Rightarrow> ('sp, 'st, 'e, outcome) khandler \<Rightarrow> (client_object \<Rightarrow> request list) \<Rightarrow> ('sp, 'st) resource list go_result \<Rightarrow> bool" where
  \<comment> \<open>every object that a run of the reconcile \<open>m\<close> on a cached resource reads wakes that resource\<close>
  "woken_by_reads E m watches list \<longleftrightarrow>
     (\<forall>i s r s'. ke_GetObject E (calls s) = Inr i \<and> cached list i \<and> run_state m s = (r, s') \<longrightarrow>
        (\<forall>c \<in> set (new_calls s s'). wakes watches (resource_key i) c))"

lemma enqueued_where:
  assumes "cached list i" "\<And>d. ob_Spec d = ob_Spec i \<Longrightarrow> ob_Namespace d = ob_Namespace i \<Longrightarrow> matches d"
  shows "resource_key i \<in> set (enqueue resource_key matches list)"
proof (cases list)
  case (Inr items)
  with assms(1) obtain d where d: "d \<in> set items" "resource_key d = resource_key i" "ob_Spec d = ob_Spec i" by (auto simp: cached_def)
  moreover from d have "matches d" by (intro assms(2)) (simp_all add: resource_key_def)
  ultimately show ?thesis by (force simp: Inr enqueue_def simp flip: d(2))
qed (use assms(1) in \<open>simp add: cached_def\<close>)

lemma enqueued_for_cluster:
  assumes "cached list i" "\<And>d. index (mk d) = indexClusterRef (ob_Namespace d) (ref (ob_Spec d))"
    and "object_key changed = (clusterRefNamespace (ob_Namespace i) (ref (ob_Spec i)), cr_Name (ref (ob_Spec i)))" "cr_Name (ref (ob_Spec i)) \<noteq> ''''"
  shows "resource_key i \<in> set (enqueue resource_key (\<lambda>_. True) (listByClusterRef index mk changed list))"
proof (cases list)
  case (Inr items)
  with assms(1) obtain d where d: "d \<in> set items" "resource_key d = resource_key i" "ob_Spec d = ob_Spec i" by (auto simp: cached_def)
  moreover from d have "ob_Namespace d = ob_Namespace i" by (simp add: resource_key_def)
  ultimately show ?thesis using assms(3,4)
    by (auto simp: Inr enqueue_def listByClusterRef_def assms(2) indexClusterRef_def clusterRefIndexValue_def simp flip: d(2))
qed (use assms(1) in \<open>simp add: cached_def\<close>)

lemma woken_from_frame:
  fixes E :: "('sp, 'st, 'e) renv"
  assumes "\<And>i s. cached list i \<Longrightarrow> ke_GetObject E (calls s) = Inr i \<Longrightarrow> wp m (\<lambda>_ s'. only (wakes watches (resource_key i)) s s') s"
  shows "woken_by_reads E m watches list"
  unfolding woken_by_reads_def
  by (auto dest!: assms wp_run simp: only_set)

interpretation woken: watching "wakes watches key" i for watches key i
  by unfold_locales (auto simp: wakes_def looks_up_def k8s_read_def split: kcall.splits)

lemma woken_by_frame:
  fixes E :: "('sp, 'st, 'e) renv"
  assumes "\<And>i. cached list i \<Longrightarrow> cr_Name (kd_ClusterRef K (ob_Spec i)) \<noteq> '''' \<Longrightarrow> wakes watches (resource_key i)
      (KGetCluster (clusterRefNamespace (ob_Namespace i) (kd_ClusterRef K (ob_Spec i))) (cr_Name (kd_ClusterRef K (ob_Spec i))) :: (('sp, 'st) resource, 'e) kcall)"
    and "\<And>i. cached list i \<Longrightarrow> minds i (wakes watches (resource_key i)) delete"
    and "\<And>i. cached list i \<Longrightarrow> minds i (wakes watches (resource_key i)) dependencies"
    and "\<And>i cluster. cached list i \<Longrightarrow> minds i (wakes watches (resource_key i)) (continue cluster)"
  shows "woken_by_reads E (with_ready_cluster K E delete dependencies continue) watches list"
  by (rule woken_from_frame, rule woken.reconcile_reads) (assumption | rule assms)+

text \<open>
  The contract between a reference of a resource and the watch for it, one locale for each kind of reference:
  an event on the object that the reference names enqueues the resource.
\<close>

locale cluster_watched =
  fixes watches :: "client_object \<Rightarrow> request list" and list :: "('sp, 'st) resource list go_result"
    and index :: "client_object \<Rightarrow> string list" and mk :: "('sp, 'st) resource \<Rightarrow> client_object" and ref :: "'sp \<Rightarrow> ClusterReference"
  assumes indexed: "index (mk d) = indexClusterRef (ob_Namespace d) (ref (ob_Spec d))"
    and listed: "watches (ClusterObj c) = enqueue resource_key (\<lambda>_. True) (listByClusterRef index mk (ClusterObj c) list)"
begin

lemma wakes_cluster:
  "cached list i \<Longrightarrow> cr_Name (ref (ob_Spec i)) \<noteq> '''' \<Longrightarrow>
   wakes watches (resource_key i) (KGetCluster (clusterRefNamespace (ob_Namespace i) (ref (ob_Spec i))) (cr_Name (ref (ob_Spec i))))"
  unfolding wakes_def looks_up_def
  by (auto split: client_object.splits simp: listed intro!: enqueued_for_cluster [where ref = ref] simp: indexed)

end

locale parent_watched =
  fixes watches :: "client_object \<Rightarrow> request list" and list :: "('sp, 'st) resource list go_result" and ref :: "'sp \<Rightarrow> ProcessGroupReference"
  assumes listed: "set (enqueue resource_key (\<lambda>item. processGroupReferenceMatches (ob_Namespace item) (ref (ob_Spec item)) (ProcessGroupObj d)) list)
      \<subseteq> set (watches (ProcessGroupObj d))"
begin

lemma wakes_parent:
  "cached list i \<Longrightarrow> \<not> pr_Root (ref (ob_Spec i)) \<Longrightarrow> pr_Name (ref (ob_Spec i)) \<noteq> '''' \<Longrightarrow>
   wakes watches (resource_key i) (KGetProcessGroupObject (processGroupRefNamespace (ob_Namespace i) (ref (ob_Spec i))) (pr_Name (ref (ob_Spec i))))"
  unfolding wakes_def looks_up_def
  by (auto split: client_object.splits intro!: subsetD [OF listed] enqueued_where simp: processGroupReferenceMatches_def)

end

locale context_watched =
  fixes watches :: "client_object \<Rightarrow> request list" and list :: "('sp, 'st) resource list go_result" and ref :: "'sp \<Rightarrow> LocalObjectReference option"
  assumes listed: "watches (ParameterContextObj d) =
      enqueue resource_key (\<lambda>item. optional_reference_matches (ob_Namespace item) (ref (ob_Spec item)) (ParameterContextObj d)) list"
begin

lemma wakes_context:
  "cached list i \<Longrightarrow> ref (ob_Spec i) = Some r \<Longrightarrow>
   wakes watches (resource_key i) (KGetParameterContext (localObjectRefNamespace (ob_Namespace i) r) (lr_Name r))"
  unfolding wakes_def looks_up_def
  by (auto split: client_object.splits intro!: enqueued_where simp: optional_reference_matches_def localObjectReferenceMatches_def listed)

end

section \<open>Each controller\<close>

interpretation funnel_cluster: cluster_watched "NiFiFunnelReconciler_SetupWithManager ca" "ca_Funnels ca" indexFunnelClusterRef FunnelObj fus_ClusterRef for ca
  by unfold_locales (simp_all add: indexFunnelClusterRef_def NiFiFunnelReconciler_requestsForCluster_def NiFiFunnelReconciler_SetupWithManager_def)

interpretation funnel_parent: parent_watched "NiFiFunnelReconciler_SetupWithManager ca" "ca_Funnels ca" fus_ParentProcessGroupRef for ca
  by unfold_locales (auto simp: NiFiFunnelReconciler_requestsForProcessGroup_def NiFiFunnelReconciler_SetupWithManager_def)

lemma funnel_woken: "woken_by_reads E (NiFiFunnelReconciler_Reconcile E) (NiFiFunnelReconciler_SetupWithManager ca) (ca_Funnels ca)"
  unfolding NiFiFunnelReconciler_Reconcile_def reconcileFunnelDelete_def funnelDependenciesWaitingFor_def reconcileExistingFunnel_def markFunnelReady_def
  by (intro woken_by_frame minds_get minds_intros)
     (auto simp: funnel_kind_def intro!: minds_intros intro: funnel_cluster.wakes_cluster funnel_parent.wakes_parent)

interpretation label_cluster: cluster_watched "NiFiLabelReconciler_SetupWithManager ca" "ca_Labels ca" indexLabelClusterRef LabelObj las_ClusterRef for ca
  by unfold_locales (simp_all add: indexLabelClusterRef_def NiFiLabelReconciler_requestsForCluster_def NiFiLabelReconciler_SetupWithManager_def)

interpretation label_parent: parent_watched "NiFiLabelReconciler_SetupWithManager ca" "ca_Labels ca" las_ParentProcessGroupRef for ca
  by unfold_locales (auto simp: NiFiLabelReconciler_requestsForProcessGroup_def NiFiLabelReconciler_SetupWithManager_def)

lemma label_woken: "woken_by_reads E (NiFiLabelReconciler_Reconcile E) (NiFiLabelReconciler_SetupWithManager ca) (ca_Labels ca)"
  unfolding NiFiLabelReconciler_Reconcile_def reconcileLabelDelete_def labelDependenciesWaitingFor_def reconcileExistingLabel_def markLabelReady_def
  by (intro woken_by_frame minds_get minds_intros)
     (auto simp: label_kind_def intro!: minds_intros intro: label_cluster.wakes_cluster label_parent.wakes_parent)

interpretation process_group_cluster: cluster_watched "NiFiProcessGroupReconciler_SetupWithManager ca" "ca_ProcessGroups ca" indexProcessGroupClusterRef ProcessGroupObj pgs_ClusterRef for ca
  by unfold_locales (simp_all add: indexProcessGroupClusterRef_def NiFiProcessGroupReconciler_requestsForCluster_def NiFiProcessGroupReconciler_SetupWithManager_def)

interpretation process_group_parent: parent_watched "NiFiProcessGroupReconciler_SetupWithManager ca" "ca_ProcessGroups ca" pgs_ParentProcessGroupRef for ca
  by unfold_locales (auto simp: NiFiProcessGroupReconciler_requestsForProcessGroup_def NiFiProcessGroupReconciler_SetupWithManager_def)

interpretation process_group_context: context_watched "NiFiProcessGroupReconciler_SetupWithManager ca" "ca_ProcessGroups ca" pgs_ParameterContextRef for ca
  by unfold_locales (simp add: NiFiProcessGroupReconciler_requestsForParameterContext_def NiFiProcessGroupReconciler_SetupWithManager_def)

lemma process_group_woken: "woken_by_reads E (NiFiProcessGroupReconciler_Reconcile E) (NiFiProcessGroupReconciler_SetupWithManager ca) (ca_ProcessGroups ca)"
  unfolding NiFiProcessGroupReconciler_Reconcile_def reconcileProcessGroupDelete_def processGroupDependenciesWaitingFor_def reconcileExistingProcessGroup_def markProcessGroupReady_def desiredProcessGroup_def
  by (intro woken_by_frame minds_get minds_intros)
     (auto simp: process_group_kind_def intro!: minds_intros intro: process_group_cluster.wakes_cluster process_group_parent.wakes_parent process_group_context.wakes_context)

interpretation processor_cluster: cluster_watched "NiFiProcessorReconciler_SetupWithManager ca" "ca_Processors ca" indexProcessorClusterRef ProcessorObj prs_ClusterRef for ca
  by unfold_locales (simp_all add: indexProcessorClusterRef_def NiFiProcessorReconciler_requestsForCluster_def NiFiProcessorReconciler_SetupWithManager_def)

interpretation processor_parent: parent_watched "NiFiProcessorReconciler_SetupWithManager ca" "ca_Processors ca" prs_ParentProcessGroupRef for ca
  by unfold_locales (auto simp: NiFiProcessorReconciler_requestsForProcessGroup_def NiFiProcessorReconciler_SetupWithManager_def)

lemma processor_woken: "woken_by_reads E (NiFiProcessorReconciler_Reconcile E) (NiFiProcessorReconciler_SetupWithManager ca) (ca_Processors ca)"
  unfolding NiFiProcessorReconciler_Reconcile_def reconcileProcessorDelete_def processorDependenciesWaitingFor_def reconcileExistingProcessor_def run_processor_def settle_processor_def markProcessorReady_def
  by (intro woken_by_frame minds_get minds_intros)
     (auto simp: processor_kind_def intro!: minds_intros intro: processor_cluster.wakes_cluster processor_parent.wakes_parent)

interpretation input_port_cluster: cluster_watched "NiFiInputPortReconciler_SetupWithManager ca" "ca_InputPorts ca" indexInputPortClusterRef InputPortObj pts_ClusterRef for ca
  by unfold_locales (simp_all add: indexInputPortClusterRef_def NiFiInputPortReconciler_requestsForCluster_def NiFiInputPortReconciler_SetupWithManager_def)

interpretation input_port_parent: parent_watched "NiFiInputPortReconciler_SetupWithManager ca" "ca_InputPorts ca" pts_ParentProcessGroupRef for ca
  by unfold_locales (auto simp: NiFiInputPortReconciler_requestsForProcessGroup_def NiFiInputPortReconciler_SetupWithManager_def)

lemma input_port_woken: "woken_by_reads E (NiFiInputPortReconciler_Reconcile E) (NiFiInputPortReconciler_SetupWithManager ca) (ca_InputPorts ca)"
  unfolding NiFiInputPortReconciler_Reconcile_def reconcile_port_def reconcileInputPortDelete_def inputPortDependenciesWaitingFor_def port_dependencies_def reconcileExistingInputPort_def reconcile_existing_port_def reconcilePortRunState_def markInputPortReady_def mark_port_ready_def
  by (intro woken_by_frame minds_get minds_intros)
     (auto simp: port_kind_def intro!: minds_intros intro: input_port_cluster.wakes_cluster input_port_parent.wakes_parent)

interpretation output_port_cluster: cluster_watched "NiFiOutputPortReconciler_SetupWithManager ca" "ca_OutputPorts ca" indexOutputPortClusterRef OutputPortObj pts_ClusterRef for ca
  by unfold_locales (simp_all add: indexOutputPortClusterRef_def NiFiOutputPortReconciler_requestsForCluster_def NiFiOutputPortReconciler_SetupWithManager_def)

interpretation output_port_parent: parent_watched "NiFiOutputPortReconciler_SetupWithManager ca" "ca_OutputPorts ca" pts_ParentProcessGroupRef for ca
  by unfold_locales (auto simp: NiFiOutputPortReconciler_requestsForProcessGroup_def NiFiOutputPortReconciler_SetupWithManager_def)

lemma output_port_woken: "woken_by_reads E (NiFiOutputPortReconciler_Reconcile E) (NiFiOutputPortReconciler_SetupWithManager ca) (ca_OutputPorts ca)"
  unfolding NiFiOutputPortReconciler_Reconcile_def reconcile_port_def reconcileOutputPortDelete_def outputPortDependenciesWaitingFor_def port_dependencies_def reconcileExistingOutputPort_def reconcile_existing_port_def reconcilePortRunState_def markOutputPortReady_def mark_port_ready_def
  by (intro woken_by_frame minds_get minds_intros)
     (auto simp: port_kind_def intro!: minds_intros intro: output_port_cluster.wakes_cluster output_port_parent.wakes_parent)

interpretation service_cluster: cluster_watched "NiFiControllerServiceReconciler_SetupWithManager ca" "ca_ControllerServices ca" indexControllerServiceClusterRef ControllerServiceObj css_ClusterRef for ca
  by unfold_locales (simp_all add: indexControllerServiceClusterRef_def NiFiControllerServiceReconciler_requestsForCluster_def NiFiControllerServiceReconciler_SetupWithManager_def)

interpretation service_parent: parent_watched "NiFiControllerServiceReconciler_SetupWithManager ca" "ca_ControllerServices ca" css_ParentProcessGroupRef for ca
  by unfold_locales (auto simp: NiFiControllerServiceReconciler_requestsForProcessGroup_def NiFiControllerServiceReconciler_SetupWithManager_def)

interpretation service_context: context_watched "NiFiControllerServiceReconciler_SetupWithManager ca" "ca_ControllerServices ca" css_ParameterContextRef for ca
  by unfold_locales (simp add: NiFiControllerServiceReconciler_requestsForParameterContext_def NiFiControllerServiceReconciler_SetupWithManager_def)

lemma service_woken: "woken_by_reads E (NiFiControllerServiceReconciler_Reconcile E) (NiFiControllerServiceReconciler_SetupWithManager ca) (ca_ControllerServices ca)"
  unfolding NiFiControllerServiceReconciler_Reconcile_def reconcileControllerServiceDelete_def controllerServiceDependenciesWaitingFor_def reconcileExistingControllerService_def desiredControllerService_def markControllerServiceReady_def
  by (intro woken_by_frame minds_get minds_intros)
     (auto simp: controller_service_kind_def intro!: minds_intros intro: service_cluster.wakes_cluster service_parent.wakes_parent service_context.wakes_context)

interpretation task_cluster: cluster_watched "NiFiReportingTaskReconciler_SetupWithManager ca" "ca_ReportingTasks ca" indexReportingTaskClusterRef ReportingTaskObj rts_ClusterRef for ca
  by unfold_locales (simp_all add: indexReportingTaskClusterRef_def NiFiReportingTaskReconciler_requestsForCluster_def NiFiReportingTaskReconciler_SetupWithManager_def)

lemma task_woken: "woken_by_reads E (NiFiReportingTaskReconciler_Reconcile E) (NiFiReportingTaskReconciler_SetupWithManager ca) (ca_ReportingTasks ca)"
  unfolding NiFiReportingTaskReconciler_Reconcile_def reconcileReportingTaskDelete_def reconcileExistingReportingTask_def desiredReportingTask_def markReportingTaskReady_def
  by (intro woken_by_frame minds_get minds_intros)
     (auto simp: reporting_task_kind_def intro!: minds_intros intro: task_cluster.wakes_cluster)

interpretation provider_cluster: cluster_watched "NiFiParameterProviderReconciler_SetupWithManager ca" "ca_ParameterProviders ca" indexParameterProviderClusterRef ParameterProviderObj pps_ClusterRef for ca
  by unfold_locales (simp_all add: indexParameterProviderClusterRef_def NiFiParameterProviderReconciler_requestsForCluster_def NiFiParameterProviderReconciler_SetupWithManager_def)

lemma provider_woken: "woken_by_reads E (NiFiParameterProviderReconciler_Reconcile E) (NiFiParameterProviderReconciler_SetupWithManager ca) (ca_ParameterProviders ca)"
  unfolding NiFiParameterProviderReconciler_Reconcile_def reconcileParameterProviderDelete_def reconcileExistingParameterProvider_def desiredParameterProvider_def markParameterProviderReady_def
  by (intro woken_by_frame minds_get minds_intros)
     (auto simp: parameter_provider_kind_def intro!: minds_intros intro: provider_cluster.wakes_cluster)

interpretation registry_cluster: cluster_watched "NiFiRegistryClientReconciler_SetupWithManager ca" "ca_RegistryClients ca" indexRegistryClientClusterRef RegistryClientObj rcs_ClusterRef for ca
  by unfold_locales (simp_all add: indexRegistryClientClusterRef_def NiFiRegistryClientReconciler_requestsForCluster_def NiFiRegistryClientReconciler_SetupWithManager_def)

lemma registry_woken: "woken_by_reads E (NiFiRegistryClientReconciler_Reconcile E) (NiFiRegistryClientReconciler_SetupWithManager ca) (ca_RegistryClients ca)"
  unfolding NiFiRegistryClientReconciler_Reconcile_def reconcileRegistryClientDelete_def reconcileExistingRegistryClient_def desiredRegistryClient_def typed_properties_def with_token_def markRegistryClientReady_def
  by (intro woken_by_frame minds_get minds_intros)
     (auto simp: registry_client_kind_def intro!: minds_intros intro: registry_cluster.wakes_cluster)

interpretation connection_cluster: cluster_watched "NiFiConnectionReconciler_SetupWithManager ca" "ca_Connections ca" indexConnectionClusterRef ConnectionObj cos_ClusterRef for ca
  by unfold_locales (simp_all add: indexConnectionClusterRef_def NiFiConnectionReconciler_requestsForCluster_def NiFiConnectionReconciler_SetupWithManager_def)

interpretation connection_parent: parent_watched "NiFiConnectionReconciler_SetupWithManager ca" "ca_Connections ca" cos_ParentProcessGroupRef for ca
  by unfold_locales (auto simp: NiFiConnectionReconciler_requestsForProcessGroup_def NiFiConnectionReconciler_SetupWithManager_def)

lemma connectable_enqueued:
  assumes "cached (ca_Connections ca) i" "ref = cos_Source (ob_Spec i) \<or> ref = cos_Destination (ob_Spec i)" "cnr_Name ref \<noteq> ''''"
    and "object_key changed = (connectableRefNamespace (ob_Namespace i) ref, cnr_Name ref)"
  shows "resource_key i \<in> set (requestsForConnectable ca changed (cnr_Type ref))"
    "is_remote_port (cnr_Type ref) \<Longrightarrow> resource_key i \<in> set (requestsForRemoteProcessGroup ca changed)"
proof -
  have m: "connectableReferenceMatches (ob_Namespace i) ref t changed" if "cnr_Type ref = t" for t
    using assms(3,4) that by (simp add: connectableReferenceMatches_def)
  show "resource_key i \<in> set (requestsForConnectable ca changed (cnr_Type ref))"
    unfolding requestsForConnectable_def
    by (rule enqueued_where [OF assms(1)]) (use assms(2) m [OF refl] in \<open>elim disjE; simp\<close>)
  show "resource_key i \<in> set (requestsForRemoteProcessGroup ca changed)" if "is_remote_port (cnr_Type ref)"
    unfolding requestsForRemoteProcessGroup_def
    by (rule enqueued_where [OF assms(1)]) (use assms(2) m that in \<open>unfold is_remote_port_def, elim disjE; simp\<close>)
qed

lemma connectable_wakes:
  assumes "cached (ca_Connections ca) i" "ref = cos_Source (ob_Spec i) \<or> ref = cos_Destination (ob_Spec i)" "cnr_Name ref \<noteq> ''''"
  shows "wakes (NiFiConnectionReconciler_SetupWithManager ca) (resource_key i)
      (KGetConnectable (cnr_Type ref) (connectableRefNamespace (ob_Namespace i) ref) (cnr_Name ref))"
    "is_remote_port (cnr_Type ref) \<Longrightarrow> wakes (NiFiConnectionReconciler_SetupWithManager ca) (resource_key i)
      (KGetRemoteProcessGroup (connectableRefNamespace (ob_Namespace i) ref) (cnr_Name ref))"
proof -
  note e = connectable_enqueued [OF assms]
  have "resource_key i \<in> set (NiFiConnectionReconciler_SetupWithManager ca changed)"
    if "looks_up (KGetConnectable (cnr_Type ref) (connectableRefNamespace (ob_Namespace i) ref) (cnr_Name ref)) changed" for changed
    using that e(1) [of changed]
    by (cases changed) (simp_all add: looks_up_def NiFiConnectionReconciler_SetupWithManager_def requestsForProcessor_def requestsForInputPort_def
        requestsForOutputPort_def requestsForFunnel_def)
  then show "wakes (NiFiConnectionReconciler_SetupWithManager ca) (resource_key i)
      (KGetConnectable (cnr_Type ref) (connectableRefNamespace (ob_Namespace i) ref) (cnr_Name ref))" by (auto simp: wakes_def)
  show "wakes (NiFiConnectionReconciler_SetupWithManager ca) (resource_key i)
      (KGetRemoteProcessGroup (connectableRefNamespace (ob_Namespace i) ref) (cnr_Name ref))" if "is_remote_port (cnr_Type ref)"
    unfolding wakes_def looks_up_def using e(2) that by (auto simp: NiFiConnectionReconciler_SetupWithManager_def split: client_object.splits)
qed

lemma minds_connectable [minds_intros]:
  assumes "cached (ca_Connections ca) i" "ref = cos_Source (ob_Spec i) \<or> ref = cos_Destination (ob_Spec i)"
  shows "minds i (wakes (NiFiConnectionReconciler_SetupWithManager ca) (resource_key i)) (connectableReferenceDependencyWaitingFor E (ob_Namespace i) ref path)"
    "minds i (wakes (NiFiConnectionReconciler_SetupWithManager ca) (resource_key i)) (nifiConnectable E (ob_Namespace i) ref parentID)"
  unfolding connectableReferenceDependencyWaitingFor_def nifiConnectable_def
  by (intro minds_intros connectable_wakes assms; assumption)+

lemma connection_woken: "woken_by_reads E (NiFiConnectionReconciler_Reconcile E) (NiFiConnectionReconciler_SetupWithManager ca) (ca_Connections ca)"
  unfolding NiFiConnectionReconciler_Reconcile_def reconcileConnectionDelete_def connectionDependenciesWaitingFor_def reconcileExistingConnection_def markConnectionReady_def desiredConnection_def
  by (intro woken_by_frame minds_get minds_intros)
     (auto simp: connection_kind_def intro!: minds_intros intro: connection_cluster.wakes_cluster connection_parent.wakes_parent)

interpretation context_cluster: cluster_watched "NiFiParameterContextReconciler_SetupWithManager ca" "ca_ParameterContexts ca" indexParameterContextClusterRef ParameterContextObj pcs_ClusterRef for ca
  by unfold_locales (simp_all add: indexParameterContextClusterRef_def NiFiParameterContextReconciler_requestsForCluster_def NiFiParameterContextReconciler_SetupWithManager_def)

interpretation user_cluster: cluster_watched "NiFiUserReconciler_SetupWithManager ca" "ca_Users ca" indexUserClusterRef UserObj uss_ClusterRef for ca
  by unfold_locales (simp_all add: indexUserClusterRef_def NiFiUserReconciler_requestsForCluster_def NiFiUserReconciler_SetupWithManager_def)

interpretation user_group_cluster: cluster_watched "NiFiUserGroupReconciler_SetupWithManager ca" "ca_UserGroups ca" indexUserGroupClusterRef UserGroupObj ugs_ClusterRef for ca
  by unfold_locales (simp_all add: indexUserGroupClusterRef_def NiFiUserGroupReconciler_requestsForCluster_def NiFiUserGroupReconciler_SetupWithManager_def)

lemma minds_parameters [minds_intros]: "minds i (wakes watches key) (resolve_parameters E namespace declared parameters w)"
  by (induction declared arbitrary: parameters w) (auto intro!: minds_intros split: option.split)

lemma context_woken: "woken_by_reads E (NiFiParameterContextReconciler_Reconcile E) (NiFiParameterContextReconciler_SetupWithManager ca) (ca_ParameterContexts ca)"
  unfolding NiFiParameterContextReconciler_Reconcile_def reconcileParameterContextDelete_def desiredParameterContext_def reconcile_listed_def read_full_def reconcileExistingParameterContext_def follow_request_def markParameterContextUpdateRunning_def markParameterContextReadyFromNiFi_def markParameterContextReady_def
  by (intro woken_by_frame minds_get minds_intros)
     (auto simp: parameter_context_kind_def set_request_def same_spec_def intro!: minds_intros intro: context_cluster.wakes_cluster)

section \<open>Tenants\<close>

lemma minds_find_tenant [minds_intros]:
  "(\<And>e. minds i (wakes watches key) (mark e)) \<Longrightarrow> minds i (wakes watches key) (create_tenant K E entity mark)"
  "(\<And>e. minds i (wakes watches key) (path e)) \<Longrightarrow> minds i (wakes watches key) alternative \<Longrightarrow> minds i (wakes watches key) (find_recorded K E path alternative)"
  "(\<And>e. minds i (wakes watches key) (path e)) \<Longrightarrow> minds i (wakes watches key) alternative \<Longrightarrow> minds i (wakes watches key) (find_listed K E pick path alternative)"
  unfolding create_tenant_def find_recorded_def find_listed_def by (intro minds_get minds_intros; simp)+

lemma user_woken: "woken_by_reads E (NiFiUserReconciler_Reconcile E) (NiFiUserReconciler_SetupWithManager ca) (ca_Users ca)"
  unfolding NiFiUserReconciler_Reconcile_def reconcileUserDelete_def reconcileExistingUser_def markUserReady_def
  by (intro woken_by_frame minds_get minds_intros)
     (auto simp: user_kind_def intro!: minds_intros intro: user_cluster.wakes_cluster)

lemma minds_members [minds_intros]:
  assumes "\<And>member. member \<in> set members \<Longrightarrow>
      wakes watches key (KGetTenant ''NiFiUser'' (localObjectRefNamespace namespace member) (lr_Name member) :: ((NiFiUserGroupSpec, NiFiUserGroupStatus) resource, UserGroupEntity) kcall)"
  shows "minds i (wakes watches key) (member_dependencies E namespace members)"
    "minds i (wakes watches key) (member_mismatch E namespace groupCluster members)"
  using assms by (induction members) (auto intro!: minds_intros)

lemma minds_tenant_ids [minds_intros]:
  fixes E :: "('sp, 'st, 'e) renv"
  assumes "\<And>ref. ref \<in> set refs \<Longrightarrow>
      wakes watches key (KGetTenant kind (localObjectRefNamespace namespace ref) (lr_Name ref) :: (('sp, 'st) resource, 'e) kcall)"
  shows "minds i (wakes watches key) (tenant_ids E kind namespace refs)"
  using assms by (induction refs) (auto intro!: minds_intros)

lemma member_wakes:
  assumes "cached (ca_UserGroups ca) i" "member \<in> set (ugs_Users (ob_Spec i))"
  shows "wakes (NiFiUserGroupReconciler_SetupWithManager ca) (resource_key i)
    (KGetTenant ''NiFiUser'' (localObjectRefNamespace (ob_Namespace i) member) (lr_Name member))"
  unfolding wakes_def looks_up_def
  by (auto split: client_object.splits simp: NiFiUserGroupReconciler_SetupWithManager_def requestsForMemberUser_def list_ex_iff
      intro!: enqueued_where [OF assms(1)] bexI [OF _ assms(2)])

lemma user_group_woken: "woken_by_reads E (NiFiUserGroupReconciler_Reconcile E) (NiFiUserGroupReconciler_SetupWithManager ca) (ca_UserGroups ca)"
  unfolding NiFiUserGroupReconciler_Reconcile_def reconcileUserGroupDelete_def userGroupMemberDependenciesWaitingFor_def reconcile_user_group_def userGroupMemberClusterMismatch_def group_with_members_def resolveUserGroupMemberIDs_def write_user_group_def reconcileExistingUserGroup_def markUserGroupReady_def
  by (intro woken_by_frame minds_get minds_intros)
     (auto simp: user_group_kind_def intro!: minds_intros intro: user_group_cluster.wakes_cluster member_wakes)

lemma policy_enqueued:
  assumes "cached (ca_Policies ca) i" "\<And>d. ob_Spec d = ob_Spec i \<Longrightarrow> ob_Namespace d = ob_Namespace i \<Longrightarrow> matches d"
  shows "resource_key i \<in> set (map resource_key (filter matches (allPolicies ca)))"
proof -
  have "resource_key i \<in> set (enqueue resource_key matches (ca_Policies ca))" by (rule enqueued_where [OF assms])
  then show ?thesis by (cases "ca_Policies ca") (simp_all add: enqueue_def allPolicies_def)
qed

lemma policy_wakes:
  assumes "cached (ca_Policies ca) i"
  shows "wakes (NiFiPolicyReconciler_SetupWithManager ca) (resource_key i)
      (KGetCluster (clusterRefNamespace (ob_Namespace i) (pos_ClusterRef (ob_Spec i))) (cr_Name (pos_ClusterRef (ob_Spec i))))"
    "ref \<in> set (pos_UserRefs (ob_Spec i)) \<Longrightarrow> wakes (NiFiPolicyReconciler_SetupWithManager ca) (resource_key i)
      (KGetTenant ''NiFiUser'' (localObjectRefNamespace (ob_Namespace i) ref) (lr_Name ref))"
    "ref \<in> set (pos_UserGroupRefs (ob_Spec i)) \<Longrightarrow> wakes (NiFiPolicyReconciler_SetupWithManager ca) (resource_key i)
      (KGetTenant ''NiFiUserGroup'' (localObjectRefNamespace (ob_Namespace i) ref) (lr_Name ref))"
  unfolding wakes_def looks_up_def
  by (auto split: client_object.splits simp: NiFiPolicyReconciler_SetupWithManager_def requestsForPolicyCluster_def requestsForPolicyUser_def
      requestsForPolicyUserGroup_def list_ex_iff simp del: set_map set_filter intro!: policy_enqueued [OF assms])

lemma minds_tenant_dependencies [minds_intros]:
  assumes "\<And>ref. ref \<in> set refs \<Longrightarrow>
      wakes watches key (KGetTenant kind (localObjectRefNamespace namespace ref) (lr_Name ref) :: ((NiFiPolicySpec, NiFiPolicyStatus) resource, AccessPolicyEntity) kcall)"
  shows "minds i (wakes watches key) (tenant_dependencies E kind namespace refs)"
  using assms by (induction refs) (auto intro!: minds_intros)

lemma policy_woken: "woken_by_reads E (NiFiPolicyReconciler_Reconcile E) (NiFiPolicyReconciler_SetupWithManager ca) (ca_Policies ca)"
  unfolding NiFiPolicyReconciler_Reconcile_def reconcilePolicyDelete_def revoke_grants_def policyDependenciesWaitingFor_def reconcile_policy_def
    resolvePolicyTenants_def find_for_resource_def policyGetFailed_def reconcileExistingPolicy_def markPolicyReady_def
  by (intro woken_by_frame minds_get minds_intros)
     (auto simp: policy_kind_def intro!: minds_intros intro: policy_wakes)


interpretation remote_cluster: cluster_watched "NiFiRemoteProcessGroupReconciler_SetupWithManager ca" "ca_RemoteProcessGroups ca" indexRemoteProcessGroupClusterRef RemoteProcessGroupObj rgs_ClusterRef for ca
  by unfold_locales (simp_all add: indexRemoteProcessGroupClusterRef_def NiFiRemoteProcessGroupReconciler_requestsForCluster_def NiFiRemoteProcessGroupReconciler_SetupWithManager_def)

interpretation remote_parent: parent_watched "NiFiRemoteProcessGroupReconciler_SetupWithManager ca" "ca_RemoteProcessGroups ca" rgs_ParentProcessGroupRef for ca
  by unfold_locales (auto simp: NiFiRemoteProcessGroupReconciler_requestsForProcessGroup_def NiFiRemoteProcessGroupReconciler_SetupWithManager_def)

lemma minds_after_write [minds_intros]:
  "(\<And>e. minds i (wakes watches key) (continue e)) \<Longrightarrow> minds i (wakes watches key) (after_write E rpgID current e continue)"
  unfolding after_write_def refresh_def by (intro minds_intros)

lemma minds_ports [minds_intros]: "minds i (wakes watches key) (reconcileRemoteProcessGroupPorts E current)"
proof -
  have t: "minds i (wakes watches key) (transmit_port E g b cfg current p)" for g b cfg current p
    unfolding transmit_port_def setRemotePortRunStatus_def by (intro minds_intros)
  have e: "minds i (wakes watches key) (edit_port E g b cfg current p)" for g b cfg current p
    unfolding edit_port_def by (intro minds_intros t)
  have o': "minds i (wakes watches key) (reconcile_one_port E g b cfg current)" for g b cfg current
    unfolding reconcile_one_port_def setRemotePortRunStatus_def by (intro minds_intros t e)
  have "minds i (wakes watches key) (reconcile_each_port E g ps current w)" for g ps w
    by (induction ps arbitrary: current w) (simp_all, (intro minds_intros o' | assumption)+)
  then show ?thesis unfolding reconcileRemoteProcessGroupPorts_def by (intro minds_get)
qed

lemma minds_existing_group [minds_intros]: "minds i (wakes watches key) (reconcileExistingRemoteProcessGroup E desired existing parentID)"
proof -
  have s: "same_spec i (record_group n v p c d) = same_spec i d" for n v p c d by (simp add: same_spec_def record_group_def)
  have d: "minds i (wakes watches key) (markRemoteProcessGroupDrift E n cur p ds fail)" for n cur p ds fail
    unfolding markRemoteProcessGroupDrift_def by (intro minds_get minds_intros) (simp_all add: same_spec_def record_group_def)
  have p: "minds i (wakes watches key) (markRemoteProcessGroupPortsPending E n v p c m)" for n v p c m
    unfolding markRemoteProcessGroupPortsPending_def by (intro minds_get minds_intros) (simp add: s)
  have "minds i (wakes watches key) (manage_ports E n p ds cur)" for n p ds cur
    unfolding manage_ports_def remoteProcessGroupWriteFailed_def markRemoteProcessGroupReady_def by (intro minds_intros p d)
  then show ?thesis
    unfolding reconcileExistingRemoteProcessGroup_def by (intro minds_get minds_intros d)
qed


lemma remote_woken: "woken_by_reads E (NiFiRemoteProcessGroupReconciler_Reconcile E) (NiFiRemoteProcessGroupReconciler_SetupWithManager ca) (ca_RemoteProcessGroups ca)"
  unfolding NiFiRemoteProcessGroupReconciler_Reconcile_def reconcileRemoteProcessGroupDelete_def delete_remote_group_def remoteProcessGroupDependenciesWaitingFor_def find_remote_group_def desiredRemoteProcessGroup_def adopt_or_create_def
  by (intro woken_by_frame minds_get minds_intros)
     (auto simp: remote_group_kind_def intro!: minds_intros intro: remote_cluster.wakes_cluster remote_parent.wakes_parent)

section \<open>Properties\<close>

text \<open>
  C4. A change of anything a resource waits for wakes it up. For each of the sixteen controllers of NiFi objects:
  whatever NiFi and the Kubernetes API answer, every cluster, process group, parameter context,
  connectable, remote process group, user or user group that a run of \<open>Reconcile\<close> reads (in the resource's own
  namespace or in another one, found ready or not, present or missing) is an object whose next event
  puts the resource back into the work queue through the watches of \<open>SetupWithManager\<close>. A controller that reports what it
  waits for returns without a requeue, so this is what makes it continue.
\<close>

theorem watches_cover_reads:
  "woken_by_reads E1 (NiFiFunnelReconciler_Reconcile E1) (NiFiFunnelReconciler_SetupWithManager ca) (ca_Funnels ca) \<and>
   woken_by_reads E2 (NiFiLabelReconciler_Reconcile E2) (NiFiLabelReconciler_SetupWithManager ca) (ca_Labels ca) \<and>
   woken_by_reads E3 (NiFiProcessGroupReconciler_Reconcile E3) (NiFiProcessGroupReconciler_SetupWithManager ca) (ca_ProcessGroups ca) \<and>
   woken_by_reads E4 (NiFiConnectionReconciler_Reconcile E4) (NiFiConnectionReconciler_SetupWithManager ca) (ca_Connections ca) \<and>
   woken_by_reads E5 (NiFiInputPortReconciler_Reconcile E5) (NiFiInputPortReconciler_SetupWithManager ca) (ca_InputPorts ca) \<and>
   woken_by_reads E6 (NiFiOutputPortReconciler_Reconcile E6) (NiFiOutputPortReconciler_SetupWithManager ca) (ca_OutputPorts ca) \<and>
   woken_by_reads E7 (NiFiProcessorReconciler_Reconcile E7) (NiFiProcessorReconciler_SetupWithManager ca) (ca_Processors ca) \<and>
   woken_by_reads E8 (NiFiControllerServiceReconciler_Reconcile E8) (NiFiControllerServiceReconciler_SetupWithManager ca) (ca_ControllerServices ca) \<and>
   woken_by_reads E9 (NiFiReportingTaskReconciler_Reconcile E9) (NiFiReportingTaskReconciler_SetupWithManager ca) (ca_ReportingTasks ca) \<and>
   woken_by_reads E10 (NiFiParameterProviderReconciler_Reconcile E10) (NiFiParameterProviderReconciler_SetupWithManager ca) (ca_ParameterProviders ca) \<and>
   woken_by_reads E11 (NiFiRegistryClientReconciler_Reconcile E11) (NiFiRegistryClientReconciler_SetupWithManager ca) (ca_RegistryClients ca) \<and>
   woken_by_reads E12 (NiFiParameterContextReconciler_Reconcile E12) (NiFiParameterContextReconciler_SetupWithManager ca) (ca_ParameterContexts ca) \<and>
   woken_by_reads E13 (NiFiUserReconciler_Reconcile E13) (NiFiUserReconciler_SetupWithManager ca) (ca_Users ca) \<and>
   woken_by_reads E14 (NiFiUserGroupReconciler_Reconcile E14) (NiFiUserGroupReconciler_SetupWithManager ca) (ca_UserGroups ca) \<and>
   woken_by_reads E15 (NiFiPolicyReconciler_Reconcile E15) (NiFiPolicyReconciler_SetupWithManager ca) (ca_Policies ca) \<and>
   woken_by_reads E16 (NiFiRemoteProcessGroupReconciler_Reconcile E16) (NiFiRemoteProcessGroupReconciler_SetupWithManager ca) (ca_RemoteProcessGroups ca)"
  by (intro conjI funnel_woken label_woken process_group_woken connection_woken input_port_woken output_port_woken processor_woken
      service_woken task_woken provider_woken registry_woken context_woken user_woken user_group_woken policy_woken remote_woken)

text \<open>
  Secrets are the exception. A parameter context whose Secret is missing reports it and returns without a requeue;
  the event of creating that Secret enqueues nothing, in this controller or in the others that resolve Secrets.
\<close>

definition sample_secret_context :: NiFiParameterContext where
  "sample_secret_context = component_resource (component_status '''' 0)
     \<lparr>pcs_ClusterRef = component_ref, pcs_Description = '''',
      pcs_Parameters = [\<lparr>dpm_Name = ''password'', dpm_Value = '''', dpm_Description = '''',
        dpm_SensitiveValueFrom = Some (Some \<lparr>sk_Name = ''db'', sk_Key = ''key'', sk_Optional = None\<rparr>)\<rparr>],
      pcs_DeletionPolicy = '''', pcs_AdoptionPolicy = \<lparr>ap_Mode = '''', ap_NiFiID = '''', ap_RequireAnnotation = False, ap_ReviewBeforeMutate = False\<rparr>\<rparr> \<lparr>pcst_LatestUpdateRequest = None\<rparr>"

definition sample_secret_env :: context_env where
  "sample_secret_env = component_env\<lparr>ke_GetObject := \<lambda>_. Inr sample_secret_context, ke_GetSecret := \<lambda>_ _ _. Inl (GoErr NotFound ''not found'')\<rparr>"

lemma missing_secret_is_not_watched:
  "wp (NiFiParameterContextReconciler_Reconcile sample_secret_env)
     (\<lambda>r s'. r = (no_result, None) \<and> dp_WaitingFor (cs_Dependencies (ob_Common (obj s'))) = [''Secret/ns/db''] \<and>
        looks_up (last (butlast (calls s'))) (SecretObj ''ns'' ''db'')) (start_run sample_secret_context)"
  "NiFiParameterContextReconciler_SetupWithManager ca (SecretObj ns n) = []"
  "NiFiControllerServiceReconciler_SetupWithManager ca (SecretObj ns n) = []"
  "NiFiReportingTaskReconciler_SetupWithManager ca (SecretObj ns n) = []"
  "NiFiParameterProviderReconciler_SetupWithManager ca (SecretObj ns n) = []"
  "NiFiRegistryClientReconciler_SetupWithManager ca (SecretObj ns n) = []"
proof -
  show "wp (NiFiParameterContextReconciler_Reconcile sample_secret_env)
     (\<lambda>r s'. r = (no_result, None) \<and> dp_WaitingFor (cs_Dependencies (ob_Common (obj s'))) = [''Secret/ns/db''] \<and>
        looks_up (last (butlast (calls s'))) (SecretObj ''ns'' ''db'')) (start_run sample_secret_context)"
    by (simp add: wp_simps NiFiParameterContextReconciler_Reconcile_def with_ready_cluster_def k_call_defs sample_secret_env_def
        sample_secret_context_def component_defs ensureFinalizer_def readyClusterForReference_def clusterDependency_def
        clusterRefNamespace_def parameter_context_kind_def with_desired_def desiredParameterContext_def resolveSecretKey_def
        report_waiting_def mark_waiting_def MarkWaitingForDependencies_def looks_up_def)
qed (simp_all add: setup_defs)


end
