(* ===== verification/Remote_Facts.thy ===== *)
theory Remote_Facts
  imports Canvas_Laws Component_Sample Remote_Group
begin

text \<open>
  Remote process groups: what the controller may do to a group and its ports, how the drift policy binds it,
  and what one pass over the ports of an obedient NiFi reaches.
\<close>

section \<open>Targets\<close>

definition named_targets :: "string \<Rightarrow> string multiset" where
  \<comment> \<open>the targets of a comma-separated value, without the order and the blanks around them\<close>
  "named_targets value = filter_mset (\<lambda>part. part \<noteq> '''') (image_mset TrimSpace (mset (split_commas value)))"

lemma mset_target_parts: "mset (target_parts value) = named_targets value"
  by (simp add: target_parts_def named_targets_def)

text \<open>
  Two target lists are the same to the controller exactly when they name the same targets equally often, in any order and
  with any blanks around the commas; empty parts do not count.
\<close>

theorem targets_compare_as_multisets: "targetURIsEqual left right \<longleftrightarrow> named_targets left = named_targets right"
proof
  assume "named_targets left = named_targets right"
  then have "mset (target_parts left) = mset (target_parts right)" by (simp add: mset_target_parts)
  then show "targetURIsEqual left right"
    using properties_for_sort [of "target_parts right" "target_parts left"] by (simp add: targetURIsEqual_def target_parts_def sorted_sort_id)
qed (simp add: targetURIsEqual_def flip: mset_target_parts)

section \<open>What is done to a group and its ports\<close>

definition ports_of :: "bool \<Rightarrow> RemoteProcessGroupEntity \<Rightarrow> RemoteProcessGroupPort list" where
  "ports_of output e = (case rgc_Contents (en_Component e) of None \<Rightarrow> [] | Some contents \<Rightarrow> remote_contents output contents)"

lemma findRemotePort_find: "findRemotePort e name output = find (\<lambda>p. rpp_Name p = name) (ports_of output e)"
  by (simp add: findRemotePort_def ports_of_def split: option.split)

lemma find_port_in: "findRemotePort e name output = Some p \<Longrightarrow> p \<in> set (ports_of output e) \<and> rpp_Name p = name"
  by (auto simp: findRemotePort_find find_Some_iff)

definition port_just_stopped :: "('o, RemoteProcessGroupEntity) kenv \<Rightarrow> bool \<Rightarrow> string \<Rightarrow> string \<Rightarrow> ('o, RemoteProcessGroupEntity) kcall list \<Rightarrow> bool" where
  \<comment> \<open>the last two calls stopped the port that NiFi had reported under this name, which NiFi accepted, and read the group again\<close>
  "port_just_stopped E output g name log \<longleftrightarrow> (\<exists>before i v. log = before @ [KSetPortState output g i v ''STOPPED'', KGet g] \<and>
     ke_SetPortState E output g i v ''STOPPED'' before = None \<and>
     (\<exists>old \<in> set (heard E before). map_option rpp_ID (findRemotePort old name output) = Some i))"

lemma find_port_stopped:
  assumes "findRemotePort old name output = Some p" "findRemotePort current name output = Some q" "old \<in> set (heard E log)"
    and "ke_SetPortState E output g (rpp_ID p) v ''STOPPED'' log = None"
  shows "port_just_stopped E output g (rpp_Name q) (log @ [KSetPortState output g (rpp_ID p) v ''STOPPED'', KGet g])"
  using assms find_port_in [OF assms(2)] by (auto simp: port_just_stopped_def)

definition remote_rules :: "RemoteProcessGroupEntity run_rules" where
  "remote_rules = \<lparr>rr_Running = (\<lambda>e. rgc_Transmitting (en_Component e)), rr_Stop = ''STOPPED'', rr_Start = ''TRANSMITTING'', rr_Startable = (\<lambda>_. False)\<rparr>"

definition remote_port_law :: "('o, RemoteProcessGroupEntity) kenv \<Rightarrow> ('o, RemoteProcessGroupEntity) kcall list \<Rightarrow> ('o, RemoteProcessGroupEntity) kcall \<Rightarrow> bool" where
  "remote_port_law E log c = (case c of
      KUpdatePort output g sent \<Rightarrow> \<exists>current \<in> set (heard E log). \<exists>p \<in> set (ports_of output current).
        re_Version (rpe_Revision sent) = re_Version (en_Revision current) \<and> rpp_ID (rpe_RemoteProcessGroupPort sent) = rpp_ID p \<and>
        (rpp_Transmitting p \<longrightarrow> port_just_stopped E output g (rpp_Name p) log)
    | KSetPortState output g i v st \<Rightarrow> \<exists>current \<in> set (heard E log). \<exists>p \<in> set (ports_of output current).
        v = re_Version (en_Revision current) \<and> i = rpp_ID p \<and>
        (if rpp_Transmitting p then st = ''STOPPED'' else st = ''TRANSMITTING'' \<and> rpp_Connected p)
    | _ \<Rightarrow> True)"

definition remote_law :: "('o, RemoteProcessGroupEntity) kenv \<Rightarrow> ('o, RemoteProcessGroupEntity) kcall list \<Rightarrow> ('o, RemoteProcessGroupEntity) kcall \<Rightarrow> bool" where
  "remote_law E log c \<longleftrightarrow> write_law remote_group_kind remote_rules E log c \<and> delete_law remote_group_kind remote_rules E log c \<and> remote_port_law E log c"

interpretation remote_writes: law_on_writes "remote_law E" for E
  by unfold_locales (auto simp: remote_law_def write_law_def delete_law_def remote_port_law_def nifi_write_def split: kcall.splits)

interpretation remote: addressed remote_group_kind
  by unfold_locales (simp_all add: remote_group_kind_def RemoteProcessGroupEntityID_def entityID_def)

lemma keeps_after_write:
  assumes "\<And>log. I log \<Longrightarrow> knows E current log"
    and "\<And>cur. e = None \<Longrightarrow> keeps_when (remote_law E) (\<lambda>l. knows E cur l \<and> (\<exists>log. I log \<and> l = log @ [KGet rpgID])) (continue cur)"
  shows "keeps_when (remote_law E) I (after_write E rpgID current e continue)"
proof (cases e)
  case None
  have "keeps_when (remote_law E) I (State_Monad.bind (k_Get E rpgID) (\<lambda>g. case map_sum id (\<lambda>refreshed. case refreshed of Some e \<Rightarrow> e | None \<Rightarrow> current) g of
      Inl err \<Rightarrow> ret (Inl err) | Inr current \<Rightarrow> continue current))"
    unfolding k_Get_def
    by (rule keeps_knowing [where E = E]) (auto intro: remote_writes.reads_are_free keeps_ret keeps_weaken [OF assms(2) [OF None]] dest: assms(1))
  with None show ?thesis by (simp add: after_write_def refresh_def)
qed (simp add: after_write_def keeps_ret)

lemma silent_acks [simp]:
  "knows E current log \<Longrightarrow> knows E current (log @ [KEvent reason message])"
  "knows E current log \<Longrightarrow> knows E current (log @ [KUpdatePort output g p])"
  "knows E current log \<Longrightarrow> knows E current (log @ [KSetPortState output g i v st])"
  by (simp_all add: knows_silent)

lemma silent_switch [simp]:
  "knows E current log \<Longrightarrow> knows E current (log @ [KSetPortState output g i v st, KEvent reason message])"
  using silent_acks(1) [OF silent_acks(3), of E current log] by simp

lemma keeps_transmit_port:
  assumes p: "p \<in> set (ports_of output current)"
  shows "keeps_when (remote_law E) (knows E current) (transmit_port E rpgID output cfg current p)"
proof -
  have sw: "keeps_when (remote_law E) (knows E current) (State_Monad.bind (setRemotePortRunStatus E rpgID (rpp_ID p) (re_Version (en_Revision current)) st output)
      (\<lambda>e. State_Monad.bind (if e = None then k_event reason message else ret ()) (\<lambda>_. after_write E rpgID current e (\<lambda>current. ret (Inr (current, []))))))"
    if "if rpp_Transmitting p then st = ''STOPPED'' else st = ''TRANSMITTING'' \<and> rpp_Connected p" for st reason message
    unfolding setRemotePortRunStatus_def k_SetPortState_def
  proof (rule keeps_call_bind)
    show "remote_law E log (KSetPortState output rpgID (rpp_ID p) (re_Version (en_Revision current)) st)" if "knows E current log" for log
      using that p \<open>if rpp_Transmitting p then _ else _\<close>
      by (auto simp: remote_law_def write_law_def delete_law_def remote_port_law_def knows_def intro!: bexI [of _ current] bexI [of _ p] split: if_splits)
  next
    fix r
    let ?c = "KSetPortState output rpgID (rpp_ID p) (re_Version (en_Revision current)) st"
    have a: "keeps_when (remote_law E) (knows E current) (after_write E rpgID current r (\<lambda>current. ret (Inr (current, []))))"
      by (rule keeps_after_write) (simp_all add: keeps_ret)
    have "keeps_when (remote_law E) (knows E current) (State_Monad.bind (if r = None then k_event reason message else ret ())
        (\<lambda>_. after_write E rpgID current r (\<lambda>current. ret (Inr (current, [])))))"
    proof (cases r)
      case None
      have "keeps_when (remote_law E) (knows E current) (State_Monad.bind (ext_call (KEvent reason message) (\<lambda>_. ()))
          (\<lambda>_. after_write E rpgID current r (\<lambda>current. ret (Inr (current, [])))))"
        by (rule keeps_call_bind, simp add: remote_writes.reads_are_free, rule keeps_weaken [OF a]) auto
      with None show ?thesis by (simp add: k_event_def)
    qed (use a in simp)
    then show "keeps_when (remote_law E) (\<lambda>l. \<exists>log. l = log @ [?c] \<and> knows E current log \<and> r = ke_SetPortState E output rpgID (rpp_ID p) (re_Version (en_Revision current)) st log)
        (State_Monad.bind (if r = None then k_event reason message else ret ()) (\<lambda>_. after_write E rpgID current r (\<lambda>current. ret (Inr (current, [])))))"
      by (rule keeps_weaken) auto
  qed
  show ?thesis
    unfolding transmit_port_def Let_def by (intro keeps_if keeps_ret sw) simp_all
qed

lemma keeps_edit_port:
  assumes p: "p \<in> set (ports_of output current)"
  shows "keeps_when (remote_law E) (\<lambda>l. knows E current l \<and> (rpp_Transmitting p \<longrightarrow> port_just_stopped E output rpgID (rpp_Name p) l)) (edit_port E rpgID output cfg current p)"
  unfolding edit_port_def k_UpdatePort_def
proof (rule keeps_call_bind)
  let ?c = "KUpdatePort output rpgID \<lparr>rpe_Revision = \<lparr>re_Version = re_Version (en_Revision current)\<rparr>, rpe_RemoteProcessGroupPort = desiredRemotePort cfg (rpp_ID p) rpgID\<rparr>"
  show "remote_law E log ?c" if "knows E current log \<and> (rpp_Transmitting p \<longrightarrow> port_just_stopped E output rpgID (rpp_Name p) log)" for log
    using that p by (auto simp: remote_law_def write_law_def delete_law_def remote_port_law_def knows_def desiredRemotePort_def intro!: bexI [of _ current] bexI [of _ p])
  fix r
  have t: "keeps_when (remote_law E) (\<lambda>l. knows E cur l \<and> R l) (case findRemotePort cur (rcf_Name cfg) output of
      None \<Rightarrow> ret (Inr (cur, [])) | Some port \<Rightarrow> transmit_port E rpgID output cfg cur port)" for cur R
    by (intro keeps_case_option keeps_ret keeps_weaken [OF keeps_transmit_port]) (auto dest: find_port_in)
  have a: "keeps_when (remote_law E) (knows E current) (after_write E rpgID current r (\<lambda>current. case findRemotePort current (rcf_Name cfg) output of
      None \<Rightarrow> ret (Inr (current, [])) | Some port \<Rightarrow> transmit_port E rpgID output cfg current port))"
    by (rule keeps_after_write) (simp_all add: t)
  then show "keeps_when (remote_law E) (\<lambda>l. \<exists>log. l = log @ [?c] \<and> (knows E current log \<and> (rpp_Transmitting p \<longrightarrow> port_just_stopped E output rpgID (rpp_Name p) log)) \<and>
        r = ke_UpdatePort E output rpgID \<lparr>rpe_Revision = \<lparr>re_Version = re_Version (en_Revision current)\<rparr>, rpe_RemoteProcessGroupPort = desiredRemotePort cfg (rpp_ID p) rpgID\<rparr> log)
      (after_write E rpgID current r (\<lambda>current. case findRemotePort current (rcf_Name cfg) output of
        None \<Rightarrow> ret (Inr (current, [])) | Some port \<Rightarrow> transmit_port E rpgID output cfg current port))"
    by (rule keeps_weaken) auto
qed

lemma keeps_one_port: "keeps_when (remote_law E) (knows E current) (reconcile_one_port E rpgID output cfg current)"
proof -
  have stp: "keeps_when (remote_law E) (knows E current) (State_Monad.bind (setRemotePortRunStatus E rpgID (rpp_ID p) (re_Version (en_Revision current)) ''STOPPED'' output)
      (\<lambda>e. after_write E rpgID current e (\<lambda>current. case findRemotePort current (rcf_Name cfg) output of
         None \<Rightarrow> ret (Inr (current, [])) | Some port \<Rightarrow> edit_port E rpgID output cfg current port)))"
    if f: "findRemotePort current (rcf_Name cfg) output = Some p" and tr: "rpp_Transmitting p" for p
    unfolding setRemotePortRunStatus_def k_SetPortState_def
  proof (rule keeps_call_bind)
    let ?c = "KSetPortState output rpgID (rpp_ID p) (re_Version (en_Revision current)) ''STOPPED''"
    show "remote_law E log ?c" if "knows E current log" for log
      using that find_port_in [OF f] tr
      by (auto simp: remote_law_def write_law_def delete_law_def remote_port_law_def knows_def intro!: bexI [of _ current] bexI [of _ p])
    fix r
    show "keeps_when (remote_law E) (\<lambda>l. \<exists>log. l = log @ [?c] \<and> knows E current log \<and> r = ke_SetPortState E output rpgID (rpp_ID p) (re_Version (en_Revision current)) ''STOPPED'' log)
      (after_write E rpgID current r (\<lambda>current. case findRemotePort current (rcf_Name cfg) output of
         None \<Rightarrow> ret (Inr (current, [])) | Some port \<Rightarrow> edit_port E rpgID output cfg current port))"
      by (rule keeps_after_write, force, intro keeps_case_option keeps_ret keeps_weaken [OF keeps_edit_port])
         (use f in \<open>auto simp: knows_def intro: find_port_stopped [OF _ _ _ sym] dest: find_port_in\<close>)
  qed
  show ?thesis
    unfolding reconcile_one_port_def
    by (intro keeps_case_option keeps_if keeps_ret keeps_transmit_port stp keeps_weaken [OF keeps_edit_port]) (auto dest: find_port_in)
qed

text \<open>What a pass over a port returns is again what NiFi reported last.\<close>

definition still_known :: "remote_env \<Rightarrow> port_result \<Rightarrow> _ \<Rightarrow> bool" where
  "still_known E r s \<longleftrightarrow> (case r of Inl _ \<Rightarrow> True | Inr (current, _) \<Rightarrow> knows E current (calls s))"

lemma still_known_simps [simp]: "still_known E (Inl err) s" "still_known E (Inr (current, waits)) s = knows E current (calls s)"
  by (simp_all add: still_known_def)

lemma after_write_known:
  assumes "knows E current (calls s)" "\<And>cur s. knows E cur (calls s) \<Longrightarrow> wp (continue cur) (still_known E) s"
  shows "wp (after_write E rpgID current e continue) (still_known E) s"
proof (cases e)
  case None
  have "knows E (case r of Some e \<Rightarrow> e | None \<Rightarrow> current) (calls s @ [KGet rpgID])" if "ke_Get E rpgID (calls s) = Inr r" for r
    using that assms(1) by (cases r) (simp_all add: knows_def heard_snoc)
  then show ?thesis
    using None by (cases "ke_Get E rpgID (calls s)")
      (auto simp: after_write_def refresh_def k_Get_def split: option.splits intro!: wp_bindI wp_ext_callI wp_intros assms(2))
qed (simp add: after_write_def wp_simps)

lemma transmit_port_known: "knows E current (calls s) \<Longrightarrow> wp (transmit_port E rpgID output cfg current p) (still_known E) s"
  unfolding transmit_port_def setRemotePortRunStatus_def k_SetPortState_def k_event_def Let_def
  by (auto simp: wp_simps intro!: wp_bindI wp_ext_callI after_write_known)

lemma edit_port_known: "knows E current (calls s) \<Longrightarrow> wp (edit_port E rpgID output cfg current p) (still_known E) s"
  unfolding edit_port_def k_UpdatePort_def
  by (auto simp: wp_simps intro!: wp_bindI wp_ext_callI after_write_known transmit_port_known split: option.split)

lemma one_port_known: "knows E current (calls s) \<Longrightarrow> wp (reconcile_one_port E rpgID output cfg current) (still_known E) s"
  unfolding reconcile_one_port_def setRemotePortRunStatus_def k_SetPortState_def
  by (auto simp: wp_simps intro!: wp_bindI wp_ext_callI after_write_known transmit_port_known edit_port_known split: option.split)

lemma each_port:
  assumes "knows E current (calls s)"
  shows "wp (reconcile_each_port E rpgID ports current waitingFor) (\<lambda>r s'. lawful (remote_law E) (calls s) (calls s') \<and> still_known E r s') s"
  using assms
proof (induction ports arbitrary: current waitingFor s)
  case (Cons p ports)
  have "wp (reconcile_one_port E rpgID (fst p) (snd p) current) (\<lambda>r s'. lawful (remote_law E) (calls s) (calls s') \<and> still_known E r s') s"
    by (intro wp_conj keeps_whenD [OF keeps_one_port refl] one_port_known Cons.prems)
  then show ?case
    unfolding reconcile_each_port.simps
    by (rule wp_bindI [OF wp_mono]) (auto split: sum.split intro!: wp_intros wp_mono [OF Cons.IH] intro: lawful_trans)
qed (simp add: wp_simps)

lemma keeps_manage_ports: "keeps_when (remote_law E) (knows E current) (manage_ports E nifiID parentID drift current)"
proof -
  have reports: "keeps (remote_law E) (markRemoteProcessGroupPortsPending E i v p c m)" "keeps (remote_law E) (markRemoteProcessGroupDrift E i e p d f)"
      "keeps (remote_law E) (remoteProcessGroupWriteFailed E reason verb err)" "keeps (remote_law E) (markRemoteProcessGroupReady E i v p c)"
    for i v p c m e d f reason verb err
    unfolding markRemoteProcessGroupPortsPending_def markRemoteProcessGroupDrift_def remoteProcessGroupWriteFailed_def markRemoteProcessGroupReady_def Let_def
    by (intro keeps_intros remote_writes.keeps_shared)+
  have ports: "keeps_when (remote_law E) (knows E current) (reconcileRemoteProcessGroupPorts E current)"
    unfolding reconcileRemoteProcessGroupPorts_def
    by (rule keeps_get_bind, rule keeps_whenI) (rule wp_mono [OF each_port], auto)
  show ?thesis
    unfolding manage_ports_def
    by (intro keeps_then [OF ports] keeps_intros reports remote_writes.keeps_settle)
qed

lemma drift_report_lawful: "keeps_when (remote_law E) I (markRemoteProcessGroupDrift E i e p d f)"
  unfolding markRemoteProcessGroupDrift_def Let_def
  by (rule keeps_weaken [where I = "\<lambda>_. True"]) (intro keeps_intros remote_writes.keeps_shared, simp)

lemma keeps_event_known:
  assumes "keeps_when (remote_law E) (knows E e) m" "\<And>log. I log \<Longrightarrow> knows E e log"
  shows "keeps_when (remote_law E) I (State_Monad.bind (k_event reason message) (\<lambda>_. m))"
  unfolding k_event_def
  by (rule keeps_call_bind, simp add: remote_writes.reads_are_free, rule keeps_weaken [OF assms(1)]) (auto dest: assms(2))

lemma keeps_existing_group: "keeps_when (remote_law E) (knows E e) (reconcileExistingRemoteProcessGroup E desired (Some e) parentID)"
proof -
  have w: "keeps_when (remote_law E) (knows E e) (write_stopped remote_group_kind E (\<lambda>e. rgc_Transmitting (en_Component e)) ''stop'' ''STOPPED'' True desired e
      (manage_ports E i parentID []))" for i
    by (rule remote_writes.keeps_write_stopped)
       (auto simp: remote_law_def write_law_def delete_law_def remote_port_law_def remote_rules_def knows_def remote.revision_address keeps_manage_ports
             intro: keeps_weaken [OF keeps_manage_ports])
  show ?thesis
    unfolding reconcileExistingRemoteProcessGroup_def Let_def option.case
    by (intro keeps_get_bind keeps_if keeps_manage_ports w keeps_event_known drift_report_lawful keeps_weaken [OF keeps_manage_ports]) simp_all
qed

lemma keeps_adopt_or_create: "keeps (remote_law E) (adopt_or_create E parentID desired)"
proof -
  have free: "remote_law E log (KCreate p e)" for log p e
    by (simp add: remote_law_def write_law_def delete_law_def remote_port_law_def)
  have create: "keeps (remote_law E) (create_component remote_group_kind E parentID desired (\<lambda>created.
      State_Monad.bind (k_event reason (message created)) (\<lambda>_. reconcileExistingRemoteProcessGroup E desired (Some created) parentID)))" for reason message
    by (intro remote_writes.keeps_create_component free keeps_event_known [OF keeps_existing_group])
  have found: "keeps_when (remote_law E) (\<lambda>l. \<exists>log. l = log @ [KListIn parentID] \<and> ke_ListIn E parentID log = Inr es)
      (State_Monad.bind (k_event reason message) (\<lambda>_. reconcileExistingRemoteProcessGroup E desired (Some e) parentID))"
    if "e \<in> set es" for e es reason message
    by (rule keeps_event_known [OF keeps_existing_group]) (use that in \<open>auto intro: knows_reply\<close>)
  have mem: "findAdoptableRemoteProcessGroup es d = Some e \<Longrightarrow> e \<in> set es" for es d e
    by (auto simp: findAdoptableRemoteProcessGroup_def Let_def dest: find_is_member)
  show ?thesis
    unfolding adopt_or_create_def Let_def k_ListIn_def
  proof (intro keeps_get_bind keeps_if create keeps_call_bind)
    fix d r
    show "keeps_when (remote_law E) (\<lambda>l. \<exists>log. l = log @ [KListIn parentID] \<and> True \<and> r = ke_ListIn E parentID log) (case r of
        Inl err \<Rightarrow> report_failed E ''AdoptionFailed'' (''Failed to list NiFi remote process groups for adoption: '' @ err_text err)
      | Inr existingList \<Rightarrow> (case findAdoptableRemoteProcessGroup existingList d of
           Some match \<Rightarrow> State_Monad.bind (k_event ''RemoteProcessGroupAdopted'' (''Adopted existing remote process group '' @ RemoteProcessGroupEntityID match))
             (\<lambda>_. reconcileExistingRemoteProcessGroup E desired (Some match) parentID)
         | None \<Rightarrow> create_component remote_group_kind E parentID desired (\<lambda>created. State_Monad.bind (k_event ''RemoteProcessGroupCreated''
             (''Created remote process group '' @ RemoteProcessGroupEntityID created @ '' targeting '' @ join_with '','' (rgs_TargetURIs (ob_Spec d))))
             (\<lambda>_. reconcileExistingRemoteProcessGroup E desired (Some created) parentID))))"
      by (intro keeps_case_sum keeps_case_option)
         (auto intro: keeps_weaken [OF remote_writes.keeps_reports(4)] keeps_weaken [OF create] keeps_weaken [OF found] dest: mem)
  qed (simp add: remote_writes.reads_are_free)
qed

lemma keeps_find_remote_group: "keeps (remote_law E) (find_remote_group E parentID desired)"
  unfolding find_remote_group_def Let_def
  by (intro remote_writes.keeps_find_recorded keeps_existing_group keeps_get_bind keeps_case_option keeps_adopt_or_create remote_writes.keeps_read)
     (auto intro: remote_writes.keeps_reports keeps_existing_group keeps_adopt_or_create)

lemma keeps_delete_remote_group: "keeps (remote_law E) (delete_remote_group E)"
proof -
  have deleted: "keeps_when (remote_law E) I (State_Monad.bind (k_event reason message) (\<lambda>_. finish E))" for I reason message
    by (rule keeps_weaken [where I = "\<lambda>_. True"]) (intro keeps_intros remote_writes.keeps_shared, simp)
  have remove: "keeps_when (remote_law E) (\<lambda>log. \<exists>current \<in> set (heard E log). v = re_Version (en_Revision current) \<and>
        (rgc_Transmitting (en_Component current) \<longrightarrow> just_stopped ''STOPPED'' E log))
      (State_Monad.bind (k_Delete E i v) (\<lambda>r. case r of
          Some err \<Rightarrow> (if \<not> IsNotFound err then ret (requeue_after 30, Some err) else State_Monad.bind (k_event reason message) (\<lambda>_. finish E))
        | None \<Rightarrow> State_Monad.bind (k_event reason message) (\<lambda>_. finish E)))" for i v reason message
    unfolding k_Delete_def
    by (rule keeps_call_bind)
       (auto simp: remote_law_def write_law_def delete_law_def remote_port_law_def remote_rules_def remote_group_kind_def
             intro!: keeps_case_option keeps_if keeps_ret deleted)
  have stop: "keeps_when (remote_law E) (knows E current) (State_Monad.bind (k_SetRunState E i (re_Version (en_Revision current)) ''STOPPED'') (\<lambda>r. case r of
      Inl err \<Rightarrow> ret (requeue_after 30, Some err)
    | Inr stopped \<Rightarrow> State_Monad.bind (k_Delete E i (case stopped of Some stopped \<Rightarrow> re_Version (en_Revision stopped) | None \<Rightarrow> re_Version (en_Revision current)))
        (\<lambda>r. case r of
          Some err \<Rightarrow> (if \<not> IsNotFound err then ret (requeue_after 30, Some err) else State_Monad.bind (k_event reason message) (\<lambda>_. finish E))
        | None \<Rightarrow> State_Monad.bind (k_event reason message) (\<lambda>_. finish E))))" for i current reason message
    unfolding k_SetRunState_def
    by (rule keeps_knowing [where E = E])
       (auto simp: remote_law_def write_law_def delete_law_def remote_port_law_def remote_rules_def remote_group_kind_def knows_def
             intro!: keeps_ret keeps_weaken [OF remove])
  show ?thesis
    unfolding delete_remote_group_def Let_def
    by (intro keeps_get_bind remote_writes.keeps_read; simp only: sum.case option.case; intro keeps_if keeps_ret stop remote_writes.keeps_finish keeps_weaken [OF remove])
       (auto intro: keeps_ret remote_writes.keeps_finish simp: knows_def)
qed

text \<open>
  C5. A remote process group and its ports are changed only in safe states. The group is updated and deleted only while it does not transmit:
  if NiFi reported it as transmitting, the call just before stopped it and NiFi agreed. A port is configured only if NiFi reported it as not
  transmitting, or if just before NiFi accepted to stop the port that it had reported under the name of this one; it is started only if it is not transmitting yet and is connected to the target. Every one of these
  calls names a port that NiFi reported and carries the revision of the group that NiFi reported last.
\<close>

theorem remote_group_changes_are_safe: "keeps (remote_law E) (NiFiRemoteProcessGroupReconciler_Reconcile E)"
proof -
  have d: "keeps (remote_law E) (desiredRemoteProcessGroup E p)" "keeps (remote_law E) (remoteProcessGroupDependenciesWaitingFor E)" for p
    unfolding desiredRemoteProcessGroup_def remoteProcessGroupDependenciesWaitingFor_def Let_def
    by (intro keeps_intros remote_writes.keeps_shared)+
  show ?thesis
    unfolding NiFiRemoteProcessGroupReconciler_Reconcile_def reconcileRemoteProcessGroupDelete_def
    by (intro keeps_intros remote_writes.keeps_shared d keeps_find_remote_group keeps_delete_remote_group)
qed

section \<open>Drift\<close>

definition configures :: "('o, 'e) kcall \<Rightarrow> bool" where
  \<comment> \<open>a change of the group itself, not of its ports\<close>
  "configures c \<longleftrightarrow> (case c of KCreate _ _ \<Rightarrow> True | KUpdate _ \<Rightarrow> True | KSetRunState _ _ _ \<Rightarrow> True | KDelete _ _ \<Rightarrow> True | _ \<Rightarrow> False)"

abbreviation leaves_group :: "('o, 'e) kcall list \<Rightarrow> ('o, 'e) kcall \<Rightarrow> bool" where
  "leaves_group \<equiv> \<lambda>_ c. \<not> configures c"

interpretation untouched: law_on_writes leaves_group
  by unfold_locales (auto simp: configures_def nifi_write_def split: kcall.splits)

lemma untouched_ports: "\<not> configures (KUpdatePort outp g p)" "\<not> configures (KSetPortState outp g i v st)"
  by (simp_all add: configures_def)

lemma untouched_after_write: "(\<And>c. keeps leaves_group (continue c)) \<Longrightarrow> keeps leaves_group (after_write E g current e continue)"
  unfolding after_write_def refresh_def by (intro keeps_intros untouched.keeps_calls)

lemma untouched_manage_ports: "keeps leaves_group (manage_ports E nifiID parentID drift current)"
proof -
  have t: "keeps leaves_group (transmit_port E g outp cfg cur p)" for g outp cfg cur p
    unfolding transmit_port_def setRemotePortRunStatus_def k_SetPortState_def
    by (intro keeps_intros untouched_after_write untouched.keeps_calls untouched_ports)
  have e: "keeps leaves_group (edit_port E g outp cfg cur p)" for g outp cfg cur p
    unfolding edit_port_def k_UpdatePort_def by (intro keeps_intros untouched_after_write t untouched_ports)
  have o1: "keeps leaves_group (reconcile_one_port E g outp cfg cur)" for g outp cfg cur
    unfolding reconcile_one_port_def setRemotePortRunStatus_def k_SetPortState_def
    by (intro keeps_intros untouched_after_write t e untouched_ports)
  have each: "keeps leaves_group (reconcile_each_port E g ports cur w)" for g ports cur w
    by (induction ports arbitrary: cur w) (auto intro!: keeps_intros o1)
  show ?thesis
    unfolding manage_ports_def reconcileRemoteProcessGroupPorts_def markRemoteProcessGroupPortsPending_def markRemoteProcessGroupDrift_def
      remoteProcessGroupWriteFailed_def markRemoteProcessGroupReady_def Let_def
    by (intro keeps_intros each untouched.keeps_shared)
qed

lemma unchanged_spec_untouched:
  assumes "\<not> spec_changed (obj s)" "drift_mode (obj s) \<noteq> ''Reconcile''"
  shows "wp (reconcileExistingRemoteProcessGroup E desired existing parentID) (\<lambda>_ s'. lawful leaves_group (calls s) (calls s')) s"
proof -
  have d: "keeps leaves_group (markRemoteProcessGroupDrift E i e p ds f)" for i e p ds f
    unfolding markRemoteProcessGroupDrift_def Let_def by (intro keeps_intros untouched.keeps_shared)
  show ?thesis
  proof (cases existing)
    case (Some e)
    let ?m = "reconcileExistingRemoteProcessGroup E desired (Some e) parentID"
    have "wp ?m (\<lambda>_ s'. lawful leaves_group (calls s) (calls s')) s"
      unfolding reconcileExistingRemoteProcessGroup_def Let_def option.case
      by (intro wp_bindI wp_get_objI, rule keeps_whenD [OF _ refl TrueI])
         (use assms in \<open>auto intro!: keeps_intros untouched_manage_ports d untouched.keeps_calls\<close>)
    with Some show ?thesis by simp
  qed (simp add: reconcileExistingRemoteProcessGroup_def keeps_whenD [OF untouched.keeps_reports(4)])
qed

text \<open>
  C40. The drift policy binds the controller: while the spec is the one already processed and the mode is not Reconcile (an unset mode counts as Warn), a pass over an existing group
  makes no call that changes the group itself, however NiFi's configuration differs; only its ports are managed, and drift is reported.
\<close>

theorem drift_is_only_reported:
  assumes "\<not> spec_changed (obj s)" "drift_mode (obj s) \<noteq> ''Reconcile''"
  shows "wp (reconcileExistingRemoteProcessGroup E desired existing parentID) (\<lambda>_ s'. lawful leaves_group (calls s) (calls s')) s"
  by (rule unchanged_spec_untouched [OF assms])

definition sample_remote_spec :: NiFiRemoteProcessGroupSpec where
  "sample_remote_spec = \<lparr>rgs_ClusterRef = component_ref, rgs_ParentProcessGroupRef = \<lparr>pr_Name = ''pg'', pr_Namespace = '''', pr_Root = False\<rparr>,
     rgs_TargetURIs = [''https://other''], rgs_TransportProtocol = ''HTTP'', rgs_CommunicationsTimeout = '''', rgs_YieldDuration = '''',
     rgs_LocalNetworkInterface = '''', rgs_Comments = '''', rgs_Proxy = None, rgs_Position = None, rgs_InputPorts = [], rgs_OutputPorts = [],
     rgs_DeletionPolicy = ''Delete'', rgs_DriftPolicy = \<lparr>dpol_Mode = '''', dpol_IgnoreFields = []\<rparr>, rgs_AdoptionPolicy = \<lparr>ap_Mode = '''', ap_NiFiID = '''', ap_RequireAnnotation = False, ap_ReviewBeforeMutate = False\<rparr>\<rparr>"

definition sample_remote_group :: NiFiRemoteProcessGroup where
  "sample_remote_group = component_resource (component_status ''r'' 3) sample_remote_spec \<lparr>rgst_ParentProcessGroupID = ''pg'', rgst_TransmissionStatus = ''Stopped'',
     rgst_TargetSecure = True, rgst_InputPortCount = 0, rgst_OutputPortCount = 0, rgst_DiscoveredInputPorts = [], rgst_DiscoveredOutputPorts = []\<rparr>"

definition sample_remote_entity :: RemoteProcessGroupEntity where
  "sample_remote_entity = new_entity \<lparr>rgc_ID = ''r'', rgc_ParentGroupID = ''pg'', rgc_Name = '''', rgc_Comments = '''', rgc_TargetURIs = ''https://old'',
     rgc_TransportProtocol = ''HTTP'', rgc_CommunicationsTimeout = '''', rgc_YieldDuration = '''', rgc_LocalNetworkInterface = '''', rgc_ProxyHost = '''',
     rgc_ProxyPort = 0, rgc_ProxyUser = '''', rgc_ProxyPassword = '''', rgc_Position = None, rgc_Transmitting = False, rgc_TargetSecure = False,
     rgc_InputPortCount = 0, rgc_OutputPortCount = 0, rgc_Contents = None\<rparr>"

lemmas remote_sample_defs = sample_remote_group_def sample_remote_spec_def sample_remote_entity_def component_defs

theorem drift_is_only_reported_witness:
  "wp (reconcileExistingRemoteProcessGroup component_env sample_remote_entity None ''pg'') (\<lambda>_ s'. lawful leaves_group [] (calls s')) (start_run sample_remote_group)"
  using drift_is_only_reported [of "start_run sample_remote_group" component_env sample_remote_entity None "''pg''"]
  by (simp add: spec_changed_def drift_mode_def remote_sample_defs)

text \<open>
  When the write for a changed spec fails, the report of the failure records the new generation as observed. From then on the difference
  counts as drift: no later pass makes a call that changes the group, unless the mode is Reconcile or the spec changes again.
\<close>

theorem failed_update_forgets_spec_change:
  assumes "\<And>sent log. isl (ke_Update E sent log)" "spec_changed (obj s)" "remoteProcessGroupNeedsUpdate desired e"
    "drift_mode (obj s) \<noteq> ''Reconcile''"
  shows "wp (reconcileExistingRemoteProcessGroup E desired (Some e) parentID) (\<lambda>_ s'. \<forall>E' desired' existing parentID'.
    wp (reconcileExistingRemoteProcessGroup E' desired' existing parentID') (\<lambda>_ s''. lawful leaves_group (calls s') (calls s'')) s') s"
proof -
  let ?lost = "\<lambda>d. \<not> spec_changed d \<and> drift_mode d = drift_mode (obj s)"
  have failed: "wp (report_failed E reason message) (\<lambda>_ s'. ?lost (obj s')) s1" if "obj s1 = obj s" for reason message s1
    unfolding report_not_ready_def mark_resource_not_ready_def k_now_def k_StatusUpdate_def
    by (auto simp: wp_simps that spec_changed_def drift_mode_def shouldMarkResourceNotReady_def shouldMarkNotReady_def not_ready_common_def MarkNotReady_def Let_def
          split: if_splits intro!: wp_bindI wp_get_objI)
  have never: "ke_Update E sent log \<noteq> Inr u" for sent log u
    using assms(1) [of sent log] by auto
  have "wp (reconcileExistingRemoteProcessGroup E desired (Some e) parentID) (\<lambda>_ s'. ?lost (obj s')) s"
    unfolding reconcileExistingRemoteProcessGroup_def write_stopped_def Let_def k_SetRunState_def k_Update_def
    by (auto simp: assms(2,3) never split: sum.splits intro!: wp_bindI wp_get_objI wp_ext_callI failed)
  then show ?thesis
    by (rule wp_mono) (use assms(4) in \<open>auto intro: unchanged_spec_untouched\<close>)
qed

theorem failed_update_forgets_spec_change_witness:
  "let E = component_env\<lparr>ke_Update := (\<lambda>_ _. Inl (GoErr OtherErr ''503''))\<rparr>; d = sample_remote_group\<lparr>ob_Generation := 2\<rparr>;
       desired = sample_remote_entity\<lparr>en_Component := (en_Component sample_remote_entity)\<lparr>rgc_TargetURIs := ''https://other''\<rparr>\<rparr> in
   wp (reconcileExistingRemoteProcessGroup E desired (Some sample_remote_entity) ''pg'') (\<lambda>_ s'. \<forall>E' desired' existing parentID'.
     wp (reconcileExistingRemoteProcessGroup E' desired' existing parentID') (\<lambda>_ s''. lawful leaves_group (calls s') (calls s'')) s') (start_run d)"
  unfolding Let_def
  by (rule failed_update_forgets_spec_change)
     (simp_all add: spec_changed_def drift_mode_def remote_sample_defs new_entity_def, simp add: remoteProcessGroupNeedsUpdate_def targetURIsEqual_def
        target_parts_def TrimSpace_def trim_left_by_def trim_right_by_def is_space_def Let_def)

end
