(* ===== verification/Backup_Restore.thy ===== *)
theory Backup_Restore
  imports Component_Frame
begin

text \<open>
  Backups and restores (\<open>internal/controller/nifibackup_controller.go\<close> and
  \<open>internal/controller/nifirestore_controller.go\<close>). A backup downloads the flow of a process group
  and writes it to a ConfigMap or a Secret; a restore reads such an artifact and imports it below a process group
  or replaces a process group with it. Both are one-shot: a resource that has succeeded is never run again.
  The replacement waits for NiFi in a loop, which is modelled with fuel; the theorem
  \<open>replacement_ends\<close> of \<open>Backup_Facts\<close> says how much is enough.
\<close>

section \<open>Resources\<close>

record NiFiBackupStorageSpec =
  bks_Type :: string
  bks_Name :: string

record NiFiBackupSpec =
  bk_ClusterRef :: ClusterReference
  bk_ProcessGroupID :: string
  bk_Storage :: NiFiBackupStorageSpec

record NiFiBackupStatus =
  bst_Phase :: string
  bst_ProcessGroupID :: string
  bst_StorageRef :: string
  bst_StorageType :: string
  bst_Digest :: string
  bst_SizeBytes :: int
  bst_CompletedTime :: "go_time option"

record NiFiRestoreSource =
  rsrc_BackupRef :: string
  rsrc_StorageRef :: "NiFiBackupStorageSpec option"

record NiFiRestoreSpec =
  re_ClusterRef :: ClusterReference
  re_Source :: NiFiRestoreSource
  re_TargetProcessGroupID :: string
  re_Mode :: string

record NiFiRestoreStatus =
  rest_Phase :: string
  rest_RestoredProcessGroupID :: string
  rest_CompletedTime :: "go_time option"

type_synonym NiFiBackup = "(NiFiBackupSpec, NiFiBackupStatus) resource"
type_synonym NiFiRestore = "(NiFiRestoreSpec, NiFiRestoreStatus) resource"

definition flowSnapshotKey :: string where "flowSnapshotKey = ''flow.json''"
definition backupPhasePending :: string where "backupPhasePending = ''Pending''"
definition backupPhaseSucceeded :: string where "backupPhaseSucceeded = ''Succeeded''"
definition backupPhaseFailed :: string where "backupPhaseFailed = ''Failed''"
definition restorePhasePending :: string where "restorePhasePending = ''Pending''"
definition restorePhaseSucceeded :: string where "restorePhaseSucceeded = ''Succeeded''"
definition restorePhaseFailed :: string where "restorePhaseFailed = ''Failed''"
definition storageTypeConfigMap :: string where "storageTypeConfigMap = ''ConfigMap''"
definition storageTypeSecret :: string where "storageTypeSecret = ''Secret''"
definition restoreModeImport :: string where "restoreModeImport = ''Import''"
definition restoreModeReplace :: string where "restoreModeReplace = ''Replace''"
definition restoreReplaceTimeout :: duration where "restoreReplaceTimeout = 300 * second"

lemmas backup_consts = flowSnapshotKey_def backupPhasePending_def backupPhaseSucceeded_def backupPhaseFailed_def restorePhasePending_def
  restorePhaseSucceeded_def restorePhaseFailed_def storageTypeConfigMap_def storageTypeSecret_def restoreModeImport_def restoreModeReplace_def

section \<open>Calls and environment\<close>

record Artifact =
  \<comment> \<open>what the mutation function of \<open>controllerutil.CreateOrUpdate\<close> sets in a Secret (\<open>Data\<close>) or a ConfigMap (\<open>BinaryData\<close>)\<close>
  art_IsSecret :: bool
  art_Name :: string
  art_Namespace :: string
  art_Labels :: "(string \<times> string) list"
  art_Data :: go_map
  art_Owner :: string

record FlowConfigMap =
  fcm_BinaryData :: go_map
  fcm_Data :: go_map

datatype 'o bcall =
    BGetCluster string string
  | BConfigureClusterHTTPClient NiFiCluster
  | BGetProcessGroup string
  | BDownloadProcessGroup string
  | BCreateOrUpdate Artifact
  | BGetBackup string string
  | BGetSecret string string
  | BGetConfigMap string string
  | BImportProcessGroup string string
  | BCreateReplaceRequest string int string
  | BGetReplaceRequest string
  | BDeleteReplaceRequest string
  | BWait \<comment> \<open>one second of \<open>time.After\<close>\<close>
  | BEvent string string
  | BStatusUpdate 'o

record 'o benv =
  be_Now :: "'o bcall list \<Rightarrow> go_time"
  be_Cancelled :: "'o bcall list \<Rightarrow> bool" \<comment> \<open>whether \<open>ctx.Done()\<close> wins the \<open>select\<close>\<close>
  be_SHA256 :: "string \<Rightarrow> string" \<comment> \<open>the digest of \<open>crypto/sha256\<close>, in hexadecimal\<close>
  be_GetCluster :: "string \<Rightarrow> string \<Rightarrow> 'o bcall list \<Rightarrow> NiFiCluster go_result"
  be_ConfigureClusterHTTPClient :: "NiFiCluster \<Rightarrow> 'o bcall list \<Rightarrow> go_error option"
  be_GetProcessGroup :: "string \<Rightarrow> 'o bcall list \<Rightarrow> ProcessGroupEntity option go_result"
  be_DownloadProcessGroup :: "string \<Rightarrow> 'o bcall list \<Rightarrow> string go_result"
  be_CreateOrUpdate :: "Artifact \<Rightarrow> 'o bcall list \<Rightarrow> go_error option"
  be_GetBackup :: "string \<Rightarrow> string \<Rightarrow> 'o bcall list \<Rightarrow> NiFiBackup go_result"
  be_GetSecret :: "string \<Rightarrow> string \<Rightarrow> 'o bcall list \<Rightarrow> go_map go_result"
  be_GetConfigMap :: "string \<Rightarrow> string \<Rightarrow> 'o bcall list \<Rightarrow> FlowConfigMap go_result"
  be_ImportProcessGroup :: "string \<Rightarrow> string \<Rightarrow> 'o bcall list \<Rightarrow> ProcessGroupEntity option go_result"
  be_CreateReplaceRequest :: "string \<Rightarrow> int \<Rightarrow> string \<Rightarrow> 'o bcall list \<Rightarrow> ProcessGroupReplaceRequest option go_result"
  be_GetReplaceRequest :: "string \<Rightarrow> 'o bcall list \<Rightarrow> ProcessGroupReplaceRequest option go_result"
  be_StatusUpdate :: "'o \<Rightarrow> 'o bcall list \<Rightarrow> go_error option"

type_synonym ('sp, 'st) r_env = "(('sp, 'st) resource) benv"
type_synonym ('sp, 'st, 'a) bhandler = "(('sp, 'st) resource bcall, ('sp, 'st) resource, 'a) handler"
type_synonym 'a backup_handler = "(NiFiBackupSpec, NiFiBackupStatus, 'a) bhandler"
type_synonym 'a restore_handler = "(NiFiRestoreSpec, NiFiRestoreStatus, 'a) bhandler"
type_synonym backup_env = "NiFiBackup benv"
type_synonym restore_env = "NiFiRestore benv"

text \<open>How a run ends: with a value, with a nil pointer dereference, or not within the fuel.\<close>

datatype 'a run_end = Returns 'a | Panics | Runs_On

definition b_GetCluster :: "('sp, 'st) r_env \<Rightarrow> string \<Rightarrow> string \<Rightarrow> ('sp, 'st, NiFiCluster go_result) bhandler" where
  "b_GetCluster E ns n = ext_call (BGetCluster ns n) (be_GetCluster E ns n)"
definition b_Configure :: "('sp, 'st) r_env \<Rightarrow> NiFiCluster \<Rightarrow> ('sp, 'st, go_error option) bhandler" where
  "b_Configure E c = ext_call (BConfigureClusterHTTPClient c) (be_ConfigureClusterHTTPClient E c)"
definition b_GetProcessGroup :: "('sp, 'st) r_env \<Rightarrow> string \<Rightarrow> ('sp, 'st, ProcessGroupEntity option go_result) bhandler" where
  "b_GetProcessGroup E i = ext_call (BGetProcessGroup i) (be_GetProcessGroup E i)"
definition b_event :: "string \<Rightarrow> string \<Rightarrow> ('sp, 'st, unit) bhandler" where
  "b_event reason message = ext_call (BEvent reason message) (\<lambda>_. ())"
definition b_StatusUpdate :: "('sp, 'st) r_env \<Rightarrow> ('sp, 'st, go_error option) bhandler" where
  "b_StatusUpdate E = do { d \<leftarrow> get_obj; ext_call (BStatusUpdate d) (be_StatusUpdate E d) }"

lemmas b_call_defs = b_GetCluster_def b_Configure_def b_GetProcessGroup_def b_event_def b_StatusUpdate_def

definition with_backup_cluster ::
  "('sp, 'st) r_env \<Rightarrow> ClusterReference \<Rightarrow> (string list \<Rightarrow> ('sp, 'st, go_error option) bhandler) \<Rightarrow>
   (string \<Rightarrow> string \<Rightarrow> ('sp, 'st, go_error option) bhandler) \<Rightarrow> ('sp, 'st, outcome run_end) bhandler \<Rightarrow> ('sp, 'st, outcome run_end) bhandler" where
  \<comment> \<open>what both controllers do before they use NiFi\<close>
  "with_backup_cluster E ref on_waiting on_failed continue = do {
     instance \<leftarrow> get_obj;
     c \<leftarrow> readyClusterForReference (b_GetCluster E) (b_Configure E) cl_Ready (ob_Namespace instance) ref;
     (case c of
        Inl err \<Rightarrow> ret (Returns (no_result, Some err))
      | Inr (cluster, waitingFor) \<Rightarrow>
         (if waitingFor \<noteq> [] then do { u \<leftarrow> on_waiting waitingFor; ret (Returns (requeue_after 15, u)) }
          else (case cluster of
             None \<Rightarrow> ret Panics
           | Some cluster \<Rightarrow>
              (if clusterEndpoint cluster = '''' then do {
                 u \<leftarrow> on_failed ''ClusterEndpointMissing'' ''Referenced NiFiCluster is ready but exposes no API endpoint.'';
                 ret (Returns (requeue_after 30, u)) }
               else continue)))) }"

definition group_or_root ::
  "('sp, 'st) r_env \<Rightarrow> (string \<Rightarrow> string \<Rightarrow> ('sp, 'st, go_error option) bhandler) \<Rightarrow> string \<Rightarrow> (string \<Rightarrow> ('sp, 'st, outcome run_end) bhandler) \<Rightarrow>
   ('sp, 'st, outcome run_end) bhandler" where
  "group_or_root E on_failed i continue =
     (if i \<noteq> '''' then continue i
      else do {
        root \<leftarrow> b_GetProcessGroup E ''root'';
        (case root of
           Inl err \<Rightarrow> do {
             u \<leftarrow> on_failed ''RootLookupFailed'' (''Failed to resolve the root process group: '' @ err_text err);
             ret (Returns (requeue_after 15, u)) }
         | Inr root \<Rightarrow> (case root of None \<Rightarrow> ret Panics | Some root \<Rightarrow> continue (processGroupEntityID root))) })"

section \<open>Backups\<close>

definition markBackupWaiting :: "backup_env \<Rightarrow> string list \<Rightarrow> go_error option backup_handler" where
  "markBackupWaiting E waitingFor = do {
     t \<leftarrow> read_clock (be_Now E);
     upd_obj (\<lambda>d. d\<lparr>ob_Status := (ob_Status d)\<lparr>bst_Phase := backupPhasePending\<rparr>,
       ob_Common := MarkWaitingForDependencies t (ob_Generation d) waitingFor (ob_Common d)\<rparr>);
     b_StatusUpdate E }"

definition markBackupFailed :: "backup_env \<Rightarrow> string \<Rightarrow> string \<Rightarrow> go_error option backup_handler" where
  "markBackupFailed E reason message = do {
     instance \<leftarrow> get_obj;
     (if bst_Phase (ob_Status instance) \<noteq> backupPhaseFailed \<or> sy_LastError (cs_Sync (ob_Common instance)) \<noteq> message
      then b_event reason message else ret ());
     t \<leftarrow> read_clock (be_Now E);
     upd_obj (\<lambda>d. d\<lparr>ob_Status := (ob_Status d)\<lparr>bst_Phase := backupPhaseFailed\<rparr>,
       ob_Common := set_last_error message (MarkNotReady t (ob_Generation d) reason message (ob_Common d))\<rparr>);
     b_StatusUpdate E }"

definition succeed_common :: "go_time \<Rightarrow> int \<Rightarrow> string \<Rightarrow> string \<Rightarrow> CommonStatus \<Rightarrow> CommonStatus" where
  "succeed_common t g reason message c =
     MarkReady t g reason message (c\<lparr>cs_Sync := (cs_Sync c)\<lparr>sy_LastError := '''', sy_LastSuccessfulTime := Some t\<rparr>\<rparr>)"

definition markBackupSucceeded :: "backup_env \<Rightarrow> string \<Rightarrow> string \<Rightarrow> string \<Rightarrow> string \<Rightarrow> int \<Rightarrow> go_error option backup_handler" where
  "markBackupSucceeded E processGroupID storageType storageName digest sizeBytes = do {
     t \<leftarrow> read_clock (be_Now E);
     let message = ''Captured process group '' @ processGroupID @ '' into '' @ storageType @ ''/'' @ storageName @ ''.'';
     upd_obj (\<lambda>d. d\<lparr>ob_Status := \<lparr>bst_Phase = backupPhaseSucceeded, bst_ProcessGroupID = processGroupID, bst_StorageRef = storageName,
         bst_StorageType = storageType, bst_Digest = digest, bst_SizeBytes = sizeBytes, bst_CompletedTime = Some t\<rparr>,
       ob_Common := succeed_common t (ob_Generation d) ''BackupComplete'' message (ob_Common d)\<rparr>);
     b_event ''BackupComplete'' message;
     b_StatusUpdate E }"

definition backupStorageTarget :: "NiFiBackup \<Rightarrow> string \<times> string" where
  "backupStorageTarget instance =
     (or_default (bks_Type (bk_Storage (ob_Spec instance))) storageTypeConfigMap,
      or_default (bks_Name (bk_Storage (ob_Spec instance))) (ob_Name instance @ ''-flow''))"

definition writeBackupArtifact :: "backup_env \<Rightarrow> string \<Rightarrow> string \<Rightarrow> string \<Rightarrow> go_error option backup_handler" where
  "writeBackupArtifact E storageType name snapshot = do {
     instance \<leftarrow> get_obj;
     let artifact = \<lparr>art_IsSecret = (storageType = storageTypeSecret), art_Name = name, art_Namespace = ob_Namespace instance,
       art_Labels = [(''app.kubernetes.io/managed-by'', ''nificontrol''), (''nifi.controlnifi.io/backup'', ob_Name instance)],
       art_Data = [(flowSnapshotKey, snapshot)], art_Owner = ob_Name instance\<rparr>;
     ext_call (BCreateOrUpdate artifact) (be_CreateOrUpdate E artifact) }"

definition capture_group :: "backup_env \<Rightarrow> string \<Rightarrow> outcome run_end backup_handler" where
  \<comment> \<open>the part of \<open>Reconcile\<close> behind the choice of the process group\<close>
  "capture_group E processGroupID = do {
     instance \<leftarrow> get_obj;
     r \<leftarrow> ext_call (BDownloadProcessGroup processGroupID) (be_DownloadProcessGroup E processGroupID);
     (case r of
        Inl err \<Rightarrow> do {
          u \<leftarrow> markBackupFailed E ''DownloadFailed'' (''Failed to download process group '' @ processGroupID @ '': '' @ err_text err);
          ret (Returns (requeue_after 15, u)) }
      | Inr snapshot \<Rightarrow> do {
          let (storageType, storageName) = backupStorageTarget instance;
          w \<leftarrow> writeBackupArtifact E storageType storageName snapshot;
          (case w of
             Some err \<Rightarrow> do {
               u \<leftarrow> markBackupFailed E ''StorageFailed'' (''Failed to write backup artifact: '' @ err_text err);
               ret (Returns (requeue_after 15, u)) }
           | None \<Rightarrow> do {
               u \<leftarrow> markBackupSucceeded E processGroupID storageType storageName (be_SHA256 E snapshot) (int (length snapshot));
               ret (Returns (no_result, u)) }) }) }"

definition NiFiBackupReconciler_Reconcile :: "backup_env \<Rightarrow> outcome run_end backup_handler" where
  "NiFiBackupReconciler_Reconcile E = do {
     instance \<leftarrow> get_obj;
     (if ob_Deleting instance then ret (Returns (no_result, None))
      else if bst_Phase (ob_Status instance) = backupPhaseSucceeded then ret (Returns (no_result, None))
      else with_backup_cluster E (bk_ClusterRef (ob_Spec instance)) (markBackupWaiting E) (markBackupFailed E)
             (group_or_root E (markBackupFailed E) (bk_ProcessGroupID (ob_Spec instance)) (capture_group E))) }"

section \<open>Restores\<close>

definition markRestoreWaiting :: "restore_env \<Rightarrow> string list \<Rightarrow> go_error option restore_handler" where
  "markRestoreWaiting E waitingFor = do {
     t \<leftarrow> read_clock (be_Now E);
     upd_obj (\<lambda>d. d\<lparr>ob_Status := (ob_Status d)\<lparr>rest_Phase := restorePhasePending\<rparr>,
       ob_Common := MarkWaitingForDependencies t (ob_Generation d) waitingFor (ob_Common d)\<rparr>);
     b_StatusUpdate E }"

definition markRestoreFailed :: "restore_env \<Rightarrow> string \<Rightarrow> string \<Rightarrow> go_error option restore_handler" where
  "markRestoreFailed E reason message = do {
     instance \<leftarrow> get_obj;
     (if rest_Phase (ob_Status instance) \<noteq> restorePhaseFailed \<or> sy_LastError (cs_Sync (ob_Common instance)) \<noteq> message
      then b_event reason message else ret ());
     t \<leftarrow> read_clock (be_Now E);
     upd_obj (\<lambda>d. d\<lparr>ob_Status := (ob_Status d)\<lparr>rest_Phase := restorePhaseFailed\<rparr>,
       ob_Common := set_last_error message (MarkNotReady t (ob_Generation d) reason message (ob_Common d))\<rparr>);
     b_StatusUpdate E }"

definition markRestoreSucceeded :: "restore_env \<Rightarrow> string \<Rightarrow> go_error option restore_handler" where
  "markRestoreSucceeded E restoredID = do {
     t \<leftarrow> read_clock (be_Now E);
     let message = ''Restored flow snapshot into process group '' @ restoredID @ ''.'';
     upd_obj (\<lambda>d. d\<lparr>ob_Status := \<lparr>rest_Phase = restorePhaseSucceeded, rest_RestoredProcessGroupID = restoredID, rest_CompletedTime = Some t\<rparr>,
       ob_Common := succeed_common t (ob_Generation d) ''RestoreComplete'' message (ob_Common d)\<rparr>);
     b_event ''RestoreComplete'' message;
     b_StatusUpdate E }"

type_synonym source_result = "(string \<times> string) go_result" \<comment> \<open>the snapshot and what to wait for\<close>

definition map_value :: "go_map \<Rightarrow> string \<Rightarrow> string" where
  "map_value m k = (case map_of m k of Some v \<Rightarrow> v | None \<Rightarrow> '''')"

definition readFlowArtifact :: "restore_env \<Rightarrow> string \<Rightarrow> string \<Rightarrow> string \<Rightarrow> source_result restore_handler" where
  "readFlowArtifact E namespace storageType name =
     (if name = '''' then ret (Inl (errorf ''restore source storage name is empty''))
      else if storageType = storageTypeSecret then do {
        r \<leftarrow> ext_call (BGetSecret namespace name) (be_GetSecret E namespace name);
        ret (case r of
           Inl err \<Rightarrow> (if IsNotFound err then Inr ('''', ''Secret/'' @ namespace @ ''/'' @ name) else Inl err)
         | Inr secret \<Rightarrow> (let data = map_value secret flowSnapshotKey in
             if length data = 0 then Inl (errorf (''Secret '' @ namespace @ ''/'' @ name @ '' has no '' @ flowSnapshotKey)) else Inr (data, ''''))) }
      else do {
        r \<leftarrow> ext_call (BGetConfigMap namespace name) (be_GetConfigMap E namespace name);
        ret (case r of
           Inl err \<Rightarrow> (if IsNotFound err then Inr ('''', ''ConfigMap/'' @ namespace @ ''/'' @ name) else Inl err)
         | Inr configMap \<Rightarrow>
             (if 0 < length (map_value (fcm_BinaryData configMap) flowSnapshotKey) then Inr (map_value (fcm_BinaryData configMap) flowSnapshotKey, '''')
              else if map_value (fcm_Data configMap) flowSnapshotKey \<noteq> '''' then Inr (map_value (fcm_Data configMap) flowSnapshotKey, '''')
              else Inl (errorf (''ConfigMap '' @ namespace @ ''/'' @ name @ '' has no '' @ flowSnapshotKey)))) })"

definition resolveRestoreSource :: "restore_env \<Rightarrow> source_result run_end restore_handler" where
  "resolveRestoreSource E = do {
     instance \<leftarrow> get_obj;
     let source = re_Source (ob_Spec instance);
     let namespace = ob_Namespace instance;
     (if rsrc_BackupRef source \<noteq> '''' then do {
        r \<leftarrow> ext_call (BGetBackup namespace (rsrc_BackupRef source)) (be_GetBackup E namespace (rsrc_BackupRef source));
        (case r of
           Inl err \<Rightarrow> ret (Returns (if IsNotFound err then Inr ('''', ''NiFiBackup/'' @ namespace @ ''/'' @ rsrc_BackupRef source) else Inl err))
         | Inr backup \<Rightarrow>
            (if bst_Phase (ob_Status backup) \<noteq> backupPhaseSucceeded \<or> bst_StorageRef (ob_Status backup) = ''''
             then ret (Returns (Inr ('''', ''NiFiBackup/'' @ namespace @ ''/'' @ rsrc_BackupRef source @ '':Succeeded'')))
             else do {
               a \<leftarrow> readFlowArtifact E namespace (bst_StorageType (ob_Status backup)) (bst_StorageRef (ob_Status backup));
               ret (Returns a) })) }
      else (case rsrc_StorageRef source of
         None \<Rightarrow> ret Panics
       | Some storage \<Rightarrow> do {
           a \<leftarrow> readFlowArtifact E namespace (or_default (bks_Type storage) storageTypeConfigMap) (bks_Name storage);
           ret (Returns a) })) }"

primrec poll_replacement :: "restore_env \<Rightarrow> string \<Rightarrow> go_time \<Rightarrow> nat \<Rightarrow> go_error option run_end restore_handler" where
  \<comment> \<open>the \<open>for\<close> loop of \<open>replaceProcessGroup\<close>\<close>
  "poll_replacement E requestID deadline 0 = ret Runs_On"
| "poll_replacement E requestID deadline (Suc fuel) = do {
     r \<leftarrow> ext_call (BGetReplaceRequest requestID) (be_GetReplaceRequest E requestID);
     (case r of
        Inl err \<Rightarrow> ret (Returns (Some (wrapf ''poll replace request: '' err)))
      | Inr st \<Rightarrow> (case st of
           None \<Rightarrow> ret Panics
         | Some st \<Rightarrow>
            (if rr_FailureReason st \<noteq> '''' then ret (Returns (Some (errorf (''replace failed: '' @ rr_FailureReason st))))
             else if rr_Complete st then ret (Returns None)
             else do {
               t \<leftarrow> read_clock (be_Now E);
               (if deadline < t then ret (Returns (Some (errorf (''replace request did not complete within '' @ show_duration restoreReplaceTimeout))))
                else do {
                  c \<leftarrow> ext_call BWait (be_Cancelled E);
                  (if c then ret (Returns (Some (errorf ''context canceled''))) else poll_replacement E requestID deadline fuel) }) }))) }"

definition replaceProcessGroup :: "nat \<Rightarrow> restore_env \<Rightarrow> string \<Rightarrow> string \<Rightarrow> go_error option run_end restore_handler" where
  "replaceProcessGroup fuel E targetID snapshot = do {
     g \<leftarrow> b_GetProcessGroup E targetID;
     (case g of
        Inl err \<Rightarrow> ret (Returns (Some (wrapf (''get target process group '' @ targetID @ '': '') err)))
      | Inr existing \<Rightarrow> (case existing of
           None \<Rightarrow> ret Panics
         | Some existing \<Rightarrow> do {
             c \<leftarrow> ext_call (BCreateReplaceRequest targetID (re_Version (pg_Revision existing)) snapshot)
                    (be_CreateReplaceRequest E targetID (re_Version (pg_Revision existing)) snapshot);
             (case c of
                Inl err \<Rightarrow> ret (Returns (Some (wrapf ''create replace request: '' err)))
              | Inr request \<Rightarrow> (case request of
                   None \<Rightarrow> ret Panics
                 | Some request \<Rightarrow>
                    (let requestID = rr_RequestID request in
                     if requestID = '''' then ret (Returns (Some (errorf ''NiFi returned no replace request id'')))
                     else do {
                       t \<leftarrow> read_clock (be_Now E);
                       r \<leftarrow> poll_replacement E requestID (t + restoreReplaceTimeout) fuel;
                       ext_call (BDeleteReplaceRequest requestID) (\<lambda>_. ());
                       ret r }))) })) }"

definition restore_snapshot :: "nat \<Rightarrow> restore_env \<Rightarrow> string \<Rightarrow> string \<Rightarrow> outcome run_end restore_handler" where
  \<comment> \<open>the \<open>switch\<close> on the mode\<close>
  "restore_snapshot fuel E snapshot targetID = do {
     instance \<leftarrow> get_obj;
     (if or_default (re_Mode (ob_Spec instance)) restoreModeImport = restoreModeReplace then do {
        r \<leftarrow> replaceProcessGroup fuel E targetID snapshot;
        (case r of
           Panics \<Rightarrow> ret Panics
         | Runs_On \<Rightarrow> ret Runs_On
         | Returns e \<Rightarrow> (case e of
              Some err \<Rightarrow> do { u \<leftarrow> markRestoreFailed E ''ReplaceFailed'' (err_text err); ret (Returns (requeue_after 15, u)) }
            | None \<Rightarrow> do { u \<leftarrow> markRestoreSucceeded E targetID; ret (Returns (no_result, u)) })) }
      else do {
        c \<leftarrow> ext_call (BImportProcessGroup targetID snapshot) (be_ImportProcessGroup E targetID snapshot);
        (case c of
           Inl err \<Rightarrow> do {
             u \<leftarrow> markRestoreFailed E ''ImportFailed'' (''Failed to import snapshot under '' @ targetID @ '': '' @ err_text err);
             ret (Returns (requeue_after 15, u)) }
         | Inr created \<Rightarrow> (case created of
              None \<Rightarrow> ret Panics
            | Some created \<Rightarrow> do { u \<leftarrow> markRestoreSucceeded E (processGroupEntityID created); ret (Returns (no_result, u)) })) }) }"

definition restore_from_source :: "nat \<Rightarrow> restore_env \<Rightarrow> outcome run_end restore_handler" where
  \<comment> \<open>the part of \<open>Reconcile\<close> behind the cluster\<close>
  "restore_from_source fuel E = do {
     instance \<leftarrow> get_obj;
     r \<leftarrow> resolveRestoreSource E;
     (case r of
        Panics \<Rightarrow> ret Panics
      | Runs_On \<Rightarrow> ret Runs_On
      | Returns source \<Rightarrow> (case source of
           Inl err \<Rightarrow> do { u \<leftarrow> markRestoreFailed E ''SourceUnavailable'' (err_text err); ret (Returns (requeue_after 15, u)) }
         | Inr (snapshot, waiting) \<Rightarrow>
            (if waiting \<noteq> '''' then do { u \<leftarrow> markRestoreWaiting E [waiting]; ret (Returns (requeue_after 15, u)) }
             else group_or_root E (markRestoreFailed E) (re_TargetProcessGroupID (ob_Spec instance)) (restore_snapshot fuel E snapshot)))) }"

definition NiFiRestoreReconciler_Reconcile :: "nat \<Rightarrow> restore_env \<Rightarrow> outcome run_end restore_handler" where
  "NiFiRestoreReconciler_Reconcile fuel E = do {
     instance \<leftarrow> get_obj;
     (if ob_Deleting instance then ret (Returns (no_result, None))
      else if rest_Phase (ob_Status instance) = restorePhaseSucceeded then ret (Returns (no_result, None))
      else with_backup_cluster E (re_ClusterRef (ob_Spec instance)) (markRestoreWaiting E) (markRestoreFailed E) (restore_from_source fuel E)) }"

end
