(* ===== verification/Backup_Facts.thy ===== *)
theory Backup_Facts
  imports Component_Laws Component_Sample Backup_Restore
begin

text \<open>
  Backups and restores: what a successful backup has stored, that a restore from it sends NiFi exactly the flow that was
  downloaded, when a restore may report success, and that its waiting loop ends.
\<close>

section \<open>Laws on what is sent\<close>

type_synonym ('sp, 'st) bstate = "(('sp, 'st) resource bcall, ('sp, 'st) resource) rstate"

definition sends :: "'o bcall \<Rightarrow> bool" where
  "sends c \<longleftrightarrow> (case c of BImportProcessGroup _ _ \<Rightarrow> True | BCreateReplaceRequest _ _ _ \<Rightarrow> True | _ \<Rightarrow> False)"

text \<open>A law that restricts only the flows sent to NiFi is kept by everything the two controllers share.\<close>

locale law_on_flows =
  fixes P :: "('sp, 'st) resource bcall list \<Rightarrow> ('sp, 'st) resource bcall \<Rightarrow> bool"
  assumes others_are_free: "\<not> sends c \<Longrightarrow> P log c"
begin

lemma keeps_b_calls:
  "keeps P (b_GetCluster E ns n)" "keeps P (b_Configure E c)" "keeps P (b_GetProcessGroup E i)" "keeps P (b_event reason message)"
  "keeps P (b_StatusUpdate E)"
  unfolding b_call_defs by (intro keeps_intros others_are_free; simp add: sends_def)+

lemma keeps_free_call: "\<not> sends c \<Longrightarrow> keeps P (ext_call c r)"
  by (intro keeps_intros others_are_free)

definition stays :: "('sp, 'st, 'a) bhandler \<Rightarrow> bool" where
  \<comment> \<open>obeys the law and leaves the object alone\<close>
  "stays m \<longleftrightarrow> (\<forall>s. wp m (\<lambda>_ s'. lawful P (calls s) (calls s') \<and> obj s' = obj s) s)"

lemma staysD: "stays m \<Longrightarrow> wp m (\<lambda>_ s'. lawful P (calls s) (calls s') \<and> obj s' = obj s) s"
  by (simp add: stays_def)

lemma after_stays:
  fixes s :: "('sp, 'st) bstate"
  assumes "stays m" "\<And>a s'. obj s' = obj s \<Longrightarrow> wp (f a) (\<lambda>_ s''. lawful P (calls s') (calls s'')) s'"
  shows "wp (State_Monad.bind m f) (\<lambda>_ s'. lawful P (calls s) (calls s')) s"
proof (rule wp_bindI, rule wp_mono)
  show "wp m (\<lambda>_ s'. lawful P (calls s) (calls s') \<and> obj s' = obj s) s" using assms(1) by (simp add: stays_def)
next
  fix a and s' :: "('sp, 'st) bstate" assume "lawful P (calls s) (calls s') \<and> obj s' = obj s"
  with assms(2) [of s' a] show "wp (f a) (\<lambda>_ s''. lawful P (calls s) (calls s'')) s'"
    by (auto elim!: wp_mono intro: lawful_trans)
qed

lemma stays_call: "\<not> sends c \<Longrightarrow> stays (ext_call c r)"
  by (auto simp: stays_def wp_simps others_are_free)

lemma stays_bind: "stays m \<Longrightarrow> (\<And>a. stays (f a)) \<Longrightarrow> stays (State_Monad.bind m f)"
  unfolding stays_def [of "State_Monad.bind m f"]
proof (intro allI wp_bindI)
  fix s :: "('sp, 'st) bstate"
  assume m: "stays m" and f: "\<And>a. stays (f a)"
  show "wp m (\<lambda>a. wp (f a) (\<lambda>_ s'. lawful P (calls s) (calls s') \<and> obj s' = obj s)) s"
    by (rule wp_mono [OF staysD [OF m]], rule wp_mono [OF staysD [OF f]]) (auto intro: lawful_trans)
qed

lemma stays_ret: "stays (ret a)" "stays get_obj"
  by (simp_all add: stays_def wp_simps)

lemma stays_split:
  "(b \<Longrightarrow> stays m) \<Longrightarrow> (\<not> b \<Longrightarrow> stays n) \<Longrightarrow> stays (if b then m else n)"
  "stays (f t) \<Longrightarrow> stays (Let t f)"
  "stays m \<Longrightarrow> (\<And>y. stays (g y)) \<Longrightarrow> stays (case o' of None \<Rightarrow> m | Some y \<Rightarrow> g y)"
  "(\<And>e. stays (h e)) \<Longrightarrow> (\<And>y. stays (g y)) \<Longrightarrow> stays (case r of Inl e \<Rightarrow> h e | Inr y \<Rightarrow> g y)"
  by (simp_all split: option.split sum.split)

lemmas stays_intros = stays_bind stays_ret stays_split stays_call

lemma stays_cluster: "stays (readyClusterForReference (b_GetCluster E) (b_Configure E) ready ns ref)"
  unfolding stays_def readyClusterForReference_def clusterDependency_def b_call_defs
  by (auto simp: wp_simps Let_def others_are_free sends_def split: sum.split intro!: lawful_snoc [of _ _ "_ @ [_]", simplified])

lemma cluster_stage:
  fixes s :: "('sp, 'st) bstate"
  assumes "\<And>w. keeps P (on_waiting w)" "\<And>r m. keeps P (on_failed r m)"
    and "\<And>s'. obj s' = obj s \<Longrightarrow> wp continue (\<lambda>_ s''. lawful P (calls s') (calls s'')) s'"
  shows "wp (with_backup_cluster E ref on_waiting on_failed continue) (\<lambda>_ s'. lawful P (calls s) (calls s')) s"
  unfolding with_backup_cluster_def
proof (intro wp_bindI wp_get_objI, fold wp_bind, rule after_stays [OF stays_cluster])
  fix a and s' :: "('sp, 'st) bstate" assume o: "obj s' = obj s"
  have k: "wp m (\<lambda>_ s''. lawful P (calls s') (calls s'')) s'" if "keeps P m" for m :: "('sp, 'st, outcome run_end) bhandler"
    by (rule keeps_whenD [OF that refl TrueI])
  show "wp (case a of Inl err \<Rightarrow> ret (Returns (no_result, Some err))
      | Inr (cluster, waitingFor) \<Rightarrow>
         (if waitingFor \<noteq> [] then State_Monad.bind (on_waiting waitingFor) (\<lambda>u. ret (Returns (requeue_after 15, u)))
          else (case cluster of None \<Rightarrow> ret Panics
           | Some cluster \<Rightarrow>
              (if clusterEndpoint cluster = '''' then State_Monad.bind (on_failed ''ClusterEndpointMissing'' ''Referenced NiFiCluster is ready but exposes no API endpoint.'')
                 (\<lambda>u. ret (Returns (requeue_after 30, u)))
               else continue)))) (\<lambda>_ s''. lawful P (calls s') (calls s'')) s'"
    by (intro wp_case_sumI wp_case_prodI wp_ifI wp_case_optionI assms(3) [OF o] k keeps_intros assms(1,2))
qed

lemma group_stage:
  fixes s :: "('sp, 'st) bstate"
  assumes "\<And>r m. keeps P (on_failed r m)"
    and "\<And>i s'. obj s' = obj s \<Longrightarrow> wp (continue i) (\<lambda>_ s''. lawful P (calls s') (calls s'')) s'"
  shows "wp (group_or_root E on_failed i continue) (\<lambda>_ s'. lawful P (calls s) (calls s')) s"
proof -
  have k: "wp m (\<lambda>_ s''. lawful P (calls s') (calls s'')) s'" if "keeps P m" for s' :: "('sp, 'st) bstate" and m :: "('sp, 'st, outcome run_end) bhandler"
    by (rule keeps_whenD [OF that refl TrueI])
  have g: "stays (b_GetProcessGroup E j)" for j
    unfolding b_GetProcessGroup_def by (rule stays_call) (simp add: sends_def)
  show ?thesis
    unfolding group_or_root_def
    by (intro wp_ifI assms(2) refl after_stays [OF g] wp_case_sumI wp_case_optionI k keeps_intros assms(1)) simp_all
qed

end

section \<open>What a successful backup has stored\<close>

definition backup_artifact :: "NiFiBackup \<Rightarrow> string \<Rightarrow> Artifact" where
  "backup_artifact d snapshot = \<lparr>art_IsSecret = (fst (backupStorageTarget d) = storageTypeSecret), art_Name = snd (backupStorageTarget d),
     art_Namespace = ob_Namespace d, art_Labels = [(''app.kubernetes.io/managed-by'', ''nificontrol''), (''nifi.controlnifi.io/backup'', ob_Name d)],
     art_Data = [(flowSnapshotKey, snapshot)], art_Owner = ob_Name d\<rparr>"

definition backed_up :: "backup_env \<Rightarrow> (NiFiBackupSpec, NiFiBackupStatus) bstate \<Rightarrow> (NiFiBackupSpec, NiFiBackupStatus) bstate \<Rightarrow> string \<Rightarrow> bool" where
  \<comment> \<open>between \<open>s\<close> and \<open>s'\<close> the flow was downloaded and stored, and the status of \<open>s'\<close> describes it\<close>
  "backed_up E s s' snapshot \<longleftrightarrow> (let st = ob_Status (obj s') in
     asked (BDownloadProcessGroup (bst_ProcessGroupID st)) (be_DownloadProcessGroup E (bst_ProcessGroupID st)) (\<lambda>a. a = Inr snapshot) s s' \<and>
     asked (BCreateOrUpdate (backup_artifact (obj s) snapshot)) (be_CreateOrUpdate E (backup_artifact (obj s) snapshot)) (\<lambda>e. e = None) s s' \<and>
     (bst_StorageType st, bst_StorageRef st) = backupStorageTarget (obj s) \<and> bst_Digest st = be_SHA256 E snapshot \<and>
     bst_SizeBytes st = int (length snapshot) \<and> ob_Name (obj s') = ob_Name (obj s) \<and> ob_Namespace (obj s') = ob_Namespace (obj s))"

definition phase_ok :: "backup_env \<Rightarrow> (NiFiBackupSpec, NiFiBackupStatus) bstate \<Rightarrow> (NiFiBackupSpec, NiFiBackupStatus) bstate \<Rightarrow> bool" where
  "phase_ok E s s' \<longleftrightarrow> (bst_Phase (ob_Status (obj s')) = backupPhaseSucceeded \<longrightarrow> (\<exists>snapshot. backed_up E s s' snapshot))"

lemma waiting_phase: "wp (markBackupWaiting E w) (\<lambda>_ s'. phase_ok E start s') s"
  unfolding markBackupWaiting_def b_StatusUpdate_def
  by (auto simp: wp_simps phase_ok_def backup_consts)

lemma failed_phase: "wp (markBackupFailed E reason message) (\<lambda>_ s'. phase_ok E start s') s"
  unfolding markBackupFailed_def b_StatusUpdate_def b_event_def
  by (auto simp: wp_simps phase_ok_def backup_consts)

lemma wp_ret_any: "wp (ret a) Q = Q a"
  by (rule ext) (simp add: wp_simps)

lemma write_artifact:
  assumes "obj s = d" "Q (be_CreateOrUpdate E (backup_artifact d snapshot) (calls s)) (s\<lparr>calls := calls s @ [BCreateOrUpdate (backup_artifact d snapshot)]\<rparr>)"
  shows "wp (writeBackupArtifact E (fst (backupStorageTarget d)) (snd (backupStorageTarget d)) snapshot) Q s"
  using assms by (simp add: writeBackupArtifact_def wp_simps backup_artifact_def Let_def)

lemma capture_phase:
  assumes "obj s = obj s0" "extends s0 s"
  shows "wp (capture_group E i) (\<lambda>_ s'. phase_ok E s0 s') s"
proof -
  obtain xs where xs: "calls s = calls s0 @ xs" using assms(2) by (auto simp: extends_def)
  let ?d = "BDownloadProcessGroup i"
  let ?log = "calls s @ [?d]"
  have stored: "wp (markBackupSucceeded E i (fst (backupStorageTarget (obj s))) (snd (backupStorageTarget (obj s))) (be_SHA256 E snapshot) (int (length snapshot)))
      (\<lambda>_ s'. phase_ok E s0 s') (s\<lparr>calls := ?log @ [BCreateOrUpdate (backup_artifact (obj s) snapshot)]\<rparr>)"
    if down: "be_DownloadProcessGroup E i (calls s) = Inr snapshot"
      and wrote: "be_CreateOrUpdate E (backup_artifact (obj s) snapshot) ?log = None" for snapshot
    unfolding markBackupSucceeded_def b_StatusUpdate_def b_event_def Let_def
    apply (simp add: wp_simps phase_ok_def backed_up_def assms(1) Let_def)
    apply (intro exI [of _ snapshot] conjI refl)
    subgoal by (rule asked_at [where log = "calls s"]) (use down xs in simp_all)
    subgoal by (rule asked_at [where log = ?log]) (use wrote xs assms(1) in simp_all)
    done
  show ?thesis
    unfolding capture_group_def Let_def split_beta
    by (intro wp_bindI wp_get_objI wp_ext_callI write_artifact wp_case_sumI wp_case_optionI wp_returnI wp_mono [OF failed_phase])
       (use stored in \<open>simp_all add: wp_ret_any\<close>)
qed

lemma reference_read:
  "wp (readyClusterForReference (b_GetCluster E) (b_Configure E) ready ns ref) (\<lambda>_ s'. obj s' = obj s \<and> extends s s') s"
  unfolding readyClusterForReference_def clusterDependency_def b_call_defs
  by (auto simp: wp_simps Let_def extends_def split: sum.split)

lemma backup_phase:
  assumes "bst_Phase (ob_Status (obj s)) \<noteq> backupPhaseSucceeded"
  shows "wp (NiFiBackupReconciler_Reconcile E) (\<lambda>_ s'. phase_ok E s s') s"
proof -
  have quiet: "phase_ok E s s'" if "obj s' = obj s" for s' using that assms by (simp add: phase_ok_def)
  have failed_then: "wp (markBackupFailed E reason message) (\<lambda>u. wp (ret (f u)) (\<lambda>_ s'. phase_ok E s s')) s1" for reason message s1 and f :: "_ \<Rightarrow> outcome run_end"
    by (rule wp_mono [OF failed_phase [where start = s]]) (simp add: wp_simps)
  have waiting_then: "wp (markBackupWaiting E w) (\<lambda>u. wp (ret (f u)) (\<lambda>_ s'. phase_ok E s s')) s1" for w s1 and f :: "_ \<Rightarrow> outcome run_end"
    by (rule wp_mono [OF waiting_phase [where start = s]]) (simp add: wp_simps)
  have root: "wp (group_or_root E (markBackupFailed E) i (capture_group E)) (\<lambda>_ s'. phase_ok E s s') s1"
    if "obj s1 = obj s" "extends s s1" for i s1
    unfolding group_or_root_def b_GetProcessGroup_def
    by (intro wp_ifI wp_bindI wp_ext_callI wp_case_sumI wp_case_optionI wp_returnI capture_phase failed_then)
       (use that in \<open>auto intro: quiet simp: extends_def\<close>)
  show ?thesis
    unfolding NiFiBackupReconciler_Reconcile_def with_backup_cluster_def
    by (intro wp_bindI wp_get_objI wp_ifI wp_returnI quiet refl wp_mono [OF reference_read] wp_case_sumI wp_case_prodI wp_case_optionI
          failed_then waiting_then root) auto
qed

text \<open>
  C22. A backup reports success only for what it has stored: in the same reconcile NiFi delivered the flow of the reported process group, the API server accepted
  an object of the reported kind and name with exactly these bytes, and digest and size of the status are those of these bytes.
\<close>

theorem backup_reports_what_it_stored:
  assumes "bst_Phase (ob_Status (obj s)) \<noteq> backupPhaseSucceeded"
  shows "wp (NiFiBackupReconciler_Reconcile E)
    (\<lambda>_ s'. bst_Phase (ob_Status (obj s')) = backupPhaseSucceeded \<longrightarrow> (\<exists>snapshot. backed_up E s s' snapshot)) s"
  using backup_phase [OF assms] by (simp add: phase_ok_def)

section \<open>A restore sends the flow that was backed up\<close>

definition serves :: "restore_env \<Rightarrow> Artifact \<Rightarrow> bool" where
  \<comment> \<open>the API server returns the data that were written; no key is in both parts of a ConfigMap, which it rejects\<close>
  "serves E a \<longleftrightarrow> (\<forall>log. if art_IsSecret a then be_GetSecret E (art_Namespace a) (art_Name a) log = Inr (art_Data a)
     else \<exists>other. be_GetConfigMap E (art_Namespace a) (art_Name a) log = Inr \<lparr>fcm_BinaryData = art_Data a, fcm_Data = other\<rparr> \<and>
       fst ` set other \<inter> fst ` set (art_Data a) = {})"

definition sends_only :: "string \<Rightarrow> 'o bcall list \<Rightarrow> 'o bcall \<Rightarrow> bool" where
  "sends_only snapshot log c = (case c of BImportProcessGroup _ x \<Rightarrow> x = snapshot | BCreateReplaceRequest _ _ x \<Rightarrow> x = snapshot | _ \<Rightarrow> True)"

interpretation one_flow: law_on_flows "sends_only snapshot" for snapshot
  by unfold_locales (auto simp: sends_only_def sends_def split: bcall.splits)

lemma keeps_poll:
  assumes "law_on_flows P" shows "keeps P (poll_replacement E requestID deadline fuel)"
  by (induction fuel) (auto intro!: keeps_intros law_on_flows.keeps_free_call [OF assms] simp: sends_def)

lemma restore_marks:
  assumes "law_on_flows P"
  shows "keeps P (markRestoreWaiting E w)" "keeps P (markRestoreFailed E reason message)" "keeps P (markRestoreSucceeded E i)"
  unfolding markRestoreWaiting_def markRestoreFailed_def markRestoreSucceeded_def Let_def
  by (intro keeps_intros law_on_flows.keeps_b_calls [OF assms])+

lemma restore_sends:
  assumes law: "law_on_flows P" and allowed: "\<And>log i. P log (BImportProcessGroup i snapshot)" "\<And>log i v. P log (BCreateReplaceRequest i v snapshot)"
  shows "keeps P (restore_snapshot fuel E snapshot i)"
proof -
  have case_end: "keeps P (case x of Returns e \<Rightarrow> f e | Panics \<Rightarrow> m | Runs_On \<Rightarrow> n)"
    if "\<And>e. keeps P (f e)" "keeps P m" "keeps P n"
    for x :: "go_error option run_end" and f and m n :: "outcome run_end restore_handler"
    using that by (cases x) auto
  have replace: "keeps P (replaceProcessGroup fuel E i snapshot)"
    unfolding replaceProcessGroup_def Let_def
    by (intro keeps_intros law_on_flows.keeps_b_calls [OF law] keeps_poll [OF law] allowed law_on_flows.keeps_free_call [OF law])
       (simp add: sends_def)
  show ?thesis
    unfolding restore_snapshot_def by (intro keeps_intros replace case_end restore_marks [OF law] allowed)
qed

definition source_is :: "restore_env \<Rightarrow> NiFiRestore \<Rightarrow> string \<Rightarrow> bool" where
  \<comment> \<open>what the source of the restore holds, if it can be read\<close>
  "source_is E d snapshot \<longleftrightarrow> (\<forall>s. obj s = d \<longrightarrow> wp (resolveRestoreSource E) (\<lambda>r _. \<forall>x. r = Returns (Inr (x, '''')) \<longrightarrow> x = snapshot) s)"

lemma restore_obeys:
  assumes law: "law_on_flows P" and allowed: "\<And>log i. P log (BImportProcessGroup i snapshot)" "\<And>log i v. P log (BCreateReplaceRequest i v snapshot)"
    and source: "source_is E (obj s) snapshot"
  shows "wp (NiFiRestoreReconciler_Reconcile fuel E) (\<lambda>_ s'. lawful P (calls s) (calls s')) s"
proof -
  have k: "wp m (\<lambda>_ s''. lawful P (calls s') (calls s'')) s'" if "keeps P m" for s' and m :: "outcome run_end restore_handler"
    by (rule keeps_whenD [OF that refl TrueI])
  have resolve: "law_on_flows.stays P (resolveRestoreSource E)"
    unfolding resolveRestoreSource_def readFlowArtifact_def
    by (intro law_on_flows.stays_intros [OF law]) (simp_all add: sends_def)
  have restore: "wp (restore_from_source fuel E) (\<lambda>_ s'. lawful P (calls s1) (calls s')) s1" if o: "obj s1 = obj s" for s1
    unfolding restore_from_source_def
  proof (intro wp_bindI wp_get_objI, rule wp_mono)
    show "wp (resolveRestoreSource E) (\<lambda>r s2. (lawful P (calls s1) (calls s2) \<and> obj s2 = obj s1) \<and> (\<forall>x. r = Returns (Inr (x, '''')) \<longrightarrow> x = snapshot)) s1"
      using source by (intro wp_conj law_on_flows.staysD [OF law resolve]) (simp add: source_is_def o)
  next
    fix r and s2 :: "(NiFiRestoreSpec, NiFiRestoreStatus) bstate"
    let ?rest = "case r of Panics \<Rightarrow> ret Panics | Runs_On \<Rightarrow> ret Runs_On
      | Returns source \<Rightarrow> (case source of
           Inl err \<Rightarrow> State_Monad.bind (markRestoreFailed E ''SourceUnavailable'' (err_text err)) (\<lambda>u. ret (Returns (requeue_after 15, u)))
         | Inr (snapshot, waiting) \<Rightarrow>
            (if waiting \<noteq> '''' then State_Monad.bind (markRestoreWaiting E [waiting]) (\<lambda>u. ret (Returns (requeue_after 15, u)))
             else group_or_root E (markRestoreFailed E) (re_TargetProcessGroupID (ob_Spec (obj s1))) (restore_snapshot fuel E snapshot)))"
    assume r: "(lawful P (calls s1) (calls s2) \<and> obj s2 = obj s1) \<and> (\<forall>x. r = Returns (Inr (x, '''')) \<longrightarrow> x = snapshot)"
    have "wp ?rest (\<lambda>_ s'. lawful P (calls s2) (calls s')) s2"
    proof (cases r)
      case (Returns src)
      have send: "keeps P (restore_snapshot fuel E x i)" if "src = Inr (x, '''')" for x i
        using r that by (auto simp: Returns intro: restore_sends [OF law allowed])
      show ?thesis
        unfolding Returns run_end.case
        by (intro wp_case_sumI wp_case_prodI wp_ifI law_on_flows.group_stage [OF law] k keeps_intros restore_marks [OF law] send) simp_all
    qed (simp_all add: wp_return)
    then show "wp ?rest (\<lambda>_ s'. lawful P (calls s1) (calls s')) s2"
      by (rule wp_mono) (use r in \<open>auto intro: lawful_trans\<close>)
  qed
  show ?thesis
    unfolding NiFiRestoreReconciler_Reconcile_def
    by (intro wp_bindI wp_get_objI wp_ifI wp_returnI lawful_refl law_on_flows.cluster_stage [OF law] restore_marks [OF law] restore)
qed

lemma backup_source:
  assumes b: "backed_up Eb sb sb' snapshot"
    and stored: "serves E (backup_artifact (obj sb) snapshot)"
    and persisted: "\<And>log. be_GetBackup E (ob_Namespace (obj sb)) (ob_Name (obj sb)) log = Inr (obj sb')"
    and ref: "rsrc_BackupRef (re_Source (ob_Spec d)) = ob_Name (obj sb)" "ob_Name (obj sb) \<noteq> ''''" "ob_Namespace d = ob_Namespace (obj sb)"
  shows "source_is E d snapshot"
proof -
  have st: "bst_StorageType (ob_Status (obj sb')) = fst (backupStorageTarget (obj sb))" "bst_StorageRef (ob_Status (obj sb')) = snd (backupStorageTarget (obj sb))"
    using b by (auto simp: backed_up_def Let_def dest: arg_cong [of _ _ fst] arg_cong [of _ _ snd])
  have read: "wp (readFlowArtifact E (ob_Namespace (obj sb)) (fst (backupStorageTarget (obj sb))) (snd (backupStorageTarget (obj sb))))
      (\<lambda>r _. \<forall>x. r = Inr (x, '''') \<longrightarrow> x = snapshot) s" for s
  proof (cases "fst (backupStorageTarget (obj sb)) = storageTypeSecret")
    case True
    then show ?thesis
      using spec [OF stored [unfolded serves_def], of "calls s"]
      by (simp add: readFlowArtifact_def wp_simps backup_artifact_def map_value_def Let_def)
  next
    case False
    then obtain other where "be_GetConfigMap E (ob_Namespace (obj sb)) (snd (backupStorageTarget (obj sb))) (calls s)
        = Inr \<lparr>fcm_BinaryData = [(flowSnapshotKey, snapshot)], fcm_Data = other\<rparr>" "map_of other flowSnapshotKey = None"
      using spec [OF stored [unfolded serves_def], of "calls s"] by (auto simp: backup_artifact_def map_of_eq_None_iff)
    with False show ?thesis
      by (simp add: readFlowArtifact_def wp_simps map_value_def)
  qed
  have "wp (resolveRestoreSource E) (\<lambda>r _. \<forall>x. r = Returns (Inr (x, '''')) \<longrightarrow> x = snapshot) s" if "obj s = d" for s
    unfolding resolveRestoreSource_def Let_def
    apply (intro wp_bindI wp_get_objI)
    apply (simp add: that ref persisted st wp_simps)
    apply (rule impI, rule wp_mono [OF read])
    apply (simp add: wp_return)
    done
  then show ?thesis by (simp add: source_is_def)
qed

lemma wp_any: "wp m (\<lambda>_ _. True) s"
  by (simp add: wp_def split: prod.split)

lemma split_run_end:
  "(\<And>a. x = Returns a \<Longrightarrow> wp (f a) Q s) \<Longrightarrow> (x = Panics \<Longrightarrow> wp m Q s) \<Longrightarrow> (x = Runs_On \<Longrightarrow> wp n Q s) \<Longrightarrow>
   wp (case x of Returns a \<Rightarrow> f a | Panics \<Rightarrow> m | Runs_On \<Rightarrow> n) Q s"
  by (cases x) simp_all

text \<open>What a restore sends when nothing stands in its way.\<close>

definition sent :: "('o bcall, 'o) rstate \<Rightarrow> 'o bcall list" where
  "sent s = filter sends (calls s)"

definition target_group :: "restore_env \<Rightarrow> NiFiRestore \<Rightarrow> string \<Rightarrow> bool" where
  \<comment> \<open>the group of the spec, or the root group that NiFi names\<close>
  "target_group E d t \<longleftrightarrow> (if re_TargetProcessGroupID (ob_Spec d) \<noteq> '''' then t = re_TargetProcessGroupID (ob_Spec d)
     else \<exists>log g. be_GetProcessGroup E ''root'' log = Inr (Some g) \<and> t = processGroupEntityID g)"

definition restoring_call :: "restore_env \<Rightarrow> NiFiRestore \<Rightarrow> string \<Rightarrow> NiFiRestore bcall \<Rightarrow> bool" where
  \<comment> \<open>an import below the target, or a replacement of the target at a revision that NiFi reported\<close>
  "restoring_call E d snapshot c \<longleftrightarrow> (\<exists>t. target_group E d t \<and>
     (if re_Mode (ob_Spec d) = restoreModeReplace
      then \<exists>log g. be_GetProcessGroup E t log = Inr (Some g) \<and> c = BCreateReplaceRequest t (re_Version (pg_Revision g)) snapshot
      else c = BImportProcessGroup t snapshot))"

definition ready_to_restore :: "restore_env \<Rightarrow> NiFiRestore \<Rightarrow> bool" where
  \<comment> \<open>a restore not done yet, on a cluster that is ready and shows the groups it is asked for\<close>
  "ready_to_restore E d \<longleftrightarrow> \<not> ob_Deleting d \<and> rest_Phase (ob_Status d) \<noteq> restorePhaseSucceeded \<and> cr_Name (re_ClusterRef (ob_Spec d)) \<noteq> '''' \<and>
     (\<forall>ns n log. \<exists>c. be_GetCluster E ns n log = Inr c \<and> cl_Ready c \<and> clusterEndpoint c \<noteq> '''') \<and>
     (\<forall>c log. be_ConfigureClusterHTTPClient E c log = None) \<and> (\<forall>i log. \<exists>g. be_GetProcessGroup E i log = Inr (Some g))"

lemma sent_simps [simp]:
  "sent (s\<lparr>calls := log\<rparr>) = filter sends log" "filter sends (calls s) = sent s" "sent (s\<lparr>obj := d\<rparr>) = sent s"
  by (simp_all add: sent_def)

lemma sends_simps [simp]:
  "sends (BImportProcessGroup t x)" "sends (BCreateReplaceRequest t v x)" "\<not> sends (BGetProcessGroup t)" "\<not> sends (BGetReplaceRequest q)" "\<not> sends BWait"
  "\<not> sends (BDeleteReplaceRequest q)" "\<not> sends (BEvent a b)" "\<not> sends (BStatusUpdate d)" "\<not> sends (BGetCluster ns n)"
  "\<not> sends (BConfigureClusterHTTPClient c)" "\<not> sends (BGetBackup ns n)" "\<not> sends (BGetSecret ns n)" "\<not> sends (BGetConfigMap ns n)"
  by (simp_all add: sends_def)

lemma poll_sends_nothing: "wp (poll_replacement E q deadline fuel) (\<lambda>_ s'. sent s' = sent s) s"
proof (induction fuel arbitrary: s)
  case (Suc fuel)
  have again: "wp (poll_replacement E q deadline fuel) (\<lambda>_ s'. sent s' = sent s) s2" if "sent s2 = sent s" for s2
    using Suc.IH [of s2] that by simp
  show ?case
    unfolding poll_replacement.simps
    by (intro wp_bindI wp_ext_callI wp_case_sumI wp_case_optionI wp_ifI wp_read_clockI wp_returnI again) simp_all
qed (simp add: wp_simps)

lemma marks_send_nothing:
  "wp (markRestoreFailed E reason message) (\<lambda>_ s'. sent s' = sent s) s" "wp (markRestoreSucceeded E i) (\<lambda>_ s'. sent s' = sent s) s"
  unfolding markRestoreFailed_def markRestoreSucceeded_def b_event_def b_StatusUpdate_def Let_def
  by (auto simp: wp_simps)

lemma snapshot_is_sent:
  assumes "ready_to_restore E (obj s)" "target_group E (obj s) t" "obj s = d"
  shows "wp (restore_snapshot fuel E snapshot t) (\<lambda>_ s'. \<exists>c. restoring_call E d snapshot c \<and> sent s' = sent s @ [c]) s"
proof -
  obtain g where g: "be_GetProcessGroup E t (calls s) = Inr (Some g)" using assms(1) unfolding ready_to_restore_def by blast
  have after: "wp m (\<lambda>_ s'. \<exists>c. restoring_call E d snapshot c \<and> sent s' = sent s @ [c]) s1"
    if "sent s1 = sent s @ [c]" "restoring_call E d snapshot c" "wp m (\<lambda>_ s'. sent s' = sent s1) s1" for c s1 and m :: "outcome run_end restore_handler"
    by (rule wp_mono [OF that(3)]) (use that(1,2) in auto)
  show ?thesis
  proof (cases "re_Mode (ob_Spec d) = restoreModeReplace")
    case True
    let ?c = "BCreateReplaceRequest t (re_Version (pg_Revision g)) snapshot"
    have c: "restoring_call E d snapshot ?c" using assms True g by (auto simp: restoring_call_def)
    have replaced: "wp (replaceProcessGroup fuel E t snapshot) (\<lambda>_ s'. sent s' = sent s @ [?c]) s"
      unfolding replaceProcessGroup_def b_GetProcessGroup_def Let_def
      by (intro wp_bindI wp_ext_callI; simp only: g sum.case option.case;
          intro wp_bindI wp_ext_callI wp_case_sumI wp_case_optionI wp_ifI wp_read_clockI wp_returnI wp_mono [OF poll_sends_nothing]) (simp_all add: wp_simps)
    have ends: "wp (case x of Panics \<Rightarrow> ret Panics | Runs_On \<Rightarrow> ret Runs_On
         | Returns e \<Rightarrow> (case e of
              Some err \<Rightarrow> State_Monad.bind (markRestoreFailed E ''ReplaceFailed'' (err_text err)) (\<lambda>u. ret (Returns (requeue_after 15, u)))
            | None \<Rightarrow> State_Monad.bind (markRestoreSucceeded E t) (\<lambda>u. ret (Returns (no_result, u))))) (\<lambda>_ s'. sent s' = sent s1) s1" for x s1
      by (intro split_run_end wp_case_optionI wp_bindI wp_returnI wp_mono [OF marks_send_nothing(1)] wp_mono [OF marks_send_nothing(2)]) simp_all
    show ?thesis
      unfolding restore_snapshot_def
      using True assms(3) by (intro wp_bindI wp_get_objI) (simp add: or_default_def restoreModeReplace_def, intro wp_bindI wp_mono [OF replaced] after [OF _ c ends], simp)
  next
    case False
    have c: "restoring_call E d snapshot (BImportProcessGroup t snapshot)" using assms False by (auto simp: restoring_call_def)
    let ?s1 = "s\<lparr>calls := calls s @ [BImportProcessGroup t snapshot]\<rparr>"
    have marked: "wp (State_Monad.bind (markRestoreFailed E reason message) (\<lambda>u. ret (Returns (requeue_after 15, u)))) (\<lambda>_ s'. sent s' = sent s1) s1"
      "wp (State_Monad.bind (markRestoreSucceeded E i) (\<lambda>u. ret (Returns (no_result, u)))) (\<lambda>_ s'. sent s' = sent s1) s1" for reason message i s1
      by (intro wp_bindI wp_mono [OF marks_send_nothing(1)] wp_mono [OF marks_send_nothing(2)]; simp add: wp_simps)+
    have "wp (ret Panics :: outcome run_end restore_handler) (\<lambda>_ s'. sent s' = sent s1) s1" for s1 by (simp add: wp_simps)
    note ends = marked this
    have "wp (case be_ImportProcessGroup E t snapshot (calls s) of
         Inl err \<Rightarrow> State_Monad.bind (markRestoreFailed E ''ImportFailed'' (''Failed to import snapshot under '' @ t @ '': '' @ err_text err)) (\<lambda>u. ret (Returns (requeue_after 15, u)))
       | Inr created \<Rightarrow> (case created of None \<Rightarrow> ret Panics
          | Some created \<Rightarrow> State_Monad.bind (markRestoreSucceeded E (processGroupEntityID created)) (\<lambda>u. ret (Returns (no_result, u)))))
       (\<lambda>_ s'. \<exists>c. restoring_call E d snapshot c \<and> sent s' = sent s @ [c]) ?s1"
      by (intro wp_case_sumI wp_case_optionI after [OF _ c] ends) simp_all
    moreover have "or_default (re_Mode (ob_Spec (obj s))) restoreModeImport \<noteq> restoreModeReplace"
      using False assms(3) by (auto simp: or_default_def restoreModeReplace_def restoreModeImport_def)
    ultimately show ?thesis
      unfolding restore_snapshot_def by (intro wp_bindI wp_get_objI) (simp only: if_False, intro wp_bindI wp_ext_callI)
  qed
qed

definition source_holds :: "restore_env \<Rightarrow> NiFiRestore \<Rightarrow> string \<Rightarrow> bool" where
  \<comment> \<open>reading the source gives the snapshot\<close>
  "source_holds E d snapshot \<longleftrightarrow> (\<forall>s. obj s = d \<longrightarrow>
     wp (resolveRestoreSource E) (\<lambda>r s'. r = Returns (Inr (snapshot, '''')) \<and> obj s' = d \<and> sent s' = sent s) s)"

lemma restore_is_sent:
  assumes ready: "ready_to_restore E (obj s)" and source: "source_holds E (obj s) snapshot"
  shows "wp (NiFiRestoreReconciler_Reconcile fuel E) (\<lambda>_ s'. \<exists>c. restoring_call E (obj s) snapshot c \<and> sent s' = sent s @ [c]) s"
proof -
  let ?Q = "\<lambda>_ s'. \<exists>c. restoring_call E (obj s) snapshot c \<and> sent s' = sent s @ [c]"
  have restore: "wp (restore_snapshot fuel E snapshot t) ?Q s1" if "obj s1 = obj s" "sent s1 = sent s" "target_group E (obj s) t" for t s1
    by (rule wp_mono [OF snapshot_is_sent [where t = t and d = "obj s"]]) (use that ready in simp_all)
  have root: "wp (group_or_root E (markRestoreFailed E) (re_TargetProcessGroupID (ob_Spec (obj s))) (restore_snapshot fuel E snapshot)) ?Q s1"
    if o: "obj s1 = obj s" "sent s1 = sent s" for s1
  proof (cases "re_TargetProcessGroupID (ob_Spec (obj s)) = ''''")
    case True
    obtain g where g: "be_GetProcessGroup E ''root'' (calls s1) = Inr (Some g)" using ready unfolding ready_to_restore_def by blast
    have t: "target_group E (obj s) (processGroupEntityID g)" using True g by (auto simp: target_group_def)
    show ?thesis
      unfolding group_or_root_def b_GetProcessGroup_def
      using True by (simp, intro wp_bindI wp_ext_callI) (simp add: g o restore t)
  qed (use o in \<open>simp add: group_or_root_def restore target_group_def\<close>)
  have read: "wp (restore_from_source fuel E) ?Q s1" if o: "obj s1 = obj s" "sent s1 = sent s" for s1
  proof -
    have "wp (resolveRestoreSource E) (\<lambda>r s'. r = Returns (Inr (snapshot, '''')) \<and> obj s' = obj s \<and> sent s' = sent s) s1"
      using spec [OF source [unfolded source_holds_def], of s1] o by simp
    then show ?thesis
      unfolding restore_from_source_def by (intro wp_bindI wp_get_objI) (rule wp_mono, assumption, auto simp: o root)
  qed
  obtain c where c: "be_GetCluster E (clusterRefNamespace (ob_Namespace (obj s)) (re_ClusterRef (ob_Spec (obj s)))) (cr_Name (re_ClusterRef (ob_Spec (obj s)))) (calls s) = Inr c"
      "cl_Ready c" "clusterEndpoint c \<noteq> ''''"
    using ready unfolding ready_to_restore_def by blast
  have "be_ConfigureClusterHTTPClient E c log = None" for log using ready by (simp add: ready_to_restore_def)
  with c ready show ?thesis
    unfolding NiFiRestoreReconciler_Reconcile_def with_backup_cluster_def readyClusterForReference_def clusterDependency_def b_GetCluster_def b_Configure_def Let_def
    by (intro wp_bindI wp_get_objI) (simp add: ready_to_restore_def wp_simps read)
qed

lemma backup_source_holds:
  assumes b: "backed_up Eb sb sb' snapshot" and phase: "bst_Phase (ob_Status (obj sb')) = backupPhaseSucceeded"
    and stored: "serves E (backup_artifact (obj sb) snapshot)"
    and persisted: "\<And>log. be_GetBackup E (ob_Namespace (obj sb)) (ob_Name (obj sb)) log = Inr (obj sb')"
    and ref: "rsrc_BackupRef (re_Source (ob_Spec d)) = ob_Name (obj sb)" "ob_Name (obj sb) \<noteq> ''''" "ob_Namespace d = ob_Namespace (obj sb)"
    and "snapshot \<noteq> ''''"
  shows "source_holds E d snapshot"
proof -
  have st: "bst_StorageType (ob_Status (obj sb')) = fst (backupStorageTarget (obj sb))" "bst_StorageRef (ob_Status (obj sb')) = snd (backupStorageTarget (obj sb))"
    using b by (auto simp: backed_up_def Let_def dest: arg_cong [of _ _ fst] arg_cong [of _ _ snd])
  have name: "snd (backupStorageTarget (obj sb)) \<noteq> ''''"
    by (simp add: backupStorageTarget_def or_default_def)
  have read: "wp (readFlowArtifact E (ob_Namespace (obj sb)) (fst (backupStorageTarget (obj sb))) (snd (backupStorageTarget (obj sb))))
      (\<lambda>r s'. r = Inr (snapshot, '''') \<and> obj s' = obj s \<and> sent s' = sent s) s" for s
  proof (cases "fst (backupStorageTarget (obj sb)) = storageTypeSecret")
    case True
    then show ?thesis
      using spec [OF stored [unfolded serves_def], of "calls s"] name assms(8)
      by (simp add: readFlowArtifact_def wp_simps backup_artifact_def map_value_def Let_def)
  next
    case False
    then obtain other where "be_GetConfigMap E (ob_Namespace (obj sb)) (snd (backupStorageTarget (obj sb))) (calls s)
        = Inr \<lparr>fcm_BinaryData = [(flowSnapshotKey, snapshot)], fcm_Data = other\<rparr>"
      using spec [OF stored [unfolded serves_def], of "calls s"] by (auto simp: backup_artifact_def)
    with False name assms(8) show ?thesis
      by (simp add: readFlowArtifact_def wp_simps map_value_def)
  qed
  have "wp (resolveRestoreSource E) (\<lambda>r s'. r = Returns (Inr (snapshot, '''')) \<and> obj s' = d \<and> sent s' = sent s) s" if "obj s = d" for s
    unfolding resolveRestoreSource_def Let_def
    apply (intro wp_bindI wp_get_objI)
    apply (simp add: that ref persisted st wp_simps phase name)
    apply (rule wp_mono [OF read])
    apply (simp add: that wp_simps)
    done
  then show ?thesis by (simp add: source_holds_def)
qed

text \<open>
  C6. A restore from a successful backup sends NiFi exactly the flow that the backup downloaded: when the API server returns the stored object and the status of the backup as they
  were written, every import and every replacement of the restore hands the NiFi client the downloaded bytes, from a ConfigMap as well as from a Secret, whatever else
  happens. And it does send: on a ready cluster the restore of a flow that is not empty makes exactly one such call, an import below the target group or a
  replacement of it, as its mode says. (The client encodes the bytes as JSON in the body of its request.)
\<close>

theorem backup_restore_roundtrip:
  assumes "run_state (NiFiBackupReconciler_Reconcile Eb) sb = (result, sb')"
    and "bst_Phase (ob_Status (obj sb)) \<noteq> backupPhaseSucceeded" "bst_Phase (ob_Status (obj sb')) = backupPhaseSucceeded"
    and stored: "\<And>a. BCreateOrUpdate a \<in> set (new_calls sb sb') \<Longrightarrow> serves E a"
    and persisted: "\<And>log. be_GetBackup E (ob_Namespace (obj sb)) (ob_Name (obj sb)) log = Inr (obj sb')"
    and ref: "rsrc_BackupRef (re_Source (ob_Spec (obj s))) = ob_Name (obj sb)" "ob_Name (obj sb) \<noteq> ''''" "ob_Namespace (obj s) = ob_Namespace (obj sb)"
  shows "\<exists>i snapshot. asked (BDownloadProcessGroup i) (be_DownloadProcessGroup Eb i) (\<lambda>a. a = Inr snapshot) sb sb' \<and>
    wp (NiFiRestoreReconciler_Reconcile fuel E) (\<lambda>_ s'. lawful (sends_only snapshot) (calls s) (calls s') \<and>
      (ready_to_restore E (obj s) \<and> snapshot \<noteq> '''' \<longrightarrow> (\<exists>c. restoring_call E (obj s) snapshot c \<and> sent s' = sent s @ [c]))) s"
proof -
  obtain snapshot where b: "backed_up Eb sb sb' snapshot"
    using wp_run [OF backup_phase [OF assms(2)] assms(1)] assms(3) by (auto simp: phase_ok_def)
  have "BCreateOrUpdate (backup_artifact (obj sb) snapshot) \<in> set (new_calls sb sb')"
  proof -
    obtain k where k: "length (calls sb) \<le> k" "k < length (calls sb')" "calls sb' ! k = BCreateOrUpdate (backup_artifact (obj sb) snapshot)"
      using b by (auto simp: backed_up_def asked_def Let_def)
    then have "new_calls sb sb' ! (k - length (calls sb)) = BCreateOrUpdate (backup_artifact (obj sb) snapshot)"
      "k - length (calls sb) < length (new_calls sb sb')" by (simp_all add: new_calls_def)
    then show ?thesis by (metis nth_mem)
  qed
  then have a: "serves E (backup_artifact (obj sb) snapshot)" by (rule stored)
  have holds: "source_holds E (obj s) snapshot" if "snapshot \<noteq> ''''"
    by (rule backup_source_holds [OF b assms(3) a persisted ref that])
  have "wp (NiFiRestoreReconciler_Reconcile fuel E) (\<lambda>_ s'. ready_to_restore E (obj s) \<and> snapshot \<noteq> '''' \<longrightarrow>
      (\<exists>c. restoring_call E (obj s) snapshot c \<and> sent s' = sent s @ [c])) s"
    by (cases "ready_to_restore E (obj s) \<and> snapshot \<noteq> ''''") (auto intro: restore_is_sent holds wp_mono [OF wp_any])
  moreover have "source_is E (obj s) snapshot" by (intro backup_source [OF b] a persisted ref)
  then have "wp (NiFiRestoreReconciler_Reconcile fuel E) (\<lambda>_ s'. lawful (sends_only snapshot) (calls s) (calls s')) s"
    by (rule restore_obeys [OF one_flow.law_on_flows_axioms, rotated 2]) (simp_all add: sends_only_def)
  ultimately have "wp (NiFiRestoreReconciler_Reconcile fuel E) (\<lambda>_ s'. lawful (sends_only snapshot) (calls s) (calls s') \<and>
      (ready_to_restore E (obj s) \<and> snapshot \<noteq> '''' \<longrightarrow> (\<exists>c. restoring_call E (obj s) snapshot c \<and> sent s' = sent s @ [c]))) s"
    by (intro wp_conj)
  with b show ?thesis by (auto simp: backed_up_def Let_def)
qed

section \<open>The waiting loop\<close>

definition time_passes :: "'o benv \<Rightarrow> bool" where
  \<comment> \<open>the clock never runs backwards, and a wait that is not cancelled takes a second\<close>
  "time_passes E \<longleftrightarrow> (\<forall>log c. be_Now E log \<le> be_Now E (log @ [c])) \<and>
     (\<forall>log. \<not> be_Cancelled E log \<longrightarrow> be_Now E log + second \<le> be_Now E (log @ [BWait]))"

lemma poll_ends:
  assumes t: "time_passes E"
  shows "deadline < be_Now E (calls s) + int fuel * second \<Longrightarrow> wp (poll_replacement E requestID deadline (Suc fuel)) (\<lambda>r _. r \<noteq> Runs_On) s"
proof (induction fuel arbitrary: s)
  case 0
  have "be_Now E (calls s) \<le> be_Now E (calls s @ [BGetReplaceRequest requestID])" using t by (simp add: time_passes_def)
  with 0 show ?case
    by (auto simp: wp_simps split: sum.split option.split)
next
  case (Suc fuel)
  let ?l1 = "calls s @ [BGetReplaceRequest requestID]"
  let ?s2 = "s\<lparr>calls := ?l1 @ [BWait]\<rparr>"
  have m: "be_Now E (calls s) \<le> be_Now E ?l1" using t by (simp add: time_passes_def)
  have "wp (poll_replacement E requestID deadline (Suc fuel)) (\<lambda>r _. r \<noteq> Runs_On) ?s2" if "\<not> be_Cancelled E ?l1"
  proof (rule Suc.IH)
    have "be_Now E ?l1 + second \<le> be_Now E (?l1 @ [BWait])" using t that unfolding time_passes_def by blast
    with m Suc.prems show "deadline < be_Now E (calls ?s2) + int fuel * second" by (simp add: algebra_simps)
  qed
  then show ?case
    by (subst poll_replacement.simps)
       (auto simp del: poll_replacement.simps simp: wp_ret_any
         intro!: wp_bindI wp_ext_callI wp_case_sumI wp_case_optionI wp_ifI wp_read_clockI wp_returnI)
qed

text \<open>
  C20. A restore always ends: if the clock does not run backwards and every wait takes its second, the loop that waits for NiFi is left after at most 302 polls,
  since its deadline is five minutes, and the reconcile returns.
\<close>

theorem replacement_ends:
  assumes "time_passes E" "302 \<le> fuel"
  shows "wp (NiFiRestoreReconciler_Reconcile fuel E) (\<lambda>r _. r \<noteq> Runs_On) s"
proof -
  obtain f where f: "fuel = Suc f" "301 \<le> f" using assms(2) by (cases fuel) auto
  have poll: "wp (poll_replacement E i (be_Now E (calls s) + restoreReplaceTimeout) fuel) (\<lambda>r _. r \<noteq> Runs_On) s" for i s
    unfolding f(1) by (rule poll_ends [OF assms(1)]) (use f(2) in \<open>simp add: restoreReplaceTimeout_def second_def\<close>)
  have replace: "wp (replaceProcessGroup fuel E i snapshot) (\<lambda>r _. r \<noteq> Runs_On) s" for i snapshot s
    unfolding replaceProcessGroup_def Let_def b_GetProcessGroup_def
    by (intro wp_bindI wp_ext_callI wp_case_sumI wp_case_optionI wp_ifI wp_read_clockI wp_returnI wp_mono [OF poll]) simp_all
  have restore: "wp (restore_snapshot fuel E snapshot i) (\<lambda>r _. r \<noteq> Runs_On) s" for i snapshot s
    unfolding restore_snapshot_def
    by (intro wp_bindI wp_get_objI wp_ifI wp_ext_callI wp_case_sumI wp_case_optionI wp_returnI wp_mono [OF replace] wp_mono [OF wp_any] split_run_end) simp_all
  have source: "wp (resolveRestoreSource E) (\<lambda>r _. r \<noteq> Runs_On) s" for s
    unfolding resolveRestoreSource_def Let_def
    by (intro wp_bindI wp_get_objI wp_ifI wp_ext_callI wp_case_sumI wp_case_optionI wp_returnI wp_mono [OF wp_any]) simp_all
  show ?thesis
    unfolding NiFiRestoreReconciler_Reconcile_def with_backup_cluster_def restore_from_source_def group_or_root_def b_GetProcessGroup_def
    by (intro wp_bindI wp_get_objI wp_ifI wp_ext_callI wp_case_sumI wp_case_prodI wp_case_optionI wp_returnI restore wp_mono [OF source] wp_mono [OF wp_any]
          split_run_end) simp_all
qed

section \<open>When a restore reports success\<close>

definition completed :: "ProcessGroupReplaceRequest option go_result \<Rightarrow> bool" where
  "completed a \<longleftrightarrow> (\<exists>st. a = Inr (Some st) \<and> rr_Complete st \<and> rr_FailureReason st = '''')"

lemma completed_Some [simp]: "completed (Inr (Some st)) \<longleftrightarrow> rr_Complete st \<and> rr_FailureReason st = ''''"
  by (simp add: completed_def)

definition confirmed :: "restore_env \<Rightarrow> (NiFiRestoreSpec, NiFiRestoreStatus) bstate \<Rightarrow> (NiFiRestoreSpec, NiFiRestoreStatus) bstate \<Rightarrow> string \<Rightarrow> bool" where
  \<comment> \<open>NiFi answered the import with the group \<open>i\<close>, or it reported a replacement of \<open>i\<close> as complete and without a failure, and the request was deleted\<close>
  "confirmed E s s' i \<longleftrightarrow>
     (\<exists>t snapshot created. asked (BImportProcessGroup t snapshot) (be_ImportProcessGroup E t snapshot) (\<lambda>a. a = Inr (Some created)) s s' \<and>
        i = processGroupEntityID created) \<or>
     (\<exists>v snapshot rq. asked (BCreateReplaceRequest i v snapshot) (be_CreateReplaceRequest E i v snapshot) (\<lambda>a. \<exists>r. a = Inr (Some r) \<and> rr_RequestID r = rq) s s' \<and>
        asked (BGetReplaceRequest rq) (be_GetReplaceRequest E rq) completed s s' \<and> BDeleteReplaceRequest rq \<in> set (calls s'))"

definition restored_ok :: "restore_env \<Rightarrow> (NiFiRestoreSpec, NiFiRestoreStatus) bstate \<Rightarrow> (NiFiRestoreSpec, NiFiRestoreStatus) bstate \<Rightarrow> bool" where
  "restored_ok E s s' \<longleftrightarrow> (rest_Phase (ob_Status (obj s')) = restorePhaseSucceeded \<longrightarrow> confirmed E s s' (rest_RestoredProcessGroupID (ob_Status (obj s'))))"

lemma poll_confirms:
  "extends start s \<Longrightarrow> wp (poll_replacement E rq deadline fuel) (\<lambda>r s'. extends s s' \<and> obj s' = obj s \<and>
     (r = Returns None \<longrightarrow> asked (BGetReplaceRequest rq) (be_GetReplaceRequest E rq) completed start s')) s"
proof (induction fuel arbitrary: s)
  case (Suc fuel)
  let ?s1 = "s\<lparr>calls := calls s @ [BGetReplaceRequest rq]\<rparr>"
  let ?s2 = "s\<lparr>calls := (calls s @ [BGetReplaceRequest rq]) @ [BWait]\<rparr>"
  have e: "extends s ?s1" "extends s ?s2" "extends start ?s2"
    using Suc.prems by (auto simp: extends_def)
  obtain xs where xs: "calls s = calls start @ xs" using Suc.prems by (auto simp: extends_def)
  have a: "asked (BGetReplaceRequest rq) (be_GetReplaceRequest E rq) completed start ?s1"
    if "completed (be_GetReplaceRequest E rq (calls s))"
    by (rule asked_at [where log = "calls s" and zs = "[]"]) (use that xs in simp_all)
  have rest: "wp (poll_replacement E rq deadline fuel) (\<lambda>r s'. extends s s' \<and> obj s' = obj s \<and>
     (r = Returns None \<longrightarrow> asked (BGetReplaceRequest rq) (be_GetReplaceRequest E rq) completed start s')) ?s2"
    by (rule wp_mono [OF Suc.IH [OF e(3)]]) (use e(2) in \<open>auto intro: extends_trans\<close>)
  show ?case
    unfolding poll_replacement.simps
    by (intro wp_bindI wp_ext_callI wp_case_sumI wp_case_optionI wp_ifI wp_read_clockI wp_returnI)
       (use e a rest in auto)
qed (simp add: wp_simps)

lemma replace_confirms:
  assumes "extends start s"
  shows "wp (replaceProcessGroup fuel E i snapshot) (\<lambda>r s'. extends s s' \<and> obj s' = obj s \<and> (r = Returns None \<longrightarrow> confirmed E start s' i)) s"
proof -
  obtain xs where xs: "calls s = calls start @ xs" using assms by (auto simp: extends_def)
  let ?g = "BGetProcessGroup i"
  have poll: "wp (poll_replacement E (rr_RequestID rq) deadline fuel)
      (\<lambda>r. wp (State_Monad.bind (ext_call (BDeleteReplaceRequest (rr_RequestID rq)) (\<lambda>_. ())) (\<lambda>_. ret r)) (\<lambda>r s'. extends s s' \<and> obj s' = obj s \<and> (r = Returns None \<longrightarrow> confirmed E start s' i)))
      (s\<lparr>calls := (calls s @ [?g]) @ [BCreateReplaceRequest i v snapshot]\<rparr>)"
    if c: "be_CreateReplaceRequest E i v snapshot (calls s @ [?g]) = Inr (Some rq)" for v rq deadline
  proof (rule wp_mono [OF poll_confirms [where start = start]])
    show "extends start (s\<lparr>calls := (calls s @ [?g]) @ [BCreateReplaceRequest i v snapshot]\<rparr>)" by (simp add: extends_def xs)
  next
    fix r s1
    assume r: "extends (s\<lparr>calls := (calls s @ [?g]) @ [BCreateReplaceRequest i v snapshot]\<rparr>) s1 \<and>
      obj s1 = obj (s\<lparr>calls := (calls s @ [?g]) @ [BCreateReplaceRequest i v snapshot]\<rparr>) \<and>
      (r = Returns None \<longrightarrow> asked (BGetReplaceRequest (rr_RequestID rq)) (be_GetReplaceRequest E (rr_RequestID rq)) completed start s1)"
    then obtain ys where ys: "calls s1 = (calls s @ [?g]) @ BCreateReplaceRequest i v snapshot # ys" by (auto simp: extends_def)
    let ?s2 = "s1\<lparr>calls := calls s1 @ [BDeleteReplaceRequest (rr_RequestID rq)]\<rparr>"
    have "asked (BCreateReplaceRequest i v snapshot) (be_CreateReplaceRequest E i v snapshot) (\<lambda>a. \<exists>r'. a = Inr (Some r') \<and> rr_RequestID r' = rr_RequestID rq) start ?s2"
      by (rule asked_at [where log = "calls s @ [?g]" and zs = "ys @ [BDeleteReplaceRequest (rr_RequestID rq)]"]) (use c ys xs in simp_all)
    moreover have "asked (BGetReplaceRequest (rr_RequestID rq)) (be_GetReplaceRequest E (rr_RequestID rq)) completed start ?s2" if "r = Returns None"
      using r that by (auto intro: asked_step)
    ultimately have "r = Returns None \<Longrightarrow> confirmed E start ?s2 i"
      unfolding confirmed_def by (intro disjI2 exI [of _ v] exI [of _ snapshot] exI [of _ "rr_RequestID rq"] conjI) simp_all
    moreover have "extends s ?s2" using ys by (auto simp: extends_def)
    ultimately show "wp (State_Monad.bind (ext_call (BDeleteReplaceRequest (rr_RequestID rq)) (\<lambda>_. ())) (\<lambda>_. ret r)) (\<lambda>r s'. extends s s' \<and> obj s' = obj s \<and> (r = Returns None \<longrightarrow> confirmed E start s' i)) s1"
      using r by (simp add: wp_simps)
  qed
  show ?thesis
    unfolding replaceProcessGroup_def Let_def b_GetProcessGroup_def
    by (intro wp_bindI wp_ext_callI wp_case_sumI wp_case_optionI wp_ifI wp_read_clockI wp_returnI)
       (use poll in \<open>auto simp: extends_def\<close>)
qed

lemma restore_waiting_ok: "wp (markRestoreWaiting E w) (\<lambda>u. wp (ret (f u)) (\<lambda>_ s'. restored_ok E start s')) s"
  unfolding markRestoreWaiting_def b_StatusUpdate_def
  by (auto simp: wp_simps restored_ok_def backup_consts)

lemma restore_failed_ok: "wp (markRestoreFailed E reason message) (\<lambda>u. wp (ret (f u)) (\<lambda>_ s'. restored_ok E start s')) s"
  unfolding markRestoreFailed_def b_StatusUpdate_def b_event_def
  by (auto simp: wp_simps restored_ok_def backup_consts)

lemma confirmed_mono:
  assumes c: "confirmed E start s i" and e: "calls s' = calls s @ zs" shows "confirmed E start s' i"
proof -
  have step: "asked c resp P start s \<Longrightarrow> asked c resp P start s'" for c and resp :: "_ \<Rightarrow> 'r" and P
    by (erule asked_step) (rule e)
  have sub: "set (calls s) \<subseteq> set (calls s')" by (simp add: e)
  from c show ?thesis
    unfolding confirmed_def by (elim disjE exE conjE) (blast intro: step, blast intro: step subsetD [OF sub])
qed

lemma restore_succeeded_ok:
  assumes "confirmed E start s i"
  shows "wp (markRestoreSucceeded E i) (\<lambda>u. wp (ret (f u)) (\<lambda>_ s'. restored_ok E start s')) s"
  unfolding markRestoreSucceeded_def b_StatusUpdate_def b_event_def Let_def
  by (simp add: wp_simps restored_ok_def backup_consts) (rule confirmed_mono [OF assms], simp)

lemma restore_snapshot_ok:
  assumes "extends start s" "rest_Phase (ob_Status (obj s)) \<noteq> restorePhaseSucceeded"
  shows "wp (restore_snapshot fuel E snapshot i) (\<lambda>_ s'. restored_ok E start s') s"
proof -
  obtain xs where xs: "calls s = calls start @ xs" using assms(1) by (auto simp: extends_def)
  have same: "restored_ok E start s'" if "obj s' = obj s" for s' using that assms(2) by (simp add: restored_ok_def)
  have import: "confirmed E start (s\<lparr>calls := calls s @ [BImportProcessGroup i snapshot]\<rparr>) (processGroupEntityID created)"
    if "be_ImportProcessGroup E i snapshot (calls s) = Inr (Some created)" for created
    unfolding confirmed_def
    by (intro disjI1 exI [of _ i] exI [of _ snapshot] exI [of _ created] conjI refl asked_at [where log = "calls s" and zs = "[]"])
       (use that xs in simp_all)
  have replaced: "wp (case r of Panics \<Rightarrow> ret Panics | Runs_On \<Rightarrow> ret Runs_On
      | Returns e \<Rightarrow> (case e of
           Some err \<Rightarrow> State_Monad.bind (markRestoreFailed E ''ReplaceFailed'' (err_text err)) (\<lambda>u. ret (Returns (requeue_after 15, u)))
         | None \<Rightarrow> State_Monad.bind (markRestoreSucceeded E i) (\<lambda>u. ret (Returns (no_result, u))))) (\<lambda>_ s'. restored_ok E start s') s1"
    if "extends s s1 \<and> obj s1 = obj s \<and> (r = Returns None \<longrightarrow> confirmed E start s1 i)" for r s1
    using that
    by (intro split_run_end wp_case_optionI wp_bindI restore_failed_ok restore_succeeded_ok wp_returnI same) auto
  show ?thesis
    unfolding restore_snapshot_def
    by (intro wp_bindI wp_get_objI wp_ifI wp_ext_callI wp_case_sumI wp_case_optionI wp_mono [OF replace_confirms [OF assms(1)]] replaced
          restore_failed_ok restore_succeeded_ok import wp_returnI same) simp_all
qed

text \<open>
  C19. A restore reports success only when NiFi confirmed it: it answered the import with the group that the status names, or it reported
  the replacement of that group as complete and without a failure reason, and then the request that was created for it has been deleted again.
\<close>

theorem restore_success_is_confirmed:
  assumes "rest_Phase (ob_Status (obj s)) \<noteq> restorePhaseSucceeded"
  shows "wp (NiFiRestoreReconciler_Reconcile fuel E) (\<lambda>_ s'. rest_Phase (ob_Status (obj s')) = restorePhaseSucceeded \<longrightarrow>
    confirmed E s s' (rest_RestoredProcessGroupID (ob_Status (obj s')))) s"
proof -
  have same: "restored_ok E s s'" if "obj s' = obj s" for s' using that assms by (simp add: restored_ok_def)
  have source: "wp (resolveRestoreSource E) (\<lambda>_ s'. obj s' = obj s \<and> extends s s') s1" if "obj s1 = obj s" "extends s s1" for s1
    unfolding resolveRestoreSource_def readFlowArtifact_def Let_def
    by (intro wp_bindI wp_get_objI wp_ifI wp_ext_callI wp_case_sumI wp_case_optionI wp_returnI)
       (use that in \<open>auto simp: extends_def\<close>)
  have root: "wp (group_or_root E (markRestoreFailed E) i (restore_snapshot fuel E snapshot)) (\<lambda>_ s'. restored_ok E s s') s1"
    if "obj s1 = obj s" "extends s s1" for i snapshot s1
    unfolding group_or_root_def b_GetProcessGroup_def
    by (intro wp_ifI wp_bindI wp_ext_callI wp_case_sumI wp_case_optionI wp_returnI restore_snapshot_ok restore_failed_ok same)
       (use that assms in \<open>auto simp: extends_def\<close>)
  have from_source: "wp (restore_from_source fuel E) (\<lambda>_ s'. restored_ok E s s') s1" if "obj s1 = obj s" "extends s s1" for s1
    unfolding restore_from_source_def
    by (intro wp_bindI wp_get_objI wp_mono [OF source [OF that]] split_run_end wp_case_sumI wp_case_prodI wp_ifI wp_returnI
          restore_failed_ok restore_waiting_ok root same) auto
  have "wp (NiFiRestoreReconciler_Reconcile fuel E) (\<lambda>_ s'. restored_ok E s s') s"
    unfolding NiFiRestoreReconciler_Reconcile_def with_backup_cluster_def
    by (intro wp_bindI wp_get_objI wp_ifI wp_returnI wp_mono [OF reference_read] wp_case_sumI wp_case_prodI wp_case_optionI
          restore_failed_ok restore_waiting_ok from_source same refl) auto
  then show ?thesis by (simp add: restored_ok_def)
qed

section \<open>Examples\<close>

definition sample_group :: "string \<Rightarrow> ProcessGroupEntity" where
  "sample_group i = \<lparr>pg_ID = i, pg_Revision = \<lparr>re_Version = 3\<rparr>,
     pg_Component = \<lparr>pgc_ID = i, pgc_ParentGroupID = ''root'', pgc_Name = ''flow'', pgc_Comments = '''', pgc_Position = None, pgc_ParameterContext = None\<rparr>,
     pg_RunningCount = 0, pg_StoppedCount = 0, pg_InvalidCount = 0, pg_DisabledCount = 0\<rparr>"

definition sample_backup :: "string \<Rightarrow> string \<Rightarrow> NiFiBackup" where
  \<comment> \<open>a backup of the group \<open>pg\<close> to a Secret, in the given phase and with the given digest\<close>
  "sample_backup phase digest = component_resource (component_status '''' 0)
     \<lparr>bk_ClusterRef = component_ref, bk_ProcessGroupID = ''pg'', bk_Storage = \<lparr>bks_Type = ''Secret'', bks_Name = ''''\<rparr>\<rparr>
     \<lparr>bst_Phase = phase, bst_ProcessGroupID = ''pg'', bst_StorageRef = ''obj-flow'', bst_StorageType = ''Secret'', bst_Digest = digest,
       bst_SizeBytes = 4, bst_CompletedTime = None\<rparr>"

definition sample_restore :: NiFiRestore where
  "sample_restore = component_resource (component_status '''' 0)
     \<lparr>re_ClusterRef = component_ref, re_Source = \<lparr>rsrc_BackupRef = ''obj'', rsrc_StorageRef = None\<rparr>, re_TargetProcessGroupID = ''pg'', re_Mode = ''Replace''\<rparr>
     \<lparr>rest_Phase = '''', rest_RestoredProcessGroupID = '''', rest_CompletedTime = None\<rparr>"

definition sample_benv :: "NiFiBackup \<Rightarrow> 'o benv" where
  \<comment> \<open>every call takes a second; NiFi delivers the flow \<open>flow\<close> and completes replacements, the API server holds the given backup and its Secret\<close>
  "sample_benv backup = \<lparr>be_Now = (\<lambda>log. int (length log) * second), be_Cancelled = (\<lambda>_. False), be_SHA256 = (\<lambda>x. rev x),
     be_GetCluster = (\<lambda>_ _ _. Inr component_cluster), be_ConfigureClusterHTTPClient = (\<lambda>_ _. None),
     be_GetProcessGroup = (\<lambda>i _. Inr (Some (sample_group i))), be_DownloadProcessGroup = (\<lambda>_ _. Inr ''flow''), be_CreateOrUpdate = (\<lambda>_ _. None),
     be_GetBackup = (\<lambda>_ _ _. Inr backup), be_GetSecret = (\<lambda>_ _ _. Inr [(flowSnapshotKey, ''flow'')]),
     be_GetConfigMap = (\<lambda>_ _ _. Inl (GoErr NotFound ''not found'')), be_ImportProcessGroup = (\<lambda>_ _ _. Inr (Some (sample_group ''new''))),
     be_CreateReplaceRequest = (\<lambda>_ _ _ _. Inr (Some \<lparr>rr_RequestID = ''r'', rr_Complete = False, rr_FailureReason = '''', rr_PercentCompleted = 0, rr_State = ''''\<rparr>)),
     be_GetReplaceRequest = (\<lambda>_ _. Inr (Some \<lparr>rr_RequestID = ''r'', rr_Complete = True, rr_FailureReason = '''', rr_PercentCompleted = 100, rr_State = ''''\<rparr>)),
     be_StatusUpdate = (\<lambda>_ _. None)\<rparr>"

lemmas backup_sample_defs = sample_group_def sample_backup_def sample_restore_def sample_benv_def component_defs start_run_def

definition sample_backed :: "(NiFiBackupSpec, NiFiBackupStatus) bstate" where
  "sample_backed = snd (run_state (NiFiBackupReconciler_Reconcile (sample_benv (sample_backup '''' ''''))) (start_run (sample_backup '''' '''')))"

definition sample_restored :: "(NiFiRestoreSpec, NiFiRestoreStatus) bstate" where
  "sample_restored = snd (run_state (NiFiRestoreReconciler_Reconcile (Suc 0) (sample_benv (sample_backup ''Succeeded'' ''wolf''))) (start_run sample_restore))"

lemmas backup_run_defs = NiFiBackupReconciler_Reconcile_def NiFiRestoreReconciler_Reconcile_def with_backup_cluster_def readyClusterForReference_def
  clusterDependency_def b_call_defs backup_sample_defs backup_consts restore_from_source_def resolveRestoreSource_def readFlowArtifact_def group_or_root_def
  restore_snapshot_def replaceProcessGroup_def markRestoreSucceeded_def markBackupSucceeded_def capture_group_def writeBackupArtifact_def
  backupStorageTarget_def map_value_def or_default_def clusterEndpoint_def second_def restoreReplaceTimeout_def Let_def

lemma sample_backed_facts:
  "bst_Phase (ob_Status (obj sample_backed)) = ''Succeeded''"
  "BCreateOrUpdate a \<in> set (calls sample_backed) \<longleftrightarrow> a = backup_artifact (sample_backup '''' '''') ''flow''"
  by (simp_all add: sample_backed_def backup_run_defs backup_artifact_def)

lemma sample_restored_facts:
  "rest_Phase (ob_Status (obj sample_restored)) = ''Succeeded''" "rest_RestoredProcessGroupID (ob_Status (obj sample_restored)) = ''pg''"
  by (simp_all add: sample_restored_def backup_run_defs)

lemma sample_runs:
  "run_state (NiFiBackupReconciler_Reconcile (sample_benv (sample_backup '''' ''''))) (start_run (sample_backup '''' '''')) =
     (fst (run_state (NiFiBackupReconciler_Reconcile (sample_benv (sample_backup '''' ''''))) (start_run (sample_backup '''' ''''))), sample_backed)"
  "run_state (NiFiRestoreReconciler_Reconcile (Suc 0) (sample_benv (sample_backup ''Succeeded'' ''wolf''))) (start_run sample_restore) =
     (fst (run_state (NiFiRestoreReconciler_Reconcile (Suc 0) (sample_benv (sample_backup ''Succeeded'' ''wolf''))) (start_run sample_restore)), sample_restored)"
  by (simp_all add: sample_backed_def sample_restored_def)

lemma fresh_samples: "bst_Phase (ob_Status (sample_backup '''' '''')) \<noteq> backupPhaseSucceeded" "rest_Phase (ob_Status sample_restore) \<noteq> restorePhaseSucceeded"
  by (simp_all add: backup_sample_defs backup_consts)

lemma backup_reports_what_it_stored_witness:
  "\<exists>snapshot. backed_up (sample_benv (sample_backup '''' '''')) (start_run (sample_backup '''' '''')) sample_backed snapshot"
  using wp_run [OF backup_reports_what_it_stored sample_runs(1)] fresh_samples(1) sample_backed_facts(1) by (simp add: backupPhaseSucceeded_def)

lemma restore_success_is_confirmed_witness:
  "confirmed (sample_benv (sample_backup ''Succeeded'' ''wolf'')) (start_run sample_restore) sample_restored ''pg''"
  using wp_run [OF restore_success_is_confirmed sample_runs(2)] fresh_samples(2) sample_restored_facts by (simp add: restorePhaseSucceeded_def)

lemma sample_backed_ready: "ready_to_restore (sample_benv (obj sample_backed)) (obj (start_run sample_restore))"
  by (auto simp: ready_to_restore_def backup_sample_defs backup_consts clusterEndpoint_def)

lemma sent_start: "sent (start_run d) = []"
  unfolding sent_def by simp

lemma sample_flow_downloaded:
  "asked (BDownloadProcessGroup i) (be_DownloadProcessGroup (sample_benv (sample_backup '''' '''') :: backup_env) i) (\<lambda>a. a = Inr snapshot)
     (start_run (sample_backup '''' '''')) sample_backed \<Longrightarrow> snapshot = ''flow''"
  by (auto simp: asked_def sample_benv_def)

lemma sample_serves:
  "BCreateOrUpdate a \<in> set (new_calls (start_run (sample_backup '''' '''')) sample_backed) \<Longrightarrow> serves (sample_benv (obj sample_backed)) a"
  by (auto simp: new_calls_def sample_backed_facts(2) serves_def backup_artifact_def backupStorageTarget_def or_default_def backup_sample_defs backup_consts)

lemma backup_restore_roundtrip_witness:
  "\<exists>i. asked (BDownloadProcessGroup i) (be_DownloadProcessGroup (sample_benv (sample_backup '''' '''') :: backup_env) i) (\<lambda>a. a = Inr ''flow'')
       (start_run (sample_backup '''' '''')) sample_backed \<and>
     wp (NiFiRestoreReconciler_Reconcile 302 (sample_benv (obj sample_backed)))
       (\<lambda>_ s'. lawful (sends_only ''flow'') [] (calls s') \<and>
         (\<exists>c. restoring_call (sample_benv (obj sample_backed)) sample_restore ''flow'' c \<and> sent s' = [c]))
       (start_run sample_restore)"
proof -
  let ?s = "start_run sample_restore :: (NiFiRestoreSpec, NiFiRestoreStatus) bstate"
  let ?E = "sample_benv (obj sample_backed) :: restore_env"
  have "\<exists>i snapshot. asked (BDownloadProcessGroup i) (be_DownloadProcessGroup (sample_benv (sample_backup '''' '''') :: backup_env) i) (\<lambda>a. a = Inr snapshot)
       (start_run (sample_backup '''' '''')) sample_backed \<and>
    wp (NiFiRestoreReconciler_Reconcile 302 ?E) (\<lambda>_ s'. lawful (sends_only snapshot) (calls ?s) (calls s') \<and>
      (ready_to_restore ?E (obj ?s) \<and> snapshot \<noteq> '''' \<longrightarrow> (\<exists>c. restoring_call ?E (obj ?s) snapshot c \<and> sent s' = sent ?s @ [c]))) ?s"
  proof (rule backup_restore_roundtrip [OF sample_runs(1)])
    show "serves ?E a" if "BCreateOrUpdate a \<in> set (new_calls (start_run (sample_backup '''' '''')) sample_backed)" for a
      by (rule sample_serves [OF that])
  qed (simp_all only: start_run_simps fresh_samples sample_backed_facts(1) backupPhaseSucceeded_def, simp_all add: backup_sample_defs)
  then obtain i snapshot where r: "asked (BDownloadProcessGroup i) (be_DownloadProcessGroup (sample_benv (sample_backup '''' '''') :: backup_env) i) (\<lambda>a. a = Inr snapshot)
       (start_run (sample_backup '''' '''')) sample_backed"
    "wp (NiFiRestoreReconciler_Reconcile 302 ?E) (\<lambda>_ s'. lawful (sends_only snapshot) (calls ?s) (calls s') \<and>
      (ready_to_restore ?E (obj ?s) \<and> snapshot \<noteq> '''' \<longrightarrow> (\<exists>c. restoring_call ?E (obj ?s) snapshot c \<and> sent s' = sent ?s @ [c]))) ?s" by blast
  have flow: "snapshot = ''flow''" by (rule sample_flow_downloaded [OF r(1)])
  have "ready_to_restore ?E sample_restore" using sample_backed_ready by simp
  then have "wp (NiFiRestoreReconciler_Reconcile 302 ?E) (\<lambda>_ s'. lawful (sends_only ''flow'') [] (calls s') \<and>
       (\<exists>c. restoring_call ?E sample_restore ''flow'' c \<and> sent s' = [c])) ?s"
    by (intro wp_mono [OF r(2) [unfolded flow]]) (simp add: sent_start)
  with r(1) [unfolded flow] show ?thesis by blast
qed

lemma replacement_ends_witness:
  "time_passes (sample_benv (sample_backup '''' '''') :: restore_env) \<and>
   wp (NiFiRestoreReconciler_Reconcile 302 (sample_benv (sample_backup '''' ''''))) (\<lambda>r _. r \<noteq> Runs_On) (start_run sample_restore)"
proof -
  have "time_passes (sample_benv (sample_backup '''' '''') :: restore_env)"
    by (simp add: time_passes_def sample_benv_def second_def)
  then show ?thesis using replacement_ends [of "sample_benv (sample_backup '''' '''')" 302] by simp
qed

end
