(* ===== verification/Autoscaler.thy ===== *)
theory Autoscaler
  imports Component_Frame Node_Group
begin

text \<open>
  The autoscaler controller (\<open>internal/controller/nifiautoscaler_controller.go\<close> with the object types of
  \<open>pkg/keda/keda.go\<close>). An autoscaler does not scale anything itself: it renders either a KEDA ScaledObject, with
  a TriggerAuthentication for each trigger that needs credentials, or a HorizontalPodAutoscaler, and removes
  what a former configuration rendered. Rendered objects are typed; their conversion to unstructured objects and
  the classification of errors by \<open>apimachinery\<close> are parameters.
\<close>

section \<open>Resource\<close>

record NiFiAutoscalerTarget =
  at_Kind :: string
  at_Name :: string

record PrometheusAuthentication =
  pa_Mode :: string
  pa_SecretName :: string
  pa_BearerTokenKey :: string
  pa_UsernameKey :: string
  pa_PasswordKey :: string
  pa_CAKey :: string
  pa_CertKey :: string
  pa_KeyKey :: string

record PrometheusMetricSource =
  pm_ServerAddress :: string
  pm_Query :: string
  pm_Threshold :: string
  pm_Name :: string
  pm_Authentication :: "PrometheusAuthentication option"
  pm_UnsafeSSL :: bool

record ResourceMetricSource =
  rm_Name :: string
  rm_TargetAverageUtilization :: int

record NiFiAutoscalerMetric =
  am_Type :: string
  am_Prometheus :: "PrometheusMetricSource option"
  am_Resource :: "ResourceMetricSource option"

record NiFiAutoscalerBehavior =
  ab_ScaleDownStrategy :: string
  ab_StabilizationSeconds :: int
  ab_MaxNodesPerStep :: int
  ab_ScaleDownPeriodSeconds :: int

record NiFiAutoscalerSpec =
  as_Target :: NiFiAutoscalerTarget
  as_MinReplicas :: int
  as_MaxReplicas :: int
  as_Metrics :: "NiFiAutoscalerMetric list"
  as_Behavior :: "NiFiAutoscalerBehavior option"
  as_PollingInterval :: "int option"

record NiFiAutoscalerStatus =
  ast_Mode :: string
  ast_ScaledObjectName :: string
  ast_HPAName :: string
  ast_CurrentReplicas :: int
  ast_DesiredReplicas :: int
  ast_LastScaleTime :: "go_time option"

type_synonym NiFiAutoscaler = "(NiFiAutoscalerSpec, NiFiAutoscalerStatus) resource"

section \<open>Rendered objects\<close>

record ScaleTargetRef =
  str_APIVersion :: string
  str_Kind :: string
  str_Name :: string

record SecretTargetRef =
  sr_Parameter :: string
  sr_Name :: string
  sr_Key :: string

record Trigger =
  tg_Type :: string
  tg_Name :: string
  tg_Metadata :: go_map
  tg_AuthenticationRef :: "string option" \<comment> \<open>\<open>*AuthenticationRef\<close>, of which only the name is set\<close>

record HPAScalingPolicy =
  hp_Type :: string
  hp_Value :: int
  hp_PeriodSeconds :: int

record HPAScalingRules =
  hr_StabilizationWindowSeconds :: "int option"
  hr_Policies :: "HPAScalingPolicy list"

record ScaledObjectSpec =
  so_ScaleTargetRef :: ScaleTargetRef
  so_MinReplicaCount :: "int option"
  so_MaxReplicaCount :: "int option"
  so_PollingInterval :: "int option"
  so_ScaleDown :: HPAScalingRules \<comment> \<open>the one field of \<open>Advanced\<close> that is set\<close>
  so_Triggers :: "Trigger list"

record HPASpec =
  \<comment> \<open>what the controller sets in the spec of a HorizontalPodAutoscaler\<close>
  hs_ScaleTargetRef :: ScaleTargetRef
  hs_MinReplicas :: "int option"
  hs_MaxReplicas :: int
  hs_Metrics :: "(string \<times> int) list" \<comment> \<open>resource and average utilization\<close>
  hs_ScaleDown :: HPAScalingRules

datatype rendered = TriggerAuthentication "SecretTargetRef list" | ScaledObject ScaledObjectSpec | HorizontalPodAutoscaler HPASpec

record OwnedObject =
  oo_Name :: string
  oo_Namespace :: string
  oo_Labels :: go_map
  oo_Spec :: rendered

section \<open>Calls and environment\<close>

record ScalableCluster = ManagedCluster +
  sc_StatusReplicas :: int

datatype owned_kind = KindTriggerAuthentication | KindScaledObject | KindHPA

datatype acall =
    AGetNodeGroup string string
  | AGetCluster string string
  | ADelete owned_kind string string \<comment> \<open>by namespace and name\<close>
  | ACreateOrUpdate OwnedObject string \<comment> \<open>with the name of the autoscaler that becomes its controller\<close>
  | AListAuths string string \<comment> \<open>in a namespace, by the label of the autoscaler\<close>
  | AStatusUpdate NiFiAutoscaler
  | AEvent string string

record aenv =
  ae_Now :: "acall list \<Rightarrow> go_time"
  ae_Sha256Hex :: "string \<Rightarrow> string"
  ae_ToUnstructured :: "rendered \<Rightarrow> go_error option"
  ae_IsNoMatchError :: "go_error \<Rightarrow> bool"
  ae_IsNotRegisteredError :: "go_error \<Rightarrow> bool"
  ae_StatusDetails :: "go_error \<Rightarrow> (string \<times> string) option" \<comment> \<open>name and kind in the details of a \<open>StatusError\<close>\<close>
  ae_GetNodeGroup :: "string \<Rightarrow> string \<Rightarrow> acall list \<Rightarrow> NiFiNodeGroup go_result"
  ae_GetCluster :: "string \<Rightarrow> string \<Rightarrow> acall list \<Rightarrow> ScalableCluster go_result"
  ae_Delete :: "owned_kind \<Rightarrow> string \<Rightarrow> string \<Rightarrow> acall list \<Rightarrow> go_error option"
  ae_CreateOrUpdate :: "OwnedObject \<Rightarrow> string \<Rightarrow> acall list \<Rightarrow> go_error option"
  ae_ListAuths :: "string \<Rightarrow> string \<Rightarrow> acall list \<Rightarrow> string list go_result"
  ae_StatusUpdate :: "NiFiAutoscaler \<Rightarrow> acall list \<Rightarrow> go_error option"

type_synonym 'a auto_handler = "(acall, NiFiAutoscaler, 'a) handler"

definition a_delete :: "aenv \<Rightarrow> owned_kind \<Rightarrow> string \<Rightarrow> string \<Rightarrow> go_error option auto_handler" where
  "a_delete E k ns n = ext_call (ADelete k ns n) (ae_Delete E k ns n)"

definition a_event :: "string \<Rightarrow> string \<Rightarrow> unit auto_handler" where
  "a_event reason message = ext_call (AEvent reason message) (\<lambda>_. ())"

definition a_StatusUpdate :: "aenv \<Rightarrow> go_error option auto_handler" where
  "a_StatusUpdate E = do { d \<leftarrow> get_obj; ext_call (AStatusUpdate d) (ae_StatusUpdate E d) }"

lemmas a_call_defs = a_delete_def a_event_def a_StatusUpdate_def

section \<open>pkg/keda\<close>

definition IsCRDNotInstalled :: "aenv \<Rightarrow> go_error \<Rightarrow> bool" where
  "IsCRDNotInstalled E err =
     (if ae_IsNoMatchError E err then True
      else if ae_IsNotRegisteredError E err then True
      else if IsNotFound err then (case ae_StatusDetails E err of Some (name, kind) \<Rightarrow> name = '''' \<and> kind \<noteq> '''' | None \<Rightarrow> False)
      else False)"

definition NewScaledObject :: "aenv \<Rightarrow> string \<Rightarrow> string \<Rightarrow> go_map \<Rightarrow> ScaledObjectSpec \<Rightarrow> OwnedObject go_result" where
  "NewScaledObject E name namespace labels spec = (case ae_ToUnstructured E (ScaledObject spec) of
      Some err \<Rightarrow> Inl (wrapf ''convert ScaledObject spec: '' err)
    | None \<Rightarrow> Inr \<lparr>oo_Name = name, oo_Namespace = namespace, oo_Labels = labels, oo_Spec = ScaledObject spec\<rparr>)"

definition NewTriggerAuthenticationObject :: "aenv \<Rightarrow> string \<Rightarrow> string \<Rightarrow> go_map \<Rightarrow> SecretTargetRef list \<Rightarrow> OwnedObject go_result" where
  "NewTriggerAuthenticationObject E name namespace labels refs = (case ae_ToUnstructured E (TriggerAuthentication refs) of
      Some err \<Rightarrow> Inl (wrapf ''convert TriggerAuthentication spec: '' err)
    | None \<Rightarrow> Inr \<lparr>oo_Name = name, oo_Namespace = namespace, oo_Labels = labels, oo_Spec = TriggerAuthentication refs\<rparr>)"

section \<open>Rendering\<close>

definition autoscalerModeKEDA :: string where "autoscalerModeKEDA = ''KEDA''"
definition autoscalerModeHPA :: string where "autoscalerModeHPA = ''HPA''"

definition metric_count :: "string \<Rightarrow> NiFiAutoscaler \<Rightarrow> nat" where
  "metric_count t instance = length (filter (\<lambda>m. am_Type m = t) (as_Metrics (ob_Spec instance)))"

definition autoscalerMode :: "NiFiAutoscaler \<Rightarrow> string \<times> string \<times> string" where
  "autoscalerMode instance =
     (let prometheus = metric_count ''Prometheus'' instance; resource = metric_count ''Resource'' instance in
      if 0 < prometheus \<and> 0 < resource
      then ('''', ''MixedMetricTypes'', ''Mix Prometheus and Resource metrics is not supported; use one family per NiFiAutoscaler.'')
      else if 0 < prometheus then (autoscalerModeKEDA, '''', '''')
      else if 0 < resource then (autoscalerModeHPA, '''', '''')
      else ('''', ''NoMetrics'', ''At least one Prometheus or Resource metric is required.''))"

definition autoscalerResourceName :: "aenv \<Rightarrow> NiFiAutoscaler \<Rightarrow> string go_result" where
  "autoscalerResourceName E instance = boundedManagedName (ae_Sha256Hex E) (ob_Name instance) ''nifiautoscaler''"

definition autoscalerMinReplicas :: "NiFiAutoscaler \<Rightarrow> int" where
  "autoscalerMinReplicas instance = (if as_MinReplicas (ob_Spec instance) > 0 then as_MinReplicas (ob_Spec instance) else 1)"

definition behaviorDefaults :: "NiFiAutoscaler \<Rightarrow> int \<times> int \<times> int" where
  "behaviorDefaults instance = (case as_Behavior (ob_Spec instance) of
      None \<Rightarrow> (300, 1, 300)
    | Some b \<Rightarrow>
       (if ab_StabilizationSeconds b \<ge> 0 \<and> (ab_StabilizationSeconds b \<noteq> 0 \<or> ab_MaxNodesPerStep b \<noteq> 0) then ab_StabilizationSeconds b else 300,
        if ab_MaxNodesPerStep b > 0 then ab_MaxNodesPerStep b else 1,
        if ab_ScaleDownPeriodSeconds b > 0 then ab_ScaleDownPeriodSeconds b else 300))"

definition autoscalerTargetAPIVersion :: string where
  "autoscalerTargetAPIVersion = ''nifi.controlnifi.io'' @ ''/'' @ ''v1alpha1''"

definition autoscalerLabels :: "NiFiAutoscaler \<Rightarrow> go_map" where
  "autoscalerLabels instance = [(''app.kubernetes.io/managed-by'', ''nificontrol''), (''app.kubernetes.io/component'', ''autoscaler''),
     (''nifi.controlnifi.io/nifiautoscaler'', ob_Name instance)]"

definition autoscalerAuthName :: "aenv \<Rightarrow> NiFiAutoscaler \<Rightarrow> string \<Rightarrow> string go_result" where
  "autoscalerAuthName E instance triggerName = boundedManagedName (ae_Sha256Hex E) (ob_Name instance @ ''-'' @ triggerName) ''auth''"

definition prometheusAuthParams :: "PrometheusAuthentication \<Rightarrow> string \<times> SecretTargetRef list" where
  "prometheusAuthParams a =
     (let ref = (\<lambda>parameter k. \<lparr>sr_Parameter = parameter, sr_Name = pa_SecretName a, sr_Key = k\<rparr>) in
      if pa_Mode a = ''Bearer'' then (''bearer'', [ref ''bearerToken'' (or_default (pa_BearerTokenKey a) ''bearerToken'')])
      else if pa_Mode a = ''Basic'' then
        (''basic'', [ref ''username'' (or_default (pa_UsernameKey a) ''username''), ref ''password'' (or_default (pa_PasswordKey a) ''password'')])
      else if pa_Mode a = ''TLS'' then
        (''tls'', [ref ''ca'' (or_default (pa_CAKey a) ''ca.crt''), ref ''cert'' (or_default (pa_CertKey a) ''tls.crt''),
           ref ''key'' (or_default (pa_KeyKey a) ''tls.key'')])
      else ('''', []))"

definition trigger_name :: "nat \<Rightarrow> PrometheusMetricSource \<Rightarrow> string" where
  "trigger_name i source = (if pm_Name source = '''' then ''prometheus-'' @ show_nat i else pm_Name source)"

definition render_trigger :: "aenv \<Rightarrow> NiFiAutoscaler \<Rightarrow> nat \<Rightarrow> PrometheusMetricSource \<Rightarrow> (Trigger \<times> OwnedObject option) go_result" where
  \<comment> \<open>one pass of the loop of \<open>desiredAutoscalerObjects\<close>\<close>
  "render_trigger E instance i source =
     (let name = trigger_name i source;
          metadata = [(''serverAddress'', pm_ServerAddress source), (''query'', pm_Query source), (''threshold'', pm_Threshold source)] @
            (if pm_UnsafeSSL source then [(''unsafeSsl'', ''true'')] else []) in
      case pm_Authentication source of
        None \<Rightarrow> Inr (\<lparr>tg_Type = ''prometheus'', tg_Name = name, tg_Metadata = metadata, tg_AuthenticationRef = None\<rparr>, None)
      | Some authentication \<Rightarrow> (case autoscalerAuthName E instance name of
          Inl panic \<Rightarrow> Inl panic
        | Inr authName \<Rightarrow>
           (let (authModes, refs) = prometheusAuthParams authentication in
            case NewTriggerAuthenticationObject E authName (ob_Namespace instance) (autoscalerLabels instance) refs of
              Inl err \<Rightarrow> Inl err
            | Inr ta \<Rightarrow> Inr (\<lparr>tg_Type = ''prometheus'', tg_Name = name, tg_Metadata = metadata @ [(''authModes'', authModes)],
                tg_AuthenticationRef = Some authName\<rparr>, Some ta))))"

definition nil_dereference :: go_error where
  "nil_dereference = errorf ''panic: invalid memory address or nil pointer dereference''"

fun render_triggers :: "aenv \<Rightarrow> NiFiAutoscaler \<Rightarrow> nat \<Rightarrow> NiFiAutoscalerMetric list \<Rightarrow> (Trigger list \<times> OwnedObject list) go_result" where
  "render_triggers E instance i [] = Inr ([], [])"
| "render_triggers E instance i (metric # metrics) = (case am_Prometheus metric of
      None \<Rightarrow> Inl nil_dereference
    | Some source \<Rightarrow> (case render_trigger E instance i source of
        Inl err \<Rightarrow> Inl err
      | Inr (trigger, ta) \<Rightarrow> (case render_triggers E instance (Suc i) metrics of
          Inl err \<Rightarrow> Inl err
        | Inr (triggers, auths) \<Rightarrow> Inr (trigger # triggers, (case ta of Some a \<Rightarrow> [a] | None \<Rightarrow> []) @ auths))))"

definition scale_target :: "NiFiAutoscaler \<Rightarrow> ScaleTargetRef" where
  "scale_target instance = \<lparr>str_APIVersion = autoscalerTargetAPIVersion, str_Kind = at_Kind (as_Target (ob_Spec instance)),
     str_Name = at_Name (as_Target (ob_Spec instance))\<rparr>"

definition scale_down_rules :: "NiFiAutoscaler \<Rightarrow> HPAScalingRules" where
  "scale_down_rules instance = (case behaviorDefaults instance of (stabilization, maxNodes, period) \<Rightarrow>
     \<lparr>hr_StabilizationWindowSeconds = Some stabilization,
      hr_Policies = [\<lparr>hp_Type = ''Pods'', hp_Value = maxNodes, hp_PeriodSeconds = period\<rparr>]\<rparr>)"

definition desiredAutoscalerObjects :: "aenv \<Rightarrow> NiFiAutoscaler \<Rightarrow> (OwnedObject \<times> OwnedObject list) go_result" where
  "desiredAutoscalerObjects E instance =
     (case render_triggers E instance 0 (as_Metrics (ob_Spec instance)) of
        Inl err \<Rightarrow> Inl err
      | Inr (triggers, auths) \<Rightarrow>
         (let spec = \<lparr>so_ScaleTargetRef = scale_target instance, so_MinReplicaCount = Some (autoscalerMinReplicas instance),
                so_MaxReplicaCount = Some (as_MaxReplicas (ob_Spec instance)), so_PollingInterval = as_PollingInterval (ob_Spec instance),
                so_ScaleDown = scale_down_rules instance, so_Triggers = triggers\<rparr> in
          case autoscalerResourceName E instance of
            Inl panic \<Rightarrow> Inl panic
          | Inr name \<Rightarrow> (case NewScaledObject E name (ob_Namespace instance) (autoscalerLabels instance) spec of
              Inl err \<Rightarrow> Inl err
            | Inr so \<Rightarrow> Inr (so, auths))))"

fun hpa_metrics :: "NiFiAutoscalerMetric list \<Rightarrow> (string \<times> int) list go_result" where
  "hpa_metrics [] = Inr []"
| "hpa_metrics (metric # metrics) = (case am_Resource metric of
      None \<Rightarrow> Inl nil_dereference
    | Some source \<Rightarrow> (case hpa_metrics metrics of Inl err \<Rightarrow> Inl err | Inr ms \<Rightarrow> Inr ((rm_Name source, rm_TargetAverageUtilization source) # ms)))"

section \<open>Applying and removing\<close>

definition applyOwnedObject :: "aenv \<Rightarrow> OwnedObject \<Rightarrow> go_error option auto_handler" where
  "applyOwnedObject E desired = do {
     instance \<leftarrow> get_obj;
     ext_call (ACreateOrUpdate desired (ob_Name instance)) (ae_CreateOrUpdate E desired (ob_Name instance)) }"

fun apply_auths :: "aenv \<Rightarrow> OwnedObject list \<Rightarrow> go_error option auto_handler" where
  "apply_auths E [] = ret None"
| "apply_auths E (ta # auths) = do {
     e \<leftarrow> applyOwnedObject E ta;
     (case e of Some err \<Rightarrow> ret (Some err) | None \<Rightarrow> apply_auths E auths) }"

fun prune_auths :: "aenv \<Rightarrow> string \<Rightarrow> string list \<Rightarrow> string list \<Rightarrow> go_error option auto_handler" where
  "prune_auths E namespace keep [] = ret None"
| "prune_auths E namespace keep (item # items) =
     (if item \<in> set keep then prune_auths E namespace keep items
      else do {
        e \<leftarrow> a_delete E KindTriggerAuthentication namespace item;
        (if delete_failed e then ret e else prune_auths E namespace keep items) })"

definition pruneOwnedTriggerAuths :: "aenv \<Rightarrow> string list \<Rightarrow> go_error option auto_handler" where
  "pruneOwnedTriggerAuths E keep = do {
     instance \<leftarrow> get_obj;
     l \<leftarrow> ext_call (AListAuths (ob_Namespace instance) (ob_Name instance)) (ae_ListAuths E (ob_Namespace instance) (ob_Name instance));
     (case l of
        Inl err \<Rightarrow> ret (if IsCRDNotInstalled E err then None else Some err)
      | Inr items \<Rightarrow> prune_auths E (ob_Namespace instance) keep items) }"

definition applyHPA :: "aenv \<Rightarrow> go_error option auto_handler" where
  "applyHPA E = do {
     instance \<leftarrow> get_obj;
     (case autoscalerResourceName E instance of
        Inl panic \<Rightarrow> ret (Some panic)
      | Inr name \<Rightarrow> (case hpa_metrics (as_Metrics (ob_Spec instance)) of
          Inl panic \<Rightarrow> ret (Some panic)
        | Inr metrics \<Rightarrow> applyOwnedObject E \<lparr>oo_Name = name, oo_Namespace = ob_Namespace instance, oo_Labels = autoscalerLabels instance,
            oo_Spec = HorizontalPodAutoscaler \<lparr>hs_ScaleTargetRef = scale_target instance, hs_MinReplicas = Some (autoscalerMinReplicas instance),
              hs_MaxReplicas = as_MaxReplicas (ob_Spec instance), hs_Metrics = metrics, hs_ScaleDown = scale_down_rules instance\<rparr>\<rparr>)) }"

definition deleteOwnedScaledObject :: "aenv \<Rightarrow> go_error option auto_handler" where
  "deleteOwnedScaledObject E = do {
     instance \<leftarrow> get_obj;
     (case autoscalerResourceName E instance of
        Inl panic \<Rightarrow> ret (Some panic)
      | Inr name \<Rightarrow> do {
          e \<leftarrow> a_delete E KindScaledObject (ob_Namespace instance) name;
          ret (case e of Some err \<Rightarrow> (if IsNotFound err \<or> IsCRDNotInstalled E err then None else Some err) | None \<Rightarrow> None) }) }"

definition deleteOwnedHPA :: "aenv \<Rightarrow> go_error option auto_handler" where
  "deleteOwnedHPA E = do {
     instance \<leftarrow> get_obj;
     (case autoscalerResourceName E instance of
        Inl panic \<Rightarrow> ret (Some panic)
      | Inr name \<Rightarrow> do {
          e \<leftarrow> a_delete E KindHPA (ob_Namespace instance) name;
          ret (if delete_failed e then e else None) }) }"

section \<open>Reports\<close>

definition autoscalerStatusMatches :: "NiFiAutoscaler \<Rightarrow> bool \<Rightarrow> string \<Rightarrow> string \<Rightarrow> string \<Rightarrow> string \<Rightarrow> int \<Rightarrow> int \<Rightarrow> bool" where
  "autoscalerStatusMatches instance ready reason mode scaledObjectName hpaName current desired =
     (if cs_ObservedGeneration (ob_Common instance) \<noteq> ob_Generation instance \<or> cs_Ready (ob_Common instance) \<noteq> ready then False
      else if ast_Mode (ob_Status instance) \<noteq> mode \<or> ast_ScaledObjectName (ob_Status instance) \<noteq> scaledObjectName \<or>
        ast_HPAName (ob_Status instance) \<noteq> hpaName then False
      else if ast_CurrentReplicas (ob_Status instance) \<noteq> current \<or> ast_DesiredReplicas (ob_Status instance) \<noteq> desired then False
      else (case find_condition ConditionReady (cs_Conditions (ob_Common instance)) of Some c \<Rightarrow> cd_Reason c = reason | None \<Rightarrow> False))"

definition autoscaler_ready :: "aenv \<Rightarrow> string \<Rightarrow> string \<Rightarrow> string \<Rightarrow> int \<Rightarrow> int \<Rightarrow> outcome auto_handler" where
  "autoscaler_ready E mode scaledObjectName hpaName current desired = do {
     instance \<leftarrow> get_obj;
     let message = ''Autoscaling '' @ at_Kind (as_Target (ob_Spec instance)) @ ''/'' @ at_Name (as_Target (ob_Spec instance)) @ '' via '' @ mode @ '' ('' @
       show_int (autoscalerMinReplicas instance) @ ''-'' @ show_int (as_MaxReplicas (ob_Spec instance)) @ '' replicas).'';
     (if autoscalerStatusMatches instance True ''AutoscalerReady'' mode scaledObjectName hpaName current desired then ret (requeue_after 60, None)
      else do {
        t \<leftarrow> read_clock (ae_Now E);
        upd_obj (\<lambda>d. d\<lparr>ob_Common := set_last_error '''' (MarkReady t (ob_Generation d) ''AutoscalerReady'' message (ob_Common d)),
          ob_Status := (ob_Status d)\<lparr>ast_Mode := mode, ast_ScaledObjectName := scaledObjectName, ast_HPAName := hpaName,
            ast_CurrentReplicas := current, ast_DesiredReplicas := desired\<rparr>\<rparr>);
        e \<leftarrow> a_StatusUpdate E;
        (if e \<noteq> None then ret (no_result, e)
         else do { a_event ''AutoscalerReady'' message; ret (requeue_after 60, None) }) }) }"

definition autoscaler_notReady :: "aenv \<Rightarrow> string \<Rightarrow> string \<Rightarrow> outcome auto_handler" where
  "autoscaler_notReady E reason message = do {
     instance \<leftarrow> get_obj;
     let st = ob_Status instance;
     (if autoscalerStatusMatches instance False reason (ast_Mode st) (ast_ScaledObjectName st) (ast_HPAName st) (ast_CurrentReplicas st) (ast_DesiredReplicas st)
      then ret (requeue_after 30, None)
      else do {
        t \<leftarrow> read_clock (ae_Now E);
        upd_obj (\<lambda>d. d\<lparr>ob_Common := set_last_error message (MarkNotReady t (ob_Generation d) reason message (ob_Common d))\<rparr>);
        e \<leftarrow> a_StatusUpdate E;
        (if e \<noteq> None then ret (no_result, e)
         else do { a_event reason message; ret (requeue_after 30, None) }) }) }"

section \<open>Reconcile\<close>

record target_state =
  ts_current :: int
  ts_desired :: int
  ts_managed :: bool
  ts_found :: bool

definition no_target :: target_state where
  "no_target = \<lparr>ts_current = 0, ts_desired = 0, ts_managed = False, ts_found = False\<rparr>"

definition resolveTarget :: "aenv \<Rightarrow> target_state go_result auto_handler" where
  "resolveTarget E = do {
     instance \<leftarrow> get_obj;
     let name = at_Name (as_Target (ob_Spec instance));
     (if at_Kind (as_Target (ob_Spec instance)) = ''NiFiNodeGroup'' then do {
        r \<leftarrow> ext_call (AGetNodeGroup (ob_Namespace instance) name) (ae_GetNodeGroup E (ob_Namespace instance) name);
        ret (case r of
           Inl err \<Rightarrow> (if IsNotFound err then Inr no_target else Inl err)
         | Inr g \<Rightarrow> Inr \<lparr>ts_current = ng_StatusReplicas g, ts_desired = ng_Replicas g, ts_managed = True, ts_found = True\<rparr>) }
      else do {
        r \<leftarrow> ext_call (AGetCluster (ob_Namespace instance) name) (ae_GetCluster E (ob_Namespace instance) name);
        ret (case r of
           Inl err \<Rightarrow> (if IsNotFound err then Inr no_target else Inl err)
         | Inr c \<Rightarrow> Inr \<lparr>ts_current = sc_StatusReplicas c, ts_desired = managedClusterReplicas (ManagedCluster.truncate c),
             ts_managed = (resolvedClusterMode (ManagedCluster.truncate c) = ''Internal''), ts_found = True\<rparr>) }) }"

definition keda_missing :: "aenv \<Rightarrow> go_error \<Rightarrow> outcome auto_handler" where
  "keda_missing E err =
     (if IsCRDNotInstalled E err
      then autoscaler_notReady E ''KEDANotInstalled'' ''KEDA CRDs (keda.sh) are not installed; install KEDA to autoscale on Prometheus/external metrics.''
      else ret (no_result, Some err))"

definition finish_keda :: "aenv \<Rightarrow> target_state \<Rightarrow> string \<Rightarrow> string list \<Rightarrow> outcome auto_handler" where
  "finish_keda E t name keep = do {
     p \<leftarrow> pruneOwnedTriggerAuths E keep;
     (if p \<noteq> None then ret (no_result, p) else autoscaler_ready E autoscalerModeKEDA name '''' (ts_current t) (ts_desired t)) }"

definition apply_keda :: "aenv \<Rightarrow> target_state \<Rightarrow> outcome auto_handler" where
  "apply_keda E t = do {
     instance \<leftarrow> get_obj;
     (case desiredAutoscalerObjects E instance of
        Inl err \<Rightarrow> ret (no_result, Some err)
      | Inr (so, auths) \<Rightarrow> do {
          a \<leftarrow> apply_auths E auths;
          (case a of
             Some err \<Rightarrow> keda_missing E err
           | None \<Rightarrow> do {
               a \<leftarrow> applyOwnedObject E so;
               (case a of
                  Some err \<Rightarrow> keda_missing E err
                | None \<Rightarrow> finish_keda E t (oo_Name so) (map oo_Name auths)) }) }) }"

definition reconcile_keda :: "aenv \<Rightarrow> target_state \<Rightarrow> outcome auto_handler" where
  "reconcile_keda E t = do {
     e \<leftarrow> deleteOwnedHPA E;
     (if e \<noteq> None then ret (no_result, e) else apply_keda E t) }"

definition reconcile_hpa :: "aenv \<Rightarrow> target_state \<Rightarrow> outcome auto_handler" where
  "reconcile_hpa E t = do {
     e \<leftarrow> deleteOwnedScaledObject E;
     (if e \<noteq> None then ret (no_result, e)
      else do {
        p \<leftarrow> pruneOwnedTriggerAuths E [];
        (if p \<noteq> None then ret (no_result, p)
         else do {
           a \<leftarrow> applyHPA E;
           (if a \<noteq> None then ret (no_result, a)
            else do {
              instance \<leftarrow> get_obj;
              (case autoscalerResourceName E instance of
                 Inl panic \<Rightarrow> ret (no_result, Some panic)
               | Inr name \<Rightarrow> autoscaler_ready E autoscalerModeHPA '''' name (ts_current t) (ts_desired t)) }) }) }) }"

definition NiFiAutoscalerReconciler_Reconcile :: "aenv \<Rightarrow> outcome auto_handler" where
  "NiFiAutoscalerReconciler_Reconcile E = do {
     instance \<leftarrow> get_obj;
     (if ob_Deleting instance then ret (no_result, None)
      else do {
        r \<leftarrow> resolveTarget E;
        (case r of
           Inl err \<Rightarrow> ret (no_result, Some err)
         | Inr t \<Rightarrow>
            (if \<not> ts_found t
             then autoscaler_notReady E ''TargetNotFound'' (at_Kind (as_Target (ob_Spec instance)) @ '' '' @ quoteq (at_Name (as_Target (ob_Spec instance))) @
                    '' was not found in namespace '' @ quoteq (ob_Namespace instance) @ ''.'')
             else if \<not> ts_managed t
             then autoscaler_notReady E ''TargetNotScalable'' ''The target NiFiCluster must be operator-managed (mode Internal) to be autoscaled.''
             else (case autoscalerMode instance of (mode, reason, message) \<Rightarrow>
               (if mode = '''' then autoscaler_notReady E reason message
                else if mode = autoscalerModeKEDA then reconcile_keda E t
                else if mode = autoscalerModeHPA then reconcile_hpa E t
                else ret (no_result, None))))) }) }"

section \<open>Watches\<close>

definition requestsForTarget :: "string \<Rightarrow> string \<times> string \<Rightarrow> NiFiAutoscaler list \<Rightarrow> (string \<times> string) list" where
  \<comment> \<open>for a changed object, by namespace and name; the list is that of all autoscalers\<close>
  "requestsForTarget kind' changed autoscalers =
     [(ob_Namespace a, ob_Name a). a \<leftarrow> autoscalers, ob_Namespace a = fst changed,
        or_default (at_Kind (as_Target (ob_Spec a))) ''NiFiCluster'' = kind' \<and> at_Name (as_Target (ob_Spec a)) = snd changed]"

end
