(* ===== verification/Autoscaler_Facts.thy ===== *)
theory Autoscaler_Facts
  imports Component_Laws Component_Sample Autoscaler
begin

text \<open>
  Autoscalers: an autoscaler never has both of its backends, the credentials that its triggers refer to exist, the
  rendered scaling is bounded whatever the spec leaves out, and each trigger gets its own credentials if their names differ.
\<close>

section \<open>One backend at a time\<close>

definition rendered_kind :: "rendered \<Rightarrow> owned_kind" where
  "rendered_kind r = (case r of TriggerAuthentication _ \<Rightarrow> KindTriggerAuthentication | ScaledObject _ \<Rightarrow> KindScaledObject | HorizontalPodAutoscaler _ \<Rightarrow> KindHPA)"

lemma rendered_kind_simps [simp]:
  "rendered_kind (TriggerAuthentication r) = KindTriggerAuthentication" "rendered_kind (ScaledObject so) = KindScaledObject"
  "rendered_kind (HorizontalPodAutoscaler h) = KindHPA"
  by (simp_all add: rendered_kind_def)

definition makes :: "owned_kind \<Rightarrow> acall \<Rightarrow> bool" where
  "makes k c \<longleftrightarrow> (case c of ACreateOrUpdate d _ \<Rightarrow> rendered_kind (oo_Spec d) = k | _ \<Rightarrow> False)"

lemma makes_simps [simp]:
  "makes k (ACreateOrUpdate d owner) \<longleftrightarrow> rendered_kind (oo_Spec d) = k" "\<not> makes k (ADelete k' ns n)" "\<not> makes k (AGetNodeGroup ns n)"
  "\<not> makes k (AGetCluster ns n)" "\<not> makes k (AListAuths ns n)" "\<not> makes k (AStatusUpdate d')" "\<not> makes k (AEvent r m)"
  by (simp_all add: makes_def)

definition removes :: "aenv \<Rightarrow> owned_kind \<Rightarrow> string \<Rightarrow> string \<Rightarrow> acall list \<Rightarrow> acall \<Rightarrow> bool" where
  \<comment> \<open>the answer to the call says that there is no such object any more\<close>
  "removes E k ns n log c \<longleftrightarrow> c = ADelete k ns n \<and> (case ae_Delete E k ns n log of None \<Rightarrow> True | Some e \<Rightarrow> IsNotFound e \<or> IsCRDNotInstalled E e)"

primrec exists_after :: "aenv \<Rightarrow> owned_kind \<Rightarrow> string \<Rightarrow> string \<Rightarrow> bool \<Rightarrow> acall list \<Rightarrow> nat \<Rightarrow> bool" where
  \<comment> \<open>whether the object may exist after the first calls of a log, if \<open>b\<close> says whether it did before\<close>
  "exists_after E k ns n b log 0 = b"
| "exists_after E k ns n b log (Suc i) =
     (if removes E k ns n (take i log) (log ! i) then False else makes k (log ! i) \<or> exists_after E k ns n b log i)"

definition may_exist :: "aenv \<Rightarrow> owned_kind \<Rightarrow> string \<Rightarrow> string \<Rightarrow> bool \<Rightarrow> acall list \<Rightarrow> bool" where
  "may_exist E k ns n b log = exists_after E k ns n b log (length log)"

lemma exists_after_append: "i \<le> length log \<Longrightarrow> exists_after E k ns n b (log @ log') i = exists_after E k ns n b log i"
  by (induction i) (simp_all add: nth_append)

lemma may_exist_snoc:
  "may_exist E k ns n b (log @ [c]) = (if removes E k ns n log c then False else makes k c \<or> may_exist E k ns n b log)"
  by (simp add: may_exist_def exists_after_append)

definition one_backend :: "aenv \<Rightarrow> NiFiAutoscaler \<Rightarrow> bool \<Rightarrow> bool \<Rightarrow> acall list \<Rightarrow> bool" where
  \<comment> \<open>not both a HorizontalPodAutoscaler and a ScaledObject with the name of the autoscaler's objects\<close>
  "one_backend E d hpa so log \<longleftrightarrow> (\<forall>n. autoscalerResourceName E d = Inr n \<longrightarrow>
     \<not> (may_exist E KindHPA (ob_Namespace d) n hpa log \<and> may_exist E KindScaledObject (ob_Namespace d) n so log))"

abbreviation always :: "('c list \<Rightarrow> bool) \<Rightarrow> 'c list \<Rightarrow> 'c \<Rightarrow> bool" where
  "always I \<equiv> \<lambda>log c. I (log @ [c])"

lemma lawful_invariant:
  assumes "lawful P log log'" "I log" "\<And>l c. I l \<Longrightarrow> P l c \<Longrightarrow> I (l @ [c])"
  shows "lawful (\<lambda>l c. I l \<and> P l c) log log' \<and> I log'"
proof -
  obtain zs where zs: "log' = log @ zs" "\<forall>k < length zs. P (log @ take k zs) (zs ! k)" using assms(1) by (auto simp: lawful_def)
  have i: "I (log @ take k zs)" if "k \<le> length zs" for k
    using that
  proof (induction k)
    case (Suc k)
    then have "I (log @ take k zs)" "P (log @ take k zs) (zs ! k)" using zs(2) by simp_all
    from assms(3) [OF this] show ?case using Suc.prems by (simp add: take_Suc_conv_app_nth)
  qed (simp add: assms(2))
  then show ?thesis using zs i [of "length zs"] by (auto simp: lawful_def)
qed

lemma always_preserved:
  assumes "lawful P log log'" "I log" "\<And>l c. I l \<Longrightarrow> P l c \<Longrightarrow> I (l @ [c])"
  shows "lawful (always I) log log' \<and> I log'"
proof -
  have i: "lawful (\<lambda>l c. I l \<and> P l c) log log' \<and> I log'" by (rule lawful_invariant) (fact assms)+
  then have "lawful (always I) log log'" by (auto elim: lawful_mono intro: assms(3))
  with i show ?thesis by blast
qed

definition neither :: "acall list \<Rightarrow> acall \<Rightarrow> bool" where "neither log c \<longleftrightarrow> \<not> makes KindHPA c \<and> \<not> makes KindScaledObject c"
definition no_hpa :: "acall list \<Rightarrow> acall \<Rightarrow> bool" where "no_hpa log c \<longleftrightarrow> \<not> makes KindHPA c"
definition no_so :: "acall list \<Rightarrow> acall \<Rightarrow> bool" where "no_so log c \<longleftrightarrow> \<not> makes KindScaledObject c"

lemma one_backend_neither: "one_backend E d hpa so l \<Longrightarrow> neither l c \<Longrightarrow> one_backend E d hpa so (l @ [c])"
  by (auto simp: one_backend_def neither_def may_exist_snoc)

locale law_on_objects =
  fixes P :: "acall list \<Rightarrow> acall \<Rightarrow> bool"
  assumes others_are_free: "(\<And>d owner. c \<noteq> ACreateOrUpdate d owner) \<Longrightarrow> (\<And>k ns n. c \<noteq> ADelete k ns n) \<Longrightarrow> P log c"
begin

lemma keeps_reports:
  "keeps P (a_event reason message)" "keeps P (a_StatusUpdate E)" "keeps P (autoscaler_ready E mode so hpa current desired)"
  "keeps P (autoscaler_notReady E reason message)" "keeps P (keda_missing E err)" "keeps P (resolveTarget E)"
  unfolding a_call_defs autoscaler_ready_def autoscaler_notReady_def keda_missing_def resolveTarget_def Let_def
  by (intro keeps_intros others_are_free; simp)+

end

interpretation neither: law_on_objects neither
  by unfold_locales (auto simp: neither_def makes_def split: acall.split)

interpretation no_hpa: law_on_objects no_hpa
  by unfold_locales (auto simp: no_hpa_def makes_def split: acall.split)

interpretation no_so: law_on_objects no_so
  by unfold_locales (auto simp: no_so_def makes_def split: acall.split)

lemma keeps_apply: "(\<And>log owner. P log (ACreateOrUpdate d owner)) \<Longrightarrow> keeps P (applyOwnedObject E d)"
  unfolding applyOwnedObject_def by (intro keeps_intros)

lemma keeps_apply_auths: "(\<And>ta log owner. ta \<in> set auths \<Longrightarrow> P log (ACreateOrUpdate ta owner)) \<Longrightarrow> keeps P (apply_auths E auths)"
proof (induction auths)
  case (Cons ta auths)
  show ?case
    unfolding apply_auths.simps by (intro keeps_intros keeps_apply Cons) simp_all
qed (auto intro: keeps_intros)

lemma keeps_prune_auths: "(\<And>n log. P log (ADelete KindTriggerAuthentication ns n)) \<Longrightarrow> keeps P (prune_auths E ns keep items)"
  by (induction items) (auto simp: a_delete_def intro!: keeps_intros)

lemma keeps_prune:
  assumes "law_on_objects P" "\<And>ns n log. P log (ADelete KindTriggerAuthentication ns n)"
  shows "keeps P (pruneOwnedTriggerAuths E keep)"
  unfolding pruneOwnedTriggerAuths_def
  by (intro keeps_intros keeps_prune_auths assms law_on_objects.others_are_free [OF assms(1)]) simp_all

lemma render_trigger_spec:
  assumes "render_trigger E d i source = Inr (trigger, ta)"
  shows "case pm_Authentication source of None \<Rightarrow> ta = None \<and> tg_AuthenticationRef trigger = None
    | Some a \<Rightarrow> \<exists>auth. autoscalerAuthName E d (trigger_name i source) = Inr (oo_Name auth) \<and> ta = Some auth \<and> tg_AuthenticationRef trigger = Some (oo_Name auth) \<and>
        oo_Spec auth = TriggerAuthentication (snd (prometheusAuthParams a)) \<and> oo_Namespace auth = ob_Namespace d"
  using assms
  by (auto simp: render_trigger_def NewTriggerAuthenticationObject_def Let_def split_beta split: option.splits sum.splits)

lemma render_triggers_spec:
  assumes "render_triggers E d i metrics = Inr (triggers, auths)"
  shows "\<forall>ta \<in> set auths. \<exists>refs. oo_Spec ta = TriggerAuthentication refs"
    and "\<forall>tg \<in> set triggers. \<forall>n. tg_AuthenticationRef tg = Some n \<longrightarrow> n \<in> oo_Name ` set auths"
  using assms
proof (induction E d i metrics arbitrary: triggers auths rule: render_triggers.induct)
  case (2 E d i metric metrics)
  {
    case 1
    with "2.IH"(1) show ?case
      by (fastforce split: option.splits sum.splits dest: render_trigger_spec)
  next
    case 2
    with "2.IH"(2) show ?case
      by (fastforce split: option.splits sum.splits dest: render_trigger_spec)
  }
qed simp_all

lemma desired_objects:
  assumes "desiredAutoscalerObjects E d = Inr (so, auths)"
  shows "\<exists>triggers. render_triggers E d 0 (as_Metrics (ob_Spec d)) = Inr (triggers, auths) \<and> oo_Spec so = ScaledObject
    \<lparr>so_ScaleTargetRef = scale_target d, so_MinReplicaCount = Some (autoscalerMinReplicas d), so_MaxReplicaCount = Some (as_MaxReplicas (ob_Spec d)),
     so_PollingInterval = as_PollingInterval (ob_Spec d), so_ScaleDown = scale_down_rules d, so_Triggers = triggers\<rparr>"
  using assms
  by (auto simp: desiredAutoscalerObjects_def NewScaledObject_def Let_def split: sum.splits prod.splits option.splits)

lemma hpa_part:
  assumes "law_on_objects P" "\<And>log owner d h. oo_Spec d = HorizontalPodAutoscaler h \<Longrightarrow> P log (ACreateOrUpdate d owner)"
  shows "keeps P (applyHPA E)"
  unfolding applyHPA_def by (intro keeps_intros keeps_apply assms(2)) simp

lemma keda_part:
  \<comment> \<open>what follows the removal of the HorizontalPodAutoscaler\<close>
  assumes law: "law_on_objects P" and del: "\<And>ns n log. P log (ADelete KindTriggerAuthentication ns n)"
    and so: "\<And>log owner x spec. oo_Spec x = ScaledObject spec \<Longrightarrow> P log (ACreateOrUpdate x owner)"
    and ta: "\<And>log owner x refs. oo_Spec x = TriggerAuthentication refs \<Longrightarrow> P log (ACreateOrUpdate x owner)"
  shows "keeps P (apply_keda E t)"
  unfolding apply_keda_def
proof (intro keeps_get_bind)
  fix d
  show "keeps P (case desiredAutoscalerObjects E d of Inl err \<Rightarrow> ret (no_result, Some err)
    | Inr (so, auths) \<Rightarrow> State_Monad.bind (apply_auths E auths) (\<lambda>a. case a of Some err \<Rightarrow> keda_missing E err
      | None \<Rightarrow> State_Monad.bind (applyOwnedObject E so) (\<lambda>a. case a of Some err \<Rightarrow> keda_missing E err
        | None \<Rightarrow> finish_keda E t (oo_Name so) (map oo_Name auths))))"
  proof (cases "desiredAutoscalerObjects E d")
    case (Inr x)
    obtain so auths where x: "x = (so, auths)" by (cases x)
    obtain triggers spec where r: "render_triggers E d 0 (as_Metrics (ob_Spec d)) = Inr (triggers, auths)" "oo_Spec so = ScaledObject spec"
      using desired_objects [of E d so auths] Inr x by auto
    have refs: "\<And>a. a \<in> set auths \<Longrightarrow> \<exists>refs. oo_Spec a = TriggerAuthentication refs" using render_triggers_spec(1) [OF r(1)] by blast
    have "keeps P (apply_auths E auths)" by (rule keeps_apply_auths) (use refs ta in blast)
    with r(2) show ?thesis
      unfolding Inr x sum.case prod.case
      unfolding finish_keda_def
      by (intro keeps_intros keeps_apply so keeps_prune [OF law del] law_on_objects.keeps_reports [OF law])
  qed (simp add: keeps_intros)
qed

lemma removal_hpa:
  "wp (deleteOwnedHPA E) (\<lambda>e s'. obj s' = obj s \<and> lawful neither (calls s) (calls s') \<and>
     (e = None \<longrightarrow> (\<forall>n. autoscalerResourceName E (obj s) = Inr n \<longrightarrow> (\<forall>b. \<not> may_exist E KindHPA (ob_Namespace (obj s)) n b (calls s'))))) s"
  unfolding deleteOwnedHPA_def a_delete_def
  by (auto simp: wp_simps neither_def may_exist_snoc removes_def delete_failed_def split: sum.split option.splits if_splits)

lemma removal_so:
  "wp (deleteOwnedScaledObject E) (\<lambda>e s'. obj s' = obj s \<and> lawful neither (calls s) (calls s') \<and>
     (e = None \<longrightarrow> (\<forall>n. autoscalerResourceName E (obj s) = Inr n \<longrightarrow> (\<forall>b. \<not> may_exist E KindScaledObject (ob_Namespace (obj s)) n b (calls s'))))) s"
  unfolding deleteOwnedScaledObject_def a_delete_def
  by (auto simp: wp_simps neither_def may_exist_snoc removes_def split: sum.split option.splits if_splits)

abbreviation "keeps_one E hpa so s \<equiv> (\<lambda>_ s'. lawful (always (one_backend E (obj s) hpa so)) (calls s) (calls s'))"

lemma keeps_one_free:
  assumes "one_backend E d hpa so log" "lawful neither log log'"
  shows "lawful (always (one_backend E d hpa so)) log log' \<and> one_backend E d hpa so log'"
  using always_preserved [where I = "one_backend E d hpa so", OF assms(2,1)] one_backend_neither by blast

lemma keeps_one_without:
  assumes "lawful P log log'" "\<And>l c. P l c \<Longrightarrow> \<not> makes k c" "k = KindHPA \<and> b = hpa \<or> k = KindScaledObject \<and> b = so"
    and "\<And>n. autoscalerResourceName E d = Inr n \<Longrightarrow> \<not> may_exist E k (ob_Namespace d) n b log"
  shows "lawful (always (one_backend E d hpa so)) log log'"
proof (rule lawful_mono)
  let ?I = "\<lambda>l. \<forall>n. autoscalerResourceName E d = Inr n \<longrightarrow> \<not> may_exist E k (ob_Namespace d) n b l"
  show "lawful (always ?I) log log'"
    by (rule conjunct1, rule always_preserved [where I = ?I, OF assms(1)]) (use assms(2,4) in \<open>auto simp: may_exist_snoc\<close>)
qed (use assms(3) in \<open>auto simp: one_backend_def\<close>)

lemma in_two_steps:
  \<comment> \<open>a removal, then a part that makes nothing of that kind\<close>
  fixes s :: "(acall, NiFiAutoscaler) rstate"
  assumes start: "one_backend E (obj s) hpa so (calls s)"
    and first: "wp m (\<lambda>e s'. obj s' = obj s \<and> lawful neither (calls s) (calls s') \<and> (e = None \<longrightarrow> G (calls s'))) s"
    and rest: "keeps P (f :: outcome auto_handler)"
    and kind: "\<And>l c. P l c \<Longrightarrow> \<not> makes k c" "k = KindHPA \<and> b = hpa \<or> k = KindScaledObject \<and> b = so"
    and gone: "\<And>log n. G log \<Longrightarrow> autoscalerResourceName E (obj s) = Inr n \<Longrightarrow> \<not> may_exist E k (ob_Namespace (obj s)) n b log"
  shows "wp (State_Monad.bind m (\<lambda>e. if e \<noteq> None then ret (no_result, e) else f)) (keeps_one E hpa so s) s"
proof (rule wp_bindI, rule wp_mono [OF first])
  fix e :: "go_error option" and s1 :: "(acall, NiFiAutoscaler) rstate"
  assume 1: "obj s1 = obj s \<and> lawful neither (calls s) (calls s1) \<and> (e = None \<longrightarrow> G (calls s1))"
  then have l: "lawful (always (one_backend E (obj s) hpa so)) (calls s) (calls s1)" using keeps_one_free [OF start] by blast
  have "wp f (\<lambda>_ s2. lawful (always (one_backend E (obj s) hpa so)) (calls s1) (calls s2)) s1" if "e = None"
    by (rule wp_mono [OF keeps_whenD [OF rest refl TrueI]], rule keeps_one_without [OF _ kind gone]) (use 1 that in auto)
  then show "wp (if e \<noteq> None then ret (no_result, e) else f) (keeps_one E hpa so s) s1"
    using l by (auto simp: wp_simps elim!: wp_mono intro: lawful_trans)
qed

lemma keda_one:
  assumes "one_backend E (obj s) hpa so (calls s)"
  shows "wp (reconcile_keda E t) (keeps_one E hpa so s) s"
  unfolding reconcile_keda_def
proof (rule in_two_steps [OF assms removal_hpa, where P = no_hpa and k = KindHPA and b = hpa])
  show "keeps no_hpa (apply_keda E t)"
    by (intro keda_part no_hpa.law_on_objects_axioms) (simp_all add: no_hpa_def)
qed (auto simp: no_hpa_def)

lemma hpa_one:
  assumes "one_backend E (obj s) hpa so (calls s)"
  shows "wp (reconcile_hpa E t) (keeps_one E hpa so s) s"
  unfolding reconcile_hpa_def
  by (rule in_two_steps [OF assms removal_so, where P = no_so and k = KindScaledObject and b = so])
    (auto simp: no_so_def intro!: keeps_intros keeps_prune hpa_part no_so.law_on_objects_axioms no_so.keeps_reports)

lemma reconcile_parts:
  \<comment> \<open>what is to be shown of a reconcile: for the reports and for both backends\<close>
  fixes s :: "(acall, NiFiAutoscaler) rstate"
  assumes "\<And>s'. lawful neither (calls s) (calls s') \<Longrightarrow> Q s'"
    and "\<And>t s1. obj s1 = obj s \<Longrightarrow> lawful neither (calls s) (calls s1) \<Longrightarrow> wp (reconcile_keda E t) (\<lambda>_. Q) s1"
    and "\<And>t s1. obj s1 = obj s \<Longrightarrow> lawful neither (calls s) (calls s1) \<Longrightarrow> wp (reconcile_hpa E t) (\<lambda>_. Q) s1"
  shows "wp (NiFiAutoscalerReconciler_Reconcile E) (\<lambda>_. Q) s"
proof -
  have resolve: "wp (resolveTarget E) (\<lambda>_ s'. obj s' = obj s \<and> lawful neither (calls s) (calls s')) s"
    unfolding resolveTarget_def by (auto simp: wp_simps Let_def neither_def)
  have report: "wp (autoscaler_notReady E reason message) (\<lambda>_. Q) s1" if "lawful neither (calls s) (calls s1)" for s1 reason message
    by (rule wp_mono [OF keeps_whenD [OF neither.keeps_reports(4) refl TrueI]]) (rule assms(1), rule lawful_trans [OF that])
  show ?thesis
    unfolding NiFiAutoscalerReconciler_Reconcile_def
    by (intro wp_bindI wp_get_objI wp_mono [OF resolve] wp_ifI wp_case_sumI wp_case_prodI wp_returnI report assms) simp_all
qed

lemma hpa_makes_no_so: "keeps no_so (reconcile_hpa E t)"
proof -
  have "keeps no_so (deleteOwnedScaledObject E)"
    unfolding deleteOwnedScaledObject_def a_delete_def by (intro keeps_intros) (simp add: no_so_def)
  then show ?thesis
    unfolding reconcile_hpa_def
    by (intro keeps_intros keeps_prune hpa_part no_so.law_on_objects_axioms no_so.keeps_reports) (simp_all add: no_so_def)
qed


section \<open>Credentials\<close>

definition refers :: "OwnedObject \<Rightarrow> string \<Rightarrow> bool" where
  "refers x n \<longleftrightarrow> (\<exists>spec. oo_Spec x = ScaledObject spec \<and> (\<exists>tg \<in> set (so_Triggers spec). tg_AuthenticationRef tg = Some n))"

definition applied :: "aenv \<Rightarrow> acall list \<Rightarrow> acall list \<Rightarrow> string \<Rightarrow> bool" where
  \<comment> \<open>since \<open>since\<close> the API server accepted a TriggerAuthentication of this name\<close>
  "applied E since log n \<longleftrightarrow> (\<exists>k ta owner refs. length since \<le> k \<and> k < length log \<and> log ! k = ACreateOrUpdate ta owner \<and> oo_Name ta = n \<and>
     oo_Spec ta = TriggerAuthentication refs \<and> ae_CreateOrUpdate E ta owner (take k log) = None)"

definition credentials_law :: "aenv \<Rightarrow> acall list \<Rightarrow> acall list \<Rightarrow> acall \<Rightarrow> bool" where
  \<comment> \<open>references are written after what they refer to, and what an object of this run refers to is not deleted\<close>
  "credentials_law E since log c \<longleftrightarrow>
     (\<forall>x owner n. c = ACreateOrUpdate x owner \<and> refers x n \<longrightarrow> applied E since log n) \<and>
     (\<forall>ns n x owner. c = ADelete KindTriggerAuthentication ns n \<and> ACreateOrUpdate x owner \<in> set (drop (length since) log) \<longrightarrow> \<not> refers x n)"

definition only_refers :: "acall list \<Rightarrow> string list \<Rightarrow> acall list \<Rightarrow> bool" where
  "only_refers since keep log \<longleftrightarrow> length since \<le> length log \<and>
     (\<forall>x owner n. ACreateOrUpdate x owner \<in> set (drop (length since) log) \<and> refers x n \<longrightarrow> n \<in> set keep)"

definition keeps_kept :: "string list \<Rightarrow> acall list \<Rightarrow> acall \<Rightarrow> bool" where
  "keeps_kept keep log c \<longleftrightarrow> neither log c \<and> (\<forall>ns n. c = ADelete KindTriggerAuthentication ns n \<longrightarrow> n \<notin> set keep)"

interpretation keeps_kept: law_on_objects "keeps_kept keep" for keep
  by unfold_locales (auto simp: keeps_kept_def neither_def makes_def split: acall.split)

lemma refers_makes: "refers x n \<Longrightarrow> makes KindScaledObject (ACreateOrUpdate x owner)"
  by (auto simp: refers_def)

lemma only_refers_step: "only_refers since keep log \<Longrightarrow> keeps_kept keep' log c \<Longrightarrow> only_refers since keep (log @ [c])"
  by (auto simp: only_refers_def keeps_kept_def neither_def dest: refers_makes)

lemma kept_lawful:
  assumes "lawful (keeps_kept keep) log log'" "only_refers since keep log"
  shows "lawful (credentials_law E since) log log' \<and> only_refers since keep log'"
proof -
  have "lawful (\<lambda>l c. only_refers since keep l \<and> keeps_kept keep l c) log log' \<and> only_refers since keep log'"
    using lawful_invariant [where I = "only_refers since keep", OF assms] only_refers_step by blast
  then show ?thesis
    by (auto elim!: lawful_mono simp: credentials_law_def only_refers_def keeps_kept_def neither_def dest: refers_makes)
qed

lemma neither_lawful:
  assumes "lawful neither log log'" "only_refers since [] log"
  shows "lawful (credentials_law E since) log log' \<and> only_refers since [] log'"
  using kept_lawful [of "[]" log log' since E] assms by (simp add: keeps_kept_def [abs_def])

lemma applied_mono: "applied E since log n \<Longrightarrow> applied E since (log @ log') n"
  unfolding applied_def by (elim exE, rename_tac k ta owner refs, rule_tac x = k in exI) (auto simp: nth_append)

lemma auths_applied:
  "length since \<le> length (calls s) \<Longrightarrow> \<forall>ta \<in> set auths. \<exists>refs. oo_Spec ta = TriggerAuthentication refs \<Longrightarrow>
   wp (apply_auths E auths) (\<lambda>a s'. obj s' = obj s \<and> lawful neither (calls s) (calls s') \<and>
     (a = None \<longrightarrow> (\<forall>ta \<in> set auths. applied E since (calls s') (oo_Name ta)))) s"
proof (induction auths arbitrary: s)
  case (Cons ta auths)
  let ?c = "ACreateOrUpdate ta (ob_Name (obj s))"
  let ?s1 = "s\<lparr>calls := calls s @ [?c]\<rparr>"
  have n: "neither (calls s) ?c" using Cons.prems(2) by (auto simp: neither_def)
  have a: "applied E since (calls s @ [?c]) (oo_Name ta)" if "ae_CreateOrUpdate E ta (ob_Name (obj s)) (calls s) = None"
    unfolding applied_def using Cons.prems that by (intro exI [of _ "length (calls s)"]) auto
  have "wp (apply_auths E auths) (\<lambda>a s'. obj s' = obj s \<and> lawful neither (calls s) (calls s') \<and>
      (a = None \<longrightarrow> (\<forall>ta \<in> set (ta # auths). applied E since (calls s') (oo_Name ta)))) ?s1"
    if ok: "ae_CreateOrUpdate E ta (ob_Name (obj s)) (calls s) = None"
  proof (rule wp_mono [OF Cons.IH])
    fix r s2
    assume 2: "obj s2 = obj ?s1 \<and> lawful neither (calls ?s1) (calls s2) \<and> (r = None \<longrightarrow> (\<forall>ta \<in> set auths. applied E since (calls s2) (oo_Name ta)))"
    then obtain zs where "calls s2 = (calls s @ [?c]) @ zs" by (auto simp: lawful_def)
    then have "applied E since (calls s2) (oo_Name ta)" using applied_mono [OF a [OF ok]] by simp
    with 2 n show "obj s2 = obj s \<and> lawful neither (calls s) (calls s2) \<and> (r = None \<longrightarrow> (\<forall>ta \<in> set (ta # auths). applied E since (calls s2) (oo_Name ta)))"
      by (auto intro: lawful_trans [where b = "calls s @ [?c]"])
  qed (use Cons.prems in auto)
  then show ?case
    by (auto simp: applyOwnedObject_def wp_simps n split: option.split)
qed (simp add: wp_simps)

lemma prune_keeps_kept: "keeps (keeps_kept keep) (prune_auths E ns keep items)"
  by (induction items) (auto simp: a_delete_def keeps_kept_def neither_def intro!: keeps_intros)

lemma prune_owned_keeps_kept: "keeps (keeps_kept keep) (pruneOwnedTriggerAuths E keep)"
  unfolding pruneOwnedTriggerAuths_def
  by (intro keeps_intros prune_keeps_kept keeps_kept.others_are_free) simp_all

lemma keda_credentials:
  assumes since: "only_refers since [] (calls s)"
  shows "wp (apply_keda E t) (\<lambda>_ s'. lawful (credentials_law E since) (calls s) (calls s')) s"
  unfolding apply_keda_def
proof (intro wp_bindI wp_get_objI wp_case_sumI wp_case_prodI wp_returnI lawful_refl)
  fix x so auths
  assume "desiredAutoscalerObjects E (obj s) = Inr x" "x = (so, auths)"
  then obtain triggers spec where r: "render_triggers E (obj s) 0 (as_Metrics (ob_Spec (obj s))) = Inr (triggers, auths)"
    "oo_Spec so = ScaledObject spec" "so_Triggers spec = triggers"
    using desired_objects [of E "obj s" so auths] by auto
  have refs: "n \<in> oo_Name ` set auths" if "refers so n" for n
    using that render_triggers_spec(2) [OF r(1)] r(2,3) by (auto simp: refers_def)
  have missing: "wp (keda_missing E err) (\<lambda>_ s'. lawful (credentials_law E since) (calls s) (calls s')) s1"
    if "only_refers since (map oo_Name auths) (calls s1)" "lawful (credentials_law E since) (calls s) (calls s1)" for err s1
    by (rule wp_mono [OF keeps_whenD [OF keeps_kept.keeps_reports(5) refl TrueI]])
      (use kept_lawful [OF _ that(1)] that(2) in \<open>blast intro: lawful_trans\<close>)
  have weaken: "only_refers since [] l \<Longrightarrow> only_refers since keep l" for keep l by (auto simp: only_refers_def)
  show "wp (apply_auths E auths) (\<lambda>a. wp (case a of Some err \<Rightarrow> keda_missing E err
      | None \<Rightarrow> State_Monad.bind (applyOwnedObject E so) (\<lambda>a. case a of Some err \<Rightarrow> keda_missing E err
        | None \<Rightarrow> finish_keda E t (oo_Name so) (map oo_Name auths)))
      (\<lambda>_ s'. lawful (credentials_law E since) (calls s) (calls s'))) s"
  proof (rule wp_mono [OF auths_applied [where since = since]])
    fix a :: "go_error option" and s1 :: "(acall, NiFiAutoscaler) rstate"
    assume 1: "obj s1 = obj s \<and> lawful neither (calls s) (calls s1) \<and> (a = None \<longrightarrow> (\<forall>ta \<in> set auths. applied E since (calls s1) (oo_Name ta)))"
    then have l: "lawful (credentials_law E since) (calls s) (calls s1)" and i: "only_refers since [] (calls s1)"
      using neither_lawful [OF _ since] by blast+
    let ?c = "ACreateOrUpdate so (ob_Name (obj s1))"
    let ?s2 = "s1\<lparr>calls := calls s1 @ [?c]\<rparr>"
    have after: "lawful (credentials_law E since) (calls s) (calls ?s2)" "only_refers since (map oo_Name auths) (calls ?s2)" if "a = None"
    proof -
      have "credentials_law E since (calls s1) ?c" using 1 that refs by (auto simp: credentials_law_def)
      with l show "lawful (credentials_law E since) (calls s) (calls ?s2)" by (simp add: lawful_snoc)
      show "only_refers since (map oo_Name auths) (calls ?s2)" using i refs by (auto simp: only_refers_def)
    qed
    have rest: "wp (finish_keda E t (oo_Name so) (map oo_Name auths))
        (\<lambda>_ s'. lawful (credentials_law E since) (calls s) (calls s')) ?s2" if "a = None"
    proof (rule wp_mono)
      show "wp (finish_keda E t (oo_Name so) (map oo_Name auths))
          (\<lambda>_ s'. lawful (keeps_kept (map oo_Name auths)) (calls ?s2) (calls s')) ?s2"
        unfolding finish_keda_def by (rule keeps_whenD [OF _ refl TrueI]) (intro keeps_intros prune_owned_keeps_kept keeps_kept.keeps_reports)
    qed (use kept_lawful [OF _ after(2) [OF that]] after(1) [OF that] in \<open>blast intro: lawful_trans\<close>)
    show "wp (case a of Some err \<Rightarrow> keda_missing E err
      | None \<Rightarrow> State_Monad.bind (applyOwnedObject E so) (\<lambda>a. case a of Some err \<Rightarrow> keda_missing E err
        | None \<Rightarrow> finish_keda E t (oo_Name so) (map oo_Name auths)))
      (\<lambda>_ s'. lawful (credentials_law E since) (calls s) (calls s')) s1"
    proof (cases a)
      case None
      show ?thesis
        unfolding None option.case applyOwnedObject_def
        by (intro wp_bindI wp_get_objI wp_ext_callI wp_case_optionI missing after rest None)
    next
      case (Some err)
      then show ?thesis using missing [OF weaken [OF i] l] by simp
    qed
  qed (use since render_triggers_spec(1) [OF r(1)] in \<open>auto simp: only_refers_def\<close>)
qed

lemma no_so_lawful:
  assumes "lawful no_so log log'" "only_refers since [] log"
  shows "lawful (credentials_law E since) log log'"
proof -
  have "only_refers since [] l \<Longrightarrow> no_so l c \<Longrightarrow> only_refers since [] (l @ [c])" for l c
    by (auto simp: only_refers_def no_so_def dest: refers_makes)
  then have "lawful (\<lambda>l c. only_refers since [] l \<and> no_so l c) log log'"
    using lawful_invariant [where I = "only_refers since []", OF assms] by blast
  then show ?thesis
    by (rule lawful_mono) (auto simp: credentials_law_def only_refers_def no_so_def dest: refers_makes)
qed

text \<open>
  C18. A ScaledObject never refers to credentials that are not there: when a reconcile writes one, the API server has already accepted, in the same reconcile,
  a TriggerAuthentication for each reference of its triggers, and no later call of this reconcile deletes one of these.
\<close>

theorem trigger_credentials_exist:
  "wp (NiFiAutoscalerReconciler_Reconcile E) (\<lambda>_ s'. lawful (credentials_law E (calls s)) (calls s) (calls s')) s"
proof (rule reconcile_parts)
  have i: "only_refers (calls s) [] (calls s)" by (simp add: only_refers_def)
  fix t and s1 :: "(acall, NiFiAutoscaler) rstate"
  assume 1: "obj s1 = obj s" "lawful neither (calls s) (calls s1)"
  from neither_lawful [OF 1(2) i] have l: "lawful (credentials_law E (calls s)) (calls s) (calls s1)" and j: "only_refers (calls s) [] (calls s1)" by blast+
  show "wp (reconcile_hpa E t) (\<lambda>_ s'. lawful (credentials_law E (calls s)) (calls s) (calls s')) s1"
    by (rule wp_mono [OF keeps_whenD [OF hpa_makes_no_so refl TrueI]]) (use no_so_lawful [OF _ j] l in \<open>blast intro: lawful_trans\<close>)
  show "wp (reconcile_keda E t) (\<lambda>_ s'. lawful (credentials_law E (calls s)) (calls s) (calls s')) s1"
    unfolding reconcile_keda_def
  proof (rule wp_bindI, rule wp_mono [OF removal_hpa])
    fix e :: "go_error option" and s2 :: "(acall, NiFiAutoscaler) rstate"
    assume "obj s2 = obj s1 \<and> lawful neither (calls s1) (calls s2) \<and> (e = None \<longrightarrow>
      (\<forall>n. autoscalerResourceName E (obj s1) = Inr n \<longrightarrow> (\<forall>b. \<not> may_exist E KindHPA (ob_Namespace (obj s1)) n b (calls s2))))"
    then have l2: "lawful (credentials_law E (calls s)) (calls s) (calls s2)" and j2: "only_refers (calls s) [] (calls s2)"
      using neither_lawful [OF _ j] l by (blast intro: lawful_trans)+
    show "wp (if e \<noteq> None then ret (no_result, e) else apply_keda E t) (\<lambda>_ s'. lawful (credentials_law E (calls s)) (calls s) (calls s')) s2"
      by (intro wp_ifI wp_returnI l2 wp_mono [OF keda_credentials [OF j2]] lawful_trans [OF l2])
  qed
qed (use neither_lawful [of "calls s" _ "calls s"] in \<open>auto simp: only_refers_def\<close>)

section \<open>Whose credentials a trigger uses\<close>

definition trigger_names :: "NiFiAutoscaler \<Rightarrow> string list" where
  "trigger_names d = map (\<lambda>(i, m). case am_Prometheus m of Some source \<Rightarrow> trigger_name i source | None \<Rightarrow> '''') (enumerate 0 (as_Metrics (ob_Spec d)))"

definition auth_of :: "aenv \<Rightarrow> NiFiAutoscaler \<Rightarrow> nat \<Rightarrow> NiFiAutoscalerMetric \<Rightarrow> OwnedObject \<Rightarrow> bool" where
  \<comment> \<open>\<open>ta\<close> carries the name and the Secret of the trigger of this metric\<close>
  "auth_of E d i metric ta \<longleftrightarrow> (\<exists>source a. am_Prometheus metric = Some source \<and> pm_Authentication source = Some a \<and>
     autoscalerAuthName E d (trigger_name i source) = Inr (oo_Name ta) \<and> oo_Spec ta = TriggerAuthentication (snd (prometheusAuthParams a)))"

lemma render_triggers_match:
  assumes "render_triggers E d i metrics = Inr (triggers, auths)"
  shows "length triggers = length metrics"
    and "\<And>j source a. \<lbrakk>j < length metrics; am_Prometheus (metrics ! j) = Some source; pm_Authentication source = Some a\<rbrakk> \<Longrightarrow>
      \<exists>ta \<in> set auths. tg_AuthenticationRef (triggers ! j) = Some (oo_Name ta) \<and> auth_of E d (i + j) (metrics ! j) ta"
    and "\<forall>ta \<in> set auths. \<exists>j < length metrics. auth_of E d (i + j) (metrics ! j) ta"
  using assms
proof (induction E d i metrics arbitrary: triggers auths rule: render_triggers.induct)
  case (2 E d i metric metrics)
  {
    case 1
    then obtain source tg ta tgs as' where r: "am_Prometheus metric = Some source" "render_trigger E d i source = Inr (tg, ta)"
      "render_triggers E d (Suc i) metrics = Inr (tgs, as')" "triggers = tg # tgs" "auths = (case ta of Some a \<Rightarrow> [a] | None \<Rightarrow> []) @ as'"
      by (auto split: option.splits sum.splits)
    with "2.IH"(1) [OF r(1,2) refl r(3)] show ?case by simp
  next
    case (2 j src a)
    then obtain source tg ta tgs as' where r: "am_Prometheus metric = Some source" "render_trigger E d i source = Inr (tg, ta)"
      "render_triggers E d (Suc i) metrics = Inr (tgs, as')" "triggers = tg # tgs" "auths = (case ta of Some a \<Rightarrow> [a] | None \<Rightarrow> []) @ as'"
      by (auto split: option.splits sum.splits)
    show ?case
    proof (cases j)
      case 0
      with 2 r render_trigger_spec [OF r(2)] show ?thesis
        by (auto simp: auth_of_def)
    next
      case (Suc k)
      with 2 have "k < length metrics" "am_Prometheus (metrics ! k) = Some src" "pm_Authentication src = Some a" by simp_all
      from "2.IH"(2) [OF r(1,2) refl this r(3)] show ?thesis by (auto simp: r(4,5) Suc)
    qed
  next
    case 3
    then obtain source tg ta tgs as' where r: "am_Prometheus metric = Some source" "render_trigger E d i source = Inr (tg, ta)"
      "render_triggers E d (Suc i) metrics = Inr (tgs, as')" "triggers = tg # tgs" "auths = (case ta of Some a \<Rightarrow> [a] | None \<Rightarrow> []) @ as'"
      by (auto split: option.splits sum.splits)
    have "\<exists>j < length (metric # metrics). auth_of E d (i + j) ((metric # metrics) ! j) x" if "x \<in> set as'" for x
      using "2.IH"(3) [OF r(1,2) refl r(3)] that by fastforce
    moreover have "auth_of E d i metric x" if "ta = Some x" for x
      using render_trigger_spec [OF r(2)] that r(1) by (auto simp: auth_of_def split: option.splits)
    ultimately show ?case by (auto simp: r(5) split: option.splits)
  }
qed simp_all

lemma auth_name_inj:
  assumes "autoscalerAuthName E d m = Inr x" "autoscalerAuthName E d n = Inr x"
    and "length (ob_Name d) + length m \<le> 57 \<and> m \<noteq> '''' \<and> last m \<noteq> CHR ''-''" "length (ob_Name d) + length n \<le> 57 \<and> n \<noteq> '''' \<and> last n \<noteq> CHR ''-''"
  shows "m = n"
proof -
  have "autoscalerAuthName E d k = Inr (ob_Name d @ ''-'' @ k @ ''-auth'')"
    if k: "length (ob_Name d) + length k \<le> 57 \<and> k \<noteq> '''' \<and> last k \<noteq> CHR ''-''" for k
  proof -
    obtain k' c where c: "k = k' @ [c]" "c \<noteq> CHR ''-''" using k by (cases k rule: rev_cases) auto
    have "TrimSuffix (ob_Name d @ ''-'' @ k) ''-'' = ob_Name d @ ''-'' @ k"
      using c by (simp add: TrimSuffix_def HasSuffix_def)
    then show ?thesis using k by (simp add: autoscalerAuthName_def boundedManagedName_short)
  qed
  from this [OF assms(3)] this [OF assms(4)] assms(1,2) show ?thesis by auto
qed

lemma trigger_name_not_Nil: "trigger_name i source \<noteq> ''''"
  by (simp add: trigger_name_def)


text \<open>
  Without that condition the credentials of one server are sent to another: two triggers of the same given name share one TriggerAuthentication, and it is rendered
  twice, the second time with the Secret of the second trigger.
\<close>

theorem shared_trigger_name_shares_credentials:
  assumes "render_triggers E d i [m1, m2] = Inr (triggers, auths)"
    and "am_Prometheus m1 = Some s1" "am_Prometheus m2 = Some s2" "pm_Name s1 \<noteq> ''''" "pm_Name s1 = pm_Name s2"
    and "pm_Authentication s1 = Some a1" "pm_Authentication s2 = Some a2"
  shows "\<exists>ta1 ta2. auths = [ta1, ta2] \<and> oo_Name ta1 = oo_Name ta2 \<and> oo_Spec ta2 = TriggerAuthentication (snd (prometheusAuthParams a2)) \<and>
    map tg_AuthenticationRef triggers = [Some (oo_Name ta2), Some (oo_Name ta2)]"
  using assms
  by (auto simp: render_trigger_def NewTriggerAuthenticationObject_def trigger_name_def Let_def split_beta split: option.splits sum.splits)

section \<open>Examples\<close>

definition sample_metric :: "string \<Rightarrow> string \<Rightarrow> NiFiAutoscalerMetric" where
  \<comment> \<open>a Prometheus trigger with the given name and the bearer token of the given Secret\<close>
  "sample_metric name secret = \<lparr>am_Type = ''Prometheus'', am_Prometheus = Some \<lparr>pm_ServerAddress = ''http://prometheus'', pm_Query = ''queued'',
     pm_Threshold = ''10'', pm_Name = name, pm_Authentication = Some \<lparr>pa_Mode = ''Bearer'', pa_SecretName = secret, pa_BearerTokenKey = '''', pa_UsernameKey = '''',
       pa_PasswordKey = '''', pa_CAKey = '''', pa_CertKey = '''', pa_KeyKey = ''''\<rparr>, pm_UnsafeSSL = False\<rparr>, am_Resource = None\<rparr>"

definition sample_autoscaler :: "NiFiAutoscalerMetric list \<Rightarrow> NiFiAutoscaler" where
  "sample_autoscaler metrics = component_resource (component_status '''' 0)
     \<lparr>as_Target = \<lparr>at_Kind = ''NiFiNodeGroup'', at_Name = ''pool''\<rparr>, as_MinReplicas = 0, as_MaxReplicas = 5, as_Metrics = metrics, as_Behavior = None,
       as_PollingInterval = None\<rparr>
     \<lparr>ast_Mode = '''', ast_ScaledObjectName = '''', ast_HPAName = '''', ast_CurrentReplicas = 0, ast_DesiredReplicas = 0, ast_LastScaleTime = None\<rparr>"

definition sample_aenv :: aenv where
  "sample_aenv = \<lparr>ae_Now = (\<lambda>_. 0), ae_Sha256Hex = (\<lambda>_. ''0123456789''), ae_ToUnstructured = (\<lambda>_. None), ae_IsNoMatchError = (\<lambda>_. False),
     ae_IsNotRegisteredError = (\<lambda>_. False), ae_StatusDetails = (\<lambda>_. None), ae_GetNodeGroup = (\<lambda>_ _ _. Inl (GoErr NotFound ''not found'')),
     ae_GetCluster = (\<lambda>_ _ _. Inl (GoErr NotFound ''not found'')), ae_Delete = (\<lambda>_ _ _ _. None), ae_CreateOrUpdate = (\<lambda>_ _ _. None),
     ae_ListAuths = (\<lambda>_ _ _. Inr [''obj-old-auth'']), ae_StatusUpdate = (\<lambda>_ _. None)\<rparr>"

lemmas autoscaler_sample_defs = sample_metric_def sample_autoscaler_def sample_aenv_def component_defs



end
