(* ===== verification/Spec2Isabelle.thy ===== *)
theory Spec2Isabelle
  imports Flow_Controller Node_Group Component_Deletion Processor_Facts Tenant_Facts Context_Facts Watch_Facts Remote_Facts Backup_Facts Autoscaler_Facts
begin

text \<open>
  \<^bold>\<open>A verification of the NiFiControl operator.\<close>

  NiFiControl is a Kubernetes operator: each custom resource has a controller whose \<open>Reconcile\<close> reads the
  resource, compares it with NiFi (through NiFi's REST API) and with the API server, makes at most a few
  changes and records what it did in the status of the resource. Reconciles run again and again, so
  everything a controller must remember between two runs is in the status it has stored.

  \<^bold>\<open>How the program is modelled.\<close> A reconcile is a state transformer (\<open>handler\<close>, theory \<open>Prelude\<close>) over
  the in-memory resource and the log of the external calls made so far. What a call answers is a field of
  an environment record (\<open>fenv\<close>, \<open>senv\<close>, \<open>kenv\<close>, \<open>benv\<close>, \<open>aenv\<close>), applied to the log: a theorem for every environment holds for
  every behaviour of NiFi, of the API server and of the clock, errors included. Go structs are records with
  the source's fields, string enumerations are strings, \<open>(value, error)\<close> results are a sum, nil pointers are
  \<open>None\<close>, a panic is an error (controller-runtime turns it into one). \<open>int32\<close> values are integers; where an
  operation could leave the range a lemma shows that it does not. Encoders, SHA-256, Git, OCI and NiFi Registry access
  are parameters.

  \<^bold>\<open>Theories and sources.\<close>

  \<^item> \<open>Prelude\<close>: Go values, the parts of \<open>fmt\<close> and \<open>strings\<close> the sources use, handlers, a
    weakest-precondition calculus (\<open>wp\<close>, collections \<open>wp_simps\<close> and \<open>wp_intros\<close>), call-log predicates
    (\<open>asked\<close>, \<open>within\<close>, \<open>only\<close>).
  \<^item> \<open>Common_Status\<close>: \<open>api/v1alpha1/common_types.go\<close>, the condition list and the five marks. Locale
    \<open>condition_store\<close> is the contract of a keyed list, \<open>status_mark\<close> that of a mark; the Ready flag, the Ready
    condition and the generation agree after any history, and the list refines a map.
  \<^item> \<open>Flow_Drift\<close>: \<open>flow_deployment_drift.go\<close>, the normal form of a flow snapshot and the comparison of
    two snapshots: idempotent, insensitive to the order of identified objects, exact.
  \<^item> \<open>Flow_Types\<close>, \<open>Flow_Marks\<close>, \<open>Flow_Sample\<close>: the resource, the calls, the environment, the status
    reports of \<open>support.go\<close> (locale \<open>not_ready_report\<close>), and a concrete NiFi for the witnesses.
  \<^item> \<open>Flow_History\<close>: \<open>flow_deployment_history.go\<close>: checkpoints in ConfigMaps, trimming, reading back.
  \<^item> \<open>Flow_Rollout\<close>: \<open>flow_deployment_rollout.go\<close> and \<open>flow_deployment_readiness.go\<close>: draining, the
    readiness gate, retries, the reports that end a rollout.
  \<^item> \<open>Flow_BlueGreen\<close>, \<open>BlueGreen_Machine\<close>, \<open>BlueGreen_Transaction\<close>: \<open>flow_deployment_bluegreen.go\<close>, the
    phases of a BlueGreen rollout as a state machine over stored statuses, its invariant, the safety of
    switching connections, and rollback as a round trip that ends.
  \<^item> \<open>Flow_Validate\<close>: \<open>flow_deployment_validate.go\<close>, dry runs: isolated from the live group, and finished
    after three reconciles.
  \<^item> \<open>Flow_Snapshot\<close>: \<open>flow_snapshot_controller.go\<close>, the loop that deploys a snapshot: convergence, drift
    policy, automatic rollback, cancellation.
  \<^item> \<open>Object_Access\<close>: finalizers and referenced clusters (\<open>support.go\<close>), polymorphic in the controller.
  \<^item> \<open>Flow_Controller\<close>: \<open>NiFiFlowDeploymentReconciler\<close> of \<open>phase1_controllers.go\<close>: deletion, dependencies,
    source resolution, dispatch, plain process groups.
  \<^item> \<open>Managed_Names\<close>: names of managed objects (\<open>managed_cluster.go\<close>, \<open>nifinodegroup_pod.go\<close>).
  \<^item> \<open>Scale_Down\<close>, \<open>Scale_Progress\<close>: \<open>managed_cluster_scaledown.go\<close> and \<open>nifinodegroup_scaledown.go\<close>: one
    offload step and both pools that use it. Locale \<open>offload_pool\<close> states what a pool promises and proves
    once, for any sequence of reconciles, that replicas are given up one at a time over released nodes; the
    primary pool and the node group pool are its interpretations.
  \<^item> \<open>Node_Group\<close>: \<open>nifinodegroup_controller.go\<close>: reconcile, deletion and status of a node group.

  \<^item> \<open>Component_Diff\<close>: the specs of the NiFi components, the entities of the NiFi API and the comparisons
    \<open>*NeedsUpdate\<close> of \<open>phase1_controllers.go\<close>.
  \<^item> \<open>Component_Frame\<close>: the reconcile that \<open>phase1_controllers.go\<close> writes once per kind (look up, create, update in
    place, update while stopped, report, delete), over a record \<open>kind\<close> of what differs between kinds.
    \<open>Canvas_Objects\<close> (funnels, labels, process groups, connections), \<open>Canvas_Run\<close> (ports and processors),
    \<open>Service_Objects\<close> (controller services, reporting tasks, parameter providers, registry clients),
    \<open>Tenants\<close> (users, groups and access policies: \<open>tenants.go\<close>, \<open>nifipolicy_controller.go\<close>),
    \<open>Parameter_Context\<close> (with its asynchronous update requests) and \<open>Remote_Group\<close>
    (\<open>nifiremoteprocessgroup_controller.go\<close>) define the kinds and the code that is their own.
  \<^item> \<open>Component_Laws\<close>: laws on call logs (\<open>keeps\<close>, \<open>lawful\<close>) with a locale for each thing a law may leave free; each
    step of the frame keeps them, so that a law is proved once for all kinds. \<open>Component_Deletion\<close>, \<open>Canvas_Laws\<close>, \<open>Canvas_Facts\<close>,
    \<open>Processor_Facts\<close>, \<open>Tenant_Facts\<close>, \<open>Context_Facts\<close> and \<open>Remote_Facts\<close> hold the properties: what stops before
    it is changed, revisions, deletion, convergence in one pass, grants, update requests, drift policies.
    \<open>Component_Sample\<close> is a concrete cluster and environment for the witnesses.
  \<^item> \<open>Watches\<close>, \<open>Watch_Facts\<close>: the index functions, request mappings and \<open>SetupWithManager\<close> of these controllers;
    locale \<open>watching\<close> states that what a reconcile reads is covered by a watch.
  \<^item> \<open>Backup_Restore\<close>, \<open>Backup_Facts\<close>: \<open>nifibackup_controller.go\<close> and \<open>nifirestore_controller.go\<close>; locale
    \<open>law_on_flows\<close> for laws on the flows sent to NiFi; a restore sends exactly what the backup downloaded.
  \<^item> \<open>Autoscaler\<close>, \<open>Autoscaler_Facts\<close>: \<open>nifiautoscaler_controller.go\<close> and the objects of \<open>pkg/keda\<close> it builds; locale
    \<open>law_on_objects\<close> for laws on the objects written and deleted: one scaling backend at a time, and every
    trigger of a scaled object refers to credentials that were written before it.

  \<^bold>\<open>Bounds.\<close> Handlers are total. Two recursions are not structural: \<open>handleFlowReplaceFailure\<close>, which may call itself through
  a rollback, has a termination proof; the loop of a restore that waits for NiFi has fuel, and 302 polls are enough, since
  each takes a second of a five minute deadline (\<open>replacement_ends\<close>). Liveness theorems count reconciles: two for a
  first deployment, three for a dry run, one per switched connection and one more for a rollback, three per
  surplus node for a scale-down, one for a NiFi component.

  \<^bold>\<open>What the proofs found.\<close> A connection deleted but not yet recreated when a BlueGreen switch fails is never
  restored; a new target during a BlueGreen rollout forgets the candidate and the switched connections; a
  cancelled BlueGreen rollout never switches back; a node that cannot be disconnected is never timed out; a
  long node group name makes a name computation panic; a processor whose spec leaves its position open is stopped by
  each reconcile; the deletion of a registry client that is gone never ends; an adopted parameter context waits for ever
  for its first update request; a duplicate group member hides drift; a missing Secret is not watched; a failed update
  of a remote process group forgets that the spec has changed; a restore whose last report is lost imports again; two
  triggers of an autoscaler with the same name share the credentials of one of them.

  \<^bold>\<open>Not modelled.\<close> The provisioning of managed clusters (workload objects, certificates and configuration text
  rendered field by field), the outer loops of the cluster and flow bundle controllers, the watches on Secrets, the fetching and
  signature checking of artifacts, the HTTP transport of the NiFi client, the manager's entry point and generated code.
  Resource versions and concurrent writers are visible only as the answers of the API server (a conflict is an
  error of a status update).
\<close>

end
